(* ===== verification/Prelude.thy ===== *)
theory Prelude
  imports Main "HOL-Library.AList"
begin

text \<open>
  Shared vocabulary of the development: how JavaScript values and effects are represented, and the
  generic lemmas every component uses.

  \<^item> A thrown error is \<open>Inl e\<close>, a returned value \<open>Inr x\<close>; \<open>ebind\<close> is \<open>await f(); ...\<close> and
    \<open>echeck b e\<close> is \<open>if (!b) throw e\<close>.
  \<^item> A JavaScript \<open>Map\<close> is an association list in insertion order: \<open>mget\<close>, \<open>mput\<close> (replaces in
    place or appends) and \<open>mdel\<close> are \<open>get\<close>, \<open>set\<close> and \<open>delete\<close>; \<open>mtotal\<close> sums over the values.
  \<^item> A string is the list of its code units. Only code units below 256 are represented.
  \<^item> A \<open>bigint\<close> and a safe integer \<open>number\<close> are an \<open>int\<close>.
\<close>

section \<open>Errors as values\<close>

definition ebind :: "'e + 'a \<Rightarrow> ('a \<Rightarrow> 'e + 'b) \<Rightarrow> 'e + 'b" where
  "ebind m f = (case m of Inl e \<Rightarrow> Inl e | Inr x \<Rightarrow> f x)"

definition echeck :: "bool \<Rightarrow> 'e \<Rightarrow> 'e + unit" where
  "echeck b e = (if b then Inr () else Inl e)"

named_theorems errors "Splitting a chain of checks that is known to succeed"

lemma ebind_simps [simp]:
  "ebind (Inl e) f = Inl e"
  "ebind (Inr x) f = f x"
  by (simp_all add: ebind_def)

lemma ebind_Inr [errors]: "ebind m f = Inr y \<longleftrightarrow> (\<exists>x. m = Inr x \<and> f x = Inr y)"
  by (cases m) simp_all

lemma ebind_Inl: "ebind m f = Inl e \<longleftrightarrow> m = Inl e \<or> (\<exists>x. m = Inr x \<and> f x = Inl e)"
  by (cases m) simp_all

lemma echeck_Inr [errors]: "echeck b e = Inr u \<longleftrightarrow> b"
  by (simp add: echeck_def)

lemma echeck_Inl: "echeck b e = Inl e' \<longleftrightarrow> \<not> b \<and> e = e'"
  by (simp add: echeck_def)

lemma echeck_simps [simp]: "echeck True e = Inr ()" "echeck False e = Inl e"
  by (simp_all add: echeck_def)

text \<open>\<open>items.map(f)\<close> where \<open>f\<close> may throw: the first error in list order wins.\<close>

fun esequence :: "('e + 'a) list \<Rightarrow> 'e + 'a list" where
  "esequence [] = Inr []"
| "esequence (m # ms) = ebind m (\<lambda>x. ebind (esequence ms) (\<lambda>xs. Inr (x # xs)))"

lemma esequence_map_Inr [simp]: "esequence (map Inr xs) = Inr xs"
  by (induction xs) simp_all

lemma esequence_Inr_iff: "esequence ms = Inr xs \<longleftrightarrow> ms = map Inr xs"
proof (induction ms arbitrary: xs)
  case Nil
  then show ?case by auto
next
  case (Cons m ms)
  then show ?case by (cases m; cases xs) (auto simp: ebind_Inr)
qed

section \<open>JavaScript maps\<close>

definition mget :: "('k \<times> 'v) list \<Rightarrow> 'k \<Rightarrow> 'v option" where
  "mget m k = map_of m k"

definition mput :: "'k \<Rightarrow> 'v \<Rightarrow> ('k \<times> 'v) list \<Rightarrow> ('k \<times> 'v) list" where
  "mput k v m = AList.update k v m"

definition mdel :: "'k \<Rightarrow> ('k \<times> 'v) list \<Rightarrow> ('k \<times> 'v) list" where
  "mdel k m = AList.delete k m"

definition mkeys :: "('k \<times> 'v) list \<Rightarrow> 'k list" where
  "mkeys m = map fst m"

definition mok :: "('k \<times> 'v) list \<Rightarrow> bool" where
  "mok m = distinct (map fst m)"

definition mtotal :: "('v \<Rightarrow> int) \<Rightarrow> ('k \<times> 'v) list \<Rightarrow> int" where
  "mtotal f m = sum_list (map (\<lambda>kv. f (snd kv)) m)"

lemma mget_Nil [simp]: "mget [] k = None"
  by (simp add: mget_def)

lemma mget_Cons [simp]: "mget ((a, v) # m) k = (if a = k then Some v else mget m k)"
  by (auto simp: mget_def)

lemma mget_mput [simp]: "mget (mput k v m) k' = (if k' = k then Some v else mget m k')"
  by (simp add: mget_def mput_def update_conv')

lemma mget_mdel [simp]: "mget (mdel k m) k' = (if k' = k then None else mget m k')"
  by (simp add: mget_def mdel_def delete_conv')

lemma mput_Nil [simp]: "mput k v [] = [(k, v)]"
  by (simp add: mput_def)

lemma mput_Cons [simp]:
  "mput k v ((a, w) # m) = (if a = k then (a, v) # m else (a, w) # mput k v m)"
  by (simp add: mput_def)

lemma mok_Nil [simp, intro]: "mok []"
  by (simp add: mok_def)

lemma mok_mput [simp, intro]: "mok m \<Longrightarrow> mok (mput k v m)"
  by (simp add: mok_def mput_def distinct_update)

lemma mok_mdel [simp, intro]: "mok m \<Longrightarrow> mok (mdel k m)"
  by (simp add: mok_def mdel_def distinct_delete)

lemma mget_mem: "mget m k = Some v \<Longrightarrow> (k, v) \<in> set m"
  by (simp add: mget_def map_of_SomeD)

lemma mem_mget: "mok m \<Longrightarrow> (k, v) \<in> set m \<Longrightarrow> mget m k = Some v"
  by (simp add: mget_def mok_def)

lemma mok_Cons: "mok ((k, v) # m) \<longleftrightarrow> mget m k = None \<and> mok m"
  by (auto simp: mok_def mget_def map_of_eq_None_iff)

lemma mtotal_Nil [simp]: "mtotal f [] = 0"
  by (simp add: mtotal_def)

lemma mtotal_Cons [simp]: "mtotal f ((k, v) # m) = f v + mtotal f m"
  by (simp add: mtotal_def)

lemma mtotal_mput:
  "mok m \<Longrightarrow> mtotal f (mput k v m)
     = mtotal f m + f v - (case mget m k of None \<Rightarrow> 0 | Some w \<Rightarrow> f w)"
proof (induction m)
  case Nil
  then show ?case by simp
next
  case (Cons a m)
  then show ?case by (cases a) (auto simp: mok_Cons split: option.splits)
qed

lemma mtotal_nonneg: "(\<And>k v. (k, v) \<in> set m \<Longrightarrow> 0 \<le> f v) \<Longrightarrow> 0 \<le> mtotal f m"
  by (induction m) force+

lemma mtotal_mono: "(\<And>k v. (k, v) \<in> set m \<Longrightarrow> f v \<le> g v) \<Longrightarrow> mtotal f m \<le> mtotal g m"
  by (induction m) (force intro: add_mono)+

lemma mtotal_add: "mtotal (\<lambda>v. f v + g v) m = mtotal f m + mtotal g m"
  by (induction m) auto

lemma mtotal_diff: "mtotal (\<lambda>v. f v - g v) m = mtotal f m - mtotal g m"
  by (induction m) auto

lemma mtotal_cong: "(\<And>k v. (k, v) \<in> set m \<Longrightarrow> f v = g v) \<Longrightarrow> mtotal f m = mtotal g m"
  by (induction m) force+

lemma mtotal_zero: "(\<And>k v. (k, v) \<in> set m \<Longrightarrow> f v = 0) \<Longrightarrow> mtotal f m = 0"
  by (induction m) force+

lemma mtotal_ge_member:
  "mok m \<Longrightarrow> (\<And>k v. (k, v) \<in> set m \<Longrightarrow> 0 \<le> f v) \<Longrightarrow> mget m k = Some v \<Longrightarrow> f v \<le> mtotal f m"
proof (induction m)
  case Nil
  then show ?case by simp
next
  case (Cons a m)
  obtain k' v' where a: "a = (k', v')" by (cases a)
  have "0 \<le> mtotal f m" by (rule mtotal_nonneg) (use Cons.prems(2) in auto)
  moreover have "0 \<le> f v'" using Cons.prems(2) a by auto
  ultimately show ?case using Cons a by (fastforce simp: mok_Cons split: if_splits)
qed

section \<open>Keyed stores\<close>

text \<open>
  The contract a component relies on when it keeps records under keys and adds up an integer
  measure of them: what a lookup gives after a write, and how a sum over the records moves. The
  client lemmas are proved once from the contract.
\<close>

locale keyed_store =
  fixes get :: "'m \<Rightarrow> 'k \<Rightarrow> 'v option"
    and put :: "'k \<Rightarrow> 'v \<Rightarrow> 'm \<Rightarrow> 'm"
    and valid :: "'m \<Rightarrow> bool"
  assumes get_put: "get (put k v m) k' = (if k' = k then Some v else get m k')"
    and valid_put: "valid m \<Longrightarrow> valid (put k v m)"
begin

definition all_records :: "('v \<Rightarrow> bool) \<Rightarrow> 'm \<Rightarrow> bool" where
  "all_records P m \<longleftrightarrow> (\<forall>k v. get m k = Some v \<longrightarrow> P v)"

lemma all_records_put: "all_records P m \<Longrightarrow> P v \<Longrightarrow> all_records P (put k v m)"
  by (auto simp: all_records_def get_put)

lemma put_other: "k' \<noteq> k \<Longrightarrow> get (put k v m) k' = get m k'"
  by (simp add: get_put)

end

locale summed_store = keyed_store get put valid
  for get :: "'m \<Rightarrow> 'k \<Rightarrow> 'v option"
    and put :: "'k \<Rightarrow> 'v \<Rightarrow> 'm \<Rightarrow> 'm"
    and valid :: "'m \<Rightarrow> bool" +
  fixes total :: "('v \<Rightarrow> int) \<Rightarrow> 'm \<Rightarrow> int"
  assumes total_put: "valid m \<Longrightarrow>
      total f (put k v m) = total f m + f v - (case get m k of None \<Rightarrow> 0 | Some w \<Rightarrow> f w)"
begin

lemma total_insert: "valid m \<Longrightarrow> get m k = None \<Longrightarrow> total f (put k v m) = total f m + f v"
  by (simp add: total_put)

lemma total_update: "valid m \<Longrightarrow> get m k = Some w \<Longrightarrow> total f (put k v m) = total f m + f v - f w"
  by (simp add: total_put)

lemma total_same_measure: "valid m \<Longrightarrow> get m k = Some w \<Longrightarrow> f v = f w \<Longrightarrow> total f (put k v m) = total f m"
  by (simp add: total_put)

end

interpretation js_map: summed_store mget mput mok mtotal
  by unfold_locales (simp_all add: mtotal_mput)

section \<open>Strings and decimal numbers\<close>

definition code_of :: "char \<Rightarrow> nat" where
  "code_of c = of_char c"

definition is_digit :: "char \<Rightarrow> bool" where
  "is_digit c \<longleftrightarrow> 48 \<le> code_of c \<and> code_of c \<le> 57"

definition is_upper :: "char \<Rightarrow> bool" where
  "is_upper c \<longleftrightarrow> 65 \<le> code_of c \<and> code_of c \<le> 90"

definition is_lower :: "char \<Rightarrow> bool" where
  "is_lower c \<longleftrightarrow> 97 \<le> code_of c \<and> code_of c \<le> 122"

definition is_alnum :: "char \<Rightarrow> bool" where
  "is_alnum c \<longleftrightarrow> is_digit c \<or> is_upper c \<or> is_lower c"

text \<open>The same tests on the bits of a character, for evaluation.\<close>

lemma is_digit_code [code]:
  "is_digit (Char b0 b1 b2 b3 b4 b5 b6 b7) = (\<not> b7 \<and> \<not> b6 \<and> b5 \<and> b4 \<and> (\<not> b3 \<or> \<not> b2 \<and> \<not> b1))"
  by (cases b0; cases b1; cases b2; cases b3; cases b4; cases b5; cases b6; cases b7)
     (simp_all add: is_digit_def code_of_def)

lemma is_upper_code [code]:
  "is_upper (Char b0 b1 b2 b3 b4 b5 b6 b7) = (\<not> b7 \<and> b6 \<and> \<not> b5 \<and> (b0 \<or> b1 \<or> b2 \<or> b3 \<or> b4)
     \<and> \<not> (b4 \<and> b3 \<and> (b2 \<or> b1 \<and> b0)))"
  by (cases b0; cases b1; cases b2; cases b3; cases b4; cases b5; cases b6; cases b7)
     (simp_all add: is_upper_def code_of_def)

lemma is_lower_code [code]:
  "is_lower (Char b0 b1 b2 b3 b4 b5 b6 b7) = (\<not> b7 \<and> b6 \<and> b5 \<and> (b0 \<or> b1 \<or> b2 \<or> b3 \<or> b4)
     \<and> \<not> (b4 \<and> b3 \<and> (b2 \<or> b1 \<and> b0)))"
  by (cases b0; cases b1; cases b2; cases b3; cases b4; cases b5; cases b6; cases b7)
     (simp_all add: is_lower_def code_of_def)

definition digit_char :: "nat \<Rightarrow> char" where
  "digit_char d = char_of (48 + d)"

definition digit_value :: "char \<Rightarrow> nat" where
  "digit_value c = code_of c - 48"

fun show_nat :: "nat \<Rightarrow> string" where
  "show_nat n = (if n < 10 then [digit_char n] else show_nat (n div 10) @ [digit_char (n mod 10)])"

declare show_nat.simps [simp del]

definition read_nat :: "string \<Rightarrow> nat" where
  "read_nat s = foldl (\<lambda>a c. 10 * a + digit_value c) 0 s"

definition show_int :: "int \<Rightarrow> string" where
  "show_int i = (if i < 0 then CHR ''-'' # show_nat (nat (- i)) else show_nat (nat i))"

text \<open>\<open>t.padStart(n, '0')\<close>\<close>

definition padStart :: "nat \<Rightarrow> string \<Rightarrow> string" where
  "padStart n t = replicate (n - length t) (CHR ''0'') @ t"

lemma code_of_digit_char: "d < 10 \<Longrightarrow> code_of (digit_char d) = 48 + d"
  by (simp add: code_of_def digit_char_def)

lemma digit_char_props [simp]:
  "d < 10 \<Longrightarrow> is_digit (digit_char d)"
  "d < 10 \<Longrightarrow> digit_value (digit_char d) = d"
  by (simp_all add: is_digit_def digit_value_def code_of_digit_char)

lemma digit_char_value: "is_digit c \<Longrightarrow> digit_char (digit_value c) = c"
  by (simp add: is_digit_def digit_value_def digit_char_def code_of_def)

lemma show_nat_digits: "list_all is_digit (show_nat n)"
proof (induction n rule: show_nat.induct)
  case (1 n)
  then show ?case by (subst show_nat.simps) simp
qed

lemma show_nat_nonempty [simp]: "show_nat n \<noteq> []"
  by (subst show_nat.simps) simp

lemma read_nat_snoc: "read_nat (s @ [c]) = 10 * read_nat s + digit_value c"
  by (simp add: read_nat_def)

lemma read_nat_append: "read_nat (s @ t) = read_nat s * 10 ^ length t + read_nat t"
proof (induction t rule: rev_induct)
  case (snoc c t)
  have "read_nat ((s @ t) @ [c]) = 10 * (read_nat s * 10 ^ length t + read_nat t) + digit_value c"
    using snoc by (simp only: read_nat_snoc)
  then show ?case by (simp add: read_nat_snoc algebra_simps)
qed (simp add: read_nat_def)

lemma read_nat_zeros: "read_nat (replicate n CHR ''0'') = 0"
proof (induction n)
  case (Suc n)
  then show ?case
    by (simp add: read_nat_def digit_value_def code_of_def)
qed (simp add: read_nat_def)

lemma read_nat_zeros_append: "read_nat (replicate n CHR ''0'' @ s) = read_nat s"
  by (simp add: read_nat_append read_nat_zeros)

lemma read_show_nat [simp]: "read_nat (show_nat n) = n"
proof (induction n rule: show_nat.induct)
  case (1 n)
  show ?case
  proof (cases "n < 10")
    case True
    then show ?thesis by (subst show_nat.simps) (simp add: read_nat_def)
  next
    case False
    with 1 have "read_nat (show_nat (n div 10) @ [digit_char (n mod 10)]) = n"
      by (simp add: read_nat_snoc)
    with False show ?thesis by (subst show_nat.simps) simp
  qed
qed

lemma show_nat_inj: "show_nat m = show_nat n \<longleftrightarrow> m = n"
  by (metis read_show_nat)

lemma show_int_inj: "show_int i = show_int j \<longleftrightarrow> i = j"
proof
  have hd_digit: "hd (show_nat n) \<noteq> CHR ''-''" for n
  proof -
    have "is_digit (hd (show_nat n))"
      using show_nat_digits [of n] by (cases "show_nat n") auto
    then show ?thesis by (auto simp: is_digit_def code_of_def)
  qed
  assume "show_int i = show_int j"
  then show "i = j"
    using hd_digit [of "nat i"] hd_digit [of "nat j"]
    by (auto simp: show_int_def show_nat_inj split: if_splits) (metis list.sel(1))+
qed simp

text \<open>The leading digit of a decimal numeral is 0 only for 0 itself.\<close>

lemma show_nat_leading: "hd (show_nat n) = CHR ''0'' \<Longrightarrow> n = 0"
proof (induction n rule: show_nat.induct)
  case (1 n)
  show ?case
  proof (cases "n < 10")
    case True
    then have "show_nat n = [digit_char n]" by (subst show_nat.simps) simp
    with 1 have "digit_char n = CHR ''0''" by simp
    then have "code_of (digit_char n) = 48" by (simp add: code_of_def)
    with True show ?thesis by (simp add: code_of_digit_char)
  next
    case False
    then have "show_nat n = show_nat (n div 10) @ [digit_char (n mod 10)]"
      by (subst show_nat.simps) simp
    with 1 False have "n div 10 = 0" by simp
    with False show ?thesis by simp
  qed
qed

text \<open>JavaScript white space among the code units represented, and \<open>trim\<close>.\<close>

definition js_space :: "char \<Rightarrow> bool" where
  "js_space c \<longleftrightarrow> code_of c = 9 \<or> code_of c = 10 \<or> code_of c = 11 \<or> code_of c = 12 \<or> code_of c = 13
     \<or> code_of c = 32 \<or> code_of c = 160"

definition js_trim :: "string \<Rightarrow> string" where
  "js_trim s = rev (dropWhile js_space (rev (dropWhile js_space s)))"

definition js_lower_char :: "char \<Rightarrow> char" where
  "js_lower_char c = (if is_upper c \<or> (192 \<le> code_of c \<and> code_of c \<le> 222 \<and> code_of c \<noteq> 215)
     then char_of (code_of c + 32) else c)"

definition js_lower :: "string \<Rightarrow> string" where
  "js_lower s = map js_lower_char s"

fun js_split :: "char \<Rightarrow> string \<Rightarrow> string list" where
  "js_split sep [] = [[]]"
| "js_split sep (c # cs) = (if c = sep then [] # js_split sep cs
     else (case js_split sep cs of [] \<Rightarrow> [[c]] | p # ps \<Rightarrow> (c # p) # ps))"

fun js_join :: "string \<Rightarrow> string list \<Rightarrow> string" where
  "js_join sep [] = []"
| "js_join sep [s] = s"
| "js_join sep (s # ss) = s @ sep @ js_join sep ss"

lemma js_split_no_sep: "sep \<notin> set s \<Longrightarrow> js_split sep s = [s]"
  by (induction s) auto

lemma js_split_append: "sep \<notin> set s \<Longrightarrow> js_split sep (s @ sep # r) = s # js_split sep r"
  by (induction s) auto

lemma js_trim_no_space: "list_all (\<lambda>c. \<not> js_space c) s \<Longrightarrow> js_trim s = s"
proof -
  have *: "dropWhile js_space t = t" if "list_all (\<lambda>c. \<not> js_space c) t" for t
    using that by (cases t) auto
  assume "list_all (\<lambda>c. \<not> js_space c) s"
  then show ?thesis by (simp add: js_trim_def * list_all_rev)
qed

lemma digit_not_space: "is_digit c \<Longrightarrow> \<not> js_space c"
  by (auto simp: is_digit_def js_space_def)

lemma js_trim_idem [simp]: "js_trim (js_trim s) = js_trim s"
proof -
  have *: "dropWhile js_space (rev (dropWhile js_space (rev t))) = rev (dropWhile js_space (rev t))"
    if "dropWhile js_space t = t" for t :: string
  proof (cases "rev (dropWhile js_space (rev t))")
    case (Cons c cs)
    obtain pre where "rev t = pre @ dropWhile js_space (rev t)"
      by (metis takeWhile_dropWhile_id)
    then have "t = rev (dropWhile js_space (rev t)) @ rev pre"
      by (metis rev_append rev_rev_ident)
    with Cons have "hd t = c" "t \<noteq> []" by auto
    with that have "\<not> js_space c"
      by (metis dropWhile_eq_self_iff)
    with Cons show ?thesis by simp
  next
    case Nil
    show ?thesis unfolding Nil by simp
  qed
  show ?thesis unfolding js_trim_def by (simp add: *)
qed

lemma code_of_less [simp]: "code_of c < 256"
  by (simp add: code_of_def)

end
