(* ===== verification/Actions.thy ===== *)
theory Actions
  imports Prelude
begin

text \<open>
  Methods of the in-memory classes: a method reads and changes the object's state and returns a value
  or throws, and what it changed before a throw stays changed. \<open>abind\<close> sequences, \<open>acheck b e\<close> is
  \<open>if (!b) throw e\<close>, \<open>alift\<close> runs a pure function that may throw. \<open>wp m Q E s\<close> says what holds after
  \<open>m\<close> starts in \<open>s\<close>: \<open>Q\<close> of the returned value and the new state, or \<open>E\<close> of the error and the new
  state; its equations are the collection \<open>wp\<close>.
\<close>

type_synonym ('s, 'e, 'a) action = "'s \<Rightarrow> ('e + 'a) \<times> 's"

definition areturn :: "'a \<Rightarrow> ('s, 'e, 'a) action" where
  "areturn x = (\<lambda>s. (Inr x, s))"

definition afail :: "'e \<Rightarrow> ('s, 'e, 'a) action" where
  "afail e = (\<lambda>s. (Inl e, s))"

definition alift :: "'e + 'a \<Rightarrow> ('s, 'e, 'a) action" where
  "alift r = (\<lambda>s. (r, s))"

definition abind :: "('s, 'e, 'a) action \<Rightarrow> ('a \<Rightarrow> ('s, 'e, 'b) action) \<Rightarrow> ('s, 'e, 'b) action" where
  "abind m f = (\<lambda>s. case m s of (Inl e, s') \<Rightarrow> (Inl e, s') | (Inr x, s') \<Rightarrow> f x s')"

definition acheck :: "bool \<Rightarrow> 'e \<Rightarrow> ('s, 'e, unit) action" where
  "acheck b e = (\<lambda>s. (if b then Inr () else Inl e, s))"

definition aget :: "('s \<Rightarrow> 'a) \<Rightarrow> ('s, 'e, 'a) action" where
  "aget f = (\<lambda>s. (Inr (f s), s))"

definition amodify :: "('s \<Rightarrow> 's) \<Rightarrow> ('s, 'e, unit) action" where
  "amodify f = (\<lambda>s. (Inr (), f s))"

text \<open>\<open>try { x = m } catch (e) { f(e) } g(x)\<close>, where \<open>f\<close> always leaves the method.\<close>

definition acatch :: "('s, 'e, 'a) action \<Rightarrow> ('e \<Rightarrow> ('s, 'e, 'b) action) \<Rightarrow> ('a \<Rightarrow> ('s, 'e, 'b) action) \<Rightarrow> ('s, 'e, 'b) action" where
  "acatch m f g = (\<lambda>s. case m s of (Inl e, s') \<Rightarrow> f e s' | (Inr x, s') \<Rightarrow> g x s')"

definition wp :: "('s, 'e, 'a) action \<Rightarrow> ('a \<Rightarrow> 's \<Rightarrow> bool) \<Rightarrow> ('e \<Rightarrow> 's \<Rightarrow> bool) \<Rightarrow> 's \<Rightarrow> bool" where
  "wp m Q E s = (case m s of (Inl e, s') \<Rightarrow> E e s' | (Inr x, s') \<Rightarrow> Q x s')"

named_theorems wp "Weakest preconditions of the action combinators and operations"

lemma wp_areturn [wp]: "wp (areturn x) Q E = Q x"
  by (rule ext) (simp add: wp_def areturn_def)

lemma wp_afail [wp]: "wp (afail e) Q E = E e"
  by (rule ext) (simp add: wp_def afail_def)

lemma wp_abind [wp]: "wp (abind m f) Q E = wp m (\<lambda>x. wp (f x) Q E) E"
  by (rule ext) (simp add: wp_def abind_def split: prod.splits sum.splits)

lemma wp_acheck [wp]: "wp (acheck b e) Q E = (\<lambda>s. if b then Q () s else E e s)"
  by (rule ext) (simp add: wp_def acheck_def)

lemma wp_aget [wp]: "wp (aget g) Q E = (\<lambda>s. Q (g s) s)"
  by (rule ext) (simp add: wp_def aget_def)

lemma wp_amodify [wp]: "wp (amodify u) Q E = (\<lambda>s. Q () (u s))"
  by (rule ext) (simp add: wp_def amodify_def)

lemma wp_alift [wp]: "wp (alift r) Q E = (\<lambda>s. case r of Inl e \<Rightarrow> E e s | Inr x \<Rightarrow> Q x s)"
  by (rule ext) (auto simp: wp_def alift_def split: sum.splits)

lemma wp_acatch [wp]: "wp (acatch m f g) Q E = wp m (\<lambda>x. wp (g x) Q E) (\<lambda>e. wp (f e) Q E)"
  by (rule ext) (simp add: wp_def acatch_def split: prod.splits sum.splits)

lemma wp_if [wp]: "wp (if b then m else m') Q E = (\<lambda>s. if b then wp m Q E s else wp m' Q E s)"
  by (rule ext) simp

lemma wp_mono: "wp m Q E s \<Longrightarrow> (\<And>x s'. Q x s' \<Longrightarrow> Q' x s') \<Longrightarrow> (\<And>e s'. E e s' \<Longrightarrow> E' e s') \<Longrightarrow> wp m Q' E' s"
  by (auto simp: wp_def split: prod.splits sum.splits)

lemma wp_conj: "wp m Q E s \<Longrightarrow> wp m Q' E' s \<Longrightarrow> wp m (\<lambda>x s'. Q x s' \<and> Q' x s') (\<lambda>e s'. E e s' \<and> E' e s') s"
  by (auto simp: wp_def split: prod.splits sum.splits)

lemma wp_elim: "wp m Q E s \<Longrightarrow> m s = (r, s') \<Longrightarrow> (case r of Inl e \<Rightarrow> E e s' | Inr x \<Rightarrow> Q x s')"
  by (auto simp: wp_def split: sum.splits)

lemma wp_state: "wp m (\<lambda>_. P) (\<lambda>_. P) s \<longleftrightarrow> P (snd (m s))"
  by (auto simp: wp_def split: prod.splits sum.splits)

text \<open>An action keeps a property of the state whatever it returns or throws.\<close>

definition keeps :: "('s \<Rightarrow> bool) \<Rightarrow> ('s, 'e, 'a) action \<Rightarrow> bool" where
  "keeps P m \<longleftrightarrow> (\<forall>s. P s \<longrightarrow> P (snd (m s)))"

lemma keepsI: "(\<And>s. P s \<Longrightarrow> wp m (\<lambda>_. P) (\<lambda>_. P) s) \<Longrightarrow> keeps P m"
  by (simp add: keeps_def wp_state)

lemma keepsD: "keeps P m \<Longrightarrow> P s \<Longrightarrow> wp m (\<lambda>_. P) (\<lambda>_. P) s"
  by (simp add: keeps_def wp_state)

lemma keeps_areturn [intro, simp]: "keeps P (areturn x)"
  by (simp add: keeps_def areturn_def)

lemma keeps_afail [intro, simp]: "keeps P (afail e)"
  by (simp add: keeps_def afail_def)

lemma keeps_alift [intro, simp]: "keeps P (alift r)"
  by (simp add: keeps_def alift_def)

lemma keeps_acheck [intro, simp]: "keeps P (acheck b e)"
  by (simp add: keeps_def acheck_def)

lemma keeps_aget [intro, simp]: "keeps P (aget g)"
  by (simp add: keeps_def aget_def)

lemma keeps_bind [intro]: "keeps P m \<Longrightarrow> (\<And>x. keeps P (f x)) \<Longrightarrow> keeps P (abind m f)"
  by (auto simp: keeps_def abind_def split: prod.splits sum.splits)

lemma keeps_if [intro]: "keeps P m \<Longrightarrow> keeps P m' \<Longrightarrow> keeps P (if b then m else m')"
  by simp

lemma keeps_modify: "(\<And>s. P s \<Longrightarrow> P (u s)) \<Longrightarrow> keeps P (amodify u)"
  by (simp add: keeps_def amodify_def)

end
