(* ===== verification/Commands.thy ===== *)
theory Commands
  imports Actions
begin

text \<open>
  The command contract of \<open>src/lib/commands.ts\<close> and the operator policy of
  \<open>src/modules/admin/policy.ts\<close>: reading a form's fields, the error taxonomy, roles, reasons, feature
  flags and the audit log. A form maps field names to the text sent. Instants are milliseconds;
  \<open>Date\<close> parsing and \<open>URL\<close> are arguments. Error texts are dropped; an exception that is not a
  \<open>CommandError\<close> (a database constraint, an internal \<open>Error\<close>) is \<open>Crashed\<close>.
\<close>

datatype command_error_code =
    INVALID_INPUT | DOMAIN_RULE | FORBIDDEN | NOT_FOUND | ACCOUNT_SUSPENDED | VERSION_CONFLICT
  | IDEMPOTENCY_CONFLICT | NOT_ACCEPTING_ORDERS | SLOT_EXPIRED | SOLD_OUT | BRIEF_INCOMPLETE
  | ORDER_STATE_CONFLICT | REVISION_LIMIT_REACHED | QUOTE_EXPIRED | QUOTE_CHANGED | REQUEST_CLOSED
  | BUDGET_EXCEEDED | AUCTION_NOT_LIVE | AUCTION_ENDED | BID_TOO_LOW | BUY_NOW_UNAVAILABLE
  | PAYMENT_UNAVAILABLE | FEATURE_DISABLED | RATE_LIMITED | TEMPORARILY_UNAVAILABLE | UNSUPPORTED_ASSET

datatype failure = Refused command_error_code | Crashed

type_synonym form = "string \<Rightarrow> string option"

definition statusForCode :: "command_error_code \<Rightarrow> nat" where
  "statusForCode code =
     (if code \<in> {FORBIDDEN, ACCOUNT_SUSPENDED} then 403
      else if code = NOT_FOUND then 404
      else if code \<in> {VERSION_CONFLICT, IDEMPOTENCY_CONFLICT, NOT_ACCEPTING_ORDERS, SOLD_OUT, ORDER_STATE_CONFLICT,
                      QUOTE_CHANGED, BUY_NOW_UNAVAILABLE} then 409
      else if code = RATE_LIMITED then 429
      else if code \<in> {PAYMENT_UNAVAILABLE, TEMPORARILY_UNAVAILABLE} then 503
      else if code = INVALID_INPUT then 400
      else 422)"

section \<open>Fields\<close>

definition field_value :: "form \<Rightarrow> string \<Rightarrow> string" where
  "field_value form name = js_trim (case form name of Some v \<Rightarrow> v | None \<Rightarrow> [])"

definition CONTROL :: "char \<Rightarrow> bool" where
  "CONTROL c \<longleftrightarrow> code_of c < 32 \<and> code_of c \<notin> {10, 13, 9}"

text \<open>\<open>text(form, name, required, maxLength)\<close>\<close>

definition text_field :: "form \<Rightarrow> string \<Rightarrow> bool \<Rightarrow> nat \<Rightarrow> failure + string" where
  "text_field form name required maxLength =
     (let v = field_value form name in
      ebind (echeck (\<not> (required \<and> v = [])) (Refused INVALID_INPUT)) (\<lambda>_.
      ebind (echeck (length v \<le> maxLength) (Refused INVALID_INPUT)) (\<lambda>_.
      ebind (echeck (\<not> list_ex CONTROL v) (Refused INVALID_INPUT)) (\<lambda>_.
      Inr v))))"

definition DEFAULT_MAX_LENGTH :: nat where
  "DEFAULT_MAX_LENGTH = 12000"

definition digits :: "string \<Rightarrow> bool" where
  "digits s \<longleftrightarrow> s \<noteq> [] \<and> list_all is_digit s"

text \<open>\<open>Number\<close> of a decimal above \<open>2^53 - 1\<close> is at least \<open>2^53\<close>, which is not a safe integer.\<close>

definition integer :: "string \<Rightarrow> nat \<Rightarrow> nat \<Rightarrow> failure + nat" where
  "integer v mn mx =
     ebind (echeck (digits v) (Refused INVALID_INPUT)) (\<lambda>_.
     let parsed = read_nat v in
     ebind (echeck (parsed \<le> 2 ^ 53 - 1 \<and> \<not> parsed < mn \<and> \<not> parsed > mx) (Refused INVALID_INPUT)) (\<lambda>_.
     Inr parsed))"

text \<open>\<open>/^\d+(?:\.\d{1,2})?$/\<close>\<close>

definition money_pattern :: "string \<Rightarrow> bool" where
  "money_pattern v \<longleftrightarrow> (case js_split (CHR ''.'') v of
       [whole] \<Rightarrow> digits whole
     | [whole, fraction] \<Rightarrow> digits whole \<and> digits fraction \<and> length fraction \<le> 2
     | _ \<Rightarrow> False)"

definition read_digits :: "string \<Rightarrow> int" where
  "read_digits s = foldl (\<lambda>n c. 10 * n + int (digit_value c)) 0 s"

definition money :: "string \<Rightarrow> failure + int" where
  "money v =
     ebind (echeck (money_pattern v) (Refused INVALID_INPUT)) (\<lambda>_.
     let parts = js_split (CHR ''.'') v;
         whole = hd parts;
         fraction = (if length parts > 1 then parts ! 1 else []);
         minor = read_digits whole * 100 + read_digits (take 2 (fraction @ ''00'')) in
     ebind (echeck (\<not> (minor \<le> 0 \<or> minor > 100000000000)) (Refused INVALID_INPUT)) (\<lambda>_.
     Inr minor))"

definition MAX_ZONE_OFFSET_MINUTES :: int where
  "MAX_ZONE_OFFSET_MINUTES = 18 * 60"

text \<open>\<open>/^-?\d{1,4}$/\<close>; the offset is minutes east of UTC, none when the field is empty.\<close>

definition zoneOffset :: "form \<Rightarrow> string \<Rightarrow> failure + int option" where
  "zoneOffset form name =
     (let raw = field_value form name;
          negative = (raw \<noteq> [] \<and> hd raw = CHR ''-'');
          ds = (if negative then tl raw else raw);
          minutes = (if negative then - read_digits ds else read_digits ds) in
      if raw = [] then Inr None
      else ebind (echeck (digits ds \<and> length ds \<le> 4) (Refused INVALID_INPUT)) (\<lambda>_.
           ebind (echeck (\<not> \<bar>minutes\<bar> > MAX_ZONE_OFFSET_MINUTES) (Refused INVALID_INPUT)) (\<lambda>_.
           Inr (Some minutes))))"

text \<open>\<open>dateOf s\<close> is the time of \<open>new Date(s)\<close>, none when it is not a date.\<close>

definition instant :: "(string \<Rightarrow> int option) \<Rightarrow> string \<Rightarrow> int option \<Rightarrow> failure + int" where
  "instant dateOf v offsetMinutes =
     (case dateOf (v @ ''Z'') of
        None \<Rightarrow> Inl (Refused INVALID_INPUT)
      | Some t \<Rightarrow> ebind (echeck (v \<noteq> []) (Refused INVALID_INPUT)) (\<lambda>_.
          Inr (case offsetMinutes of None \<Rightarrow> t | Some m \<Rightarrow> t - m * 60000)))"

definition instantField :: "(string \<Rightarrow> int option) \<Rightarrow> form \<Rightarrow> string \<Rightarrow> failure + int" where
  "instantField dateOf form name =
     ebind (text_field form name True DEFAULT_MAX_LENGTH) (\<lambda>v.
     ebind (zoneOffset form (name @ ''_offset'')) (\<lambda>m.
     instant dateOf v m))"

text \<open>\<open>urlOf s\<close> is the protocol and the text of \<open>new URL(s)\<close>, none when it throws.\<close>

definition httpUrl :: "(string \<Rightarrow> (string \<times> string) option) \<Rightarrow> string \<Rightarrow> failure + string" where
  "httpUrl urlOf v =
     (case urlOf v of
        None \<Rightarrow> Inl (Refused INVALID_INPUT)
      | Some (protocol, href) \<Rightarrow>
          ebind (echeck (\<not> (protocol \<noteq> ''http:'' \<and> protocol \<noteq> ''https:'')) (Refused INVALID_INPUT)) (\<lambda>_. Inr href))"

text \<open>\<open>/^[0-9a-f]{8}-[0-9a-f]{4}-[0-9a-f]{4}-[0-9a-f]{4}-[0-9a-f]{12}$/i\<close>\<close>

definition hex_char :: "char \<Rightarrow> bool" where
  "hex_char c \<longleftrightarrow> is_digit c \<or> (97 \<le> code_of c \<and> code_of c \<le> 102) \<or> (65 \<le> code_of c \<and> code_of c \<le> 70)"

definition UUID_PATTERN :: "string \<Rightarrow> bool" where
  "UUID_PATTERN v \<longleftrightarrow> (case js_split (CHR ''-'') v of
       [a, b, c, d, e] \<Rightarrow> map length [a, b, c, d, e] = [8, 4, 4, 4, 12] \<and> list_all (list_all hex_char) [a, b, c, d, e]
     | _ \<Rightarrow> False)"

definition uuid :: "form \<Rightarrow> string \<Rightarrow> failure + string" where
  "uuid form name =
     ebind (text_field form name True DEFAULT_MAX_LENGTH) (\<lambda>v.
     ebind (echeck (UUID_PATTERN v) (Refused NOT_FOUND)) (\<lambda>_.
     Inr (js_lower v)))"

definition expectedVersion :: "form \<Rightarrow> string \<Rightarrow> failure + nat option" where
  "expectedVersion form name =
     (let v = field_value form name in
      if v = [] then Inr None else ebind (integer v 1 2147483647) (\<lambda>n. Inr (Some n)))"

section \<open>Operators\<close>

record actor =
  ac_id :: string
  ac_roles :: "string list"
  ac_active :: bool

definition isBuyer :: "actor \<Rightarrow> bool" where
  "isBuyer a \<longleftrightarrow> ''buyer'' \<in> set (ac_roles a)"

definition hasAnyRole :: "actor \<Rightarrow> string list \<Rightarrow> bool" where
  "hasAnyRole a roles \<longleftrightarrow> list_ex (\<lambda>r. r \<in> set (ac_roles a)) roles"

definition requireRole :: "actor \<Rightarrow> string list \<Rightarrow> failure + unit" where
  "requireRole a roles =
     ebind (echeck (ac_active a) (Refused ACCOUNT_SUSPENDED)) (\<lambda>_.
     echeck (hasAnyRole a roles) (Refused FORBIDDEN))"

definition reasonOf :: "form \<Rightarrow> failure + string" where
  "reasonOf form =
     ebind (text_field form ''reason'' True 2000) (\<lambda>reason.
     ebind (echeck (\<not> length reason < 10) (Refused INVALID_INPUT)) (\<lambda>_. Inr reason))"

record audit_entry =
  au_actorId :: string
  au_actorRoles :: "string list"
  au_action :: string
  au_entityType :: string
  au_entityId :: string
  au_reason :: string
  au_before :: string
  au_after :: string

definition MONEY_FLAGS :: "string list" where
  "MONEY_FLAGS = [''CHECKOUT_CREATION_ENABLED'', ''BIDDING_ENABLED'', ''PAYOUT_CREATION_ENABLED'', ''BANK_FUNDING_ENABLED'',
     ''CRYPTO_CHECKOUT_ENABLED'', ''LIVE_PAYMENTS_ENABLED'']"

text \<open>The table \<open>app.feature_flags\<close> and whether \<open>PAYMENT_MODE\<close> leaves payments open.\<close>

definition isFlagEnabled :: "bool \<Rightarrow> (string \<times> bool) list \<Rightarrow> string \<Rightarrow> bool" where
  "isFlagEnabled paymentsOpen flags key \<longleftrightarrow>
     (if \<not> paymentsOpen \<and> key \<in> set MONEY_FLAGS then False else mget flags key = Some True)"

definition assertFlags :: "bool \<Rightarrow> (string \<times> bool) list \<Rightarrow> string list \<Rightarrow> failure + unit" where
  "assertFlags paymentsOpen flags keys =
     ebind (echeck (\<not> (\<not> paymentsOpen \<and> list_ex (\<lambda>k. k \<in> set MONEY_FLAGS) keys)) (Refused FEATURE_DISABLED)) (\<lambda>_.
     echeck (filter (\<lambda>k. mget flags k \<noteq> Some True) keys = []) (Refused FEATURE_DISABLED))"

section \<open>Transactions\<close>

text \<open>\<open>sql.begin(..)\<close>: what a transaction changed is gone when it throws.\<close>

definition transact :: "('s, 'e, 'a) action \<Rightarrow> ('s, 'e, 'a) action" where
  "transact m = (\<lambda>s. case m s of (Inl e, _) \<Rightarrow> (Inl e, s) | (Inr x, s') \<Rightarrow> (Inr x, s'))"

lemma wp_transact [wp]: "wp (transact m) Q E = (\<lambda>s. wp m Q (\<lambda>e _. E e s) s)"
  by (rule ext) (simp add: wp_def transact_def split: prod.splits sum.splits)

section \<open>Lemmas\<close>

lemma keeps_transact: "wp m (\<lambda>_ t. P t) (\<lambda>_ _. True) s \<Longrightarrow> P s \<Longrightarrow> P (snd (transact m s))"
  by (auto simp: wp_def transact_def split: prod.splits sum.splits)

lemma text_field_Inr:
  "text_field form name required mx = Inr v \<longleftrightarrow> v = field_value form name \<and> (required \<longrightarrow> v \<noteq> []) \<and> length v \<le> mx \<and> \<not> list_ex CONTROL v"
  by (auto simp: text_field_def Let_def ebind_Inr echeck_Inr)

lemma money_positive: "money v = Inr n \<Longrightarrow> 0 < n \<and> n \<le> 100000000000"
  by (auto simp: money_def Let_def ebind_Inr echeck_Inr)

lemma assertFlags_enabled: "assertFlags open flags keys = Inr u \<longleftrightarrow> (\<forall>k \<in> set keys. isFlagEnabled open flags k)"
  by (auto simp: assertFlags_def ebind_Inr echeck_Inr isFlagEnabled_def list_ex_iff filter_empty_conv)

lemma read_digits_nat: "read_digits s = int (read_nat s)"
proof (induction s rule: rev_induct)
  case (snoc c s)
  then show ?case by (simp add: read_digits_def read_nat_def)
qed (simp add: read_digits_def read_nat_def)

lemma digits_no_dot: "list_all is_digit s \<Longrightarrow> CHR ''.'' \<notin> set s"
  by (auto simp: list_all_iff is_digit_def code_of_def)

definition cents_text :: "nat \<Rightarrow> nat \<Rightarrow> string" where
  "cents_text dollars cents = show_nat dollars @ ''.'' @ [digit_char (cents div 10), digit_char (cents mod 10)]"

lemma read_digits_show [simp]: "read_digits (show_nat n) = int n"
  by (simp add: read_digits_nat)

lemma digits_show_nat [simp]: "digits (show_nat n)"
  by (simp add: digits_def show_nat_digits)

text \<open>Prices are read exactly: the decimal text of every amount within bounds, with or without its cents, reads back as
  that many cents, and what is out of bounds is refused.\<close>

theorem money_reads_cents:
  assumes "cents < 100"
  shows "money (cents_text dollars cents) = (if 0 < 100 * dollars + cents \<and> 100 * dollars + cents \<le> 100000000000
           then Inr (int (100 * dollars + cents)) else Inl (Refused INVALID_INPUT))
    \<and> money (show_nat dollars) = (if 0 < dollars \<and> dollars \<le> 1000000000 then Inr (int (100 * dollars)) else Inl (Refused INVALID_INPUT))"
proof
  have dot: "CHR ''.'' \<notin> set (show_nat dollars)" by (rule digits_no_dot) (rule show_nat_digits)
  have d: "cents div 10 < 10" "cents mod 10 < 10" using assms by auto
  have "CHR ''.'' \<notin> set [digit_char (cents div 10), digit_char (cents mod 10)]"
    by (rule digits_no_dot) (use d in simp)
  then have parts: "js_split (CHR ''.'') (cents_text dollars cents) = [show_nat dollars, [digit_char (cents div 10), digit_char (cents mod 10)]]"
    using dot by (auto simp: cents_text_def js_split_append js_split_no_sep)
  have "read_nat [digit_char (cents div 10), digit_char (cents mod 10)] = 10 * (cents div 10) + cents mod 10"
    using d by (simp add: read_nat_def)
  then have cents: "read_digits [digit_char (cents div 10), digit_char (cents mod 10)] = int cents"
    by (simp add: read_digits_nat)
  show "money (cents_text dollars cents) = (if 0 < 100 * dollars + cents \<and> 100 * dollars + cents \<le> 100000000000
           then Inr (int (100 * dollars + cents)) else Inl (Refused INVALID_INPUT))"
    using d by (auto simp: money_def money_pattern_def parts digits_def show_nat_digits cents echeck_def)
  have zeros: "read_digits ''00'' = 0" by code_simp
  show "money (show_nat dollars) = (if 0 < dollars \<and> dollars \<le> 1000000000 then Inr (int (100 * dollars)) else Inl (Refused INVALID_INPUT))"
    by (auto simp: money_def money_pattern_def js_split_no_sep [OF dot] echeck_def zeros)
qed

lemma money_reads_cents_witness: "money ''12.05'' = Inr 1205 \<and> money ''12'' = Inr 1200"
proof -
  have "cents_text 12 5 = ''12.05''" "show_nat 12 = ''12''" by code_simp+
  with money_reads_cents [of 5 12] show ?thesis by simp
qed

end
