(* ===== verification/Js_Values.thy ===== *)
theory Js_Values
  imports Prelude "HOL-Library.List_Lexorder" "HOL-Library.Char_ord"
begin

text \<open>
  The JavaScript values that cross an untyped boundary (\<open>unknown\<close> parameters, hashed payloads,
  decoded webhook bodies), the text \<open>JSON.stringify\<close> gives a string, the digits of a number in a
  given base, and the regular expressions the code tests identifiers with.
\<close>

section \<open>Values\<close>

text \<open>
  A finite number carries the text \<open>JSON.stringify\<close> prints for it, which determines it;
  \<open>JNumber None\<close> is NaN or an infinity. \<open>JInstance\<close> is an object of a class other than \<open>Object\<close>,
  \<open>Array\<close> or \<open>Date\<close>; \<open>JOther\<close> a function or symbol. A \<open>Date\<close> is its time in milliseconds with its
  ISO text.
\<close>

datatype jsval =
    JUndefined
  | JNull
  | JBool bool
  | JNumber "string option"
  | JBigint int
  | JString string
  | JArray "jsval list"
  | JObject "(string \<times> jsval) list"
  | JDate string
  | JInstance
  | JOther

definition number_char :: "char \<Rightarrow> bool" where
  "number_char c \<longleftrightarrow> is_digit c \<or> c = CHR ''-'' \<or> c = CHR ''.'' \<or> c = CHR ''e'' \<or> c = CHR ''+''"

definition number_text :: "string \<Rightarrow> bool" where
  "number_text t \<longleftrightarrow> t \<noteq> [] \<and> list_all number_char t"

section \<open>JSON strings\<close>

definition hex_digit :: "nat \<Rightarrow> char" where
  "hex_digit d = (if d < 10 then char_of (48 + d) else char_of (87 + d))"

text \<open>
  How \<open>JSON.stringify\<close> writes one code unit of a string: two-character escapes for the quote, the
  backslash and five controls, \<open>\u00XX\<close> for the other controls, itself otherwise.
\<close>

definition quote_c :: char where "quote_c = CHR 0x22"
definition backslash_c :: char where "backslash_c = CHR 0x5C"

definition json_char :: "char \<Rightarrow> string" where
  "json_char c =
     (let n = code_of c in
      if c = quote_c then [backslash_c, quote_c]
      else if c = backslash_c then [backslash_c, backslash_c]
      else if n = 8 then [backslash_c, CHR ''b'']
      else if n = 9 then [backslash_c, CHR ''t'']
      else if n = 10 then [backslash_c, CHR ''n'']
      else if n = 12 then [backslash_c, CHR ''f'']
      else if n = 13 then [backslash_c, CHR ''r'']
      else if n < 32 then [backslash_c, CHR ''u'', CHR ''0'', CHR ''0'', hex_digit (n div 16), hex_digit (n mod 16)]
      else [c])"

lemma json_char_code [code]:
  "json_char c = (case c of Char b0 b1 b2 b3 b4 b5 b6 b7 \<Rightarrow>
     if (\<not> b7 \<and> \<not> b6 \<and> \<not> b5) \<or> c = quote_c \<or> c = backslash_c
     then (let n = code_of c in
      if c = quote_c then [backslash_c, quote_c]
      else if c = backslash_c then [backslash_c, backslash_c]
      else if n = 8 then [backslash_c, CHR ''b'']
      else if n = 9 then [backslash_c, CHR ''t'']
      else if n = 10 then [backslash_c, CHR ''n'']
      else if n = 12 then [backslash_c, CHR ''f'']
      else if n = 13 then [backslash_c, CHR ''r'']
      else if n < 32 then [backslash_c, CHR ''u'', CHR ''0'', CHR ''0'', hex_digit (n div 16), hex_digit (n mod 16)]
      else [c])
     else [c])"
proof (cases c)
  case (Char b0 b1 b2 b3 b4 b5 b6 b7)
  have high: "32 \<le> code_of c" if "\<not> (\<not> b7 \<and> \<not> b6 \<and> \<not> b5)"
    using that by (cases b7; cases b6; cases b5) (simp_all add: Char code_of_def)
  show ?thesis
  proof (cases "(\<not> b7 \<and> \<not> b6 \<and> \<not> b5) \<or> c = quote_c \<or> c = backslash_c")
    case True
    then have "(case c of Char b0 b1 b2 b3 b4 b5 b6 b7 \<Rightarrow> (\<not> b7 \<and> \<not> b6 \<and> \<not> b5) \<or> c = quote_c \<or> c = backslash_c)"
      by (simp only: Char char.case)
    then show ?thesis by (simp only: Char char.case if_True json_char_def)
  next
    case False
    then have "json_char c = [c]" using high by (simp add: json_char_def Let_def)
    with False show ?thesis by (simp only: Char char.case if_False)
  qed
qed

definition json_string :: "string \<Rightarrow> string" where
  "json_string s = quote_c # concat (map json_char s) @ [quote_c]"

section \<open>Regular expressions on identifiers\<close>

text \<open>\<open>[A-Za-z0-9:_.-]\<close>\<close>

definition id_char :: "char \<Rightarrow> bool" where
  "id_char c \<longleftrightarrow> is_alnum c \<or> c = CHR '':'' \<or> c = CHR ''_'' \<or> c = CHR ''.'' \<or> c = CHR ''-''"

text \<open>\<open>/^[A-Za-z0-9][A-Za-z0-9:_.-]{lo,hi}$/\<close>\<close>

definition id_pattern :: "nat \<Rightarrow> nat \<Rightarrow> string \<Rightarrow> bool" where
  "id_pattern lo hi s = (case s of [] \<Rightarrow> False
     | c # cs \<Rightarrow> is_alnum c \<and> lo \<le> length cs \<and> length cs \<le> hi \<and> list_all id_char cs)"

text \<open>\<open>/^[A-Z][A-Z0-9]{2,9}$/\<close>\<close>

definition currency_pattern :: "string \<Rightarrow> bool" where
  "currency_pattern s = (case s of [] \<Rightarrow> False
     | c # cs \<Rightarrow> is_upper c \<and> 2 \<le> length cs \<and> length cs \<le> 9 \<and> list_all (\<lambda>d. is_upper d \<or> is_digit d) cs)"

text \<open>\<open>/^(0|[1-9][0-9]*)$/\<close>\<close>

definition canonical_nat :: "string \<Rightarrow> bool" where
  "canonical_nat s = (case s of [] \<Rightarrow> False
     | c # cs \<Rightarrow> (c = CHR ''0'' \<and> cs = []) \<or> (is_digit c \<and> c \<noteq> CHR ''0'' \<and> list_all is_digit cs))"

lemma canonical_nat_show: "canonical_nat (show_nat n)"
proof (cases "show_nat n")
  case Nil
  then show ?thesis by simp
next
  case (Cons c cs)
  have d: "is_digit c" "list_all is_digit cs"
    using show_nat_digits [of n] Cons by simp_all
  show ?thesis
  proof (cases "c = CHR ''0''")
    case True
    then have "n = 0" using show_nat_leading [of n] Cons by simp
    then have "show_nat n = [digit_char 0]" by (subst show_nat.simps) simp
    then show ?thesis using Cons True by (simp add: canonical_nat_def)
  next
    case False
    with d Cons show ?thesis by (simp add: canonical_nat_def)
  qed
qed

section \<open>JSON string encoding is uniquely readable\<close>

lemma quote_not_backslash [simp]: "quote_c \<noteq> backslash_c" "backslash_c \<noteq> quote_c"
  by (simp_all add: quote_c_def backslash_c_def)

lemma json_char_nonempty [simp]: "json_char c \<noteq> []"
  by (simp add: json_char_def Let_def)

lemma json_char_head: "hd (json_char c) \<noteq> quote_c"
  by (auto simp: json_char_def Let_def)

lemma code_of_inj: "code_of a = code_of b \<longleftrightarrow> a = b"
  by (simp add: code_of_def)

lemma char_of_code_of [simp]: "char_of (code_of c) = c"
  by (simp add: code_of_def)

text \<open>What \<open>JSON.parse\<close> reads back from one (possibly escaped) code unit.\<close>

definition hex_value :: "char \<Rightarrow> nat" where
  "hex_value c = (if is_digit c then code_of c - 48 else code_of c - 87)"

definition json_unchar :: "string \<Rightarrow> (char \<times> string) option" where
  "json_unchar s = (case s of [] \<Rightarrow> None
     | c # cs \<Rightarrow>
         if c = quote_c then None
         else if c \<noteq> backslash_c then Some (c, cs)
         else (case cs of [] \<Rightarrow> None
           | e # r \<Rightarrow>
               if e = quote_c then Some (quote_c, r)
               else if e = backslash_c then Some (backslash_c, r)
               else if e = CHR ''b'' then Some (char_of (8::nat), r)
               else if e = CHR ''t'' then Some (char_of (9::nat), r)
               else if e = CHR ''n'' then Some (char_of (10::nat), r)
               else if e = CHR ''f'' then Some (char_of (12::nat), r)
               else if e = CHR ''r'' then Some (char_of (13::nat), r)
               else if e = CHR ''u'' then
                 (case r of a # b # h # l # r' \<Rightarrow> Some (char_of (16 * hex_value h + hex_value l), r') | _ \<Rightarrow> None)
               else None))"

lemma hex_value_digit: "d < 16 \<Longrightarrow> hex_value (hex_digit d) = d"
  by (simp add: hex_value_def hex_digit_def is_digit_def code_of_def)

lemma json_unchar_char: "json_unchar (json_char c @ r) = Some (c, r)"
proof -
  have char: "char_of n = c" if "code_of c = n" for n
    using that by (metis char_of_code_of)
  have letters: "quote_c \<noteq> CHR ''b''" "quote_c \<noteq> CHR ''t''" "quote_c \<noteq> CHR ''n''" "quote_c \<noteq> CHR ''f''"
      "quote_c \<noteq> CHR ''r''" "quote_c \<noteq> CHR ''u''" "backslash_c \<noteq> CHR ''b''" "backslash_c \<noteq> CHR ''t''"
      "backslash_c \<noteq> CHR ''n''" "backslash_c \<noteq> CHR ''f''" "backslash_c \<noteq> CHR ''r''" "backslash_c \<noteq> CHR ''u''"
    by (simp_all add: quote_c_def backslash_c_def)
  have hex: "16 * hex_value (hex_digit (code_of c div 16)) + hex_value (hex_digit (code_of c mod 16)) = code_of c"
    if "code_of c < 32"
    using that by (simp add: hex_value_digit)
  show ?thesis
    using hex by (auto simp: json_char_def json_unchar_def Let_def letters letters [symmetric] intro!: char)
qed

text \<open>The escape of a code unit is a prefix code: what follows it is determined.\<close>

lemma json_char_prefix_free: "json_char a @ r = json_char b @ r' \<Longrightarrow> a = b \<and> r = r'"
  by (metis json_unchar_char option.inject prod.inject)

lemma json_body_prefix_free:
  "concat (map json_char s) @ quote_c # r = concat (map json_char t) @ quote_c # r' \<Longrightarrow> s = t \<and> r = r'"
proof (induction s arbitrary: t)
  case Nil
  then show ?case
  proof (cases t)
    case (Cons b t')
    with Nil json_char_head [of b] show ?thesis by (cases "json_char b") auto
  qed simp
next
  case (Cons a s)
  show ?case
  proof (cases t)
    case Nil
    with Cons.prems json_char_head [of a] show ?thesis by (cases "json_char a") auto
  next
    case (Cons b t')
    with Cons.prems have "json_char a @ concat (map json_char s) @ quote_c # r
        = json_char b @ concat (map json_char t') @ quote_c # r'" by simp
    then have "a = b" "concat (map json_char s) @ quote_c # r = concat (map json_char t') @ quote_c # r'"
      using json_char_prefix_free by blast+
    with Cons.IH Cons show ?thesis by blast
  qed
qed

lemma json_string_prefix_free: "json_string s @ r = json_string t @ r' \<Longrightarrow> s = t \<and> r = r'"
  using json_body_prefix_free [of s r t r'] by (simp add: json_string_def)

end
