(* ===== verification/Envelope.thy ===== *)
theory Envelope
  imports Commands Js_Values
begin

text \<open>
  The command envelope of \<open>src/app/api/commands/route.ts\<close> with the account rules of \<open>src/lib/account.ts\<close> and the
  setup gate of \<open>src/lib/onboarding.ts\<close>: who may run which command, one transaction per command, and the
  table of finished commands that answers a repeated request. The handlers, and the state \<open>'w\<close> they work
  on, are parameters; so are SHA-256 and the order of \<open>localeCompare\<close>, and the delivery of the mock
  provider's webhooks after a commit. The texts of messages are dropped.
\<close>

section \<open>Accounts\<close>

datatype account_type = Buyer | Creator

fun role_of :: "account_type \<Rightarrow> string" where
  "role_of Buyer = ''buyer''"
| "role_of Creator = ''creator''"

definition isCreator :: "actor \<Rightarrow> bool" where
  "isCreator a \<longleftrightarrow> ''creator'' \<in> set (ac_roles a)"

definition accountTypeOf :: "actor \<Rightarrow> account_type option" where
  "accountTypeOf a = (if isCreator a then Some Creator else if isBuyer a then Some Buyer else None)"

definition CREATOR_COMMANDS :: "string list" where
  "CREATOR_COMMANDS =
     [''add_sample'', ''create_service'', ''update_service'', ''publish_service'', ''pause_service'', ''archive_service'', ''set_accepting_orders'',
      ''add_digital_release'', ''add_social_account'', ''remove_social_account'', ''disconnect_x'', ''create_auction'', ''cancel_auction'',
      ''apply'', ''withdraw_application'', ''accept_offer'', ''decline_offer'', ''start'', ''deliver'']"

definition BUYER_COMMANDS :: "string list" where
  "BUYER_COMMANDS =
     [''book'', ''submit_brief'', ''revision'', ''approve'', ''refund_digital_purchase'', ''create_crypto_payment'',
      ''create_request'', ''update_request'', ''set_request_images'', ''close_request'', ''cancel_request'', ''select_application'', ''withdraw_offer'',
      ''bid'', ''buy_now'', ''create_pool'', ''create_campaign_pool'', ''update_pool_template'', ''create_pool_funding'', ''refund_pool_unused'', ''close_campaign_pool'']"

definition requiredAccountType :: "string \<Rightarrow> account_type option" where
  "requiredAccountType command =
     (if command \<in> set BUYER_COMMANDS then Some Buyer else if command \<in> set CREATOR_COMMANDS then Some Creator else None)"

definition GATED :: "string list" where
  "GATED = [''publish_service'', ''apply'', ''create_request'', ''create_item_listing'']"

definition needsOnboarding :: "string \<Rightarrow> bool" where
  "needsOnboarding command \<longleftrightarrow> command \<in> set GATED"

section \<open>Errors\<close>

text \<open>What a command can throw: a \<open>CommandError\<close>, a \<open>PaymentFlowError\<close> with its code, an error that carries a hint, any other.\<close>

datatype exception_value = Command_error command_error_code | Flow_error string | Hinted_error string | Other_error

fun errorResponse :: "exception_value \<Rightarrow> nat" where
  "errorResponse (Command_error code) = statusForCode code"
| "errorResponse (Flow_error code) = (if code = ''FORBIDDEN'' then 403 else 400)"
| "errorResponse (Hinted_error hint) = (if hint = ''NOT_ACCEPTING_ORDERS'' then 409 else 400)"
| "errorResponse Other_error = 400"

section \<open>The request\<close>

type_synonym entries = "(string \<times> string) list"

definition form_get :: "entries \<Rightarrow> form" where
  "form_get entries = map_of entries"

definition valuesOf :: "entries \<Rightarrow> entries" where
  "valuesOf entries = foldl (\<lambda>m (key, v). mput key v m) [] (filter (\<lambda>(key, v). key \<notin> {''idempotency_key'', ''return_to''}) entries)"

fun json_pair :: "string \<times> string \<Rightarrow> string" where
  "json_pair (k, v) = ''['' @ json_string k @ '','' @ json_string v @ '']''"

definition json_pairs :: "entries \<Rightarrow> string" where
  "json_pairs m = ''['' @ js_join '','' (map json_pair m) @ '']''"

text \<open>The request as the server sees it: whether the origin is its own, who is signed in, the form, whether JSON is wanted, and
  the key drawn when the form has none.\<close>

record request =
  rq_sameOrigin :: bool
  rq_actor :: "actor option"
  rq_form :: entries
  rq_wantsJson :: bool
  rq_randomUUID :: string

text \<open>What a handler returns; an inherited member of the handler table answers with some other JSON value.\<close>

datatype command_result = Command_result string string "string option" | Other_value string

datatype response = Json_error nat | Json_result command_result | Redirect_to string | Redirect_error string

type_synonym 'w handler = "actor \<Rightarrow> entries \<Rightarrow> string \<Rightarrow> ('w, exception_value, command_result) action"

text \<open>Collation keys order as \<open>localeCompare\<close> does. \<open>en_actor_json\<close> is the JSON of the handler's argument, which is its actor, an
  empty form and the command.\<close>

record 'w command_env =
  en_handlers :: "(string \<times> 'w handler) list"
  en_onboarded :: "'w \<Rightarrow> string \<Rightarrow> bool"
  en_sha256 :: "string \<Rightarrow> string"
  en_collation :: "string \<Rightarrow> string"
  en_mockPayments :: bool
  en_deliver :: "'w \<Rightarrow> 'w"
  en_actor_json :: "actor \<Rightarrow> string \<Rightarrow> string"

record 'w server =
  sv_world :: 'w
  sv_commands :: "((string \<times> string \<times> string) \<times> (string \<times> command_result)) list"

definition hashInput :: "'w command_env \<Rightarrow> entries \<Rightarrow> string" where
  "hashInput env input = en_sha256 env (json_pairs (sort_key (\<lambda>(k, v). en_collation env k) input))"

definition SUSPENDED_ALLOWED_COMMANDS :: "string list" where
  "SUSPENDED_ALLOWED_COMMANDS =
     [''start'', ''deliver'', ''revision'', ''approve'', ''dispute'', ''cancel'', ''request_cancellation'', ''respond_cancellation'',
      ''request_deadline_extension'', ''respond_deadline_extension'', ''refund'', ''review'', ''message'', ''mark_delivery_viewed'',
      ''submit_brief'', ''pause_service'', ''archive_service'',
      ''pay_item_sale'', ''mark_item_delivered'', ''confirm_item_received'', ''dispute_item_sale'', ''claim_item_refund'']"

definition safeReturnTo :: "string \<Rightarrow> string \<Rightarrow> string" where
  "safeReturnTo v fallback = (if v \<noteq> [] \<and> take 1 v = ''/'' \<and> take 2 v \<noteq> ''//'' \<and> length v < 300 then v else fallback)"

definition commandName :: "request \<Rightarrow> string" where
  "commandName rq = js_trim (case form_get (rq_form rq) ''command'' of Some v \<Rightarrow> v | None \<Rightarrow> [])"

definition idempotencyKey :: "request \<Rightarrow> string" where
  "idempotencyKey rq = (case form_get (rq_form rq) ''idempotency_key'' of Some v \<Rightarrow> v | None \<Rightarrow> rq_randomUUID rq)"

definition returnTo :: "request \<Rightarrow> string" where
  "returnTo rq = safeReturnTo (case form_get (rq_form rq) ''return_to'' of Some v \<Rightarrow> v | None \<Rightarrow> []) ''/dashboard''"

text \<open>\<open>/^[A-Za-z0-9_.:-]{8,200}$/\<close>\<close>

definition KEY_PATTERN :: "string \<Rightarrow> bool" where
  "KEY_PATTERN key \<longleftrightarrow> 8 \<le> length key \<and> length key \<le> 200 \<and> list_all id_char key"

section \<open>Handlers\<close>

text \<open>The table is an object literal, so a name it does not define is looked up in \<open>Object.prototype\<close>: \<open>Object(ctx)\<close> is \<open>ctx\<close>
  itself, \<open>toString\<close> of no receiver is a text, the other methods throw on it, and \<open>__proto__\<close> is no function.\<close>

definition prototype_members :: "string list" where
  "prototype_members = [''constructor'', ''toString'', ''toLocaleString'', ''valueOf'', ''hasOwnProperty'', ''isPrototypeOf'', ''propertyIsEnumerable'',
     ''__proto__'', ''__defineGetter__'', ''__defineSetter__'', ''__lookupGetter__'', ''__lookupSetter__'']"

definition inherited :: "'w command_env \<Rightarrow> string \<Rightarrow> 'w handler" where
  "inherited env name = (\<lambda>actor form command.
     if name = ''constructor'' then areturn (Other_value (en_actor_json env actor command))
     else if name = ''toString'' then areturn (Other_value ([quote_c] @ ''[object Undefined]'' @ [quote_c]))
     else afail Other_error)"

definition find_handler :: "'w command_env \<Rightarrow> string \<Rightarrow> 'w handler option" where
  "find_handler env command = (case mget (en_handlers env) command of Some h \<Rightarrow> Some h
     | None \<Rightarrow> if command \<in> set prototype_members then Some (inherited env command) else None)"

text \<open>The registry merges the modules' tables; a name defined twice, or an inherited one, throws.\<close>

fun merge_table :: "(string \<times> 'h) list \<Rightarrow> (string \<times> 'h) list \<Rightarrow> ((string \<times> 'h) list) option" where
  "merge_table merged [] = Some merged"
| "merge_table merged ((name, h) # rest) =
     (if mget merged name \<noteq> None \<or> name \<in> set prototype_members then None else merge_table (mput name h merged) rest)"

definition commandHandlers :: "(string \<times> 'h) list list \<Rightarrow> (string \<times> 'h) list option" where
  "commandHandlers modules = foldl (\<lambda>merged table. Option.bind merged (\<lambda>m. merge_table m table)) (Some []) modules"

definition on_world :: "('w, 'e, 'a) action \<Rightarrow> ('w server, 'e, 'a) action" where
  "on_world m = (\<lambda>s. case m (sv_world s) of (r, w) \<Rightarrow> (r, s\<lparr>sv_world := w\<rparr>))"

definition recorded :: "'w command_env \<Rightarrow> 'w handler \<Rightarrow> actor \<Rightarrow> request \<Rightarrow> ('w server, exception_value, command_result) action" where
  "recorded env handler actor rq =
     (let command = commandName rq;
          slot = (ac_id actor, command, idempotencyKey rq);
          inputHash = hashInput env (valuesOf (rq_form rq)) in
      transact (
        abind (aget (\<lambda>s. mget (sv_commands s) slot)) (\<lambda>previous.
        (case previous of
           Some (input_hash, result) \<Rightarrow>
             abind (acheck (input_hash = inputHash) (Command_error IDEMPOTENCY_CONFLICT)) (\<lambda>_. areturn result)
         | None \<Rightarrow>
             abind (on_world (handler actor (rq_form rq) command)) (\<lambda>outcome.
             abind (amodify (\<lambda>s. s\<lparr>sv_commands := mput slot (inputHash, outcome) (sv_commands s)\<rparr>)) (\<lambda>_.
             areturn outcome))))))"

text \<open>After the commit the local mock provider delivers its webhooks; what fails there stays for a retry.\<close>

definition deliver_pending :: "'w command_env \<Rightarrow> 'w server \<Rightarrow> 'w server" where
  "deliver_pending env s = (if en_mockPayments env then s\<lparr>sv_world := en_deliver env (sv_world s)\<rparr> else s)"

definition run_command :: "'w command_env \<Rightarrow> actor \<Rightarrow> request \<Rightarrow> ('w server, exception_value, command_result) action" where
  "run_command env actor rq =
     (let command = commandName rq in
      (case find_handler env command of
         None \<Rightarrow> afail (Command_error INVALID_INPUT)
       | Some handler \<Rightarrow>
           abind (acheck (\<not> (take 6 command \<noteq> ''admin_'' \<and> \<not> hasAnyRole actor [''buyer'', ''creator''])) (Command_error FORBIDDEN)) (\<lambda>_.
           abind (acheck (\<not> (case requiredAccountType command of Some needed \<Rightarrow> role_of needed \<notin> set (ac_roles actor) | None \<Rightarrow> False))
             (Command_error FORBIDDEN)) (\<lambda>_.
           abind (acheck (\<not> (\<not> ac_active actor \<and> command \<notin> set SUSPENDED_ALLOWED_COMMANDS)) (Command_error ACCOUNT_SUSPENDED)) (\<lambda>_.
           abind (aget (\<lambda>s. en_onboarded env (sv_world s) (ac_id actor))) (\<lambda>onboarded.
           abind (acheck (\<not> (needsOnboarding command \<and> \<not> onboarded)) (Command_error DOMAIN_RULE)) (\<lambda>_.
           abind (recorded env handler actor rq) (\<lambda>result.
           abind (amodify (deliver_pending env)) (\<lambda>_.
           areturn result)))))))))"

definition destination :: "request \<Rightarrow> command_result \<Rightarrow> string" where
  "destination rq result =
     (if take 6 (commandName rq) = ''admin_'' \<and> form_get (rq_form rq) ''return_to'' \<notin> {None, Some []} then returnTo rq
      else (case result of Command_result path message i \<Rightarrow> if path \<noteq> [] then path else returnTo rq | Other_value t \<Rightarrow> returnTo rq))"

definition POST :: "'w command_env \<Rightarrow> request \<Rightarrow> 'w server \<Rightarrow> response \<times> 'w server" where
  "POST env rq s =
     (if \<not> rq_sameOrigin rq then (Json_error 403, s)
      else (case rq_actor rq of
          None \<Rightarrow> (Json_error 401, s)
        | Some actor \<Rightarrow>
            if \<not> KEY_PATTERN (idempotencyKey rq) then (Json_error 400, s)
            else (case run_command env actor rq s of
                (Inl e, t) \<Rightarrow> (if rq_wantsJson rq then Json_error (errorResponse e) else Redirect_error (returnTo rq), t)
              | (Inr result, t) \<Rightarrow> (if rq_wantsJson rq then Json_result result else Redirect_to (destination rq result), t))))"

end
