(* ===== verification/Order_Tables.thy ===== *)
theory Order_Tables
  imports Envelope
begin

text \<open>
  The tables of orders and what several commands share: \<open>src/modules/orders/lifecycle.ts\<close> and the request of a refund of
  \<open>src/modules/payments/funding.ts\<close>, over \<open>drizzle/0001\<close>, \<open>0004\<close> and \<open>0020\<close> with their checks, unique keys and
  triggers. Parsing, uploads, publication proofs and the payment rails are parameters (\<open>order_env\<close>). The triggers that other
  modules hang on an order's status write only their own tables and are left out, as are message texts.
\<close>

section \<open>Tables\<close>

datatype order_status =
    AWAITING_PAYMENT | FUNDED | IN_PROGRESS | DELIVERED | REVISION_REQUESTED | APPROVED | COMPLETED | CANCELLED | REFUNDED | DISPUTED

datatype payment_status =
    Pay_pending | Pay_processing | Pay_succeeded | Pay_failed | Pay_refund_pending | Pay_partially_refunded | Pay_refunded | Pay_returned

datatype settlement_status = Not_ready | Ready | Settling | Settled_out | Settle_failed

datatype payment_rail = MOCK_PROVIDER | CRYPTO | POOL

datatype request_status = Requested | Accepted | Rejected | Withdrawn | Expired

datatype deadline_kind = Delivery_deadline | Revision_deadline

datatype validation_status = Valid | Quarantined | Invalid

record order_terms =
  ot_turnaround_hours :: "int option"
  ot_revision_limit :: "int option"
  ot_review_window_hours :: "int option"
  ot_auto_accept_consent :: bool
  ot_digital :: bool
  ot_publish :: "string option"

record order =
  od_buyer :: string
  od_creator :: string
  od_status :: order_status
  od_amount :: int
  od_currency :: string
  od_provider_fee :: "int option"
  od_funding_method :: "string option"
  od_brief :: string
  od_terms :: order_terms
  od_version :: int
  od_payment :: payment_status
  od_settlement :: settlement_status
  od_rail :: payment_rail
  od_funded_at :: "int option"
  od_brief_ready_at :: "int option"
  od_work_start_at :: "int option"
  od_delivery_due_at :: "int option"
  od_review_due_at :: "int option"
  od_revision_due_at :: "int option"
  od_revision_count :: int
  od_approved_at :: "int option"
  od_completed_at :: "int option"
  od_cancelled_at :: "int option"
  od_status_before_dispute :: "order_status option"
  od_cancellation_refund :: "int option"
  od_performance_refund :: "int option"

record delivery =
  dl_order :: string
  dl_version :: int
  dl_body :: string
  dl_url :: "string option"
  dl_validation :: validation_status
  dl_submitted_by :: string
  dl_viewed_at :: "int option"
  dl_assets :: "string list"

record review_hold =
  ho_order :: string
  ho_version :: int
  ho_reason :: string
  ho_resolution :: "string option"

record cancellation =
  cn_order :: string
  cn_by :: string
  cn_counterparty :: string
  cn_reason :: string
  cn_refund :: int
  cn_order_version :: int
  cn_status :: request_status

record amendment =
  am_order :: string
  am_deadline :: deadline_kind
  am_by :: string
  am_counterparty :: string
  am_reason :: string
  am_old :: int
  am_new :: int
  am_order_version :: int
  am_status :: request_status
  am_responded_at :: "int option"

record order_dispute =
  ds_order :: string
  ds_by :: string
  ds_reason :: string
  ds_open :: bool
  ds_outcome :: "string option"

record order_review =
  rv_order :: string
  rv_reviewer :: string
  rv_rating :: nat
  rv_body :: string

record order_message =
  ms_order :: string
  ms_sender :: string
  ms_body :: string

record order_event =
  ev_order :: string
  ev_actor :: "string option"
  ev_kind :: string
  ev_reference :: "string option"
  ev_fee :: "int option"

record outbox_row =
  ob_template :: string
  ob_recipient :: string

record desk =
  dk_orders :: "(string \<times> order) list"
  dk_deliveries :: "delivery list"
  dk_holds :: "review_hold list"
  dk_cancellations :: "(string \<times> cancellation) list"
  dk_amendments :: "(string \<times> amendment) list"
  dk_disputes :: "(string \<times> order_dispute) list"
  dk_reviews :: "order_review list"
  dk_messages :: "order_message list"
  dk_events :: "order_event list"
  dk_outbox :: "(string \<times> outbox_row) list"
  dk_cases :: "(string option \<times> string option \<times> string) list"
  dk_audit :: "(string \<times> string \<times> string) list"

type_synonym 'a order_action = "(desk, exception_value, 'a) action"

text \<open>Of an event's payload only what a later statement reads is kept: the provider's reference and the provider's fee. \<open>dk_cases\<close>
  holds the open reconciliation cases by order, journal row and kind.\<close>

text \<open>
  Parameters: \<open>new URL\<close> and \<open>new Date\<close>; \<open>checkPublicationProof\<close>, which answers with the address of the post; why a file cannot be
  delivered; the cancellation of an open payment; the freeze of a crypto escrow; whether the provider confirmed a funding; the
  calls that request a refund from the provider, on chain, or return a pool's allocation; whether a delivered file is unsafe.
\<close>

record order_env =
  on_urlOf :: "string \<Rightarrow> (string \<times> string) option"
  on_dateOf :: "string \<Rightarrow> int option"
  on_publication :: "string \<Rightarrow> form \<Rightarrow> int option \<Rightarrow> int option \<Rightarrow> int \<Rightarrow> exception_value + string"
  on_asset :: "string \<Rightarrow> string \<Rightarrow> string \<Rightarrow> exception_value + unit"
  on_cancelFunding :: "string \<Rightarrow> exception_value + unit"
  on_freeze :: "string \<Rightarrow> order \<Rightarrow> string \<Rightarrow> bool \<Rightarrow> exception_value + unit"
  on_funding :: "string \<Rightarrow> string option"
  on_providerRefund :: "string \<Rightarrow> string \<Rightarrow> int \<Rightarrow> string \<Rightarrow> exception_value + string"
  on_chainRefund :: "string \<Rightarrow> int \<Rightarrow> exception_value + string"
  on_poolReturn :: "string \<Rightarrow> exception_value + unit"
  on_unsafeFile :: "string \<Rightarrow> bool"

section \<open>Statements\<close>

fun as_exception :: "failure \<Rightarrow> exception_value" where
  "as_exception (Refused code) = Command_error code"
| "as_exception Crashed = Other_error"

definition read :: "failure + 'a \<Rightarrow> 'a order_action" where
  "read r = alift (case r of Inl e \<Rightarrow> Inl (as_exception e) | Inr x \<Rightarrow> Inr x)"

definition refuse_unless :: "bool \<Rightarrow> command_error_code \<Rightarrow> unit order_action" where
  "refuse_unless b code = acheck b (Command_error code)"

definition constraint :: "bool \<Rightarrow> unit order_action" where
  "constraint b = acheck b Other_error"

definition event :: "string \<Rightarrow> string option \<Rightarrow> string \<Rightarrow> unit order_action" where
  "event oid actorId kind = amodify (\<lambda>s. s\<lparr>dk_events := dk_events s @
     [\<lparr>ev_order = oid, ev_actor = actorId, ev_kind = kind, ev_reference = None, ev_fee = None\<rparr>]\<rparr>)"

text \<open>\<open>on conflict (semantic_key) do nothing\<close>\<close>

definition enqueue :: "string \<Rightarrow> string \<Rightarrow> string \<Rightarrow> unit order_action" where
  "enqueue key template recipient = amodify (\<lambda>s. if mget (dk_outbox s) key \<noteq> None then s
     else s\<lparr>dk_outbox := mput key \<lparr>ob_template = template, ob_recipient = recipient\<rparr> (dk_outbox s)\<rparr>)"

definition openCase :: "string option \<Rightarrow> string option \<Rightarrow> string \<Rightarrow> unit order_action" where
  "openCase oid operation kind = amodify (\<lambda>s. if (oid, operation, kind) \<in> set (dk_cases s) then s
     else s\<lparr>dk_cases := dk_cases s @ [(oid, operation, kind)]\<rparr>)"

definition HOURS :: "int \<Rightarrow> int" where
  "HOURS n = n * 3600000"

section \<open>Constraints of an order\<close>

definition fee_checks :: "int \<Rightarrow> int option \<Rightarrow> int option \<Rightarrow> string option \<Rightarrow> bool" where
  "fee_checks amount providerFee performanceRefund method \<longleftrightarrow>
     (case providerFee of None \<Rightarrow> True | Some f \<Rightarrow> 0 \<le> f)
     \<and> (case performanceRefund of None \<Rightarrow> True | Some r \<Rightarrow> 0 \<le> r \<and> r < amount)
     \<and> (case method of None \<Rightarrow> True | Some m \<Rightarrow> m \<in> {''CARD'', ''BANK_TRANSFER''})"

definition returned_is_bank :: "string option \<Rightarrow> payment_status \<Rightarrow> bool" where
  "returned_is_bank method payment \<longleftrightarrow> payment \<noteq> Pay_returned \<or> method = Some ''BANK_TRANSFER''"

lemma returned_is_bank_simps [simp]:
  "returned_is_bank m Pay_pending" "returned_is_bank m Pay_processing" "returned_is_bank m Pay_succeeded" "returned_is_bank m Pay_failed"
  "returned_is_bank m Pay_refund_pending" "returned_is_bank m Pay_partially_refunded" "returned_is_bank m Pay_refunded"
  by (simp_all add: returned_is_bank_def)

definition order_checks :: "order \<Rightarrow> bool" where
  "order_checks o' \<longleftrightarrow> 0 < od_amount o' \<and> 0 < od_version o' \<and> od_buyer o' \<noteq> od_creator o'
     \<and> (case od_cancellation_refund o' of None \<Rightarrow> True | Some r \<Rightarrow> 0 \<le> r \<and> r \<le> od_amount o')
     \<and> (case od_status_before_dispute o' of None \<Rightarrow> True | Some st \<Rightarrow> st \<in> {IN_PROGRESS, DELIVERED, REVISION_REQUESTED})
     \<and> 0 \<le> od_revision_count o' \<and> od_revision_count o' \<le> 3
     \<and> fee_checks (od_amount o') (od_provider_fee o') (od_performance_refund o') (od_funding_method o')
     \<and> returned_is_bank (od_funding_method o') (od_payment o')"

definition order_snapshot_guard :: "order \<Rightarrow> order \<Rightarrow> bool" where
  "order_snapshot_guard old new \<longleftrightarrow> od_buyer new = od_buyer old \<and> od_creator new = od_creator old \<and> od_amount new = od_amount old
     \<and> od_currency new = od_currency old \<and> od_terms new = od_terms old"

fun transition_allowed :: "order_status \<Rightarrow> order_status \<Rightarrow> bool" where
  "transition_allowed AWAITING_PAYMENT new \<longleftrightarrow> new \<in> {FUNDED, CANCELLED}"
| "transition_allowed FUNDED new \<longleftrightarrow> new \<in> {IN_PROGRESS, CANCELLED}"
| "transition_allowed IN_PROGRESS new \<longleftrightarrow> new \<in> {DELIVERED, DISPUTED, CANCELLED}"
| "transition_allowed DELIVERED new \<longleftrightarrow> new \<in> {REVISION_REQUESTED, APPROVED, DISPUTED, CANCELLED}"
| "transition_allowed REVISION_REQUESTED new \<longleftrightarrow> new \<in> {DELIVERED, DISPUTED, CANCELLED}"
| "transition_allowed APPROVED new \<longleftrightarrow> new \<in> {COMPLETED}"
| "transition_allowed DISPUTED new \<longleftrightarrow> new \<in> {IN_PROGRESS, DELIVERED, REVISION_REQUESTED, APPROVED, CANCELLED}"
| "transition_allowed CANCELLED new \<longleftrightarrow> new \<in> {REFUNDED}"
| "transition_allowed COMPLETED new \<longleftrightarrow> False"
| "transition_allowed REFUNDED new \<longleftrightarrow> False"

definition order_transition_guard :: "order \<Rightarrow> order \<Rightarrow> bool" where
  "order_transition_guard old new \<longleftrightarrow>
     od_status new = od_status old \<or> (transition_allowed (od_status old) (od_status new) \<and> \<not> od_version new \<le> od_version old)"

definition order_delivery_due_guard :: "int \<Rightarrow> string \<Rightarrow> (string \<times> amendment) list \<Rightarrow> order \<Rightarrow> order \<Rightarrow> bool" where
  "order_delivery_due_guard now oid amendments old new \<longleftrightarrow>
     (case od_delivery_due_at old of
        None \<Rightarrow> True
      | Some d \<Rightarrow> od_delivery_due_at new = Some d
          \<or> list_ex (\<lambda>(i, a). am_order a = oid \<and> am_deadline a = Delivery_deadline \<and> am_status a = Accepted \<and> am_old a = d
               \<and> Some (am_new a) = od_delivery_due_at new \<and> am_responded_at a = Some now) amendments)"

definition expire_amendments :: "int \<Rightarrow> string \<Rightarrow> desk \<Rightarrow> desk" where
  "expire_amendments now oid s = s\<lparr>
     dk_amendments := map (\<lambda>(i, a). (i, if am_order a = oid \<and> am_status a = Requested then a\<lparr>am_status := Expired, am_responded_at := Some now\<rparr> else a))
       (dk_amendments s),
     dk_events := dk_events s @ map (\<lambda>(i, a). \<lparr>ev_order = oid, ev_actor = None, ev_kind = ''DEADLINE_EXTENSION_EXPIRED'', ev_reference = None, ev_fee = None\<rparr>)
       (filter (\<lambda>(i, a). am_order a = oid \<and> am_status a = Requested) (dk_amendments s))\<rparr>"

definition order_amendment_expiry :: "int \<Rightarrow> string \<Rightarrow> order \<Rightarrow> order \<Rightarrow> desk \<Rightarrow> desk" where
  "order_amendment_expiry now oid old new s =
     (if od_status new \<noteq> od_status old \<and> \<not> (od_status old = FUNDED \<and> od_status new = IN_PROGRESS) then expire_amendments now oid s else s)"

text \<open>\<open>update app.orders set .. where id = oid\<close>\<close>

definition update_order :: "int \<Rightarrow> string \<Rightarrow> (order \<Rightarrow> order) \<Rightarrow> unit order_action" where
  "update_order now oid f =
     abind (aget (\<lambda>s. (mget (dk_orders s) oid, dk_amendments s))) (\<lambda>(row, amendments). case row of
       None \<Rightarrow> areturn ()
     | Some old \<Rightarrow>
         abind (constraint (order_snapshot_guard old (f old))) (\<lambda>_.
         abind (constraint (order_transition_guard old (f old))) (\<lambda>_.
         abind (constraint (order_delivery_due_guard now oid amendments old (f old))) (\<lambda>_.
         abind (constraint (order_checks (f old))) (\<lambda>_.
         amodify (\<lambda>s. order_amendment_expiry now oid old (f old) (s\<lparr>dk_orders := mput oid (f old) (dk_orders s)\<rparr>)))))))"

definition bump_order :: "order \<Rightarrow> order" where
  "bump_order x = x\<lparr>od_version := od_version x + 1\<rparr>"


section \<open>Lifecycle\<close>

definition REVISION_TURNAROUND_HOURS :: int where "REVISION_TURNAROUND_HOURS = 48"
definition DEFAULT_REVIEW_WINDOW_HOURS :: int where "DEFAULT_REVIEW_WINDOW_HOURS = 72"
definition MIN_DELIVERY_NOTE_CHARS :: nat where "MIN_DELIVERY_NOTE_CHARS = 20"

definition turnaroundHours :: "order_terms \<Rightarrow> int" where
  "turnaroundHours t = (case ot_turnaround_hours t of Some n \<Rightarrow> n | None \<Rightarrow> 72)"

definition revisionLimit :: "order_terms \<Rightarrow> int" where
  "revisionLimit t = (case ot_revision_limit t of Some n \<Rightarrow> n | None \<Rightarrow> 1)"

definition reviewWindowHours :: "order_terms \<Rightarrow> int" where
  "reviewWindowHours t = (case ot_review_window_hours t of Some n \<Rightarrow> n | None \<Rightarrow> DEFAULT_REVIEW_WINDOW_HOURS)"

definition start_clock :: "order \<Rightarrow> order" where
  "start_clock x = (case (od_funded_at x, od_brief_ready_at x, od_work_start_at x) of
     (Some funded, Some ready, None) \<Rightarrow> x\<lparr>od_work_start_at := Some (max funded ready),
       od_delivery_due_at := (case od_delivery_due_at x of Some d \<Rightarrow> Some d
         | None \<Rightarrow> Some (max funded ready + HOURS (turnaroundHours (od_terms x))))\<rparr>
   | _ \<Rightarrow> x)"

definition recomputeWorkClock :: "int \<Rightarrow> string \<Rightarrow> unit order_action" where
  "recomputeWorkClock now oid = update_order now oid start_clock"

text \<open>\<open>order by version desc limit 1\<close>\<close>

fun newest :: "delivery list \<Rightarrow> delivery option" where
  "newest [] = None"
| "newest (d # ds) = (case newest ds of None \<Rightarrow> Some d | Some e \<Rightarrow> if dl_version e < dl_version d then Some d else Some e)"

definition latestDelivery :: "string \<Rightarrow> desk \<Rightarrow> delivery option" where
  "latestDelivery oid s = newest (filter (\<lambda>d. dl_order d = oid) (dk_deliveries s))"

definition assertCurrentDelivery :: "string \<Rightarrow> nat option \<Rightarrow> delivery order_action" where
  "assertCurrentDelivery oid deliveryVersion =
     abind (aget (latestDelivery oid)) (\<lambda>row. case row of
       None \<Rightarrow> afail (Command_error ORDER_STATE_CONFLICT)
     | Some d \<Rightarrow>
         abind (refuse_unless (deliveryVersion \<noteq> None) INVALID_INPUT) (\<lambda>_.
         abind (refuse_unless (map_option int deliveryVersion = Some (dl_version d)) VERSION_CONFLICT) (\<lambda>_.
         abind (refuse_unless (dl_validation d = Valid) ORDER_STATE_CONFLICT) (\<lambda>_.
         areturn d))))"

definition resolve_holds :: "string \<Rightarrow> string \<Rightarrow> desk \<Rightarrow> desk" where
  "resolve_holds oid resolution s = s\<lparr>dk_holds :=
     map (\<lambda>h. if ho_order h = oid \<and> ho_resolution h = None then h\<lparr>ho_resolution := Some resolution\<rparr> else h) (dk_holds s)\<rparr>"

definition resolveReviewHold :: "string \<Rightarrow> string \<Rightarrow> bool order_action" where
  "resolveReviewHold oid resolution =
     abind (aget (\<lambda>s. list_ex (\<lambda>h. ho_order h = oid \<and> ho_resolution h = None) (dk_holds s))) (\<lambda>active.
     abind (amodify (resolve_holds oid resolution)) (\<lambda>_.
     areturn active))"

definition expire_cancellations :: "string \<Rightarrow> desk \<Rightarrow> desk" where
  "expire_cancellations oid s = s\<lparr>dk_cancellations :=
     map (\<lambda>(i, r). (i, if cn_order r = oid \<and> cn_status r = Requested then r\<lparr>cn_status := Expired\<rparr> else r)) (dk_cancellations s)\<rparr>"

fun announce_expiry :: "string \<Rightarrow> (string \<times> cancellation) list \<Rightarrow> unit order_action" where
  "announce_expiry oid [] = areturn ()"
| "announce_expiry oid ((i, r) # rest) =
     abind (event oid None ''CANCELLATION_EXPIRED'') (\<lambda>_.
     abind (enqueue (''notify:order.cancellation_resolved:'' @ i @ '':EXPIRED'') ''order.cancellation_resolved'' (cn_by r)) (\<lambda>_.
     announce_expiry oid rest))"

definition expirePendingCancellation :: "string \<Rightarrow> unit order_action" where
  "expirePendingCancellation oid =
     abind (aget (\<lambda>s. filter (\<lambda>(i, r). cn_order r = oid \<and> cn_status r = Requested) (dk_cancellations s))) (\<lambda>expired.
     abind (amodify (expire_cancellations oid)) (\<lambda>_.
     announce_expiry oid expired))"

definition view_delivery :: "int \<Rightarrow> delivery \<Rightarrow> desk \<Rightarrow> desk" where
  "view_delivery now d s = s\<lparr>dk_deliveries := map (\<lambda>e. if dl_order e = dl_order d \<and> dl_version e = dl_version d \<and> dl_viewed_at e = None
     then e\<lparr>dl_viewed_at := Some now\<rparr> else e) (dk_deliveries s)\<rparr>"

definition recordBuyerView :: "int \<Rightarrow> string \<Rightarrow> order \<Rightarrow> (bool \<times> bool) order_action" where
  "recordBuyerView now oid order =
     abind (aget (latestDelivery oid)) (\<lambda>row. case row of
       None \<Rightarrow> areturn (False, False)
     | Some d \<Rightarrow>
         if dl_viewed_at d \<noteq> None then areturn (False, False)
         else
           abind (amodify (view_delivery now d)) (\<lambda>_.
           abind (aget (\<lambda>s. find (\<lambda>h. ho_order h = oid \<and> ho_resolution h = None) (dk_holds s))) (\<lambda>hold.
           if (case hold of Some h \<Rightarrow> od_status order = DELIVERED \<and> ho_reason h = ''NO_BUYER_NOTIFICATION_EVIDENCE'' | None \<Rightarrow> False)
           then
             abind (resolveReviewHold oid ''BUYER_VIEWED'') (\<lambda>_.
             abind (update_order now oid (\<lambda>x. x\<lparr>od_review_due_at := Some (now + HOURS (reviewWindowHours (od_terms order)))\<rparr>)) (\<lambda>_.
             abind (event oid (Some (od_buyer order)) ''REVIEW_WINDOW_RESUMED'') (\<lambda>_.
             areturn (True, True))))
           else areturn (True, False))))"

section \<open>Refunds\<close>

definition agreed_amount :: "order \<Rightarrow> int" where
  "agreed_amount x = (case od_cancellation_refund x of Some r \<Rightarrow> r | None \<Rightarrow> od_amount x)"

text \<open>A pool's return ends a cancelled order at once; the other rails only ask for the refund.\<close>

definition returnPoolFunding :: "order_env \<Rightarrow> int \<Rightarrow> string \<Rightarrow> order \<Rightarrow> string order_action" where
  "returnPoolFunding env now oid order =
     abind (acheck (\<not> agreed_amount order < od_amount order) (Flow_error ''UNAVAILABLE'')) (\<lambda>_.
     abind (alift (on_poolReturn env oid)) (\<lambda>_.
     abind (aget (\<lambda>s. map_option od_status (mget (dk_orders s) oid))) (\<lambda>current.
     abind (if current = Some CANCELLED
            then update_order now oid (\<lambda>x. bump_order (x\<lparr>od_status := REFUNDED, od_payment := Pay_refunded\<rparr>)) else areturn ()) (\<lambda>_.
     abind (event oid None ''REFUND_SUCCEEDED'') (\<lambda>_.
     areturn ''READY'')))))"

definition queueCryptoRefund :: "order_env \<Rightarrow> string \<Rightarrow> order \<Rightarrow> string order_action" where
  "queueCryptoRefund env oid order =
     abind (acheck (\<not> agreed_amount order \<le> 0) (Flow_error ''INVALID_STATE'')) (\<lambda>_.
     alift (on_chainRefund env oid (agreed_amount order)))"

definition refund_operation :: "string \<Rightarrow> order \<Rightarrow> string \<times> int" where
  "refund_operation oid order =
     (let unusedHold = (if od_status order \<noteq> CANCELLED then od_performance_refund order else None);
          amount = (case unusedHold of Some n \<Rightarrow> n | None \<Rightarrow> agreed_amount order) in
      (''refund:'' @ oid @ (if unusedHold \<noteq> None then '':performance''
         else if od_cancellation_refund order \<noteq> None \<and> agreed_amount order < od_amount order then '':agreed'' else '':full''), amount))"

definition requestProviderRefund :: "order_env \<Rightarrow> int \<Rightarrow> string \<Rightarrow> order \<Rightarrow> string \<Rightarrow> string order_action" where
  "requestProviderRefund env now oid order reason =
     (case od_rail order of
        CRYPTO \<Rightarrow> queueCryptoRefund env oid order
      | POOL \<Rightarrow> returnPoolFunding env now oid order
      | MOCK_PROVIDER \<Rightarrow> (case on_funding env oid of
          None \<Rightarrow> afail (Flow_error ''INVALID_STATE'')
        | Some reference \<Rightarrow>
            let (operationId, amount) = refund_operation oid order in
            abind (acheck (\<not> amount \<le> 0) (Flow_error ''INVALID_STATE'')) (\<lambda>_.
            alift (on_providerRefund env operationId reference amount reason))))"

definition refundReasonFor :: "order_status \<Rightarrow> string" where
  "refundReasonFor st = (if st = DISPUTED then ''OPERATOR_RESOLUTION'' else ''BUYER_CANCELED_BEFORE_WORK'')"

text \<open>The callers' \<open>try\<close>: a refund that cannot be requested becomes a case for an operator, any other error is thrown on.\<close>

definition is_flow_error :: "exception_value \<Rightarrow> bool" where
  "is_flow_error e \<longleftrightarrow> (case e of Flow_error c \<Rightarrow> True | _ \<Rightarrow> False)"

definition try_refund :: "order_env \<Rightarrow> int \<Rightarrow> string \<Rightarrow> order \<Rightarrow> string \<Rightarrow> string \<Rightarrow> unit order_action" where
  "try_refund env now oid order reason actorId =
     acatch (requestProviderRefund env now oid order reason)
       (\<lambda>e. if is_flow_error e then openCase (Some oid) None ''REFUND_NOT_REQUESTED'' else afail e)
       (\<lambda>state. abind (event oid (Some actorId) ''REFUND_REQUESTED'') (\<lambda>_.
          if state = ''REJECTED'' then openCase (Some oid) None ''REFUND_REJECTED'' else areturn ()))"


end
