(* ===== verification/Orders.thy ===== *)
theory Orders
  imports Order_Tables
begin

text \<open>
  The commands on orders (\<open>src/modules/orders/commands.ts\<close>, \<open>amendments.ts\<close>), the operators' decision of a dispute
  (\<open>src/modules/admin/commands.ts\<close>) and the automatic approval of a delivery (\<open>src/modules/jobs/index.ts\<close>). A command reads the clock
  once; the id of a row it inserts is an argument.
\<close>

section \<open>Rows\<close>

definition url_pattern :: "string \<Rightarrow> bool" where
  "url_pattern u \<longleftrightarrow> take 7 u = ''http://'' \<or> take 8 u = ''https://''"

definition insert_delivery :: "delivery \<Rightarrow> unit order_action" where
  "insert_delivery d =
     abind (constraint (1 \<le> length (dl_body d) \<and> length (dl_body d) \<le> 12000)) (\<lambda>_.
     abind (constraint (case dl_url d of None \<Rightarrow> True | Some u \<Rightarrow> url_pattern u)) (\<lambda>_.
     abind (constraint (0 < dl_version d)) (\<lambda>_.
     abind (aget (\<lambda>s. list_ex (\<lambda>e. dl_order e = dl_order d \<and> dl_version e = dl_version d) (dk_deliveries s))) (\<lambda>taken.
     abind (constraint (\<not> taken)) (\<lambda>_.
     amodify (\<lambda>s. s\<lparr>dk_deliveries := dk_deliveries s @ [d]\<rparr>))))))"

definition insert_dispute :: "string \<Rightarrow> order_dispute \<Rightarrow> unit order_action" where
  "insert_dispute newId d =
     abind (constraint (10 \<le> length (ds_reason d) \<and> length (ds_reason d) \<le> 5000)) (\<lambda>_.
     abind (aget (\<lambda>s. list_ex (\<lambda>(i, e). ds_order e = ds_order d \<and> ds_open e) (dk_disputes s) \<or> mget (dk_disputes s) newId \<noteq> None)) (\<lambda>taken.
     abind (constraint (\<not> taken)) (\<lambda>_.
     amodify (\<lambda>s. s\<lparr>dk_disputes := mput newId d (dk_disputes s)\<rparr>))))"

definition insert_cancellation :: "string \<Rightarrow> cancellation \<Rightarrow> unit order_action" where
  "insert_cancellation newId r =
     abind (constraint (10 \<le> length (cn_reason r) \<and> length (cn_reason r) \<le> 5000 \<and> 0 \<le> cn_refund r \<and> cn_by r \<noteq> cn_counterparty r)) (\<lambda>_.
     abind (aget (\<lambda>s. list_ex (\<lambda>(i, e). cn_order e = cn_order r \<and> cn_status e = Requested) (dk_cancellations s)
       \<or> mget (dk_cancellations s) newId \<noteq> None)) (\<lambda>taken.
     abind (constraint (\<not> taken)) (\<lambda>_.
     amodify (\<lambda>s. s\<lparr>dk_cancellations := mput newId r (dk_cancellations s)\<rparr>))))"

definition insert_amendment :: "string \<Rightarrow> amendment \<Rightarrow> unit order_action" where
  "insert_amendment newId a =
     abind (constraint (10 \<le> length (am_reason a) \<and> length (am_reason a) \<le> 2000 \<and> am_by a \<noteq> am_counterparty a \<and> am_old a < am_new a)) (\<lambda>_.
     abind (aget (\<lambda>s. list_ex (\<lambda>(i, e). am_order e = am_order a \<and> am_status e = Requested) (dk_amendments s)
       \<or> mget (dk_amendments s) newId \<noteq> None)) (\<lambda>taken.
     abind (constraint (\<not> taken)) (\<lambda>_.
     amodify (\<lambda>s. s\<lparr>dk_amendments := mput newId a (dk_amendments s)\<rparr>))))"

text \<open>A decided request or proposal never changes again.\<close>

definition answer_cancellation :: "string \<Rightarrow> request_status \<Rightarrow> unit order_action" where
  "answer_cancellation rid status =
     abind (aget (\<lambda>s. mget (dk_cancellations s) rid)) (\<lambda>row. case row of
       None \<Rightarrow> areturn ()
     | Some r \<Rightarrow>
         abind (constraint (\<not> (cn_status r \<noteq> Requested \<and> status \<noteq> cn_status r))) (\<lambda>_.
         amodify (\<lambda>s. s\<lparr>dk_cancellations := mput rid (r\<lparr>cn_status := status\<rparr>) (dk_cancellations s)\<rparr>)))"

definition answer_amendment :: "int \<Rightarrow> string \<Rightarrow> request_status \<Rightarrow> unit order_action" where
  "answer_amendment now aid status =
     abind (aget (\<lambda>s. mget (dk_amendments s) aid)) (\<lambda>row. case row of
       None \<Rightarrow> areturn ()
     | Some a \<Rightarrow>
         abind (constraint (am_status a = Requested)) (\<lambda>_.
         amodify (\<lambda>s. s\<lparr>dk_amendments := mput aid (a\<lparr>am_status := status, am_responded_at := Some now\<rparr>) (dk_amendments s)\<rparr>)))"

section \<open>Commands on an order\<close>

definition orderFor :: "actor \<Rightarrow> string \<Rightarrow> order order_action" where
  "orderFor actor oid =
     abind (aget (\<lambda>s. mget (dk_orders s) oid)) (\<lambda>row. case row of
       None \<Rightarrow> afail (Command_error FORBIDDEN)
     | Some x \<Rightarrow>
         abind (refuse_unless (od_buyer x = ac_id actor \<or> od_creator x = ac_id actor) FORBIDDEN) (\<lambda>_.
         areturn x))"

definition withOrder :: "actor \<Rightarrow> form \<Rightarrow> (string \<Rightarrow> order \<Rightarrow> command_result order_action) \<Rightarrow> command_result order_action" where
  "withOrder actor form handler =
     abind (read (uuid form ''order_id'')) (\<lambda>oid.
     abind (orderFor actor oid) (\<lambda>x.
     abind (read (expectedVersion form ''expected_version'')) (\<lambda>expected.
     abind (refuse_unless (\<not> (expected \<noteq> None \<and> Some (od_version x) \<noteq> map_option int expected)) VERSION_CONFLICT) (\<lambda>_.
     handler oid x))))"

definition is_buyer :: "actor \<Rightarrow> order \<Rightarrow> bool" where
  "is_buyer actor x \<longleftrightarrow> ac_id actor = od_buyer x"

definition is_creator :: "actor \<Rightarrow> order \<Rightarrow> bool" where
  "is_creator actor x \<longleftrightarrow> ac_id actor = od_creator x"

definition deliveryVersionOf :: "form \<Rightarrow> failure + nat option" where
  "deliveryVersionOf form =
     (let v = field_value form ''delivery_version'' in
      if v = [] then Inr None else ebind (integer v 1 1000) (\<lambda>n. Inr (Some n)))"

definition counterpartyOf :: "order \<Rightarrow> actor \<Rightarrow> string" where
  "counterpartyOf x actor = (if ac_id actor = od_buyer x then od_creator x else od_buyer x)"

definition order_path :: "string \<Rightarrow> string" where
  "order_path oid = ''/orders/'' @ oid"

definition order_done :: "string \<Rightarrow> command_result order_action" where
  "order_done oid = areturn (Command_result (order_path oid) [] None)"

definition sandboxPay :: "command_result order_action" where
  "sandboxPay = afail (Command_error FORBIDDEN)"

definition submitBrief :: "int \<Rightarrow> actor \<Rightarrow> form \<Rightarrow> command_result order_action" where
  "submitBrief now actor form = withOrder actor form (\<lambda>oid x.
     abind (refuse_unless (is_buyer actor x) FORBIDDEN) (\<lambda>_.
     abind (refuse_unless (od_status x \<in> {AWAITING_PAYMENT, FUNDED}) ORDER_STATE_CONFLICT) (\<lambda>_.
     abind (refuse_unless (od_brief_ready_at x = None) DOMAIN_RULE) (\<lambda>_.
     abind (read (text_field form ''brief'' True 12000)) (\<lambda>brief.
     abind (refuse_unless (\<not> length brief < MIN_DELIVERY_NOTE_CHARS) BRIEF_INCOMPLETE) (\<lambda>_.
     abind (update_order now oid (\<lambda>x. x\<lparr>od_brief := brief, od_brief_ready_at := Some now\<rparr>)) (\<lambda>_.
     abind (recomputeWorkClock now oid) (\<lambda>_.
     abind (event oid (Some (ac_id actor)) ''BRIEF_SUBMITTED'') (\<lambda>_.
     order_done oid)))))))))"

definition start_work :: "int \<Rightarrow> actor \<Rightarrow> form \<Rightarrow> command_result order_action" where
  "start_work now actor form = withOrder actor form (\<lambda>oid x.
     abind (refuse_unless (is_creator actor x) FORBIDDEN) (\<lambda>_.
     abind (refuse_unless (od_status x = FUNDED) ORDER_STATE_CONFLICT) (\<lambda>_.
     abind (refuse_unless (od_brief_ready_at x \<noteq> None) BRIEF_INCOMPLETE) (\<lambda>_.
     abind (refuse_unless (\<not> ot_digital (od_terms x)) DOMAIN_RULE) (\<lambda>_.
     abind (update_order now oid (\<lambda>x. bump_order (x\<lparr>od_status := IN_PROGRESS\<rparr>))) (\<lambda>_.
     abind (event oid (Some (ac_id actor)) ''WORK_STARTED'') (\<lambda>_.
     order_done oid)))))))"

text \<open>\<open>parseAssetIds\<close>: ids separated by blanks and commas, each once.\<close>

definition MAX_ASSETS_PER_DELIVERY :: nat where "MAX_ASSETS_PER_DELIVERY = 10"

definition parseAssetIds :: "string \<Rightarrow> failure + string list" where
  "parseAssetIds v =
     (let words = filter (\<lambda>w. w \<noteq> []) (js_split (CHR '','') (map (\<lambda>c. if js_space c then CHR '','' else c) v));
          ids = foldl (\<lambda>xs w. if js_lower w \<in> set xs then xs else xs @ [js_lower w]) [] words in
      ebind (echeck (list_all UUID_PATTERN ids) (Refused INVALID_INPUT)) (\<lambda>_.
      ebind (echeck (\<not> length ids > MAX_ASSETS_PER_DELIVERY) (Refused INVALID_INPUT)) (\<lambda>_.
      Inr ids)))"

fun lockDeliveryAssets :: "order_env \<Rightarrow> string \<Rightarrow> string \<Rightarrow> string list \<Rightarrow> unit order_action" where
  "lockDeliveryAssets env oid creatorId [] = areturn ()"
| "lockDeliveryAssets env oid creatorId (i # rest) =
     abind (alift (on_asset env oid creatorId i)) (\<lambda>_. lockDeliveryAssets env oid creatorId rest)"

definition delivery_url :: "order_env \<Rightarrow> string \<Rightarrow> failure + string option" where
  "delivery_url env v = (if v = [] then Inr None
     else (case on_urlOf env v of
       None \<Rightarrow> Inl (Refused INVALID_INPUT)
     | Some (protocol, href) \<Rightarrow>
         ebind (echeck (\<not> (protocol \<noteq> ''http:'' \<and> protocol \<noteq> ''https:'')) (Refused INVALID_INPUT)) (\<lambda>_. Inr (Some href))))"

definition delivery_body :: "string \<Rightarrow> bool \<Rightarrow> string list \<Rightarrow> string" where
  "delivery_body body published assetIds = (if body \<noteq> [] then body else if published then ''(published post)''
     else if assetIds \<noteq> [] then ''(see attached files)'' else ''(see link)'')"

definition deliver :: "order_env \<Rightarrow> int \<Rightarrow> actor \<Rightarrow> form \<Rightarrow> command_result order_action" where
  "deliver env now actor form = withOrder actor form (\<lambda>oid x.
     abind (refuse_unless (is_creator actor x) FORBIDDEN) (\<lambda>_.
     abind (refuse_unless (od_status x \<noteq> FUNDED) ORDER_STATE_CONFLICT) (\<lambda>_.
     abind (refuse_unless (od_status x \<in> {IN_PROGRESS, REVISION_REQUESTED}) ORDER_STATE_CONFLICT) (\<lambda>_.
     abind (refuse_unless (\<not> ot_digital (od_terms x)) DOMAIN_RULE) (\<lambda>_.
     abind (read (text_field form ''body'' False 12000)) (\<lambda>body.
     abind (read (text_field form ''url'' False 1000)) (\<lambda>urlValue.
     abind (read (delivery_url env urlValue)) (\<lambda>link.
     abind (read (text_field form ''asset_ids'' False 1000)) (\<lambda>assetText.
     abind (read (parseAssetIds assetText)) (\<lambda>assetIds.
     abind (case ot_publish (od_terms x) of
              None \<Rightarrow> areturn None
            | Some terms \<Rightarrow> abind (alift (on_publication env terms form (od_work_start_at x) (od_delivery_due_at x) now)) (\<lambda>postUrl. areturn (Some postUrl)))
       (\<lambda>proof.
     let url = (case proof of Some postUrl \<Rightarrow> Some postUrl | None \<Rightarrow> link) in
     abind (refuse_unless (\<not> (url = None \<and> assetIds = [] \<and> length body < MIN_DELIVERY_NOTE_CHARS)) INVALID_INPUT) (\<lambda>_.
     abind (lockDeliveryAssets env oid (ac_id actor) assetIds) (\<lambda>_.
     abind (aget (\<lambda>s. (case latestDelivery oid s of Some d \<Rightarrow> dl_version d | None \<Rightarrow> 0) + 1)) (\<lambda>version.
     abind (insert_delivery \<lparr>dl_order = oid, dl_version = version, dl_body = delivery_body body (proof \<noteq> None) assetIds, dl_url = url,
        dl_validation = Valid, dl_submitted_by = ac_id actor, dl_viewed_at = None, dl_assets = assetIds\<rparr>) (\<lambda>_.
     abind (resolveReviewHold oid ''SUPERSEDED'') (\<lambda>_.
     abind (expirePendingCancellation oid) (\<lambda>_.
     abind (update_order now oid (\<lambda>y. bump_order (y\<lparr>od_status := DELIVERED, od_review_due_at := Some (now + HOURS (reviewWindowHours (od_terms x))),
        od_revision_due_at := None\<rparr>))) (\<lambda>_.
     abind (event oid (Some (ac_id actor)) ''DELIVERED'') (\<lambda>_.
     abind (enqueue (''notify:order.delivered:'' @ oid @ '':v'' @ show_nat (nat version)) ''order.delivered'' (od_buyer x)) (\<lambda>_.
     order_done oid))))))))))))))))))))"

definition revision :: "int \<Rightarrow> actor \<Rightarrow> form \<Rightarrow> command_result order_action" where
  "revision now actor form = withOrder actor form (\<lambda>oid x.
     abind (refuse_unless (is_buyer actor x) FORBIDDEN) (\<lambda>_.
     abind (refuse_unless (od_status x = DELIVERED) ORDER_STATE_CONFLICT) (\<lambda>_.
     abind (refuse_unless (\<not> ot_digital (od_terms x)) DOMAIN_RULE) (\<lambda>_.
     abind (read (deliveryVersionOf form)) (\<lambda>version.
     abind (assertCurrentDelivery oid version) (\<lambda>d.
     abind (refuse_unless (\<not> (case od_review_due_at x of Some due \<Rightarrow> now > due | None \<Rightarrow> False)) DOMAIN_RULE) (\<lambda>_.
     abind (refuse_unless (\<not> od_revision_count x \<ge> revisionLimit (od_terms x)) REVISION_LIMIT_REACHED) (\<lambda>_.
     abind (read (text_field form ''body'' True 5000)) (\<lambda>body.
     abind (update_order now oid (\<lambda>y. bump_order (y\<lparr>od_status := REVISION_REQUESTED, od_revision_count := od_revision_count y + 1,
        od_revision_due_at := Some (now + HOURS REVISION_TURNAROUND_HOURS)\<rparr>))) (\<lambda>_.
     abind (resolveReviewHold oid ''BUYER_ACTED'') (\<lambda>_.
     abind (expirePendingCancellation oid) (\<lambda>_.
     abind (event oid (Some (ac_id actor)) ''REVISION_REQUESTED'') (\<lambda>_.
     abind (enqueue (''notify:order.revision_requested:'' @ oid @ '':v'' @ show_nat (nat (dl_version d))) ''order.revision_requested'' (od_creator x)) (\<lambda>_.
     order_done oid))))))))))))))"

definition approveOrder :: "int \<Rightarrow> string \<Rightarrow> order \<Rightarrow> string option \<Rightarrow> string \<Rightarrow> unit order_action" where
  "approveOrder now oid x actorId kind =
     abind (update_order now oid (\<lambda>y. bump_order (y\<lparr>od_status := APPROVED, od_approved_at := Some now, od_settlement := Ready\<rparr>))) (\<lambda>_.
     abind (resolveReviewHold oid ''BUYER_ACTED'') (\<lambda>_.
     abind (expirePendingCancellation oid) (\<lambda>_.
     abind (event oid actorId kind) (\<lambda>_.
     enqueue (''notify:order.approved:'' @ oid) ''order.approved'' (od_creator x)))))"

definition approve :: "int \<Rightarrow> actor \<Rightarrow> form \<Rightarrow> command_result order_action" where
  "approve now actor form = withOrder actor form (\<lambda>oid x.
     abind (refuse_unless (is_buyer actor x) FORBIDDEN) (\<lambda>_.
     abind (refuse_unless (od_status x = DELIVERED) ORDER_STATE_CONFLICT) (\<lambda>_.
     abind (read (deliveryVersionOf form)) (\<lambda>version.
     abind (assertCurrentDelivery oid version) (\<lambda>d.
     abind (approveOrder now oid x (Some (ac_id actor)) ''ORDER_APPROVED'') (\<lambda>_.
     order_done oid))))))"

definition dispute :: "order_env \<Rightarrow> int \<Rightarrow> string \<Rightarrow> actor \<Rightarrow> form \<Rightarrow> command_result order_action" where
  "dispute env now newId actor form = withOrder actor form (\<lambda>oid x.
     abind (refuse_unless (is_buyer actor x \<or> is_creator actor x) FORBIDDEN) (\<lambda>_.
     abind (refuse_unless (od_status x \<in> {IN_PROGRESS, DELIVERED, REVISION_REQUESTED}) ORDER_STATE_CONFLICT) (\<lambda>_.
     abind (read (text_field form ''body'' True 5000)) (\<lambda>reason.
     abind (refuse_unless (\<not> length reason < 10) INVALID_INPUT) (\<lambda>_.
     abind (insert_dispute newId \<lparr>ds_order = oid, ds_by = ac_id actor, ds_reason = reason, ds_open = True, ds_outcome = None\<rparr>) (\<lambda>_.
     abind (alift (on_freeze env oid x newId True)) (\<lambda>_.
     abind (update_order now oid (\<lambda>y. bump_order (y\<lparr>od_status := DISPUTED, od_status_before_dispute := Some (od_status x)\<rparr>))) (\<lambda>_.
     abind (resolveReviewHold oid ''BUYER_ACTED'') (\<lambda>_.
     abind (expirePendingCancellation oid) (\<lambda>_.
     abind (event oid (Some (ac_id actor)) ''DISPUTE_OPENED'') (\<lambda>_.
     abind (enqueue (''notify:dispute.opened:'' @ oid) ''dispute.opened'' (counterpartyOf x actor)) (\<lambda>_.
     order_done oid))))))))))))"

definition cancel_order :: "order_env \<Rightarrow> int \<Rightarrow> actor \<Rightarrow> form \<Rightarrow> command_result order_action" where
  "cancel_order env now actor form = withOrder actor form (\<lambda>oid x.
     abind (refuse_unless (is_buyer actor x \<or> is_creator actor x) FORBIDDEN) (\<lambda>_.
     abind (refuse_unless (od_status x \<in> {AWAITING_PAYMENT, FUNDED}) ORDER_STATE_CONFLICT) (\<lambda>_.
     abind (if od_status x = AWAITING_PAYMENT then alift (on_cancelFunding env oid) else areturn ()) (\<lambda>_.
     abind (update_order now oid (\<lambda>y. bump_order (y\<lparr>od_status := CANCELLED, od_cancelled_at := Some now,
        od_payment := (if od_payment y = Pay_succeeded then Pay_refund_pending else od_payment y)\<rparr>))) (\<lambda>_.
     abind (event oid (Some (ac_id actor)) ''ORDER_CANCELLED'') (\<lambda>_.
     abind (if od_status x = FUNDED then try_refund env now oid x (refundReasonFor CANCELLED) (ac_id actor) else areturn ()) (\<lambda>_.
     order_done oid)))))))"


section \<open>Cancellation by agreement\<close>

definition refund_field :: "form \<Rightarrow> failure + int" where
  "refund_field form = ebind (text_field form ''refund_amount'' True 12000) (\<lambda>v. if v = ''0'' then Inr 0 else money v)"

definition working :: "order_status \<Rightarrow> bool" where
  "working st \<longleftrightarrow> st \<in> {IN_PROGRESS, DELIVERED, REVISION_REQUESTED}"

definition requestCancellation :: "string \<Rightarrow> actor \<Rightarrow> form \<Rightarrow> command_result order_action" where
  "requestCancellation newId actor form = withOrder actor form (\<lambda>oid x.
     abind (refuse_unless (is_buyer actor x \<or> is_creator actor x) FORBIDDEN) (\<lambda>_.
     abind (refuse_unless (working (od_status x)) ORDER_STATE_CONFLICT) (\<lambda>_.
     abind (read (refund_field form)) (\<lambda>refund.
     abind (refuse_unless (\<not> refund > od_amount x) INVALID_INPUT) (\<lambda>_.
     abind (read (text_field form ''reason'' True 5000)) (\<lambda>reason.
     abind (refuse_unless (\<not> length reason < 10) INVALID_INPUT) (\<lambda>_.
     abind (aget (\<lambda>s. list_ex (\<lambda>(i, r). cn_order r = oid \<and> cn_status r = Requested) (dk_cancellations s))) (\<lambda>existing.
     abind (refuse_unless (\<not> existing) ORDER_STATE_CONFLICT) (\<lambda>_.
     abind (insert_cancellation newId \<lparr>cn_order = oid, cn_by = ac_id actor, cn_counterparty = counterpartyOf x actor, cn_reason = reason,
        cn_refund = refund, cn_order_version = od_version x, cn_status = Requested\<rparr>) (\<lambda>_.
     abind (event oid (Some (ac_id actor)) ''CANCELLATION_REQUESTED'') (\<lambda>_.
     abind (enqueue (''notify:order.cancellation_requested:'' @ newId) ''order.cancellation_requested'' (counterpartyOf x actor)) (\<lambda>_.
     areturn (Command_result (order_path oid) [] (Some newId))))))))))))))"

fun announce :: "string \<Rightarrow> string \<Rightarrow> string list \<Rightarrow> unit order_action" where
  "announce prefix template [] = areturn ()"
| "announce prefix template (recipient # rest) =
     abind (enqueue (prefix @ recipient) template recipient) (\<lambda>_. announce prefix template rest)"

definition accept_cancellation :: "order_env \<Rightarrow> int \<Rightarrow> actor \<Rightarrow> string \<Rightarrow> cancellation \<Rightarrow> string \<Rightarrow> order \<Rightarrow> command_result order_action" where
  "accept_cancellation env now actor rid r oid x =
     abind (answer_cancellation rid Accepted) (\<lambda>_.
     abind (resolveReviewHold oid ''BUYER_ACTED'') (\<lambda>_.
     abind (update_order now oid (\<lambda>y. bump_order (y\<lparr>od_status := CANCELLED, od_cancelled_at := Some now,
        od_cancellation_refund := Some (cn_refund r),
        od_payment := (if cn_refund r > 0 then Pay_refund_pending else od_payment x),
        od_settlement := (if cn_refund r < od_amount x then Ready else Not_ready)\<rparr>))) (\<lambda>_.
     abind (event oid (Some (ac_id actor)) ''CANCELLATION_ACCEPTED'') (\<lambda>_.
     abind (if cn_refund r > 0 then
              abind (aget (\<lambda>s. mget (dk_orders s) oid)) (\<lambda>fresh. case fresh of
                None \<Rightarrow> afail Other_error
              | Some y \<Rightarrow> try_refund env now oid y ''MUTUAL_CANCELLATION'' (ac_id actor))
            else areturn ()) (\<lambda>_.
     abind (announce (''notify:order.cancellation_resolved:'' @ rid @ '':'') ''order.cancellation_resolved'' [cn_by r, ac_id actor]) (\<lambda>_.
     order_done oid))))))"

definition respondCancellation :: "order_env \<Rightarrow> int \<Rightarrow> actor \<Rightarrow> form \<Rightarrow> command_result order_action" where
  "respondCancellation env now actor form =
     abind (read (uuid form ''request_id'')) (\<lambda>rid.
     abind (read (text_field form ''decision'' True 12000)) (\<lambda>decision.
     abind (refuse_unless (decision \<in> {''accept'', ''reject'', ''withdraw''}) INVALID_INPUT) (\<lambda>_.
     abind (aget (\<lambda>s. mget (dk_cancellations s) rid)) (\<lambda>row. case row of
       None \<Rightarrow> afail (Command_error FORBIDDEN)
     | Some r \<Rightarrow>
         abind (refuse_unless (\<not> (ac_id actor \<noteq> cn_counterparty r \<and> ac_id actor \<noteq> cn_by r)) FORBIDDEN) (\<lambda>_.
         abind (orderFor actor (cn_order r)) (\<lambda>x.
         abind (refuse_unless (cn_status r = Requested) ORDER_STATE_CONFLICT) (\<lambda>_.
         if decision = ''withdraw'' then
           abind (refuse_unless (ac_id actor = cn_by r) FORBIDDEN) (\<lambda>_.
           abind (answer_cancellation rid Withdrawn) (\<lambda>_.
           abind (event (cn_order r) (Some (ac_id actor)) ''CANCELLATION_WITHDRAWN'') (\<lambda>_.
           order_done (cn_order r))))
         else
           abind (refuse_unless (ac_id actor = cn_counterparty r) FORBIDDEN) (\<lambda>_.
           abind (refuse_unless (\<not> (od_version x \<noteq> cn_order_version r \<or> \<not> working (od_status x))) VERSION_CONFLICT) (\<lambda>_.
           if decision = ''reject'' then
             abind (answer_cancellation rid Rejected) (\<lambda>_.
             abind (event (cn_order r) (Some (ac_id actor)) ''CANCELLATION_REJECTED'') (\<lambda>_.
             abind (enqueue (''notify:order.cancellation_resolved:'' @ rid) ''order.cancellation_resolved'' (cn_by r)) (\<lambda>_.
             order_done (cn_order r))))
           else accept_cancellation env now actor rid r (cn_order r) x)))))))))"

definition refund_order :: "order_env \<Rightarrow> int \<Rightarrow> actor \<Rightarrow> form \<Rightarrow> command_result order_action" where
  "refund_order env now actor form = withOrder actor form (\<lambda>oid x.
     abind (refuse_unless (\<not> (''finance'' \<notin> set (ac_roles actor) \<and> \<not> (ac_id actor = od_buyer x \<and> od_status x = CANCELLED))) FORBIDDEN) (\<lambda>_.
     abind (refuse_unless (od_status x \<in> {CANCELLED, DISPUTED} \<and> od_payment x = Pay_refund_pending) ORDER_STATE_CONFLICT) (\<lambda>_.
     abind (requestProviderRefund env now oid x
       (if od_cancellation_refund x \<noteq> None then ''MUTUAL_CANCELLATION'' else refundReasonFor (od_status x))) (\<lambda>state.
     abind (refuse_unless (state \<noteq> ''REJECTED'') INVALID_INPUT) (\<lambda>_.
     abind (event oid (Some (ac_id actor)) ''REFUND_REQUESTED'') (\<lambda>_.
     order_done oid))))))"

section \<open>Reviews, messages, views\<close>

definition review_order :: "actor \<Rightarrow> form \<Rightarrow> command_result order_action" where
  "review_order actor form = withOrder actor form (\<lambda>oid x.
     abind (refuse_unless (is_buyer actor x) FORBIDDEN) (\<lambda>_.
     abind (refuse_unless (od_status x = COMPLETED) ORDER_STATE_CONFLICT) (\<lambda>_.
     abind (read (text_field form ''rating'' True 12000)) (\<lambda>ratingText.
     abind (read (integer ratingText 1 5)) (\<lambda>rating.
     abind (read (text_field form ''body'' True 3000)) (\<lambda>body.
     abind (constraint (1 \<le> rating \<and> rating \<le> 5 \<and> 1 \<le> length body \<and> length body \<le> 3000)) (\<lambda>_.
     abind (aget (\<lambda>s. list_ex (\<lambda>r. rv_order r = oid \<and> rv_reviewer r = ac_id actor) (dk_reviews s))) (\<lambda>reviewed.
     if reviewed then order_done oid
     else
       abind (amodify (\<lambda>s. s\<lparr>dk_reviews := dk_reviews s @ [\<lparr>rv_order = oid, rv_reviewer = ac_id actor, rv_rating = rating, rv_body = body\<rparr>]\<rparr>)) (\<lambda>_.
       abind (event oid (Some (ac_id actor)) ''REVIEW_SUBMITTED'') (\<lambda>_.
       order_done oid))))))))))"

definition send_message :: "actor \<Rightarrow> form \<Rightarrow> command_result order_action" where
  "send_message actor form = withOrder actor form (\<lambda>oid x.
     abind (read (text_field form ''body'' True 5000)) (\<lambda>body.
     abind (constraint (1 \<le> length body \<and> length body \<le> 5000)) (\<lambda>_.
     abind (amodify (\<lambda>s. s\<lparr>dk_messages := dk_messages s @ [\<lparr>ms_order = oid, ms_sender = ac_id actor, ms_body = body\<rparr>]\<rparr>)) (\<lambda>_.
     order_done oid))))"

definition markDeliveryViewed :: "int \<Rightarrow> actor \<Rightarrow> form \<Rightarrow> command_result order_action" where
  "markDeliveryViewed now actor form = withOrder actor form (\<lambda>oid x.
     if \<not> is_buyer actor x then order_done oid
     else abind (recordBuyerView now oid x) (\<lambda>_. order_done oid))"

section \<open>Amendments\<close>

definition MAX_EXTENSION_DAYS :: int where "MAX_EXTENSION_DAYS = 90"
definition DAY_MS :: int where "DAY_MS = 86400000"

definition currentDeadline :: "order \<Rightarrow> (deadline_kind \<times> int) option" where
  "currentDeadline x =
     (if od_status x \<in> {FUNDED, IN_PROGRESS} \<and> od_delivery_due_at x \<noteq> None then Some (Delivery_deadline, the (od_delivery_due_at x))
      else if od_status x = REVISION_REQUESTED \<and> od_revision_due_at x \<noteq> None then Some (Revision_deadline, the (od_revision_due_at x))
      else None)"

definition due_at :: "deadline_kind \<Rightarrow> order \<Rightarrow> int option" where
  "due_at kind x = (case kind of Delivery_deadline \<Rightarrow> od_delivery_due_at x | Revision_deadline \<Rightarrow> od_revision_due_at x)"

definition requestDeadlineExtension :: "order_env \<Rightarrow> int \<Rightarrow> string \<Rightarrow> actor \<Rightarrow> form \<Rightarrow> command_result order_action" where
  "requestDeadlineExtension env now newId actor form =
     abind (read (uuid form ''order_id'')) (\<lambda>oid.
     abind (orderFor actor oid) (\<lambda>x.
     abind (refuse_unless (\<not> ot_digital (od_terms x)) DOMAIN_RULE) (\<lambda>_.
     (case currentDeadline x of
        None \<Rightarrow> afail (Command_error ORDER_STATE_CONFLICT)
      | Some (kind, dueAt) \<Rightarrow>
          abind (read (instantField (on_dateOf env) form ''new_due_at'')) (\<lambda>newDue.
          abind (refuse_unless (\<not> newDue \<le> dueAt) INVALID_INPUT) (\<lambda>_.
          abind (refuse_unless (\<not> newDue \<le> now + 3600000) INVALID_INPUT) (\<lambda>_.
          abind (refuse_unless (\<not> newDue - dueAt > MAX_EXTENSION_DAYS * DAY_MS) INVALID_INPUT) (\<lambda>_.
          abind (read (text_field form ''reason'' True 2000)) (\<lambda>reason.
          abind (refuse_unless (\<not> length reason < 10) INVALID_INPUT) (\<lambda>_.
          abind (aget (\<lambda>s. list_ex (\<lambda>(i, a). am_order a = oid \<and> am_status a = Requested) (dk_amendments s))) (\<lambda>waiting.
          abind (refuse_unless (\<not> waiting) ORDER_STATE_CONFLICT) (\<lambda>_.
          abind (insert_amendment newId \<lparr>am_order = oid, am_deadline = kind, am_by = ac_id actor, am_counterparty = counterpartyOf x actor,
             am_reason = reason, am_old = dueAt, am_new = newDue, am_order_version = od_version x, am_status = Requested,
             am_responded_at = None\<rparr>) (\<lambda>_.
          abind (event oid (Some (ac_id actor)) ''DEADLINE_EXTENSION_REQUESTED'') (\<lambda>_.
          abind (enqueue (''notify:order.deadline_extension_requested:'' @ newId) ''order.deadline_extension_requested'' (counterpartyOf x actor)) (\<lambda>_.
          areturn (Command_result (order_path oid) [] (Some newId)))))))))))))))))"

definition applyAcceptedExtension :: "int \<Rightarrow> string \<Rightarrow> string \<Rightarrow> deadline_kind \<Rightarrow> int \<Rightarrow> unit order_action" where
  "applyAcceptedExtension now oid aid kind newDue =
     abind (answer_amendment now aid Accepted) (\<lambda>_.
     (case kind of
        Delivery_deadline \<Rightarrow> update_order now oid (\<lambda>y. bump_order (y\<lparr>od_delivery_due_at := Some newDue\<rparr>))
      | Revision_deadline \<Rightarrow> update_order now oid (\<lambda>y. bump_order (y\<lparr>od_revision_due_at := Some newDue\<rparr>))))"

definition respondDeadlineExtension :: "int \<Rightarrow> actor \<Rightarrow> form \<Rightarrow> command_result order_action" where
  "respondDeadlineExtension now actor form =
     abind (read (uuid form ''amendment_id'')) (\<lambda>aid.
     abind (read (text_field form ''decision'' True 12000)) (\<lambda>decision.
     abind (refuse_unless (decision \<in> {''accept'', ''reject'', ''withdraw''}) INVALID_INPUT) (\<lambda>_.
     abind (aget (\<lambda>s. mget (dk_amendments s) aid)) (\<lambda>row. case row of
       None \<Rightarrow> afail (Command_error FORBIDDEN)
     | Some a \<Rightarrow>
         abind (refuse_unless (\<not> (ac_id actor \<noteq> am_by a \<and> ac_id actor \<noteq> am_counterparty a)) FORBIDDEN) (\<lambda>_.
         abind (orderFor actor (am_order a)) (\<lambda>x.
         abind (refuse_unless (am_status a = Requested) ORDER_STATE_CONFLICT) (\<lambda>_.
         if decision = ''withdraw'' then
           abind (refuse_unless (ac_id actor = am_by a) FORBIDDEN) (\<lambda>_.
           abind (answer_amendment now aid Withdrawn) (\<lambda>_.
           abind (event (am_order a) (Some (ac_id actor)) ''DEADLINE_EXTENSION_WITHDRAWN'') (\<lambda>_.
           order_done (am_order a))))
         else
           abind (refuse_unless (ac_id actor = am_counterparty a) FORBIDDEN) (\<lambda>_.
           if decision = ''reject'' then
             abind (answer_amendment now aid Rejected) (\<lambda>_.
             abind (event (am_order a) (Some (ac_id actor)) ''DEADLINE_EXTENSION_REJECTED'') (\<lambda>_.
             abind (enqueue (''notify:order.deadline_extension_resolved:'' @ aid) ''order.deadline_extension_resolved'' (am_by a)) (\<lambda>_.
             order_done (am_order a))))
           else
             abind (refuse_unless (map_option fst (currentDeadline x) = Some (am_deadline a) \<and> due_at (am_deadline a) x = Some (am_old a)) VERSION_CONFLICT) (\<lambda>_.
             abind (refuse_unless (\<not> am_new a \<le> now) DOMAIN_RULE) (\<lambda>_.
             abind (applyAcceptedExtension now (am_order a) aid (am_deadline a) (am_new a)) (\<lambda>_.
             abind (event (am_order a) (Some (ac_id actor)) ''DEADLINE_EXTENDED'') (\<lambda>_.
             abind (enqueue (''notify:order.deadline_extension_resolved:'' @ aid) ''order.deadline_extension_resolved'' (am_by a)) (\<lambda>_.
             order_done (am_order a))))))))))))))"

section \<open>Operators and the clock\<close>

definition set_dispute :: "string \<Rightarrow> string \<Rightarrow> desk \<Rightarrow> desk" where
  "set_dispute did outcome s = (case mget (dk_disputes s) did of None \<Rightarrow> s
     | Some d \<Rightarrow> s\<lparr>dk_disputes := mput did (d\<lparr>ds_open := False, ds_outcome := Some outcome\<rparr>) (dk_disputes s)\<rparr>)"

definition decide_refund :: "order_env \<Rightarrow> int \<Rightarrow> actor \<Rightarrow> form \<Rightarrow> string \<Rightarrow> string \<Rightarrow> order \<Rightarrow> unit order_action" where
  "decide_refund env now actor form outcome oid x =
     abind (refuse_unless (od_payment x = Pay_succeeded) ORDER_STATE_CONFLICT) (\<lambda>_.
     abind (read (if outcome = ''REFUND_FULL'' then Inr (od_amount x) else ebind (text_field form ''refund_amount'' True 12000) money)) (\<lambda>refund.
     abind (refuse_unless (\<not> (refund \<le> 0 \<or> refund > od_amount x)) INVALID_INPUT) (\<lambda>_.
     abind (refuse_unless (\<not> (outcome = ''REFUND_PARTIAL'' \<and> refund = od_amount x)) INVALID_INPUT) (\<lambda>_.
     abind (update_order now oid (\<lambda>y. bump_order (y\<lparr>od_status := CANCELLED, od_cancelled_at := Some now, od_status_before_dispute := None,
        od_cancellation_refund := (if outcome = ''REFUND_PARTIAL'' then Some refund else None), od_payment := Pay_refund_pending,
        od_settlement := (if outcome = ''REFUND_PARTIAL'' then Ready else Not_ready)\<rparr>))) (\<lambda>_.
     abind (aget (\<lambda>s. mget (dk_orders s) oid)) (\<lambda>fresh. case fresh of
       None \<Rightarrow> afail Other_error
     | Some y \<Rightarrow> try_refund env now oid y ''OPERATOR_RESOLUTION'' (ac_id actor)))))))"

definition resolveDispute :: "order_env \<Rightarrow> int \<Rightarrow> actor \<Rightarrow> form \<Rightarrow> command_result order_action" where
  "resolveDispute env now actor form =
     abind (read (uuid form ''dispute_id'')) (\<lambda>did.
     abind (read (text_field form ''outcome'' True 12000)) (\<lambda>outcome.
     abind (refuse_unless (outcome \<in> {''RESUME'', ''APPROVE'', ''REFUND_FULL'', ''REFUND_PARTIAL''}) INVALID_INPUT) (\<lambda>_.
     abind (read (requireRole actor (if outcome = ''RESUME'' then [''finance'', ''support'', ''admin''] else [''finance'', ''admin'']))) (\<lambda>_.
     abind (read (reasonOf form)) (\<lambda>reason.
     abind (aget (\<lambda>s. mget (dk_disputes s) did)) (\<lambda>row. case row of
       None \<Rightarrow> afail (Command_error NOT_FOUND)
     | Some d \<Rightarrow>
         abind (aget (\<lambda>s. mget (dk_orders s) (ds_order d))) (\<lambda>found. case found of
           None \<Rightarrow> afail (Command_error NOT_FOUND)
         | Some x \<Rightarrow>
             abind (refuse_unless (ds_open d) ORDER_STATE_CONFLICT) (\<lambda>_.
             abind (refuse_unless (od_status x = DISPUTED) ORDER_STATE_CONFLICT) (\<lambda>_.
             abind (read (expectedVersion form ''expected_version'')) (\<lambda>expected.
             abind (refuse_unless (\<not> (expected \<noteq> None \<and> Some (od_version x) \<noteq> map_option int expected)) VERSION_CONFLICT) (\<lambda>_.
             abind (alift (on_freeze env (ds_order d) x did False)) (\<lambda>_.
             abind (if outcome = ''RESUME'' then
                      let resumeTo = (case od_status_before_dispute x of Some st \<Rightarrow> st | None \<Rightarrow> IN_PROGRESS) in
                      update_order now (ds_order d) (\<lambda>y. bump_order (y\<lparr>od_status := resumeTo, od_status_before_dispute := None,
                        od_review_due_at := (if resumeTo = DELIVERED then Some (now + HOURS (reviewWindowHours (od_terms x))) else od_review_due_at y)\<rparr>))
                    else if outcome = ''APPROVE'' then
                      abind (aget (latestDelivery (ds_order d))) (\<lambda>latest.
                      abind (refuse_unless (map_option dl_validation latest = Some Valid) ORDER_STATE_CONFLICT) (\<lambda>_.
                      approveOrder now (ds_order d) x (Some (ac_id actor)) ''ORDER_APPROVED''))
                    else decide_refund env now actor form outcome (ds_order d) x) (\<lambda>_.
             abind (amodify (set_dispute did outcome)) (\<lambda>_.
             abind (event (ds_order d) (Some (ac_id actor)) ''DISPUTE_RESOLVED'') (\<lambda>_.
             abind (amodify (\<lambda>s. s\<lparr>dk_audit := dk_audit s @ [(ac_id actor, ''dispute.resolve.'' @ js_lower outcome, ds_order d)]\<rparr>)) (\<lambda>_.
             abind (announce (''notify:dispute.resolved:'' @ did @ '':'') ''dispute.resolved'' [od_buyer x, od_creator x]) (\<lambda>_.
             areturn (Command_result ''/admin/disputes'' [] None))))))))))))))))))"

datatype auto_accept = Skipped_state | Skipped_on_hold | Skipped_dispute | Skipped_cancellation | Held string | Auto_approved

definition hold_review :: "string \<Rightarrow> int \<Rightarrow> string \<Rightarrow> auto_accept order_action" where
  "hold_review oid version reason =
     abind (aget (\<lambda>s. list_ex (\<lambda>h. ho_order h = oid \<and> ho_resolution h = None) (dk_holds s))) (\<lambda>taken.
     abind (constraint (\<not> taken \<and> 0 < version)) (\<lambda>_.
     abind (amodify (\<lambda>s. s\<lparr>dk_holds := dk_holds s @ [\<lparr>ho_order = oid, ho_version = version, ho_reason = reason, ho_resolution = None\<rparr>]\<rparr>)) (\<lambda>_.
     abind (event oid None ''REVIEW_HOLD_CREATED'') (\<lambda>_.
     abind (openCase (Some oid) None ''REVIEW_HOLD'') (\<lambda>_.
     areturn (Held reason))))))"

text \<open>The transaction of the automatic approval for one order.\<close>

definition autoAcceptDelivery :: "order_env \<Rightarrow> int \<Rightarrow> string \<Rightarrow> auto_accept order_action" where
  "autoAcceptDelivery env now oid =
     abind (aget (\<lambda>s. mget (dk_orders s) oid)) (\<lambda>row. case row of
       None \<Rightarrow> areturn Skipped_state
     | Some x \<Rightarrow>
         if \<not> (od_status x = DELIVERED \<and> (case od_review_due_at x of Some due \<Rightarrow> due < now | None \<Rightarrow> False)) then areturn Skipped_state
         else abind (aget (\<lambda>s. s)) (\<lambda>s.
           if list_ex (\<lambda>h. ho_order h = oid \<and> ho_resolution h = None) (dk_holds s) then areturn Skipped_on_hold
           else if list_ex (\<lambda>(i, d). ds_order d = oid \<and> ds_open d) (dk_disputes s) then areturn Skipped_dispute
           else if list_ex (\<lambda>(i, r). cn_order r = oid \<and> cn_status r = Requested) (dk_cancellations s) then areturn Skipped_cancellation
           else (case latestDelivery oid s of
               None \<Rightarrow> hold_review oid 1 ''DELIVERY_NOT_VALID''
             | Some d \<Rightarrow>
                 if dl_validation d \<noteq> Valid then hold_review oid (dl_version d) ''DELIVERY_NOT_VALID''
                 else if list_ex (on_unsafeFile env) (dl_assets d) then hold_review oid (dl_version d) ''DELIVERY_NOT_VALID''
                 else if \<not> ot_auto_accept_consent (od_terms x) then hold_review oid (dl_version d) ''NO_AUTO_ACCEPT_CONSENT''
                 else if dl_viewed_at d = None then hold_review oid (dl_version d) ''NO_BUYER_NOTIFICATION_EVIDENCE''
                 else abind (approveOrder now oid x None ''ORDER_AUTO_APPROVED'') (\<lambda>_. areturn Auto_approved))))"

section \<open>Commands\<close>

datatype order_command =
    Sandbox_pay | Submit_brief | Start | Deliver | Revision | Approve | Dispute | Cancel | Request_cancellation | Respond_cancellation
  | Refund_order | Review | Message | Mark_delivery_viewed | Request_deadline_extension | Respond_deadline_extension | Resolve_dispute

fun orderCommands :: "order_env \<Rightarrow> int \<Rightarrow> string \<Rightarrow> order_command \<Rightarrow> actor \<Rightarrow> form \<Rightarrow> command_result order_action" where
  "orderCommands env now newId Sandbox_pay actor form = sandboxPay"
| "orderCommands env now newId Submit_brief actor form = submitBrief now actor form"
| "orderCommands env now newId Start actor form = start_work now actor form"
| "orderCommands env now newId Deliver actor form = deliver env now actor form"
| "orderCommands env now newId Revision actor form = revision now actor form"
| "orderCommands env now newId Approve actor form = approve now actor form"
| "orderCommands env now newId Dispute actor form = dispute env now newId actor form"
| "orderCommands env now newId Cancel actor form = cancel_order env now actor form"
| "orderCommands env now newId Request_cancellation actor form = requestCancellation newId actor form"
| "orderCommands env now newId Respond_cancellation actor form = respondCancellation env now actor form"
| "orderCommands env now newId Refund_order actor form = refund_order env now actor form"
| "orderCommands env now newId Review actor form = review_order actor form"
| "orderCommands env now newId Message actor form = send_message actor form"
| "orderCommands env now newId Mark_delivery_viewed actor form = markDeliveryViewed now actor form"
| "orderCommands env now newId Request_deadline_extension actor form = requestDeadlineExtension env now newId actor form"
| "orderCommands env now newId Respond_deadline_extension actor form = respondDeadlineExtension now actor form"
| "orderCommands env now newId Resolve_dispute actor form = resolveDispute env now actor form"

end
