(* ===== verification/Order_Safety.thy ===== *)
theory Order_Safety
  imports Orders
begin

text \<open>
  The invariant of the order tables, and what a command may change of an order (\<open>lawful\<close>): every command keeps the one and makes
  only lawful changes, and fails only by refusing. A command's proof is one application of \<open>intro ostep\<close> and the lemmas on
  the updates it makes.
\<close>

section \<open>Invariant\<close>

definition parties :: "order \<Rightarrow> string \<Rightarrow> string \<Rightarrow> bool" where
  "parties x u v \<longleftrightarrow> (u = od_buyer x \<and> v = od_creator x) \<or> (u = od_creator x \<and> v = od_buyer x)"

definition clock_ok :: "order \<Rightarrow> bool" where
  "clock_ok x \<longleftrightarrow> (od_funded_at x \<noteq> None \<and> od_brief_ready_at x \<noteq> None \<longrightarrow> od_work_start_at x \<noteq> None \<and> od_delivery_due_at x \<noteq> None)
     \<and> (od_work_start_at x \<noteq> None \<longrightarrow> od_delivery_due_at x \<noteq> None)
     \<and> (od_status x = FUNDED \<longrightarrow> od_funded_at x \<noteq> None)
     \<and> (od_status x \<in> {IN_PROGRESS, DELIVERED, REVISION_REQUESTED, APPROVED, COMPLETED, DISPUTED}
         \<longrightarrow> od_funded_at x \<noteq> None \<and> od_brief_ready_at x \<noteq> None)
     \<and> (ot_digital (od_terms x) \<longrightarrow> od_brief_ready_at x \<noteq> None)"

text \<open>Settlement begins with the approval, or with a cancellation that left the creator a part; a refunded order is paid back.\<close>

fun settled_as :: "settlement_status \<Rightarrow> order_status \<Rightarrow> int option \<Rightarrow> int \<Rightarrow> payment_status \<Rightarrow> bool" where
  "settled_as se APPROVED c a p = True"
| "settled_as se COMPLETED c a p = True"
| "settled_as se REFUNDED c a p = (p = Pay_refunded)"
| "settled_as se CANCELLED c a p = (se = Not_ready \<or> (case c of None \<Rightarrow> False | Some n \<Rightarrow> n < a))"
| "settled_as se st c a p = (se = Not_ready)"

definition settle_ok :: "order \<Rightarrow> bool" where
  "settle_ok x \<longleftrightarrow> settled_as (od_settlement x) (od_status x) (od_cancellation_refund x) (od_amount x) (od_payment x)"

definition order_ok :: "order \<Rightarrow> bool" where
  "order_ok x \<longleftrightarrow> order_checks x \<and> revisionLimit (od_terms x) \<le> 3 \<and> clock_ok x \<and> settle_ok x"

definition orders_ok :: "desk \<Rightarrow> bool" where
  "orders_ok s \<longleftrightarrow> mok (dk_orders s) \<and> (\<forall>k x. mget (dk_orders s) k = Some x \<longrightarrow> order_ok x)"

definition cancellations_ok :: "desk \<Rightarrow> bool" where
  "cancellations_ok s \<longleftrightarrow> (\<forall>i r. mget (dk_cancellations s) i = Some r \<longrightarrow>
     (\<exists>x. mget (dk_orders s) (cn_order r) = Some x \<and> parties x (cn_by r) (cn_counterparty r) \<and> 0 \<le> cn_refund r \<and> cn_refund r \<le> od_amount x))"

definition amendments_ok :: "desk \<Rightarrow> bool" where
  "amendments_ok s \<longleftrightarrow> (\<forall>i a. mget (dk_amendments s) i = Some a \<longrightarrow>
     (\<exists>x. mget (dk_orders s) (am_order a) = Some x \<and> parties x (am_by a) (am_counterparty a)) \<and> am_old a < am_new a
       \<and> am_new a - am_old a \<le> MAX_EXTENSION_DAYS * DAY_MS)"

definition open_dispute :: "desk \<Rightarrow> string \<Rightarrow> string \<Rightarrow> bool" where
  "open_dispute s i oid \<longleftrightarrow> (\<exists>d. mget (dk_disputes s) i = Some d \<and> ds_order d = oid \<and> ds_open d)"

definition disputes_ok :: "string option \<Rightarrow> desk \<Rightarrow> bool" where
  "disputes_ok busy s \<longleftrightarrow> mok (dk_disputes s) \<and> (\<forall>i j oid. open_dispute s i oid \<longrightarrow> open_dispute s j oid \<longrightarrow> i = j)
     \<and> (\<forall>i oid. open_dispute s i oid \<longrightarrow> Some i \<noteq> busy \<longrightarrow> map_option od_status (mget (dk_orders s) oid) = Some DISPUTED)"

definition deliveries_ok :: "desk \<Rightarrow> bool" where
  "deliveries_ok s \<longleftrightarrow> (\<forall>d \<in> set (dk_deliveries s). 0 < dl_version d)"

text \<open>While an operator decides a dispute its row is open and the order may have left the dispute: \<open>busy\<close> is that dispute.\<close>

definition desk_inv :: "string option \<Rightarrow> desk \<Rightarrow> bool" where
  "desk_inv busy s \<longleftrightarrow> orders_ok s \<and> cancellations_ok s \<and> amendments_ok s \<and> disputes_ok busy s \<and> deliveries_ok s"

section \<open>Lawful changes\<close>

text \<open>The transition matrix by party: what the buyer, the creator, either of them and an operator may do.\<close>

definition order_move :: "actor \<Rightarrow> order \<Rightarrow> order_status \<Rightarrow> order_status \<Rightarrow> bool" where
  "order_move actor x old new \<longleftrightarrow>
     (is_creator actor x \<and> old = FUNDED \<and> new = IN_PROGRESS)
   \<or> (is_creator actor x \<and> old \<in> {IN_PROGRESS, REVISION_REQUESTED} \<and> new = DELIVERED)
   \<or> (is_buyer actor x \<and> old = DELIVERED \<and> new \<in> {REVISION_REQUESTED, APPROVED})
   \<or> ((is_buyer actor x \<or> is_creator actor x) \<and> working old \<and> new = DISPUTED)
   \<or> ((is_buyer actor x \<or> is_creator actor x) \<and> old \<in> {AWAITING_PAYMENT, FUNDED} \<and> new \<in> {CANCELLED, REFUNDED})
   \<or> ((is_buyer actor x \<or> is_creator actor x) \<and> working old \<and> new \<in> {CANCELLED, REFUNDED})
   \<or> (old = CANCELLED \<and> new = REFUNDED)
   \<or> (hasAnyRole actor [''finance'', ''support'', ''admin''] \<and> old = DISPUTED \<and> working new)
   \<or> (hasAnyRole actor [''finance'', ''admin''] \<and> old = DISPUTED \<and> new \<in> {APPROVED, CANCELLED, REFUNDED})"

text \<open>Work under way is cancelled only on a request that the other party made for this version of the order.\<close>

definition agreed_cancellation :: "actor \<Rightarrow> desk \<Rightarrow> string \<Rightarrow> order \<Rightarrow> order \<Rightarrow> bool" where
  "agreed_cancellation actor s oid x y \<longleftrightarrow> (\<exists>i r. mget (dk_cancellations s) i = Some r \<and> cn_order r = oid \<and> cn_status r = Requested
     \<and> cn_counterparty r = ac_id actor \<and> cn_order_version r = od_version x \<and> od_cancellation_refund y = Some (cn_refund r))"

text \<open>The deadline of a delivery, once set, moves only to the date of a proposal that the other party made.\<close>

definition agreed_deadline :: "actor \<Rightarrow> desk \<Rightarrow> string \<Rightarrow> order \<Rightarrow> order \<Rightarrow> bool" where
  "agreed_deadline actor s oid x y \<longleftrightarrow> (\<exists>i a. mget (dk_amendments s) i = Some a \<and> am_order a = oid \<and> am_status a = Requested
     \<and> am_counterparty a = ac_id actor \<and> am_deadline a = Delivery_deadline \<and> od_delivery_due_at x = Some (am_old a)
     \<and> od_delivery_due_at y = Some (am_new a))"

text \<open>What the facts of a payment have set stays: only work that is cancelled or approved starts or drops a settlement.\<close>

definition money_kept :: "order \<Rightarrow> order \<Rightarrow> bool" where
  "money_kept x y \<longleftrightarrow> od_currency y = od_currency x \<and> od_provider_fee y = od_provider_fee x \<and> od_funding_method y = od_funding_method x
     \<and> od_performance_refund y = od_performance_refund x
     \<and> (working (od_status x) \<or> od_status x = DISPUTED
        \<or> (od_settlement y = od_settlement x \<and> od_cancellation_refund y = od_cancellation_refund x))
     \<and> (od_payment y = od_payment x \<or> od_payment y \<in> {Pay_refund_pending, Pay_refunded})"

definition lawful :: "actor \<Rightarrow> desk \<Rightarrow> string \<Rightarrow> order \<Rightarrow> order \<Rightarrow> bool" where
  "lawful actor s oid x y \<longleftrightarrow> od_buyer y = od_buyer x \<and> od_creator y = od_creator x \<and> od_amount y = od_amount x \<and> od_terms y = od_terms x \<and> od_version x \<le> od_version y \<and> money_kept x y
     \<and> (od_status y = od_status x \<or> (order_move actor x (od_status x) (od_status y) \<and> od_version x < od_version y))
     \<and> (working (od_status x) \<longrightarrow> od_status y \<in> {CANCELLED, REFUNDED} \<longrightarrow> agreed_cancellation actor s oid x y)
     \<and> (od_delivery_due_at x = None \<or> od_delivery_due_at y = od_delivery_due_at x \<or> agreed_deadline actor s oid x y)
     \<and> (od_status x \<noteq> APPROVED \<longrightarrow> od_status y = APPROVED \<longrightarrow> od_settlement y = Ready)"

definition changes :: "actor \<Rightarrow> desk \<Rightarrow> desk \<Rightarrow> bool" where
  "changes actor s t \<longleftrightarrow> (\<forall>oid x. mget (dk_orders s) oid = Some x \<longrightarrow> (\<exists>y. mget (dk_orders t) oid = Some y \<and> lawful actor s oid x y))
     \<and> (\<forall>oid. mget (dk_orders s) oid = None \<longrightarrow> mget (dk_orders t) oid = None)"

definition sound :: "string option \<Rightarrow> actor \<Rightarrow> desk \<Rightarrow> desk \<Rightarrow> bool" where
  "sound busy actor s t \<longleftrightarrow> desk_inv busy t \<and> changes actor s t"

abbreviation calm :: "exception_value \<Rightarrow> desk \<Rightarrow> bool" where
  "calm \<equiv> \<lambda>e _. e \<noteq> Other_error"

text \<open>What the parameters answer: no error of their own but a refusal, and links that are serialized.\<close>

definition quiet :: "exception_value + 'a \<Rightarrow> bool" where
  "quiet r \<longleftrightarrow> (case r of Inl e \<Rightarrow> e \<noteq> Other_error | Inr _ \<Rightarrow> True)"

definition env_ok :: "order_env \<Rightarrow> bool" where
  "env_ok env \<longleftrightarrow> (\<forall>v protocol href. on_urlOf env v = Some (protocol, href) \<longrightarrow> protocol \<in> {''http:'', ''https:''} \<longrightarrow> url_pattern href)
     \<and> (\<forall>t f a b now. quiet (on_publication env t f a b now)) \<and> (\<forall>t f a b now u. on_publication env t f a b now = Inr u \<longrightarrow> url_pattern u)
     \<and> (\<forall>a b c. quiet (on_asset env a b c)) \<and> (\<forall>a. quiet (on_cancelFunding env a)) \<and> (\<forall>a b c d. quiet (on_freeze env a b c d))
     \<and> (\<forall>a b c d. quiet (on_providerRefund env a b c d)) \<and> (\<forall>a b. quiet (on_chainRefund env a b)) \<and> (\<forall>a. quiet (on_poolReturn env a))"

section \<open>Statements that change no order\<close>

named_theorems ostep "How the statements of a command pass a postcondition on"

lemma ostep_return [ostep]: "Q x s \<Longrightarrow> wp (areturn x) Q E s"
  by (simp add: wp)

lemma ostep_done [ostep]: "Q (Command_result (order_path oid) [] None) s \<Longrightarrow> wp (order_done oid) Q E s"
  by (simp add: order_done_def wp)

lemma ostep_fail [ostep]: "e \<noteq> Other_error \<Longrightarrow> wp (afail e) Q calm s"
  by (simp add: wp)

lemma ostep_refuse [ostep]: "(b \<Longrightarrow> wp (f ()) Q calm s) \<Longrightarrow> wp (abind (refuse_unless b code) f) Q calm s"
  by (simp add: refuse_unless_def wp)

lemma ostep_read [ostep]: "r \<noteq> Inl Crashed \<Longrightarrow> (\<And>x. r = Inr x \<Longrightarrow> wp (f x) Q calm s) \<Longrightarrow> wp (abind (read r) f) Q calm s"
  by (cases r rule: sum.exhaust) (auto simp: read_def wp elim: as_exception.elims)

lemma ostep_lift [ostep]: "quiet r \<Longrightarrow> (\<And>x. r = Inr x \<Longrightarrow> wp (f x) Q calm s) \<Longrightarrow> wp (abind (alift r) f) Q calm s"
  by (cases r) (auto simp: quiet_def wp)

lemma ostep_get [ostep]: "wp (f (g s)) Q E s \<Longrightarrow> wp (abind (aget g) f) Q E s"
  by (simp add: wp)

lemma ostep_pure [ostep]: "wp (f x) Q E s \<Longrightarrow> wp (abind (areturn x) f) Q E s"
  by (simp add: wp)

lemma ostep_if [ostep]: "(b \<Longrightarrow> wp m Q E s) \<Longrightarrow> (\<not> b \<Longrightarrow> wp m' Q E s) \<Longrightarrow> wp (if b then m else m') Q E s"
  by simp

lemma ostep_cond [ostep]:
  "(b \<Longrightarrow> wp (abind m f) Q E s) \<Longrightarrow> (\<not> b \<Longrightarrow> wp (abind m' f) Q E s) \<Longrightarrow> wp (abind (if b then m else m') f) Q E s"
  by simp

lemma ostep_option [ostep]: "(z = None \<Longrightarrow> wp m Q E s) \<Longrightarrow> (\<And>x. z = Some x \<Longrightarrow> wp (f x) Q E s) \<Longrightarrow> wp (case z of None \<Rightarrow> m | Some x \<Rightarrow> f x) Q E s"
  by (cases z) simp_all

lemma ostep_assoc [ostep]: "wp (abind m (\<lambda>x. abind (f x) g)) Q E s \<Longrightarrow> wp (abind (abind m f) g) Q E s"
  by (simp add: wp)

lemma ostep_constraint [ostep]: "b \<Longrightarrow> wp (f ()) Q E s \<Longrightarrow> wp (abind (constraint b) f) Q E s"
  by (simp add: constraint_def wp)

lemma never_crash [simp]:
  "uuid form n \<noteq> Inl Crashed" "text_field form n r m \<noteq> Inl Crashed" "integer v a b \<noteq> Inl Crashed" "money v \<noteq> Inl Crashed"
  "expectedVersion form n \<noteq> Inl Crashed" "zoneOffset form n \<noteq> Inl Crashed" "instant d v z \<noteq> Inl Crashed" "instantField d form n \<noteq> Inl Crashed"
  "requireRole u rs \<noteq> Inl Crashed" "reasonOf form \<noteq> Inl Crashed"
proof -
  show t: "text_field form n r m \<noteq> Inl Crashed" for form n r m by (simp add: text_field_def Let_def ebind_Inl echeck_Inl)
  show "uuid form n \<noteq> Inl Crashed" by (simp add: uuid_def t ebind_Inl echeck_Inl)
  show i: "integer v a b \<noteq> Inl Crashed" for v a b by (simp add: integer_def Let_def ebind_Inl echeck_Inl)
  show "money v \<noteq> Inl Crashed" by (simp add: money_def Let_def ebind_Inl echeck_Inl)
  show "expectedVersion form n \<noteq> Inl Crashed" by (simp add: expectedVersion_def Let_def i ebind_Inl)
  show z: "zoneOffset form n \<noteq> Inl Crashed" for form n by (simp add: zoneOffset_def Let_def ebind_Inl echeck_Inl)
  show n: "instant d v z \<noteq> Inl Crashed" for d v z by (simp add: instant_def ebind_Inl echeck_Inl split: option.split)
  show "instantField d form n \<noteq> Inl Crashed" by (simp add: instantField_def t z n ebind_Inl)
  show "requireRole u rs \<noteq> Inl Crashed" by (simp add: requireRole_def ebind_Inl echeck_Inl)
  show "reasonOf form \<noteq> Inl Crashed" by (simp add: reasonOf_def t ebind_Inl echeck_Inl)
qed


definition same_rows :: "desk \<Rightarrow> desk \<Rightarrow> bool" where
  "same_rows s t \<longleftrightarrow> dk_orders t = dk_orders s \<and> dk_disputes t = dk_disputes s \<and> dk_deliveries t = dk_deliveries s \<and> dk_amendments t = dk_amendments s"

lemma desk_inv_cong:
  "dk_orders t = dk_orders s \<Longrightarrow> dk_disputes t = dk_disputes s \<Longrightarrow> dk_deliveries t = dk_deliveries s \<Longrightarrow> dk_amendments t = dk_amendments s \<Longrightarrow>
   dk_cancellations t = dk_cancellations s \<Longrightarrow> desk_inv busy t = desk_inv busy s"
  by (simp add: desk_inv_def orders_ok_def cancellations_ok_def amendments_ok_def disputes_ok_def deliveries_ok_def open_dispute_def)

lemma sound_cong:
  "dk_orders t = dk_orders s \<Longrightarrow> dk_disputes t = dk_disputes s \<Longrightarrow> dk_deliveries t = dk_deliveries s \<Longrightarrow> dk_amendments t = dk_amendments s \<Longrightarrow>
   dk_cancellations t = dk_cancellations s \<Longrightarrow> sound busy actor r t = sound busy actor r s"
  using desk_inv_cong [of t s busy] by (simp add: sound_def changes_def)

text \<open>A statement that writes other tables only.\<close>

definition aside :: "'a order_action \<Rightarrow> bool" where
  "aside m \<longleftrightarrow> (\<forall>s. wp m (\<lambda>_ t. same_rows s t \<and> dk_cancellations t = dk_cancellations s) (\<lambda>_ _. False) s)"

lemma aside_bind: "aside m \<Longrightarrow> (\<And>x. aside (f x)) \<Longrightarrow> aside (abind m f)"
  unfolding aside_def wp
proof
  fix s
  assume m: "\<forall>s. wp m (\<lambda>_ t. same_rows s t \<and> dk_cancellations t = dk_cancellations s) (\<lambda>_ _. False) s"
    and f: "\<And>x. \<forall>s. wp (f x) (\<lambda>_ t. same_rows s t \<and> dk_cancellations t = dk_cancellations s) (\<lambda>_ _. False) s"
  show "wp m (\<lambda>x. wp (f x) (\<lambda>_ t. same_rows s t \<and> dk_cancellations t = dk_cancellations s) (\<lambda>_ _. False)) (\<lambda>_ _. False) s"
    by (rule wp_mono [OF m [rule_format, of s]], rule wp_mono [OF f [rule_format]]) (auto simp: same_rows_def)
qed

lemma aside_simps [simp]:
  "aside (areturn x)" "aside (event oid who kind)" "aside (enqueue key template recipient)" "aside (openCase who row kind)" "aside (resolveReviewHold oid kind)"
  by (simp_all add: aside_def wp event_def enqueue_def openCase_def resolveReviewHold_def resolve_holds_def same_rows_def)

lemma aside_announce [simp]: "aside (announce p t rs)" "aside (announce_expiry oid ps)"
proof -
  show "aside (announce p t rs)" by (induction rs) (auto intro: aside_bind)
  show "aside (announce_expiry oid ps)" by (induction oid ps rule: announce_expiry.induct) (auto intro!: aside_bind)
qed

lemma ostep_aside:
  assumes "aside m" "sound busy actor r s" "\<And>x t. sound busy actor r t \<Longrightarrow> same_rows s t \<Longrightarrow> wp (f x) Q E t"
  shows "wp (abind m f) Q E s"
proof -
  have "wp m (\<lambda>_ t. same_rows s t \<and> dk_cancellations t = dk_cancellations s) (\<lambda>_ _. False) s" using assms(1) by (simp add: aside_def)
  then show ?thesis unfolding wp
  proof (rule wp_mono)
    fix x t
    assume t: "same_rows s t \<and> dk_cancellations t = dk_cancellations s"
    then have "sound busy actor r t = sound busy actor r s" by (intro sound_cong) (simp_all add: same_rows_def)
    with assms(2) t show "wp (f x) Q E t" by (intro assms(3)) simp_all
  qed simp
qed

lemmas ostep_asides [ostep] =
  ostep_aside [OF aside_simps(2)] ostep_aside [OF aside_simps(3)] ostep_aside [OF aside_simps(4)] ostep_aside [OF aside_simps(5)]
  ostep_aside [OF aside_announce(1)] ostep_aside [OF aside_announce(2)]

lemma mget_map_values: "mget (map (\<lambda>(i, r). (i, g r)) m) k = map_option g (mget m k)"
  by (induction m) auto

lemma cancellations_expired: "cancellations_ok s \<Longrightarrow> cancellations_ok (expire_cancellations oid s)"
  by (fastforce simp: cancellations_ok_def expire_cancellations_def mget_map_values)

lemma ostep_expire [ostep]:
  assumes "sound busy actor r s" "\<And>t. sound busy actor r t \<Longrightarrow> same_rows s t \<Longrightarrow> wp (f ()) Q E t"
  shows "wp (abind (expirePendingCancellation oid) f) Q E s"
proof -
  let ?s = "expire_cancellations oid s"
  have rows: "same_rows s ?s" by (simp add: same_rows_def expire_cancellations_def)
  have "sound busy actor r ?s" using assms(1) cancellations_expired [of s oid] rows
    by (simp add: sound_def desk_inv_def changes_def same_rows_def orders_ok_def amendments_ok_def disputes_ok_def deliveries_ok_def open_dispute_def)
  then have "wp (abind (announce_expiry oid ps) f) Q E ?s" for ps
    by (rule ostep_aside [OF aside_announce(2)]) (use assms(2) rows in \<open>auto simp: same_rows_def\<close>)
  then show ?thesis by (simp add: expirePendingCancellation_def wp)
qed

section \<open>Reading an order\<close>

lemma ostep_orderFor [ostep]:
  "(\<And>x. mget (dk_orders s) oid = Some x \<Longrightarrow> is_buyer actor x \<or> is_creator actor x \<Longrightarrow> wp (f x) Q calm s) \<Longrightarrow> wp (abind (orderFor actor oid) f) Q calm s"
  by (auto simp: orderFor_def wp refuse_unless_def is_buyer_def is_creator_def split: option.split)

lemma ostep_with [ostep]:
  assumes "\<And>oid x. mget (dk_orders s) oid = Some x \<Longrightarrow> is_buyer actor x \<or> is_creator actor x \<Longrightarrow> wp (handler oid x) Q calm s"
  shows "wp (withOrder actor form handler) Q calm s"
  unfolding withOrder_def by (intro ostep assms never_crash)

lemma ostep_current [ostep]: "(\<And>d. wp (f d) Q calm s) \<Longrightarrow> wp (abind (assertCurrentDelivery oid v) f) Q calm s"
  by (auto simp: assertCurrentDelivery_def wp refuse_unless_def split: option.split)

lemma delivery_version_safe [simp]: "deliveryVersionOf form \<noteq> Inl Crashed"
  by (simp add: deliveryVersionOf_def Let_def ebind_Inl)

lemma other_readers_safe [simp]: "parseAssetIds v \<noteq> Inl Crashed" "delivery_url env v \<noteq> Inl Crashed" "refund_field form \<noteq> Inl Crashed"
  by (auto simp: parseAssetIds_def delivery_url_def refund_field_def Let_def ebind_Inl echeck_Inl split: option.split)

section \<open>Updating an order\<close>

definition updated :: "int \<Rightarrow> string \<Rightarrow> order \<Rightarrow> order \<Rightarrow> desk \<Rightarrow> desk" where
  "updated now oid old new s = order_amendment_expiry now oid old new (s\<lparr>dk_orders := mput oid new (dk_orders s)\<rparr>)"

lemma updated_simps [simp]:
  "dk_orders (updated now oid old new s) = mput oid new (dk_orders s)" "dk_disputes (updated now oid old new s) = dk_disputes s"
  "dk_deliveries (updated now oid old new s) = dk_deliveries s" "dk_cancellations (updated now oid old new s) = dk_cancellations s"
  by (simp_all add: updated_def order_amendment_expiry_def expire_amendments_def)

lemma open_updated [simp]: "open_dispute (updated now oid old new s) i k = open_dispute s i k"
  by (simp add: open_dispute_def)

lemma amendments_updated:
  assumes "mget (dk_amendments (updated now oid old new s)) i = Some a"
  obtains b where "mget (dk_amendments s) i = Some b" "am_order a = am_order b" "am_by a = am_by b" "am_counterparty a = am_counterparty b"
    "am_old a = am_old b" "am_new a = am_new b"
  using assms by (auto simp: updated_def order_amendment_expiry_def expire_amendments_def mget_map_values split: if_splits)

lemma guard_parties: "order_snapshot_guard old new \<Longrightarrow> parties new u v = parties old u v"
  by (simp add: order_snapshot_guard_def parties_def)

lemma desk_updated:
  assumes inv: "desk_inv busy s" and x: "mget (dk_orders s) oid = Some old" and g: "order_snapshot_guard old new" and ok: "order_ok new"
    and d: "disputes_ok busy' (updated now oid old new s)"
  shows "desk_inv busy' (updated now oid old new s)"
proof -
  have c: "cancellations_ok s" and a: "amendments_ok s" and o': "orders_ok s" and v: "deliveries_ok s" using inv by (auto simp: desk_inv_def)
  have "od_amount new = od_amount old" using g by (simp add: order_snapshot_guard_def)
  with c x guard_parties [OF g] have "cancellations_ok (updated now oid old new s)"
    by (force simp: cancellations_ok_def)
  moreover have "amendments_ok (updated now oid old new s)"
    unfolding amendments_ok_def
  proof (intro allI impI)
    fix i y assume "mget (dk_amendments (updated now oid old new s)) i = Some y"
    then obtain b where b: "mget (dk_amendments s) i = Some b" "am_order y = am_order b" "am_by y = am_by b" "am_counterparty y = am_counterparty b"
      "am_old y = am_old b" "am_new y = am_new b" by (rule amendments_updated)
    with a obtain z where "mget (dk_orders s) (am_order b) = Some z" "parties z (am_by b) (am_counterparty b)" "am_old b < am_new b"
      "am_new b - am_old b \<le> MAX_EXTENSION_DAYS * DAY_MS" by (auto simp: amendments_ok_def)
    with b x guard_parties [OF g] show "(\<exists>x. mget (dk_orders (updated now oid old new s)) (am_order y) = Some x \<and> parties x (am_by y) (am_counterparty y))
        \<and> am_old y < am_new y \<and> am_new y - am_old y \<le> MAX_EXTENSION_DAYS * DAY_MS" by auto
  qed
  moreover have "orders_ok (updated now oid old new s)" using o' ok by (auto simp: orders_ok_def)
  moreover have "deliveries_ok (updated now oid old new s)" using v by (simp add: deliveries_ok_def)
  ultimately show ?thesis using d by (simp add: desk_inv_def)
qed

lemma changes_updated:
  assumes "changes actor r s" "mget (dk_orders r) oid = Some x" "lawful actor r oid x new"
  shows "changes actor r (updated now oid old new s)"
  using assms by (auto simp: changes_def)

lemma ostep_update_order:
  assumes R: "sound busy actor r s" and x: "mget (dk_orders s) oid = Some old" and x0: "mget (dk_orders r) oid = Some x0"
    and guards: "order_snapshot_guard old (f old)" "order_transition_guard old (f old)" "order_delivery_due_guard now oid (dk_amendments s) old (f old)"
    and ok: "order_ok (f old)" and law: "lawful actor r oid x0 (f old)" and d: "disputes_ok busy' (updated now oid old (f old) s)"
    and next_step: "\<And>t. sound busy' actor r t \<Longrightarrow> t = updated now oid old (f old) s \<Longrightarrow> wp (g ()) Q E t"
  shows "wp (abind (update_order now oid f) g) Q E s"
proof -
  have checks: "order_checks (f old)" using ok by (simp add: order_ok_def)
  have "sound busy' actor r (updated now oid old (f old) s)"
    using R desk_updated [OF _ x guards(1) ok d] changes_updated [OF _ x0 law] by (auto simp: sound_def)
  then have "wp (g ()) Q E (updated now oid old (f old) s)" by (rule next_step) simp
  then show ?thesis using x guards checks by (simp add: update_order_def wp constraint_def updated_def)
qed

lemma disputes_updated:
  assumes "disputes_ok busy s" "mget (dk_orders s) oid = Some old" "od_status old = DISPUTED \<Longrightarrow> od_status new = DISPUTED"
  shows "disputes_ok busy (updated now oid old new s)"
  using assms by (fastforce simp: disputes_ok_def)

text \<open>The order of the dispute being opened enters the dispute; that of the dispute being decided leaves it.\<close>

lemma disputes_opened:
  assumes ok: "disputes_ok (Some i) s" and i: "open_dispute s i oid" and new: "od_status new = DISPUTED"
  shows "disputes_ok None (updated now oid old new s)"
  unfolding disputes_ok_def
proof (intro conjI allI impI)
  fix j oid'
  assume j: "open_dispute (updated now oid old new s) j oid'"
  show "map_option od_status (mget (dk_orders (updated now oid old new s)) oid') = Some DISPUTED"
  proof (cases "j = i")
    case True
    then have "oid' = oid" using i j by (auto simp: open_dispute_def)
    then show ?thesis using new by simp
  next
    case False
    then have "map_option od_status (mget (dk_orders s) oid') = Some DISPUTED" using ok j by (simp add: disputes_ok_def)
    then show ?thesis using new by simp
  qed
qed (use ok in \<open>auto simp: disputes_ok_def\<close>)

lemma disputes_deciding:
  assumes "disputes_ok None s" "open_dispute s i oid"
  shows "disputes_ok (Some i) (updated now oid old new s)"
proof -
  have "oid' \<noteq> oid" if "open_dispute s j oid'" "j \<noteq> i" for j oid'
    using assms that unfolding disputes_ok_def by blast
  then show ?thesis using assms(1) by (auto simp: disputes_ok_def)
qed

lemma open_decided: "open_dispute (set_dispute i outcome s) j oid \<longleftrightarrow> j \<noteq> i \<and> open_dispute s j oid"
  by (auto simp: open_dispute_def set_dispute_def split: option.split)

lemma set_dispute_rows [simp]:
  "dk_orders (set_dispute i outcome s) = dk_orders s" "dk_deliveries (set_dispute i outcome s) = dk_deliveries s"
  "dk_amendments (set_dispute i outcome s) = dk_amendments s" "dk_cancellations (set_dispute i outcome s) = dk_cancellations s"
  by (simp_all add: set_dispute_def split: option.split)

lemma disputes_decided: "disputes_ok (Some i) s \<Longrightarrow> disputes_ok None (set_dispute i outcome s)"
  unfolding disputes_ok_def open_decided by (auto simp: set_dispute_def split: option.split)

lemma lawful_refl: "lawful actor s oid x x"
  by (auto simp: lawful_def money_kept_def working_def)

lemma sound_refl: "desk_inv busy s \<Longrightarrow> sound busy actor s s"
  by (simp add: sound_def changes_def lawful_refl)

text \<open>The first update of an order by a command.\<close>

definition admitted :: "actor \<Rightarrow> desk \<Rightarrow> (string \<times> amendment) list \<Rightarrow> int \<Rightarrow> string \<Rightarrow> order \<Rightarrow> order \<Rightarrow> bool" where
  "admitted actor r ams now oid x y \<longleftrightarrow> order_snapshot_guard x y \<and> order_transition_guard x y
     \<and> order_delivery_due_guard now oid ams x y \<and> order_ok y \<and> lawful actor r oid x y"

lemma sound_order: "sound busy actor r s \<Longrightarrow> mget (dk_orders s) oid = Some x \<Longrightarrow> order_ok x"
  by (simp add: sound_def desk_inv_def orders_ok_def)

lemma sound_disputes: "sound busy actor r s \<Longrightarrow> disputes_ok busy s"
  by (simp add: sound_def desk_inv_def)

lemma ostep_first:
  assumes R: "sound busy actor r s" and x: "mget (dk_orders r) oid = Some x" and same: "dk_orders s = dk_orders r"
    and ok: "order_ok x \<Longrightarrow> admitted actor r (dk_amendments s) now oid x (f x)"
    and d: "disputes_ok busy s \<Longrightarrow> disputes_ok busy' (updated now oid x (f x) s)"
    and next_step: "\<And>t. sound busy' actor r t \<Longrightarrow> dk_orders t = mput oid (f x) (dk_orders r) \<Longrightarrow> dk_deliveries t = dk_deliveries s \<Longrightarrow> wp (g ()) Q E t"
  shows "wp (abind (update_order now oid f) g) Q E s"
proof -
  have xs: "mget (dk_orders s) oid = Some x" using x same by simp
  have a: "admitted actor r (dk_amendments s) now oid x (f x)" using ok sound_order [OF R xs] by blast
  show ?thesis
    by (rule ostep_update_order [OF R xs x, where busy' = busy'])
      (use a d sound_disputes [OF R] next_step same in \<open>auto simp: admitted_def\<close>)
qed

text \<open>The same where the order is in no dispute, or stays in it.\<close>

lemma ostep_move:
  assumes R: "sound busy actor r s" and x: "mget (dk_orders r) oid = Some x" and same: "dk_orders s = dk_orders r"
    and ok: "order_ok x \<Longrightarrow> admitted actor r (dk_amendments s) now oid x (f x) \<and> (od_status x = DISPUTED \<longrightarrow> od_status (f x) = DISPUTED)"
    and next_step: "\<And>t. sound busy actor r t \<Longrightarrow> dk_orders t = mput oid (f x) (dk_orders r) \<Longrightarrow> dk_deliveries t = dk_deliveries s \<Longrightarrow> wp (g ()) Q E t"
  shows "wp (abind (update_order now oid f) g) Q E s"
proof -
  have xs: "mget (dk_orders s) oid = Some x" using x same by simp
  note ok = ok [OF sound_order [OF R xs]]
  show ?thesis
    by (rule ostep_first [where f = f and x = x and busy = busy and busy' = busy and r = r and actor = actor])
      (use R x same ok next_step disputes_updated [OF _ xs] in \<open>blast+\<close>)
qed

text \<open>The order enters the dispute that is being opened, or leaves the one that is being decided.\<close>

lemma ostep_opening:
  assumes R: "sound (Some i) actor r s" and i: "open_dispute s i oid" and x: "mget (dk_orders r) oid = Some x" and same: "dk_orders s = dk_orders r"
    and ok: "order_ok x \<Longrightarrow> admitted actor r (dk_amendments s) now oid x (f x) \<and> od_status (f x) = DISPUTED"
    and next_step: "\<And>t. sound None actor r t \<Longrightarrow> wp (g ()) Q E t"
  shows "wp (abind (update_order now oid f) g) Q E s"
proof -
  have xs: "mget (dk_orders s) oid = Some x" using x same by simp
  note ok = ok [OF sound_order [OF R xs]]
  show ?thesis
    by (rule ostep_first [where f = f and x = x and busy = "Some i" and busy' = None and r = r and actor = actor])
      (use R x same ok next_step disputes_opened [OF _ i] in \<open>blast+\<close>)
qed

lemma ostep_deciding:
  assumes R: "sound None actor r s" and i: "open_dispute s i oid" and x: "mget (dk_orders r) oid = Some x" and same: "dk_orders s = dk_orders r"
    and ok: "order_ok x \<Longrightarrow> admitted actor r (dk_amendments s) now oid x (f x)"
    and next_step: "\<And>t. sound (Some i) actor r t \<Longrightarrow> dk_orders t = mput oid (f x) (dk_orders r) \<Longrightarrow> wp (g ()) Q E t"
  shows "wp (abind (update_order now oid f) g) Q E s"
proof -
  have xs: "mget (dk_orders s) oid = Some x" using x same by simp
  note ok = ok [OF sound_order [OF R xs]]
  show ?thesis
    by (rule ostep_first [where f = f and x = x and busy = None and busy' = "Some i" and r = r and actor = actor])
      (use R x same ok next_step disputes_deciding [OF _ i] in \<open>blast+\<close>)
qed

lemma order_checks_iff:
  "order_checks x \<longleftrightarrow> 0 < od_amount x \<and> 0 < od_version x \<and> od_buyer x \<noteq> od_creator x
     \<and> (\<forall>n. od_cancellation_refund x = Some n \<longrightarrow> 0 \<le> n \<and> n \<le> od_amount x)
     \<and> (\<forall>st. od_status_before_dispute x = Some st \<longrightarrow> working st) \<and> 0 \<le> od_revision_count x \<and> od_revision_count x \<le> 3
     \<and> fee_checks (od_amount x) (od_provider_fee x) (od_performance_refund x) (od_funding_method x)
     \<and> returned_is_bank (od_funding_method x) (od_payment x)"
  by (auto simp: order_checks_def working_def split: option.splits)

lemma due_guard_same: "od_delivery_due_at new = od_delivery_due_at old \<Longrightarrow> order_delivery_due_guard now oid ams old new"
  by (simp add: order_delivery_due_guard_def split: option.split)

lemmas order_defs = admitted_def order_snapshot_guard_def order_transition_guard_def due_guard_same order_ok_def
  order_checks_iff clock_ok_def settle_ok_def lawful_def money_kept_def bump_order_def order_move_def working_def

end
