(* ===== verification/Order_Statements.thy ===== *)
theory Order_Statements
  imports Order_Safety
begin

text \<open>
  The remaining statements of the commands on orders: row inserts, answers to requests and proposals, a buyer's view, refunds
  and decisions of a dispute, each as a rule of \<open>ostep\<close>.
\<close>

lemma ostep_let [ostep]: "wp (f a) Q E s \<Longrightarrow> wp (let x = a in f x) Q E s"
  by simp

lemma ostep_optional [ostep]:
  "(z = None \<Longrightarrow> wp (abind m f) Q E s) \<Longrightarrow> (\<And>x. z = Some x \<Longrightarrow> wp (abind (g x) f) Q E s) \<Longrightarrow>
   wp (abind (case z of None \<Rightarrow> m | Some x \<Rightarrow> g x) f) Q E s"
  by (cases z) simp_all

lemma aside_audit [simp]: "aside (amodify (\<lambda>s. dk_audit_update (\<lambda>_. F s) s))"
  "aside (amodify (\<lambda>s. dk_reviews_update (\<lambda>_. G s) s))" "aside (amodify (\<lambda>s. dk_messages_update (\<lambda>_. H s) s))"
  by (simp_all add: aside_def wp same_rows_def)

lemmas ostep_more_asides [ostep] = ostep_aside [OF aside_audit(1)] ostep_aside [OF aside_audit(2)] ostep_aside [OF aside_audit(3)]

lemma quiet_env [simp]:
  assumes "env_ok env"
  shows "quiet (on_publication env t f a b now)" "quiet (on_asset env x y z)" "quiet (on_cancelFunding env x)"
    "quiet (on_freeze env x o' y c)" "quiet (on_providerRefund env x y n z)" "quiet (on_chainRefund env x n)" "quiet (on_poolReturn env x)"
  using assms by (simp_all add: env_ok_def)

lemma ostep_lock [ostep]: "env_ok env \<Longrightarrow> wp (f ()) Q calm s \<Longrightarrow> wp (abind (lockDeliveryAssets env oid u ids) f) Q calm s"
proof (induction ids)
  case (Cons i ids)
  then show ?case using quiet_env(2) [OF Cons.prems(1), of oid u i] by (auto simp: wp quiet_def split: sum.split)
qed (simp add: wp)

section \<open>Rows\<close>

lemma newest_in: "newest ds = Some d \<Longrightarrow> d \<in> set ds"
  by (induction ds arbitrary: d) (auto split: option.splits if_splits)

lemma newest_None: "newest ds = None \<Longrightarrow> ds = []"
  by (cases ds) (auto split: option.splits if_splits)

lemma newest_greatest: "newest ds = Some d \<Longrightarrow> e \<in> set ds \<Longrightarrow> dl_version e \<le> dl_version d"
proof (induction ds arbitrary: d)
  case (Cons a ds)
  show ?case
  proof (cases "newest ds")
    case None
    then show ?thesis using newest_None [OF None] Cons.prems by simp
  next
    case (Some b)
    then show ?thesis using Cons.IH [OF Some] Cons.prems by (cases "e = a") (auto split: if_splits)
  qed
qed simp

definition next_version :: "string \<Rightarrow> desk \<Rightarrow> int" where
  "next_version oid s = (case latestDelivery oid s of Some d \<Rightarrow> dl_version d | None \<Rightarrow> 0) + 1"

lemma next_version:
  assumes "deliveries_ok s"
  shows "0 < next_version oid s" "\<not> list_ex (\<lambda>e. dl_order e = oid \<and> dl_version e = next_version oid s) (dk_deliveries s)"
proof -
  show "0 < next_version oid s"
    using assms newest_in unfolding next_version_def latestDelivery_def deliveries_ok_def by (fastforce split: option.split)
  show "\<not> list_ex (\<lambda>e. dl_order e = oid \<and> dl_version e = next_version oid s) (dk_deliveries s)"
  proof
    assume "list_ex (\<lambda>e. dl_order e = oid \<and> dl_version e = next_version oid s) (dk_deliveries s)"
    then obtain e where e: "e \<in> set (filter (\<lambda>d. dl_order d = oid) (dk_deliveries s))" "dl_version e = next_version oid s"
      by (auto simp: list_ex_iff)
    then show False using newest_greatest newest_None
      unfolding next_version_def latestDelivery_def by (fastforce split: option.splits)
  qed
qed

lemma ostep_insert_delivery:
  assumes R: "sound busy actor r s" and body: "1 \<le> length (dl_body d)" "length (dl_body d) \<le> 12000"
    and link: "case dl_url d of None \<Rightarrow> True | Some u \<Rightarrow> url_pattern u" and v: "dl_version d = next_version (dl_order d) s"
    and next_step: "\<And>t. sound busy actor r t \<Longrightarrow> dk_orders t = dk_orders s \<Longrightarrow> wp (f ()) Q E t"
  shows "wp (abind (insert_delivery d) f) Q E s"
proof -
  have ok: "deliveries_ok s" using R by (simp add: sound_def desk_inv_def)
  let ?t = "s\<lparr>dk_deliveries := dk_deliveries s @ [d]\<rparr>"
  have "deliveries_ok ?t" using ok next_version(1) [OF ok] v by (simp add: deliveries_ok_def)
  then have "sound busy actor r ?t" using R
    by (simp add: sound_def desk_inv_def changes_def orders_ok_def amendments_ok_def cancellations_ok_def disputes_ok_def open_dispute_def)
  then have "wp (f ()) Q E ?t" by (rule next_step) simp
  then show ?thesis using body link next_version [OF ok, of "dl_order d"] v by (simp add: insert_delivery_def wp constraint_def)
qed

text \<open>A new dispute is the one being worked on until its order has entered the dispute.\<close>

lemma ostep_insert_dispute:
  assumes R: "sound None actor r s" and y: "mget (dk_orders s) oid = Some x" and oid: "ds_order d = oid" and reason: "10 \<le> length (ds_reason d)" "length (ds_reason d) \<le> 5000"
    and st: "od_status x \<noteq> DISPUTED" and new: "mget (dk_disputes s) i = None" and op: "ds_open d"
    and next_step: "\<And>t. sound (Some i) actor r t \<Longrightarrow> dk_orders t = dk_orders s \<Longrightarrow> open_dispute t i oid \<Longrightarrow> wp (f ()) Q E t"
  shows "wp (abind (insert_dispute i d) f) Q E s"
proof -
  have x: "mget (dk_orders s) (ds_order d) = Some x" "od_status x \<noteq> DISPUTED" using y oid st by simp_all
  have ok: "disputes_ok None s" using R by (simp add: sound_def desk_inv_def)
  let ?t = "s\<lparr>dk_disputes := mput i d (dk_disputes s)\<rparr>"
  have none: "\<not> open_dispute s j (ds_order d)" for j
    using ok x unfolding disputes_ok_def by (metis option.distinct(1) option.inject option.map(2))
  have op_t: "open_dispute ?t j k \<longleftrightarrow> (if j = i then k = ds_order d else open_dispute s j k)" for j k
    using op by (auto simp: open_dispute_def)
  have "\<not> list_ex (\<lambda>(i, e). ds_order e = ds_order d \<and> ds_open e) (dk_disputes s)"
  proof
    assume "list_ex (\<lambda>(i, e). ds_order e = ds_order d \<and> ds_open e) (dk_disputes s)"
    then obtain j e where "(j, e) \<in> set (dk_disputes s)" "ds_order e = ds_order d" "ds_open e" by (auto simp: list_ex_iff)
    then have "open_dispute s j (ds_order d)" using ok mem_mget by (fastforce simp: open_dispute_def disputes_ok_def)
    then show False using none by blast
  qed
  moreover have "disputes_ok (Some i) ?t"
    unfolding disputes_ok_def op_t using ok none by (auto simp: disputes_ok_def)
  then have "sound (Some i) actor r ?t" using R
    by (simp add: sound_def desk_inv_def changes_def orders_ok_def amendments_ok_def cancellations_ok_def deliveries_ok_def)
  then have "wp (f ()) Q E ?t" by (rule next_step) (simp_all add: op_t oid)
  ultimately show ?thesis using reason new by (simp add: insert_dispute_def wp constraint_def)
qed

lemma ostep_insert_cancellation:
  assumes R: "sound busy actor r s" and reason: "10 \<le> length (cn_reason c)" "length (cn_reason c) \<le> 5000" "0 \<le> cn_refund c"
    and x: "mget (dk_orders s) (cn_order c) = Some x" "parties x (cn_by c) (cn_counterparty c)" "cn_refund c \<le> od_amount x"
    and free: "\<not> list_ex (\<lambda>(i, e). cn_order e = cn_order c \<and> cn_status e = Requested) (dk_cancellations s)"
    and new: "mget (dk_cancellations s) i = None"
    and next_step: "\<And>t. sound busy actor r t \<Longrightarrow> wp (f ()) Q E t"
  shows "wp (abind (insert_cancellation i c) f) Q E s"
proof -
  let ?t = "s\<lparr>dk_cancellations := mput i c (dk_cancellations s)\<rparr>"
  have differ: "cn_by c \<noteq> cn_counterparty c"
    using sound_order [OF R x(1)] x(2) by (auto simp: parties_def order_ok_def order_checks_def)
  have "cancellations_ok s" using R by (simp add: sound_def desk_inv_def)
  then have "cancellations_ok ?t" using x reason by (auto simp: cancellations_ok_def)
  then have "sound busy actor r ?t" using R
    by (simp add: sound_def desk_inv_def changes_def orders_ok_def amendments_ok_def disputes_ok_def deliveries_ok_def open_dispute_def)
  then have "wp (f ()) Q E ?t" by (rule next_step)
  then show ?thesis using reason differ free new by (simp add: insert_cancellation_def wp constraint_def)
qed

lemma ostep_insert_amendment:
  assumes R: "sound busy actor r s" and reason: "10 \<le> length (am_reason a)" "length (am_reason a) \<le> 2000" "am_old a < am_new a"
      "am_new a - am_old a \<le> MAX_EXTENSION_DAYS * DAY_MS"
    and x: "mget (dk_orders s) (am_order a) = Some x" "parties x (am_by a) (am_counterparty a)"
    and free: "\<not> list_ex (\<lambda>(i, e). am_order e = am_order a \<and> am_status e = Requested) (dk_amendments s)"
    and new: "mget (dk_amendments s) i = None"
    and next_step: "\<And>t. sound busy actor r t \<Longrightarrow> wp (f ()) Q E t"
  shows "wp (abind (insert_amendment i a) f) Q E s"
proof -
  let ?t = "s\<lparr>dk_amendments := mput i a (dk_amendments s)\<rparr>"
  have differ: "am_by a \<noteq> am_counterparty a"
    using sound_order [OF R x(1)] x(2) by (auto simp: parties_def order_ok_def order_checks_def)
  have "amendments_ok s" using R by (simp add: sound_def desk_inv_def)
  then have "amendments_ok ?t" using x reason by (auto simp: amendments_ok_def)
  then have "sound busy actor r ?t" using R
    by (simp add: sound_def desk_inv_def changes_def orders_ok_def cancellations_ok_def disputes_ok_def deliveries_ok_def open_dispute_def)
  then have "wp (f ()) Q E ?t" by (rule next_step)
  then show ?thesis using reason differ free new by (simp add: insert_amendment_def wp constraint_def)
qed

section \<open>Answers\<close>

lemma ostep_answer_cancellation:
  assumes R: "sound busy actor r s" and c: "mget (dk_cancellations s) i = Some c" "cn_status c = Requested"
    and next_step: "\<And>t. sound busy actor r t \<Longrightarrow> dk_orders t = dk_orders s \<Longrightarrow> wp (f ()) Q E t"
  shows "wp (abind (answer_cancellation i st) f) Q E s"
proof -
  let ?t = "s\<lparr>dk_cancellations := mput i (c\<lparr>cn_status := st\<rparr>) (dk_cancellations s)\<rparr>"
  have "cancellations_ok s" using R by (simp add: sound_def desk_inv_def)
  then have "cancellations_ok ?t" using c by (auto simp: cancellations_ok_def)
  then have "sound busy actor r ?t" using R
    by (simp add: sound_def desk_inv_def changes_def orders_ok_def amendments_ok_def disputes_ok_def deliveries_ok_def open_dispute_def)
  then have "wp (f ()) Q E ?t" by (rule next_step) simp
  then show ?thesis using c by (simp add: answer_cancellation_def wp constraint_def)
qed

lemma ostep_answer_amendment:
  assumes R: "sound busy actor r s" and a: "mget (dk_amendments s) i = Some a" "am_status a = Requested"
    and next_step: "\<And>t. sound busy actor r t \<Longrightarrow> dk_orders t = dk_orders s \<Longrightarrow>
      dk_amendments t = mput i (a\<lparr>am_status := st, am_responded_at := Some now\<rparr>) (dk_amendments s) \<Longrightarrow> wp (f ()) Q E t"
  shows "wp (abind (answer_amendment now i st) f) Q E s"
proof -
  let ?t = "s\<lparr>dk_amendments := mput i (a\<lparr>am_status := st, am_responded_at := Some now\<rparr>) (dk_amendments s)\<rparr>"
  have "amendments_ok s" using R by (simp add: sound_def desk_inv_def)
  then have "amendments_ok ?t" using a by (auto simp: amendments_ok_def)
  then have "sound busy actor r ?t" using R
    by (simp add: sound_def desk_inv_def changes_def orders_ok_def cancellations_ok_def disputes_ok_def deliveries_ok_def open_dispute_def)
  then have "wp (f ()) Q E ?t" by (rule next_step) simp_all
  then show ?thesis using a by (simp add: answer_amendment_def wp constraint_def)
qed

lemma list_ex_mput: "P (i, v) \<Longrightarrow> list_ex P (mput i v m)"
  by (induction m) auto

end
