(* ===== verification/Order_Commands.thy ===== *)
theory Order_Commands
  imports Order_Statements
begin

text \<open>
  Every command on orders, every decision of a dispute and the automatic approval keep the invariant, change orders lawfully and
  fail only by refusing (\<open>commands_sound\<close>).
\<close>

section \<open>Refunds\<close>

lemma lawful_returned:
  assumes "lawful actor r oid x y" "od_status y = CANCELLED"
  shows "lawful actor r oid x (bump_order (y\<lparr>od_status := REFUNDED, od_payment := Pay_refunded\<rparr>))"
proof -
  have "money_kept x (bump_order (y\<lparr>od_status := REFUNDED, od_payment := Pay_refunded\<rparr>))"
    using assms by (simp add: lawful_def money_kept_def bump_order_def)
  with assms show ?thesis
    by (auto simp: lawful_def order_move_def bump_order_def agreed_cancellation_def agreed_deadline_def working_def)
qed

lemma changes_returned:
  assumes "changes actor r s" "mget (dk_orders s) oid = Some y" "od_status y = CANCELLED"
  shows "changes actor r (updated now oid y (bump_order (y\<lparr>od_status := REFUNDED, od_payment := Pay_refunded\<rparr>)) s)"
proof -
  obtain x where x: "mget (dk_orders r) oid = Some x" "lawful actor r oid x y"
    using assms by (cases "mget (dk_orders r) oid") (fastforce simp: changes_def)+
  then show ?thesis using assms lawful_returned [OF x(2) assms(3)] by (auto simp: changes_def)
qed

lemma returned_sound:
  assumes R: "sound busy actor r s" and y: "mget (dk_orders s) oid = Some y" "od_status y = CANCELLED"
  shows "wp (update_order now oid (\<lambda>x. bump_order (x\<lparr>od_status := REFUNDED, od_payment := Pay_refunded\<rparr>))) (\<lambda>_ t. sound busy actor r t) E s"
proof -
  let ?y = "bump_order (y\<lparr>od_status := REFUNDED, od_payment := Pay_refunded\<rparr>)"
  have ok: "order_ok ?y" using sound_order [OF R y(1)] by (auto simp: order_defs)
  have guards: "order_snapshot_guard y ?y" "order_transition_guard y ?y" "order_delivery_due_guard now oid ams y ?y" for ams
    using y(2) by (auto simp: order_defs)
  have "disputes_ok busy (updated now oid y ?y s)"
    by (rule disputes_updated [OF sound_disputes [OF R] y(1)]) (use y(2) in simp)
  then have "sound busy actor r (updated now oid y ?y s)"
    using desk_updated [OF _ y(1) guards(1) ok] changes_returned [OF _ y] R by (auto simp: sound_def)
  then show ?thesis using y guards ok by (simp add: update_order_def wp constraint_def updated_def order_ok_def)
qed

abbreviation keeps_sound :: "string option \<Rightarrow> actor \<Rightarrow> desk \<Rightarrow> exception_value \<Rightarrow> desk \<Rightarrow> bool" where
  "keeps_sound busy actor r \<equiv> \<lambda>e t. e \<noteq> Other_error \<and> sound busy actor r t"

lemma sound_event: "sound busy actor r s \<Longrightarrow> wp (event a b c) (\<lambda>_ t. sound busy actor r t) E s"
  using ostep_asides(1) [of busy actor r s "\<lambda>_. areturn ()" "\<lambda>_ t. sound busy actor r t" E a b c] by (auto simp: wp event_def)

lemma sound_case: "sound busy actor r s \<Longrightarrow> wp (openCase a d c) (\<lambda>_ t. sound busy actor r t) E s"
  using ostep_asides(3) [of busy actor r s "\<lambda>_. areturn ()" "\<lambda>_ t. sound busy actor r t" E a d c] by (auto simp: wp openCase_def)

lemma sound_return:
  assumes "env_ok env" "sound busy actor r s"
  shows "wp (returnPoolFunding env now oid x) (\<lambda>_ t. sound busy actor r t) (keeps_sound busy actor r) s"
proof -
  have q: "quiet (on_poolReturn env oid)" using assms(1) by simp
  show ?thesis using assms(2) q
    by (auto simp: returnPoolFunding_def wp quiet_def event_def split: sum.split
        intro!: wp_mono [OF returned_sound] sound_event [unfolded event_def wp])
qed

lemma quiet_iff: "quiet r \<longleftrightarrow> r \<noteq> Inl Other_error"
  by (cases r) (auto simp: quiet_def)

lemma sound_lift: "quiet r' \<Longrightarrow> sound busy actor r s \<Longrightarrow> wp (alift r') (\<lambda>_ t. sound busy actor r t) (keeps_sound busy actor r) s"
  by (cases r') (auto simp: quiet_def wp)

lemma sound_provider_refund:
  assumes "env_ok env" "sound busy actor r s"
  shows "wp (requestProviderRefund env now oid x reason) (\<lambda>_ t. sound busy actor r t) (keeps_sound busy actor r) s"
proof (cases "od_rail x")
  case MOCK_PROVIDER
  obtain operationId amount where "refund_operation oid x = (operationId, amount)" by (cases "refund_operation oid x")
  then show ?thesis using assms MOCK_PROVIDER
    by (auto simp: requestProviderRefund_def wp_abind wp_acheck wp_afail sound_lift split: option.split)
next
  case CRYPTO
  then show ?thesis using assms by (auto simp: requestProviderRefund_def queueCryptoRefund_def wp_abind wp_acheck sound_lift)
next
  case POOL
  then show ?thesis using assms by (simp add: requestProviderRefund_def sound_return)
qed

lemma ostep_refund [ostep]:
  assumes "env_ok env" "sound busy actor r s" "\<And>x t. sound busy actor r t \<Longrightarrow> wp (f x) Q calm t"
  shows "wp (abind (requestProviderRefund env now oid x reason) f) Q calm s"
  unfolding wp by (rule wp_mono [OF sound_provider_refund [OF assms(1,2)]]) (use assms(3) in auto)

lemma ostep_try_refund [ostep]:
  assumes "env_ok env" "sound busy actor r s" "\<And>t. sound busy actor r t \<Longrightarrow> wp (f ()) Q calm t"
  shows "wp (abind (try_refund env now oid x reason u) f) Q calm s"
proof -
  have "wp (try_refund env now oid x reason u) (\<lambda>_ t. sound busy actor r t) calm s"
    unfolding try_refund_def wp_acatch
  proof (rule wp_mono [OF sound_provider_refund [OF assms(1,2)]])
    fix t e assume "keeps_sound busy actor r e t"
    then show "wp (if is_flow_error e then openCase (Some oid) None ''REFUND_NOT_REQUESTED'' else afail e) (\<lambda>_ t. sound busy actor r t) calm t"
      by (auto simp: sound_case wp)
  next
    fix state t assume "sound busy actor r t"
    then show "wp (abind (event oid (Some u) ''REFUND_REQUESTED'') (\<lambda>_. if state = ''REJECTED'' then openCase (Some oid) None ''REFUND_REJECTED'' else areturn ()))
        (\<lambda>_ t. sound busy actor r t) calm t"
      unfolding wp_abind
      by (rule wp_mono [OF sound_event [where E = "\<lambda>_ _. False"]]) (auto simp: wp sound_case)
  qed
  then show ?thesis unfolding wp by (rule wp_mono) (use assms(3) in auto)
qed

section \<open>The buyer's view\<close>

lemma sound_view: "sound busy actor r s \<Longrightarrow> sound busy actor r (view_delivery now d s)"
  by (auto simp: sound_def desk_inv_def changes_def orders_ok_def amendments_ok_def cancellations_ok_def disputes_ok_def deliveries_ok_def
      open_dispute_def view_delivery_def)

lemma view_orders [simp]: "dk_orders (view_delivery now d s) = dk_orders s"
  by (simp add: view_delivery_def)

lemma ostep_viewed [ostep]:
  "sound busy actor r s \<Longrightarrow> (\<And>t. sound busy actor r t \<Longrightarrow> dk_orders t = dk_orders s \<Longrightarrow> wp (f ()) Q E t) \<Longrightarrow>
   wp (abind (amodify (view_delivery now d)) f) Q E s"
  by (simp add: wp sound_view)

lemma lawful_same:
  "od_buyer y = od_buyer x \<Longrightarrow> od_creator y = od_creator x \<Longrightarrow> od_amount y = od_amount x \<Longrightarrow> od_terms y = od_terms x \<Longrightarrow> od_version x \<le> od_version y \<Longrightarrow>
   od_status y = od_status x \<Longrightarrow> od_delivery_due_at y = od_delivery_due_at x \<Longrightarrow> money_kept x y \<Longrightarrow> lawful actor r oid x y"
  by (auto simp: lawful_def working_def)

lemma ostep_buyer_view [ostep]:
  assumes "sound busy actor r s" "mget (dk_orders r) oid = Some x" "dk_orders s = dk_orders r"
    "\<And>x t. sound busy actor r t \<Longrightarrow> wp (f x) Q calm t"
  shows "wp (abind (recordBuyerView now oid x) f) Q calm s"
  unfolding recordBuyerView_def
  by (assumption | rule assms(1,4) ostep ostep_move | (simp add: assms same_rows_def; fail) | (simp add: order_defs; (elim conjE disjE; simp add: order_defs)?; fail))+

section \<open>Commands of the buyer and the creator\<close>

abbreviation good :: "actor \<Rightarrow> desk \<Rightarrow> 'a order_action \<Rightarrow> bool" where
  "good actor s m \<equiv> wp m (\<lambda>_ t. sound None actor s t) calm s"

lemma text_reads: "text_field form n req m = Inr v \<Longrightarrow> length v \<le> m \<and> (req \<longrightarrow> Suc 0 \<le> length v)"
  by (auto simp: text_field_Inr Suc_le_eq)

lemma integer_reads: "integer v a b = Inr n \<Longrightarrow> a \<le> n \<and> n \<le> b"
  by (auto simp: integer_def Let_def ebind_Inr echeck_Inr)

lemma refund_reads: "refund_field form = Inr n \<Longrightarrow> 0 \<le> n"
  by (fastforce simp: refund_field_def ebind_Inr dest: money_positive split: if_splits)

lemma parties_simps: "is_buyer actor x \<or> is_creator actor x \<Longrightarrow> parties x (ac_id actor) (counterpartyOf x actor)"
  by (auto simp: parties_def counterpartyOf_def is_buyer_def is_creator_def)

lemma first_commands:
  assumes "desk_inv None s"
  shows "good actor s sandboxPay" "good actor s (start_work now actor form)" "good actor s (review_order actor form)"
    "good actor s (send_message actor form)" "good actor s (markDeliveryViewed now actor form)" "good actor s (approve now actor form)"
    "good actor s (revision now actor form)"
  unfolding sandboxPay_def start_work_def review_order_def send_message_def markDeliveryViewed_def approve_def approveOrder_def revision_def
  by (assumption | rule sound_refl assms ostep ostep_move exception_value.distinct | (simp add: same_rows_def; fail) | (auto simp: order_defs; fail)
    | (auto dest!: text_reads integer_reads; fail))+

lemma ending_commands:
  assumes "desk_inv None s" "env_ok env"
  shows "good actor s (cancel_order env now actor form)" "good actor s (refund_order env now actor form)"
  unfolding cancel_order_def refund_order_def
  by (assumption | rule sound_refl assms ostep ostep_move | (simp add: assms same_rows_def; fail) | (auto simp: order_defs; fail))+

lemma ostep_start_clock:
  assumes R: "sound None actor r s" and x: "mget (dk_orders r) oid = Some x" and same: "dk_orders s = dk_orders r"
    and st: "od_status x \<in> {AWAITING_PAYMENT, FUNDED}" "od_brief_ready_at x = None" and f: "f x = x\<lparr>od_brief := b, od_brief_ready_at := Some now\<rparr>"
    and next_step: "\<And>t. sound None actor r t \<Longrightarrow> wp (g ()) Q E t"
  shows "wp (abind (update_order now oid f) (\<lambda>_. abind (recomputeWorkClock now oid) g)) Q E s"
proof -
  let ?y = "start_clock (f x)"
  have xs: "mget (dk_orders s) oid = Some x" using x same by simp
  have ok: "order_ok x" by (rule sound_order [OF R xs])
  have id: "money_kept x ?y" "od_currency ?y = od_currency x" "od_status ?y = od_status x" "od_buyer ?y = od_buyer x" "od_creator ?y = od_creator x" "od_amount ?y = od_amount x" "od_terms ?y = od_terms x"
    "od_version ?y = od_version x" "od_delivery_due_at x \<noteq> None \<longrightarrow> od_delivery_due_at ?y = od_delivery_due_at x"
    by (auto simp: start_clock_def money_kept_def f split: option.split)
  have "order_ok ?y"
    using ok st(2) unfolding start_clock_def f by (auto simp: order_defs split: option.splits)
  moreover have "lawful actor r oid x ?y" using id st(1) by (auto simp: lawful_def working_def)
  ultimately have a: "admitted actor r ams now oid x ?y" for ams
    using id by (auto simp: admitted_def order_snapshot_guard_def order_transition_guard_def order_delivery_due_guard_def split: option.split)
  have fx: "order_checks (f x)" "order_snapshot_guard x (f x)" "order_transition_guard x (f x)" "order_delivery_due_guard now oid ams x (f x)"
    "order_snapshot_guard (f x) ?y" "order_transition_guard (f x) ?y" "order_delivery_due_guard now oid ams (f x) ?y" for ams
    using ok id by (auto simp: f order_defs order_delivery_due_guard_def split: option.split)
  have twice: "updated now oid (f x) ?y (updated now oid x (f x) s) = updated now oid x ?y s"
    using id(3) f by (simp add: updated_def order_amendment_expiry_def mput_def)
  have "order_checks ?y" using a [of "[]"] by (simp add: admitted_def order_ok_def)
  with fx xs have steps: "wp (abind (update_order now oid f) (\<lambda>_. abind (recomputeWorkClock now oid) g)) Q E s
      = wp (g ()) Q E (updated now oid x ?y s)"
    by (simp add: recomputeWorkClock_def update_order_def wp constraint_def twice [symmetric] flip: updated_def)
  have d: "disputes_ok None (updated now oid x ?y s)"
    by (rule disputes_updated [OF sound_disputes [OF R] xs]) (use st(1) in auto)
  have "sound None actor r (updated now oid x ?y s)"
    using R a [of "[]"] desk_updated [OF _ xs _ _ d] changes_updated [OF _ x] by (auto simp: sound_def admitted_def)
  then show ?thesis unfolding steps by (rule next_step)
qed

lemma brief_sound: "desk_inv None s \<Longrightarrow> good actor s (submitBrief now actor form)"
  unfolding submitBrief_def
  by (assumption | rule sound_refl ostep ostep_start_clock refl | (simp add: same_rows_def; fail) | (auto; fail))+

lemma ostep_pair [ostep]: "(\<And>a b. z = (a, b) \<Longrightarrow> wp (f a b) Q E s) \<Longrightarrow> wp (case z of (a, b) \<Rightarrow> f a b) Q E s"
  by (cases z) simp

text \<open>The ids that a command may give a new row are not in use.\<close>

definition fresh_id :: "string \<Rightarrow> desk \<Rightarrow> bool" where
  "fresh_id i s \<longleftrightarrow> mget (dk_disputes s) i = None \<and> mget (dk_cancellations s) i = None \<and> mget (dk_amendments s) i = None"

lemma opening_commands:
  assumes "desk_inv None s" "env_ok env" "fresh_id newId s"
  shows "good actor s (requestCancellation newId actor form)" "good actor s (requestDeadlineExtension env now newId actor form)"
  using assms unfolding requestCancellation_def requestDeadlineExtension_def fresh_id_def
  by -
   (assumption | rule sound_refl ostep ostep_insert_cancellation ostep_insert_amendment quiet_env
    | (simp add: same_rows_def; fail) | (auto dest: text_reads refund_reads; fail)
    | (auto simp: parties_def counterpartyOf_def is_buyer_def is_creator_def; fail))+

lemma dispute_sound:
  assumes "desk_inv None s" "env_ok env" "fresh_id newId s"
  shows "good actor s (dispute env now newId actor form)"
  using assms sound_refl [OF assms(1), of actor] unfolding dispute_def fresh_id_def
  by - (assumption | rule ostep ostep_insert_dispute ostep_opening quiet_env
    | (simp add: same_rows_def; fail) | (auto dest: text_reads; fail)
    | (simp add: order_defs; (elim conjE disjE; simp add: order_defs)?; fail))+

lemma delivery_body_length:
  assumes "text_field form n False 12000 = Inr v"
  shows "Suc 0 \<le> length (delivery_body v p ids)" "length (delivery_body v p ids) \<le> 12000"
  using text_reads [OF assms] by (auto simp: delivery_body_def Suc_le_eq)

lemma delivery_links:
  assumes "env_ok env"
  shows "delivery_url env v = Inr z \<Longrightarrow> case z of None \<Rightarrow> True | Some u \<Rightarrow> url_pattern u"
    "on_publication env t form a b now = Inr u \<Longrightarrow> url_pattern u"
proof -
  have url: "url_pattern href" if "on_urlOf env v = Some (protocol, href)" "protocol = ''http:'' \<or> protocol = ''https:''" for v protocol href
  proof -
    have "\<forall>v protocol href. on_urlOf env v = Some (protocol, href) \<longrightarrow> protocol \<in> {''http:'', ''https:''} \<longrightarrow> url_pattern href"
      using assms unfolding env_ok_def by (rule conjunct1)
    with that show ?thesis by blast
  qed
  then show "delivery_url env v = Inr z \<Longrightarrow> case z of None \<Rightarrow> True | Some u \<Rightarrow> url_pattern u"
    by (auto simp: delivery_url_def ebind_Inr echeck_Inr split: if_split_asm option.split_asm)
  show "on_publication env t form a b now = Inr u \<Longrightarrow> url_pattern u"
    using assms by (simp only: env_ok_def)
qed

lemma deliver_sound:
  assumes "desk_inv None s" "env_ok env"
  shows "good actor s (deliver env now actor form)"
  using assms sound_refl [OF assms(1), of actor] unfolding deliver_def
  by - (assumption | rule ostep ostep_insert_delivery ostep_move quiet_env
    | (simp add: same_rows_def next_version_def delivery_body_length delivery_links; fail)
    | (simp add: order_defs; (elim conjE disjE; simp add: order_defs)?; fail))+

end
