(* ===== verification/Order_Answers.thy ===== *)
theory Order_Answers
  imports Order_Commands
begin

text \<open>
  The commands that answer a request or a proposal of the other party, the operators' decision of a dispute and the automatic
  approval keep the invariant, change orders lawfully and fail only by refusing; then the same of every command.
\<close>

lemma ostep_fresh:
  "dk_orders s = mput oid y m \<Longrightarrow> wp (abind (f y) g) Q E s \<Longrightarrow>
   wp (abind (case mget (dk_orders s) oid of None \<Rightarrow> z | Some x \<Rightarrow> f x) g) Q E s"
  by simp

section \<open>Cancellation by agreement\<close>

lemma requested_refund:
  "sound busy actor r s \<Longrightarrow> mget (dk_cancellations s) i = Some c \<Longrightarrow> mget (dk_orders s) (cn_order c) = Some x \<Longrightarrow> 0 \<le> cn_refund c \<and> cn_refund c \<le> od_amount x"
  by (fastforce simp: sound_def desk_inv_def cancellations_ok_def)

lemma admitted_cancellation:
  assumes inv: "sound None actor s s" and c: "mget (dk_cancellations s) i = Some c" "cn_status c = Requested" and x: "mget (dk_orders s) (cn_order c) = Some x"
    and party: "is_buyer actor x \<or> is_creator actor x" "ac_id actor = cn_counterparty c"
    and cur: "\<not> (od_version x \<noteq> cn_order_version c \<or> \<not> working (od_status x))" and ok: "order_ok x"
    and p: "p = (if 0 < cn_refund c then Pay_refund_pending else od_payment x)"
  shows "admitted actor s ams now (cn_order c) x (bump_order (x\<lparr>od_status := CANCELLED, od_cancelled_at := u, od_cancellation_refund := Some (cn_refund c),
      od_payment := p, od_settlement := (if cn_refund c < od_amount x then Ready else Not_ready)\<rparr>)) \<and> (od_status x = DISPUTED \<longrightarrow> od_status (bump_order (x\<lparr>od_status := CANCELLED, od_cancelled_at := u,
      od_cancellation_refund := Some (cn_refund c), od_payment := p, od_settlement := (if cn_refund c < od_amount x then Ready else Not_ready)\<rparr>)) = DISPUTED)"
proof -
  let ?y = "bump_order (x\<lparr>od_status := CANCELLED, od_cancelled_at := u, od_cancellation_refund := Some (cn_refund c), od_payment := p, od_settlement := (if cn_refund c < od_amount x then Ready else Not_ready)\<rparr>)"
  have "agreed_cancellation actor s (cn_order c) x ?y"
    unfolding agreed_cancellation_def using c party cur by (intro exI [of _ i] exI [of _ c]) (simp add: bump_order_def)
  moreover have "0 \<le> cn_refund c" "cn_refund c \<le> od_amount x" using requested_refund [OF inv c(1) x] by auto
  moreover have "returned_is_bank (od_funding_method x) p" using ok by (simp add: p order_ok_def order_checks_def)
  moreover have "p = od_payment x \<or> p = Pay_refund_pending" by (simp add: p)
  ultimately show ?thesis using ok party(1) cur
    by (simp add: order_defs; (elim conjE disjE; simp add: order_defs)?)
qed

lemma respond_cancellation_sound:
  assumes "desk_inv None s" "env_ok env"
  shows "good actor s (respondCancellation env now actor form)"
  using assms sound_refl [OF assms(1), of actor] unfolding respondCancellation_def accept_cancellation_def
  by - (assumption | rule ostep_fresh ostep ostep_answer_cancellation ostep_move admitted_cancellation refl
    | (simp add: same_rows_def; fail))+

section \<open>Proposals to move a deadline\<close>

lemma admitted_delivery_deadline:
  assumes a: "mget (dk_amendments s) i = Some a" "am_status a = Requested" and party: "ac_id actor = am_counterparty a" and ok: "order_ok x"
    and kind: "am_deadline a = Delivery_deadline" and due: "od_delivery_due_at x = Some (am_old a)"
    and ams: "ams = mput i (a\<lparr>am_status := Accepted, am_responded_at := Some now\<rparr>) (dk_amendments s)"
  shows "admitted actor s ams now (am_order a) x (bump_order (x\<lparr>od_delivery_due_at := Some (am_new a)\<rparr>))
    \<and> (od_status x = DISPUTED \<longrightarrow> od_status (bump_order (x\<lparr>od_delivery_due_at := Some (am_new a)\<rparr>)) = DISPUTED)"
proof -
  let ?y = "bump_order (x\<lparr>od_delivery_due_at := Some (am_new a)\<rparr>)"
  have "agreed_deadline actor s (am_order a) x ?y"
    unfolding agreed_deadline_def using a kind due party by (intro exI [of _ i] exI [of _ a]) (simp add: bump_order_def)
  moreover have "order_delivery_due_guard now (am_order a) ams x ?y"
    unfolding order_delivery_due_guard_def ams using due kind by (auto simp: bump_order_def intro!: list_ex_mput)
  ultimately show ?thesis using ok by (simp add: order_defs; (elim conjE disjE; simp add: order_defs)?)
qed

lemma ostep_kind:
  "(k = Delivery_deadline \<Longrightarrow> wp (abind m f) Q E s) \<Longrightarrow> (k = Revision_deadline \<Longrightarrow> wp (abind m' f) Q E s) \<Longrightarrow>
   wp (abind (case k of Delivery_deadline \<Rightarrow> m | Revision_deadline \<Rightarrow> m') f) Q E s"
  by (cases k) simp_all

lemma respond_extension_sound:
  assumes "desk_inv None s"
  shows "good actor s (respondDeadlineExtension now actor form)"
  using assms sound_refl [OF assms(1), of actor] unfolding respondDeadlineExtension_def applyAcceptedExtension_def
  by - (assumption | rule ostep_kind ostep ostep_answer_amendment ostep_move admitted_delivery_deadline
    | (simp add: same_rows_def due_at_def; fail) | (simp add: order_defs; (elim conjE disjE; simp add: order_defs)?; fail))+

section \<open>Decisions of a dispute\<close>

lemma ostep_let_bind [ostep]: "wp (abind (m a) f) Q E s \<Longrightarrow> wp (abind (let x = a in m x) f) Q E s"
  by simp

lemma open_disputeI: "mget (dk_disputes s) i = Some d \<Longrightarrow> ds_open d \<Longrightarrow> open_dispute s i (ds_order d)"
  by (simp add: open_dispute_def)

lemma ostep_set_dispute:
  assumes R: "sound (Some i) actor r s" and next_step: "\<And>t. sound None actor r t \<Longrightarrow> wp (f ()) Q E t"
  shows "wp (abind (amodify (set_dispute i outcome)) f) Q E s"
proof -
  have "disputes_ok None (set_dispute i outcome s)" by (rule disputes_decided [OF sound_disputes [OF R]])
  then have "sound None actor r (set_dispute i outcome s)" using R
    by (simp add: sound_def desk_inv_def changes_def orders_ok_def cancellations_ok_def amendments_ok_def deliveries_ok_def)
  then show ?thesis using next_step by (simp add: wp)
qed

lemma requireRole_Inr: "requireRole a rs = Inr u \<longleftrightarrow> ac_active a \<and> hasAnyRole a rs"
  by (auto simp: requireRole_def ebind_Inr echeck_Inr)

lemma admitted_resume:
  assumes "order_ok x" "od_status x = DISPUTED" "hasAnyRole actor [''finance'', ''support'', ''admin'']"
  shows "admitted actor r ams now oid x (bump_order (x\<lparr>od_status := (case od_status_before_dispute x of None \<Rightarrow> IN_PROGRESS | Some st \<Rightarrow> st),
    od_status_before_dispute := None, od_review_due_at := z\<rparr>))"
  using assms by (cases "od_status_before_dispute x") (simp_all add: order_defs, (elim conjE disjE; simp add: order_defs)?)

lemma resolve_sound:
  assumes "desk_inv None s" "env_ok env"
  shows "good actor s (resolveDispute env now actor form)"
  using assms sound_refl [OF assms(1), of actor] unfolding resolveDispute_def approveOrder_def decide_refund_def
  by - (assumption | rule ostep_fresh ostep ostep_set_dispute ostep_deciding open_disputeI admitted_resume quiet_env
    | (simp add: same_rows_def ebind_Inl requireRole_Inr; fail) | (simp add: order_defs requireRole_Inr; (elim conjE disjE; simp add: order_defs)?; fail))+

section \<open>The automatic approval\<close>

lemma aside_hold [simp]: "aside (amodify (\<lambda>s. dk_holds_update (\<lambda>_. F s) s))"
  by (simp add: aside_def wp same_rows_def)

lemma ostep_hold:
  assumes "sound busy actor r s" "0 < version" "\<not> list_ex (\<lambda>h. ho_order h = oid \<and> ho_resolution h = None) (dk_holds s)"
  shows "wp (hold_review oid version reason) (\<lambda>_ t. sound busy actor r t) calm s"
  using assms unfolding hold_review_def
  by - (assumption | rule ostep ostep_aside [OF aside_hold] | (simp; fail))+

lemma latest_positive: "sound busy actor r s \<Longrightarrow> latestDelivery oid s = Some d \<Longrightarrow> 0 < dl_version d"
  by (auto simp: sound_def desk_inv_def deliveries_ok_def latestDelivery_def dest!: newest_in)

lemma auto_sound:
  assumes "desk_inv None s" "\<And>x. mget (dk_orders s) oid = Some x \<Longrightarrow> is_buyer actor x"
  shows "good actor s (autoAcceptDelivery env now oid)"
  using assms sound_refl [OF assms(1), of actor] unfolding autoAcceptDelivery_def approveOrder_def
  by - (assumption | rule ostep ostep_hold ostep_move latest_positive
    | (simp add: same_rows_def; fail) | (simp add: order_defs; (elim conjE disjE; simp add: order_defs)?; fail))+

section \<open>Every command\<close>

lemma command_sound:
  assumes "desk_inv None s" "env_ok env" "fresh_id newId s"
  shows "good actor s (orderCommands env now newId c actor form)"
  using assms by (cases c) (simp_all add: first_commands ending_commands brief_sound opening_commands dispute_sound deliver_sound
      respond_cancellation_sound respond_extension_sound resolve_sound)

lemma command_result:
  assumes "desk_inv None s" "env_ok env" "fresh_id newId s" "orderCommands env now newId c actor form s = (r, t)"
  shows "case r of Inl e \<Rightarrow> e \<noteq> Other_error | Inr _ \<Rightarrow> sound None actor s t"
  using wp_elim [OF command_sound [OF assms(1-3)] assms(4)] by (cases r) auto

end
