(* ===== verification/Order_Properties.thy ===== *)
theory Order_Properties
  imports Order_Answers
begin

text \<open>
  What the commands on orders guarantee to the buyer and the creator. The witnesses run the commands on the order of one desk.
\<close>

section \<open>One order\<close>

definition bo :: actor where "bo = \<lparr>ac_id = ''bo'', ac_roles = [''buyer''], ac_active = True\<rparr>"
definition cy :: actor where "cy = \<lparr>ac_id = ''cy'', ac_roles = [''creator''], ac_active = True\<rparr>"

definition desk_id :: "char \<Rightarrow> string" where
  "desk_id c = ''00000000-0000-4000-8000-00000000000'' @ [c]"

definition plain_env :: order_env where
  "plain_env = \<lparr>on_urlOf = (\<lambda>_. None), on_dateOf = (\<lambda>_. None), on_publication = (\<lambda>_ _ _ _ _. Inl (Command_error INVALID_INPUT)),
     on_asset = (\<lambda>_ _ _. Inr ()), on_cancelFunding = (\<lambda>_. Inr ()), on_freeze = (\<lambda>_ _ _ _. Inr ()), on_funding = (\<lambda>_. Some ''f''),
     on_providerRefund = (\<lambda>_ _ _ _. Inr ''READY''), on_chainRefund = (\<lambda>_ _. Inr ''READY''), on_poolReturn = (\<lambda>_. Inr ()), on_unsafeFile = (\<lambda>_. False)\<rparr>"

definition plain_terms :: order_terms where
  "plain_terms = \<lparr>ot_turnaround_hours = Some 24, ot_revision_limit = Some 1, ot_review_window_hours = None, ot_auto_accept_consent = True,
     ot_digital = False, ot_publish = None\<rparr>"

definition plain_order :: "order_status \<Rightarrow> order" where
  "plain_order st = \<lparr>od_buyer = ''bo'', od_creator = ''cy'', od_status = st, od_amount = 10000, od_currency = ''USD'', od_provider_fee = Some 0, od_funding_method = Some ''CARD'', od_brief = ''A brief of the work'', od_terms = plain_terms,
     od_version = 3, od_payment = Pay_succeeded, od_settlement = Not_ready, od_rail = MOCK_PROVIDER, od_funded_at = Some 1, od_brief_ready_at = Some 2,
     od_work_start_at = Some 2, od_delivery_due_at = Some 86400002, od_review_due_at = Some 300000000, od_revision_due_at = None, od_revision_count = 0,
     od_approved_at = None, od_completed_at = None, od_cancelled_at = None, od_status_before_dispute = None, od_cancellation_refund = None, od_performance_refund = None\<rparr>"

definition plain_delivery :: delivery where
  "plain_delivery = \<lparr>dl_order = desk_id CHR ''1'', dl_version = 1, dl_body = ''The work as agreed'', dl_url = None, dl_validation = Valid, dl_submitted_by = ''cy'',
     dl_viewed_at = Some 5, dl_assets = []\<rparr>"

definition plain_request :: cancellation where
  "plain_request = \<lparr>cn_order = desk_id CHR ''1'', cn_by = ''cy'', cn_counterparty = ''bo'', cn_reason = ''Cannot do it'', cn_refund = 0, cn_order_version = 3, cn_status = Requested\<rparr>"

definition plain_proposal :: amendment where
  "plain_proposal = \<lparr>am_order = desk_id CHR ''1'', am_deadline = Delivery_deadline, am_by = ''cy'', am_counterparty = ''bo'', am_reason = ''One more day'',
     am_old = 86400002, am_new = 172800002, am_order_version = 3, am_status = Requested, am_responded_at = None\<rparr>"

definition plain_desk :: "order_status \<Rightarrow> desk" where
  "plain_desk st = \<lparr>dk_orders = [(desk_id CHR ''1'', plain_order st)], dk_deliveries = [plain_delivery], dk_holds = [],
     dk_cancellations = [(desk_id CHR ''2'', plain_request)], dk_amendments = [(desk_id CHR ''3'', plain_proposal)], dk_disputes = [],
     dk_reviews = [], dk_messages = [], dk_events = [], dk_outbox = [], dk_cases = [], dk_audit = []\<rparr>"

lemmas plain_defs = plain_order_def plain_terms_def plain_delivery_def plain_request_def plain_proposal_def bo_def cy_def

lemma plain_env_ok: "env_ok plain_env"
  by (simp add: env_ok_def plain_env_def quiet_def)

lemma plain_inv: "st \<notin> {AWAITING_PAYMENT, DISPUTED, REFUNDED} \<Longrightarrow> desk_inv None (plain_desk st)"
  by (cases st; simp add: desk_inv_def orders_ok_def cancellations_ok_def amendments_ok_def disputes_ok_def deliveries_ok_def open_dispute_def
      plain_desk_def mok_def order_ok_def order_checks_def clock_ok_def settle_ok_def fee_checks_def plain_defs revisionLimit_def parties_def MAX_EXTENSION_DAYS_def DAY_MS_def)

lemma plain_fresh: "fresh_id (desk_id CHR ''9'') (plain_desk st)"
  by (simp add: fresh_id_def plain_desk_def desk_id_def)

lemma plain_rows [simp]:
  "mget (dk_orders (plain_desk st)) (desk_id CHR ''1'') = Some (plain_order st)"
  "mget (dk_cancellations (plain_desk st)) (desk_id CHR ''2'') = Some plain_request"
  "mget (dk_amendments (plain_desk st)) (desk_id CHR ''3'') = Some plain_proposal"
  by (simp_all add: plain_desk_def)

lemma desk_ids: "UUID_PATTERN (desk_id CHR ''1'')" "UUID_PATTERN (desk_id CHR ''2'')" "UUID_PATTERN (desk_id CHR ''3'')"
  by code_simp+

lemma reads_uuid:
  "uuid [''order_id'' \<mapsto> desk_id CHR ''1''] ''order_id'' = Inr (desk_id CHR ''1'')"
  "uuid [''request_id'' \<mapsto> desk_id CHR ''2'', ''decision'' \<mapsto> ''accept''] ''request_id'' = Inr (desk_id CHR ''2'')"
  "uuid [''amendment_id'' \<mapsto> desk_id CHR ''3'', ''decision'' \<mapsto> ''accept''] ''amendment_id'' = Inr (desk_id CHR ''3'')"
  by code_simp+

lemma reads_text:
  "expectedVersion [''order_id'' \<mapsto> desk_id CHR ''1''] ''expected_version'' = Inr None"
  "text_field [''request_id'' \<mapsto> desk_id CHR ''2'', ''decision'' \<mapsto> ''accept''] ''decision'' True 12000 = Inr ''accept''"
  "text_field [''amendment_id'' \<mapsto> desk_id CHR ''3'', ''decision'' \<mapsto> ''accept''] ''decision'' True 12000 = Inr ''accept''"
  by code_simp+

section \<open>Commands in their transaction\<close>

text \<open>The desk after the command, which leaves it as it was when it throws.\<close>

definition run_order :: "order_env \<Rightarrow> int \<Rightarrow> string \<Rightarrow> order_command \<Rightarrow> actor \<Rightarrow> form \<Rightarrow> desk \<Rightarrow> desk" where
  "run_order env now newId c actor form s = snd (transact (orderCommands env now newId c actor form) s)"

lemma run_order_sound:
  assumes "desk_inv None s" "env_ok env" "fresh_id newId s"
  shows "sound None actor s (run_order env now newId c actor form s)"
  using command_sound [OF assms, where actor = actor and now = now and c = c and form = form] sound_refl [OF assms(1), of actor]
  by (auto simp: run_order_def transact_def wp_def split: sum.splits prod.splits)

lemma run_order_lawful:
  assumes "desk_inv None s" "env_ok env" "fresh_id newId s" "mget (dk_orders s) oid = Some x"
  obtains y where "mget (dk_orders (run_order env now newId c actor form s)) oid = Some y" "lawful actor s oid x y"
  using run_order_sound [OF assms(1-3), where actor = actor and now = now and c = c and form = form] assms(4) unfolding sound_def changes_def by blast




text \<open>Runs of the desk.\<close>

lemma accepted_request:
  "mget (dk_orders (run_order plain_env 9 (desk_id CHR ''9'') Respond_cancellation bo [''request_id'' \<mapsto> desk_id CHR ''2'', ''decision'' \<mapsto> ''accept'']
     (plain_desk IN_PROGRESS))) (desk_id CHR ''1'') = Some ((plain_order IN_PROGRESS)\<lparr>od_status := CANCELLED, od_version := 4, od_cancelled_at := Some 9,
       od_cancellation_refund := Some 0, od_settlement := Ready\<rparr>)"
  by code_simp

lemma accepted_proposal:
  "mget (dk_orders (run_order plain_env 9 (desk_id CHR ''9'') Respond_deadline_extension bo [''amendment_id'' \<mapsto> desk_id CHR ''3'', ''decision'' \<mapsto> ''accept'']
     (plain_desk IN_PROGRESS))) (desk_id CHR ''1'') = Some ((plain_order IN_PROGRESS)\<lparr>od_version := 4, od_delivery_due_at := Some 172800002\<rparr>)"
  by code_simp


text \<open>The deadline of a delivery, once the work clock has set it, is moved by nothing but the actor's acceptance of a
  pending proposal of the other party: the new deadline is the proposed one, later than the old one by at most 90 days.\<close>

theorem deadlines_move_by_consent:
  assumes inv: "desk_inv None s" "env_ok env" "fresh_id newId s" and x: "mget (dk_orders s) oid = Some x" "od_delivery_due_at x = Some d"
    and y: "mget (dk_orders (run_order env now newId c actor form s)) oid = Some y" "od_delivery_due_at y \<noteq> Some d"
  shows "\<exists>i a. mget (dk_amendments s) i = Some a \<and> am_order a = oid \<and> am_status a = Requested \<and> am_deadline a = Delivery_deadline \<and> am_old a = d
    \<and> am_counterparty a = ac_id actor \<and> am_by a \<noteq> ac_id actor \<and> od_delivery_due_at y = Some (am_new a) \<and> d < am_new a \<and> am_new a - d \<le> 90 * 86400000"
proof -
  have law: "lawful actor s oid x y" using run_order_lawful [OF inv x(1)] y(1) by (metis option.inject)
  then obtain i a where a: "mget (dk_amendments s) i = Some a" "am_order a = oid" "am_status a = Requested" "am_counterparty a = ac_id actor"
    "am_deadline a = Delivery_deadline" "od_delivery_due_at x = Some (am_old a)" "od_delivery_due_at y = Some (am_new a)"
    using x y unfolding lawful_def agreed_deadline_def by force
  have "amendments_ok s" and "order_ok x" using inv(1) x(1) by (auto simp: desk_inv_def orders_ok_def)
  then have "parties x (am_by a) (am_counterparty a)" "am_old a < am_new a" "am_new a - am_old a \<le> 90 * 86400000" "od_buyer x \<noteq> od_creator x"
    using a x by (fastforce simp: amendments_ok_def order_ok_def order_checks_def MAX_EXTENSION_DAYS_def DAY_MS_def)+
  then show ?thesis using a x by (intro exI [of _ i] exI [of _ a]) (auto simp: parties_def)
qed

lemma deadlines_move_by_consent_witness:
  "\<exists>i a. mget (dk_amendments (plain_desk IN_PROGRESS)) i = Some a \<and> am_by a \<noteq> ''bo'' \<and> am_old a = 86400002 \<and> am_new a = 172800002"
proof -
  have "\<exists>d. od_delivery_due_at (plain_order IN_PROGRESS) = Some d \<and> d = 86400002" by (simp add: plain_defs)
  with deadlines_move_by_consent [OF plain_inv plain_env_ok plain_fresh plain_rows(1) _ accepted_proposal] show ?thesis
    by (auto simp: plain_defs)
qed



section \<open>Sequences of commands\<close>

record order_call =
  oc_now :: int
  oc_id :: string
  oc_command :: order_command
  oc_actor :: actor
  oc_form :: form

definition run_call :: "order_env \<Rightarrow> order_call \<Rightarrow> desk \<Rightarrow> desk" where
  "run_call env c = run_order env (oc_now c) (oc_id c) (oc_command c) (oc_actor c) (oc_form c)"

fun run_calls :: "order_env \<Rightarrow> order_call list \<Rightarrow> desk \<Rightarrow> desk" where
  "run_calls env [] s = s"
| "run_calls env (c # cs) s = run_calls env cs (run_call env c s)"

fun ids_fresh :: "order_env \<Rightarrow> order_call list \<Rightarrow> desk \<Rightarrow> bool" where
  "ids_fresh env [] s \<longleftrightarrow> True"
| "ids_fresh env (c # cs) s \<longleftrightarrow> fresh_id (oc_id c) s \<and> ids_fresh env cs (run_call env c s)"

text \<open>C26. The tables of orders stay well formed through any commands by anyone, in any order and with any forms, each in its
  transaction with a new id for the row it inserts: every order satisfies its checks and has a running clock and a deadline
  once it is funded and briefed; every request and proposal names the order's two parties and stays within its amount or
  90 days; an order has at most one open dispute and is then disputed; deliveries are numbered from 1.\<close>

theorem desk_stays_well_formed:
  assumes "desk_inv None s" "env_ok env" "ids_fresh env cs s"
  shows "desk_inv None (run_calls env cs s)"
  using assms
proof (induction cs arbitrary: s)
  case (Cons c cs)
  then have "desk_inv None (run_call env c s)"
    using run_order_sound [of s env "oc_id c"] by (simp add: run_call_def sound_def)
  then show ?case using Cons by simp
qed simp

definition plain_calls :: "order_call list" where
  "plain_calls = [\<lparr>oc_now = 9, oc_id = desk_id CHR ''9'', oc_command = Start, oc_actor = cy, oc_form = [''order_id'' \<mapsto> desk_id CHR ''1'']\<rparr>,
     \<lparr>oc_now = 10, oc_id = desk_id CHR ''8'', oc_command = Dispute, oc_actor = bo,
      oc_form = [''order_id'' \<mapsto> desk_id CHR ''1'', ''body'' \<mapsto> ''No answer for days'']\<rparr>]"

lemma plain_calls_fresh: "ids_fresh plain_env plain_calls (plain_desk FUNDED)"
  by code_simp

lemma desk_stays_well_formed_witness: "desk_inv None (run_calls plain_env plain_calls (plain_desk FUNDED))"
  by (rule desk_stays_well_formed [OF plain_inv plain_env_ok plain_calls_fresh]) simp

lemma plain_calls_dispute:
  "map_option od_status (mget (dk_orders (run_calls plain_env plain_calls (plain_desk FUNDED))) (desk_id CHR ''1'')) = Some DISPUTED"
  by code_simp

section \<open>Approval\<close>

lemma aside_then:
  assumes "aside m" "\<And>x t. same_rows s t \<Longrightarrow> wp (f x) Q E t"
  shows "wp (abind m f) Q E s"
proof -
  have m: "wp m (\<lambda>_ t. same_rows s t \<and> dk_cancellations t = dk_cancellations s) (\<lambda>_ _. False) s" using assms(1) by (simp add: aside_def)
  show ?thesis unfolding wp_abind by (rule wp_mono [OF m]) (use assms(2) in auto)
qed

lemma expire_then:
  assumes "\<And>t. dk_orders t = dk_orders s \<Longrightarrow> wp (f ()) Q E t"
  shows "wp (abind (expirePendingCancellation oid) f) Q E s"
proof -
  have "wp (abind (announce_expiry oid ps) f) Q E (expire_cancellations oid s)" for ps
    by (rule aside_then) (use assms in \<open>auto simp: same_rows_def expire_cancellations_def\<close>)
  then show ?thesis by (simp add: expirePendingCancellation_def wp)
qed

lemma update_order_runs:
  assumes "mget (dk_orders s) oid = Some x" "order_snapshot_guard x (f x)" "order_transition_guard x (f x)"
    "order_delivery_due_guard now oid (dk_amendments s) x (f x)" "order_checks (f x)" "wp (g ()) Q E (updated now oid x (f x) s)"
  shows "wp (abind (update_order now oid f) g) Q E s"
  using assms by (simp add: update_order_def wp constraint_def updated_def)

definition approved :: "int \<Rightarrow> order \<Rightarrow> order" where
  "approved now x = bump_order (x\<lparr>od_status := APPROVED, od_approved_at := Some now, od_settlement := Ready\<rparr>)"

lemma approve_order_wp:
  assumes "desk_inv None s" "mget (dk_orders s) oid = Some x" "od_status x = DELIVERED"
  shows "wp (approveOrder now oid x a kind) (\<lambda>_ t. mget (dk_orders t) oid = Some (approved now x)) (\<lambda>_ _. False) s"
proof -
  have ok: "order_ok x" using assms by (auto simp: desk_inv_def orders_ok_def)
  then have guards: "order_snapshot_guard x (approved now x)" "order_transition_guard x (approved now x)"
    "order_delivery_due_guard now oid ams x (approved now x)" "order_checks (approved now x)" for ams
    using assms(3) by (auto simp: order_defs approved_def)
  have rest: "wp (abind (resolveReviewHold oid ''BUYER_ACTED'') (\<lambda>_. abind (expirePendingCancellation oid) (\<lambda>_. abind (event oid a kind) (\<lambda>_.
      enqueue (''notify:order.approved:'' @ oid) ''order.approved'' (od_creator x))))) (\<lambda>_ t. mget (dk_orders t) oid = Some (approved now x)) (\<lambda>_ _. False) t"
    if "mget (dk_orders t) oid = Some (approved now x)" for t
    by (intro aside_then aside_simps expire_then) (use that in \<open>auto simp: same_rows_def event_def enqueue_def wp\<close>)
  show ?thesis unfolding approveOrder_def approved_def [symmetric]
    by (rule update_order_runs [where f = "approved now", OF assms(2) guards(1-4) rest]) simp
qed

text \<open>A buyer can approve a delivered order: with the version of its latest valid delivery in the form the command succeeds,
  whatever holds, requests and proposals are pending, and leaves the order approved and ready for settlement.\<close>

theorem delivered_orders_can_be_approved:
  assumes inv: "desk_inv None s" and x: "mget (dk_orders s) oid = Some x" "od_status x = DELIVERED" "is_buyer actor x"
    and d: "latestDelivery oid s = Some d" "dl_validation d = Valid" and form: "uuid form ''order_id'' = Inr oid"
      "expectedVersion form ''expected_version'' = Inr None" "deliveryVersionOf form = Inr (Some v)" "int v = dl_version d"
  shows "\<exists>t. approve now actor form s = (Inr (Command_result (order_path oid) [] None), t) \<and> mget (dk_orders t) oid = Some (approved now x)"
proof -
  have "wp (approve now actor form) (\<lambda>res t. res = Command_result (order_path oid) [] None \<and> mget (dk_orders t) oid = Some (approved now x)) (\<lambda>_ _. False) s"
    using x d form wp_mono [OF approve_order_wp [OF inv x(1,2), of now "Some (ac_id actor)" "''ORDER_APPROVED''"]]
    by (simp add: approve_def withOrder_def orderFor_def read_def wp_abind wp_aget wp_acheck wp_alift wp_areturn refuse_unless_def
        assertCurrentDelivery_def is_buyer_def order_done_def)
  then show ?thesis by (cases "approve now actor form s"; cases "fst (approve now actor form s)") (auto simp: wp_def)
qed

definition approval_form :: form where
  "approval_form = [''order_id'' \<mapsto> desk_id CHR ''1'', ''delivery_version'' \<mapsto> ''1'']"

lemma approval_reads:
  "uuid approval_form ''order_id'' = Inr (desk_id CHR ''1'')" "expectedVersion approval_form ''expected_version'' = Inr None"
  "deliveryVersionOf approval_form = Inr (Some 1)"
proof -
  have "field_value approval_form ''delivery_version'' = ''1''" "digits ''1''" "read_nat ''1'' = 1" by code_simp+
  then show "deliveryVersionOf approval_form = Inr (Some 1)"
    by (simp add: deliveryVersionOf_def integer_def echeck_def)
qed (code_simp, code_simp)

lemma delivered_orders_can_be_approved_witness:
  "map_option od_status (mget (dk_orders (snd (approve 9 bo approval_form (plain_desk DELIVERED)))) (desk_id CHR ''1'')) = Some APPROVED"
proof -
  have latest: "latestDelivery (desk_id CHR ''1'') (plain_desk DELIVERED) = Some plain_delivery"
    by (simp add: latestDelivery_def plain_desk_def plain_delivery_def)
  have row: "od_status (plain_order DELIVERED) = DELIVERED" "is_buyer bo (plain_order DELIVERED)" "dl_validation plain_delivery = Valid" "int 1 = dl_version plain_delivery"
    by (simp_all add: plain_defs is_buyer_def)
  from delivered_orders_can_be_approved [OF plain_inv plain_rows(1) row(1,2) latest row(3) approval_reads row(4), of 9] show ?thesis
    by (auto simp: approved_def bump_order_def)
qed

text \<open>C28. The clock approves an order in the buyer's place exactly when the review window has passed, the buyer agreed to
  that, has viewed the delivery, which is valid and has no unsafe file, and no hold, dispute or request to cancel is pending;
  otherwise it leaves every order as it was.\<close>

theorem silence_approves_only_with_consent:
  assumes inv: "desk_inv None s" and x: "mget (dk_orders s) oid = Some x" and run: "autoAcceptDelivery env now oid s = (r, t)"
  shows "(r = Inr Auto_approved \<longleftrightarrow> od_status x = DELIVERED \<and> (case od_review_due_at x of Some due \<Rightarrow> due < now | None \<Rightarrow> False)
      \<and> ot_auto_accept_consent (od_terms x) \<and> (case latestDelivery oid s of None \<Rightarrow> False | Some d \<Rightarrow>
          dl_validation d = Valid \<and> dl_viewed_at d \<noteq> None \<and> \<not> list_ex (on_unsafeFile env) (dl_assets d))
      \<and> \<not> list_ex (\<lambda>h. ho_order h = oid \<and> ho_resolution h = None) (dk_holds s) \<and> \<not> list_ex (\<lambda>(i, d). ds_order d = oid \<and> ds_open d) (dk_disputes s)
      \<and> \<not> list_ex (\<lambda>(i, c). cn_order c = oid \<and> cn_status c = Requested) (dk_cancellations s))
    \<and> mget (dk_orders t) oid = Some (if r = Inr Auto_approved then approved now x else x)"
proof -
  have hold: "wp (hold_review oid v reason) (\<lambda>r t. r \<noteq> Auto_approved \<and> dk_orders t = dk_orders s) (\<lambda>_ t. dk_orders t = dk_orders s) s" for v reason
    by (simp add: hold_review_def wp constraint_def event_def openCase_def)
  have approve: "wp (abind (approveOrder now oid x None ''ORDER_AUTO_APPROVED'') (\<lambda>_. areturn Auto_approved))
      (\<lambda>r t. r = Auto_approved \<and> mget (dk_orders t) oid = Some (approved now x)) (\<lambda>_ _. False) s" if "od_status x = DELIVERED"
    using approve_order_wp [OF inv x that] by (simp add: wp_abind wp_areturn)
  define c where "c \<longleftrightarrow> od_status x = DELIVERED \<and> (case od_review_due_at x of Some due \<Rightarrow> due < now | None \<Rightarrow> False)
      \<and> ot_auto_accept_consent (od_terms x) \<and> (case latestDelivery oid s of None \<Rightarrow> False | Some d \<Rightarrow>
          dl_validation d = Valid \<and> dl_viewed_at d \<noteq> None \<and> \<not> list_ex (on_unsafeFile env) (dl_assets d))
      \<and> \<not> list_ex (\<lambda>h. ho_order h = oid \<and> ho_resolution h = None) (dk_holds s) \<and> \<not> list_ex (\<lambda>(i, d). ds_order d = oid \<and> ds_open d) (dk_disputes s)
      \<and> \<not> list_ex (\<lambda>(i, c). cn_order c = oid \<and> cn_status c = Requested) (dk_cancellations s)"
  have skip: "wp (areturn v) (\<lambda>r t. (r = Auto_approved \<longleftrightarrow> c) \<and> mget (dk_orders t) oid = Some (if r = Auto_approved then approved now x else x)) E s"
    if "\<not> c" "v \<noteq> Auto_approved" for v E
    using that x by (simp add: wp_areturn)
  have held: "wp (hold_review oid v reason) (\<lambda>r t. (r = Auto_approved \<longleftrightarrow> c) \<and> mget (dk_orders t) oid = Some (if r = Auto_approved then approved now x else x))
      (\<lambda>_ t. \<not> c \<and> mget (dk_orders t) oid = Some x) s" if "\<not> c" for v reason
    by (rule wp_mono [OF hold]) (use that x in auto)
  have "wp (autoAcceptDelivery env now oid) (\<lambda>r t. (r = Auto_approved \<longleftrightarrow> c) \<and> mget (dk_orders t) oid = Some (if r = Auto_approved then approved now x else x))
      (\<lambda>_ t. \<not> c \<and> mget (dk_orders t) oid = Some x) s"
    unfolding autoAcceptDelivery_def
    by (rule ostep_get, simp only: x option.case)
      (rule ostep_get ostep_if ostep_option skip held wp_mono [OF approve] | (simp add: c_def; fail) | (auto simp: c_def; fail))+
  from wp_elim [OF this run] show ?thesis unfolding c_def [symmetric] by (cases r) auto
qed

definition silent_desk :: desk where
  "silent_desk = (plain_desk DELIVERED)\<lparr>dk_cancellations := []\<rparr>"

lemma silent_run: "fst (autoAcceptDelivery plain_env 400000000 (desk_id CHR ''1'') silent_desk) = Inr Auto_approved"
  by code_simp

lemma silence_approves_only_with_consent_witness:
  "mget (dk_orders (snd (autoAcceptDelivery plain_env 400000000 (desk_id CHR ''1'') silent_desk))) (desk_id CHR ''1'') = Some (approved 400000000 (plain_order DELIVERED))"
proof -
  have inv: "desk_inv None silent_desk" using plain_inv [of DELIVERED]
    by (simp add: desk_inv_def silent_desk_def orders_ok_def cancellations_ok_def amendments_ok_def disputes_ok_def deliveries_ok_def open_dispute_def)
  have row: "mget (dk_orders silent_desk) (desk_id CHR ''1'') = Some (plain_order DELIVERED)" by (simp add: silent_desk_def)
  show ?thesis
    using silence_approves_only_with_consent [OF inv row prod.collapse [symmetric], where env = plain_env and now = 400000000] silent_run by simp
qed

section \<open>A stranded request\<close>

text \<open>The request to cancel names the version of the order it was made for, and an accepted extension of the deadline gives the
  order a new one but leaves the request pending: it can then be neither accepted nor declined, and while it waits no other
  can be made.\<close>

definition extended_desk :: desk where
  "extended_desk = run_order plain_env 9 (desk_id CHR ''9'') Respond_deadline_extension bo
     [''amendment_id'' \<mapsto> desk_id CHR ''3'', ''decision'' \<mapsto> ''accept''] (plain_desk IN_PROGRESS)"

lemma extended_desk_pending: "map_option cn_status (mget (dk_cancellations extended_desk) (desk_id CHR ''2'')) = Some Requested"
  by code_simp

lemma extended_desk_accept:
  "fst (respondCancellation plain_env 10 bo [''request_id'' \<mapsto> desk_id CHR ''2'', ''decision'' \<mapsto> ''accept''] extended_desk) = Inl (Command_error VERSION_CONFLICT)"
  by code_simp

lemma extended_desk_reject:
  "fst (respondCancellation plain_env 10 bo [''request_id'' \<mapsto> desk_id CHR ''2'', ''decision'' \<mapsto> ''reject''] extended_desk) = Inl (Command_error VERSION_CONFLICT)"
  by code_simp

lemma extended_desk_request:
  "fst (requestCancellation (desk_id CHR ''9'') bo [''order_id'' \<mapsto> desk_id CHR ''1'', ''refund_amount'' \<mapsto> ''0'', ''reason'' \<mapsto> ''Too late for me''] extended_desk)
     = Inl (Command_error ORDER_STATE_CONFLICT)"
  by code_simp

lemmas extension_strands_cancellation = extended_desk_pending extended_desk_accept extended_desk_reject extended_desk_request

end
