(* ===== verification/Provider_Types.thy ===== *)
theory Provider_Types
  imports Js_Values
begin

text \<open>
  The payment-provider contract of \<open>src/modules/payments/providers.ts\<close>: error codes and outcomes,
  the zero platform fee, the checks on amounts, identifiers and currencies, and the data transfer
  objects. A ProviderError keeps its code, retryable flag, outcome and operation id; its message
  and \<open>details\<close> texts are not represented.
\<close>

section \<open>Errors\<close>

datatype provider_error_code =
    INVALID_INPUT
  | INVALID_AMOUNT
  | INVALID_OPERATION_ID
  | NONZERO_PLATFORM_FEE
  | CURRENCY_MISMATCH
  | PAYEE_MISMATCH
  | UNSUPPORTED_CAPABILITY
  | PAYEE_NOT_CAPABLE
  | INSUFFICIENT_BALANCE
  | IDEMPOTENCY_CONFLICT
  | PROVIDER_TIMEOUT
  | PROVIDER_UNAVAILABLE
  | NOT_FOUND
  | INVALID_STATE
  | RELEASE_EXCEEDS_AVAILABLE
  | REFUND_EXCEEDS_REFUNDABLE
  | WEBHOOK_SIGNATURE_INVALID
  | WEBHOOK_TIMESTAMP_OUT_OF_TOLERANCE
  | WEBHOOK_PAYLOAD_INVALID
  | WEBHOOK_CONTEXT_MISMATCH
  | LIVE_MODE_NOT_SUPPORTED

datatype provider_error_outcome = NOT_APPLIED | UNKNOWN

definition RETRYABLE_CODES :: "provider_error_code list" where
  "RETRYABLE_CODES = [PROVIDER_TIMEOUT, PROVIDER_UNAVAILABLE]"

datatype provider_error = ProviderError
  (error_code: provider_error_code)
  (error_retryable: bool)
  (error_outcome: provider_error_outcome)
  (error_operation: "string option")

text \<open>The constructor: \<open>retryable\<close> follows from the code, \<open>outcome\<close> defaults from it.\<close>

definition provider_error :: "provider_error_code \<Rightarrow> provider_error_outcome option \<Rightarrow> string option \<Rightarrow> provider_error" where
  "provider_error code outcome op = ProviderError code (code \<in> set RETRYABLE_CODES)
     (case outcome of Some out \<Rightarrow> out | None \<Rightarrow> if code = PROVIDER_TIMEOUT then UNKNOWN else NOT_APPLIED) op"

abbreviation perr :: "provider_error_code \<Rightarrow> provider_error" where
  "perr code \<equiv> provider_error code None None"

abbreviation perr_op :: "provider_error_code \<Rightarrow> string \<Rightarrow> provider_error" where
  "perr_op code op \<equiv> provider_error code None (Some op)"

text \<open>\<open>isProviderError(error, code?)\<close>, for a thrown value that may be some other error.\<close>

datatype thrown = Provider provider_error | OtherError string

definition isProviderError :: "thrown \<Rightarrow> provider_error_code option \<Rightarrow> bool" where
  "isProviderError e code = (case e of
       Provider pe \<Rightarrow> (case code of None \<Rightarrow> True | Some c \<Rightarrow> error_code pe = c)
     | OtherError _ \<Rightarrow> False)"

lemma error_code_provider_error [simp]: "error_code (provider_error c out op) = c"
  by (simp add: provider_error_def)

section \<open>Fee and money primitives\<close>

definition PLATFORM_FEE_BPS :: int where "PLATFORM_FEE_BPS = 0"
definition PLATFORM_FEE_ATOMIC :: int where "PLATFORM_FEE_ATOMIC = 0"
definition DEFAULT_MAX_ATOMIC_AMOUNT :: int where "DEFAULT_MAX_ATOMIC_AMOUNT = 1000000000000"

text \<open>\<open>max\<close> of the rules: omitted, \<open>null\<close>, or a bound.\<close>

datatype amount_bound = Default_Max | No_Max | Max_Amount int

record atomic_rules =
  allowZero :: bool
  max_rule :: amount_bound

definition assertAtomicAmount :: "jsval \<Rightarrow> atomic_rules \<Rightarrow> provider_error + int" where
  "assertAtomicAmount v rules = (case v of
       JBigint n \<Rightarrow>
         if n < (if allowZero rules then 0 else 1) then Inl (perr INVALID_AMOUNT)
         else (case (case max_rule rules of Default_Max \<Rightarrow> Some DEFAULT_MAX_ATOMIC_AMOUNT
                       | No_Max \<Rightarrow> None | Max_Amount m \<Rightarrow> Some m) of
             None \<Rightarrow> Inr n
           | Some m \<Rightarrow> if n > m then Inl (perr INVALID_AMOUNT) else Inr n)
     | _ \<Rightarrow> Inl (perr INVALID_AMOUNT))"

definition assertZeroPlatformFee :: "jsval \<Rightarrow> provider_error + unit" where
  "assertZeroPlatformFee fee = (case fee of
       JBigint n \<Rightarrow> if n \<noteq> PLATFORM_FEE_ATOMIC then Inl (perr NONZERO_PLATFORM_FEE) else Inr ()
     | _ \<Rightarrow> Inl (perr INVALID_AMOUNT))"

definition platformFeeFor :: "jsval \<Rightarrow> provider_error + int" where
  "platformFeeFor amount = ebind (assertAtomicAmount amount \<lparr>allowZero = True, max_rule = No_Max\<rparr>)
     (\<lambda>_. Inr PLATFORM_FEE_ATOMIC)"

definition parseAtomicAmount :: "jsval \<Rightarrow> atomic_rules \<Rightarrow> provider_error + int" where
  "parseAtomicAmount v rules = (case v of
       JBigint n \<Rightarrow> assertAtomicAmount (JBigint n) rules
     | JString s \<Rightarrow> if canonical_nat s then assertAtomicAmount (JBigint (int (read_nat s))) rules
                   else Inl (perr INVALID_AMOUNT)
     | _ \<Rightarrow> Inl (perr INVALID_AMOUNT))"

lemma assertAtomicAmount_Inr [errors]:
  "assertAtomicAmount v rules = Inr n \<longleftrightarrow>
     v = JBigint n \<and> (if allowZero rules then 0 else 1) \<le> n \<and>
     (case max_rule rules of Default_Max \<Rightarrow> n \<le> DEFAULT_MAX_ATOMIC_AMOUNT | No_Max \<Rightarrow> True | Max_Amount m \<Rightarrow> n \<le> m)"
  by (auto simp: assertAtomicAmount_def split: jsval.splits amount_bound.splits)

lemma assertZeroPlatformFee_Inr [errors]: "assertZeroPlatformFee v = Inr u \<longleftrightarrow> v = JBigint 0"
  by (auto simp: assertZeroPlatformFee_def PLATFORM_FEE_ATOMIC_def split: jsval.splits)

text \<open>An amount written in decimal (how webhooks and the database carry it) is read back exactly.\<close>

lemma parseAtomicAmount_show:
  "parseAtomicAmount (JString (show_int n)) rules
     = (if 0 \<le> n then assertAtomicAmount (JBigint n) rules else Inl (perr INVALID_AMOUNT))"
proof (cases "0 \<le> n")
  case True
  then show ?thesis
    by (simp add: parseAtomicAmount_def show_int_def canonical_nat_show)
next
  case False
  have "\<not> is_digit CHR ''-''" by (simp add: is_digit_def code_of_def)
  with False show ?thesis
    by (simp add: parseAtomicAmount_def show_int_def canonical_nat_def)
qed

section \<open>Identifiers\<close>

definition MIN_WEBHOOK_SECRET_LENGTH :: nat where "MIN_WEBHOOK_SECRET_LENGTH = 16"

definition assertOperationId :: "jsval \<Rightarrow> provider_error + string" where
  "assertOperationId v = (case v of
       JString s \<Rightarrow> if id_pattern 7 254 s then Inr s else Inl (perr INVALID_OPERATION_ID)
     | _ \<Rightarrow> Inl (perr INVALID_OPERATION_ID))"

definition assertId :: "jsval \<Rightarrow> provider_error + string" where
  "assertId v = (case v of
       JString s \<Rightarrow> if id_pattern 0 254 s then Inr s else Inl (perr INVALID_INPUT)
     | _ \<Rightarrow> Inl (perr INVALID_INPUT))"

definition assertCurrencyCode :: "jsval \<Rightarrow> provider_error + string" where
  "assertCurrencyCode v = (case v of
       JString s \<Rightarrow> if currency_pattern s then Inr s else Inl (perr INVALID_INPUT)
     | _ \<Rightarrow> Inl (perr INVALID_INPUT))"

lemma assert_ids_Inr [errors]:
  "assertOperationId (JString s) = Inr t \<longleftrightarrow> id_pattern 7 254 s \<and> t = s"
  "assertId (JString s) = Inr t \<longleftrightarrow> id_pattern 0 254 s \<and> t = s"
  "assertCurrencyCode (JString s) = Inr t \<longleftrightarrow> currency_pattern s \<and> t = s"
  by (auto simp: assertOperationId_def assertId_def assertCurrencyCode_def)

section \<open>Statuses\<close>

datatype funding_status_code = REQUIRES_ACTION | PROCESSING | F_SUCCEEDED | F_FAILED | CANCELED | RETURNED
datatype funding_method = CARD | BANK_TRANSFER
datatype transfer_status_code = T_PENDING | T_SUCCEEDED | T_FAILED
datatype dispute_status_code = D_OPEN | D_WON | D_LOST
datatype operation_kind = Funding_Create | Funding_Cancel | Release_Create | Refund_Create | Reversal_Create

fun funding_status_text :: "funding_status_code \<Rightarrow> string" where
  "funding_status_text REQUIRES_ACTION = ''REQUIRES_ACTION''"
| "funding_status_text PROCESSING = ''PROCESSING''"
| "funding_status_text F_SUCCEEDED = ''SUCCEEDED''"
| "funding_status_text F_FAILED = ''FAILED''"
| "funding_status_text CANCELED = ''CANCELED''"
| "funding_status_text RETURNED = ''RETURNED''"

fun transfer_status_text :: "transfer_status_code \<Rightarrow> string" where
  "transfer_status_text T_PENDING = ''PENDING''"
| "transfer_status_text T_SUCCEEDED = ''SUCCEEDED''"
| "transfer_status_text T_FAILED = ''FAILED''"

fun dispute_status_text :: "dispute_status_code \<Rightarrow> string" where
  "dispute_status_text D_OPEN = ''OPEN''"
| "dispute_status_text D_WON = ''WON''"
| "dispute_status_text D_LOST = ''LOST''"

fun operation_kind_text :: "operation_kind \<Rightarrow> string" where
  "operation_kind_text Funding_Create = ''funding.create''"
| "operation_kind_text Funding_Cancel = ''funding.cancel''"
| "operation_kind_text Release_Create = ''release.create''"
| "operation_kind_text Refund_Create = ''refund.create''"
| "operation_kind_text Reversal_Create = ''reversal.create''"

definition REFUND_REASONS :: "string list" where
  "REFUND_REASONS = [''BUYER_CANCELED_BEFORE_WORK'', ''MUTUAL_CANCELLATION'', ''OPERATOR_RESOLUTION'',
     ''PERFORMANCE_UNUSED_HOLD'', ''DUPLICATE'', ''OTHER'']"

definition WEBHOOK_EVENT_TYPES :: "string list" where
  "WEBHOOK_EVENT_TYPES = [''funding.processing'', ''funding.succeeded'', ''funding.failed'', ''funding.canceled'',
     ''funding.fee_updated'', ''funding.returned'', ''release.pending'', ''release.succeeded'', ''release.failed'',
     ''refund.pending'', ''refund.succeeded'', ''refund.failed'', ''reversal.succeeded'', ''dispute.opened'',
     ''dispute.won'', ''dispute.lost'']"

definition FUNDING_STATUSES :: "string list" where
  "FUNDING_STATUSES = [''REQUIRES_ACTION'', ''PROCESSING'', ''SUCCEEDED'', ''FAILED'', ''CANCELED'', ''RETURNED'']"
definition TRANSFER_STATUSES :: "string list" where
  "TRANSFER_STATUSES = [''PENDING'', ''SUCCEEDED'', ''FAILED'']"
definition DISPUTE_STATUSES :: "string list" where
  "DISPUTE_STATUSES = [''OPEN'', ''WON'', ''LOST'']"

section \<open>Requests and results\<close>

text \<open>Amounts and identifiers have their static types; the optional literals that the code checks
  at run time (\<open>method\<close>, \<open>source\<close>, \<open>reason\<close>) are strings.\<close>

record merchant_context =
  mc_merchantAccountId :: string
  mc_payeeAccountId :: "string option"
  mc_currency :: "string option"

record capabilities_result =
  cap_provider :: string
  cap_mode :: string
  cap_platformFeeBps :: int
  cap_delayedSettlement :: bool
  cap_partialRefund :: bool
  cap_conditionalEscrow :: bool
  cap_bankPayout :: bool
  cap_walletPayout :: bool
  cap_multiassetRewardPool :: bool
  cap_supportedCurrencies :: "string list"
  cap_supportedCountries :: "string list"
  cap_maxHoldDays :: "int option"
  cap_payeePayoutsEnabled :: "bool option"
  cap_currencySupported :: "bool option"

record funding_input =
  fi_orderId :: string
  fi_buyerId :: string
  fi_payeeAccountId :: string
  fi_amount :: int
  fi_currency :: string
  fi_platformFee :: int
  fi_description :: "string option"
  fi_method :: "string option"

record funding_intent =
  it_reference :: string
  it_operationId :: string
  it_orderId :: string
  it_payeeAccountId :: string
  it_status :: funding_status_code
  it_amount :: int
  it_currency :: string
  it_platformFee :: int
  it_nextAction :: string
  it_method :: funding_method
  it_createdAt :: int

record funding_status =
  fs_reference :: string
  fs_orderId :: string
  fs_payeeAccountId :: string
  fs_status :: funding_status_code
  fs_amount :: int
  fs_currency :: string
  fs_platformFee :: int
  fs_providerFee :: "int option"
  fs_releasedSucceeded :: int
  fs_releasePending :: int
  fs_refundedSucceeded :: int
  fs_refundPending :: int
  fs_availablePrincipal :: int
  fs_fullyRefunded :: bool
  fs_createdAt :: int
  fs_updatedAt :: int

record cancel_result =
  cr_reference :: string
  cr_operationId :: string
  cr_status :: string
  cr_alreadyCanceled :: bool
  cr_canceledAt :: int

record release_input =
  ri_fundingReference :: string
  ri_orderId :: string
  ri_payeeAccountId :: string
  ri_amount :: int
  ri_currency :: string
  ri_platformFee :: int

record release_result =
  rr_reference :: string
  rr_operationId :: string
  rr_fundingReference :: string
  rr_orderId :: string
  rr_payeeAccountId :: string
  rr_amount :: int
  rr_currency :: string
  rr_platformFee :: int
  rr_status :: transfer_status_code
  rr_createdAt :: int

record release_status = release_result +
  rs_updatedAt :: int
  rs_failureCode :: "string option"

record refund_input =
  fr_fundingReference :: string
  fr_orderId :: string
  fr_amount :: int
  fr_currency :: string
  fr_reason :: string
  fr_source :: "string option"

record refund_result =
  ro_reference :: string
  ro_operationId :: string
  ro_fundingReference :: string
  ro_orderId :: string
  ro_amount :: int
  ro_currency :: string
  ro_reason :: string
  ro_status :: transfer_status_code
  ro_createdAt :: int

record refund_status = refund_result +
  rf_updatedAt :: int
  rf_failureCode :: "string option"

record reversal_input =
  rv_releaseReference :: string
  rv_orderId :: string
  rv_amount :: int
  rv_currency :: string

record reversal_result =
  vr_reference :: string
  vr_operationId :: string
  vr_releaseReference :: string
  vr_fundingReference :: string
  vr_orderId :: string
  vr_amount :: int
  vr_currency :: string
  vr_status :: transfer_status_code
  vr_createdAt :: int

datatype op_result =
    Funding_Result funding_intent
  | Cancel_Result cancel_result
  | Release_Result release_result
  | Refund_Result refund_result
  | Reversal_Result reversal_result

record operation_lookup =
  lk_operationId :: string
  lk_kind :: operation_kind
  lk_requestHash :: string
  lk_applied :: bool
  lk_reference :: "string option"
  lk_attemptCount :: int
  lk_lastErrorCode :: "provider_error_code option"

record verified_event =
  ve_eventId :: string
  ve_type :: string
  ve_mode :: string
  ve_accountId :: string
  ve_createdAt :: string
  ve_objectType :: string
  ve_reference :: string
  ve_fundingReference :: string
  ve_operationId :: string
  ve_orderId :: string
  ve_status :: string
  ve_amount :: int
  ve_currency :: string
  ve_providerFee :: "int option"

end
