(* ===== verification/Canonical.thy ===== *)
theory Canonical
  imports Provider_Types "HOL-Library.Multiset"
begin

text \<open>
  \<open>canonicalize\<close> and \<open>computeRequestHash\<close> of \<open>src/modules/payments/providers.ts\<close>: the text a
  provider request is identified by. The development shows that the text is uniquely readable, so
  two requests share it only when they are the same request up to the order of their properties.
  SHA-256 is a parameter.
\<close>

section \<open>The encoding\<close>

fun canonicalize :: "jsval \<Rightarrow> provider_error + string"
  and canonical_items :: "jsval list \<Rightarrow> provider_error + string list"
  and canonical_entries :: "(string \<times> jsval) list \<Rightarrow> (string \<times> (provider_error + string)) list"
where
  "canonicalize JNull = Inr ''null''"
| "canonicalize (JBigint n) = Inr (show_int n @ ''n'')"
| "canonicalize (JString s) = Inr (json_string s)"
| "canonicalize (JBool b) = Inr (if b then ''true'' else ''false'')"
| "canonicalize (JNumber t) = (case t of None \<Rightarrow> Inl (perr INVALID_INPUT) | Some txt \<Rightarrow> Inr txt)"
| "canonicalize (JArray vs) = ebind (canonical_items vs) (\<lambda>ts. Inr (''['' @ js_join '','' ts @ '']''))"
| "canonicalize (JDate d) = Inr (json_string d)"
| "canonicalize JInstance = Inl (perr INVALID_INPUT)"
| "canonicalize (JObject es) =
     ebind (esequence (map (\<lambda>(k, m). ebind m (\<lambda>t. Inr (json_string k @ '':'' @ t)))
                           (sort_key fst (canonical_entries es))))
           (\<lambda>ts. Inr (''{'' @ js_join '','' ts @ ''}''))"
| "canonicalize JUndefined = Inl (perr INVALID_INPUT)"
| "canonicalize JOther = Inl (perr INVALID_INPUT)"
| "canonical_items [] = Inr []"
| "canonical_items (v # vs) =
     (if v = JUndefined then Inl (perr INVALID_INPUT)
      else ebind (canonicalize v) (\<lambda>t. ebind (canonical_items vs) (\<lambda>ts. Inr (t # ts))))"
| "canonical_entries [] = []"
| "canonical_entries ((k, v) # es) =
     (if v = JUndefined then canonical_entries es else (k, canonicalize v) # canonical_entries es)"

text \<open>\<open>createHash('sha256').update(kind).update('\n').update(canonicalize(payload)).digest('hex')\<close>\<close>

definition computeRequestHash :: "(string \<Rightarrow> string) \<Rightarrow> operation_kind \<Rightarrow> jsval \<Rightarrow> provider_error + string" where
  "computeRequestHash sha kind payload =
     ebind (canonicalize payload) (\<lambda>text. Inr (sha (operation_kind_text kind @ [CHR 0x0A] @ text)))"

section \<open>What the encoding identifies\<close>

text \<open>The value a text stands for: keys sorted, undefined properties gone, a date as its ISO text.\<close>

fun normalize :: "jsval \<Rightarrow> jsval"
  and normalize_items :: "jsval list \<Rightarrow> jsval list"
  and normalize_entries :: "(string \<times> jsval) list \<Rightarrow> (string \<times> jsval) list"
where
  "normalize (JArray vs) = JArray (normalize_items vs)"
| "normalize (JObject es) = JObject (sort_key fst (normalize_entries es))"
| "normalize (JDate d) = JString d"
| "normalize v = v"
| "normalize_items [] = []"
| "normalize_items (v # vs) = normalize v # normalize_items vs"
| "normalize_entries [] = []"
| "normalize_entries ((k, v) # es) =
     (if v = JUndefined then normalize_entries es else (k, normalize v) # normalize_entries es)"

text \<open>The text of a normal value, with nothing left to sort or drop.\<close>

fun render :: "jsval \<Rightarrow> string"
  and render_items :: "jsval list \<Rightarrow> string"
  and render_entries :: "(string \<times> jsval) list \<Rightarrow> string"
where
  "render JNull = ''null''"
| "render (JBigint n) = show_int n @ ''n''"
| "render (JString s) = json_string s"
| "render (JBool b) = (if b then ''true'' else ''false'')"
| "render (JNumber t) = (case t of None \<Rightarrow> [] | Some txt \<Rightarrow> txt)"
| "render (JArray vs) = ''['' @ render_items vs @ '']''"
| "render (JObject es) = ''{'' @ render_entries es @ ''}''"
| "render _ = []"
| "render_items [] = []"
| "render_items (v # vs) = render v @ (if vs = [] then [] else '','' @ render_items vs)"
| "render_entries [] = []"
| "render_entries (e # es) =
     json_string (fst e) @ '':'' @ render (snd e) @ (if es = [] then [] else '','' @ render_entries es)"

text \<open>Values whose finite numbers carry the text of a number.\<close>

fun wf_value :: "jsval \<Rightarrow> bool"
  and wf_items :: "jsval list \<Rightarrow> bool"
  and wf_entries :: "(string \<times> jsval) list \<Rightarrow> bool"
where
  "wf_value (JNumber t) = (case t of None \<Rightarrow> True | Some txt \<Rightarrow> number_text txt)"
| "wf_value (JArray vs) = wf_items vs"
| "wf_value (JObject es) = wf_entries es"
| "wf_value v = True"
| "wf_items [] = True"
| "wf_items (v # vs) = (wf_value v \<and> wf_items vs)"
| "wf_entries [] = True"
| "wf_entries (e # es) = (wf_value (snd e) \<and> wf_entries es)"

text \<open>Normal values that have a text.\<close>

fun has_text :: "jsval \<Rightarrow> bool"
  and has_text_items :: "jsval list \<Rightarrow> bool"
  and has_text_entries :: "(string \<times> jsval) list \<Rightarrow> bool"
where
  "has_text (JNumber t) = (case t of None \<Rightarrow> False | Some txt \<Rightarrow> number_text txt)"
| "has_text (JArray vs) = has_text_items vs"
| "has_text (JObject es) = has_text_entries es"
| "has_text v = (v = JNull \<or> (\<exists>b. v = JBool b) \<or> (\<exists>n. v = JBigint n) \<or> (\<exists>s. v = JString s))"
| "has_text_items [] = True"
| "has_text_items (v # vs) = (has_text v \<and> has_text_items vs)"
| "has_text_entries [] = True"
| "has_text_entries (e # es) = (has_text (snd e) \<and> has_text_entries es)"

lemma has_text_items_iff: "has_text_items vs \<longleftrightarrow> (\<forall>v \<in> set vs. has_text v)"
  by (induction vs) auto

lemma has_text_entries_iff: "has_text_entries es \<longleftrightarrow> (\<forall>e \<in> set es. has_text (snd e))"
  by (induction es) auto

subsection \<open>The encoding prints the normal value\<close>

lemma js_join_Cons: "js_join sep (s # ss) = s @ (if ss = [] then [] else sep @ js_join sep ss)"
  by (cases ss) simp_all

lemma render_items_join: "render_items vs = js_join '','' (map render vs)"
  by (induction vs) (simp_all add: js_join_Cons)

lemma render_entries_join:
  "render_entries es = js_join '','' (map (\<lambda>e. json_string (fst e) @ '':'' @ render (snd e)) es)"
  by (induction es) (simp_all add: js_join_Cons)

lemma insort_key_fst_map:
  "insort_key fst (fst e, f (snd e)) (map (\<lambda>e. (fst e, f (snd e))) xs)
     = map (\<lambda>e. (fst e, f (snd e))) (insort_key fst e xs)"
  by (induction xs) auto

lemma sort_key_fst_map:
  "sort_key fst (map (\<lambda>e. (fst e, f (snd e))) es) = map (\<lambda>e. (fst e, f (snd e))) (sort_key fst es)"
  by (induction es) (simp_all add: insort_key_fst_map)

lemma canonical_render:
  "(\<forall>s. wf_value v \<longrightarrow> canonicalize v = Inr s \<longrightarrow> s = render (normalize v) \<and> has_text (normalize v))"
  "(\<forall>ts. wf_items vs \<longrightarrow> canonical_items vs = Inr ts \<longrightarrow>
      ts = map render (normalize_items vs) \<and> has_text_items (normalize_items vs))"
  "(\<forall>es'. wf_entries es \<longrightarrow> canonical_entries es = map (\<lambda>e. (fst e, Inr (snd e))) es' \<longrightarrow>
      es' = map (\<lambda>e. (fst e, render (snd e))) (normalize_entries es) \<and> has_text_entries (normalize_entries es))"
proof (induction v and vs and es rule: canonicalize_canonical_items_canonical_entries.induct)
  case (9 es)
  show ?case
  proof (intro allI impI)
    fix s
    assume wf: "wf_value (JObject es)" and c: "canonicalize (JObject es) = Inr s"
    let ?pr = "\<lambda>(k, m). ebind m (\<lambda>t. Inr (json_string k @ '':'' @ t)) :: provider_error + string"
    obtain ts where ts: "map ?pr (sort_key fst (canonical_entries es)) = map Inr ts"
      and s: "s = ''{'' @ js_join '','' ts @ ''}''"
      using c by (auto simp: ebind_Inr esequence_Inr_iff)
    have all: "\<forall>e \<in> set (canonical_entries es). \<exists>t. snd e = Inr t"
    proof
      fix e assume "e \<in> set (canonical_entries es)"
      then have "?pr e \<in> set (map ?pr (sort_key fst (canonical_entries es)))" by simp
      then have "?pr e \<in> Inr ` set ts" unfolding ts by simp
      then show "\<exists>t. snd e = Inr t" by (cases e; cases "snd e") auto
    qed
    define es' where "es' = map (\<lambda>e. (fst e, projr (snd e))) (canonical_entries es)"
    have ce: "canonical_entries es = map (\<lambda>e. (fst e, Inr (snd e))) es'"
      unfolding es'_def map_map using all by (intro map_idI [symmetric]) force
    with "9.IH" wf have n: "es' = map (\<lambda>e. (fst e, render (snd e))) (normalize_entries es)"
      and h: "has_text_entries (normalize_entries es)" by auto
    have "canonical_entries es = map (\<lambda>e. (fst e, Inr (render (snd e)))) (normalize_entries es)"
      by (simp add: ce n)
    then have "sort_key fst (canonical_entries es)
        = map (\<lambda>e. (fst e, Inr (render (snd e)))) (sort_key fst (normalize_entries es))"
      by (simp add: sort_key_fst_map [where f = "\<lambda>v. Inr (render v)"])
    with ts have "map Inr ts = (map Inr (map (\<lambda>e. json_string (fst e) @ '':'' @ render (snd e))
        (sort_key fst (normalize_entries es))) :: (provider_error + string) list)"
      by (simp add: comp_def eq_commute)
    then have "ts = map (\<lambda>e. json_string (fst e) @ '':'' @ render (snd e)) (sort_key fst (normalize_entries es))"
      by (simp only: inj_map_eq_map [OF inj_Inr])
    with s h show "s = render (normalize (JObject es)) \<and> has_text (normalize (JObject es))"
      by (simp add: render_entries_join has_text_entries_iff)
  qed
next
  case (6 vs)
  then show ?case by (auto simp: ebind_Inr render_items_join)
next
  case (13 v vs)
  then show ?case by (auto simp: ebind_Inr)
next
  case (15 k v es)
  show ?case
  proof (intro allI impI)
    fix es'
    assume wf: "wf_entries ((k, v) # es)"
      and c: "canonical_entries ((k, v) # es) = map (\<lambda>e. (fst e, Inr (snd e))) es'"
    show "es' = map (\<lambda>e. (fst e, render (snd e))) (normalize_entries ((k, v) # es))
        \<and> has_text_entries (normalize_entries ((k, v) # es))"
    proof (cases "v = JUndefined")
      case True
      with "15.IH"(1) wf c show ?thesis by simp
    next
      case False
      with c obtain e es'' where "es' = e # es''" by (cases es') auto
      with "15.IH"(2,3) wf c False show ?thesis by (cases e) auto
    qed
  qed
qed (auto split: option.splits)

subsection \<open>A normal text is read in one way\<close>

definition atom_char :: "char \<Rightarrow> bool" where
  "atom_char c \<longleftrightarrow> is_alnum c \<or> c = CHR ''-'' \<or> c = CHR ''.'' \<or> c = CHR ''+''"

definition stops :: "string \<Rightarrow> bool" where
  "stops r \<longleftrightarrow> r = [] \<or> \<not> atom_char (hd r)"

definition is_atom :: "jsval \<Rightarrow> bool" where
  "is_atom v \<longleftrightarrow> (case v of JNull \<Rightarrow> True | JBool _ \<Rightarrow> True | JNumber _ \<Rightarrow> True | JBigint _ \<Rightarrow> True | _ \<Rightarrow> False)"

lemma atom_letters [simp]:
  "atom_char CHR ''n''" "atom_char CHR ''u''" "atom_char CHR ''l''" "atom_char CHR ''t''" "atom_char CHR ''r''"
  "atom_char CHR ''e''" "atom_char CHR ''f''" "atom_char CHR ''a''" "atom_char CHR ''s''" "atom_char CHR ''-''"
  "\<not> atom_char CHR '',''" "\<not> atom_char CHR '']''" "\<not> atom_char CHR ''}''" "\<not> atom_char quote_c"
  "\<not> atom_char CHR ''[''" "\<not> atom_char CHR ''{''" "\<not> atom_char CHR '':''"
  by (simp_all add: atom_char_def is_alnum_def is_digit_def is_upper_def is_lower_def code_of_def quote_c_def)

lemma digits_atom: "list_all is_digit s \<Longrightarrow> list_all atom_char s"
  by (auto simp: list_all_iff atom_char_def is_alnum_def)

lemma show_int_chars: "list_all (\<lambda>c. is_digit c \<or> c = CHR ''-'') (show_int i)"
  using show_nat_digits [of "nat i"] show_nat_digits [of "nat (- i)"]
  by (auto simp: show_int_def list_all_iff)

lemma show_int_atom: "list_all atom_char (show_int i)"
  using show_int_chars [of i] by (auto simp: list_all_iff atom_char_def is_alnum_def)

lemma number_char_atom: "number_char c \<Longrightarrow> atom_char c"
  unfolding number_char_def by (elim disjE) (simp_all add: atom_char_def is_alnum_def is_lower_def code_of_def)

lemma number_text_atom: "number_text t \<Longrightarrow> list_all atom_char t"
  unfolding number_text_def by (auto intro: list.pred_mono_strong number_char_atom)

lemma atom_text:
  assumes "is_atom v" "has_text v"
  shows "render v \<noteq> []" "list_all atom_char (render v)"
proof -
  show "list_all atom_char (render v)"
    using assms show_int_atom number_text_atom by (cases v) (simp_all add: is_atom_def split: option.splits)
  show "render v \<noteq> []"
    using assms by (cases v) (auto simp: is_atom_def number_text_def split: option.splits)
qed

lemma atom_inj:
  assumes "is_atom v" "has_text v" "is_atom w" "has_text w" "render v = render w"
  shows "v = w"
proof -
  have int_no: "CHR ''u'' \<notin> set (show_int i)" "CHR ''e'' \<notin> set (show_int i)" "CHR ''n'' \<notin> set (show_int i)" for i
    using show_int_chars [of i] by (auto simp: list_all_iff is_digit_def code_of_def)
  have num_no: "CHR ''u'' \<notin> set t" "CHR ''n'' \<notin> set t" "CHR ''a'' \<notin> set t" if "number_text t" for t
    using that by (auto simp: number_text_def list_all_iff number_char_def is_digit_def code_of_def)
  have words: "\<not> number_text ''null''" "\<not> number_text ''true''" "\<not> number_text ''false''"
      "\<not> number_text (show_int i @ ''n'')" for i
    using num_no(1) [of "''null''"] num_no(1) [of "''true''"] num_no(3) [of "''false''"]
      num_no(2) [of "show_int i @ ''n''"] by auto
  have ints: "show_int i @ ''n'' \<noteq> ''null''" "show_int i @ ''n'' \<noteq> ''true''" "show_int i @ ''n'' \<noteq> ''false''" for i
    using int_no(1) [of i] int_no(2) [of i] by (auto simp: append_eq_Cons_conv)
  show ?thesis
    using assms words ints ints [symmetric]
    by (cases v; cases w) (auto simp: is_atom_def show_int_inj split: option.splits if_splits)
qed

lemma atom_read:
  assumes "list_all atom_char s" "list_all atom_char t" "stops r" "stops r'" "s @ r = t @ r'"
  shows "s = t \<and> r = r'"
proof -
  have tw: "takeWhile atom_char (x @ y) = x" if "list_all atom_char x" "stops y" for x y
    using that by (cases y) (auto simp: stops_def list_all_iff takeWhile_append)
  have "s = t" using tw [OF assms(1,3)] tw [OF assms(2,4)] assms(5) by simp
  with assms(5) show ?thesis by simp
qed

lemma render_kind:
  assumes "has_text v"
  shows "is_atom v \<or> (\<exists>s. v = JString s) \<or> (\<exists>vs. v = JArray vs) \<or> (\<exists>es. v = JObject es)"
  using assms by (cases v) (auto simp: is_atom_def)

text \<open>The first character of a text tells strings, arrays, objects and the other values apart.\<close>

definition kind_of :: "jsval \<Rightarrow> nat" where
  "kind_of v = (case v of JString _ \<Rightarrow> 1 | JArray _ \<Rightarrow> 2 | JObject _ \<Rightarrow> 3 | _ \<Rightarrow> 0)"

definition head_kind :: "char \<Rightarrow> nat" where
  "head_kind c = (if c = quote_c then 1 else if c = CHR ''['' then 2 else if c = CHR ''{'' then 3 else 0)"

lemma head_kind_atom: "atom_char c \<Longrightarrow> head_kind c = 0"
  using atom_letters by (auto simp: head_kind_def)

lemma kind_of_iff:
  "kind_of v = 1 \<longleftrightarrow> (\<exists>s. v = JString s)" "kind_of v = 2 \<longleftrightarrow> (\<exists>vs. v = JArray vs)"
  "kind_of v = 3 \<longleftrightarrow> (\<exists>es. v = JObject es)" "has_text v \<Longrightarrow> kind_of v = 0 \<longleftrightarrow> is_atom v"
  by (cases v; simp add: kind_of_def is_atom_def)+

lemma render_head:
  assumes "has_text v"
  shows "\<exists>c s. render v = c # s \<and> head_kind c = kind_of v"
proof (cases "is_atom v")
  case True
  obtain c s where r: "render v = c # s" using atom_text(1) [OF True assms] by (cases "render v") auto
  then have "head_kind c = 0" using atom_text(2) [OF True assms] by (simp add: head_kind_atom)
  with r True show ?thesis using kind_of_iff(4) [OF assms] by simp
next
  case False
  with render_kind [OF assms] show ?thesis
    by (elim disjE exE) (simp_all add: json_string_def kind_of_def head_kind_def quote_c_def)
qed

lemma stops_simps [simp]: "stops []" "stops (c # r) \<longleftrightarrow> \<not> atom_char c"
  by (simp_all add: stops_def)

lemma render_same_kind:
  assumes "has_text v" "has_text w" "render v @ r = render w @ r'"
  shows "kind_of v = kind_of w"
  using render_head [OF assms(1)] render_head [OF assms(2)] assms(3) by fastforce

lemma render_not_close:
  assumes "has_text v" "head_kind c = 0" "\<not> atom_char c"
  shows "render v @ r \<noteq> c # r'"
proof (cases "is_atom v")
  case True
  with atom_text [OF True assms(1)] assms(3) show ?thesis by (cases "render v") auto
next
  case False
  with render_head [OF assms(1)] kind_of_iff(4) [OF assms(1)] assms(2) show ?thesis by auto
qed

lemma close_kinds [simp]: "head_kind CHR '']'' = 0" "head_kind CHR ''}'' = 0" "head_kind CHR '','' = 0"
  by (simp_all add: head_kind_def quote_c_def)


lemma atom_case:
  assumes "is_atom v" "has_text v" "has_text w" "stops r" "stops r'" "render v @ r = render w @ r'"
  shows "v = w \<and> r = r'"
proof -
  have w: "is_atom w"
    using render_same_kind [OF assms(2,3,6)] kind_of_iff(4) [OF assms(2)] kind_of_iff(4) [OF assms(3)] assms(1)
    by simp
  have "render v = render w \<and> r = r'"
    using atom_read [OF atom_text(2) [OF assms(1,2)] atom_text(2) [OF w assms(3)] assms(4,5,6)] .
  then show ?thesis using atom_inj [OF assms(1,2) w assms(3)] by blast
qed

lemma string_case:
  assumes "has_text w" "json_string s @ r = render w @ r'"
  shows "JString s = w \<and> r = r'"
proof -
  have "kind_of w = 1"
    using render_same_kind [of "JString s" w r r'] assms by (simp add: kind_of_def)
  then obtain t where "w = JString t" using kind_of_iff(1) by blast
  with assms(2) show ?thesis using json_string_prefix_free [of s r t r'] by simp
qed

lemma array_case:
  assumes "has_text w" "CHR ''['' # s = render w @ r"
  shows "\<exists>ws. w = JArray ws"
proof -
  obtain c t where "render w = c # t" "head_kind c = kind_of w" using render_head [OF assms(1)] by blast
  with assms(2) have "kind_of w = 2" by (auto simp: head_kind_def quote_c_def)
  then show ?thesis by (simp only: kind_of_iff)
qed

lemma object_case:
  assumes "has_text w" "CHR ''{'' # s = render w @ r"
  shows "\<exists>es. w = JObject es"
proof -
  obtain c t where "render w = c # t" "head_kind c = kind_of w" using render_head [OF assms(1)] by blast
  with assms(2) have "kind_of w = 3" by (auto simp: head_kind_def quote_c_def)
  then show ?thesis by (simp only: kind_of_iff)
qed

lemma render_inj:
  "has_text v \<Longrightarrow> has_text w \<Longrightarrow> stops r \<Longrightarrow> stops r' \<Longrightarrow> render v @ r = render w @ r' \<Longrightarrow> v = w \<and> r = r'"
  "has_text_items vs \<Longrightarrow> has_text_items ws \<Longrightarrow>
     render_items vs @ CHR '']'' # r = render_items ws @ CHR '']'' # r' \<Longrightarrow> vs = ws \<and> r = r'"
  "has_text_entries es \<Longrightarrow> has_text_entries fs \<Longrightarrow>
     render_entries es @ CHR ''}'' # r = render_entries fs @ CHR ''}'' # r' \<Longrightarrow> es = fs \<and> r = r'"
proof (induction v and vs and es arbitrary: w r r' and ws r r' and fs r r' rule: render_render_items_render_entries.induct)
  case (6 vs)
  obtain ws where w: "w = JArray ws"
    using array_case [OF "6.prems"(2), of "render_items vs @ CHR '']'' # r" r'] "6.prems"(5) by auto
  from "6.IH" [of ws r r'] "6.prems" show ?case by (simp add: w)
next
  case (7 es)
  obtain fs where w: "w = JObject fs"
    using object_case [OF "7.prems"(2), of "render_entries es @ CHR ''}'' # r" r'] "7.prems"(5) by auto
  from "7.IH" [of fs r r'] "7.prems" show ?case by (simp add: w)
next
  case (3 s)
  then show ?case using string_case by simp
next
  case 1
  then show ?case using atom_case [of JNull] by (simp add: is_atom_def)
next
  case (2 n)
  then show ?case using atom_case [of "JBigint n"] by (simp add: is_atom_def)
next
  case (4 b)
  then show ?case using atom_case [of "JBool b"] by (simp add: is_atom_def)
next
  case (5 t)
  then show ?case using atom_case [of "JNumber t"] by (simp add: is_atom_def)
next
  case 9
  show ?case
  proof (cases ws)
    case Nil
    with 9 show ?thesis by simp
  next
    case (Cons w ws')
    with 9(2,3) render_not_close [of w "CHR '']''", symmetric] show ?thesis by simp
  qed
next
  case (10 v vs)
  show ?case
  proof (cases ws)
    case Nil
    with "10.prems" render_not_close [of v "CHR '']''"] show ?thesis by simp
  next
    case (Cons w ws')
    let ?s = "(if vs = [] then [] else '','' @ render_items vs) @ CHR '']'' # r"
    let ?s' = "(if ws' = [] then [] else '','' @ render_items ws') @ CHR '']'' # r'"
    have "v = w \<and> ?s = ?s'" using "10.IH"(1) [of w ?s ?s'] "10.prems" Cons by simp
    then have 1: "v = w" and 2: "?s = ?s'" by blast+
    show ?thesis
    proof (cases "vs = []")
      case True
      with 1 2 Cons show ?thesis by (auto split: if_splits)
    next
      case False
      with 2 have "ws' \<noteq> []" by (auto split: if_splits)
      with False 2 "10.IH"(2) [OF False, of ws' r r'] "10.prems" Cons 1 show ?thesis by simp
    qed
  qed
next
  case 11
  show ?case
  proof (cases fs)
    case Nil
    with 11 show ?thesis by simp
  next
    case (Cons f fs')
    with 11 show ?thesis by (simp add: json_string_def quote_c_def)
  qed
next
  case (12 e es)
  show ?case
  proof (cases fs)
    case Nil
    with 12 show ?thesis by (simp add: json_string_def quote_c_def)
  next
    case (Cons f fs')
    let ?s = "(if es = [] then [] else '','' @ render_entries es) @ CHR ''}'' # r"
    let ?s' = "(if fs' = [] then [] else '','' @ render_entries fs') @ CHR ''}'' # r'"
    have keys: "fst e = fst f" and vals: "render (snd e) @ ?s = render (snd f) @ ?s'"
      using json_string_prefix_free [of "fst e" "'':'' @ render (snd e) @ ?s" "fst f" "'':'' @ render (snd f) @ ?s'"]
        "12.prems" Cons by simp_all
    have "snd e = snd f \<and> ?s = ?s'" using "12.IH"(1) [of "snd f" ?s ?s'] "12.prems" Cons vals by simp
    then have 1: "e = f" and 2: "?s = ?s'" using keys by (simp_all add: prod_eq_iff)
    show ?thesis
    proof (cases "es = []")
      case True
      with 1 2 Cons show ?thesis by (auto split: if_splits)
    next
      case False
      with 2 have "fs' \<noteq> []" by (auto split: if_splits)
      with False 2 "12.IH"(2) [OF False, of fs' r r'] "12.prems" Cons 1 show ?thesis by simp
    qed
  qed
qed simp_all

section \<open>What the text identifies\<close>

lemma canonicalize_Inr:
  assumes "wf_value v" "canonicalize v = Inr s"
  shows "s = render (normalize v)" "has_text (normalize v)"
  using canonical_render(1) [of v] assms by auto

text \<open>C35. The request text is unambiguous: two hashable payloads get the same text exactly when they are
  the same value up to the order of object properties, absent properties and dates standing for their
  ISO text. In particular the big integer 123, the number 123 and the string "123" never meet.\<close>

theorem canonicalize_injective:
  assumes "wf_value v" "wf_value w" "canonicalize v = Inr s" "canonicalize w = Inr t"
  shows "s = t \<longleftrightarrow> normalize v = normalize w"
proof
  assume "s = t"
  with canonicalize_Inr [OF assms(1,3)] canonicalize_Inr [OF assms(2,4)]
  show "normalize v = normalize w" using render_inj(1) [of "normalize v" "normalize w" "[]" "[]"] by simp
next
  assume "normalize v = normalize w"
  with canonicalize_Inr(1) [OF assms(1,3)] canonicalize_Inr(1) [OF assms(2,4)] show "s = t" by simp
qed

lemma canonicalize_injective_witness:
  "(''123n'' = ''123'') = (normalize (JBigint 123) = normalize (JNumber (Some ''123'')))"
proof -
  have "show_int 123 = ''123''"
    by code_simp
  then show ?thesis
    by (intro canonicalize_injective) (simp_all add: number_text_def number_char_def is_digit_def code_of_def)
qed

lemma canonical_entries_filter:
  "canonical_entries es = map (\<lambda>e. (fst e, canonicalize (snd e))) (filter (\<lambda>e. snd e \<noteq> JUndefined) es)"
  by (induction es) auto

lemma sort_key_perm:
  assumes "mset xs = mset ys" "distinct (map fst xs)"
  shows "sort_key fst xs = sort_key fst ys"
proof (rule sort_key_inj_key_eq)
  show "mset xs = mset (sort_key fst ys)" using assms(1) by simp
  show "inj_on fst (set xs)" using assms(2) by (simp add: distinct_map)
  show "sorted (map fst (sort_key fst ys))" by simp
qed

text \<open>The text does not depend on the order in which an object's properties were written.\<close>

theorem canonicalize_key_order:
  assumes "distinct (map fst es)" "mset es = mset fs"
  shows "canonicalize (JObject es) = canonicalize (JObject fs)"
proof -
  have "mset (canonical_entries es) = mset (canonical_entries fs)"
    using assms(2) by (simp add: canonical_entries_filter)
  moreover have "distinct (map fst (canonical_entries es))"
    using assms(1) by (simp add: canonical_entries_filter comp_def distinct_map_filter)
  ultimately have "sort_key fst (canonical_entries es) = sort_key fst (canonical_entries fs)"
    by (rule sort_key_perm)
  then show ?thesis by simp
qed

lemma canonicalize_key_order_witness:
  "canonicalize (JObject [(''b'', JBool True), (''a'', JNull)]) = canonicalize (JObject [(''a'', JNull), (''b'', JBool True)])"
  by (rule canonicalize_key_order) simp_all

end
