(* ===== verification/Webhook.thy ===== *)
theory Webhook
  imports Canonical
begin

text \<open>
  Webhook signatures and bodies of \<open>src/modules/payments/providers.ts\<close>: signing, verification with
  secret rotation and a clock tolerance, and the parser of an event body. What Node supplies is the
  record \<open>host\<close>.
\<close>

section \<open>The host\<close>

text \<open>
  \<open>sha256 m\<close> and \<open>hmac secret m\<close> are the lower-case hex digests (\<open>node:crypto\<close>); \<open>clock n\<close> is the
  n-th reading of the provider's clock in milliseconds; \<open>iso ms\<close> is \<open>toISOString\<close>; \<open>date_ok s\<close> says
  that \<open>Date.parse(s)\<close> is not NaN; \<open>decode bytes\<close> is \<open>JSON.parse\<close> of the fatal UTF-8 decoding, with
  None for an exception.
\<close>

record host =
  sha256 :: "string \<Rightarrow> string"
  hmac :: "string \<Rightarrow> string \<Rightarrow> string"
  clock :: "nat \<Rightarrow> int"
  iso_text :: "int \<Rightarrow> string"
  date_ok :: "string \<Rightarrow> bool"
  decode :: "string \<Rightarrow> jsval option"

definition hex_char :: "char \<Rightarrow> bool" where
  "hex_char c \<longleftrightarrow> is_digit c \<or> (97 \<le> code_of c \<and> code_of c \<le> 102)"

definition hex64 :: "string \<Rightarrow> bool" where
  "hex64 s \<longleftrightarrow> length s = 64 \<and> list_all hex_char s"

section \<open>Signatures\<close>

definition MOCK_SIGNATURE_HEADER :: string where "MOCK_SIGNATURE_HEADER = ''x-mock-signature''"
definition DEFAULT_WEBHOOK_TOLERANCE_SECONDS :: int where "DEFAULT_WEBHOOK_TOLERANCE_SECONDS = 300"
definition MAX_SAFE_INTEGER :: int where "MAX_SAFE_INTEGER = 9007199254740991"

definition hmacSha256 :: "host \<Rightarrow> string \<Rightarrow> int \<Rightarrow> string \<Rightarrow> string" where
  "hmacSha256 h secret timestamp rawBody = hmac h secret (show_int timestamp @ ''.'' @ rawBody)"

definition signMockWebhook :: "host \<Rightarrow> string \<Rightarrow> string \<Rightarrow> int \<Rightarrow> provider_error + string" where
  "signMockWebhook h rawBody secret timestampSeconds =
     (if timestampSeconds > MAX_SAFE_INTEGER \<or> timestampSeconds < 0 then Inl (perr INVALID_INPUT)
      else if length secret < MIN_WEBHOOK_SECRET_LENGTH then Inl (perr INVALID_INPUT)
      else Inr (''t='' @ show_int timestampSeconds @ '',v1='' @ hmacSha256 h secret timestampSeconds rawBody))"

text \<open>\<open>part.indexOf('=')\<close>\<close>

definition index_of :: "char \<Rightarrow> string \<Rightarrow> int" where
  "index_of c s = (if c \<in> set s then int (length (takeWhile (\<lambda>d. d \<noteq> c) s)) else - 1)"

text \<open>The loop over the comma-separated parts: the timestamp seen so far and the candidate digests.\<close>

fun scan_parts :: "string list \<Rightarrow> int option \<Rightarrow> string list \<Rightarrow> provider_error + (int option \<times> string list)" where
  "scan_parts [] ts cands = Inr (ts, cands)"
| "scan_parts (part # parts) ts cands =
     (let eq = index_of CHR ''='' part in
      if eq \<le> 0 then Inl (perr WEBHOOK_SIGNATURE_INVALID)
      else
        let key = js_trim (take (nat eq) part); val = js_trim (drop (nat eq + 1) part) in
        if key = ''t'' then
          (if ts \<noteq> None \<or> \<not> (1 \<le> length val \<and> length val \<le> 12 \<and> list_all is_digit val)
           then Inl (perr WEBHOOK_SIGNATURE_INVALID)
           else scan_parts parts (Some (int (read_nat val))) cands)
        else if key = ''v1'' then
          scan_parts parts ts (if hex64 val then cands @ [val] else cands)
        else scan_parts parts ts cands)"

definition verifyMockWebhookSignature ::
    "host \<Rightarrow> string \<Rightarrow> string option \<Rightarrow> string list \<Rightarrow> int \<Rightarrow> int option \<Rightarrow> provider_error + int" where
  "verifyMockWebhookSignature h rawBody signatureHeader secrets nowSeconds toleranceSeconds =
     (if secrets = [] then Inl (perr WEBHOOK_SIGNATURE_INVALID)
      else case signatureHeader of
        None \<Rightarrow> Inl (perr WEBHOOK_SIGNATURE_INVALID)
      | Some header \<Rightarrow>
          if header = [] \<or> length header > 2048 then Inl (perr WEBHOOK_SIGNATURE_INVALID)
          else ebind (scan_parts (js_split CHR '','' header) None []) (\<lambda>(ts, cands).
            case ts of
              None \<Rightarrow> Inl (perr WEBHOOK_SIGNATURE_INVALID)
            | Some timestamp \<Rightarrow>
                if cands = [] then Inl (perr WEBHOOK_SIGNATURE_INVALID)
                else if \<not> list_ex (\<lambda>secret. hmacSha256 h secret timestamp rawBody \<in> set cands) secrets
                  then Inl (perr WEBHOOK_SIGNATURE_INVALID)
                else
                  let tolerance = (case toleranceSeconds of None \<Rightarrow> DEFAULT_WEBHOOK_TOLERANCE_SECONDS | Some t \<Rightarrow> t) in
                  if \<bar>nowSeconds - timestamp\<bar> > tolerance then Inl (perr WEBHOOK_TIMESTAMP_OUT_OF_TOLERANCE)
                  else Inr timestamp))"

section \<open>Event bodies\<close>

text \<open>\<open>body.field\<close> of a decoded value; a missing property, and a property of an array, is undefined.\<close>

definition field_of :: "jsval \<Rightarrow> string \<Rightarrow> jsval" where
  "field_of v k = (case v of JObject es \<Rightarrow> (case mget es k of None \<Rightarrow> JUndefined | Some x \<Rightarrow> x) | _ \<Rightarrow> JUndefined)"

definition is_object :: "jsval \<Rightarrow> bool" where
  "is_object v = (case v of JObject _ \<Rightarrow> True | JArray _ \<Rightarrow> True | _ \<Rightarrow> False)"

abbreviation bad_payload :: provider_error where
  "bad_payload \<equiv> perr WEBHOOK_PAYLOAD_INVALID"

definition str_field :: "jsval \<Rightarrow> provider_error + string" where
  "str_field v = (case v of JString s \<Rightarrow> if s = [] then Inl bad_payload else Inr s | _ \<Rightarrow> Inl bad_payload)"

definition starts_with :: "string \<Rightarrow> string \<Rightarrow> bool" where
  "starts_with p s \<longleftrightarrow> take (length p) s = p"

definition amount_field :: "jsval \<Rightarrow> bool \<Rightarrow> provider_error + int" where
  "amount_field v zero = (case parseAtomicAmount v \<lparr>allowZero = zero, max_rule = No_Max\<rparr> of
     Inl _ \<Rightarrow> Inl bad_payload | Inr n \<Rightarrow> Inr n)"

definition statuses_of :: "string \<Rightarrow> string list" where
  "statuses_of objectType = (if objectType = ''funding'' then FUNDING_STATUSES
     else if objectType = ''dispute'' then DISPUTE_STATUSES else TRANSFER_STATUSES)"

definition parseMockEventBody :: "host \<Rightarrow> string \<Rightarrow> provider_error + verified_event" where
  "parseMockEventBody h rawBody =
    (case decode h rawBody of None \<Rightarrow> Inl bad_payload
     | Some body \<Rightarrow>
        ebind (echeck (is_object body) bad_payload) (\<lambda>_.
        let data = field_of body ''data'' in
        ebind (echeck (is_object data) bad_payload) (\<lambda>_.
        ebind (str_field (field_of body ''type'')) (\<lambda>type.
        ebind (echeck (type \<in> set WEBHOOK_EVENT_TYPES) bad_payload) (\<lambda>_.
        ebind (str_field (field_of body ''mode'')) (\<lambda>mode.
        ebind (echeck (mode = ''test'' \<or> mode = ''live'') bad_payload) (\<lambda>_.
        ebind (str_field (field_of data ''objectType'')) (\<lambda>objectType.
        ebind (echeck (objectType \<in> {''funding'', ''release'', ''refund'', ''reversal'', ''dispute''}) bad_payload) (\<lambda>_.
        ebind (echeck (starts_with (objectType @ ''.'') type) bad_payload) (\<lambda>_.
        ebind (str_field (field_of data ''status'')) (\<lambda>status.
        ebind (echeck (status \<in> set (statuses_of objectType)) bad_payload) (\<lambda>_.
        ebind (str_field (field_of data ''currency'')) (\<lambda>currency.
        ebind (echeck (currency_pattern currency) bad_payload) (\<lambda>_.
        ebind (str_field (field_of body ''created'')) (\<lambda>createdAt.
        ebind (echeck (date_ok h createdAt) bad_payload) (\<lambda>_.
        ebind (amount_field (field_of data ''amount'') False) (\<lambda>amount.
        ebind (if field_of data ''providerFee'' = JNull then Inr None
               else ebind (amount_field (field_of data ''providerFee'') True) (\<lambda>n. Inr (Some n))) (\<lambda>providerFee.
        ebind (str_field (field_of body ''id'')) (\<lambda>eventId.
        ebind (str_field (field_of body ''account'')) (\<lambda>accountId.
        ebind (str_field (field_of data ''reference'')) (\<lambda>reference.
        ebind (str_field (field_of data ''fundingReference'')) (\<lambda>fundingReference.
        ebind (str_field (field_of data ''operationId'')) (\<lambda>operationId.
        ebind (str_field (field_of data ''orderId'')) (\<lambda>orderId.
        Inr \<lparr>ve_eventId = eventId, ve_type = type, ve_mode = mode, ve_accountId = accountId,
             ve_createdAt = createdAt, ve_objectType = objectType, ve_reference = reference,
             ve_fundingReference = fundingReference, ve_operationId = operationId, ve_orderId = orderId,
             ve_status = status, ve_amount = amount, ve_currency = currency, ve_providerFee = providerFee\<rparr>
        ))))))))))))))))))))))))"

section \<open>Who can pass the signature check\<close>

lemma str_field_Inr [errors]: "str_field v = Inr s \<longleftrightarrow> v = JString s \<and> s \<noteq> []"
  by (auto simp: str_field_def split: jsval.splits)

lemma scan_parts_candidates:
  "scan_parts parts ts cands = Inr (ts', cands') \<Longrightarrow>
     set cands' \<subseteq> set cands \<union> {js_trim (drop (nat (index_of CHR ''='' p) + 1) p) | p. p \<in> set parts}"
proof (induction parts ts cands rule: scan_parts.induct)
  case (1 ts cands)
  then show ?case by simp
next
  case (2 part parts ts cands)
  let ?eq = "index_of CHR ''='' part"
  let ?key = "js_trim (take (nat ?eq) part)" and ?val = "js_trim (drop (nat ?eq + 1) part)"
  have pos: "\<not> ?eq \<le> 0" using "2.prems" by (auto simp: Let_def)
  consider (T) "?key = ''t''" | (V) "?key \<noteq> ''t''" "?key = ''v1''" | (O) "?key \<noteq> ''t''" "?key \<noteq> ''v1''" by blast
  then show ?case
  proof cases
    case T
    with "2.prems" pos have "scan_parts parts (Some (int (read_nat ?val))) cands = Inr (ts', cands')"
      by (auto simp: Let_def split: if_splits)
    with "2.IH"(1) [OF refl pos refl refl T] "2.prems" T pos show ?thesis
      by (fastforce simp: Let_def split: if_splits)
  next
    case V
    with "2.prems" pos have "scan_parts parts ts (if hex64 ?val then cands @ [?val] else cands) = Inr (ts', cands')"
      by (auto simp: Let_def split: if_splits)
    with "2.IH"(2) [OF refl pos refl refl V] show ?thesis by (fastforce split: if_splits)
  next
    case O
    with "2.prems" pos have "scan_parts parts ts cands = Inr (ts', cands')" by (simp add: Let_def)
    with "2.IH"(3) [OF refl pos refl refl O] show ?thesis by fastforce
  qed
qed

text \<open>C39. Whoever passes the check holds a configured secret: one of the digests in the header is the HMAC,
  under one of the configured secrets, of the signed timestamp and exactly these body bytes, and the timestamp is
  within the tolerance of the clock.\<close>

theorem verify_signature_sound:
  assumes "verifyMockWebhookSignature h rawBody header secrets nowSeconds tol = Inr timestamp"
  shows "\<exists>secret hd p. secret \<in> set secrets \<and> header = Some hd \<and> p \<in> set (js_split CHR '','' hd)
      \<and> js_trim (drop (nat (index_of CHR ''='' p) + 1) p) = hmacSha256 h secret timestamp rawBody
      \<and> \<bar>nowSeconds - timestamp\<bar> \<le> (case tol of None \<Rightarrow> 300 | Some t \<Rightarrow> t)"
proof -
  obtain hd cands where hd: "header = Some hd"
    and scan: "scan_parts (js_split CHR '','' hd) None [] = Inr (Some timestamp, cands)"
    and match: "list_ex (\<lambda>secret. hmacSha256 h secret timestamp rawBody \<in> set cands) secrets"
    and tol: "\<bar>nowSeconds - timestamp\<bar> \<le> (case tol of None \<Rightarrow> 300 | Some t \<Rightarrow> t)"
    using assms
    by (auto simp: verifyMockWebhookSignature_def ebind_Inr Let_def DEFAULT_WEBHOOK_TOLERANCE_SECONDS_def
        split: if_splits option.splits)
  from match obtain secret where "secret \<in> set secrets" "hmacSha256 h secret timestamp rawBody \<in> set cands"
    by (auto simp: list_ex_iff)
  with scan_parts_candidates [OF scan] hd tol show ?thesis by fastforce
qed

section \<open>A signed body is accepted\<close>

lemma hex_not_space: "hex_char c \<Longrightarrow> \<not> js_space c"
  by (auto simp: is_digit_def hex_char_def js_space_def)

lemma list_all_weaken: "list_all P xs \<Longrightarrow> (\<And>x. P x \<Longrightarrow> Q x) \<Longrightarrow> list_all Q xs"
  by (auto simp: list_all_iff)

lemma show_nat_length: "n < 10 ^ k \<Longrightarrow> 0 < k \<Longrightarrow> length (show_nat n) \<le> k"
proof (induction n arbitrary: k rule: show_nat.induct)
  case (1 n)
  show ?case
  proof (cases "n < 10")
    case True
    then have "show_nat n = [digit_char n]" by (subst show_nat.simps) simp
    with 1 show ?thesis by simp
  next
    case False
    then obtain k' where k: "k = Suc k'" "0 < k'" using 1(2,3) by (cases k; cases "k - 1") auto
    then have "n div 10 < 10 ^ k'" using 1(2) by auto
    with 1(1) [OF False] k have "length (show_nat (n div 10)) \<le> k'" by blast
    moreover have "show_nat n = show_nat (n div 10) @ [digit_char (n mod 10)]"
      using False by (subst show_nat.simps) simp
    ultimately show ?thesis using k by simp
  qed
qed

text \<open>The header that \<open>signMockWebhook\<close> writes is read back as its timestamp and its one digest.\<close>

lemma scan_signed:
  assumes "0 \<le> ts" "ts < 10 ^ 12" "hex64 mac"
  shows "scan_parts (js_split CHR '','' (''t='' @ show_int ts @ '',v1='' @ mac)) None [] = Inr (Some ts, [mac])"
    and "length (''t='' @ show_int ts @ '',v1='' @ mac) \<le> 2048"
proof -
  let ?d = "show_nat (nat ts)"
  have d: "show_int ts = ?d" using assms(1) by (simp add: show_int_def)
  have digits: "list_all is_digit ?d" by (rule show_nat_digits)
  have ts12: "nat ts < 10 ^ 12" using assms(2) by simp
  have len: "length ?d \<le> 12" "1 \<le> length ?d"
    using show_nat_length [OF ts12] by (simp_all add: Suc_le_eq)
  have no_comma: "CHR '','' \<notin> set ?d" "CHR '','' \<notin> set mac"
    using digits assms(3) by (auto simp: list_all_iff is_digit_def hex64_def hex_char_def code_of_def)
  have hex: "list_all hex_char mac" "length mac = 64" using assms(3) by (simp_all add: hex64_def)
  have split: "js_split CHR '','' (''t='' @ ?d @ '',v1='' @ mac) = [''t='' @ ?d, ''v1='' @ mac]"
    using js_split_append [of "CHR '',''" "''t='' @ ?d" "''v1='' @ mac"] no_comma
    by (simp add: js_split_no_sep)
  have trims: "js_trim ?d = ?d" "js_trim mac = mac" "js_trim ''t'' = ''t''" "js_trim ''v1'' = ''v1''"
    using list_all_weaken [OF digits digit_not_space] list_all_weaken [OF hex(1) hex_not_space]
    by (simp_all add: js_trim_no_space js_space_def code_of_def)
  have idx: "index_of CHR ''='' (''t='' @ r) = 1" "index_of CHR ''='' (''v1='' @ r) = 2" for r
    by (simp_all add: index_of_def)
  have "scan_parts [''t='' @ ?d, ''v1='' @ mac] None [] = Inr (Some (int (read_nat ?d)), [mac])"
    using trims len digits assms(3) idx [of ?d] idx [of mac] by (simp add: Let_def)
  then show "scan_parts (js_split CHR '','' (''t='' @ show_int ts @ '',v1='' @ mac)) None [] = Inr (Some ts, [mac])"
    using split d assms(1) by simp
  show "length (''t='' @ show_int ts @ '',v1='' @ mac) \<le> 2048"
    using len hex d by simp
qed

lemma verify_signed:
  assumes "0 \<le> ts" "ts < 10 ^ 12" "secret \<in> set secrets" "hex64 (hmacSha256 h secret ts rawBody)"
    and "\<bar>nowSeconds - ts\<bar> \<le> tol"
  shows "verifyMockWebhookSignature h rawBody (Some (''t='' @ show_int ts @ '',v1='' @ hmacSha256 h secret ts rawBody))
    secrets nowSeconds (Some tol) = Inr ts"
proof -
  let ?mac = "hmacSha256 h secret ts rawBody"
  have "list_ex (\<lambda>s. hmacSha256 h s ts rawBody \<in> set [?mac]) secrets"
    using assms(3) by (auto simp: list_ex_iff)
  moreover have "secrets \<noteq> []" using assms(3) by auto
  ultimately show ?thesis
    using scan_signed [OF assms(1,2,4)] assms(5) by (simp add: verifyMockWebhookSignature_def)
qed

text \<open>What \<open>signMockWebhook\<close> signs with any one of the accepted secrets is accepted, with its own timestamp,
  as long as the clock is within the tolerance (timestamps of at most 12 digits, which is all the check reads).\<close>

theorem sign_verify_roundtrip:
  assumes "signMockWebhook h rawBody secret ts = Inr header" "secret \<in> set secrets" "ts < 10 ^ 12"
    and "hex64 (hmacSha256 h secret ts rawBody)" "\<bar>nowSeconds - ts\<bar> \<le> tol"
  shows "verifyMockWebhookSignature h rawBody (Some header) secrets nowSeconds (Some tol) = Inr ts"
proof -
  have "0 \<le> ts" "header = ''t='' @ show_int ts @ '',v1='' @ hmacSha256 h secret ts rawBody"
    using assms(1) by (auto simp: signMockWebhook_def split: if_splits)
  then show ?thesis using verify_signed assms(2-5) by blast
qed

text \<open>A host to evaluate the model on concrete inputs: the digest of a message is its letters and digits read
  backwards, every HMAC is the same.\<close>

definition example_host :: host where
  "example_host = \<lparr>sha256 = (\<lambda>m. filter is_alnum (rev m)), hmac = (\<lambda>_ _. replicate 64 CHR ''a''), clock = int,
     iso_text = show_int, date_ok = (\<lambda>_. True), decode = (\<lambda>_. None)\<rparr>"

lemma example_hmac: "hmacSha256 example_host secret ts body = replicate 64 CHR ''a''" "hex64 (replicate 64 CHR ''a'')"
  by (simp add: hmacSha256_def example_host_def, code_simp)

lemma verify_signature_sound_witness:
  "\<exists>secret hd p. secret \<in> set [''0123456789abcdef'']
      \<and> Some (''t='' @ show_int 1700000000 @ '',v1='' @ replicate 64 CHR ''a'') = Some hd
      \<and> p \<in> set (js_split CHR '','' hd)
      \<and> js_trim (drop (nat (index_of CHR ''='' p) + 1) p) = hmacSha256 example_host secret 1700000000 ''{}''
      \<and> \<bar>1700000100 - 1700000000\<bar> \<le> (case Some 300 of None \<Rightarrow> 300 | Some t \<Rightarrow> (t::int))"
  by (rule verify_signature_sound)
     (use verify_signed [of 1700000000 "''0123456789abcdef''" "[''0123456789abcdef'']" example_host "''{}''"] in
       \<open>simp add: example_hmac\<close>)

lemma sign_verify_roundtrip_witness:
  "verifyMockWebhookSignature example_host ''{}'' (Some (''t='' @ show_int 1700000000 @ '',v1='' @ replicate 64 CHR ''a''))
     [''another-secret-00'', ''0123456789abcdef''] 1700000100 (Some 300) = Inr 1700000000"
  by (rule sign_verify_roundtrip [where secret = "''0123456789abcdef''"])
     (simp_all add: signMockWebhook_def example_hmac MAX_SAFE_INTEGER_def MIN_WEBHOOK_SECRET_LENGTH_def)

end
