(* ===== verification/Provider.thy ===== *)
theory Provider
  imports Webhook Actions
begin

text \<open>
  \<open>MockPaymentProvider\<close> of \<open>src/modules/payments/providers.ts\<close>: its configuration, its state (the
  operation journal, fundings, transfers, disputes, the events emitted and not yet delivered, payee
  balances and failure-injection slots) and every method. A record that the code mutates in place is
  written back under its reference. Each clock reading advances \<open>ps_ticks\<close>.
\<close>

section \<open>Configuration and state\<close>

datatype failure_effect = ACCEPT_THEN_TIMEOUT | TIMEOUT_BEFORE_ACCEPT | UNAVAILABLE

record failure_rule =
  fl_kind :: operation_kind
  fl_operationId :: "string option"
  fl_effect :: failure_effect
  fl_times :: "int option"

datatype settlement = Immediate | Pending

record provider_options =
  po_mode :: "string option"
  po_accountId :: "string option"
  po_webhookSecrets :: "string list"
  po_supportedCurrencies :: "string list option"
  po_maxAtomicAmount :: "int option"
  po_partialRefund :: "bool option"
  po_payeesWithoutPayouts :: "string list option"
  po_bankTransferFunding :: "bool option"
  po_payeeBalances :: "(string \<times> int) list option"
  po_releaseSettlement :: "settlement option"
  po_refundSettlement :: "settlement option"
  po_failureInjection :: "failure_rule list option"
  po_webhookToleranceSeconds :: "int option"

record provider_config =
  pc_accountId :: string
  pc_secrets :: "string list"
  pc_currencies :: "string list"
  pc_maxAmount :: int
  pc_partialRefund :: bool
  pc_payeesWithoutPayouts :: "string list"
  pc_bankTransferFunding :: bool
  pc_releaseSettlement :: settlement
  pc_refundSettlement :: settlement
  pc_toleranceSeconds :: int
  pc_eventNonce :: string

record funding_record =
  fd_reference :: string
  fd_operationId :: string
  fd_method :: funding_method
  fd_orderId :: string
  fd_buyerId :: string
  fd_payeeAccountId :: string
  fd_amount :: int
  fd_currency :: string
  fd_status :: funding_status_code
  fd_providerFee :: "int option"
  fd_createdAt :: int
  fd_updatedAt :: int

datatype transfer_kind = Release | Refund | Reversal
datatype refund_source = Principal | Platform_Balance

record transfer_record =
  tr_kind :: transfer_kind
  tr_source :: refund_source
  tr_reference :: string
  tr_operationId :: string
  tr_fundingReference :: string
  tr_orderId :: string
  tr_payeeAccountId :: "string option"
  tr_reason :: "string option"
  tr_amount :: int
  tr_currency :: string
  tr_status :: transfer_status_code
  tr_failureCode :: "string option"
  tr_createdAt :: int
  tr_updatedAt :: int

record dispute_record =
  di_reference :: string
  di_fundingReference :: string
  di_orderId :: string
  di_amount :: int
  di_currency :: string
  di_status :: dispute_status_code

text \<open>\<open>state\<close>, \<open>reference\<close> and \<open>result\<close> of a journal entry are one field: APPLIED entries carry the
  reference and the result, NOT_APPLIED entries carry neither.\<close>

record journal_entry =
  je_operationId :: string
  je_kind :: operation_kind
  je_requestHash :: string
  je_applied :: "(string \<times> op_result) option"
  je_attemptCount :: int
  je_lastErrorCode :: "provider_error_code option"

record stored_event =
  ev_eventId :: string
  ev_type :: string
  ev_rawBody :: string

record provider_state =
  ps_journal :: "(string \<times> journal_entry) list"
  ps_fundings :: "(string \<times> funding_record) list"
  ps_transfers :: "(string \<times> transfer_record) list"
  ps_disputes :: "(string \<times> dispute_record) list"
  ps_events :: "stored_event list"
  ps_undelivered :: "stored_event list"
  ps_eventSequence :: int
  ps_payeeBalances :: "(string \<times> int) list"
  ps_failureRules :: "(failure_rule \<times> int) list"
  ps_ticks :: nat

type_synonym 'a provider_action = "(provider_state, provider_error, 'a) action"

text \<open>The constructor. \<open>nonce\<close> is the random event nonce drawn for this instance.\<close>

definition initial_state :: "provider_options \<Rightarrow> provider_state" where
  "initial_state o' = \<lparr>ps_journal = [], ps_fundings = [], ps_transfers = [], ps_disputes = [], ps_events = [],
     ps_undelivered = [], ps_eventSequence = 0,
     ps_payeeBalances = (case po_payeeBalances o' of None \<Rightarrow> [] | Some b \<Rightarrow> b),
     ps_failureRules = map (\<lambda>r. (r, case fl_times r of None \<Rightarrow> 1 | Some n \<Rightarrow> n))
       (case po_failureInjection o' of None \<Rightarrow> [] | Some rs \<Rightarrow> rs),
     ps_ticks = 0\<rparr>"

definition new_MockPaymentProvider :: "provider_options \<Rightarrow> string \<Rightarrow> provider_error + (provider_config \<times> provider_state)" where
  "new_MockPaymentProvider o' nonce =
     (if po_mode o' \<noteq> None \<and> po_mode o' \<noteq> Some ''test'' then Inl (perr LIVE_MODE_NOT_SUPPORTED)
      else if po_webhookSecrets o' = [] \<or> list_ex (\<lambda>s. length s < MIN_WEBHOOK_SECRET_LENGTH) (po_webhookSecrets o')
        then Inl (perr INVALID_INPUT)
      else
        let accountId = (case po_accountId o' of None \<Rightarrow> ''acct_mock_local'' | Some a \<Rightarrow> a);
            currencies = (case po_supportedCurrencies o' of None \<Rightarrow> [''USD''] | Some cs \<Rightarrow> cs) in
        ebind (assertId (JString accountId)) (\<lambda>_.
        ebind (esequence (map (\<lambda>c. assertCurrencyCode (JString c)) currencies)) (\<lambda>_.
        Inr (\<lparr>pc_accountId = accountId, pc_secrets = po_webhookSecrets o', pc_currencies = currencies,
              pc_maxAmount = (case po_maxAtomicAmount o' of None \<Rightarrow> DEFAULT_MAX_ATOMIC_AMOUNT | Some m \<Rightarrow> m),
              pc_partialRefund = (case po_partialRefund o' of None \<Rightarrow> True | Some b \<Rightarrow> b),
              pc_payeesWithoutPayouts = (case po_payeesWithoutPayouts o' of None \<Rightarrow> [] | Some ps \<Rightarrow> ps),
              pc_bankTransferFunding = (po_bankTransferFunding o' = Some True),
              pc_releaseSettlement = (case po_releaseSettlement o' of None \<Rightarrow> Immediate | Some s \<Rightarrow> s),
              pc_refundSettlement = (case po_refundSettlement o' of None \<Rightarrow> Immediate | Some s \<Rightarrow> s),
              pc_toleranceSeconds = (case po_webhookToleranceSeconds o' of
                 None \<Rightarrow> DEFAULT_WEBHOOK_TOLERANCE_SECONDS | Some t \<Rightarrow> t),
              pc_eventNonce = nonce\<rparr>, initial_state o'))))"

section \<open>Internals\<close>

definition timestamp :: "host \<Rightarrow> int provider_action" where
  "timestamp h = (\<lambda>st. (Inr (clock h (ps_ticks st)), st\<lparr>ps_ticks := ps_ticks st + 1\<rparr>))"

definition referenceFor :: "host \<Rightarrow> provider_config \<Rightarrow> string \<Rightarrow> string \<Rightarrow> string" where
  "referenceFor h c prefix operationId =
     ''mock_'' @ prefix @ ''_'' @ take 24 (sha256 h (pc_accountId c @ [CHR 0x0A] @ prefix @ [CHR 0x0A] @ operationId))"

text \<open>\<open>JSON.stringify\<close> of an event body, an object of strings, nulls and one nested object: \<open>render\<close>
  prints an object without sorting it.\<close>

definition event_body :: "string \<Rightarrow> string \<Rightarrow> string \<Rightarrow> string \<Rightarrow> (string \<times> jsval) list \<Rightarrow> jsval" where
  "event_body eventId type account created data =
     JObject [(''id'', JString eventId), (''type'', JString type), (''mode'', JString ''test''),
       (''account'', JString account), (''created'', JString created), (''data'', JObject data)]"

definition emit :: "host \<Rightarrow> provider_config \<Rightarrow> string \<Rightarrow> (string \<times> jsval) list \<Rightarrow> unit provider_action" where
  "emit h c type data =
     abind (amodify (\<lambda>st. st\<lparr>ps_eventSequence := ps_eventSequence st + 1\<rparr>)) (\<lambda>_.
     abind (aget ps_eventSequence) (\<lambda>n.
     abind (timestamp h) (\<lambda>at.
     let eventId = ''evt_'' @ take 32 (sha256 h
           (pc_accountId c @ [CHR 0x0A] @ pc_eventNonce c @ [CHR 0x0A] @ show_int n));
         event = \<lparr>ev_eventId = eventId, ev_type = type,
           ev_rawBody = render (event_body eventId type (pc_accountId c) (iso_text h at) data)\<rparr> in
     amodify (\<lambda>st. st\<lparr>ps_events := ps_events st @ [event], ps_undelivered := ps_undelivered st @ [event]\<rparr>))))"

definition optional_amount :: "int option \<Rightarrow> jsval" where
  "optional_amount v = (case v of None \<Rightarrow> JNull | Some n \<Rightarrow> JString (show_int n))"

definition emitFundingEvent :: "host \<Rightarrow> provider_config \<Rightarrow> string \<Rightarrow> funding_record \<Rightarrow> unit provider_action" where
  "emitFundingEvent h c type f = emit h c type
     [(''objectType'', JString ''funding''), (''reference'', JString (fd_reference f)),
      (''fundingReference'', JString (fd_reference f)), (''operationId'', JString (fd_operationId f)),
      (''orderId'', JString (fd_orderId f)), (''status'', JString (funding_status_text (fd_status f))),
      (''amount'', JString (show_int (fd_amount f))), (''currency'', JString (fd_currency f)),
      (''providerFee'', optional_amount (fd_providerFee f))]"

fun transfer_kind_text :: "transfer_kind \<Rightarrow> string" where
  "transfer_kind_text Release = ''release''"
| "transfer_kind_text Refund = ''refund''"
| "transfer_kind_text Reversal = ''reversal''"

definition status_suffix :: "transfer_status_code \<Rightarrow> string" where
  "status_suffix s = (if s = T_PENDING then ''pending'' else if s = T_SUCCEEDED then ''succeeded'' else ''failed'')"

definition emitTransferEvent :: "host \<Rightarrow> provider_config \<Rightarrow> transfer_record \<Rightarrow> unit provider_action" where
  "emitTransferEvent h c t = emit h c (transfer_kind_text (tr_kind t) @ ''.'' @ status_suffix (tr_status t))
     [(''objectType'', JString (transfer_kind_text (tr_kind t))), (''reference'', JString (tr_reference t)),
      (''fundingReference'', JString (tr_fundingReference t)), (''operationId'', JString (tr_operationId t)),
      (''orderId'', JString (tr_orderId t)), (''status'', JString (transfer_status_text (tr_status t))),
      (''amount'', JString (show_int (tr_amount t))), (''currency'', JString (tr_currency t)),
      (''providerFee'', JNull)]"

definition emitDisputeEvent :: "host \<Rightarrow> provider_config \<Rightarrow> string \<Rightarrow> dispute_record \<Rightarrow> unit provider_action" where
  "emitDisputeEvent h c type d = emit h c type
     [(''objectType'', JString ''dispute''), (''reference'', JString (di_reference d)),
      (''fundingReference'', JString (di_fundingReference d)),
      (''operationId'', JString (''dispute:'' @ di_reference d)),
      (''orderId'', JString (di_orderId d)), (''status'', JString (dispute_status_text (di_status d))),
      (''amount'', JString (show_int (di_amount d))), (''currency'', JString (di_currency d)),
      (''providerFee'', JNull)]"

definition requireFunding :: "string \<Rightarrow> funding_record provider_action" where
  "requireFunding reference = abind (alift (assertId (JString reference))) (\<lambda>_.
     abind (aget (\<lambda>st. mget (ps_fundings st) reference)) (\<lambda>f.
     case f of None \<Rightarrow> afail (perr NOT_FOUND) | Some r \<Rightarrow> areturn r))"

definition requireTransfer :: "string \<Rightarrow> transfer_kind \<Rightarrow> transfer_record provider_action" where
  "requireTransfer reference kind = abind (alift (assertId (JString reference))) (\<lambda>_.
     abind (aget (\<lambda>st. mget (ps_transfers st) reference)) (\<lambda>t.
     case t of None \<Rightarrow> afail (perr NOT_FOUND)
     | Some r \<Rightarrow> if tr_kind r \<noteq> kind then afail (perr NOT_FOUND) else areturn r))"

definition save_funding :: "funding_record \<Rightarrow> unit provider_action" where
  "save_funding f = amodify (\<lambda>st. st\<lparr>ps_fundings := mput (fd_reference f) f (ps_fundings st)\<rparr>)"

definition save_transfer :: "transfer_record \<Rightarrow> unit provider_action" where
  "save_transfer t = amodify (\<lambda>st. st\<lparr>ps_transfers := mput (tr_reference t) t (ps_transfers st)\<rparr>)"

definition assertSupportedCurrency :: "provider_config \<Rightarrow> string \<Rightarrow> provider_error + unit" where
  "assertSupportedCurrency c currency = ebind (assertCurrencyCode (JString currency)) (\<lambda>_.
     echeck (currency \<in> set (pc_currencies c)) (perr UNSUPPORTED_CAPABILITY))"

definition assertTransferAgainst :: "funding_record \<Rightarrow> string \<Rightarrow> string \<Rightarrow> string \<Rightarrow> provider_error + unit" where
  "assertTransferAgainst f orderId currency operationId =
     (if fd_status f \<noteq> F_SUCCEEDED then Inl (perr_op INVALID_STATE operationId)
      else if fd_orderId f \<noteq> orderId then Inl (perr_op INVALID_INPUT operationId)
      else if fd_currency f \<noteq> currency then Inl (perr_op CURRENCY_MISMATCH operationId)
      else Inr ())"

text \<open>The sums over the transfers of a funding: what a transfer commits of the principal, and what is
  refunded.\<close>

definition commits :: "string \<Rightarrow> transfer_record \<Rightarrow> int" where
  "commits ref t = (if tr_fundingReference t \<noteq> ref \<or> tr_status t = T_FAILED then 0
     else if tr_kind t = Reversal then - tr_amount t
     else if tr_source t = Principal then tr_amount t else 0)"

definition availablePrincipal :: "funding_record \<Rightarrow> (string \<times> transfer_record) list \<Rightarrow> int" where
  "availablePrincipal f ts = (if fd_status f \<noteq> F_SUCCEEDED then 0
     else fd_amount f - mtotal (commits (fd_reference f)) ts)"

definition amount_where :: "(transfer_record \<Rightarrow> bool) \<Rightarrow> transfer_record \<Rightarrow> int" where
  "amount_where P t = (if P t then tr_amount t else 0)"

definition is_refund_of :: "string \<Rightarrow> transfer_record \<Rightarrow> bool" where
  "is_refund_of ref t \<longleftrightarrow> tr_kind t = Refund \<and> tr_fundingReference t = ref \<and> tr_status t \<noteq> T_FAILED"

definition refundedTotal :: "funding_record \<Rightarrow> (string \<times> transfer_record) list \<Rightarrow> int" where
  "refundedTotal f ts = mtotal (amount_where (is_refund_of (fd_reference f))) ts"

definition has_status :: "string \<Rightarrow> transfer_kind \<Rightarrow> transfer_status_code \<Rightarrow> transfer_record \<Rightarrow> bool" where
  "has_status ref kind status t \<longleftrightarrow> tr_fundingReference t = ref \<and> tr_kind t = kind \<and> tr_status t = status"

definition fundingSnapshot :: "funding_record \<Rightarrow> (string \<times> transfer_record) list \<Rightarrow> funding_status" where
  "fundingSnapshot f ts =
     (let total = (\<lambda>kind status. mtotal (amount_where (has_status (fd_reference f) kind status)) ts) in
      \<lparr>fs_reference = fd_reference f, fs_orderId = fd_orderId f, fs_payeeAccountId = fd_payeeAccountId f,
       fs_status = fd_status f, fs_amount = fd_amount f, fs_currency = fd_currency f,
       fs_platformFee = PLATFORM_FEE_ATOMIC, fs_providerFee = fd_providerFee f,
       fs_releasedSucceeded = total Release T_SUCCEEDED, fs_releasePending = total Release T_PENDING,
       fs_refundedSucceeded = total Refund T_SUCCEEDED, fs_refundPending = total Refund T_PENDING,
       fs_availablePrincipal = availablePrincipal f ts,
       fs_fullyRefunded = (fd_status f = F_SUCCEEDED \<and> total Refund T_SUCCEEDED = fd_amount f),
       fs_createdAt = fd_createdAt f, fs_updatedAt = fd_updatedAt f\<rparr>)"

definition transfer_prefix :: "transfer_kind \<Rightarrow> string" where
  "transfer_prefix kind = (if kind = Release then ''tr'' else if kind = Refund then ''re'' else ''trr'')"

definition createTransfer ::
    "host \<Rightarrow> provider_config \<Rightarrow> transfer_kind \<Rightarrow> string \<Rightarrow> funding_record \<Rightarrow> int \<Rightarrow> string option \<Rightarrow> string option
     \<Rightarrow> refund_source \<Rightarrow> transfer_record provider_action" where
  "createTransfer h c kind operationId f amount payee reason source =
     abind (timestamp h) (\<lambda>at.
     let settlement = (if kind = Reversal then Immediate else if kind = Release then pc_releaseSettlement c
           else pc_refundSettlement c);
         t = \<lparr>tr_kind = kind, tr_source = source, tr_reference = referenceFor h c (transfer_prefix kind) operationId,
           tr_operationId = operationId, tr_fundingReference = fd_reference f, tr_orderId = fd_orderId f,
           tr_payeeAccountId = payee, tr_reason = reason, tr_amount = amount, tr_currency = fd_currency f,
           tr_status = (if settlement = Immediate then T_SUCCEEDED else T_PENDING), tr_failureCode = None,
           tr_createdAt = at, tr_updatedAt = at\<rparr> in
     abind (save_transfer t) (\<lambda>_.
     abind (emitTransferEvent h c t) (\<lambda>_. areturn t)))"

definition settleTransfer :: "host \<Rightarrow> provider_config \<Rightarrow> transfer_record \<Rightarrow> bool \<Rightarrow> transfer_record provider_action" where
  "settleTransfer h c t succeeded =
     abind (acheck (tr_status t = T_PENDING) (perr INVALID_STATE)) (\<lambda>_.
     abind (timestamp h) (\<lambda>at.
     let t' = t\<lparr>tr_status := (if succeeded then T_SUCCEEDED else T_FAILED),
                tr_failureCode := (if succeeded then None else Some ''simulated_failure''), tr_updatedAt := at\<rparr> in
     abind (save_transfer t') (\<lambda>_.
     abind (emitTransferEvent h c t') (\<lambda>_. areturn t'))))"

section \<open>Idempotent execution\<close>

fun consume_slots :: "operation_kind \<Rightarrow> string \<Rightarrow> (failure_rule \<times> int) list
    \<Rightarrow> failure_effect option \<times> (failure_rule \<times> int) list" where
  "consume_slots kind op [] = (None, [])"
| "consume_slots kind op ((r, n) # slots) =
     (if n \<le> 0 \<or> fl_kind r \<noteq> kind \<or> (fl_operationId r \<noteq> None \<and> fl_operationId r \<noteq> Some op)
      then (case consume_slots kind op slots of (e, slots') \<Rightarrow> (e, (r, n) # slots'))
      else (Some (fl_effect r), (r, n - 1) # slots))"

definition consumeFailure :: "operation_kind \<Rightarrow> string \<Rightarrow> failure_effect option provider_action" where
  "consumeFailure kind op = (\<lambda>st. case consume_slots kind op (ps_failureRules st) of
     (e, slots) \<Rightarrow> (Inr e, st\<lparr>ps_failureRules := slots\<rparr>))"

definition save_entry :: "journal_entry \<Rightarrow> unit provider_action" where
  "save_entry e = amodify (\<lambda>st. st\<lparr>ps_journal := mput (je_operationId e) e (ps_journal st)\<rparr>)"

definition new_entry :: "string \<Rightarrow> operation_kind \<Rightarrow> string \<Rightarrow> journal_entry" where
  "new_entry op kind hash = \<lparr>je_operationId = op, je_kind = kind, je_requestHash = hash, je_applied = None,
     je_attemptCount = 0, je_lastErrorCode = None\<rparr>"

text \<open>The part after the replay check: the failure slot, the effect, and what the journal records of them.\<close>

definition attempt ::
    "operation_kind \<Rightarrow> string \<Rightarrow> journal_entry \<Rightarrow> (string \<times> op_result) provider_action \<Rightarrow> op_result provider_action" where
  "attempt kind op e effect =
     abind (consumeFailure kind op) (\<lambda>failure.
     if failure = Some TIMEOUT_BEFORE_ACCEPT \<or> failure = Some UNAVAILABLE then
       (let code = (if failure = Some UNAVAILABLE then PROVIDER_UNAVAILABLE else PROVIDER_TIMEOUT) in
        abind (save_entry (e\<lparr>je_lastErrorCode := Some code\<rparr>)) (\<lambda>_. afail (perr_op code op)))
     else acatch effect
       (\<lambda>err. abind (save_entry (e\<lparr>je_lastErrorCode := Some (error_code err)\<rparr>)) (\<lambda>_. afail err))
       (\<lambda>applied.
         if failure = Some ACCEPT_THEN_TIMEOUT then
           abind (save_entry (e\<lparr>je_applied := Some applied, je_lastErrorCode := Some PROVIDER_TIMEOUT\<rparr>)) (\<lambda>_.
           afail (provider_error PROVIDER_TIMEOUT (Some UNKNOWN) (Some op)))
         else
           abind (save_entry (e\<lparr>je_applied := Some applied, je_lastErrorCode := None\<rparr>)) (\<lambda>_.
           areturn (snd applied))))"

definition runIdempotent ::
    "host \<Rightarrow> operation_kind \<Rightarrow> string \<Rightarrow> jsval \<Rightarrow> (string \<times> op_result) provider_action \<Rightarrow> op_result provider_action" where
  "runIdempotent h kind op payload effect =
     abind (alift (computeRequestHash (sha256 h) kind payload)) (\<lambda>requestHash.
     abind (aget (\<lambda>st. mget (ps_journal st) op)) (\<lambda>found.
     if (case found of Some e \<Rightarrow> je_requestHash e \<noteq> requestHash | None \<Rightarrow> False)
     then afail (perr_op IDEMPOTENCY_CONFLICT op)
     else
       let e0 = (case found of Some e \<Rightarrow> e | None \<Rightarrow> new_entry op kind requestHash);
           e = e0\<lparr>je_attemptCount := je_attemptCount e0 + 1\<rparr> in
       abind (save_entry e) (\<lambda>_.
       case je_applied e of
         Some (_, result) \<Rightarrow> areturn result
       | None \<Rightarrow> attempt kind op e effect)))"

end
