(* ===== verification/Provider_Ops.thy ===== *)
theory Provider_Ops
  imports Provider
begin

text \<open>
  The methods of \<open>MockPaymentProvider\<close>: the provider contract (funding, release, refund, reversal,
  lookups, webhook verification) and the test harness that simulates provider-side facts.
\<close>

section \<open>The provider contract\<close>

definition capabilities :: "provider_config \<Rightarrow> merchant_context \<Rightarrow> provider_error + capabilities_result" where
  "capabilities c ctx =
     ebind (assertId (JString (mc_merchantAccountId ctx))) (\<lambda>_.
     ebind (echeck (mc_merchantAccountId ctx = pc_accountId c) (perr INVALID_INPUT)) (\<lambda>_.
     ebind (case mc_payeeAccountId ctx of None \<Rightarrow> Inr () | Some p \<Rightarrow> ebind (assertId (JString p)) (\<lambda>_. Inr ())) (\<lambda>_.
     ebind (case mc_currency ctx of None \<Rightarrow> Inr () | Some cur \<Rightarrow> ebind (assertCurrencyCode (JString cur)) (\<lambda>_. Inr ())) (\<lambda>_.
     Inr \<lparr>cap_provider = ''mock'', cap_mode = ''test'', cap_platformFeeBps = PLATFORM_FEE_BPS,
          cap_delayedSettlement = True, cap_partialRefund = pc_partialRefund c, cap_conditionalEscrow = False,
          cap_bankPayout = True, cap_walletPayout = False, cap_multiassetRewardPool = False,
          cap_supportedCurrencies = pc_currencies c, cap_supportedCountries = [''ZZ''], cap_maxHoldDays = Some 90,
          cap_payeePayoutsEnabled = map_option (\<lambda>p. p \<notin> set (pc_payeesWithoutPayouts c)) (mc_payeeAccountId ctx),
          cap_currencySupported = map_option (\<lambda>cur. cur \<in> set (pc_currencies c)) (mc_currency ctx)\<rparr>))))"

definition optional_string :: "string option \<Rightarrow> jsval" where
  "optional_string v = (case v of None \<Rightarrow> JUndefined | Some s \<Rightarrow> JString s)"

definition amount_rules :: "provider_config \<Rightarrow> atomic_rules" where
  "amount_rules c = \<lparr>allowZero = False, max_rule = Max_Amount (pc_maxAmount c)\<rparr>"

definition funding_payload :: "funding_input \<Rightarrow> jsval" where
  "funding_payload i = JObject [(''orderId'', JString (fi_orderId i)), (''buyerId'', JString (fi_buyerId i)),
     (''payeeAccountId'', JString (fi_payeeAccountId i)), (''amount'', JBigint (fi_amount i)),
     (''currency'', JString (fi_currency i)), (''platformFee'', JBigint (fi_platformFee i)),
     (''description'', optional_string (fi_description i)), (''method'', optional_string (fi_method i))]"

definition funding_effect ::
    "host \<Rightarrow> provider_config \<Rightarrow> funding_input \<Rightarrow> string \<Rightarrow> (string \<times> op_result) provider_action" where
  "funding_effect h c i op =
     abind (timestamp h) (\<lambda>at.
     let method = (if fi_method i = None then CARD else BANK_TRANSFER);
         f = \<lparr>fd_reference = referenceFor h c ''fund'' op, fd_operationId = op, fd_method = method,
              fd_orderId = fi_orderId i, fd_buyerId = fi_buyerId i, fd_payeeAccountId = fi_payeeAccountId i,
              fd_amount = fi_amount i, fd_currency = fi_currency i, fd_status = REQUIRES_ACTION,
              fd_providerFee = None, fd_createdAt = at, fd_updatedAt = at\<rparr> in
     abind (save_funding f) (\<lambda>_.
     areturn (fd_reference f, Funding_Result
       \<lparr>it_reference = fd_reference f, it_operationId = op, it_orderId = fd_orderId f,
        it_payeeAccountId = fd_payeeAccountId f, it_status = fd_status f, it_amount = fd_amount f,
        it_currency = fd_currency f, it_platformFee = PLATFORM_FEE_ATOMIC,
        it_nextAction = (if fd_method f = BANK_TRANSFER then ''BUYER_SENDS_BANK_TRANSFER''
                         else ''BUYER_CONFIRMS_WITH_PROVIDER''),
        it_method = fd_method f, it_createdAt = at\<rparr>)))"

definition check_funding :: "provider_config \<Rightarrow> funding_input \<Rightarrow> string \<Rightarrow> provider_error + unit" where
  "check_funding c i op =
     ebind (assertOperationId (JString op)) (\<lambda>_.
     ebind (assertId (JString (fi_orderId i))) (\<lambda>_.
     ebind (assertId (JString (fi_buyerId i))) (\<lambda>_.
     ebind (assertId (JString (fi_payeeAccountId i))) (\<lambda>_.
     ebind (assertAtomicAmount (JBigint (fi_amount i)) (amount_rules c)) (\<lambda>_.
     ebind (assertSupportedCurrency c (fi_currency i)) (\<lambda>_.
     ebind (assertZeroPlatformFee (JBigint (fi_platformFee i))) (\<lambda>_.
     ebind (echeck (case fi_description i of None \<Rightarrow> True | Some d \<Rightarrow> length d \<le> 500) (perr INVALID_INPUT)) (\<lambda>_.
     ebind (echeck (fi_method i = None \<or> fi_method i = Some ''BANK_TRANSFER'') (perr INVALID_INPUT)) (\<lambda>_.
     echeck (fi_method i = None \<or> pc_bankTransferFunding c) (perr UNSUPPORTED_CAPABILITY))))))))))"

definition createFundingIntent :: "host \<Rightarrow> provider_config \<Rightarrow> funding_input \<Rightarrow> string \<Rightarrow> op_result provider_action" where
  "createFundingIntent h c i op =
     abind (alift (check_funding c i op)) (\<lambda>_.
     runIdempotent h Funding_Create op (funding_payload i) (funding_effect h c i op))"

definition getFundingStatus :: "string \<Rightarrow> funding_status provider_action" where
  "getFundingStatus reference = abind (requireFunding reference) (\<lambda>f. aget (\<lambda>st. fundingSnapshot f (ps_transfers st)))"

definition cancel_effect :: "host \<Rightarrow> provider_config \<Rightarrow> string \<Rightarrow> string \<Rightarrow> (string \<times> op_result) provider_action" where
  "cancel_effect h c reference op =
     abind (requireFunding reference) (\<lambda>f.
     abind (timestamp h) (\<lambda>at.
     if fd_status f = CANCELED then
       areturn (reference, Cancel_Result \<lparr>cr_reference = reference, cr_operationId = op, cr_status = ''CANCELED'',
         cr_alreadyCanceled = True, cr_canceledAt = fd_updatedAt f\<rparr>)
     else if fd_status f \<noteq> REQUIRES_ACTION \<and> \<not> (fd_status f = PROCESSING \<and> fd_method f = CARD) then
       afail (perr_op INVALID_STATE op)
     else
       (let f' = f\<lparr>fd_status := CANCELED, fd_updatedAt := at\<rparr> in
        abind (save_funding f') (\<lambda>_.
        abind (emitFundingEvent h c ''funding.canceled'' f') (\<lambda>_.
        areturn (reference, Cancel_Result \<lparr>cr_reference = reference, cr_operationId = op, cr_status = ''CANCELED'',
          cr_alreadyCanceled = False, cr_canceledAt = at\<rparr>))))))"

definition cancelFunding :: "host \<Rightarrow> provider_config \<Rightarrow> string \<Rightarrow> string \<Rightarrow> op_result provider_action" where
  "cancelFunding h c reference op =
     abind (alift (ebind (assertOperationId (JString op)) (\<lambda>_. assertId (JString reference)))) (\<lambda>_.
     runIdempotent h Funding_Cancel op (JObject [(''reference'', JString reference)]) (cancel_effect h c reference op))"

definition release_payload :: "release_input \<Rightarrow> jsval" where
  "release_payload i = JObject [(''fundingReference'', JString (ri_fundingReference i)),
     (''orderId'', JString (ri_orderId i)), (''payeeAccountId'', JString (ri_payeeAccountId i)),
     (''amount'', JBigint (ri_amount i)), (''currency'', JString (ri_currency i)),
     (''platformFee'', JBigint (ri_platformFee i))]"

definition check_release :: "provider_config \<Rightarrow> release_input \<Rightarrow> string \<Rightarrow> provider_error + unit" where
  "check_release c i op =
     ebind (assertOperationId (JString op)) (\<lambda>_.
     ebind (assertId (JString (ri_fundingReference i))) (\<lambda>_.
     ebind (assertId (JString (ri_orderId i))) (\<lambda>_.
     ebind (assertId (JString (ri_payeeAccountId i))) (\<lambda>_.
     ebind (assertAtomicAmount (JBigint (ri_amount i)) (amount_rules c)) (\<lambda>_.
     ebind (assertCurrencyCode (JString (ri_currency i))) (\<lambda>_.
     assertZeroPlatformFee (JBigint (ri_platformFee i))))))))"

definition release_effect ::
    "host \<Rightarrow> provider_config \<Rightarrow> release_input \<Rightarrow> string \<Rightarrow> (string \<times> op_result) provider_action" where
  "release_effect h c i op =
     abind (requireFunding (ri_fundingReference i)) (\<lambda>f.
     abind (alift (assertTransferAgainst f (ri_orderId i) (ri_currency i) op)) (\<lambda>_.
     abind (acheck (fd_payeeAccountId f = ri_payeeAccountId i) (perr_op PAYEE_MISMATCH op)) (\<lambda>_.
     abind (acheck (ri_payeeAccountId i \<notin> set (pc_payeesWithoutPayouts c)) (perr_op PAYEE_NOT_CAPABLE op)) (\<lambda>_.
     abind (aget (\<lambda>st. availablePrincipal f (ps_transfers st))) (\<lambda>available.
     abind (acheck (ri_amount i \<le> available) (perr_op RELEASE_EXCEEDS_AVAILABLE op)) (\<lambda>_.
     abind (createTransfer h c Release op f (ri_amount i) (Some (ri_payeeAccountId i)) None Principal) (\<lambda>t.
     areturn (tr_reference t, Release_Result
       \<lparr>rr_reference = tr_reference t, rr_operationId = op, rr_fundingReference = fd_reference f,
        rr_orderId = fd_orderId f, rr_payeeAccountId = ri_payeeAccountId i, rr_amount = tr_amount t,
        rr_currency = tr_currency t, rr_platformFee = PLATFORM_FEE_ATOMIC, rr_status = tr_status t,
        rr_createdAt = tr_createdAt t\<rparr>))))))))"

definition releaseToCreator :: "host \<Rightarrow> provider_config \<Rightarrow> release_input \<Rightarrow> string \<Rightarrow> op_result provider_action" where
  "releaseToCreator h c i op =
     abind (alift (check_release c i op)) (\<lambda>_.
     runIdempotent h Release_Create op (release_payload i) (release_effect h c i op))"

definition getReleaseStatus :: "string \<Rightarrow> release_status provider_action" where
  "getReleaseStatus reference = abind (requireTransfer reference Release) (\<lambda>t.
     areturn \<lparr>rr_reference = tr_reference t, rr_operationId = tr_operationId t,
       rr_fundingReference = tr_fundingReference t, rr_orderId = tr_orderId t,
       rr_payeeAccountId = (case tr_payeeAccountId t of None \<Rightarrow> [] | Some p \<Rightarrow> p), rr_amount = tr_amount t,
       rr_currency = tr_currency t, rr_platformFee = PLATFORM_FEE_ATOMIC, rr_status = tr_status t,
       rr_createdAt = tr_createdAt t, rs_updatedAt = tr_updatedAt t, rs_failureCode = tr_failureCode t\<rparr>)"

definition refund_payload :: "refund_input \<Rightarrow> jsval" where
  "refund_payload i = JObject [(''fundingReference'', JString (fr_fundingReference i)),
     (''orderId'', JString (fr_orderId i)), (''amount'', JBigint (fr_amount i)),
     (''currency'', JString (fr_currency i)), (''reason'', JString (fr_reason i)),
     (''source'', optional_string (fr_source i))]"

definition check_refund :: "provider_config \<Rightarrow> refund_input \<Rightarrow> string \<Rightarrow> provider_error + unit" where
  "check_refund c i op =
     ebind (assertOperationId (JString op)) (\<lambda>_.
     ebind (assertId (JString (fr_fundingReference i))) (\<lambda>_.
     ebind (assertId (JString (fr_orderId i))) (\<lambda>_.
     ebind (assertAtomicAmount (JBigint (fr_amount i)) (amount_rules c)) (\<lambda>_.
     ebind (assertCurrencyCode (JString (fr_currency i))) (\<lambda>_.
     ebind (echeck (fr_reason i \<in> set REFUND_REASONS) (perr INVALID_INPUT)) (\<lambda>_.
     echeck (fr_source i = None \<or> fr_source i = Some ''PLATFORM_BALANCE'') (perr INVALID_INPUT)))))))"

definition refund_effect ::
    "host \<Rightarrow> provider_config \<Rightarrow> refund_input \<Rightarrow> string \<Rightarrow> (string \<times> op_result) provider_action" where
  "refund_effect h c i op =
     abind (requireFunding (fr_fundingReference i)) (\<lambda>f.
     abind (alift (assertTransferAgainst f (fr_orderId i) (fr_currency i) op)) (\<lambda>_.
     abind (acheck (pc_partialRefund c \<or> fr_amount i = fd_amount f \<or> fr_source i \<noteq> None)
             (perr_op UNSUPPORTED_CAPABILITY op)) (\<lambda>_.
     abind (aget (\<lambda>st. if fr_source i = Some ''PLATFORM_BALANCE'' then fd_amount f - refundedTotal f (ps_transfers st)
                        else availablePrincipal f (ps_transfers st))) (\<lambda>refundable.
     abind (acheck (fr_amount i \<le> refundable) (perr_op REFUND_EXCEEDS_REFUNDABLE op)) (\<lambda>_.
     abind (createTransfer h c Refund op f (fr_amount i) None (Some (fr_reason i))
             (if fr_source i = None then Principal else Platform_Balance)) (\<lambda>t.
     areturn (tr_reference t, Refund_Result
       \<lparr>ro_reference = tr_reference t, ro_operationId = op, ro_fundingReference = fd_reference f,
        ro_orderId = fd_orderId f, ro_amount = tr_amount t, ro_currency = tr_currency t,
        ro_reason = fr_reason i, ro_status = tr_status t, ro_createdAt = tr_createdAt t\<rparr>)))))))"

definition refund :: "host \<Rightarrow> provider_config \<Rightarrow> refund_input \<Rightarrow> string \<Rightarrow> op_result provider_action" where
  "refund h c i op =
     abind (alift (check_refund c i op)) (\<lambda>_.
     runIdempotent h Refund_Create op (refund_payload i) (refund_effect h c i op))"

definition reversal_payload :: "reversal_input \<Rightarrow> jsval" where
  "reversal_payload i = JObject [(''releaseReference'', JString (rv_releaseReference i)),
     (''orderId'', JString (rv_orderId i)), (''amount'', JBigint (rv_amount i)),
     (''currency'', JString (rv_currency i))]"

definition check_reversal :: "provider_config \<Rightarrow> reversal_input \<Rightarrow> string \<Rightarrow> provider_error + unit" where
  "check_reversal c i op =
     ebind (assertOperationId (JString op)) (\<lambda>_.
     ebind (assertId (JString (rv_releaseReference i))) (\<lambda>_.
     ebind (assertId (JString (rv_orderId i))) (\<lambda>_.
     ebind (assertAtomicAmount (JBigint (rv_amount i)) (amount_rules c)) (\<lambda>_.
     ebind (assertCurrencyCode (JString (rv_currency i))) (\<lambda>_. Inr ())))))"

text \<open>The reversals that settled against the funding of a release, other than this operation's own.\<close>

definition reversed_before :: "string \<Rightarrow> string \<Rightarrow> transfer_record \<Rightarrow> bool" where
  "reversed_before op ref t \<longleftrightarrow> tr_kind t = Reversal \<and> tr_operationId t \<noteq> op \<and> tr_fundingReference t = ref
     \<and> tr_status t = T_SUCCEEDED"

definition set_balance :: "string \<Rightarrow> int \<Rightarrow> unit provider_action" where
  "set_balance payee amount = amodify (\<lambda>st. st\<lparr>ps_payeeBalances := mput payee amount (ps_payeeBalances st)\<rparr>)"

text \<open>\<open>release.payeeAccountId as string\<close>: every release carries its payee.\<close>

definition the_payee :: "transfer_record \<Rightarrow> string" where
  "the_payee t = (case tr_payeeAccountId t of None \<Rightarrow> [] | Some p \<Rightarrow> p)"

definition reversal_effect ::
    "host \<Rightarrow> provider_config \<Rightarrow> reversal_input \<Rightarrow> string \<Rightarrow> (string \<times> op_result) provider_action" where
  "reversal_effect h c i op =
     abind (requireTransfer (rv_releaseReference i) Release) (\<lambda>r.
     abind (acheck (tr_status r = T_SUCCEEDED) (perr_op INVALID_STATE op)) (\<lambda>_.
     abind (acheck (tr_orderId r = rv_orderId i) (perr_op INVALID_INPUT op)) (\<lambda>_.
     abind (acheck (tr_currency r = rv_currency i) (perr_op CURRENCY_MISMATCH op)) (\<lambda>_.
     abind (aget (\<lambda>st. mtotal (amount_where (reversed_before op (tr_fundingReference r))) (ps_transfers st))) (\<lambda>reversed.
     abind (acheck (rv_amount i \<le> tr_amount r - reversed) (perr_op INVALID_AMOUNT op)) (\<lambda>_.
     abind (aget (\<lambda>st. mget (ps_payeeBalances st) (the_payee r))) (\<lambda>balance.
     abind (acheck (case balance of None \<Rightarrow> True | Some b \<Rightarrow> rv_amount i \<le> b) (perr_op INSUFFICIENT_BALANCE op)) (\<lambda>_.
     abind (case balance of None \<Rightarrow> areturn () | Some b \<Rightarrow> set_balance (the_payee r) (b - rv_amount i)) (\<lambda>_.
     abind (requireFunding (tr_fundingReference r)) (\<lambda>f.
     abind (createTransfer h c Reversal op f (rv_amount i) (Some (the_payee r)) None Principal) (\<lambda>t.
     areturn (tr_reference t, Reversal_Result
       \<lparr>vr_reference = tr_reference t, vr_operationId = op, vr_releaseReference = tr_reference r,
        vr_fundingReference = fd_reference f, vr_orderId = fd_orderId f, vr_amount = tr_amount t,
        vr_currency = tr_currency t, vr_status = tr_status t, vr_createdAt = tr_createdAt t\<rparr>))))))))))))"

definition reverseTransfer :: "host \<Rightarrow> provider_config \<Rightarrow> reversal_input \<Rightarrow> string \<Rightarrow> op_result provider_action" where
  "reverseTransfer h c i op =
     abind (alift (check_reversal c i op)) (\<lambda>_.
     runIdempotent h Reversal_Create op (reversal_payload i) (reversal_effect h c i op))"

definition setPayeeBalance :: "string \<Rightarrow> int \<Rightarrow> unit provider_action" where
  "setPayeeBalance payee amount =
     abind (alift (assertId (JString payee))) (\<lambda>_.
     abind (alift (assertAtomicAmount (JBigint amount) \<lparr>allowZero = True, max_rule = No_Max\<rparr>)) (\<lambda>_.
     set_balance payee amount))"

definition getRefundStatus :: "string \<Rightarrow> refund_status provider_action" where
  "getRefundStatus reference = abind (requireTransfer reference Refund) (\<lambda>t.
     areturn \<lparr>ro_reference = tr_reference t, ro_operationId = tr_operationId t,
       ro_fundingReference = tr_fundingReference t, ro_orderId = tr_orderId t, ro_amount = tr_amount t,
       ro_currency = tr_currency t, ro_reason = (case tr_reason t of None \<Rightarrow> ''OTHER'' | Some r \<Rightarrow> r),
       ro_status = tr_status t, ro_createdAt = tr_createdAt t, rf_updatedAt = tr_updatedAt t,
       rf_failureCode = tr_failureCode t\<rparr>)"

definition lookupOperation :: "string \<Rightarrow> operation_lookup option provider_action" where
  "lookupOperation op =
     abind (alift (assertOperationId (JString op))) (\<lambda>_.
     abind (aget (\<lambda>st. mget (ps_journal st) op)) (\<lambda>found.
     areturn (map_option (\<lambda>e. \<lparr>lk_operationId = je_operationId e, lk_kind = je_kind e,
       lk_requestHash = je_requestHash e, lk_applied = (je_applied e \<noteq> None),
       lk_reference = map_option fst (je_applied e), lk_attemptCount = je_attemptCount e,
       lk_lastErrorCode = je_lastErrorCode e\<rparr>) found)))"

text \<open>\<open>Math.floor(ms / 1000)\<close>\<close>

definition now_seconds :: "host \<Rightarrow> int provider_action" where
  "now_seconds h = abind (timestamp h) (\<lambda>ms. areturn (ms div 1000))"

definition verifyWebhook :: "host \<Rightarrow> provider_config \<Rightarrow> string \<Rightarrow> (string \<times> string) list \<Rightarrow> verified_event provider_action" where
  "verifyWebhook h c rawBody headers =
     abind (now_seconds h) (\<lambda>nowSeconds.
     abind (alift (verifyMockWebhookSignature h rawBody (mget headers MOCK_SIGNATURE_HEADER) (pc_secrets c)
       nowSeconds (Some (pc_toleranceSeconds c)))) (\<lambda>_.
     abind (alift (parseMockEventBody h rawBody)) (\<lambda>event.
     abind (acheck (ve_mode event = ''test'' \<and> ve_accountId event = pc_accountId c) (perr WEBHOOK_CONTEXT_MISMATCH)) (\<lambda>_.
     areturn event))))"

section \<open>The test harness\<close>

fun allowed_outcomes :: "funding_status_code \<Rightarrow> funding_status_code list" where
  "allowed_outcomes REQUIRES_ACTION = [PROCESSING, F_SUCCEEDED, F_FAILED]"
| "allowed_outcomes PROCESSING = [F_SUCCEEDED, F_FAILED]"
| "allowed_outcomes F_SUCCEEDED = []"
| "allowed_outcomes F_FAILED = []"
| "allowed_outcomes CANCELED = []"
| "allowed_outcomes RETURNED = []"

text \<open>Save a funding that changed, announce it, and report its snapshot.\<close>

definition publish_funding :: "host \<Rightarrow> provider_config \<Rightarrow> string \<Rightarrow> funding_record \<Rightarrow> funding_status provider_action" where
  "publish_funding h c type f =
     abind (save_funding f) (\<lambda>_.
     abind (emitFundingEvent h c type f) (\<lambda>_.
     aget (\<lambda>st. fundingSnapshot f (ps_transfers st))))"

definition fee_rules :: "funding_record \<Rightarrow> atomic_rules" where
  "fee_rules f = \<lparr>allowZero = True, max_rule = Max_Amount (fd_amount f)\<rparr>"

definition simulateFundingOutcome ::
    "host \<Rightarrow> provider_config \<Rightarrow> string \<Rightarrow> funding_status_code \<Rightarrow> int option \<Rightarrow> funding_status provider_action" where
  "simulateFundingOutcome h c reference status providerFee =
     abind (requireFunding reference) (\<lambda>f.
     abind (acheck (status \<in> set (allowed_outcomes (fd_status f))) (perr INVALID_STATE)) (\<lambda>_.
     abind (case providerFee of None \<Rightarrow> areturn ()
       | Some fee \<Rightarrow> abind (acheck (status = F_SUCCEEDED) (perr INVALID_INPUT)) (\<lambda>_.
           abind (alift (assertAtomicAmount (JBigint fee) (fee_rules f))) (\<lambda>_. areturn ()))) (\<lambda>_.
     abind (timestamp h) (\<lambda>at.
     publish_funding h c
       (if status = F_SUCCEEDED then ''funding.succeeded'' else if status = F_FAILED then ''funding.failed''
        else ''funding.processing'')
       (f\<lparr>fd_status := status,
          fd_providerFee := (if status = F_SUCCEEDED
            then Some (case providerFee of None \<Rightarrow> 0 | Some fee \<Rightarrow> fee) else fd_providerFee f),
          fd_updatedAt := at\<rparr>)))))"

definition simulateLateCapture :: "host \<Rightarrow> provider_config \<Rightarrow> string \<Rightarrow> funding_status provider_action" where
  "simulateLateCapture h c reference =
     abind (requireFunding reference) (\<lambda>f.
     abind (acheck (fd_status f = CANCELED) (perr INVALID_STATE)) (\<lambda>_.
     abind (timestamp h) (\<lambda>at.
     publish_funding h c ''funding.succeeded''
       (f\<lparr>fd_status := F_SUCCEEDED,
          fd_providerFee := Some (case fd_providerFee f of None \<Rightarrow> 0 | Some fee \<Rightarrow> fee), fd_updatedAt := at\<rparr>))))"

definition simulateBankReturn :: "host \<Rightarrow> provider_config \<Rightarrow> string \<Rightarrow> funding_status provider_action" where
  "simulateBankReturn h c reference =
     abind (requireFunding reference) (\<lambda>f.
     abind (acheck (fd_method f = BANK_TRANSFER \<and> fd_status f = F_SUCCEEDED) (perr INVALID_STATE)) (\<lambda>_.
     abind (timestamp h) (\<lambda>at.
     publish_funding h c ''funding.returned'' (f\<lparr>fd_status := RETURNED, fd_updatedAt := at\<rparr>))))"

definition simulateFeeAdjustment :: "host \<Rightarrow> provider_config \<Rightarrow> string \<Rightarrow> int \<Rightarrow> funding_status provider_action" where
  "simulateFeeAdjustment h c reference actualFee =
     abind (requireFunding reference) (\<lambda>f.
     abind (acheck (fd_status f = F_SUCCEEDED) (perr INVALID_STATE)) (\<lambda>_.
     abind (alift (assertAtomicAmount (JBigint actualFee) (fee_rules f))) (\<lambda>_.
     abind (timestamp h) (\<lambda>at.
     publish_funding h c ''funding.fee_updated'' (f\<lparr>fd_providerFee := Some actualFee, fd_updatedAt := at\<rparr>)))))"

definition save_dispute :: "dispute_record \<Rightarrow> unit provider_action" where
  "save_dispute d = amodify (\<lambda>st. st\<lparr>ps_disputes := mput (di_reference d) d (ps_disputes st)\<rparr>)"

definition simulateChargeback :: "host \<Rightarrow> provider_config \<Rightarrow> string \<Rightarrow> int option \<Rightarrow> string provider_action" where
  "simulateChargeback h c fundingReference amount =
     abind (requireFunding fundingReference) (\<lambda>f.
     abind (acheck (fd_status f = F_SUCCEEDED) (perr INVALID_STATE)) (\<lambda>_.
     let disputed = (case amount of None \<Rightarrow> fd_amount f | Some a \<Rightarrow> a) in
     abind (alift (assertAtomicAmount (JBigint disputed) \<lparr>allowZero = False, max_rule = Max_Amount (fd_amount f)\<rparr>)) (\<lambda>_.
     abind (aget (\<lambda>st. length (ps_disputes st))) (\<lambda>size.
     let d = \<lparr>di_reference = referenceFor h c ''dispute'' (fundingReference @ '':'' @ show_nat (size + 1)),
              di_fundingReference = fundingReference, di_orderId = fd_orderId f, di_amount = disputed,
              di_currency = fd_currency f, di_status = D_OPEN\<rparr> in
     abind (save_dispute d) (\<lambda>_.
     abind (emitDisputeEvent h c ''dispute.opened'' d) (\<lambda>_.
     areturn (di_reference d)))))))"

definition simulateChargebackOutcome :: "host \<Rightarrow> provider_config \<Rightarrow> string \<Rightarrow> bool \<Rightarrow> unit provider_action" where
  "simulateChargebackOutcome h c reference won =
     abind (alift (assertId (JString reference))) (\<lambda>_.
     abind (aget (\<lambda>st. mget (ps_disputes st) reference)) (\<lambda>found.
     case found of None \<Rightarrow> afail (perr NOT_FOUND)
     | Some d \<Rightarrow>
        abind (acheck (di_status d = D_OPEN) (perr INVALID_STATE)) (\<lambda>_.
        let d' = d\<lparr>di_status := (if won then D_WON else D_LOST)\<rparr> in
        abind (save_dispute d') (\<lambda>_.
        emitDisputeEvent h c (if won then ''dispute.won'' else ''dispute.lost'') d'))))"

definition simulateReleaseOutcome :: "host \<Rightarrow> provider_config \<Rightarrow> string \<Rightarrow> bool \<Rightarrow> release_status provider_action" where
  "simulateReleaseOutcome h c reference succeeded =
     abind (requireTransfer reference Release) (\<lambda>t.
     abind (settleTransfer h c t succeeded) (\<lambda>_. getReleaseStatus reference))"

definition simulateRefundOutcome :: "host \<Rightarrow> provider_config \<Rightarrow> string \<Rightarrow> bool \<Rightarrow> refund_status provider_action" where
  "simulateRefundOutcome h c reference succeeded =
     abind (requireTransfer reference Refund) (\<lambda>t.
     abind (settleTransfer h c t succeeded) (\<lambda>_. getRefundStatus reference))"

section \<open>Webhook deliveries\<close>

record webhook_delivery =
  wd_eventId :: string
  wd_type :: string
  wd_rawBody :: string
  wd_headers :: "(string \<times> string) list"

definition sign_event :: "host \<Rightarrow> provider_config \<Rightarrow> stored_event \<Rightarrow> webhook_delivery provider_action" where
  "sign_event h c event =
     abind (now_seconds h) (\<lambda>seconds.
     abind (alift (signMockWebhook h (ev_rawBody event) (hd (pc_secrets c)) seconds)) (\<lambda>signature.
     areturn \<lparr>wd_eventId = ev_eventId event, wd_type = ev_type event, wd_rawBody = ev_rawBody event,
       wd_headers = [(''content-type'', ''application/json''), (MOCK_SIGNATURE_HEADER, signature)]\<rparr>))"

fun sign_all :: "host \<Rightarrow> provider_config \<Rightarrow> stored_event list \<Rightarrow> webhook_delivery list provider_action" where
  "sign_all h c [] = areturn []"
| "sign_all h c (e # es) = abind (sign_event h c e) (\<lambda>d. abind (sign_all h c es) (\<lambda>ds. areturn (d # ds)))"

definition takeWebhookDeliveries :: "host \<Rightarrow> provider_config \<Rightarrow> webhook_delivery list provider_action" where
  "takeWebhookDeliveries h c =
     abind (aget ps_undelivered) (\<lambda>pending.
     abind (amodify (\<lambda>st. st\<lparr>ps_undelivered := []\<rparr>)) (\<lambda>_. sign_all h c pending))"

definition redeliverWebhook :: "host \<Rightarrow> provider_config \<Rightarrow> string \<Rightarrow> webhook_delivery provider_action" where
  "redeliverWebhook h c eventId =
     abind (aget (\<lambda>st. find (\<lambda>e. ev_eventId e = eventId) (ps_events st))) (\<lambda>found.
     case found of None \<Rightarrow> afail (perr NOT_FOUND) | Some e \<Rightarrow> sign_event h c e)"

end
