(* ===== verification/Provider_Money.thy ===== *)
theory Provider_Money
  imports Provider_Ops
begin

text \<open>
  Money safety of \<open>MockPaymentProvider\<close>: what a funding commits never exceeds what was captured, what
  is reversed never exceeds what was released, and a funding that was not captured moves nothing. The
  invariant is \<open>money_inv\<close>; \<open>reachable\<close> is every state some sequence of calls leads to.
\<close>

section \<open>What each step does to the state\<close>

text \<open>The state after \<open>emit\<close>: one more event, and nothing that moves money.\<close>

definition emitted :: "host \<Rightarrow> provider_config \<Rightarrow> string \<Rightarrow> (string \<times> jsval) list \<Rightarrow> provider_state \<Rightarrow> provider_state" where
  "emitted h c type data st = snd (emit h c type data st)"

lemma emit_result: "emit h c type data st = (Inr (), emitted h c type data st)"
  by (simp add: emitted_def emit_def abind_def amodify_def aget_def timestamp_def Let_def)

lemma emitted_fields [simp]:
  "ps_journal (emitted h c type data st) = ps_journal st"
  "ps_fundings (emitted h c type data st) = ps_fundings st"
  "ps_transfers (emitted h c type data st) = ps_transfers st"
  "ps_disputes (emitted h c type data st) = ps_disputes st"
  "ps_payeeBalances (emitted h c type data st) = ps_payeeBalances st"
  "ps_failureRules (emitted h c type data st) = ps_failureRules st"
  by (simp_all add: emitted_def emit_def abind_def amodify_def aget_def timestamp_def Let_def)

lemma wp_emit [wp]: "wp (emit h c type data) Q E st = Q () (emitted h c type data st)"
  by (simp add: wp_def emit_result)

lemma wp_timestamp [wp]: "wp (timestamp h) Q E st = Q (clock h (ps_ticks st)) (st\<lparr>ps_ticks := ps_ticks st + 1\<rparr>)"
  by (simp add: wp_def timestamp_def)

lemma wp_saves [wp]:
  "wp (save_funding f) Q E = (\<lambda>st. Q () (st\<lparr>ps_fundings := mput (fd_reference f) f (ps_fundings st)\<rparr>))"
  "wp (save_transfer t) Q E = (\<lambda>st. Q () (st\<lparr>ps_transfers := mput (tr_reference t) t (ps_transfers st)\<rparr>))"
  "wp (save_dispute d) Q E = (\<lambda>st. Q () (st\<lparr>ps_disputes := mput (di_reference d) d (ps_disputes st)\<rparr>))"
  "wp (save_entry e) Q E = (\<lambda>st. Q () (st\<lparr>ps_journal := mput (je_operationId e) e (ps_journal st)\<rparr>))"
  "wp (set_balance p n) Q E = (\<lambda>st. Q () (st\<lparr>ps_payeeBalances := mput p n (ps_payeeBalances st)\<rparr>))"
  by (simp_all add: save_funding_def save_transfer_def save_dispute_def save_entry_def set_balance_def wp)

lemma wp_requireFunding [wp]:
  "wp (requireFunding r) Q E st =
     (if id_pattern 0 254 r then (case mget (ps_fundings st) r of None \<Rightarrow> E (perr NOT_FOUND) st | Some f \<Rightarrow> Q f st)
      else E (perr INVALID_INPUT) st)"
  by (auto simp: requireFunding_def wp assertId_def split: option.splits)

lemma wp_requireTransfer [wp]:
  "wp (requireTransfer r kind) Q E st =
     (if id_pattern 0 254 r then (case mget (ps_transfers st) r of None \<Rightarrow> E (perr NOT_FOUND) st
        | Some t \<Rightarrow> if tr_kind t \<noteq> kind then E (perr NOT_FOUND) st else Q t st)
      else E (perr INVALID_INPUT) st)"
  by (auto simp: requireTransfer_def wp assertId_def split: option.splits)

text \<open>The record a new transfer gets.\<close>

definition new_transfer ::
    "host \<Rightarrow> provider_config \<Rightarrow> transfer_kind \<Rightarrow> string \<Rightarrow> funding_record \<Rightarrow> int \<Rightarrow> string option \<Rightarrow> string option
     \<Rightarrow> refund_source \<Rightarrow> int \<Rightarrow> transfer_record" where
  "new_transfer h c kind op f amount payee reason source at =
     \<lparr>tr_kind = kind, tr_source = source, tr_reference = referenceFor h c (transfer_prefix kind) op,
      tr_operationId = op, tr_fundingReference = fd_reference f, tr_orderId = fd_orderId f,
      tr_payeeAccountId = payee, tr_reason = reason, tr_amount = amount, tr_currency = fd_currency f,
      tr_status = (if (if kind = Reversal then Immediate else if kind = Release then pc_releaseSettlement c
           else pc_refundSettlement c) = Immediate then T_SUCCEEDED else T_PENDING), tr_failureCode = None,
      tr_createdAt = at, tr_updatedAt = at\<rparr>"

lemma new_transfer_fields [simp]:
  "tr_kind (new_transfer h c kind op f amount payee reason source at) = kind"
  "tr_source (new_transfer h c kind op f amount payee reason source at) = source"
  "tr_reference (new_transfer h c kind op f amount payee reason source at) = referenceFor h c (transfer_prefix kind) op"
  "tr_operationId (new_transfer h c kind op f amount payee reason source at) = op"
  "tr_fundingReference (new_transfer h c kind op f amount payee reason source at) = fd_reference f"
  "tr_orderId (new_transfer h c kind op f amount payee reason source at) = fd_orderId f"
  "tr_payeeAccountId (new_transfer h c kind op f amount payee reason source at) = payee"
  "tr_amount (new_transfer h c kind op f amount payee reason source at) = amount"
  "tr_currency (new_transfer h c kind op f amount payee reason source at) = fd_currency f"
  by (simp_all add: new_transfer_def)

lemma new_transfer_status:
  "tr_status (new_transfer h c Reversal op f amount payee reason source at) = T_SUCCEEDED"
  "tr_status (new_transfer h c kind op f amount payee reason source at) \<noteq> T_FAILED"
  by (simp_all add: new_transfer_def)

definition announced :: "host \<Rightarrow> provider_config \<Rightarrow> transfer_record \<Rightarrow> provider_state \<Rightarrow> provider_state" where
  "announced h c t st = snd (emitTransferEvent h c t st)"

lemma wp_emitEvents [wp]:
  "wp (emitTransferEvent h c t) Q E st = Q () (announced h c t st)"
  by (simp add: announced_def emitTransferEvent_def wp emit_result)

lemma announced_fields [simp]:
  "ps_journal (announced h c t st) = ps_journal st"
  "ps_fundings (announced h c t st) = ps_fundings st"
  "ps_transfers (announced h c t st) = ps_transfers st"
  "ps_disputes (announced h c t st) = ps_disputes st"
  "ps_payeeBalances (announced h c t st) = ps_payeeBalances st"
  "ps_failureRules (announced h c t st) = ps_failureRules st"
  by (simp_all add: announced_def emitTransferEvent_def emit_result)

lemma wp_createTransfer [wp]:
  "wp (createTransfer h c kind op f amount payee reason source) Q E st =
     (let t = new_transfer h c kind op f amount payee reason source (clock h (ps_ticks st)) in
      Q t (announced h c t (st\<lparr>ps_ticks := ps_ticks st + 1,
        ps_transfers := mput (tr_reference t) t (ps_transfers st)\<rparr>)))"
  by (simp add: createTransfer_def wp Let_def new_transfer_def)

section \<open>The invariant\<close>

definition op_prefixes :: "string list" where
  "op_prefixes = [''fund'', ''tr'', ''re'', ''trr'']"

text \<open>No two of the operation ids in use share a truncated digest.\<close>

definition collision_free :: "host \<Rightarrow> provider_config \<Rightarrow> string set \<Rightarrow> bool" where
  "collision_free h c Ops \<longleftrightarrow> (\<forall>p \<in> set op_prefixes. inj_on (referenceFor h c p) Ops)"

definition transfer_ok :: "host \<Rightarrow> provider_config \<Rightarrow> string set \<Rightarrow> (string \<times> funding_record) list \<Rightarrow> string \<Rightarrow> transfer_record \<Rightarrow> bool" where
  "transfer_ok h c A fs k t \<longleftrightarrow>
     tr_reference t = k \<and> k = referenceFor h c (transfer_prefix (tr_kind t)) (tr_operationId t) \<and> tr_operationId t \<in> A
     \<and> 0 < tr_amount t \<and> id_pattern 0 254 (tr_fundingReference t)
     \<and> (tr_kind t \<noteq> Refund \<longrightarrow> tr_source t = Principal) \<and> (tr_kind t = Reversal \<longrightarrow> tr_status t = T_SUCCEEDED)
     \<and> (\<exists>f. mget fs (tr_fundingReference t) = Some f \<and> fd_status f \<in> {F_SUCCEEDED, RETURNED}
          \<and> tr_orderId t = fd_orderId f \<and> tr_currency t = fd_currency f
          \<and> (tr_kind t = Release \<longrightarrow> tr_payeeAccountId t = Some (fd_payeeAccountId f)))"

definition funding_ok :: "host \<Rightarrow> provider_config \<Rightarrow> string set \<Rightarrow> (string \<times> transfer_record) list \<Rightarrow> string \<Rightarrow> funding_record \<Rightarrow> bool" where
  "funding_ok h c A ts k f \<longleftrightarrow>
     fd_reference f = k \<and> k = referenceFor h c ''fund'' (fd_operationId f) \<and> fd_operationId f \<in> A
     \<and> 0 < fd_amount f
     \<and> mtotal (commits k) ts \<le> fd_amount f
     \<and> mtotal (amount_where (has_status k Reversal T_SUCCEEDED)) ts
         \<le> mtotal (amount_where (has_status k Release T_SUCCEEDED)) ts"

definition money_inv :: "host \<Rightarrow> provider_config \<Rightarrow> string set \<Rightarrow> provider_state \<Rightarrow> bool" where
  "money_inv h c A st \<longleftrightarrow> mok (ps_transfers st)
     \<and> (\<forall>k t. mget (ps_transfers st) k = Some t \<longrightarrow> transfer_ok h c A (ps_fundings st) k t)
     \<and> (\<forall>k f. mget (ps_fundings st) k = Some f \<longrightarrow> funding_ok h c A (ps_transfers st) k f)"

lemma money_invD:
  assumes "money_inv h c A st"
  shows "mok (ps_transfers st)"
    and "mget (ps_transfers st) k = Some t \<Longrightarrow> transfer_ok h c A (ps_fundings st) k t"
    and "mget (ps_fundings st) k = Some f \<Longrightarrow> funding_ok h c A (ps_transfers st) k f"
  using assms by (auto simp: money_inv_def)

lemma money_inv_cong:
  "ps_transfers st' = ps_transfers st \<Longrightarrow> ps_fundings st' = ps_fundings st \<Longrightarrow> money_inv h c A st' = money_inv h c A st"
  by (simp add: money_inv_def)

lemma money_inv_mono: "money_inv h c A st \<Longrightarrow> A \<subseteq> B \<Longrightarrow> money_inv h c B st"
  by (auto simp: money_inv_def transfer_ok_def funding_ok_def)

lemma prefix_distinct:
  "transfer_prefix kind \<in> set op_prefixes"
  "referenceFor h c (transfer_prefix kind) x = referenceFor h c (transfer_prefix kind') y \<Longrightarrow> kind = kind'"
  by (cases kind; cases kind'; simp add: transfer_prefix_def referenceFor_def op_prefixes_def)+

lemma fresh_reference:
  assumes "money_inv h c A st" "collision_free h c Ops" "A \<subseteq> Ops" "op \<in> Ops" "op \<notin> A"
  shows "mget (ps_transfers st) (referenceFor h c (transfer_prefix kind) op) = None"
proof (rule ccontr)
  let ?k = "referenceFor h c (transfer_prefix kind) op"
  assume "mget (ps_transfers st) ?k \<noteq> None"
  then obtain t where t: "transfer_ok h c A (ps_fundings st) ?k t"
    using money_invD(2) [OF assms(1)] by blast
  then have eq: "?k = referenceFor h c (transfer_prefix (tr_kind t)) (tr_operationId t)" and A: "tr_operationId t \<in> A"
    by (auto simp: transfer_ok_def)
  have "tr_kind t = kind" using prefix_distinct(2) eq by metis
  moreover have "inj_on (referenceFor h c (transfer_prefix kind)) Ops"
    using assms(2) prefix_distinct(1) by (simp add: collision_free_def)
  ultimately have "op = tr_operationId t"
    using eq A assms(3,4) by (auto dest: inj_onD)
  with A assms(5) show False by simp
qed

text \<open>How one more transfer, or one that settles, moves the sums.\<close>

lemma total_new_transfer:
  "money_inv h c A st \<Longrightarrow> mget (ps_transfers st) k = None \<Longrightarrow> mtotal m (mput k t (ps_transfers st)) = mtotal m (ps_transfers st) + m t"
  by (rule js_map.total_insert) (simp_all add: money_invD(1))

lemma money_inv_new_transfer:
  assumes inv: "money_inv h c A st" and cf: "collision_free h c Ops" "A \<subseteq> Ops" "op \<in> Ops" "op \<notin> A"
    and f: "mget (ps_fundings st) (fd_reference f) = Some f" "fd_status f \<in> {F_SUCCEEDED, RETURNED}"
    and t: "tr_reference t = referenceFor h c (transfer_prefix (tr_kind t)) op" "tr_operationId t = op"
      "tr_fundingReference t = fd_reference f" "id_pattern 0 254 (fd_reference f)" "0 < tr_amount t" "tr_orderId t = fd_orderId f" "tr_currency t = fd_currency f"
      "tr_kind t \<noteq> Refund \<Longrightarrow> tr_source t = Principal" "tr_kind t = Reversal \<Longrightarrow> tr_status t = T_SUCCEEDED"
      "tr_kind t = Release \<Longrightarrow> tr_payeeAccountId t = Some (fd_payeeAccountId f)"
    and principal: "tr_kind t \<noteq> Reversal \<Longrightarrow> tr_source t = Principal \<Longrightarrow>
       tr_amount t \<le> availablePrincipal f (ps_transfers st)"
    and reversal: "tr_kind t = Reversal \<Longrightarrow>
       mtotal (amount_where (has_status (fd_reference f) Reversal T_SUCCEEDED)) (ps_transfers st) + tr_amount t
         \<le> mtotal (amount_where (has_status (fd_reference f) Release T_SUCCEEDED)) (ps_transfers st)"
    and st': "ps_transfers st' = mput (tr_reference t) t (ps_transfers st)" "ps_fundings st' = ps_fundings st"
  shows "money_inv h c (insert op A) st'"
proof -
  have fresh: "mget (ps_transfers st) (tr_reference t) = None"
    using fresh_reference [OF inv cf] t(1) by simp
  have sum: "mtotal m (ps_transfers st') = mtotal m (ps_transfers st) + m t" for m
    using total_new_transfer [OF inv fresh] by (simp add: st')
  have ok: "funding_ok h c A (ps_transfers st) k f'" if "mget (ps_fundings st) k = Some f'" for k f'
    using money_invD(3) [OF inv that] .
  have fs: "funding_ok h c (insert op A) (ps_transfers st') k f'" if k: "mget (ps_fundings st) k = Some f'" for k f'
  proof (cases "k = fd_reference f")
    case True
    then have "f' = f" using k f(1) by simp
    with ok [OF k] True principal reversal f(2) t show ?thesis
      by (cases "tr_kind t"; cases "tr_source t")
         (auto simp: funding_ok_def sum commits_def amount_where_def has_status_def availablePrincipal_def split: if_splits)
  next
    case False
    with ok [OF k] t(3) show ?thesis
      by (auto simp: funding_ok_def sum commits_def amount_where_def has_status_def)
  qed
  have tok: "transfer_ok h c (insert op A) (ps_fundings st) (tr_reference t) t"
    using t f by (auto simp: transfer_ok_def)
  have "transfer_ok h c (insert op A) (ps_fundings st) k u" if "mget (ps_transfers st) k = Some u" for k u
    using money_invD(2) [OF inv that] by (auto simp: transfer_ok_def)
  with tok fs money_invD(1) [OF inv] show ?thesis
    by (auto simp: money_inv_def st' split: if_splits)
qed

lemma money_inv_settle:
  assumes inv: "money_inv h c A st" and t: "mget (ps_transfers st) k = Some t" "tr_status t = T_PENDING"
    and t': "t' = t\<lparr>tr_status := s, tr_failureCode := fc, tr_updatedAt := at\<rparr>"
    and st': "ps_transfers st' = mput (tr_reference t') t' (ps_transfers st)" "ps_fundings st' = ps_fundings st"
  shows "money_inv h c A st'"
proof -
  have ok: "transfer_ok h c A (ps_fundings st) k t" using money_invD(2) [OF inv t(1)] .
  then have k: "tr_reference t = k" by (simp add: transfer_ok_def)
  then have key: "tr_reference t' = k" by (simp add: t')
  have sum: "mtotal m (ps_transfers st') = mtotal m (ps_transfers st) + m t' - m t" for m
    unfolding st' key by (rule js_map.total_update [OF money_invD(1) [OF inv] t(1)])
  have kind: "tr_kind t \<noteq> Reversal" using ok t(2) by (auto simp: transfer_ok_def)
  have tok: "transfer_ok h c A (ps_fundings st) k t'" using ok t(2) by (auto simp: transfer_ok_def t')
  have fok: "funding_ok h c A (ps_transfers st') k' f" if f: "mget (ps_fundings st) k' = Some f" for k' f
  proof -
    have "commits k' t' \<le> commits k' t" "amount_where (has_status k' Reversal T_SUCCEEDED) t' = 0"
      "amount_where (has_status k' Reversal T_SUCCEEDED) t = 0"
      "amount_where (has_status k' Release T_SUCCEEDED) t \<le> amount_where (has_status k' Release T_SUCCEEDED) t'"
      using ok kind t(2) by (auto simp: t' commits_def amount_where_def has_status_def transfer_ok_def)
    with money_invD(3) [OF inv f] show ?thesis by (auto simp: funding_ok_def sum)
  qed
  show ?thesis
    using tok fok money_invD(1,2) [OF inv] by (auto simp: money_inv_def st' key split: if_splits)
qed

text \<open>A funding that changes only its status, fee or time, never leaving the captured states backwards.\<close>

definition funding_moves :: "funding_record \<Rightarrow> funding_record \<Rightarrow> bool" where
  "funding_moves f f' \<longleftrightarrow> fd_reference f' = fd_reference f \<and> fd_operationId f' = fd_operationId f
     \<and> fd_amount f' = fd_amount f \<and> fd_orderId f' = fd_orderId f \<and> fd_currency f' = fd_currency f
     \<and> fd_payeeAccountId f' = fd_payeeAccountId f \<and> fd_method f' = fd_method f
     \<and> (fd_status f \<in> {F_SUCCEEDED, RETURNED} \<longrightarrow> fd_status f' \<in> {F_SUCCEEDED, RETURNED})"

lemma money_inv_funding:
  assumes inv: "money_inv h c A st" and f: "mget (ps_fundings st) k = Some f" "funding_moves f f'"
    and st': "ps_fundings st' = mput (fd_reference f') f' (ps_fundings st)" "ps_transfers st' = ps_transfers st"
  shows "money_inv h c A st'"
proof -
  have ok: "funding_ok h c A (ps_transfers st) k f" using money_invD(3) [OF inv f(1)] .
  then have k: "fd_reference f' = k" using f(2) by (simp add: funding_ok_def funding_moves_def)
  have "transfer_ok h c A (ps_fundings st') k' t" if "mget (ps_transfers st) k' = Some t" for k' t
    using money_invD(2) [OF inv that] f by (auto simp: transfer_ok_def st' k funding_moves_def)
  moreover have "funding_ok h c A (ps_transfers st) k f'"
    using ok f(2) by (auto simp: funding_ok_def funding_moves_def)
  ultimately show ?thesis
    using money_invD(1,3) [OF inv] by (auto simp: money_inv_def st' k split: if_splits)
qed

lemma no_commits:
  "(\<And>k' t. mget ts k' = Some t \<Longrightarrow> tr_fundingReference t \<noteq> k) \<Longrightarrow> mok ts \<Longrightarrow>
     mtotal (commits k) ts = 0 \<and> mtotal (amount_where (has_status k kind s)) ts = 0"
  by (intro conjI mtotal_zero) (auto simp: commits_def amount_where_def has_status_def dest: mem_mget)

lemma money_inv_new_funding:
  assumes inv: "money_inv h c A st" and cf: "collision_free h c Ops" "A \<subseteq> Ops" "op \<in> Ops" "op \<notin> A"
    and f: "fd_reference f = referenceFor h c ''fund'' op" "fd_operationId f = op" "0 < fd_amount f"
    and st': "ps_fundings st' = mput (fd_reference f) f (ps_fundings st)" "ps_transfers st' = ps_transfers st"
  shows "money_inv h c (insert op A) st'"
proof -
  have fresh: "mget (ps_fundings st) (fd_reference f) = None"
  proof (rule ccontr)
    assume "mget (ps_fundings st) (fd_reference f) \<noteq> None"
    then obtain g where "funding_ok h c A (ps_transfers st) (fd_reference f) g"
      using money_invD(3) [OF inv] by blast
    then have "referenceFor h c ''fund'' op = referenceFor h c ''fund'' (fd_operationId g)" "fd_operationId g \<in> A"
      using f(1) by (auto simp: funding_ok_def)
    moreover have "inj_on (referenceFor h c ''fund'') Ops"
      using cf(1) by (simp add: collision_free_def op_prefixes_def)
    ultimately show False using cf(2-4) by (auto dest: inj_onD)
  qed
  have other: "tr_fundingReference t \<noteq> fd_reference f" if "mget (ps_transfers st) k = Some t" for k t
    using money_invD(2) [OF inv that] fresh by (auto simp: transfer_ok_def)
  have "funding_ok h c (insert op A) (ps_transfers st) (fd_reference f) f"
    using no_commits [OF other money_invD(1) [OF inv]] f by (auto simp: funding_ok_def)
  moreover have "transfer_ok h c (insert op A) (ps_fundings st') k t" if "mget (ps_transfers st) k = Some t" for k t
    using money_invD(2) [OF inv that] other [OF that] by (auto simp: transfer_ok_def st')
  moreover have "funding_ok h c (insert op A) (ps_transfers st) k g" if "mget (ps_fundings st) k = Some g" for k g
    using money_invD(3) [OF inv that] by (auto simp: funding_ok_def)
  ultimately show ?thesis
    using money_invD(1) [OF inv] by (auto simp: money_inv_def st' split: if_splits)
qed

section \<open>The effects of the journaled operations\<close>

text \<open>An effect that starts with a fresh operation id keeps the invariant and leaves the journal alone.\<close>

definition safe_effect :: "host \<Rightarrow> provider_config \<Rightarrow> string set \<Rightarrow> string \<Rightarrow> (string \<times> op_result) provider_action \<Rightarrow> bool" where
  "safe_effect h c Ops op m \<longleftrightarrow> (\<forall>A st. money_inv h c A st \<longrightarrow> A \<subseteq> Ops \<longrightarrow> op \<in> Ops \<longrightarrow> op \<notin> A \<longrightarrow>
     wp m (\<lambda>_ st'. money_inv h c (insert op A) st' \<and> ps_journal st' = ps_journal st)
          (\<lambda>_ st'. money_inv h c A st' \<and> ps_journal st' = ps_journal st) st)"

definition new_funding :: "host \<Rightarrow> provider_config \<Rightarrow> funding_input \<Rightarrow> string \<Rightarrow> int \<Rightarrow> funding_record" where
  "new_funding h c i op at =
     \<lparr>fd_reference = referenceFor h c ''fund'' op, fd_operationId = op,
      fd_method = (if fi_method i = None then CARD else BANK_TRANSFER),
      fd_orderId = fi_orderId i, fd_buyerId = fi_buyerId i, fd_payeeAccountId = fi_payeeAccountId i,
      fd_amount = fi_amount i, fd_currency = fi_currency i, fd_status = REQUIRES_ACTION,
      fd_providerFee = None, fd_createdAt = at, fd_updatedAt = at\<rparr>"

lemma safe_funding:
  assumes "collision_free h c Ops" "check_funding c i op = Inr u"
  shows "safe_effect h c Ops op (funding_effect h c i op)"
  unfolding safe_effect_def
proof (intro allI impI)
  fix A st
  assume inv: "money_inv h c A st" and op: "A \<subseteq> Ops" "op \<in> Ops" "op \<notin> A"
  have amount: "0 < fi_amount i"
    using assms(2) by (auto simp: check_funding_def errors amount_rules_def)
  let ?f = "new_funding h c i op (clock h (ps_ticks st))"
  have "money_inv h c (insert op A) st'"
    if "ps_fundings st' = mput (fd_reference ?f) ?f (ps_fundings st)" "ps_transfers st' = ps_transfers st" for st'
    using money_inv_new_funding [OF inv assms(1) op, of ?f st'] that amount by (simp add: new_funding_def)
  then show "wp (funding_effect h c i op) (\<lambda>_ st'. money_inv h c (insert op A) st' \<and> ps_journal st' = ps_journal st)
          (\<lambda>_ st'. money_inv h c A st' \<and> ps_journal st' = ps_journal st) st"
    by (simp add: funding_effect_def Let_def wp new_funding_def)
qed

lemma safe_cancel: "safe_effect h c Ops op (cancel_effect h c reference op)"
  unfolding safe_effect_def
proof (intro allI impI)
  fix A st
  assume inv: "money_inv h c A st"
  have keep: "money_inv h c A st'" if "ps_transfers st' = ps_transfers st" "ps_fundings st' = ps_fundings st" for st'
    using money_inv_cong [OF that] inv by simp
  show "wp (cancel_effect h c reference op) (\<lambda>_ st'. money_inv h c (insert op A) st' \<and> ps_journal st' = ps_journal st)
          (\<lambda>_ st'. money_inv h c A st' \<and> ps_journal st' = ps_journal st) st"
  proof (cases "mget (ps_fundings st) reference")
    case None
    with inv show ?thesis by (simp add: cancel_effect_def wp)
  next
    case (Some f)
    let ?f = "f\<lparr>fd_status := CANCELED, fd_updatedAt := clock h (ps_ticks st)\<rparr>"
    have moved: "fd_status f = REQUIRES_ACTION \<or> fd_status f = PROCESSING \<Longrightarrow> funding_moves f ?f"
      by (auto simp: funding_moves_def)
    have "money_inv h c (insert op A) st'" if "fd_status f = REQUIRES_ACTION \<or> fd_status f = PROCESSING"
      "ps_transfers st' = ps_transfers st" "ps_fundings st' = mput (fd_reference f) ?f (ps_fundings st)" for st'
    proof -
      have "money_inv h c A st'"
        using money_inv_funding [OF inv Some moved [OF that(1)], of st'] that(2,3) by simp
      then show ?thesis by (rule money_inv_mono) blast
    qed
    moreover have "money_inv h c (insert op A) st'"
      if "ps_transfers st' = ps_transfers st" "ps_fundings st' = ps_fundings st" for st'
      using money_inv_mono [OF keep [OF that]] by blast
    ultimately show ?thesis
      using Some keep inv by (auto simp: cancel_effect_def wp Let_def emitFundingEvent_def)
  qed
qed

lemma safe_release:
  assumes "collision_free h c Ops" "check_release c i op = Inr u"
  shows "safe_effect h c Ops op (release_effect h c i op)"
  unfolding safe_effect_def
proof (intro allI impI)
  fix A st
  assume inv: "money_inv h c A st" and op: "A \<subseteq> Ops" "op \<in> Ops" "op \<notin> A"
  have amount: "0 < ri_amount i"
    using assms(2) by (auto simp: check_release_def errors amount_rules_def)
  have ref: "fd_reference f = k" if "mget (ps_fundings st) k = Some f" for f k
    using money_invD(3) [OF inv that] by (simp add: funding_ok_def)
  have new: "money_inv h c (insert op A) st'"
    if f: "mget (ps_fundings st) (ri_fundingReference i) = Some f" "id_pattern 0 254 (ri_fundingReference i)" and s: "fd_status f = F_SUCCEEDED"
      and p: "fd_payeeAccountId f = ri_payeeAccountId i" and a: "ri_amount i \<le> availablePrincipal f (ps_transfers st)"
      and t: "t = new_transfer h c Release op f (ri_amount i) (Some (ri_payeeAccountId i)) None Principal at"
      and st': "ps_transfers st' = mput (tr_reference t) t (ps_transfers st)" "ps_fundings st' = ps_fundings st"
    for st' f t at
    using f ref [OF f(1)]
    by (intro money_inv_new_transfer [OF inv assms(1) op, of f t st']) (simp_all add: t amount a p s st' [unfolded t])
  show "wp (release_effect h c i op) (\<lambda>_ st'. money_inv h c (insert op A) st' \<and> ps_journal st' = ps_journal st)
          (\<lambda>_ st'. money_inv h c A st' \<and> ps_journal st' = ps_journal st) st"
    using inv by (auto simp: release_effect_def wp Let_def assertTransferAgainst_def split: option.splits sum.splits
        intro!: new)
qed

lemma safe_refund:
  assumes "collision_free h c Ops" "check_refund c i op = Inr u"
  shows "safe_effect h c Ops op (refund_effect h c i op)"
  unfolding safe_effect_def
proof (intro allI impI)
  fix A st
  assume inv: "money_inv h c A st" and op: "A \<subseteq> Ops" "op \<in> Ops" "op \<notin> A"
  have amount: "0 < fr_amount i"
    using assms(2) by (auto simp: check_refund_def errors amount_rules_def)
  have src: "fr_source i = None \<or> fr_source i = Some ''PLATFORM_BALANCE''"
    using assms(2) by (auto simp: check_refund_def errors)
  have ref: "fd_reference f = k" if "mget (ps_fundings st) k = Some f" for f k
    using money_invD(3) [OF inv that] by (simp add: funding_ok_def)
  have new: "money_inv h c (insert op A) st'"
    if f: "mget (ps_fundings st) (fr_fundingReference i) = Some f" "id_pattern 0 254 (fr_fundingReference i)" and s: "fd_status f = F_SUCCEEDED"
      and a: "fr_source i = None \<Longrightarrow> fr_amount i \<le> availablePrincipal f (ps_transfers st)"
      and t: "t = new_transfer h c Refund op f (fr_amount i) None (Some (fr_reason i))
             (if fr_source i = None then Principal else Platform_Balance) at"
      and st': "ps_transfers st' = mput (tr_reference t) t (ps_transfers st)" "ps_fundings st' = ps_fundings st"
    for st' f t at
    using f ref [OF f(1)] a
    by (intro money_inv_new_transfer [OF inv assms(1) op, of f t st'])
       (simp_all add: t amount s st' [unfolded t] split: if_splits)
  show "wp (refund_effect h c i op) (\<lambda>_ st'. money_inv h c (insert op A) st' \<and> ps_journal st' = ps_journal st)
          (\<lambda>_ st'. money_inv h c A st' \<and> ps_journal st' = ps_journal st) st"
    using inv src by (auto simp: refund_effect_def wp Let_def assertTransferAgainst_def split: option.splits sum.splits
        intro!: new)
qed

lemma safe_reversal:
  assumes "collision_free h c Ops" "check_reversal c i op = Inr u"
  shows "safe_effect h c Ops op (reversal_effect h c i op)"
  unfolding safe_effect_def
proof (intro allI impI)
  fix A st
  assume inv: "money_inv h c A st" and op: "A \<subseteq> Ops" "op \<in> Ops" "op \<notin> A"
  have amount: "0 < rv_amount i"
    using assms(2) by (auto simp: check_reversal_def errors amount_rules_def)
  have others: "mtotal (amount_where (reversed_before op k)) (ps_transfers st)
      = mtotal (amount_where (has_status k Reversal T_SUCCEEDED)) (ps_transfers st)" for k
  proof (rule mtotal_cong)
    fix k' t assume "(k', t) \<in> set (ps_transfers st)"
    then have "transfer_ok h c A (ps_fundings st) k' t"
      using money_invD(1,2) [OF inv] mem_mget by metis
    then show "amount_where (reversed_before op k) t = amount_where (has_status k Reversal T_SUCCEEDED) t"
      using op(3) by (auto simp: amount_where_def reversed_before_def has_status_def transfer_ok_def)
  qed
  have keep: "money_inv h c A st'" if "ps_transfers st' = ps_transfers st" "ps_fundings st' = ps_fundings st" for st'
    using money_inv_cong [OF that] inv by simp
  have new: "money_inv h c (insert op A) st'"
    if r: "mget (ps_transfers st) (rv_releaseReference i) = Some r" "tr_kind r = Release" "tr_status r = T_SUCCEEDED"
      and a: "rv_amount i \<le> tr_amount r - mtotal (amount_where (reversed_before op (tr_fundingReference r))) (ps_transfers st)"
      and f: "mget (ps_fundings st) (tr_fundingReference r) = Some f"
      and t: "t = new_transfer h c Reversal op f (rv_amount i) (Some (the_payee r)) None Principal at"
      and st': "ps_transfers st' = mput (tr_reference t) t (ps_transfers st)" "ps_fundings st' = ps_fundings st"
    for st' r f t at
  proof -
    have ref: "fd_reference f = tr_fundingReference r"
      using money_invD(3) [OF inv f] by (simp add: funding_ok_def)
    have captured: "fd_status f \<in> {F_SUCCEEDED, RETURNED}" "id_pattern 0 254 (tr_fundingReference r)"
      using money_invD(2) [OF inv r(1)] f by (auto simp: transfer_ok_def)
    have "amount_where (has_status (tr_fundingReference r) Release T_SUCCEEDED) r
        \<le> mtotal (amount_where (has_status (tr_fundingReference r) Release T_SUCCEEDED)) (ps_transfers st)"
    proof (rule mtotal_ge_member [OF money_invD(1) [OF inv] _ r(1)])
      fix k v assume "(k, v) \<in> set (ps_transfers st)"
      then have "0 < tr_amount v"
        using money_invD(1,2) [OF inv] mem_mget transfer_ok_def by metis
      then show "0 \<le> amount_where (has_status (tr_fundingReference r) Release T_SUCCEEDED) v"
        by (simp add: amount_where_def)
    qed
    then have "mtotal (amount_where (has_status (fd_reference f) Reversal T_SUCCEEDED)) (ps_transfers st) + tr_amount t
         \<le> mtotal (amount_where (has_status (fd_reference f) Release T_SUCCEEDED)) (ps_transfers st)"
      using a r by (simp add: others ref t amount_where_def has_status_def)
    then show ?thesis
      using f ref captured
      by (intro money_inv_new_transfer [OF inv assms(1) op, of f t st'])
         (simp_all add: t amount st' [unfolded t] new_transfer_status(1))
  qed
  show "wp (reversal_effect h c i op) (\<lambda>_ st'. money_inv h c (insert op A) st' \<and> ps_journal st' = ps_journal st)
          (\<lambda>_ st'. money_inv h c A st' \<and> ps_journal st' = ps_journal st) st"
    using inv by (auto simp: reversal_effect_def wp Let_def split: option.splits intro!: new keep)
qed

end
