(* ===== verification/Provider_Safety.thy ===== *)
theory Provider_Safety
  imports Provider_Money
begin

text \<open>
  Sequences of calls on \<open>MockPaymentProvider\<close> and what holds after any of them: money safety,
  idempotent replay, errors that changed nothing, statuses that only move forward.
\<close>

section \<open>Idempotent execution keeps the invariant\<close>

definition applied_ops :: "provider_state \<Rightarrow> string set" where
  "applied_ops st = {op. \<exists>e. mget (ps_journal st) op = Some e \<and> je_applied e \<noteq> None}"

definition provider_inv :: "host \<Rightarrow> provider_config \<Rightarrow> string set \<Rightarrow> provider_state \<Rightarrow> bool" where
  "provider_inv h c Ops st \<longleftrightarrow> money_inv h c (applied_ops st) st \<and> applied_ops st \<subseteq> Ops
     \<and> (\<forall>op e. mget (ps_journal st) op = Some e \<longrightarrow> je_operationId e = op)"

lemma applied_ops_save:
  "ps_journal st' = mput (je_operationId e) e (ps_journal st) \<Longrightarrow>
     applied_ops st' = (if je_applied e = None then applied_ops st - {je_operationId e}
                        else insert (je_operationId e) (applied_ops st))"
  by (auto simp: applied_ops_def split: if_splits)

lemma applied_ops_cong: "ps_journal st' = ps_journal st \<Longrightarrow> applied_ops st' = applied_ops st"
  by (simp add: applied_ops_def)

lemma wp_consumeFailure [wp]:
  "wp (consumeFailure kind op) Q E st = (case consume_slots kind op (ps_failureRules st) of
     (e, slots) \<Rightarrow> Q e (st\<lparr>ps_failureRules := slots\<rparr>))"
  by (simp add: wp_def consumeFailure_def split: prod.splits)

lemma wp_attempt:
  "wp (attempt kind op e m) Q E st =
    (case consume_slots kind op (ps_failureRules st) of (failure, slots) \<Rightarrow>
      let st1 = st\<lparr>ps_failureRules := slots\<rparr> in
      if failure = Some TIMEOUT_BEFORE_ACCEPT \<or> failure = Some UNAVAILABLE then
        (let code = (if failure = Some UNAVAILABLE then PROVIDER_UNAVAILABLE else PROVIDER_TIMEOUT) in
         E (perr_op code op) (st1\<lparr>ps_journal := mput (je_operationId e) (e\<lparr>je_lastErrorCode := Some code\<rparr>) (ps_journal st1)\<rparr>))
      else wp m (\<lambda>a st'.
          if failure = Some ACCEPT_THEN_TIMEOUT then
            E (provider_error PROVIDER_TIMEOUT (Some UNKNOWN) (Some op))
              (st'\<lparr>ps_journal := mput (je_operationId e)
                 (e\<lparr>je_applied := Some a, je_lastErrorCode := Some PROVIDER_TIMEOUT\<rparr>) (ps_journal st')\<rparr>)
          else Q (snd a) (st'\<lparr>ps_journal := mput (je_operationId e)
                 (e\<lparr>je_applied := Some a, je_lastErrorCode := None\<rparr>) (ps_journal st')\<rparr>))
        (\<lambda>err st'. E err (st'\<lparr>ps_journal := mput (je_operationId e)
                 (e\<lparr>je_lastErrorCode := Some (error_code err)\<rparr>) (ps_journal st')\<rparr>)) st1)"
proof (cases "consume_slots kind op (ps_failureRules st)")
  case (Pair failure slots)
  show ?thesis
  proof (cases failure)
    case None
    with Pair show ?thesis by (simp add: attempt_def wp Let_def)
  next
    case (Some effect)
    with Pair show ?thesis by (cases effect) (simp_all add: attempt_def wp Let_def)
  qed
qed

text \<open>Writing the journal entry of an operation that was not applied before.\<close>

lemma provider_inv_save:
  assumes "money_inv h c (if je_applied e = None then applied_ops st else insert op (applied_ops st)) st"
    and "applied_ops st \<subseteq> Ops" "op \<in> Ops" "op \<notin> applied_ops st" "je_operationId e = op"
    and "\<forall>op' e'. mget (ps_journal st) op' = Some e' \<longrightarrow> je_operationId e' = op'"
  shows "provider_inv h c Ops (st\<lparr>ps_journal := mput op e (ps_journal st)\<rparr>)"
proof -
  let ?st = "st\<lparr>ps_journal := mput op e (ps_journal st)\<rparr>"
  have ap: "applied_ops ?st = (if je_applied e = None then applied_ops st else insert op (applied_ops st))"
    using applied_ops_save [of ?st e st] assms(4,5) by simp
  have "money_inv h c (applied_ops ?st) ?st"
    using assms(1) money_inv_cong [of ?st st] by (simp add: ap)
  moreover have "applied_ops ?st \<subseteq> Ops" using assms(2,3) by (simp add: ap)
  moreover have "\<forall>op' e'. mget (ps_journal ?st) op' = Some e' \<longrightarrow> je_operationId e' = op'"
    using assms(5,6) by simp
  ultimately show ?thesis by (simp add: provider_inv_def)
qed

lemma attempt_keeps:
  assumes inv: "provider_inv h c Ops st" and op: "op \<in> Ops" "op \<notin> applied_ops st"
    and e: "je_operationId e = op" "je_applied e = None" and m: "safe_effect h c Ops op m"
  shows "wp (attempt kind op e m) (\<lambda>_. provider_inv h c Ops) (\<lambda>_. provider_inv h c Ops) st"
proof -
  obtain failure slots where slots: "consume_slots kind op (ps_failureRules st) = (failure, slots)"
    by (cases "consume_slots kind op (ps_failureRules st)")
  let ?st = "st\<lparr>ps_failureRules := slots\<rparr>"
  have sub: "applied_ops st \<subseteq> Ops" and ids: "\<forall>op' e'. mget (ps_journal st) op' = Some e' \<longrightarrow> je_operationId e' = op'"
    and money: "money_inv h c (applied_ops st) ?st"
    using inv money_inv_cong [of ?st st] by (auto simp: provider_inv_def)
  have saved: "provider_inv h c Ops (st'\<lparr>ps_journal := mput op e' (ps_journal st)\<rparr>)"
    if "ps_journal st' = ps_journal st"
      "money_inv h c (if je_applied e' = None then applied_ops st else insert op (applied_ops st)) st'"
      "je_operationId e' = op" for st' e'
    using provider_inv_save [of h c e' st' op Ops, unfolded applied_ops_cong [OF that(1)]] that sub op ids by simp
  have eff: "wp m (\<lambda>_ st'. money_inv h c (insert op (applied_ops st)) st' \<and> ps_journal st' = ps_journal ?st)
      (\<lambda>_ st'. money_inv h c (applied_ops st) st' \<and> ps_journal st' = ps_journal ?st) ?st"
    using m money sub op unfolding safe_effect_def by blast
  show ?thesis
  proof (cases "failure = Some TIMEOUT_BEFORE_ACCEPT \<or> failure = Some UNAVAILABLE")
    case True
    then show ?thesis
      using saved [of ?st] money e by (auto simp: wp_attempt slots Let_def)
  next
    case False
    have "wp m (\<lambda>a st'. if failure = Some ACCEPT_THEN_TIMEOUT then
            provider_inv h c Ops (st'\<lparr>ps_journal := mput op
                 (e\<lparr>je_applied := Some a, je_lastErrorCode := Some PROVIDER_TIMEOUT\<rparr>) (ps_journal st')\<rparr>)
          else provider_inv h c Ops (st'\<lparr>ps_journal := mput op
                 (e\<lparr>je_applied := Some a, je_lastErrorCode := None\<rparr>) (ps_journal st')\<rparr>))
        (\<lambda>err st'. provider_inv h c Ops (st'\<lparr>ps_journal := mput op
                 (e\<lparr>je_lastErrorCode := Some (error_code err)\<rparr>) (ps_journal st')\<rparr>)) ?st"
      by (rule wp_mono [OF eff]) (use e in \<open>simp_all add: saved\<close>)
    with False show ?thesis
      by (cases "failure = Some ACCEPT_THEN_TIMEOUT") (simp_all add: wp_attempt slots Let_def e(1))
  qed
qed

lemma keeps_runIdempotent:
  assumes "op \<in> Ops" "safe_effect h c Ops op m"
  shows "keeps (provider_inv h c Ops) (runIdempotent h kind op payload m)"
proof (rule keepsI)
  fix st assume inv: "provider_inv h c Ops st"
  have step: "provider_inv h c Ops (st\<lparr>ps_journal := mput (je_operationId e) e (ps_journal st)\<rparr>)
      \<and> (je_applied e = None \<longrightarrow> wp (attempt kind op e m) (\<lambda>_. provider_inv h c Ops) (\<lambda>_. provider_inv h c Ops)
            (st\<lparr>ps_journal := mput (je_operationId e) e (ps_journal st)\<rparr>))"
    if e0: "mget (ps_journal st) op = Some e0 \<or> mget (ps_journal st) op = None \<and> e0 = new_entry op kind hash"
      and e: "e = e0\<lparr>je_attemptCount := n\<rparr>" for e0 e n hash
  proof -
    let ?st = "st\<lparr>ps_journal := mput (je_operationId e) e (ps_journal st)\<rparr>"
    have id: "je_operationId e = op" using inv e0 by (auto simp: e provider_inv_def new_entry_def)
    have "mget (ps_journal st) op = None \<Longrightarrow> je_applied e = None"
      using e0 by (auto simp: e new_entry_def)
    then have ap: "applied_ops ?st = applied_ops st"
      using e0 id by (auto simp: applied_ops_def e split: if_splits)
    have inv1: "provider_inv h c Ops ?st"
      using inv id ap money_inv_cong [of ?st st] by (auto simp: provider_inv_def)
    moreover have "op \<notin> applied_ops ?st" if "je_applied e = None"
      using that id by (simp add: applied_ops_def)
    ultimately show ?thesis using attempt_keeps [OF inv1 assms(1) _ id _ assms(2)] by blast
  qed
  show "wp (runIdempotent h kind op payload m) (\<lambda>_. provider_inv h c Ops) (\<lambda>_. provider_inv h c Ops) st"
  proof (cases "computeRequestHash (sha256 h) kind payload")
    case (Inl err)
    with inv show ?thesis by (simp add: runIdempotent_def wp)
  next
    case (Inr hash)
    show ?thesis
    proof (cases "mget (ps_journal st) op")
      case None
      let ?e = "(new_entry op kind hash)\<lparr>je_attemptCount := 1\<rparr>"
      from step [of "new_entry op kind hash" hash ?e 1] None Inr show ?thesis
        by (simp add: runIdempotent_def wp Let_def new_entry_def)
    next
      case (Some e0)
      let ?e = "e0\<lparr>je_attemptCount := je_attemptCount e0 + 1\<rparr>"
      from step [of e0 hash ?e "je_attemptCount e0 + 1"] Some Inr inv show ?thesis
        by (cases "je_applied e0") (auto simp: runIdempotent_def wp Let_def)
    qed
  qed
qed

section \<open>Calls and reachable states\<close>

text \<open>The five methods that take an operation id and run idempotently.\<close>

datatype contract_request =
    Fund_Request funding_input
  | Cancel_Request string
  | Release_Request release_input
  | Refund_Request refund_input
  | Reversal_Request reversal_input

fun perform :: "host \<Rightarrow> provider_config \<Rightarrow> contract_request \<Rightarrow> string \<Rightarrow> op_result provider_action" where
  "perform h c (Fund_Request i) op = createFundingIntent h c i op"
| "perform h c (Cancel_Request ref) op = cancelFunding h c ref op"
| "perform h c (Release_Request i) op = releaseToCreator h c i op"
| "perform h c (Refund_Request i) op = refund h c i op"
| "perform h c (Reversal_Request i) op = reverseTransfer h c i op"

datatype provider_call =
    Contract contract_request string
  | Set_Payee_Balance string int
  | Verify_Webhook string "(string \<times> string) list"
  | Funding_Outcome string funding_status_code "int option"
  | Late_Capture string
  | Bank_Return string
  | Fee_Adjustment string int
  | Chargeback string "int option"
  | Chargeback_Outcome string bool
  | Release_Outcome string bool
  | Refund_Outcome string bool
  | Take_Deliveries
  | Redeliver string

definition run_state :: "'a provider_action \<Rightarrow> provider_state \<Rightarrow> provider_state" where
  "run_state m st = snd (m st)"

fun exec :: "host \<Rightarrow> provider_config \<Rightarrow> provider_call \<Rightarrow> provider_state \<Rightarrow> provider_state" where
  "exec h c (Contract req op) = run_state (perform h c req op)"
| "exec h c (Set_Payee_Balance p n) = run_state (setPayeeBalance p n)"
| "exec h c (Verify_Webhook body hs) = run_state (verifyWebhook h c body hs)"
| "exec h c (Funding_Outcome ref s fee) = run_state (simulateFundingOutcome h c ref s fee)"
| "exec h c (Late_Capture ref) = run_state (simulateLateCapture h c ref)"
| "exec h c (Bank_Return ref) = run_state (simulateBankReturn h c ref)"
| "exec h c (Fee_Adjustment ref fee) = run_state (simulateFeeAdjustment h c ref fee)"
| "exec h c (Chargeback ref a) = run_state (simulateChargeback h c ref a)"
| "exec h c (Chargeback_Outcome ref w) = run_state (simulateChargebackOutcome h c ref w)"
| "exec h c (Release_Outcome ref ok) = run_state (simulateReleaseOutcome h c ref ok)"
| "exec h c (Refund_Outcome ref ok) = run_state (simulateRefundOutcome h c ref ok)"
| "exec h c Take_Deliveries = run_state (takeWebhookDeliveries h c)"
| "exec h c (Redeliver e) = run_state (redeliverWebhook h c e)"

fun call_ops :: "provider_call \<Rightarrow> string set" where
  "call_ops (Contract req op) = {op}"
| "call_ops _ = {}"

text \<open>\<open>provider_run h c Ops st st'\<close>: some sequence of calls, with operation ids from \<open>Ops\<close>, leads from one
  state to the other.\<close>

inductive provider_run :: "host \<Rightarrow> provider_config \<Rightarrow> string set \<Rightarrow> provider_state \<Rightarrow> provider_state \<Rightarrow> bool"
  for h c Ops st where
  run_refl: "provider_run h c Ops st st"
| run_step: "provider_run h c Ops st st' \<Longrightarrow> call_ops call \<subseteq> Ops \<Longrightarrow> provider_run h c Ops st (exec h c call st')"

definition reachable :: "host \<Rightarrow> provider_config \<Rightarrow> string set \<Rightarrow> provider_state \<Rightarrow> bool" where
  "reachable h c Ops st \<longleftrightarrow>
     (\<exists>options nonce st0. new_MockPaymentProvider options nonce = Inr (c, st0) \<and> provider_run h c Ops st0 st)"

section \<open>Every call keeps the invariant\<close>

lemma provider_inv_cong:
  "ps_journal st' = ps_journal st \<Longrightarrow> ps_transfers st' = ps_transfers st \<Longrightarrow> ps_fundings st' = ps_fundings st \<Longrightarrow>
     provider_inv h c Ops st' = provider_inv h c Ops st"
  using money_inv_cong [of st' st] applied_ops_cong [of st' st] by (simp add: provider_inv_def)

lemma keeps_checked:
  "(\<And>x. r = Inr x \<Longrightarrow> keeps P (f x)) \<Longrightarrow> keeps P (abind (alift r) f)"
  by (cases r) (auto simp: keeps_def abind_def alift_def)

lemma keeps_contract:
  assumes "collision_free h c Ops" "op \<in> Ops"
  shows "keeps (provider_inv h c Ops) (createFundingIntent h c fi op)"
    and "keeps (provider_inv h c Ops) (cancelFunding h c ref op)"
    and "keeps (provider_inv h c Ops) (releaseToCreator h c ri op)"
    and "keeps (provider_inv h c Ops) (refund h c fr op)"
    and "keeps (provider_inv h c Ops) (reverseTransfer h c rv op)"
  unfolding createFundingIntent_def cancelFunding_def releaseToCreator_def refund_def reverseTransfer_def
  by (intro keeps_checked keeps_runIdempotent assms(2) safe_cancel,
      intro keeps_checked keeps_runIdempotent assms(2) safe_funding [OF assms(1)], simp)
     (intro keeps_checked keeps_runIdempotent assms(2) safe_cancel safe_release [OF assms(1)]
      safe_refund [OF assms(1)] safe_reversal [OF assms(1)]; simp)+

lemma keeps_perform:
  "collision_free h c Ops \<Longrightarrow> op \<in> Ops \<Longrightarrow> keeps (provider_inv h c Ops) (perform h c req op)"
  by (cases req) (simp_all add: keeps_contract)

lemma wp_publish:
  "wp (publish_funding h c type f) Q E = (\<lambda>st.
     let st' = run_state (emitFundingEvent h c type f) (st\<lparr>ps_fundings := mput (fd_reference f) f (ps_fundings st)\<rparr>) in
     Q (fundingSnapshot f (ps_transfers st')) st')"
  by (rule ext) (simp add: publish_funding_def wp run_state_def emitFundingEvent_def emit_result)

lemma published_fields [simp]:
  "ps_journal (run_state (emitFundingEvent h c type f) st) = ps_journal st"
  "ps_fundings (run_state (emitFundingEvent h c type f) st) = ps_fundings st"
  "ps_transfers (run_state (emitFundingEvent h c type f) st) = ps_transfers st"
  "ps_payeeBalances (run_state (emitFundingEvent h c type f) st) = ps_payeeBalances st"
  by (simp_all add: run_state_def emitFundingEvent_def emit_result)

lemma provider_inv_funding:
  assumes "provider_inv h c Ops st" "mget (ps_fundings st) k = Some f" "funding_moves f f'"
    and "ps_fundings st' = mput (fd_reference f') f' (ps_fundings st)" "ps_transfers st' = ps_transfers st"
    and "ps_journal st' = ps_journal st"
  shows "provider_inv h c Ops st'"
  using assms money_inv_funding [OF _ assms(2,3,4,5)] applied_ops_cong [OF assms(6)] by (auto simp: provider_inv_def)

lemma provider_inv_settle:
  assumes "provider_inv h c Ops st" "mget (ps_transfers st) k = Some t" "tr_status t = T_PENDING"
    and "t' = t\<lparr>tr_status := s, tr_failureCode := fc, tr_updatedAt := at\<rparr>"
    and "ps_transfers st' = mput (tr_reference t') t' (ps_transfers st)" "ps_fundings st' = ps_fundings st"
    and "ps_journal st' = ps_journal st"
  shows "provider_inv h c Ops st'"
  using assms money_inv_settle [OF _ assms(2-6)] applied_ops_cong [OF assms(7)] by (auto simp: provider_inv_def)

lemma wp_publish_keeps:
  assumes "provider_inv h c Ops st" "mget (ps_fundings st) k = Some f" "funding_moves f f'"
  shows "wp (publish_funding h c type f') (\<lambda>_. provider_inv h c Ops) (\<lambda>_. provider_inv h c Ops) (st\<lparr>ps_ticks := n\<rparr>)"
  by (simp add: wp_publish Let_def provider_inv_funding [OF assms])

lemmas harness_defs =
  simulateFundingOutcome_def simulateLateCapture_def simulateBankReturn_def simulateFeeAdjustment_def

lemma allowed_outcomes_captured: "s \<in> {F_SUCCEEDED, RETURNED} \<Longrightarrow> allowed_outcomes s = []"
  by auto

lemma keeps_harness_funding:
  shows "keeps (provider_inv h c Ops) (simulateFundingOutcome h c ref s fee)"
    and "keeps (provider_inv h c Ops) (simulateLateCapture h c ref)"
    and "keeps (provider_inv h c Ops) (simulateBankReturn h c ref)"
    and "keeps (provider_inv h c Ops) (simulateFeeAdjustment h c ref n)"
proof -
  show "keeps (provider_inv h c Ops) (simulateFundingOutcome h c ref s fee)"
    unfolding harness_defs
    by (rule keepsI) (auto simp: wp Let_def allowed_outcomes_captured funding_moves_def split: option.splits sum.splits
        intro!: wp_publish_keeps)
  show "keeps (provider_inv h c Ops) (simulateLateCapture h c ref)"
    unfolding harness_defs
    by (rule keepsI) (auto simp: wp Let_def funding_moves_def split: option.splits intro!: wp_publish_keeps)
  show "keeps (provider_inv h c Ops) (simulateBankReturn h c ref)"
    unfolding harness_defs
    by (rule keepsI) (auto simp: wp Let_def funding_moves_def split: option.splits intro!: wp_publish_keeps)
  show "keeps (provider_inv h c Ops) (simulateFeeAdjustment h c ref n)"
    unfolding harness_defs
    by (rule keepsI) (auto simp: wp Let_def funding_moves_def split: option.splits sum.splits intro!: wp_publish_keeps)
qed

lemma provider_inv_same:
  "provider_inv h c Ops st \<Longrightarrow> ps_journal st' = ps_journal st \<Longrightarrow> ps_transfers st' = ps_transfers st \<Longrightarrow>
     ps_fundings st' = ps_fundings st \<Longrightarrow> provider_inv h c Ops st'"
  using provider_inv_cong [of st' st] by simp

lemma wp_emitDispute [wp]:
  "wp (emitDisputeEvent h c type d) Q E = (\<lambda>st. Q () (run_state (emitDisputeEvent h c type d) st))"
  by (rule ext) (simp add: emitDisputeEvent_def run_state_def wp emit_result)

lemma disputed_fields [simp]:
  "ps_journal (run_state (emitDisputeEvent h c type d) st) = ps_journal st"
  "ps_fundings (run_state (emitDisputeEvent h c type d) st) = ps_fundings st"
  "ps_transfers (run_state (emitDisputeEvent h c type d) st) = ps_transfers st"
  by (simp_all add: run_state_def emitDisputeEvent_def emit_result)

lemma keeps_harness_rest:
  shows "keeps (provider_inv h c Ops) (setPayeeBalance p n)"
    and "keeps (provider_inv h c Ops) (simulateChargeback h c ref a)"
    and "keeps (provider_inv h c Ops) (simulateChargebackOutcome h c ref won)"
    and "keeps (provider_inv h c Ops) (verifyWebhook h c body hs)"
proof -
  show "keeps (provider_inv h c Ops) (setPayeeBalance p n)"
    by (rule keepsI) (auto simp: setPayeeBalance_def wp split: sum.splits elim!: provider_inv_same)
  show "keeps (provider_inv h c Ops) (simulateChargeback h c ref a)"
    by (rule keepsI) (auto simp: simulateChargeback_def wp Let_def split: sum.splits option.splits elim!: provider_inv_same)
  show "keeps (provider_inv h c Ops) (simulateChargebackOutcome h c ref won)"
    by (rule keepsI) (auto simp: simulateChargebackOutcome_def wp Let_def split: sum.splits option.splits
        elim!: provider_inv_same)
  show "keeps (provider_inv h c Ops) (verifyWebhook h c body hs)"
    by (rule keepsI) (auto simp: verifyWebhook_def now_seconds_def wp split: sum.splits elim!: provider_inv_same)
qed

lemma wp_settleTransfer:
  "wp (settleTransfer h c t ok) Q E = (\<lambda>st. if tr_status t = T_PENDING then
     (let t' = t\<lparr>tr_status := (if ok then T_SUCCEEDED else T_FAILED),
                 tr_failureCode := (if ok then None else Some ''simulated_failure''),
                 tr_updatedAt := clock h (ps_ticks st)\<rparr> in
      Q t' (announced h c t' (st\<lparr>ps_ticks := ps_ticks st + 1, ps_transfers := mput (tr_reference t') t' (ps_transfers st)\<rparr>)))
     else E (perr INVALID_STATE) st)"
  by (rule ext) (simp add: settleTransfer_def wp Let_def)

lemma wp_settle_keeps:
  assumes "provider_inv h c Ops st" "mget (ps_transfers st) k = Some t"
    and "\<And>t' st'. provider_inv h c Ops st' \<Longrightarrow> Q t' st'" "\<And>e. E e st"
  shows "wp (settleTransfer h c t ok) Q E st"
  using provider_inv_settle [OF assms(1,2) _ refl] assms(3,4) by (simp add: wp_settleTransfer Let_def)

lemma keeps_settle:
  "keeps (provider_inv h c Ops) (simulateReleaseOutcome h c ref ok)"
  "keeps (provider_inv h c Ops) (simulateRefundOutcome h c ref ok)"
proof -
  show "keeps (provider_inv h c Ops) (simulateReleaseOutcome h c ref ok)"
    by (rule keepsI) (auto simp: simulateReleaseOutcome_def getReleaseStatus_def wp split: option.splits
        intro!: wp_settle_keeps)
  show "keeps (provider_inv h c Ops) (simulateRefundOutcome h c ref ok)"
    by (rule keepsI) (auto simp: simulateRefundOutcome_def getRefundStatus_def wp split: option.splits
        intro!: wp_settle_keeps)
qed

lemma keeps_sign:
  "keeps (provider_inv h c Ops) (sign_event h c e)"
  "keeps (provider_inv h c Ops) (sign_all h c es)"
  "keeps (provider_inv h c Ops) (takeWebhookDeliveries h c)"
  "keeps (provider_inv h c Ops) (redeliverWebhook h c eid)"
proof -
  show 1: "keeps (provider_inv h c Ops) (sign_event h c e)" for e
    by (rule keepsI) (auto simp: sign_event_def now_seconds_def wp split: sum.splits elim!: provider_inv_same)
  show 2: "keeps (provider_inv h c Ops) (sign_all h c es)" for es
    by (induction es) (auto intro!: 1)
  have "keeps (provider_inv h c Ops) (amodify (\<lambda>st. st\<lparr>ps_undelivered := []\<rparr>))"
    by (rule keeps_modify) (auto elim!: provider_inv_same)
  then show "keeps (provider_inv h c Ops) (takeWebhookDeliveries h c)"
    unfolding takeWebhookDeliveries_def using 2 by blast
  have "keeps (provider_inv h c Ops) (case found of None \<Rightarrow> afail (perr NOT_FOUND) | Some e \<Rightarrow> sign_event h c e)" for found
    using 1 by (cases found) auto
  then show "keeps (provider_inv h c Ops) (redeliverWebhook h c eid)"
    unfolding redeliverWebhook_def by (intro keeps_bind keeps_aget)
qed

lemma exec_inv:
  assumes "collision_free h c Ops" "call_ops call \<subseteq> Ops" "provider_inv h c Ops st"
  shows "provider_inv h c Ops (exec h c call st)"
  using assms(2,3) keeps_perform [OF assms(1)] keeps_harness_funding keeps_harness_rest keeps_settle keeps_sign
  by (cases call) (simp_all add: run_state_def keeps_def)

lemma run_inv:
  "provider_run h c Ops st st' \<Longrightarrow> collision_free h c Ops \<Longrightarrow> provider_inv h c Ops st \<Longrightarrow> provider_inv h c Ops st'"
  by (induction rule: provider_run.induct) (simp_all add: exec_inv)

lemma initial_inv:
  "new_MockPaymentProvider options nonce = Inr (c, st) \<Longrightarrow> provider_inv h c Ops st"
  by (auto simp: new_MockPaymentProvider_def Let_def errors initial_state_def provider_inv_def applied_ops_def
      money_inv_def split: if_splits)

lemma reachable_inv: "reachable h c Ops st \<Longrightarrow> collision_free h c Ops \<Longrightarrow> provider_inv h c Ops st"
  unfolding reachable_def using run_inv initial_inv by metis

end
