(* ===== verification/Provider_Replay.thy ===== *)
theory Provider_Replay
  imports Provider_Safety
begin

text \<open>
  Idempotency of \<open>MockPaymentProvider\<close>: an applied operation stays in the journal for ever, its replay
  gives the recorded result and moves nothing, a lost answer is recovered by a retry, and an operation
  reported as not applied has moved nothing.
\<close>

section \<open>What an action leaves alone\<close>

text \<open>Everything but the journal entry, the failure slots and the clock.\<close>

definition same_money :: "provider_state \<Rightarrow> provider_state \<Rightarrow> bool" where
  "same_money st st' \<longleftrightarrow> ps_fundings st' = ps_fundings st \<and> ps_transfers st' = ps_transfers st
     \<and> ps_disputes st' = ps_disputes st \<and> ps_payeeBalances st' = ps_payeeBalances st
     \<and> ps_events st' = ps_events st \<and> ps_undelivered st' = ps_undelivered st"

definition ids_ok :: "provider_state \<Rightarrow> bool" where
  "ids_ok st \<longleftrightarrow> (\<forall>op e. mget (ps_journal st) op = Some e \<longrightarrow> je_operationId e = op)"

text \<open>The journal holds operation \<open>op\<close> as applied, with this result and request hash.\<close>

definition recorded :: "string \<Rightarrow> (string \<times> op_result) \<Rightarrow> string \<Rightarrow> provider_state \<Rightarrow> bool" where
  "recorded op a hash st \<longleftrightarrow> ids_ok st
     \<and> (\<exists>e. mget (ps_journal st) op = Some e \<and> je_applied e = Some a \<and> je_requestHash e = hash)"

definition keeps_journal :: "'a provider_action \<Rightarrow> bool" where
  "keeps_journal m \<longleftrightarrow> (\<forall>st. wp m (\<lambda>_ st'. ps_journal st' = ps_journal st) (\<lambda>_ st'. ps_journal st' = ps_journal st) st)"

lemma keeps_journalI:
  "(\<And>st. wp m (\<lambda>_ st'. ps_journal st' = ps_journal st) (\<lambda>_ st'. ps_journal st' = ps_journal st) st) \<Longrightarrow> keeps_journal m"
  by (simp add: keeps_journal_def)

lemma wp_emitFunding [wp]:
  "wp (emitFundingEvent h c type f) Q E = (\<lambda>st. Q () (run_state (emitFundingEvent h c type f) st))"
  by (rule ext) (simp add: emitFundingEvent_def run_state_def wp emit_result)

lemma effects_keep_journal:
  "keeps_journal (funding_effect h c fi op)" "keeps_journal (cancel_effect h c ref op)"
  "keeps_journal (release_effect h c ri op)" "keeps_journal (refund_effect h c fr op)"
  "keeps_journal (reversal_effect h c rv op)"
proof -
  show "keeps_journal (funding_effect h c fi op)"
    by (rule keeps_journalI) (simp add: funding_effect_def wp Let_def)
  show "keeps_journal (cancel_effect h c ref op)"
    by (rule keeps_journalI) (auto simp: cancel_effect_def wp Let_def split: option.splits)
  show "keeps_journal (release_effect h c ri op)"
    by (rule keeps_journalI) (auto simp: release_effect_def wp Let_def split: option.splits sum.splits)
  show "keeps_journal (refund_effect h c fr op)"
    by (rule keeps_journalI) (auto simp: refund_effect_def wp Let_def split: option.splits sum.splits)
  show "keeps_journal (reversal_effect h c rv op)"
    by (rule keeps_journalI) (auto simp: reversal_effect_def wp Let_def split: option.splits sum.splits)
qed

text \<open>Each contract method checks its arguments and then runs its effect idempotently.\<close>

fun check_request :: "provider_config \<Rightarrow> contract_request \<Rightarrow> string \<Rightarrow> provider_error + unit" where
  "check_request c (Fund_Request i) op = check_funding c i op"
| "check_request c (Cancel_Request ref) op =
     ebind (assertOperationId (JString op)) (\<lambda>_. ebind (assertId (JString ref)) (\<lambda>_. Inr ()))"
| "check_request c (Release_Request i) op = check_release c i op"
| "check_request c (Refund_Request i) op = check_refund c i op"
| "check_request c (Reversal_Request i) op = check_reversal c i op"

fun request_kind :: "contract_request \<Rightarrow> operation_kind" where
  "request_kind (Fund_Request i) = Funding_Create"
| "request_kind (Cancel_Request ref) = Funding_Cancel"
| "request_kind (Release_Request i) = Release_Create"
| "request_kind (Refund_Request i) = Refund_Create"
| "request_kind (Reversal_Request i) = Reversal_Create"

fun request_payload :: "contract_request \<Rightarrow> jsval" where
  "request_payload (Fund_Request i) = funding_payload i"
| "request_payload (Cancel_Request ref) = JObject [(''reference'', JString ref)]"
| "request_payload (Release_Request i) = release_payload i"
| "request_payload (Refund_Request i) = refund_payload i"
| "request_payload (Reversal_Request i) = reversal_payload i"

fun request_effect :: "host \<Rightarrow> provider_config \<Rightarrow> contract_request \<Rightarrow> string \<Rightarrow> (string \<times> op_result) provider_action" where
  "request_effect h c (Fund_Request i) op = funding_effect h c i op"
| "request_effect h c (Cancel_Request ref) op = cancel_effect h c ref op"
| "request_effect h c (Release_Request i) op = release_effect h c i op"
| "request_effect h c (Refund_Request i) op = refund_effect h c i op"
| "request_effect h c (Reversal_Request i) op = reversal_effect h c i op"

lemma perform_eq:
  "perform h c req op st = (case check_request c req op of Inl e \<Rightarrow> (Inl e, st)
     | Inr _ \<Rightarrow> runIdempotent h (request_kind req) op (request_payload req) (request_effect h c req op) st)"
proof (cases req)
  case (Cancel_Request ref)
  then show ?thesis
    by (cases "assertOperationId (JString op)"; cases "assertId (JString ref)")
       (simp_all add: cancelFunding_def abind_def alift_def)
qed (simp_all add: createFundingIntent_def releaseToCreator_def refund_def reverseTransfer_def abind_def alift_def split: sum.splits)

lemma request_effect_journal: "keeps_journal (request_effect h c req op)"
  by (cases req) (simp_all add: effects_keep_journal)

lemma request_effect_safe:
  "collision_free h c Ops \<Longrightarrow> check_request c req op = Inr u \<Longrightarrow> safe_effect h c Ops op (request_effect h c req op)"
  by (cases req) (simp_all add: safe_funding safe_cancel safe_release safe_refund safe_reversal)

section \<open>An applied operation is never forgotten\<close>

lemma recorded_same_journal: "ps_journal st' = ps_journal st \<Longrightarrow> recorded op a hash st' = recorded op a hash st"
  by (simp add: recorded_def ids_ok_def)

lemma recorded_save:
  assumes "recorded op a hash st" "je_operationId e = op'" "op' = op \<Longrightarrow> je_applied e = Some a \<and> je_requestHash e = hash"
    and "ps_journal st' = mput op' e (ps_journal st)"
  shows "recorded op a hash st'"
  using assms by (auto simp: recorded_def ids_ok_def)

lemma keeps_recorded_run:
  assumes m: "keeps_journal m"
  shows "keeps (recorded op a hash) (runIdempotent h kind op' payload m)"
proof (rule keepsI)
  fix st assume rec: "recorded op a hash st"
  have attempt: "wp (attempt kind op' e m) (\<lambda>_. recorded op a hash) (\<lambda>_. recorded op a hash) st1"
    if st1: "recorded op a hash st1" and e: "je_operationId e = op'" "op' \<noteq> op" for st1 e
  proof (cases "consume_slots kind op' (ps_failureRules st1)")
    case (Pair failure slots)
    let ?st = "st1\<lparr>ps_failureRules := slots\<rparr>"
    have rec1: "recorded op a hash ?st" using st1 recorded_same_journal [of ?st st1] by simp
    have saved: "recorded op a hash (st'\<lparr>ps_journal := mput op' e' (ps_journal st')\<rparr>)"
      if "ps_journal st' = ps_journal ?st" "je_operationId e' = op'" for st' e'
      using recorded_save [of op a hash st' e' op'] that recorded_same_journal [OF that(1)] rec1 e by simp
    have eff: "wp m (\<lambda>_ st'. ps_journal st' = ps_journal ?st) (\<lambda>_ st'. ps_journal st' = ps_journal ?st) ?st"
      using m unfolding keeps_journal_def by blast
    have "wp m (\<lambda>r st'. recorded op a hash (st'\<lparr>ps_journal := mput op' (f r) (ps_journal st')\<rparr>))
        (\<lambda>err st'. recorded op a hash (st'\<lparr>ps_journal := mput op' (g err) (ps_journal st')\<rparr>)) ?st"
      if "\<And>r. je_operationId (f r) = op'" "\<And>err. je_operationId (g err) = op'" for f g
    proof (rule wp_mono [OF eff])
      show "recorded op a hash (st'\<lparr>ps_journal := mput op' (f r) (ps_journal st')\<rparr>)"
        if "ps_journal st' = ps_journal ?st" for r st' using saved [OF that] \<open>\<And>r. je_operationId (f r) = op'\<close> .
      show "recorded op a hash (st'\<lparr>ps_journal := mput op' (g err) (ps_journal st')\<rparr>)"
        if "ps_journal st' = ps_journal ?st" for err st' using saved [OF that] \<open>\<And>err. je_operationId (g err) = op'\<close> .
    qed
    then show ?thesis
      using saved [of ?st] e by (cases "failure = Some ACCEPT_THEN_TIMEOUT") (auto simp: wp_attempt Pair Let_def)
  qed
  show "wp (runIdempotent h kind op' payload m) (\<lambda>_. recorded op a hash) (\<lambda>_. recorded op a hash) st"
  proof (cases "computeRequestHash (sha256 h) kind payload")
    case (Inl err)
    with rec show ?thesis by (simp add: runIdempotent_def wp)
  next
    case (Inr new)
    show ?thesis
    proof (cases "mget (ps_journal st) op'")
      case None
      with rec have "op' \<noteq> op" by (auto simp: recorded_def)
      let ?e = "(new_entry op' kind new)\<lparr>je_attemptCount := 1\<rparr>"
      have id: "je_operationId ?e = op'" by (simp add: new_entry_def)
      have saved: "recorded op a hash (st\<lparr>ps_journal := mput op' ?e (ps_journal st)\<rparr>)"
        by (rule recorded_save [OF rec id]) (use \<open>op' \<noteq> op\<close> in auto)
      from attempt [OF saved id \<open>op' \<noteq> op\<close>] None Inr rec show ?thesis
        by (simp add: runIdempotent_def wp Let_def new_entry_def)
    next
      case (Some e0)
      with rec have id: "je_operationId e0 = op'" by (auto simp: recorded_def ids_ok_def)
      have same: "op' = op \<Longrightarrow> je_applied e0 = Some a \<and> je_requestHash e0 = hash"
        using rec Some by (auto simp: recorded_def)
      have "recorded op a hash (st\<lparr>ps_journal := mput op' (e0\<lparr>je_attemptCount := n\<rparr>) (ps_journal st)\<rparr>)" for n
        by (rule recorded_save [OF rec]) (use id same in auto)
      moreover from this have "op' \<noteq> op \<Longrightarrow> wp (attempt kind op' (e0\<lparr>je_attemptCount := n\<rparr>) m) (\<lambda>_. recorded op a hash)
          (\<lambda>_. recorded op a hash) (st\<lparr>ps_journal := mput op' (e0\<lparr>je_attemptCount := n\<rparr>) (ps_journal st)\<rparr>)" for n
        using id by (intro attempt) auto
      ultimately show ?thesis
        using Some Inr rec id same by (cases "op' = op"; cases "je_applied e0") (auto simp: runIdempotent_def wp Let_def)
    qed
  qed
qed

lemma keeps_recorded_perform: "keeps (recorded op a hash) (perform h c req op')"
  using keeps_recorded_run [OF request_effect_journal]
  by (auto simp: keeps_def perform_eq split: sum.splits)

text \<open>The harness methods do not touch the journal.\<close>

lemma journal_sign_all: "ps_journal (snd (sign_all h c es st)) = ps_journal st"
proof -
  have event: "keeps (\<lambda>st'. ps_journal st' = J) (sign_event h c e)" for J e
    by (rule keepsI) (auto simp: sign_event_def now_seconds_def wp split: sum.splits)
  have "keeps (\<lambda>st'. ps_journal st' = J) (sign_all h c es)" for J
    by (induction es) (auto intro!: event)
  then show ?thesis by (simp add: keeps_def)
qed

lemma journal_of_wp:
  "wp m (\<lambda>_ st'. ps_journal st' = J) (\<lambda>_ st'. ps_journal st' = J) st \<Longrightarrow> ps_journal (snd (m st)) = J"
  by (auto simp: wp_def split: prod.splits sum.splits)

lemma exec_journal: "call_ops call = {} \<Longrightarrow> ps_journal (exec h c call st) = ps_journal st"
proof (cases call)
  case Take_Deliveries
  then show ?thesis
    by (simp add: run_state_def takeWebhookDeliveries_def abind_def aget_def amodify_def journal_sign_all)
next
  case (Redeliver e)
  then show ?thesis
    unfolding exec.simps run_state_def Redeliver
    by (intro journal_of_wp)
       (auto simp: redeliverWebhook_def sign_event_def now_seconds_def wp split: option.splits sum.splits)
next
  case (Release_Outcome ref ok)
  then show ?thesis
    unfolding exec.simps run_state_def Release_Outcome
    by (intro journal_of_wp)
       (auto simp: simulateReleaseOutcome_def getReleaseStatus_def wp_settleTransfer wp Let_def split: option.splits)
next
  case (Refund_Outcome ref ok)
  then show ?thesis
    unfolding exec.simps run_state_def Refund_Outcome
    by (intro journal_of_wp)
       (auto simp: simulateRefundOutcome_def getRefundStatus_def wp_settleTransfer wp Let_def split: option.splits)
next
  case (Verify_Webhook body hs)
  then show ?thesis
    unfolding exec.simps run_state_def Verify_Webhook
    by (intro journal_of_wp) (auto simp: verifyWebhook_def now_seconds_def wp split: sum.splits)
next
  case (Set_Payee_Balance p n)
  then show ?thesis
    unfolding exec.simps run_state_def Set_Payee_Balance
    by (intro journal_of_wp) (auto simp: setPayeeBalance_def wp split: sum.splits)
next
  case (Chargeback ref a)
  then show ?thesis
    unfolding exec.simps run_state_def Chargeback
    by (intro journal_of_wp) (auto simp: simulateChargeback_def wp Let_def split: sum.splits option.splits)
next
  case (Chargeback_Outcome ref w)
  then show ?thesis
    unfolding exec.simps run_state_def Chargeback_Outcome
    by (intro journal_of_wp) (auto simp: simulateChargebackOutcome_def wp Let_def split: sum.splits option.splits)
next
  case (Funding_Outcome ref s fee)
  then show ?thesis
    unfolding exec.simps run_state_def Funding_Outcome
    by (intro journal_of_wp) (auto simp: harness_defs wp_publish wp Let_def split: sum.splits option.splits)
next
  case (Late_Capture ref)
  then show ?thesis
    unfolding exec.simps run_state_def Late_Capture
    by (intro journal_of_wp) (auto simp: harness_defs wp_publish wp Let_def split: sum.splits option.splits)
next
  case (Bank_Return ref)
  then show ?thesis
    unfolding exec.simps run_state_def Bank_Return
    by (intro journal_of_wp) (auto simp: harness_defs wp_publish wp Let_def split: sum.splits option.splits)
next
  case (Fee_Adjustment ref fee)
  then show ?thesis
    unfolding exec.simps run_state_def Fee_Adjustment
    by (intro journal_of_wp) (auto simp: harness_defs wp_publish wp Let_def split: sum.splits option.splits)
qed simp

lemma exec_recorded: "recorded op a hash st \<Longrightarrow> recorded op a hash (exec h c call st)"
proof (cases "call_ops call = {}")
  case True
  then show "recorded op a hash st \<Longrightarrow> recorded op a hash (exec h c call st)"
    using recorded_same_journal [OF exec_journal] by blast
next
  case False
  then obtain req op' where "call = Contract req op'" by (cases call) auto
  then show "recorded op a hash st \<Longrightarrow> recorded op a hash (exec h c call st)"
    using keeps_recorded_perform by (simp add: run_state_def keeps_def)
qed

lemma run_recorded: "provider_run h c Ops st st' \<Longrightarrow> recorded op a hash st \<Longrightarrow> recorded op a hash st'"
  by (induction rule: provider_run.induct) (simp_all add: exec_recorded)

section \<open>Replay\<close>

text \<open>The state after a replay: one more attempt counted, nothing else.\<close>

lemma replay_recorded:
  assumes "recorded op (ref, r) hash st" "computeRequestHash (sha256 h) kind payload = Inr hash"
  shows "\<exists>st'. runIdempotent h kind op payload m st = (Inr r, st') \<and> same_money st st' \<and> ps_ticks st' = ps_ticks st"
proof -
  obtain e where "mget (ps_journal st) op = Some e" "je_applied e = Some (ref, r)" "je_requestHash e = hash"
    using assms(1) by (auto simp: recorded_def)
  with assms(2) show ?thesis
    by (simp add: runIdempotent_def abind_def alift_def aget_def save_entry_def amodify_def areturn_def Let_def same_money_def)
qed

text \<open>A call that returned, and a call whose effect was applied but whose answer was lost, are both recorded.\<close>

definition is_applied :: "string \<Rightarrow> provider_state \<Rightarrow> bool" where
  "is_applied op st \<longleftrightarrow> (case mget (ps_journal st) op of None \<Rightarrow> False | Some e \<Rightarrow> je_applied e \<noteq> None)"

lemma run_outcome:
  assumes ids: "ids_ok st" and m: "keeps_journal m" and run: "runIdempotent h kind op payload m st = (out, st')"
  shows "ids_ok st' \<and> (case out of
      Inr r \<Rightarrow> \<exists>ref hash. recorded op (ref, r) hash st' \<and> computeRequestHash (sha256 h) kind payload = Inr hash
    | Inl err \<Rightarrow> (is_applied op st' \<and> \<not> is_applied op st \<longrightarrow>
         err = provider_error PROVIDER_TIMEOUT (Some UNKNOWN) (Some op) \<and>
         (\<exists>ref r hash. recorded op (ref, r) hash st' \<and> computeRequestHash (sha256 h) kind payload = Inr hash)))"
proof -
  let ?good = "\<lambda>r st'. ids_ok st' \<and> (\<exists>ref hash. recorded op (ref, r) hash st' \<and> computeRequestHash (sha256 h) kind payload = Inr hash)"
  let ?bad = "\<lambda>err st'. ids_ok st' \<and> (is_applied op st' \<and> \<not> is_applied op st \<longrightarrow>
         err = provider_error PROVIDER_TIMEOUT (Some UNKNOWN) (Some op) \<and>
         (\<exists>ref r hash. recorded op (ref, r) hash st' \<and> computeRequestHash (sha256 h) kind payload = Inr hash))"
  have attempt: "wp (attempt kind op e m) ?good ?bad st1"
    if ids1: "ids_ok st1" and e: "je_operationId e = op" "je_applied e = None" "je_requestHash e = hash"
      and hash: "computeRequestHash (sha256 h) kind payload = Inr hash" for st1 e hash
  proof (cases "consume_slots kind op (ps_failureRules st1)")
    case (Pair failure slots)
    let ?st = "st1\<lparr>ps_failureRules := slots\<rparr>"
    have eff: "wp m (\<lambda>_ st'. ps_journal st' = ps_journal ?st) (\<lambda>_ st'. ps_journal st' = ps_journal ?st) ?st"
      using m unfolding keeps_journal_def by blast
    have saved: "ids_ok (st'\<lparr>ps_journal := mput op e' (ps_journal st')\<rparr>)"
      if "ps_journal st' = ps_journal st1" "je_operationId e' = op" for st' e'
      using ids1 that by (simp add: ids_ok_def)
    have "wp m (\<lambda>a st'. (if failure = Some ACCEPT_THEN_TIMEOUT then
            ?bad (provider_error PROVIDER_TIMEOUT (Some UNKNOWN) (Some op)) (st'\<lparr>ps_journal := mput op
                 (e\<lparr>je_applied := Some a, je_lastErrorCode := Some PROVIDER_TIMEOUT\<rparr>) (ps_journal st')\<rparr>)
          else ?good (snd a) (st'\<lparr>ps_journal := mput op
                 (e\<lparr>je_applied := Some a, je_lastErrorCode := None\<rparr>) (ps_journal st')\<rparr>)))
        (\<lambda>err st'. ?bad err (st'\<lparr>ps_journal := mput op (e\<lparr>je_lastErrorCode := Some (error_code err)\<rparr>) (ps_journal st')\<rparr>)) ?st"
      by (rule wp_mono [OF eff]) (use e hash ids1 in \<open>auto simp: recorded_def ids_ok_def is_applied_def\<close>)
    then show ?thesis
      using e saved [of ?st] by (cases "failure = Some ACCEPT_THEN_TIMEOUT")
        (auto simp: wp_attempt Pair Let_def is_applied_def)
  qed
  have "wp (runIdempotent h kind op payload m) ?good ?bad st"
  proof (cases "computeRequestHash (sha256 h) kind payload")
    case (Inl err)
    with ids show ?thesis by (simp add: runIdempotent_def wp)
  next
    case (Inr hash)
    show ?thesis
    proof (cases "mget (ps_journal st) op")
      case None
      let ?e = "(new_entry op kind hash)\<lparr>je_attemptCount := 1\<rparr>"
      have e: "je_operationId ?e = op" "je_applied ?e = None" "je_requestHash ?e = hash" by (simp_all add: new_entry_def)
      have "ids_ok (st\<lparr>ps_journal := mput op ?e (ps_journal st)\<rparr>)" using ids e(1) by (simp add: ids_ok_def)
      from attempt [OF this e Inr] None Inr ids show ?thesis
        by (simp add: runIdempotent_def wp Let_def new_entry_def)
    next
      case (Some e0)
      let ?e = "e0\<lparr>je_attemptCount := je_attemptCount e0 + 1\<rparr>"
      let ?st = "st\<lparr>ps_journal := mput op ?e (ps_journal st)\<rparr>"
      have e: "je_operationId ?e = op" using ids Some by (simp add: ids_ok_def)
      have ids1: "ids_ok ?st" using ids e by (simp add: ids_ok_def)
      show ?thesis
      proof (cases "je_requestHash e0 = hash")
        case False
        with Some Inr ids show ?thesis by (auto simp: runIdempotent_def wp Let_def is_applied_def)
      next
        case True
        show ?thesis
        proof (cases "je_applied e0")
          case None
          with attempt [OF ids1 e _ _ Inr] Some Inr True e show ?thesis by (simp add: runIdempotent_def wp Let_def)
        next
          case (Some a)
          then have "recorded op (fst a, snd a) hash ?st"
            using ids1 True by (simp add: recorded_def)
          with Some True Inr ids1 e \<open>mget (ps_journal st) op = Some e0\<close> show ?thesis
            by (cases a) (auto simp: runIdempotent_def wp Let_def)
        qed
      qed
    qed
  qed
  from wp_elim [OF this, where r = out and s' = st'] run show ?thesis by (auto split: sum.splits)
qed

lemma ids_perform: "ids_ok st \<Longrightarrow> ids_ok (snd (perform h c req op st))"
  using run_outcome [OF _ request_effect_journal, of st h "request_kind req" op "request_payload req" h c req op]
  by (cases "runIdempotent h (request_kind req) op (request_payload req) (request_effect h c req op) st")
     (auto simp: perform_eq split: sum.splits)

lemma exec_ids: "ids_ok st \<Longrightarrow> ids_ok (exec h c call st)"
proof (cases "call_ops call = {}")
  case True
  then show "ids_ok st \<Longrightarrow> ids_ok (exec h c call st)" using exec_journal by (simp add: ids_ok_def)
next
  case False
  then obtain req op' where "call = Contract req op'" by (cases call) auto
  then show "ids_ok st \<Longrightarrow> ids_ok (exec h c call st)" using ids_perform by (simp add: run_state_def)
qed

lemma run_ids: "provider_run h c Ops st st' \<Longrightarrow> ids_ok st \<Longrightarrow> ids_ok st'"
  by (induction rule: provider_run.induct) (simp_all add: exec_ids)

lemma initial_ids: "new_MockPaymentProvider options nonce = Inr (c, st) \<Longrightarrow> ids_ok st"
  by (auto simp: new_MockPaymentProvider_def Let_def errors initial_state_def ids_ok_def split: if_splits)

lemma reachable_ids: "reachable h c Ops st \<Longrightarrow> ids_ok st"
  unfolding reachable_def using run_ids initial_ids by blast

text \<open>What a contract call leaves in the journal.\<close>

lemma perform_outcome:
  assumes "ids_ok st" "perform h c req op st = (out, st')"
  shows "case out of
      Inr r \<Rightarrow> \<exists>u ref hash. check_request c req op = Inr u \<and> recorded op (ref, r) hash st'
        \<and> computeRequestHash (sha256 h) (request_kind req) (request_payload req) = Inr hash
    | Inl err \<Rightarrow> is_applied op st' \<and> \<not> is_applied op st \<longrightarrow>
         err = provider_error PROVIDER_TIMEOUT (Some UNKNOWN) (Some op) \<and>
         (\<exists>u ref r hash. check_request c req op = Inr u \<and> recorded op (ref, r) hash st'
            \<and> computeRequestHash (sha256 h) (request_kind req) (request_payload req) = Inr hash)"
proof (cases "check_request c req op")
  case (Inl e)
  with assms(2) show ?thesis by (auto simp: perform_eq)
next
  case (Inr u)
  then have "runIdempotent h (request_kind req) op (request_payload req) (request_effect h c req op) st = (out, st')"
    using assms(2) by (simp add: perform_eq)
  from run_outcome [OF assms(1) request_effect_journal this] Inr show ?thesis by (auto split: sum.splits)
qed

lemma replay_perform:
  assumes "recorded op (ref, r) hash st" "check_request c req op = Inr u"
    and "computeRequestHash (sha256 h) (request_kind req) (request_payload req) = Inr hash"
  shows "\<exists>st'. perform h c req op st = (Inr r, st') \<and> same_money st st'"
  using replay_recorded [OF assms(1,3), of "request_effect h c req op"] assms(2) by (auto simp: perform_eq)

section \<open>What was not applied changed nothing\<close>

lemma wp_True [simp]: "wp m (\<lambda>_ _. True) (\<lambda>_ _. True) st"
  by (simp add: wp_def split: prod.splits sum.splits)

lemma same_money_refl [simp]: "same_money st st"
  by (simp add: same_money_def)

lemma effect_error_harmless:
  assumes "provider_inv h c Ops st0" "ps_transfers st = ps_transfers st0" "ps_fundings st = ps_fundings st0"
  shows "wp (request_effect h c req op) (\<lambda>_ _. True) (\<lambda>e st'. same_money st st' \<and> ps_journal st' = ps_journal st
    \<and> error_code e \<noteq> PROVIDER_TIMEOUT) st"
proof (cases req)
  case (Fund_Request i)
  then show ?thesis by (simp add: funding_effect_def wp Let_def)
next
  case (Cancel_Request ref)
  then show ?thesis by (auto simp: cancel_effect_def wp Let_def same_money_def split: option.splits)
next
  case (Release_Request i)
  then show ?thesis
    by (auto simp: release_effect_def wp Let_def assertTransferAgainst_def split: option.splits sum.splits if_splits)
next
  case (Refund_Request i)
  then show ?thesis
    by (auto simp: refund_effect_def wp Let_def assertTransferAgainst_def split: option.splits sum.splits if_splits)
next
  case (Reversal_Request i)
  have known: "id_pattern 0 254 (tr_fundingReference r)" "mget (ps_fundings st) (tr_fundingReference r) \<noteq> None"
    if "mget (ps_transfers st) k = Some r" for k r
    using assms that money_invD(2) [of h c "applied_ops st0" st0 k r] by (auto simp: provider_inv_def transfer_ok_def)
  from Reversal_Request show ?thesis
    by (auto simp: reversal_effect_def wp Let_def split: option.splits dest: known)
qed

lemma not_applied_harmless:
  assumes inv: "provider_inv h c Ops st" and run: "perform h c req op st = (Inl err, st')"
    and out: "error_outcome err = NOT_APPLIED"
  shows "same_money st st'"
proof -
  let ?E = "\<lambda>err st'. error_outcome err = NOT_APPLIED \<longrightarrow> same_money st st'"
  let ?m = "request_effect h c req op"
  have attempt: "wp (attempt kind op e ?m) (\<lambda>_ _. True) ?E st1" if st1: "st1 = st\<lparr>ps_journal := J\<rparr>" for kind e J st1
  proof (cases "consume_slots kind op (ps_failureRules st1)")
    case (Pair failure slots)
    let ?st = "st1\<lparr>ps_failureRules := slots\<rparr>"
    have sm: "same_money ?st x = same_money st x" "same_money st (x\<lparr>ps_journal := K\<rparr>) = same_money st x"
      "same_money st ?st" for x K
      by (simp_all add: same_money_def st1)
    have eff: "wp ?m (\<lambda>_ _. True) (\<lambda>e st'. same_money ?st st' \<and> ps_journal st' = ps_journal ?st \<and> error_code e \<noteq> PROVIDER_TIMEOUT) ?st"
      by (rule effect_error_harmless [OF inv]) (simp_all add: st1)
    have "wp ?m (\<lambda>a st'. True)
        (\<lambda>err st'. ?E err (st'\<lparr>ps_journal := mput (je_operationId e)
                 (e\<lparr>je_lastErrorCode := Some (error_code err)\<rparr>) (ps_journal st')\<rparr>)) ?st"
      by (rule wp_mono [OF eff]) (simp_all add: sm)
    then show ?thesis
      using sm by (cases "failure = Some ACCEPT_THEN_TIMEOUT")
         (simp_all add: wp_attempt Pair Let_def provider_error_def)
  qed
  show ?thesis
  proof (cases "check_request c req op")
    case (Inl e)
    with run show ?thesis by (simp add: perform_eq)
  next
    case (Inr u)
    have "wp (runIdempotent h (request_kind req) op (request_payload req) ?m) (\<lambda>_ _. True) ?E st"
      by (auto simp: runIdempotent_def wp Let_def same_money_def split: sum.splits option.splits intro!: attempt [OF refl, simplified same_money_def])
    from wp_elim [OF this, where r = "Inl err" and s' = st'] run Inr out show ?thesis by (simp add: perform_eq)
  qed
qed

end
