(* ===== verification/Provider_Properties.thy ===== *)
theory Provider_Properties
  imports Provider_Replay
begin

text \<open>
  The properties of \<open>MockPaymentProvider\<close> over every sequence of calls, each with a concrete run
  where its hypotheses hold.
\<close>

section \<open>A concrete run\<close>

definition example_options :: provider_options where
  "example_options = \<lparr>po_mode = None, po_accountId = Some ''a'', po_webhookSecrets = [''0123456789abcdef''],
     po_supportedCurrencies = None, po_maxAtomicAmount = None, po_partialRefund = None,
     po_payeesWithoutPayouts = None, po_bankTransferFunding = None, po_payeeBalances = None,
     po_releaseSettlement = None, po_refundSettlement = None, po_failureInjection = None,
     po_webhookToleranceSeconds = None\<rparr>"

definition example_config :: provider_config where
  "example_config = fst (projr (new_MockPaymentProvider example_options ''n''))"

definition example_start :: provider_state where
  "example_start = snd (projr (new_MockPaymentProvider example_options ''n''))"

definition example_funding :: funding_input where
  "example_funding = \<lparr>fi_orderId = ''o1'', fi_buyerId = ''b1'', fi_payeeAccountId = ''p1'', fi_amount = 100,
     fi_currency = ''USD'', fi_platformFee = 0, fi_description = None, fi_method = None\<rparr>"

definition example_ref :: string where
  "example_ref = ''mock_fund_10dnufpodnufa''"

definition example_release :: "int \<Rightarrow> release_input" where
  "example_release n = \<lparr>ri_fundingReference = example_ref, ri_orderId = ''o1'', ri_payeeAccountId = ''p1'',
     ri_amount = n, ri_currency = ''USD'', ri_platformFee = 0\<rparr>"

definition example_refund :: "int \<Rightarrow> string option \<Rightarrow> refund_input" where
  "example_refund n source = \<lparr>fr_fundingReference = example_ref, fr_orderId = ''o1'', fr_amount = n,
     fr_currency = ''USD'', fr_reason = ''OTHER'', fr_source = source\<rparr>"

text \<open>A funding of 100 created, captured, and 60 of it released.\<close>

definition example_created :: provider_state where
  "example_created = exec example_host example_config (Contract (Fund_Request example_funding) ''opfund01'') example_start"

definition example_captured :: provider_state where
  "example_captured = exec example_host example_config (Funding_Outcome example_ref F_SUCCEEDED None) example_created"

definition example_released :: provider_state where
  "example_released = exec example_host example_config (Contract (Release_Request (example_release 60)) ''oprel001'') example_captured"

definition example_ops :: "string set" where
  "example_ops = {''opfund01'', ''oprel001'', ''opref001'', ''opref002''}"

lemma example_new: "new_MockPaymentProvider example_options ''n'' = Inr (example_config, example_start)"
proof -
  have "\<not> isl (new_MockPaymentProvider example_options ''n'')" by code_simp
  then obtain x where "new_MockPaymentProvider example_options ''n'' = Inr x" by (cases "new_MockPaymentProvider example_options ''n''") auto
  then show ?thesis by (simp add: example_config_def example_start_def)
qed

lemma example_collision_free: "collision_free example_host example_config example_ops"
proof -
  have "distinct (map (referenceFor example_host example_config p) [''opfund01'', ''oprel001'', ''opref001'', ''opref002''])"
    if "p = ''fund'' \<or> p = ''tr'' \<or> p = ''re'' \<or> p = ''trr''" for p
  proof -
    have "distinct (map (referenceFor example_host example_config ''fund'') [''opfund01'', ''oprel001'', ''opref001'', ''opref002''])"
      "distinct (map (referenceFor example_host example_config ''tr'') [''opfund01'', ''oprel001'', ''opref001'', ''opref002''])"
      "distinct (map (referenceFor example_host example_config ''re'') [''opfund01'', ''oprel001'', ''opref001'', ''opref002''])"
      "distinct (map (referenceFor example_host example_config ''trr'') [''opfund01'', ''oprel001'', ''opref001'', ''opref002''])"
      by code_simp+
    with that show ?thesis by blast
  qed
  then show ?thesis
    by (auto simp: collision_free_def op_prefixes_def example_ops_def distinct_map)
qed

lemma example_run:
  "reachable example_host example_config example_ops example_start"
  "reachable example_host example_config example_ops example_created"
  "reachable example_host example_config example_ops example_captured"
  "reachable example_host example_config example_ops example_released"
proof -
  have start: "provider_run example_host example_config example_ops example_start example_start" by (rule run_refl)
  have created: "provider_run example_host example_config example_ops example_start example_created"
    unfolding example_created_def by (rule run_step [OF start]) (simp add: example_ops_def)
  have captured: "provider_run example_host example_config example_ops example_start example_captured"
    unfolding example_captured_def by (rule run_step [OF created]) simp
  have released: "provider_run example_host example_config example_ops example_start example_released"
    unfolding example_released_def by (rule run_step [OF captured]) (simp add: example_ops_def)
  show "reachable example_host example_config example_ops example_start"
    "reachable example_host example_config example_ops example_created"
    "reachable example_host example_config example_ops example_captured"
    "reachable example_host example_config example_ops example_released"
    using example_new start created captured released unfolding reachable_def by blast+
qed

lemma example_values:
  "map_option fd_amount (mget (ps_fundings example_released) example_ref) = Some 100"
  "map_option fd_status (mget (ps_fundings example_released) example_ref) = Some F_SUCCEEDED"
  by code_simp+

lemma example_released_funding: "\<exists>f. mget (ps_fundings example_released) example_ref = Some f \<and> fd_amount f = 100"
  using example_values by (cases "mget (ps_fundings example_released) example_ref") auto

section \<open>Money\<close>

lemma commits_split:
  assumes "transfer_ok h c A fs k t"
  shows "amount_where (has_status ref Release T_SUCCEEDED) t - amount_where (has_status ref Reversal T_SUCCEEDED) t \<le> commits ref t"
  using assms by (cases "tr_kind t"; cases "tr_status t"; cases "tr_source t")
    (auto simp: transfer_ok_def amount_where_def has_status_def commits_def)

lemma funding_sums:
  "funding_ok h c A ts ref f \<Longrightarrow> mtotal (amount_where (has_status ref Reversal T_SUCCEEDED)) ts
     \<le> mtotal (amount_where (has_status ref Release T_SUCCEEDED)) ts"
  unfolding funding_ok_def by blast

lemma commits_nonneg:
  assumes "money_inv h c A st" "mget (ps_fundings st) ref = Some f"
  shows "0 \<le> mtotal (commits ref) (ps_transfers st)"
proof -
  have "mtotal (\<lambda>t. amount_where (has_status ref Release T_SUCCEEDED) t - amount_where (has_status ref Reversal T_SUCCEEDED) t)
      (ps_transfers st) \<le> mtotal (commits ref) (ps_transfers st)"
    by (rule mtotal_mono) (use money_invD(1,2) [OF assms(1)] mem_mget commits_split in metis)
  then show ?thesis
    using funding_sums [OF money_invD(3) [OF assms]] by (simp add: mtotal_diff)
qed

text \<open>C16. Money safety. After any sequence of calls, what releases and principal refunds commit of a funding, less
  what reversals gave back, is never negative and never more than the captured amount; so the available principal that
  a snapshot reports always lies between 0 and the amount, and the platform fee is 0.\<close>

theorem provider_principal_conserved:
  assumes "reachable h c Ops st" "collision_free h c Ops" "mget (ps_fundings st) ref = Some f"
  shows "0 \<le> mtotal (commits ref) (ps_transfers st) \<and> mtotal (commits ref) (ps_transfers st) \<le> fd_amount f
    \<and> 0 \<le> fs_availablePrincipal (fundingSnapshot f (ps_transfers st))
    \<and> fs_availablePrincipal (fundingSnapshot f (ps_transfers st)) \<le> fs_amount (fundingSnapshot f (ps_transfers st))
    \<and> fs_platformFee (fundingSnapshot f (ps_transfers st)) = 0"
proof -
  have inv: "money_inv h c (applied_ops st) st"
    using reachable_inv [OF assms(1,2)] by (simp add: provider_inv_def)
  have ok: "funding_ok h c (applied_ops st) (ps_transfers st) ref f" using money_invD(3) [OF inv assms(3)] .
  then show ?thesis
    using commits_nonneg [OF inv assms(3)]
    by (auto simp: funding_ok_def fundingSnapshot_def Let_def availablePrincipal_def PLATFORM_FEE_ATOMIC_def)
qed

lemma provider_principal_conserved_witness:
  "\<exists>f. mget (ps_fundings example_released) example_ref = Some f \<and> fd_amount f = 100
     \<and> mtotal (commits example_ref) (ps_transfers example_released) \<le> 100"
proof -
  obtain f where f: "mget (ps_fundings example_released) example_ref = Some f" "fd_amount f = 100"
    using example_released_funding by blast
  with provider_principal_conserved [OF example_run(4) example_collision_free f(1)] show ?thesis by auto
qed

text \<open>Transfer safety. After any sequence of calls, no more was reversed of a funding than was released from it;
  every transfer belongs to a funding that was captured, in its order and currency, a release to the funding's own
  payee; and it came from an applied operation, which made no other transfer of its kind.\<close>

theorem provider_transfers_sound:
  assumes "reachable h c Ops st" "collision_free h c Ops" "mget (ps_transfers st) k = Some t"
  shows "\<exists>f. mget (ps_fundings st) (tr_fundingReference t) = Some f \<and> fd_status f \<in> {F_SUCCEEDED, RETURNED}
      \<and> tr_orderId t = fd_orderId f \<and> tr_currency t = fd_currency f \<and> 0 < tr_amount t
      \<and> (tr_kind t = Release \<longrightarrow> tr_payeeAccountId t = Some (fd_payeeAccountId f))
      \<and> is_applied (tr_operationId t) st
      \<and> (\<forall>k' t'. mget (ps_transfers st) k' = Some t' \<and> tr_operationId t' = tr_operationId t \<and> tr_kind t' = tr_kind t \<longrightarrow> k' = k)
      \<and> mtotal (amount_where (has_status (tr_fundingReference t) Reversal T_SUCCEEDED)) (ps_transfers st)
          \<le> mtotal (amount_where (has_status (tr_fundingReference t) Release T_SUCCEEDED)) (ps_transfers st)"
proof -
  have inv: "money_inv h c (applied_ops st) st"
    using reachable_inv [OF assms(1,2)] by (simp add: provider_inv_def)
  note tok = money_invD(2) [OF inv]
  obtain f where f: "mget (ps_fundings st) (tr_fundingReference t) = Some f" "fd_status f \<in> {F_SUCCEEDED, RETURNED}"
      "tr_orderId t = fd_orderId f" "tr_currency t = fd_currency f" "0 < tr_amount t"
      "tr_kind t = Release \<longrightarrow> tr_payeeAccountId t = Some (fd_payeeAccountId f)" "tr_operationId t \<in> applied_ops st"
    using tok [OF assms(3)] by (auto simp: transfer_ok_def)
  have "is_applied (tr_operationId t) st"
    using f(7) by (auto simp: applied_ops_def is_applied_def)
  moreover have "k' = k" if "mget (ps_transfers st) k' = Some t'" "tr_operationId t' = tr_operationId t" "tr_kind t' = tr_kind t" for k' t'
    using tok [OF assms(3)] tok [OF that(1)] that(2,3) by (simp add: transfer_ok_def)
  moreover have "mtotal (amount_where (has_status (tr_fundingReference t) Reversal T_SUCCEEDED)) (ps_transfers st)
          \<le> mtotal (amount_where (has_status (tr_fundingReference t) Release T_SUCCEEDED)) (ps_transfers st)"
    using funding_sums [OF money_invD(3) [OF inv f(1)]] .
  ultimately show ?thesis using f by blast
qed

lemma example_transfer:
  "map fst (ps_transfers example_released) = [''mock_tr_100lerporta'']" by code_simp

lemma provider_transfers_sound_witness:
  "\<exists>t f. mget (ps_transfers example_released) ''mock_tr_100lerporta'' = Some t
     \<and> mget (ps_fundings example_released) (tr_fundingReference t) = Some f \<and> tr_orderId t = fd_orderId f"
proof -
  obtain t where "ps_transfers example_released = [(''mock_tr_100lerporta'', t)]"
    using example_transfer by auto
  then have "mget (ps_transfers example_released) ''mock_tr_100lerporta'' = Some t" by simp
  with provider_transfers_sound [OF example_run(4) example_collision_free this] show ?thesis by blast
qed

section \<open>Idempotency\<close>

text \<open>C17. Replay. When an operation returned a result, then after any further calls, the same request under the same
  operation id returns the same result again and changes no funding, transfer, dispute, balance or event.\<close>

theorem idempotent_replay:
  assumes "reachable h c Ops st" "perform h c req op st = (Inr r, st1)" "provider_run h c Ops' st1 st2"
  shows "\<exists>st3. perform h c req op st2 = (Inr r, st3) \<and> same_money st2 st3"
proof -
  obtain u ref hash where "check_request c req op = Inr u" "recorded op (ref, r) hash st1"
      "computeRequestHash (sha256 h) (request_kind req) (request_payload req) = Inr hash"
    using perform_outcome [OF reachable_ids [OF assms(1)] assms(2)] by auto
  then show ?thesis using replay_perform run_recorded [OF assms(3)] by blast
qed

text \<open>A call on a concrete state returned: its result and the state that \<open>exec\<close> gives.\<close>

lemma returned:
  "\<not> isl (fst (perform h c req op st)) \<Longrightarrow>
     \<exists>r. perform h c req op st = (Inr r, exec h c (Contract req op) st)"
  by (cases "perform h c req op st"; cases "fst (perform h c req op st)") (auto simp: run_state_def)

lemma threw:
  "isl (fst (perform h c req op st)) \<Longrightarrow>
     \<exists>e. perform h c req op st = (Inl e, exec h c (Contract req op) st) \<and> e = projl (fst (perform h c req op st))"
  by (cases "perform h c req op st"; cases "fst (perform h c req op st)") (auto simp: run_state_def)

lemma example_release_returned:
  "\<exists>r. perform example_host example_config (Release_Request (example_release 60)) ''oprel001'' example_captured
     = (Inr r, example_released)"
proof -
  have "\<not> isl (fst (perform example_host example_config (Release_Request (example_release 60)) ''oprel001'' example_captured))"
    by code_simp
  from returned [OF this] show ?thesis by (simp only: example_released_def)
qed

lemma idempotent_replay_witness:
  "\<exists>r st3. perform example_host example_config (Release_Request (example_release 60)) ''oprel001'' example_released
     = (Inr r, st3) \<and> same_money example_released st3"
proof -
  obtain r where "perform example_host example_config (Release_Request (example_release 60)) ''oprel001'' example_captured
      = (Inr r, example_released)"
    using example_release_returned by blast
  from idempotent_replay [OF example_run(3) this run_refl] show ?thesis by blast
qed

text \<open>Recovery. When the answer of an operation was lost after the provider accepted it, the caller saw a timeout
  with outcome UNKNOWN; and after any further calls a retry of the same request returns the result of the one effect
  that took place, and changes no funding, transfer, dispute, balance or event.\<close>

theorem lost_answer_recovered:
  assumes "reachable h c Ops st" "perform h c req op st = (Inl err, st1)" "\<not> is_applied op st" "is_applied op st1"
    and "provider_run h c Ops' st1 st2"
  shows "error_code err = PROVIDER_TIMEOUT \<and> error_outcome err = UNKNOWN
    \<and> (\<exists>r st3. perform h c req op st2 = (Inr r, st3) \<and> same_money st2 st3)"
proof -
  obtain u ref r hash where err: "err = provider_error PROVIDER_TIMEOUT (Some UNKNOWN) (Some op)"
    and rec: "check_request c req op = Inr u" "recorded op (ref, r) hash st1"
      "computeRequestHash (sha256 h) (request_kind req) (request_payload req) = Inr hash"
    using perform_outcome [OF reachable_ids [OF assms(1)] assms(2)] assms(3,4) by auto
  show ?thesis
    using replay_perform [OF run_recorded [OF assms(5) rec(2)] rec(1,3)] by (auto simp: err provider_error_def)
qed

definition lossy_options :: provider_options where
  "lossy_options = example_options\<lparr>po_failureInjection := Some [\<lparr>fl_kind = Funding_Create, fl_operationId = None,
     fl_effect = ACCEPT_THEN_TIMEOUT, fl_times = None\<rparr>]\<rparr>"

definition lossy_start :: provider_state where
  "lossy_start = snd (projr (new_MockPaymentProvider lossy_options ''n''))"

lemma lossy_reachable: "reachable example_host example_config example_ops lossy_start"
proof -
  have "\<not> isl (new_MockPaymentProvider lossy_options ''n'')" by code_simp
  moreover have "fst (projr (new_MockPaymentProvider lossy_options ''n'')) = example_config" by code_simp
  ultimately have "new_MockPaymentProvider lossy_options ''n'' = Inr (example_config, lossy_start)"
    by (cases "new_MockPaymentProvider lossy_options ''n''") (auto simp: lossy_start_def)
  then show ?thesis unfolding reachable_def using run_refl by blast
qed

lemma lost_answer_recovered_witness:
  "\<exists>r st1 st3. perform example_host example_config (Fund_Request example_funding) ''opfund01'' st1 = (Inr r, st3)
     \<and> same_money st1 st3"
proof -
  let ?st = "exec example_host example_config (Contract (Fund_Request example_funding) ''opfund01'') lossy_start"
  have "isl (fst (perform example_host example_config (Fund_Request example_funding) ''opfund01'' lossy_start))"
    and now: "is_applied ''opfund01'' ?st" and before: "\<not> is_applied ''opfund01'' lossy_start"
    by code_simp+
  from threw [OF this(1)] obtain e where
    "perform example_host example_config (Fund_Request example_funding) ''opfund01'' lossy_start = (Inl e, ?st)" by blast
  from lost_answer_recovered [OF lossy_reachable this before now run_refl] show ?thesis by blast
qed

text \<open>Honest failure. When an operation fails with outcome NOT_APPLIED, it changed no funding, transfer, dispute,
  payee balance or event.\<close>

theorem not_applied_changes_nothing:
  assumes "reachable h c Ops st" "collision_free h c Ops" "perform h c req op st = (Inl err, st1)"
    and "error_outcome err = NOT_APPLIED"
  shows "same_money st st1"
  using not_applied_harmless [OF reachable_inv [OF assms(1,2)] assms(3,4)] .

lemma not_applied_changes_nothing_witness:
  "same_money example_start
     (exec example_host example_config (Contract (Release_Request (example_release 60)) ''oprel001'') example_start)"
proof -
  have "isl (fst (perform example_host example_config (Release_Request (example_release 60)) ''oprel001'' example_start))"
    and out: "error_outcome (projl (fst (perform example_host example_config (Release_Request (example_release 60))
       ''oprel001'' example_start))) = NOT_APPLIED"
    by code_simp+
  from threw [OF this(1)] obtain e where
    e: "perform example_host example_config (Release_Request (example_release 60)) ''oprel001'' example_start
       = (Inl e, exec example_host example_config (Contract (Release_Request (example_release 60)) ''oprel001'') example_start)"
    and eq: "e = projl (fst (perform example_host example_config (Release_Request (example_release 60)) ''oprel001'' example_start))"
    by blast
  from not_applied_changes_nothing [OF example_run(1) example_collision_free e] out eq show ?thesis by simp
qed

text \<open>Conflict. An operation id that was used for one request is refused, with IDEMPOTENCY_CONFLICT and no change
  at all, for a request with another hash.\<close>

theorem different_request_conflicts:
  assumes "reachable h c Ops st" "perform h c req op st = (Inr r, st1)" "provider_run h c Ops' st1 st2"
    and "check_request c req' op = Inr u"
    and "computeRequestHash (sha256 h) (request_kind req') (request_payload req') = Inr hash'"
    and "computeRequestHash (sha256 h) (request_kind req) (request_payload req) \<noteq> Inr hash'"
  shows "perform h c req' op st2 = (Inl (perr_op IDEMPOTENCY_CONFLICT op), st2)"
proof -
  obtain ref hash where "recorded op (ref, r) hash st1"
      "computeRequestHash (sha256 h) (request_kind req) (request_payload req) = Inr hash"
    using perform_outcome [OF reachable_ids [OF assms(1)] assms(2)] by auto
  then have "recorded op (ref, r) hash st2" "hash \<noteq> hash'" using run_recorded [OF assms(3)] assms(6) by auto
  then show ?thesis
    using assms(4,5)
    by (auto simp: perform_eq recorded_def runIdempotent_def abind_def alift_def aget_def afail_def)
qed

lemma different_request_conflicts_witness:
  "perform example_host example_config (Release_Request (example_release 61)) ''oprel001'' example_released
     = (Inl (perr_op IDEMPOTENCY_CONFLICT ''oprel001''), example_released)"
proof -
  obtain r where r: "perform example_host example_config (Release_Request (example_release 60)) ''oprel001'' example_captured
      = (Inr r, example_released)"
    using example_release_returned by blast
  have check: "check_request example_config (Release_Request (example_release 61)) ''oprel001'' = Inr ()" by code_simp
  have "\<not> isl (computeRequestHash (sha256 example_host) (request_kind (Release_Request (example_release 61)))
      (request_payload (Release_Request (example_release 61))))" by code_simp
  then obtain hash where hash: "computeRequestHash (sha256 example_host) (request_kind (Release_Request (example_release 61)))
      (request_payload (Release_Request (example_release 61))) = Inr hash"
    by (cases "computeRequestHash (sha256 example_host) (request_kind (Release_Request (example_release 61)))
      (request_payload (Release_Request (example_release 61)))") auto
  have "computeRequestHash (sha256 example_host) (request_kind (Release_Request (example_release 60)))
      (request_payload (Release_Request (example_release 60)))
      \<noteq> computeRequestHash (sha256 example_host) (request_kind (Release_Request (example_release 61)))
      (request_payload (Release_Request (example_release 61)))" by code_simp
  from different_request_conflicts [OF example_run(3) r run_refl check hash this [unfolded hash]] show ?thesis .
qed

end
