(* ===== verification/Provider_Status.thy ===== *)
theory Provider_Status
  imports Provider_Properties
begin

text \<open>
  How the status of a funding may move: every call leaves each funding where it is or moves it along
  one edge of the state machine, and never touches what the funding is about.
\<close>

text \<open>A fact about the money state that every effect establishes holds after the whole call.\<close>

lemma perform_establishes:
  assumes eff: "\<And>J slots. \<not> is_applied op st \<Longrightarrow>
      wp (request_effect h c req op) (\<lambda>_. R) (\<lambda>_. R) (st\<lparr>ps_journal := J, ps_failureRules := slots\<rparr>)"
    and here: "R st" and journal: "\<And>x J. R (x\<lparr>ps_journal := J\<rparr>) = R x" and slots: "\<And>x l. R (x\<lparr>ps_failureRules := l\<rparr>) = R x"
  shows "R (snd (perform h c req op st))"
proof (cases "check_request c req op")
  case (Inl e)
  with here show ?thesis by (simp add: perform_eq)
next
  case (Inr u)
  let ?m = "request_effect h c req op"
  have attempt: "wp (attempt kind op e ?m) (\<lambda>_. R) (\<lambda>_. R) (st\<lparr>ps_journal := J\<rparr>)"
    if fresh: "\<not> is_applied op st" for kind e J
  proof (cases "consume_slots kind op (ps_failureRules st)")
    case (Pair failure l)
    have "wp ?m (\<lambda>a st'. R (st'\<lparr>ps_journal := F a st'\<rparr>)) (\<lambda>err st'. R (st'\<lparr>ps_journal := G err st'\<rparr>))
        (st\<lparr>ps_journal := J, ps_failureRules := l\<rparr>)" for F G
      by (rule wp_mono [OF eff [OF fresh]]) (simp_all add: journal)
    then show ?thesis
      using here by (cases "failure = Some ACCEPT_THEN_TIMEOUT") (simp_all add: wp_attempt Pair Let_def journal slots)
  qed
  have "wp (runIdempotent h (request_kind req) op (request_payload req) ?m) (\<lambda>_. R) (\<lambda>_. R) st"
    using here attempt
    by (auto simp: runIdempotent_def wp Let_def journal is_applied_def new_entry_def split: sum.splits option.splits)
  with Inr show ?thesis by (simp add: perform_eq wp_state)
qed

definition status_edge :: "funding_status_code \<Rightarrow> funding_status_code \<Rightarrow> bool" where
  "status_edge s s' \<longleftrightarrow> (s, s') \<in> {(REQUIRES_ACTION, PROCESSING), (REQUIRES_ACTION, F_SUCCEEDED),
     (REQUIRES_ACTION, F_FAILED), (PROCESSING, F_SUCCEEDED), (PROCESSING, F_FAILED),
     (REQUIRES_ACTION, CANCELED), (PROCESSING, CANCELED), (CANCELED, F_SUCCEEDED), (F_SUCCEEDED, RETURNED)}"

lemma allowed_edge: "s \<in> set (allowed_outcomes s0) \<Longrightarrow> status_edge s0 s"
  by (cases s0) (auto simp: status_edge_def)

definition funding_step :: "funding_record \<Rightarrow> funding_record \<Rightarrow> bool" where
  "funding_step f f' \<longleftrightarrow> fd_reference f' = fd_reference f \<and> fd_operationId f' = fd_operationId f
     \<and> fd_method f' = fd_method f \<and> fd_orderId f' = fd_orderId f \<and> fd_buyerId f' = fd_buyerId f
     \<and> fd_payeeAccountId f' = fd_payeeAccountId f \<and> fd_amount f' = fd_amount f \<and> fd_currency f' = fd_currency f
     \<and> fd_createdAt f' = fd_createdAt f \<and> (fd_status f' = fd_status f \<or> status_edge (fd_status f) (fd_status f'))"

definition fundings_step :: "provider_state \<Rightarrow> provider_state \<Rightarrow> bool" where
  "fundings_step st st' \<longleftrightarrow> (\<forall>k f. mget (ps_fundings st) k = Some f \<longrightarrow>
     (\<exists>f'. mget (ps_fundings st') k = Some f' \<and> funding_step f f'))"

lemma fundings_step_same: "ps_fundings st' = ps_fundings st \<Longrightarrow> fundings_step st st'"
  by (auto simp: fundings_step_def funding_step_def)

lemma fundings_step_put:
  assumes "ps_fundings st' = mput (fd_reference f') f' (ps_fundings st)" "mget (ps_fundings st) k = Some f"
    and "fd_reference f = k" "funding_step f f'"
  shows "fundings_step st st'"
  using assms by (auto simp: fundings_step_def funding_step_def)

lemma fundings_step_cong:
  "fundings_step st (x\<lparr>ps_journal := J\<rparr>) = fundings_step st x" "fundings_step st (x\<lparr>ps_failureRules := l\<rparr>) = fundings_step st x"
  by (simp_all add: fundings_step_def)

lemma fundings_step_of_wp:
  "wp m (\<lambda>_ st'. fundings_step st st') (\<lambda>_ st'. fundings_step st st') st \<Longrightarrow> fundings_step st (run_state m st)"
  by (simp add: wp_state run_state_def)

lemma wp_publish_step:
  assumes "mget (ps_fundings st) k = Some f" "fd_reference f = k" "funding_step f f'"
  shows "wp (publish_funding h c type f') (\<lambda>_. fundings_step st) (\<lambda>_. fundings_step st) (st\<lparr>ps_ticks := n\<rparr>)"
proof -
  have "fd_reference f' = k" using assms(2,3) by (simp add: funding_step_def)
  then show ?thesis
    using fundings_step_put [OF _ assms(1,2,3)] by (simp add: wp_publish Let_def)
qed

lemma keeps_fundings:
  assumes "keeps (\<lambda>st'. ps_fundings st' = ps_fundings st) m"
  shows "fundings_step st (run_state m st)"
  using assms fundings_step_same by (simp add: keeps_def run_state_def)

lemma fundings_untouched:
  "keeps (\<lambda>st'. ps_fundings st' = J) (setPayeeBalance p n)"
  "keeps (\<lambda>st'. ps_fundings st' = J) (simulateChargeback h c ref a)"
  "keeps (\<lambda>st'. ps_fundings st' = J) (simulateChargebackOutcome h c ref won)"
  "keeps (\<lambda>st'. ps_fundings st' = J) (verifyWebhook h c body hs)"
  "keeps (\<lambda>st'. ps_fundings st' = J) (simulateReleaseOutcome h c ref ok)"
  "keeps (\<lambda>st'. ps_fundings st' = J) (simulateRefundOutcome h c ref ok)"
  "keeps (\<lambda>st'. ps_fundings st' = J) (takeWebhookDeliveries h c)"
  "keeps (\<lambda>st'. ps_fundings st' = J) (redeliverWebhook h c eid)"
proof -
  let ?P = "\<lambda>st'. ps_fundings st' = J"
  show "keeps ?P (setPayeeBalance p n)"
    by (rule keepsI) (auto simp: setPayeeBalance_def wp split: sum.splits)
  show "keeps ?P (simulateChargeback h c ref a)"
    by (rule keepsI) (auto simp: simulateChargeback_def wp Let_def split: sum.splits option.splits)
  show "keeps ?P (simulateChargebackOutcome h c ref won)"
    by (rule keepsI) (auto simp: simulateChargebackOutcome_def wp Let_def split: sum.splits option.splits)
  show "keeps ?P (verifyWebhook h c body hs)"
    by (rule keepsI) (auto simp: verifyWebhook_def now_seconds_def wp split: sum.splits)
  show "keeps ?P (simulateReleaseOutcome h c ref ok)"
    by (rule keepsI) (auto simp: simulateReleaseOutcome_def getReleaseStatus_def wp_settleTransfer wp Let_def split: option.splits)
  show "keeps ?P (simulateRefundOutcome h c ref ok)"
    by (rule keepsI) (auto simp: simulateRefundOutcome_def getRefundStatus_def wp_settleTransfer wp Let_def split: option.splits)
  have event: "keeps ?P (sign_event h c e)" for e
    by (rule keepsI) (auto simp: sign_event_def now_seconds_def wp split: sum.splits)
  have all: "keeps ?P (sign_all h c es)" for es
    by (induction es) (auto intro!: event)
  have "keeps ?P (amodify (\<lambda>st. st\<lparr>ps_undelivered := []\<rparr>))" by (rule keeps_modify) simp
  with all show "keeps ?P (takeWebhookDeliveries h c)" unfolding takeWebhookDeliveries_def by blast
  have "keeps ?P (case found of None \<Rightarrow> afail (perr NOT_FOUND) | Some e \<Rightarrow> sign_event h c e)" for found
    using event by (cases found) auto
  then show "keeps ?P (redeliverWebhook h c eid)"
    unfolding redeliverWebhook_def by (intro keeps_bind keeps_aget)
qed

text \<open>Every call leaves every funding in place, with its amount, currency, order, parties and method; and its
  status stays or moves along one edge: to PROCESSING, SUCCEEDED or FAILED from the open states, to CANCELED from them,
  from CANCELED to SUCCEEDED (a late capture), from SUCCEEDED to RETURNED (a bank return), and nowhere else.\<close>

theorem funding_status_moves:
  assumes "reachable h c Ops st" "collision_free h c Ops" "call_ops call \<subseteq> Ops"
  shows "fundings_step st (exec h c call st)"
proof -
  have inv: "provider_inv h c Ops st" using reachable_inv [OF assms(1,2)] .
  then have money: "money_inv h c (applied_ops st) st" by (simp add: provider_inv_def)
  have ref: "fd_reference f = k" if "mget (ps_fundings st) k = Some f" for k f
    using money_invD(3) [OF money that] by (simp add: funding_ok_def)
  show ?thesis
  proof (cases call)
    case (Contract req op)
    have op: "op \<in> Ops" using assms(3) by (simp add: Contract)
    have eff: "wp (request_effect h c req op) (\<lambda>_. fundings_step st) (\<lambda>_. fundings_step st)
        (st\<lparr>ps_journal := J, ps_failureRules := slots\<rparr>)" if fresh: "\<not> is_applied op st" for J slots
    proof (cases req)
      case (Fund_Request i)
      have notin: "op \<notin> applied_ops st" using fresh by (auto simp: is_applied_def applied_ops_def)
      have "mget (ps_fundings st) (referenceFor h c ''fund'' op) = None"
      proof (rule ccontr)
        assume "mget (ps_fundings st) (referenceFor h c ''fund'' op) \<noteq> None"
        then obtain g where "funding_ok h c (applied_ops st) (ps_transfers st) (referenceFor h c ''fund'' op) g"
          using money_invD(3) [OF money] by blast
        then have "referenceFor h c ''fund'' op = referenceFor h c ''fund'' (fd_operationId g)" "fd_operationId g \<in> applied_ops st"
          by (auto simp: funding_ok_def)
        moreover have "inj_on (referenceFor h c ''fund'') Ops"
          using assms(2) by (simp add: collision_free_def op_prefixes_def)
        ultimately show False using op notin inv by (auto simp: provider_inv_def dest: inj_onD)
      qed
      then show ?thesis
        by (auto simp: Fund_Request funding_effect_def wp Let_def fundings_step_def funding_step_def)
    next
      case (Cancel_Request r)
      have "fundings_step st st'"
        if "mget (ps_fundings st) r = Some f" "fd_status f = REQUIRES_ACTION \<or> fd_status f = PROCESSING"
          "ps_fundings st' = mput (fd_reference f) (f\<lparr>fd_status := CANCELED, fd_updatedAt := t\<rparr>) (ps_fundings st)" for f st' t
        using that ref [OF that(1)]
        by (intro fundings_step_put [OF _ that(1), of st' "f\<lparr>fd_status := CANCELED, fd_updatedAt := t\<rparr>"])
           (auto simp: funding_step_def status_edge_def)
      then show ?thesis
        by (auto simp: Cancel_Request cancel_effect_def wp Let_def intro: fundings_step_same split: option.splits)
    next
      case (Release_Request i)
      then show ?thesis
        by (auto simp: release_effect_def wp Let_def intro!: fundings_step_same split: option.splits sum.splits)
    next
      case (Refund_Request i)
      then show ?thesis
        by (auto simp: refund_effect_def wp Let_def intro!: fundings_step_same split: option.splits sum.splits)
    next
      case (Reversal_Request i)
      then show ?thesis
        by (auto simp: reversal_effect_def wp Let_def intro!: fundings_step_same split: option.splits sum.splits)
    qed
    have "fundings_step st (snd (perform h c req op st))"
      by (rule perform_establishes [where R = "fundings_step st", OF eff]) (simp_all add: fundings_step_cong fundings_step_same)
    then show ?thesis by (simp add: Contract run_state_def)
  next
    case (Funding_Outcome r s fee)
    then show ?thesis
      unfolding exec.simps Funding_Outcome
      by (intro fundings_step_of_wp)
         (auto simp: harness_defs wp ref funding_step_def allowed_edge split: option.splits sum.splits
           intro!: fundings_step_same wp_publish_step)
  next
    case (Late_Capture r)
    then show ?thesis
      unfolding exec.simps Late_Capture
      by (intro fundings_step_of_wp)
         (auto simp: harness_defs wp ref funding_step_def status_edge_def split: option.splits
           intro!: fundings_step_same wp_publish_step)
  next
    case (Bank_Return r)
    then show ?thesis
      unfolding exec.simps Bank_Return
      by (intro fundings_step_of_wp)
         (auto simp: harness_defs wp ref funding_step_def status_edge_def split: option.splits
           intro!: fundings_step_same wp_publish_step)
  next
    case (Fee_Adjustment r fee)
    then show ?thesis
      unfolding exec.simps Fee_Adjustment
      by (intro fundings_step_of_wp)
         (auto simp: harness_defs wp ref funding_step_def split: option.splits sum.splits
           intro!: fundings_step_same wp_publish_step)
  qed (simp_all add: keeps_fundings [OF fundings_untouched(1)] keeps_fundings [OF fundings_untouched(2)]
      keeps_fundings [OF fundings_untouched(3)] keeps_fundings [OF fundings_untouched(4)]
      keeps_fundings [OF fundings_untouched(5)] keeps_fundings [OF fundings_untouched(6)]
      keeps_fundings [OF fundings_untouched(7)] keeps_fundings [OF fundings_untouched(8)])
qed

lemma funding_status_moves_witness:
  "fundings_step example_created (exec example_host example_config (Funding_Outcome example_ref F_SUCCEEDED None) example_created)"
  by (rule funding_status_moves [OF example_run(2) example_collision_free]) simp

section \<open>A gap in the refund bound\<close>

text \<open>\<open>refund\<close> bounds a refund from the platform's balance by what is not yet refunded, but a principal refund only by
  the principal still held. Releasing 50 of 100, refunding 60 from the platform's balance and then 50 of the principal
  refunds 110 of a charge of 100.\<close>

definition over_refund_calls :: "provider_call list" where
  "over_refund_calls = [Contract (Release_Request (example_release 50)) ''oprel001'',
     Contract (Refund_Request (example_refund 60 (Some ''PLATFORM_BALANCE''))) ''opref001'',
     Contract (Refund_Request (example_refund 50 None)) ''opref002'']"

definition captured_and_refunded :: "provider_state \<Rightarrow> string \<Rightarrow> (int \<times> int) option" where
  "captured_and_refunded st ref = map_option (\<lambda>f. (fd_amount f, refundedTotal f (ps_transfers st))) (mget (ps_fundings st) ref)"

text \<open>A gap: releasing 50 of a captured 100, refunding 60 from the platform's balance and then 50 of the principal
  leaves 110 refunded of a charge of 100.\<close>

theorem refunds_can_exceed_capture:
  "captured_and_refunded (fold (exec example_host example_config) over_refund_calls example_captured) example_ref = Some (100, 110)"
  by code_simp

end
