(* ===== verification/Notifications.thy ===== *)
theory Notifications
  imports Js_Values
begin

text \<open>
  Notification templates and rendering of \<open>src/modules/notifications/index.ts\<close>: amount and time
  formatting, the catalogue, parameter validation and \<open>renderNotification\<close>. The parameters of a
  message are the own properties of the object passed. Error texts are not represented.
\<close>

datatype notification_channel = In_App | Email
datatype notification_category = Transactional | Security | Marketing

datatype notification_error =
    UNKNOWN_TEMPLATE
  | INVALID_PARAMS
  | INVALID_RECIPIENT
  | INVALID_SEMANTIC_KEY
  | CHANNEL_NOT_ALLOWED
  | UNSUPPORTED_CURRENCY
  | DEDUPE_KEY_REUSED

datatype param_kind = Ref | Text | Instant | Amount | Currency | Refund_Status | Cancellation_Outcome | Dispute_Stage

type_synonym params = "(string \<times> jsval) list"

record notification_template =
  tm_category :: notification_category
  tm_subject :: string
  tm_allowedChannels :: "notification_channel list"
  tm_defaultChannels :: "notification_channel list"
  tm_params :: "(string \<times> param_kind) list"
  tm_body :: "params \<Rightarrow> notification_error + string"
  tm_linkPath :: "params \<Rightarrow> string"

record rendered_notification =
  rn_templateId :: string
  rn_category :: notification_category
  rn_subject :: string
  rn_body :: string
  rn_linkPath :: string

section \<open>Formatting\<close>

definition CURRENCY_EXPONENTS :: "(string \<times> nat) list" where
  "CURRENCY_EXPONENTS = [(''USD'', 2), (''EUR'', 2), (''GBP'', 2), (''JPY'', 0), (''VND'', 0), (''USDC'', 6)]"

text \<open>\<open>whole.replace(/\B(?=(\d{3})+(?!\d))/g, ',')\<close>: a comma before every block of three digits counted
  from the right. \<open>group3\<close> works on the reversed digits.\<close>

fun group3 :: "string \<Rightarrow> string" where
  "group3 (a # b # c # d # ds) = a # b # c # CHR '','' # group3 (d # ds)"
| "group3 ds = ds"

definition group_digits :: "string \<Rightarrow> string" where
  "group_digits whole = rev (group3 (rev whole))"

definition pad_start :: "nat \<Rightarrow> string \<Rightarrow> string" where
  "pad_start n s = replicate (n - length s) CHR ''0'' @ s"

definition formatAtomicAmount :: "int \<Rightarrow> string \<Rightarrow> notification_error + string" where
  "formatAtomicAmount amount currency =
     (if amount < 0 then Inl INVALID_PARAMS
      else case mget CURRENCY_EXPONENTS currency of
        None \<Rightarrow> Inl UNSUPPORTED_CURRENCY
      | Some exponent \<Rightarrow>
          let digits = show_int amount;
              whole = (if exponent = 0 then digits
                       else if length digits > exponent then take (length digits - exponent) digits else ''0'');
              fraction = (if exponent = 0 then []
                          else (let padded = pad_start exponent digits in drop (length padded - exponent) padded));
              grouped = group_digits whole in
          Inr ((if fraction \<noteq> [] then grouped @ ''.'' @ fraction else grouped) @ '' '' @ currency))"

definition formatInstant :: "string \<Rightarrow> string" where
  "formatInstant s = take 10 s @ '' '' @ take 5 (drop 11 s) @ '' UTC''"

text \<open>Reading a parameter that validation has checked.\<close>

definition str_param :: "params \<Rightarrow> string \<Rightarrow> string" where
  "str_param p k = (case mget p k of Some (JString s) \<Rightarrow> s | _ \<Rightarrow> [])"

definition amount_param :: "params \<Rightarrow> int" where
  "amount_param p = (case mget p ''amount'' of Some (JBigint n) \<Rightarrow> n | _ \<Rightarrow> 0)"

definition money :: "params \<Rightarrow> notification_error + string" where
  "money p = formatAtomicAmount (amount_param p) (str_param p ''currency'')"

section \<open>The catalogue\<close>

definition BOTH :: "notification_channel list" where
  "BOTH = [In_App, Email]"

definition orderLink :: "params \<Rightarrow> string" where
  "orderLink p = ''/orders/'' @ str_param p ''orderRef''"

definition cancellation_text :: "string \<Rightarrow> string" where
  "cancellation_text outcome =
     (if outcome = ''ACCEPTED'' then ''The cancellation was accepted with the agreed refund.''
      else if outcome = ''REJECTED'' then ''The cancellation request was declined; the order continues.''
      else ''The cancellation request expired because the order changed.'')"

definition dispute_text :: "string \<Rightarrow> string" where
  "dispute_text stage =
     (if stage = ''OPENED'' then ''The buyer's bank disputed the card payment for this order. Your delivered work, the approval and any review stay on record.''
      else if stage = ''WON'' then ''The card payment dispute for this order was decided in favour of the payment. Nothing changes on the order.''
      else ''The card network returned this payment to the buyer. Your delivered work stays on record; support will contact you about next steps.'')"

definition refund_state :: "string \<Rightarrow> string" where
  "refund_state status =
     (if status = ''PENDING'' then ''is pending with the provider''
      else if status = ''SUCCEEDED'' then ''was confirmed by the provider''
      else ''failed and is being reviewed'')"

definition templates_orders_1 :: "(string \<times> notification_template) list" where
  "templates_orders_1 =
    [(''auth.email_verification_requested'', \<lparr>tm_category = Security, tm_subject = ''Verify your email address'',
       tm_allowedChannels = [Email], tm_defaultChannels = [Email],
       tm_params = [],
       tm_body = (\<lambda>p. Inr (''Finish verifying your email from the sign-in page. We never include long-lived sign-in tokens in notifications.'')),
       tm_linkPath = (\<lambda>p. ''/sign-in'')\<rparr>),
     (''auth.password_reset_requested'', \<lparr>tm_category = Security, tm_subject = ''Password reset requested'',
       tm_allowedChannels = [Email], tm_defaultChannels = [Email],
       tm_params = [],
       tm_body = (\<lambda>p. Inr (''A password reset was requested for your account. If this was not you, secure your account.'')),
       tm_linkPath = (\<lambda>p. ''/reset-password'')\<rparr>),
     (''payment.pending'', \<lparr>tm_category = Transactional, tm_subject = ''Payment pending confirmation'',
       tm_allowedChannels = BOTH, tm_defaultChannels = [In_App],
       tm_params = [(''orderRef'', Ref), (''amount'', Amount), (''currency'', Currency)],
       tm_body = (\<lambda>p. ebind (money p) (\<lambda>m. Inr (''Your payment of '' @ m @ '' is waiting for provider confirmation. Work starts only after it is confirmed.''))),
       tm_linkPath = orderLink\<rparr>),
     (''payment.confirmed'', \<lparr>tm_category = Transactional, tm_subject = ''Payment confirmed'',
       tm_allowedChannels = BOTH, tm_defaultChannels = BOTH,
       tm_params = [(''orderRef'', Ref), (''amount'', Amount), (''currency'', Currency)],
       tm_body = (\<lambda>p. ebind (money p) (\<lambda>m. Inr (''Payment of '' @ m @ '' was confirmed by the provider. Platform fee: 0.''))),
       tm_linkPath = orderLink\<rparr>),
     (''order.new'', \<lparr>tm_category = Transactional, tm_subject = ''You have a new order'',
       tm_allowedChannels = BOTH, tm_defaultChannels = BOTH,
       tm_params = [(''orderRef'', Ref), (''serviceTitle'', Text)],
       tm_body = (\<lambda>p. Inr (''A buyer booked '' @ [quote_c] @ str_param p ''serviceTitle'' @ [quote_c] @ ''. Review the order to get started.'')),
       tm_linkPath = orderLink\<rparr>),
     (''order.brief_missing'', \<lparr>tm_category = Transactional, tm_subject = ''Your order needs a brief'',
       tm_allowedChannels = BOTH, tm_defaultChannels = BOTH,
       tm_params = [(''orderRef'', Ref)],
       tm_body = (\<lambda>p. Inr (''The creator is waiting for your brief before work can start.'')),
       tm_linkPath = orderLink\<rparr>),
     (''order.due_soon'', \<lparr>tm_category = Transactional, tm_subject = ''Order due soon'',
       tm_allowedChannels = BOTH, tm_defaultChannels = BOTH,
       tm_params = [(''orderRef'', Ref), (''dueAt'', Instant)],
       tm_body = (\<lambda>p. Inr (''This order is due at '' @ formatInstant (str_param p ''dueAt'') @ ''.'')),
       tm_linkPath = orderLink\<rparr>),
     (''order.delivered'', \<lparr>tm_category = Transactional, tm_subject = ''Your order was delivered'',
       tm_allowedChannels = BOTH, tm_defaultChannels = BOTH,
       tm_params = [(''orderRef'', Ref), (''reviewDeadlineAt'', Instant)],
       tm_body = (\<lambda>p. Inr (''A delivery is ready for review. Approve, request a revision or open a dispute before '' @ formatInstant (str_param p ''reviewDeadlineAt'') @ ''.'')),
       tm_linkPath = orderLink\<rparr>),
     (''order.revision_requested'', \<lparr>tm_category = Transactional, tm_subject = ''Revision requested'',
       tm_allowedChannels = BOTH, tm_defaultChannels = BOTH,
       tm_params = [(''orderRef'', Ref)],
       tm_body = (\<lambda>p. Inr (''The buyer requested a revision. Details are on the order page.'')),
       tm_linkPath = orderLink\<rparr>),
     (''order.approved'', \<lparr>tm_category = Transactional, tm_subject = ''Order approved'',
       tm_allowedChannels = BOTH, tm_defaultChannels = BOTH,
       tm_params = [(''orderRef'', Ref)],
       tm_body = (\<lambda>p. Inr (''The order was approved. Settlement starts once funds are available.'')),
       tm_linkPath = orderLink\<rparr>)]"

definition templates_orders_2 :: "(string \<times> notification_template) list" where
  "templates_orders_2 =
    [(''order.review_reminder'', \<lparr>tm_category = Transactional, tm_subject = ''Delivery waiting for your review'',
       tm_allowedChannels = BOTH, tm_defaultChannels = BOTH,
       tm_params = [(''orderRef'', Ref), (''reviewDeadlineAt'', Instant)],
       tm_body = (\<lambda>p. Inr (''Please approve, request a revision or open a dispute before '' @ formatInstant (str_param p ''reviewDeadlineAt'') @ ''.'')),
       tm_linkPath = orderLink\<rparr>),
     (''order.overdue'', \<lparr>tm_category = Transactional, tm_subject = ''Order is past its due date'',
       tm_allowedChannels = BOTH, tm_defaultChannels = BOTH,
       tm_params = [(''orderRef'', Ref)],
       tm_body = (\<lambda>p. Inr (''The agreed delivery time has passed. You can message the creator or request a cancellation from the order page.'')),
       tm_linkPath = orderLink\<rparr>),
     (''order.completed'', \<lparr>tm_category = Transactional, tm_subject = ''Order completed'',
       tm_allowedChannels = BOTH, tm_defaultChannels = [In_App],
       tm_params = [(''orderRef'', Ref)],
       tm_body = (\<lambda>p. Inr (''The creator payout was confirmed by the provider. You can now leave a review.'')),
       tm_linkPath = orderLink\<rparr>),
     (''order.cancellation_requested'', \<lparr>tm_category = Transactional, tm_subject = ''Cancellation requested'',
       tm_allowedChannels = BOTH, tm_defaultChannels = BOTH,
       tm_params = [(''orderRef'', Ref)],
       tm_body = (\<lambda>p. Inr (''The other party asked to cancel this order with a proposed refund. Review and respond on the order page.'')),
       tm_linkPath = orderLink\<rparr>),
     (''order.cancellation_resolved'', \<lparr>tm_category = Transactional, tm_subject = ''Cancellation request updated'',
       tm_allowedChannels = BOTH, tm_defaultChannels = [In_App],
       tm_params = [(''orderRef'', Ref), (''outcome'', Cancellation_Outcome)],
       tm_body = (\<lambda>p. Inr (cancellation_text (str_param p ''outcome''))),
       tm_linkPath = orderLink\<rparr>),
     (''order.deadline_extension_requested'', \<lparr>tm_category = Transactional, tm_subject = ''New deadline proposed'',
       tm_allowedChannels = BOTH, tm_defaultChannels = BOTH,
       tm_params = [(''orderRef'', Ref), (''newDueAt'', Instant)],
       tm_body = (\<lambda>p. Inr (''The other party proposed moving the deadline to '' @ formatInstant (str_param p ''newDueAt'') @ ''. The current deadline stays unless you accept on the order page.'')),
       tm_linkPath = orderLink\<rparr>),
     (''order.deadline_extension_resolved'', \<lparr>tm_category = Transactional, tm_subject = ''Deadline proposal answered'',
       tm_allowedChannels = BOTH, tm_defaultChannels = [In_App],
       tm_params = [(''orderRef'', Ref), (''outcome'', Cancellation_Outcome)],
       tm_body = (\<lambda>p. Inr (if str_param p ''outcome'' = ''ACCEPTED''
         then ''Your proposed deadline was accepted and is now the order deadline.''
         else ''Your proposed deadline was declined; the current deadline stays.'')),
       tm_linkPath = orderLink\<rparr>),
     (''payment.disputed'', \<lparr>tm_category = Transactional, tm_subject = ''Card payment dispute'',
       tm_allowedChannels = BOTH, tm_defaultChannels = [In_App],
       tm_params = [(''orderRef'', Ref), (''stage'', Dispute_Stage)],
       tm_body = (\<lambda>p. Inr (dispute_text (str_param p ''stage''))),
       tm_linkPath = orderLink\<rparr>),
     (''payment.returned'', \<lparr>tm_category = Transactional, tm_subject = ''Bank transfer returned'',
       tm_allowedChannels = BOTH, tm_defaultChannels = BOTH,
       tm_params = [(''orderRef'', Ref)],
       tm_body = (\<lambda>p. Inr (''The buyer's bank sent the transfer for this order back. Nothing will be paid out for it; check the order page for what happens next.'')),
       tm_linkPath = orderLink\<rparr>),
     (''payout.succeeded'', \<lparr>tm_category = Transactional, tm_subject = ''Transfer sent'',
       tm_allowedChannels = BOTH, tm_defaultChannels = BOTH,
       tm_params = [(''orderRef'', Ref), (''amount'', Amount), (''currency'', Currency)],
       tm_body = (\<lambda>p. ebind (money p) (\<lambda>m. Inr (''The provider confirmed a transfer of '' @ m @ '' for this order. Bank payout timing depends on your provider.''))),
       tm_linkPath = (\<lambda>p. ''/creator/earnings'')\<rparr>)]"

definition templates_rest :: "(string \<times> notification_template) list" where
  "templates_rest =
    [(''payout.failed'', \<lparr>tm_category = Transactional, tm_subject = ''Transfer needs attention'',
       tm_allowedChannels = BOTH, tm_defaultChannels = BOTH,
       tm_params = [(''orderRef'', Ref)],
       tm_body = (\<lambda>p. Inr (''A transfer for one of your orders could not be completed. No funds were marked as received.'')),
       tm_linkPath = (\<lambda>p. ''/creator/payments'')\<rparr>),
     (''refund.updated'', \<lparr>tm_category = Transactional, tm_subject = ''Refund update'',
       tm_allowedChannels = BOTH, tm_defaultChannels = BOTH,
       tm_params = [(''orderRef'', Ref), (''amount'', Amount), (''currency'', Currency), (''refundStatus'', Refund_Status)],
       tm_body = (\<lambda>p. ebind (money p) (\<lambda>m. Inr (''A refund of '' @ m @ '' '' @ refund_state (str_param p ''refundStatus'') @ ''.''))),
       tm_linkPath = orderLink\<rparr>),
     (''dispute.opened'', \<lparr>tm_category = Transactional, tm_subject = ''A dispute was opened'',
       tm_allowedChannels = BOTH, tm_defaultChannels = BOTH,
       tm_params = [(''orderRef'', Ref)],
       tm_body = (\<lambda>p. Inr (''A dispute was opened on an order. Releases are paused while it is reviewed.'')),
       tm_linkPath = orderLink\<rparr>),
     (''dispute.resolved'', \<lparr>tm_category = Transactional, tm_subject = ''Dispute resolved'',
       tm_allowedChannels = BOTH, tm_defaultChannels = BOTH,
       tm_params = [(''orderRef'', Ref)],
       tm_body = (\<lambda>p. Inr (''An operator resolved the dispute on this order. The outcome and any refund status are on the order page.'')),
       tm_linkPath = orderLink\<rparr>),
     (''request.application_received'', \<lparr>tm_category = Transactional, tm_subject = ''New application on your request'',
       tm_allowedChannels = BOTH, tm_defaultChannels = [In_App],
       tm_params = [(''requestRef'', Ref)],
       tm_body = (\<lambda>p. Inr (''A creator applied to your request. Compare applicants when you are ready.'')),
       tm_linkPath = (\<lambda>p. ''/requests/'' @ str_param p ''requestRef'')\<rparr>),
     (''request.hire_offer'', \<lparr>tm_category = Transactional, tm_subject = ''You received a hire offer'',
       tm_allowedChannels = BOTH, tm_defaultChannels = BOTH,
       tm_params = [(''requestRef'', Ref)],
       tm_body = (\<lambda>p. Inr (''A buyer selected your quote. Confirm capacity before the offer expires.'')),
       tm_linkPath = (\<lambda>p. ''/requests/'' @ str_param p ''requestRef'')\<rparr>),
     (''auction.outbid'', \<lparr>tm_category = Transactional, tm_subject = ''You were outbid'',
       tm_allowedChannels = BOTH, tm_defaultChannels = [In_App],
       tm_params = [(''auctionRef'', Ref), (''amount'', Amount), (''currency'', Currency)],
       tm_body = (\<lambda>p. ebind (money p) (\<lambda>m. Inr (''The current bid is now '' @ m @ ''.''))),
       tm_linkPath = (\<lambda>p. ''/auctions/'' @ str_param p ''auctionRef'')\<rparr>),
     (''auction.won'', \<lparr>tm_category = Transactional, tm_subject = ''You won an auction'',
       tm_allowedChannels = BOTH, tm_defaultChannels = BOTH,
       tm_params = [(''auctionRef'', Ref), (''amount'', Amount), (''currency'', Currency), (''paymentDueAt'', Instant)],
       tm_body = (\<lambda>p. ebind (money p) (\<lambda>m. Inr (''Your winning bid is '' @ m @ ''. Complete payment before '' @ formatInstant (str_param p ''paymentDueAt'') @ ''.''))),
       tm_linkPath = (\<lambda>p. ''/auctions/'' @ str_param p ''auctionRef'')\<rparr>),
     (''auction.expired'', \<lparr>tm_category = Transactional, tm_subject = ''Auction ended'',
       tm_allowedChannels = BOTH, tm_defaultChannels = [In_App],
       tm_params = [(''auctionRef'', Ref)],
       tm_body = (\<lambda>p. Inr (''An auction you follow has ended.'')),
       tm_linkPath = (\<lambda>p. ''/auctions/'' @ str_param p ''auctionRef'')\<rparr>),
     (''pool.asset_missing'', \<lparr>tm_category = Transactional, tm_subject = ''Campaign funding needs attention'',
       tm_allowedChannels = BOTH, tm_defaultChannels = BOTH,
       tm_params = [(''poolRef'', Ref), (''assetCode'', Currency)],
       tm_body = (\<lambda>p. Inr (''The campaign pool is missing funding in '' @ str_param p ''assetCode'' @ ''.'')),
       tm_linkPath = (\<lambda>p. ''/campaigns/'' @ str_param p ''poolRef'' @ ''/funding'')\<rparr>),
     (''marketing.new_offers'', \<lparr>tm_category = Marketing, tm_subject = ''New creator offers'',
       tm_allowedChannels = BOTH, tm_defaultChannels = [Email],
       tm_params = [],
       tm_body = (\<lambda>p. Inr (''New creator services are available to explore.'')),
       tm_linkPath = (\<lambda>p. ''/explore'')\<rparr>)]"

definition NOTIFICATION_TEMPLATES :: "(string \<times> notification_template) list" where
  "NOTIFICATION_TEMPLATES = templates_orders_1 @ templates_orders_2 @ templates_rest"

section \<open>Validation and rendering\<close>

text \<open>\<open>/^[A-Za-z0-9_-]{1,64}$/\<close>\<close>

definition ref_char :: "char \<Rightarrow> bool" where
  "ref_char c \<longleftrightarrow> is_alnum c \<or> c = CHR ''_'' \<or> c = CHR ''-''"

definition REF_PATTERN :: "string \<Rightarrow> bool" where
  "REF_PATTERN s \<longleftrightarrow> 1 \<le> length s \<and> length s \<le> 64 \<and> list_all ref_char s"

text \<open>A string that fits a mask, where \<open>d\<close> stands for a digit.\<close>

fun fits :: "string \<Rightarrow> string \<Rightarrow> bool" where
  "fits [] [] = True"
| "fits (m # ms) (c # cs) = ((if m = CHR ''d'' then is_digit c else c = m) \<and> fits ms cs)"
| "fits _ _ = False"

definition ISO_UTC_PATTERN :: "string \<Rightarrow> bool" where
  "ISO_UTC_PATTERN s \<longleftrightarrow> fits ''dddd-dd-ddTdd:dd'' (take 16 s)
     \<and> (let r = drop 16 s in r = ''Z'' \<or> fits '':ddZ'' r \<or> fits '':dd.dZ'' r \<or> fits '':dd.ddZ'' r \<or> fits '':dd.dddZ'' r)"

text \<open>\<open>/^\/[A-Za-z0-9_\-/]*$/\<close>\<close>

definition LINK_PATTERN :: "string \<Rightarrow> bool" where
  "LINK_PATTERN s \<longleftrightarrow> (case s of [] \<Rightarrow> False | c # cs \<Rightarrow> c = CHR ''/'' \<and> list_all (\<lambda>d. ref_char d \<or> d = CHR ''/'') cs)"

definition hasControlChars :: "string \<Rightarrow> bool" where
  "hasControlChars s \<longleftrightarrow> list_ex (\<lambda>c. code_of c < 32 \<or> code_of c = 127) s"

fun double_slash :: "string \<Rightarrow> bool" where
  "double_slash (a # b # s) = (a = CHR ''/'' \<and> b = CHR ''/'' \<or> double_slash (b # s))"
| "double_slash _ = False"

definition validateParam :: "(string \<Rightarrow> bool) \<Rightarrow> param_kind \<Rightarrow> jsval \<Rightarrow> notification_error + unit" where
  "validateParam dateOk kind v = echeck (case kind of
       Ref \<Rightarrow> (case v of JString s \<Rightarrow> REF_PATTERN s | _ \<Rightarrow> False)
     | Text \<Rightarrow> (case v of JString s \<Rightarrow> s \<noteq> [] \<and> length s \<le> 120 \<and> \<not> hasControlChars s | _ \<Rightarrow> False)
     | Instant \<Rightarrow> (case v of JString s \<Rightarrow> ISO_UTC_PATTERN s \<and> dateOk s | _ \<Rightarrow> False)
     | Amount \<Rightarrow> (case v of JBigint n \<Rightarrow> 0 \<le> n | _ \<Rightarrow> False)
     | Currency \<Rightarrow> (case v of JString s \<Rightarrow> currency_pattern s | _ \<Rightarrow> False)
     | Refund_Status \<Rightarrow> v \<in> {JString ''PENDING'', JString ''SUCCEEDED'', JString ''FAILED''}
     | Cancellation_Outcome \<Rightarrow> v \<in> {JString ''ACCEPTED'', JString ''REJECTED'', JString ''EXPIRED''}
     | Dispute_Stage \<Rightarrow> v \<in> {JString ''OPENED'', JString ''WON'', JString ''LOST''}) INVALID_PARAMS"

definition param_value :: "params \<Rightarrow> string \<Rightarrow> jsval" where
  "param_value p k = (case mget p k of None \<Rightarrow> JUndefined | Some v \<Rightarrow> v)"

text \<open>\<open>dateOk s\<close> says that \<open>Date.parse(s)\<close> is not NaN.\<close>

definition renderNotification :: "(string \<Rightarrow> bool) \<Rightarrow> string \<Rightarrow> params option \<Rightarrow> notification_error + rendered_notification" where
  "renderNotification dateOk templateId params =
     (case mget NOTIFICATION_TEMPLATES templateId of
        None \<Rightarrow> Inl UNKNOWN_TEMPLATE
      | Some definition' \<Rightarrow>
          (case params of None \<Rightarrow> Inl INVALID_PARAMS
           | Some p \<Rightarrow>
              ebind (echeck (list_all (\<lambda>k. k \<in> set (mkeys (tm_params definition'))) (mkeys p)) INVALID_PARAMS) (\<lambda>_.
              ebind (esequence (map (\<lambda>(k, kind). validateParam dateOk kind (param_value p k)) (tm_params definition'))) (\<lambda>_.
              let linkPath = tm_linkPath definition' p in
              ebind (echeck (LINK_PATTERN linkPath \<and> \<not> double_slash linkPath) INVALID_PARAMS) (\<lambda>_.
              ebind (tm_body definition' p) (\<lambda>body.
              Inr \<lparr>rn_templateId = templateId, rn_category = tm_category definition',
                   rn_subject = tm_subject definition', rn_body = body, rn_linkPath = linkPath\<rparr>))))))"

end
