(* ===== verification/Dispatcher.thy ===== *)
theory Dispatcher
  imports Notifications
begin

text \<open>
  Delivery of notifications: the sinks and the \<open>NotificationDispatcher\<close> of
  \<open>src/modules/notifications/index.ts\<close>, and the database sink of \<open>notifications/store.ts\<close>.
  \<open>dispatch\<close> is asynchronous, so a call is a job with a phase: it runs without interruption up to its
  first \<open>await\<close> and from one \<open>await\<close> to the next, and calls interleave between. The claims the map
  and a running call share are objects, so the map holds references into a heap. The sink is an
  argument (its effect and its other operations), as are SHA-256 and \<open>Date.parse\<close>.
\<close>

section \<open>Data\<close>

record outbound_notification =
  om_rendered :: rendered_notification
  om_recipientId :: string
  om_channel :: notification_channel
  om_dedupeKey :: string
  om_semanticEventKey :: string
  om_attempt :: nat
  om_createdAt :: string

datatype delivery_status = SENT | DUPLICATE_SUPPRESSED | SUPPRESSED_BY_PREFERENCE | FAILED

record channel_outcome =
  co_channel :: notification_channel
  co_dedupeKey :: string
  co_status :: delivery_status
  co_attemptCount :: nat
  co_messageId :: "string option"
  co_error :: "string option"

record notification_attempt =
  na_dedupeKey :: string
  na_recipientId :: string
  na_templateId :: string
  na_channel :: notification_channel
  na_attempt :: nat
  na_sent :: bool
  na_error :: "string option"
  na_at :: string

record notification_request =
  nr_recipientId :: string
  nr_templateId :: string
  nr_semanticEventKey :: string
  nr_params :: "params option"
  nr_channels :: "notification_channel list option"

datatype claim_state = Claim_Sending | Claim_Sent | Claim_Failed

record dedupe_claim =
  dc_state :: claim_state
  dc_payloadHash :: string
  dc_attemptCount :: nat
  dc_messageId :: "string option"
  dc_lastError :: "string option"

record dispatcher =
  nd_hasPreferences :: bool
  nd_maxAttempts :: nat
  nd_claims :: "(string \<times> nat) list"
  nd_heap :: "dedupe_claim list"
  nd_attemptLog :: "notification_attempt list"

text \<open>What a rejected delivery carries: the message of an \<open>Error\<close>, or something else.\<close>

type_synonym delivery_answer = "string option + string"

text \<open>What a sink does with a message, and the operations it has besides; SHA-256; whether \<open>Date.parse\<close> reads a string.\<close>

record ('k, 'o) surroundings =
  sr_deliver :: "outbound_notification \<Rightarrow> 'k \<Rightarrow> delivery_answer \<times> 'k"
  sr_sinkOp :: "'o \<Rightarrow> 'k \<Rightarrow> 'k"
  sr_sha256 :: "string \<Rightarrow> string"
  sr_dateOk :: "string \<Rightarrow> bool"

section \<open>Sinks\<close>

record local_sink =
  ls_stored :: "(outbound_notification \<times> string) list"
  ls_failuresRemaining :: nat
  ls_sequence :: nat

definition local_deliver :: "outbound_notification \<Rightarrow> local_sink \<Rightarrow> delivery_answer \<times> local_sink" where
  "local_deliver message k =
     (if ls_failuresRemaining k > 0
      then (Inl (Some ''local sink simulated delivery failure''), k\<lparr>ls_failuresRemaining := ls_failuresRemaining k - 1\<rparr>)
      else let k1 = k\<lparr>ls_sequence := ls_sequence k + 1\<rparr>;
               messageId = ''local_msg_'' @ show_nat (ls_sequence k1) in
           (Inr messageId, k1\<lparr>ls_stored := ls_stored k1 @ [(message, messageId)]\<rparr>))"

datatype local_sink_op = Fail_Next nat | Clear

fun local_op :: "local_sink_op \<Rightarrow> local_sink \<Rightarrow> local_sink" where
  "local_op (Fail_Next n) k = k\<lparr>ls_failuresRemaining := ls_failuresRemaining k + n\<rparr>"
| "local_op Clear k = k\<lparr>ls_stored := []\<rparr>"

definition local_messages :: "string option \<Rightarrow> notification_channel option \<Rightarrow> local_sink \<Rightarrow> (outbound_notification \<times> string) list" where
  "local_messages recipientId channel k =
     filter (\<lambda>(m, _). (case recipientId of None \<Rightarrow> True | Some r \<Rightarrow> om_recipientId m = r)
                     \<and> (case channel of None \<Rightarrow> True | Some c \<Rightarrow> om_channel m = c)) (ls_stored k)"

text \<open>The table \<open>app.notifications\<close> with its unique \<open>dedupe_key\<close>; ids are drawn by the database.\<close>

record notification_row =
  nt_id :: string
  nt_message :: outbound_notification
  nt_status :: string

record notification_table =
  tb_rows :: "notification_row list"
  tb_nextId :: nat

definition database_deliver :: "outbound_notification \<Rightarrow> notification_table \<Rightarrow> delivery_answer \<times> notification_table" where
  "database_deliver message t =
     (let status = (if om_channel message = Email then ''EMAIL_SINK'' else ''DELIVERED'') in
      case find (\<lambda>r. om_dedupeKey (nt_message r) = om_dedupeKey message) (tb_rows t) of
        None \<Rightarrow> (let i = show_nat (tb_nextId t) in
          (Inr i, t\<lparr>tb_rows := tb_rows t @ [\<lparr>nt_id = i, nt_message = message, nt_status = status\<rparr>], tb_nextId := tb_nextId t + 1\<rparr>))
      | Some r \<Rightarrow> (Inr (nt_id r), t))"

section \<open>Keys\<close>

text \<open>\<open>/^[A-Za-z0-9_-]{1,64}$/\<close> and \<open>/^[A-Za-z0-9][A-Za-z0-9:_.\-]{2,199}$/\<close>\<close>

definition RECIPIENT_PATTERN :: "string \<Rightarrow> bool" where
  "RECIPIENT_PATTERN s \<longleftrightarrow> 1 \<le> length s \<and> length s \<le> 64 \<and> list_all ref_char s"

definition SEMANTIC_KEY_PATTERN :: "string \<Rightarrow> bool" where
  "SEMANTIC_KEY_PATTERN s \<longleftrightarrow> 3 \<le> length s \<and> length s \<le> 200 \<and> is_alnum (hd s)
     \<and> list_all (\<lambda>c. ref_char c \<or> c = CHR '':'' \<or> c = CHR ''.'') (tl s)"

fun channel_name :: "notification_channel \<Rightarrow> string" where
  "channel_name In_App = ''in_app''"
| "channel_name Email = ''email''"

definition notificationDedupeKey :: "(string \<Rightarrow> string) \<Rightarrow> string \<Rightarrow> string \<Rightarrow> notification_channel \<Rightarrow> string" where
  "notificationDedupeKey sha256 recipientId semanticEventKey channel =
     sha256 (recipientId @ [CHR 0x0A] @ semanticEventKey @ [CHR 0x0A] @ channel_name channel)"

definition payloadHash :: "(string \<Rightarrow> string) \<Rightarrow> string \<Rightarrow> rendered_notification \<Rightarrow> string" where
  "payloadHash sha256 templateId rendered =
     sha256 (templateId @ [CHR 0x0A] @ rn_subject rendered @ [CHR 0x0A] @ rn_body rendered @ [CHR 0x0A] @ rn_linkPath rendered)"

section \<open>The dispatcher's own operations\<close>

definition new_dispatcher :: "bool \<Rightarrow> int option \<Rightarrow> notification_error + dispatcher" where
  "new_dispatcher preferences maxAttempts =
     (let n = (case maxAttempts of None \<Rightarrow> 5 | Some n \<Rightarrow> n) in
      ebind (echeck (\<not> n < 1) INVALID_PARAMS) (\<lambda>_.
      Inr \<lparr>nd_hasPreferences = preferences, nd_maxAttempts = nat n, nd_claims = [], nd_heap = [], nd_attemptLog = []\<rparr>))"

text \<open>The object a reference denotes, and assigning to its fields.\<close>

abbreviation claim_at :: "dispatcher \<Rightarrow> nat \<Rightarrow> dedupe_claim" where
  "claim_at d r \<equiv> nd_heap d ! r"

definition update_claim :: "nat \<Rightarrow> (dedupe_claim \<Rightarrow> dedupe_claim) \<Rightarrow> dispatcher \<Rightarrow> dispatcher" where
  "update_claim r f d = d\<lparr>nd_heap := (nd_heap d)[r := f (nd_heap d ! r)]\<rparr>"

definition releaseClaim :: "string \<Rightarrow> nat \<Rightarrow> dispatcher \<Rightarrow> dispatcher" where
  "releaseClaim key r d =
     (if dc_attemptCount (claim_at d r) = 0 then d\<lparr>nd_claims := mdel key (nd_claims d)\<rparr>
      else update_claim r (dc_state_update (\<lambda>_. Claim_Failed)) d)"

definition outcome :: "notification_channel \<Rightarrow> string \<Rightarrow> delivery_status \<Rightarrow> dedupe_claim \<Rightarrow> channel_outcome" where
  "outcome channel key status claim =
     \<lparr>co_channel = channel, co_dedupeKey = key, co_status = status, co_attemptCount = dc_attemptCount claim,
      co_messageId = dc_messageId claim, co_error = (if status = FAILED then dc_lastError claim else None)\<rparr>"

definition log_attempt :: "notification_request \<Rightarrow> notification_channel \<Rightarrow> string \<Rightarrow> nat \<Rightarrow> bool \<Rightarrow> string option \<Rightarrow> string
    \<Rightarrow> dispatcher \<Rightarrow> dispatcher" where
  "log_attempt request channel key r sent err time d =
     d\<lparr>nd_attemptLog := nd_attemptLog d @
       [\<lparr>na_dedupeKey = key, na_recipientId = nr_recipientId request, na_templateId = nr_templateId request, na_channel = channel,
         na_attempt = dc_attemptCount (claim_at d r), na_sent = sent, na_error = err, na_at = time\<rparr>]\<rparr>"

section \<open>A call of dispatch\<close>

datatype work_item = Settled channel_outcome | Claimed notification_channel string nat

datatype job_phase =
    Awaiting_Preferences
  | Calling notification_channel string nat string outbound_notification
  | Answered notification_channel string nat string delivery_answer
  | Returned
  | Thrown string

record job =
  jb_request :: notification_request
  jb_rendered :: rendered_notification
  jb_category :: notification_category
  jb_channels :: "notification_channel list"
  jb_optIn :: bool
  jb_work :: "work_item list"
  jb_outcomes :: "channel_outcome list"
  jb_phase :: job_phase

text \<open>The loop that claims every channel without yielding.\<close>

fun claim_channels :: "(notification_channel \<Rightarrow> string) \<Rightarrow> string \<Rightarrow> notification_channel list \<Rightarrow> dispatcher \<Rightarrow> work_item list \<times> dispatcher" where
  "claim_channels keyOf hash [] d = ([], d)"
| "claim_channels keyOf hash (channel # channels) d =
     (let key = keyOf channel;
          (item, d1) = (case mget (nd_claims d) key of
             Some r \<Rightarrow>
               let existing = claim_at d r in
               if dc_state existing = Claim_Sent \<or> dc_state existing = Claim_Sending
               then (Settled (outcome channel key DUPLICATE_SUPPRESSED existing), d)
               else if dc_attemptCount existing \<ge> nd_maxAttempts d
               then (Settled ((outcome channel key FAILED existing)\<lparr>co_error := Some ''MAX_ATTEMPTS_EXCEEDED''\<rparr>), d)
               else (Claimed channel key r, update_claim r (dc_state_update (\<lambda>_. Claim_Sending)) d)
           | None \<Rightarrow>
               (Claimed channel key (length (nd_heap d)),
                d\<lparr>nd_heap := nd_heap d @ [\<lparr>dc_state = Claim_Sending, dc_payloadHash = hash, dc_attemptCount = 0,
                                          dc_messageId = None, dc_lastError = None\<rparr>],
                  nd_claims := mput key (length (nd_heap d)) (nd_claims d)\<rparr>));
          (items, d2) = claim_channels keyOf hash channels d1 in
      (item # items, d2))"

text \<open>The delivery loop from the present item up to its next \<open>await\<close>; \<open>time\<close> is \<open>now()\<close>.\<close>

fun advance :: "string \<Rightarrow> job \<Rightarrow> work_item list \<Rightarrow> channel_outcome list \<Rightarrow> dispatcher \<Rightarrow> job \<times> dispatcher" where
  "advance time j [] outcomes d = (j\<lparr>jb_work := [], jb_outcomes := outcomes, jb_phase := Returned\<rparr>, d)"
| "advance time j (Settled oc # items) outcomes d = advance time j items (outcomes @ [oc]) d"
| "advance time j (Claimed channel key r # items) outcomes d =
     (if jb_category j = Marketing \<and> \<not> jb_optIn j
      then let d1 = releaseClaim key r d in
        advance time j items (outcomes @ [\<lparr>co_channel = channel, co_dedupeKey = key, co_status = SUPPRESSED_BY_PREFERENCE,
          co_attemptCount = dc_attemptCount (claim_at d1 r), co_messageId = None, co_error = None\<rparr>]) d1
      else let d1 = update_claim r (\<lambda>c. c\<lparr>dc_attemptCount := dc_attemptCount c + 1\<rparr>) d in
        (j\<lparr>jb_work := items, jb_outcomes := outcomes, jb_phase := Calling channel key r time
            \<lparr>om_rendered = jb_rendered j, om_recipientId = nr_recipientId (jb_request j), om_channel = channel,
             om_dedupeKey = key, om_semanticEventKey = nr_semanticEventKey (jb_request j),
             om_attempt = dc_attemptCount (claim_at d1 r), om_createdAt = time\<rparr>\<rparr>, d1))"

definition uniq :: "'a list \<Rightarrow> 'a list" where
  "uniq xs = rev (remdups (rev xs))"

text \<open>The checks of \<open>dispatch\<close> before its first claim: the rendered message and its channels.\<close>

definition dispatch_checks :: "('k, 'o) surroundings \<Rightarrow> notification_request \<Rightarrow> dispatcher
    \<Rightarrow> notification_error + rendered_notification \<times> notification_template \<times> notification_channel list" where
  "dispatch_checks env request d =
     ebind (echeck (RECIPIENT_PATTERN (nr_recipientId request)) INVALID_RECIPIENT) (\<lambda>_.
     ebind (echeck (SEMANTIC_KEY_PATTERN (nr_semanticEventKey request)) INVALID_SEMANTIC_KEY) (\<lambda>_.
     ebind (renderNotification (sr_dateOk env) (nr_templateId request) (nr_params request)) (\<lambda>rendered.
     let definition' = the (mget NOTIFICATION_TEMPLATES (nr_templateId request));
         channels = uniq (case nr_channels request of Some cs \<Rightarrow> cs | None \<Rightarrow> tm_defaultChannels definition');
         hash = payloadHash (sr_sha256 env) (nr_templateId request) rendered;
         keyOf = notificationDedupeKey (sr_sha256 env) (nr_recipientId request) (nr_semanticEventKey request) in
     ebind (echeck (channels \<noteq> []) CHANNEL_NOT_ALLOWED) (\<lambda>_.
     ebind (echeck (list_all (\<lambda>c. c \<in> set (tm_allowedChannels definition')) channels) CHANNEL_NOT_ALLOWED) (\<lambda>_.
     ebind (echeck (list_all (\<lambda>c. case mget (nd_claims d) (keyOf c) of None \<Rightarrow> True
                                  | Some r \<Rightarrow> dc_payloadHash (claim_at d r) = hash) channels) DEDUPE_KEY_REUSED) (\<lambda>_.
     Inr (rendered, definition', channels)))))))"

fun claimed :: "work_item \<Rightarrow> bool" where
  "claimed (Claimed _ _ _) = True"
| "claimed (Settled _) = False"

text \<open>\<open>dispatch\<close> up to its first \<open>await\<close>.\<close>

definition dispatch :: "('k, 'o) surroundings \<Rightarrow> string \<Rightarrow> notification_request \<Rightarrow> dispatcher \<Rightarrow> notification_error + job \<times> dispatcher" where
  "dispatch env time request d =
     ebind (dispatch_checks env request d) (\<lambda>(rendered, definition', channels).
     let hash = payloadHash (sr_sha256 env) (nr_templateId request) rendered;
         keyOf = notificationDedupeKey (sr_sha256 env) (nr_recipientId request) (nr_semanticEventKey request);
         (work, d1) = claim_channels keyOf hash channels d;
         j = \<lparr>jb_request = request, jb_rendered = rendered, jb_category = tm_category definition', jb_channels = channels,
              jb_optIn = False, jb_work = work, jb_outcomes = [], jb_phase = Awaiting_Preferences\<rparr> in
     if tm_category definition' = Marketing \<and> list_ex claimed work \<and> nd_hasPreferences d
     then Inr (j, d1)
     else Inr (advance time j work [] d1))"

text \<open>The rest of the call after \<open>await this.preferences(..)\<close>: rejected, or the recipient's choice.\<close>

fun release_all :: "work_item list \<Rightarrow> dispatcher \<Rightarrow> dispatcher" where
  "release_all [] d = d"
| "release_all (Claimed channel key r # items) d = release_all items (releaseClaim key r d)"
| "release_all (Settled oc # items) d = release_all items d"

fun resume_preferences :: "string \<Rightarrow> string + bool \<Rightarrow> job \<Rightarrow> dispatcher \<Rightarrow> job \<times> dispatcher" where
  "resume_preferences time (Inl err) j d = (j\<lparr>jb_work := [], jb_phase := Thrown err\<rparr>, release_all (jb_work j) d)"
| "resume_preferences time (Inr optIn) j d = advance time (j\<lparr>jb_optIn := optIn\<rparr>) (jb_work j) (jb_outcomes j) d"

text \<open>The rest of the loop's body after \<open>await this.sink.deliver(..)\<close>, and the loop's next turns.\<close>

fun record_answer :: "notification_request \<Rightarrow> notification_channel \<Rightarrow> string \<Rightarrow> nat \<Rightarrow> string \<Rightarrow> delivery_answer
    \<Rightarrow> dispatcher \<Rightarrow> channel_outcome \<times> dispatcher" where
  "record_answer request channel key r time (Inr messageId) d =
     (let d1 = update_claim r (\<lambda>c. c\<lparr>dc_state := Claim_Sent, dc_messageId := Some messageId, dc_lastError := None\<rparr>) d;
          d2 = log_attempt request channel key r True None time d1 in
      (outcome channel key SENT (claim_at d2 r), d2))"
| "record_answer request channel key r time (Inl err) d =
     (let text = (case err of Some m \<Rightarrow> m | None \<Rightarrow> ''delivery failed'');
          d1 = update_claim r (\<lambda>c. c\<lparr>dc_state := Claim_Failed, dc_lastError := Some text\<rparr>) d;
          d2 = log_attempt request channel key r False (Some text) time d1 in
      (outcome channel key FAILED (claim_at d2 r), d2))"

definition resume_delivery :: "string \<Rightarrow> notification_channel \<Rightarrow> string \<Rightarrow> nat \<Rightarrow> string \<Rightarrow> delivery_answer \<Rightarrow> job \<Rightarrow> dispatcher
    \<Rightarrow> job \<times> dispatcher" where
  "resume_delivery now channel key r time answer j d =
     (let (oc, d1) = record_answer (jb_request j) channel key r time answer d in
      advance now j (jb_work j) (jb_outcomes j @ [oc]) d1)"

section \<open>Interleaved calls\<close>

record 'k system =
  sy_dispatcher :: dispatcher
  sy_jobs :: "job list"
  sy_sink :: 'k

text \<open>
  A step: a new call runs to its first \<open>await\<close>; the preferences of a waiting call arrive; the sink
  handles a message it was given; a waiting call takes up the sink's answer; an operation of the sink.
\<close>

inductive step :: "('k, 'o) surroundings \<Rightarrow> 'k system \<Rightarrow> 'k system \<Rightarrow> bool" for env where
  Dispatch: "dispatch env time request (sy_dispatcher s) = Inr (j, d)
     \<Longrightarrow> step env s (s\<lparr>sy_dispatcher := d, sy_jobs := sy_jobs s @ [j]\<rparr>)"
| Preferences: "i < length (sy_jobs s) \<Longrightarrow> jb_phase (sy_jobs s ! i) = Awaiting_Preferences
     \<Longrightarrow> resume_preferences time answer (sy_jobs s ! i) (sy_dispatcher s) = (j, d)
     \<Longrightarrow> step env s (s\<lparr>sy_dispatcher := d, sy_jobs := (sy_jobs s)[i := j]\<rparr>)"
| Sink: "i < length (sy_jobs s) \<Longrightarrow> jb_phase (sy_jobs s ! i) = Calling channel key r time message
     \<Longrightarrow> sr_deliver env message (sy_sink s) = (answer, k)
     \<Longrightarrow> step env s (s\<lparr>sy_sink := k, sy_jobs := (sy_jobs s)[i := (sy_jobs s ! i)\<lparr>jb_phase := Answered channel key r time answer\<rparr>]\<rparr>)"
| Delivery: "i < length (sy_jobs s) \<Longrightarrow> jb_phase (sy_jobs s ! i) = Answered channel key r time answer
     \<Longrightarrow> resume_delivery now channel key r time answer (sy_jobs s ! i) (sy_dispatcher s) = (j, d)
     \<Longrightarrow> step env s (s\<lparr>sy_dispatcher := d, sy_jobs := (sy_jobs s)[i := j]\<rparr>)"
| Sink_Operation: "step env s (s\<lparr>sy_sink := sr_sinkOp env oper (sy_sink s)\<rparr>)"

inductive run :: "('k, 'o) surroundings \<Rightarrow> 'k system \<Rightarrow> 'k system \<Rightarrow> bool" for env where
  Start: "run env s s"
| Next: "run env s t \<Longrightarrow> step env t u \<Longrightarrow> run env s u"

inductive_cases step_cases: "step env s t"

definition initial :: "dispatcher \<Rightarrow> 'k \<Rightarrow> 'k system" where
  "initial d k = \<lparr>sy_dispatcher = d, sy_jobs = [], sy_sink = k\<rparr>"

end
