(* ===== verification/Dispatch_Invariant.thy ===== *)
theory Dispatch_Invariant
  imports Dispatcher "HOL-Library.Multiset"
begin

text \<open>
  The invariant of the dispatcher under interleaved calls. \<open>P\<close> holds the claims running calls have
  not attempted yet, \<open>Q\<close> those whose message is with the sink or whose answer has not been taken up,
  \<open>A\<close> the part of \<open>Q\<close> the sink accepted, each as a multiset of keys with their references; \<open>h\<close> counts
  the messages of a key the sink holds. Each operation of the dispatcher has one lemma that says how
  it moves a claim between these.
\<close>

definition attempts_of :: "dispatcher \<Rightarrow> string \<Rightarrow> notification_attempt list" where
  "attempts_of d k = filter (\<lambda>a. na_dedupeKey a = k) (nd_attemptLog d)"

definition sent_of :: "dispatcher \<Rightarrow> string \<Rightarrow> nat" where
  "sent_of d k = length (filter na_sent (attempts_of d k))"

definition sending :: "dispatcher \<Rightarrow> string \<Rightarrow> nat \<Rightarrow> bool" where
  "sending d k r \<longleftrightarrow> mget (nd_claims d) k = Some r \<and> dc_state (claim_at d r) = Claim_Sending"

fun key_counts :: "claim_state \<Rightarrow> nat \<Rightarrow> nat \<Rightarrow> nat \<Rightarrow> nat \<Rightarrow> nat \<Rightarrow> nat \<Rightarrow> bool" where
  "key_counts Claim_Sent n m q a s h \<longleftrightarrow> n \<le> m \<and> s = 1 \<and> h \<le> 1"
| "key_counts Claim_Failed n m q a s h \<longleftrightarrow> n \<le> m \<and> s = 0 \<and> h = 0"
| "key_counts Claim_Sending n m q a s h \<longleftrightarrow> n \<le> m \<and> s = 0 \<and> h \<le> a \<and> (q = 0 \<longrightarrow> n < m) \<and> q \<le> n"

definition key_inv :: "dispatcher \<Rightarrow> (string \<times> nat) multiset \<Rightarrow> (string \<times> nat) multiset \<Rightarrow> (string \<Rightarrow> nat) \<Rightarrow> string \<Rightarrow> bool" where
  "key_inv d Q A h k \<longleftrightarrow> (case mget (nd_claims d) k of
     None \<Rightarrow> attempts_of d k = [] \<and> h k = 0
   | Some r \<Rightarrow> map na_attempt (attempts_of d k) = [1..<Suc (dc_attemptCount (claim_at d r) - count Q (k, r))]
       \<and> key_counts (dc_state (claim_at d r)) (dc_attemptCount (claim_at d r)) (nd_maxAttempts d)
           (count Q (k, r)) (count A (k, r)) (sent_of d k) (h k))"

definition refs_inv :: "dispatcher \<Rightarrow> bool" where
  "refs_inv d \<longleftrightarrow> (\<forall>k r. mget (nd_claims d) k = Some r \<longrightarrow> r < length (nd_heap d))
     \<and> (\<forall>k k' r. mget (nd_claims d) k = Some r \<longrightarrow> mget (nd_claims d) k' = Some r \<longrightarrow> k = k')"

definition owned_inv :: "dispatcher \<Rightarrow> (string \<times> nat) multiset \<Rightarrow> (string \<times> nat) multiset \<Rightarrow> (string \<times> nat) multiset \<Rightarrow> bool" where
  "owned_inv d P Q A \<longleftrightarrow> (\<forall>k r. count P (k, r) + count Q (k, r) = (if sending d k r then 1 else 0)) \<and> A \<subseteq># Q"

definition delivery_inv :: "dispatcher \<Rightarrow> (string \<times> nat) multiset \<Rightarrow> (string \<times> nat) multiset \<Rightarrow> (string \<times> nat) multiset
    \<Rightarrow> (string \<Rightarrow> nat) \<Rightarrow> bool" where
  "delivery_inv d P Q A h \<longleftrightarrow> refs_inv d \<and> owned_inv d P Q A \<and> (\<forall>k. key_inv d Q A h k)"

section \<open>Reading the invariant\<close>

lemma owned_sending:
  assumes "owned_inv d P Q A" "0 < count P (k, r) + count Q (k, r)"
  shows "mget (nd_claims d) k = Some r" "dc_state (claim_at d r) = Claim_Sending" "count P (k, r) + count Q (k, r) = 1"
  using assms by (auto simp: owned_inv_def sending_def split: if_splits)

lemma owned_count: "owned_inv d P Q A \<Longrightarrow> count P (k, r) + count Q (k, r) = (if sending d k r then 1 else 0)"
  by (simp add: owned_inv_def)

lemma owned_free: "owned_inv d P Q A \<Longrightarrow> \<not> sending d k r \<Longrightarrow> count P (k, r) = 0 \<and> count Q (k, r) = 0"
  using owned_count [of d P Q A k r] by simp

lemma refs_bound: "refs_inv d \<Longrightarrow> mget (nd_claims d) k = Some r \<Longrightarrow> r < length (nd_heap d)"
  by (auto simp: refs_inv_def)

lemma refs_inj: "refs_inv d \<Longrightarrow> mget (nd_claims d) k = Some r \<Longrightarrow> mget (nd_claims d) k' = Some r \<Longrightarrow> k' = k"
  by (auto simp: refs_inv_def)

lemma update_claim_simps [simp]:
  "nd_claims (update_claim r f d) = nd_claims d" "nd_maxAttempts (update_claim r f d) = nd_maxAttempts d"
  "nd_attemptLog (update_claim r f d) = nd_attemptLog d" "nd_hasPreferences (update_claim r f d) = nd_hasPreferences d"
  "attempts_of (update_claim r f d) = attempts_of d" "sent_of (update_claim r f d) = sent_of d"
  "length (nd_heap (update_claim r f d)) = length (nd_heap d)"
  by (auto simp: update_claim_def attempts_of_def sent_of_def fun_eq_iff)

lemma claim_at_update [simp]:
  "r < length (nd_heap d) \<Longrightarrow> claim_at (update_claim r f d) r' = (if r' = r then f (claim_at d r) else claim_at d r')"
  by (simp add: update_claim_def nth_list_update)

lemma refs_inv_update [simp]: "refs_inv (update_claim r f d) = refs_inv d"
  by (simp add: refs_inv_def)

text \<open>A change of one claim leaves the other keys alone.\<close>

lemma key_inv_other:
  assumes "refs_inv d" "mget (nd_claims d) k = Some r" "k' \<noteq> k" "key_inv d Q A h k'"
    and "nd_claims d' = nd_claims d \<or> nd_claims d' = mdel k (nd_claims d)" "nd_maxAttempts d' = nd_maxAttempts d"
    and "\<And>r'. r' \<noteq> r \<Longrightarrow> claim_at d' r' = claim_at d r'"
    and "attempts_of d' k' = attempts_of d k'" "h' k' = h k'"
    and "\<And>r'. count Q' (k', r') = count Q (k', r')" "\<And>r'. count A' (k', r') = count A (k', r')"
  shows "key_inv d' Q' A' h' k'"
proof -
  have same: "mget (nd_claims d') k' = mget (nd_claims d) k'" using assms(3,5) by auto
  have "sent_of d' k' = sent_of d k'" using assms(8) by (simp add: sent_of_def)
  moreover have "claim_at d' r' = claim_at d r'" if "mget (nd_claims d) k' = Some r'" for r'
    using that refs_inj [OF assms(1,2), of k'] assms(3) by (intro assms(7)) auto
  ultimately show ?thesis
    using assms(4)
    by (cases "mget (nd_claims d) k'") (simp_all add: key_inv_def same assms(6,8,9,10,11) del: upt_Suc)
qed

lemma sending_other:
  assumes "refs_inv d" "mget (nd_claims d) k = Some r" "(k', r') \<noteq> (k, r)" "r < length (nd_heap d)"
  shows "sending (update_claim r f d) k' r' = sending d k' r'"
  using assms refs_inj [OF assms(1,2), of k'] by (auto simp: sending_def)

lemma owned_move:
  assumes "owned_inv d P Q A" "A' \<subseteq># Q'"
    and "\<And>k' r'. (k', r') \<noteq> (k, r) \<Longrightarrow> sending d' k' r' = sending d k' r'"
    and "\<And>k' r'. (k', r') \<noteq> (k, r) \<Longrightarrow> count P' (k', r') + count Q' (k', r') = count P (k', r') + count Q (k', r')"
    and "count P' (k, r) + count Q' (k, r) = (if sending d' k r then 1 else 0)"
  shows "owned_inv d' P' Q' A'"
  unfolding owned_inv_def
proof (intro conjI allI assms(2))
  fix k' r'
  show "count P' (k', r') + count Q' (k', r') = (if sending d' k' r' then 1 else 0)"
    using assms(1,5) assms(3,4) [of k' r'] by (cases "(k', r') = (k, r)") (auto simp: owned_inv_def)
qed

section \<open>The operations\<close>

lemma claim_existing_inv:
  assumes inv: "delivery_inv d P Q A h" and k: "mget (nd_claims d) k = Some r"
    and st: "dc_state (claim_at d r) = Claim_Failed" "dc_attemptCount (claim_at d r) < nd_maxAttempts d"
  shows "delivery_inv (update_claim r (dc_state_update (\<lambda>_. Claim_Sending)) d) (add_mset (k, r) P) Q A h"
    (is "delivery_inv ?d _ _ _ _")
proof -
  have refs: "refs_inv d" and own: "owned_inv d P Q A" and keys: "\<And>k. key_inv d Q A h k"
    using inv by (auto simp: delivery_inv_def)
  note r = refs_bound [OF refs k]
  have zero: "count P (k, r) = 0" "count Q (k, r) = 0"
    using owned_free [OF own, of k r] st by (auto simp: sending_def)
  have "owned_inv ?d (add_mset (k, r) P) Q A"
  proof (rule owned_move [where k = k and r = r, OF own])
    show "A \<subseteq># Q" using own by (simp add: owned_inv_def)
  qed (simp_all add: sending_other [OF refs k _ r] zero, auto simp: sending_def k r)
  moreover have "key_inv ?d Q A h k'" for k'
  proof (cases "k' = k")
    case True
    then show ?thesis using keys [of k] zero st by (auto simp: key_inv_def k r)
  next
    case False
    then show ?thesis by (intro key_inv_other [OF refs k _ keys]) (auto simp: r)
  qed
  ultimately show ?thesis using refs by (simp add: delivery_inv_def)
qed

lemma claim_new_inv:
  assumes inv: "delivery_inv d P Q A h" and k: "mget (nd_claims d) k = None" and pos: "0 < nd_maxAttempts d"
    and c: "dc_state c = Claim_Sending" "dc_attemptCount c = 0"
    and d': "d' = d\<lparr>nd_heap := nd_heap d @ [c], nd_claims := mput k (length (nd_heap d)) (nd_claims d)\<rparr>"
  shows "delivery_inv d' (add_mset (k, length (nd_heap d)) P) Q A h"
proof -
  let ?n = "length (nd_heap d)"
  have refs: "refs_inv d" and own: "owned_inv d P Q A" and keys: "\<And>k. key_inv d Q A h k"
    using inv by (auto simp: delivery_inv_def)
  have fresh: "mget (nd_claims d) k' \<noteq> Some ?n" for k'
    using refs_bound [OF refs] by force
  have refs': "refs_inv d'"
    using refs fresh by (auto simp: refs_inv_def d' intro: less_SucI)
  have zero: "count P (k, r) = 0" "count Q (k, r) = 0" for r
    using owned_free [OF own, of k r] k by (auto simp: sending_def)
  have snd': "sending d' k' r' = (if k' = k then r' = ?n else sending d k' r')" for k' r'
    using refs_bound [OF refs, of k' r'] c by (auto simp: sending_def d' nth_append)
  have "owned_inv d' (add_mset (k, ?n) P) Q A"
  proof (rule owned_move [where k = k and r = ?n, OF own])
    show "A \<subseteq># Q" using own by (simp add: owned_inv_def)
    show "sending d' k' r' = sending d k' r'" if "(k', r') \<noteq> (k, ?n)" for k' r'
      using that k by (auto simp: snd') (auto simp: sending_def)
  qed (auto simp: zero snd')
  moreover have "key_inv d' Q A h k'" for k'
  proof (cases "k' = k")
    case True
    then show ?thesis using keys [of k] zero c pos
      by (auto simp: key_inv_def k d' attempts_of_def sent_of_def)
  next
    case False
    then show ?thesis using keys [of k'] refs_bound [OF refs, of k']
      by (auto simp: key_inv_def d' attempts_of_def sent_of_def nth_append split: option.splits)
  qed
  ultimately show ?thesis using refs' by (simp add: delivery_inv_def)
qed

lemma release_inv:
  assumes inv: "delivery_inv d (add_mset (k, r) P) Q A h"
  shows "delivery_inv (releaseClaim k r d) P Q A h"
proof -
  have refs: "refs_inv d" and own: "owned_inv d (add_mset (k, r) P) Q A" and keys: "\<And>k. key_inv d Q A h k"
    using inv by (auto simp: delivery_inv_def)
  note o = owned_sending [OF own, of k r, simplified]
  note r = refs_bound [OF refs o(1)]
  have q: "count Q (k, r) = 0" "count P (k, r) = 0" using o(3) by auto
  have a: "count A (k, r) = 0" using own q by (auto simp: owned_inv_def dest: mset_subset_eq_count [where a = "(k, r)"])
  let ?d = "releaseClaim k r d"
  have refs': "refs_inv ?d"
    using refs by (auto simp: releaseClaim_def) (auto simp: refs_inv_def)
  have snd': "sending ?d k' r' = (if k' = k then False else sending d k' r')" for k' r'
    using sending_other [OF refs o(1) _ r, of k' r'] by (auto simp: releaseClaim_def) (auto simp: sending_def o r)
  have one: "count (add_mset (k, r) P) (k, r') + count Q (k, r') = (if r' = r then 1 else 0)" for r'
  proof -
    have "count (add_mset (k, r) P) (k, r') + count Q (k, r') = (if sending d k r' then 1 else 0)"
      using own unfolding owned_inv_def by blast
    then show ?thesis using o by (auto simp: sending_def split: if_splits)
  qed
  have "owned_inv ?d P Q A"
    unfolding owned_inv_def
  proof (intro conjI allI)
    fix k' r'
    show "count P (k', r') + count Q (k', r') = (if sending ?d k' r' then 1 else 0)"
      using owned_count [OF own, of k' r'] one [of r'] by (cases "k' = k") (auto simp: snd' split: if_splits)
  qed (use own in \<open>simp add: owned_inv_def\<close>)
  moreover have "key_inv ?d Q A h k'" for k'
  proof (cases "k' = k")
    case True
    show ?thesis
    proof (cases "dc_attemptCount (claim_at d r) = 0")
      case z: True
      then show ?thesis using keys [of k] True o q a
        by (auto simp: key_inv_def releaseClaim_def attempts_of_def)
    next
      case False
      then show ?thesis using keys [of k] True o q a r
        by (auto simp: key_inv_def releaseClaim_def)
    qed
  next
    case False
    then show ?thesis
      by (intro key_inv_other [OF refs o(1) _ keys]) (auto simp: r releaseClaim_def attempts_of_def)
  qed
  ultimately show ?thesis using refs' by (simp add: delivery_inv_def)
qed

lemma attempt_inv:
  assumes inv: "delivery_inv d (add_mset (k, r) P) Q A h"
  shows "delivery_inv (update_claim r (\<lambda>c. c\<lparr>dc_attemptCount := dc_attemptCount c + 1\<rparr>) d) P (add_mset (k, r) Q) A h"
    (is "delivery_inv ?d _ _ _ _")
proof -
  have refs: "refs_inv d" and own: "owned_inv d (add_mset (k, r) P) Q A" and keys: "\<And>k. key_inv d Q A h k"
    using inv by (auto simp: delivery_inv_def)
  note o = owned_sending [OF own, of k r, simplified]
  note r = refs_bound [OF refs o(1)]
  have q: "count Q (k, r) = 0" "count P (k, r) = 0" using o(3) by auto
  have "A \<subseteq># Q" using own by (simp add: owned_inv_def)
  then have sub: "A \<subseteq># add_mset (k, r) Q" by (metis subset_mset.order_trans multi_self_add_other_not_self mset_subset_eq_add_right add_mset_add_single mset_subset_eq_add_left)
  have "owned_inv ?d P (add_mset (k, r) Q) A"
    using q by (intro owned_move [where k = k and r = r, OF own sub])
      (auto simp: sending_other [OF refs o(1) _ r], auto simp: sending_def o r)
  moreover have "key_inv ?d (add_mset (k, r) Q) A h k'" for k'
  proof (cases "k' = k")
    case True
    then show ?thesis using keys [of k] o q r by (auto simp: key_inv_def)
  next
    case False
    then show ?thesis by (intro key_inv_other [OF refs o(1) _ keys]) (auto simp: r)
  qed
  ultimately show ?thesis using refs by (simp add: delivery_inv_def)
qed

lemma sink_inv:
  assumes inv: "delivery_inv d P (add_mset (k, r) Q) A h" and sub: "A \<subseteq># Q"
    and less: "\<And>k'. h' k' \<le> h k' + (if ok \<and> k' = k then 1 else 0)"
  shows "delivery_inv d P (add_mset (k, r) Q) (if ok then add_mset (k, r) A else A) h'"
proof -
  have refs: "refs_inv d" and own: "owned_inv d P (add_mset (k, r) Q) A" and keys: "\<And>x. key_inv d (add_mset (k, r) Q) A h x"
    using inv by (auto simp: delivery_inv_def)
  note o = owned_sending [OF own, of k r, simplified]
  have "owned_inv d P (add_mset (k, r) Q) (if ok then add_mset (k, r) A else A)"
    using own sub by (auto simp: owned_inv_def)
  moreover have "key_inv d (add_mset (k, r) Q) (if ok then add_mset (k, r) A else A) h' k'" for k'
  proof (cases "k' = k")
    case True
    then show ?thesis using keys [of k] less [of k] o by (auto simp: key_inv_def simp del: upt_Suc)
  next
    case False
    then have "h' k' \<le> h k'" using less [of k'] by simp
    then show ?thesis using keys [of k'] False
      by (cases "mget (nd_claims d) k'")
        (auto simp: key_inv_def split: claim_state.splits,
         (cases "dc_state (claim_at d (the (mget (nd_claims d) k')))"; auto)+)
  qed
  ultimately show ?thesis using refs by (simp add: delivery_inv_def)
qed

text \<open>The sink's other operations only remove messages.\<close>

lemma sink_less_inv:
  assumes inv: "delivery_inv d P Q A h" and less: "\<And>k. h' k \<le> h k"
  shows "delivery_inv d P Q A h'"
proof -
  have "key_inv d Q A h' k" for k
  proof -
    have "key_inv d Q A h k" using inv by (simp add: delivery_inv_def)
    with less [of k] show ?thesis
      by (cases "mget (nd_claims d) k"; cases "dc_state (claim_at d (the (mget (nd_claims d) k)))") (auto simp: key_inv_def)
  qed
  with inv show ?thesis by (simp add: delivery_inv_def)
qed

lemma record_answer_inv:
  assumes inv: "delivery_inv d P (add_mset (k, r) Q) (if isl answer then A else add_mset (k, r) A) h" and sub: "A \<subseteq># Q"
    and rec: "record_answer request channel k r time answer d = (oc, d')"
  shows "delivery_inv d' P Q A h"
proof -
  let ?A = "if isl answer then A else add_mset (k, r) A"
  have refs: "refs_inv d" and own: "owned_inv d P (add_mset (k, r) Q) ?A" and keys: "\<And>x. key_inv d (add_mset (k, r) Q) ?A h x"
    using inv by (auto simp: delivery_inv_def)
  note o = owned_sending [OF own, of k r, simplified]
  note r = refs_bound [OF refs o(1)]
  have q: "count Q (k, r) = 0" "count P (k, r) = 0" using o(3) by auto
  have a: "count A (k, r) = 0" using q mset_subset_eq_count [OF sub, of "(k, r)"] by simp
  obtain f where st: "\<And>c. dc_state (f c) \<noteq> Claim_Sending" "\<And>c. dc_state (f c) = (if isl answer then Claim_Failed else Claim_Sent)"
      "\<And>c. dc_attemptCount (f c) = dc_attemptCount c"
    and d': "nd_claims d' = nd_claims d" "nd_maxAttempts d' = nd_maxAttempts d" "nd_heap d' = nd_heap (update_claim r f d)"
      "attempts_of d' = (\<lambda>k'. attempts_of d k' @ (if k' = k then [last (nd_attemptLog d')] else []))"
      "na_attempt (last (nd_attemptLog d')) = dc_attemptCount (claim_at d r)" "na_sent (last (nd_attemptLog d')) = (\<not> isl answer)"
  proof (cases answer)
    case (Inl err)
    show ?thesis
      by (rule that [of "\<lambda>c. c\<lparr>dc_state := Claim_Failed, dc_lastError := Some (case err of Some m \<Rightarrow> m | None \<Rightarrow> ''delivery failed'')\<rparr>"])
        (use Inl rec r in \<open>auto simp: log_attempt_def attempts_of_def fun_eq_iff Let_def\<close>)
  next
    case (Inr m)
    show ?thesis
      by (rule that [of "\<lambda>c. c\<lparr>dc_state := Claim_Sent, dc_messageId := Some m, dc_lastError := None\<rparr>"])
        (use Inr rec r in \<open>auto simp: log_attempt_def attempts_of_def fun_eq_iff Let_def\<close>)
  qed
  have heap: "claim_at d' r' = (if r' = r then f (claim_at d r) else claim_at d r')" for r'
    using d'(3) r by simp
  have refs': "refs_inv d'" using refs d'(1,3) by (simp add: refs_inv_def)
  have snd': "sending d' k' r' = ((k', r') \<noteq> (k, r) \<and> sending d k' r')" for k' r'
    using refs_inj [OF refs o(1), of k'] st(1) by (auto simp: sending_def d'(1) heap o(1))
  have "owned_inv d' P Q A"
    using q own sub by (intro owned_move [where k = k and r = r, OF own]) (auto simp: snd')
  moreover have "key_inv d' Q A h k'" for k'
  proof (cases "k' = k")
    case True
    have n: "0 < dc_attemptCount (claim_at d r)" using keys [of k] o by (auto simp: key_inv_def)
    then have "[Suc 0..<dc_attemptCount (claim_at d r)] @ [dc_attemptCount (claim_at d r)] = [Suc 0..<Suc (dc_attemptCount (claim_at d r))]"
      by simp
    then show ?thesis using keys [of k] True o q a st(2,3) n
      by (auto simp: key_inv_def d'(1,2,4,5,6) heap sent_of_def simp del: upt_Suc split: if_splits)
  next
    case False
    then show ?thesis by (intro key_inv_other [OF refs o(1) _ keys]) (auto simp: d'(1,2,4) heap)
  qed
  ultimately show ?thesis using refs' by (simp add: delivery_inv_def)
qed

end
