(* ===== verification/Notification_Rendering.thy ===== *)
theory Notification_Rendering
  imports Notifications
begin

text \<open>
  What rendering guarantees: a formatted amount can be read back, a rendered link is an internal path,
  and valid parameters always render.
\<close>

section \<open>Amounts\<close>

lemma group3_digits: "list_all is_digit s \<Longrightarrow> filter is_digit (group3 s) = s"
proof (induction s rule: group3.induct)
  case (1 a b c d ds)
  have "\<not> is_digit CHR '',''" by (simp add: is_digit_def code_of_def)
  with 1 show ?case by simp
qed (simp_all add: list_all_iff filter_id_conv)

lemma group3_no_space: "CHR '' '' \<notin> set s \<Longrightarrow> CHR '' '' \<notin> set (group3 s)"
  by (induction s rule: group3.induct) auto

lemma group_digits_digits: "list_all is_digit s \<Longrightarrow> filter is_digit (group_digits s) = s"
  using group3_digits [of "rev s"] by (simp add: group_digits_def rev_filter [symmetric] list_all_rev)

lemma group_digits_no_space: "list_all is_digit s \<Longrightarrow> CHR '' '' \<notin> set (group_digits s)"
proof -
  have "\<not> is_digit CHR '' ''" by (simp add: is_digit_def code_of_def)
  then show "list_all is_digit s \<Longrightarrow> CHR '' '' \<notin> set (group_digits s)"
    using group3_no_space [of "rev s"] by (auto simp: group_digits_def list_all_iff)
qed

text \<open>The number a rendered amount stands for: its digits up to the first blank.\<close>

definition read_amount :: "string \<Rightarrow> int" where
  "read_amount s = int (read_nat (filter is_digit (takeWhile (\<lambda>c. c \<noteq> CHR '' '') s)))"

lemma takeWhile_blank: "CHR '' '' \<notin> set s \<Longrightarrow> takeWhile (\<lambda>c. c \<noteq> CHR '' '') (s @ '' '' @ t) = s"
  by (induction s) auto

text \<open>Display without loss: a formatted amount shows every digit, so reading its digits back gives the amount
  in atomic units.\<close>

theorem format_amount_roundtrip:
  assumes "formatAtomicAmount amount currency = Inr s"
  shows "read_amount s = amount"
proof -
  obtain e where amount: "0 \<le> amount" and e: "mget CURRENCY_EXPONENTS currency = Some e"
    using assms by (auto simp: formatAtomicAmount_def split: if_splits option.splits)
  let ?d = "show_nat (nat amount)"
  have d: "show_int amount = ?d" using amount by (simp add: show_int_def)
  have digits: "list_all is_digit ?d" by (rule show_nat_digits)
  have zero: "is_digit CHR ''0''" "\<not> is_digit CHR ''.''" by (simp_all add: is_digit_def code_of_def)
  have blank: "\<not> is_digit CHR '' ''" by (simp add: is_digit_def code_of_def)
  have val: "int (read_nat ?d) = amount" using amount by simp
  show ?thesis
  proof (cases "e = 0")
    case True
    then have "s = group_digits ?d @ '' '' @ currency"
      using assms amount e d by (simp add: formatAtomicAmount_def Let_def)
    then show ?thesis
      using takeWhile_blank [OF group_digits_no_space [OF digits]] group_digits_digits [OF digits] val
      by (simp add: read_amount_def)
  next
    case False
    define padded where "padded = pad_start e ?d"
    define whole where "whole = (if length ?d > e then take (length ?d - e) ?d else ''0'')"
    define fraction where "fraction = drop (length padded - e) padded"
    have len: "e \<le> length padded" by (simp add: padded_def pad_start_def)
    then have fr: "fraction \<noteq> []" using False by (simp add: fraction_def)
    have s: "s = (group_digits whole @ ''.'' @ fraction) @ '' '' @ currency"
      using assms amount e d False fr by (simp add: formatAtomicAmount_def Let_def whole_def fraction_def padded_def)
    have wd: "list_all is_digit whole" "list_all is_digit fraction"
      using digits zero by (auto simp: whole_def fraction_def padded_def pad_start_def list_all_iff
          dest!: in_set_takeD in_set_dropD)
    have "CHR '' '' \<notin> set (group_digits whole @ ''.'' @ fraction)"
      using group_digits_no_space [OF wd(1)] wd(2) blank by (auto simp: list_all_iff)
    then have "read_amount s = int (read_nat (whole @ fraction))"
      using takeWhile_blank [of "group_digits whole @ ''.'' @ fraction" currency] wd zero group_digits_digits [OF wd(1)]
      by (simp add: s read_amount_def list_all_iff filter_id_conv)
    also have "read_nat (whole @ fraction) = read_nat ?d"
    proof (cases "length ?d > e")
      case True
      then have "padded = ?d" by (simp add: padded_def pad_start_def)
      with True have "whole @ fraction = ?d" by (simp add: whole_def fraction_def)
      then show ?thesis by simp
    next
      case False
      then have "length padded = e" by (simp add: padded_def pad_start_def)
      with False have "whole @ fraction = replicate (Suc (e - length ?d)) CHR ''0'' @ ?d"
        by (simp add: whole_def fraction_def padded_def pad_start_def)
      then show ?thesis by (simp only: read_nat_zeros_append)
    qed
    finally show ?thesis using val by simp
  qed
qed

lemma format_amount_roundtrip_witness:
  "read_amount (''1,234 VND'') = 1234"
  by (rule format_amount_roundtrip [of _ "''VND''"]) code_simp

section \<open>Links\<close>

lemma double_slash_Cons:
  "double_slash (a # s) \<longleftrightarrow> double_slash s \<or> (s \<noteq> [] \<and> a = CHR ''/'' \<and> hd s = CHR ''/'')"
proof (cases s)
  case (Cons b r)
  then show ?thesis by (simp only: double_slash.simps(1) list.sel(1) list.distinct simp_thms) blast
qed simp

lemma double_slash_append:
  "double_slash (s @ t) \<longleftrightarrow> double_slash s \<or> double_slash t \<or>
     (s \<noteq> [] \<and> t \<noteq> [] \<and> last s = CHR ''/'' \<and> hd t = CHR ''/'')"
proof (induction s)
  case (Cons a s)
  then show ?case by (cases s) (simp_all add: double_slash_Cons, blast+)
qed simp

lemma no_slash: "list_all ref_char s \<Longrightarrow> CHR ''/'' \<notin> set s"
proof -
  have "\<not> ref_char CHR ''/''" by (simp add: ref_char_def is_alnum_def is_digit_def is_upper_def is_lower_def code_of_def)
  then show "list_all ref_char s \<Longrightarrow> CHR ''/'' \<notin> set s" by (auto simp: list_all_iff)
qed

lemma no_double_slash: "CHR ''/'' \<notin> set s \<Longrightarrow> \<not> double_slash s"
  by (induction s rule: double_slash.induct) auto

lemma REF_PATTERN_link:
  assumes "REF_PATTERN s"
  shows "\<not> double_slash s" "s \<noteq> []" "hd s \<noteq> CHR ''/''" "last s \<noteq> CHR ''/''"
    "list_all (\<lambda>d. ref_char d \<or> d = CHR ''/'') s"
proof -
  have l: "list_all ref_char s" "s \<noteq> []" using assms by (auto simp: REF_PATTERN_def)
  then have n: "CHR ''/'' \<notin> set s" using no_slash by blast
  show "\<not> double_slash s" "s \<noteq> []" using no_double_slash [OF n] l by blast+
  show "hd s \<noteq> CHR ''/''" "last s \<noteq> CHR ''/''" using n l(2) hd_in_set last_in_set by metis+
  show "list_all (\<lambda>d. ref_char d \<or> d = CHR ''/'') s" using l(1) by (simp add: list_all_iff)
qed

text \<open>What the templates need of valid parameters: a route-safe reference and a supported currency.\<close>

definition valid_params :: "(string \<Rightarrow> bool) \<Rightarrow> notification_template \<Rightarrow> params \<Rightarrow> bool" where
  "valid_params dateOk d p \<longleftrightarrow> (\<forall>(k, kind) \<in> set (tm_params d). validateParam dateOk kind (param_value p k) = Inr ())"

definition supported_currency :: "notification_template \<Rightarrow> params \<Rightarrow> bool" where
  "supported_currency d p \<longleftrightarrow> ((''amount'', Amount) \<in> set (tm_params d) \<longrightarrow>
     str_param p ''currency'' \<in> set (mkeys CURRENCY_EXPONENTS))"

lemma valid_ref: "validateParam dateOk Ref (param_value p k) = Inr () \<Longrightarrow> REF_PATTERN (str_param p k)"
  by (auto simp: validateParam_def echeck_Inr param_value_def str_param_def split: jsval.splits option.splits)

lemma valid_amount: "validateParam dateOk Amount (param_value p ''amount'') = Inr () \<Longrightarrow> 0 \<le> amount_param p"
  by (auto simp: validateParam_def echeck_Inr param_value_def amount_param_def split: jsval.splits option.splits)

lemma money_ok:
  "0 \<le> amount_param p \<Longrightarrow> str_param p ''currency'' \<in> set (mkeys CURRENCY_EXPONENTS) \<Longrightarrow> \<exists>m. money p = Inr m"
  by (auto simp: money_def formatAtomicAmount_def Let_def mkeys_def CURRENCY_EXPONENTS_def)

definition template_ok :: "(string \<Rightarrow> bool) \<Rightarrow> notification_template \<Rightarrow> bool" where
  "template_ok dateOk d \<longleftrightarrow> (\<forall>p. valid_params dateOk d p \<longrightarrow>
     LINK_PATTERN (tm_linkPath d p) \<and> \<not> double_slash (tm_linkPath d p)
     \<and> (supported_currency d p \<longrightarrow> (\<exists>b. tm_body d p = Inr b)))"

text \<open>The fixed parts of the links.\<close>

definition safe_text :: "string \<Rightarrow> bool" where
  "safe_text s \<longleftrightarrow> list_all (\<lambda>d. ref_char d \<or> d = CHR ''/'') s \<and> \<not> double_slash s"

lemma fixed_parts:
  "safe_text ''/orders/''" "safe_text ''/requests/''" "safe_text ''/auctions/''" "safe_text ''/campaigns/''"
  "safe_text ''/funding''" "safe_text ''/sign-in''" "safe_text ''/reset-password''" "safe_text ''/creator/earnings''"
  "safe_text ''/creator/payments''" "safe_text ''/explore''"
  by code_simp+

lemma safe_link: "safe_text (CHR ''/'' # s) \<Longrightarrow> LINK_PATTERN (CHR ''/'' # s) \<and> \<not> double_slash (CHR ''/'' # s)"
  by (simp add: safe_text_def LINK_PATTERN_def)

lemma safe_ref: "REF_PATTERN r \<Longrightarrow> safe_text s \<Longrightarrow> safe_text (s @ r)"
  "REF_PATTERN r \<Longrightarrow> safe_text s \<Longrightarrow> safe_text t \<Longrightarrow> safe_text (s @ r @ t)"
  using REF_PATTERN_link [of r] by (auto simp: safe_text_def double_slash_append)

lemma link_ok:
  assumes "REF_PATTERN r"
  shows "LINK_PATTERN (''/orders/'' @ r) \<and> \<not> double_slash (''/orders/'' @ r)"
    and "LINK_PATTERN (''/requests/'' @ r) \<and> \<not> double_slash (''/requests/'' @ r)"
    and "LINK_PATTERN (''/auctions/'' @ r) \<and> \<not> double_slash (''/auctions/'' @ r)"
    and "LINK_PATTERN (''/campaigns/'' @ r @ ''/funding'') \<and> \<not> double_slash (''/campaigns/'' @ r @ ''/funding'')"
  using safe_ref(1) [OF assms fixed_parts(1)] safe_ref(1) [OF assms fixed_parts(2)] safe_ref(1) [OF assms fixed_parts(3)]
    safe_ref(2) [OF assms fixed_parts(4,5)]
  by (simp_all only: append_Cons) (simp_all only: safe_link simp_thms)

lemma fixed_link_ok:
  "LINK_PATTERN ''/sign-in'' \<and> \<not> double_slash ''/sign-in''"
  "LINK_PATTERN ''/reset-password'' \<and> \<not> double_slash ''/reset-password''"
  "LINK_PATTERN ''/creator/earnings'' \<and> \<not> double_slash ''/creator/earnings''"
  "LINK_PATTERN ''/creator/payments'' \<and> \<not> double_slash ''/creator/payments''"
  "LINK_PATTERN ''/explore'' \<and> \<not> double_slash ''/explore''"
  using fixed_parts(6-10) by (simp_all only: safe_link simp_thms)

lemma order_link_ok: "REF_PATTERN (str_param p ''orderRef'') \<Longrightarrow> LINK_PATTERN (orderLink p) \<and> \<not> double_slash (orderLink p)"
  unfolding orderLink_def by (rule link_ok(1))

lemma templates_ok:
  "list_all (\<lambda>e. template_ok dateOk (snd e)) templates_orders_1"
  "list_all (\<lambda>e. template_ok dateOk (snd e)) templates_orders_2"
  "list_all (\<lambda>e. template_ok dateOk (snd e)) templates_rest"
proof -
  have m: "\<exists>b. ebind (money p) (\<lambda>m. Inr (f m)) = Inr b"
    if "0 \<le> amount_param p" "str_param p ''currency'' \<in> set (mkeys CURRENCY_EXPONENTS)" for p and f :: "string \<Rightarrow> string"
    using money_ok [OF that] by auto
  note defs = list.pred_inject snd_conv template_ok_def valid_params_def supported_currency_def notification_template.simps
    list.set insert_iff empty_iff ball_simps prod.case
  show "list_all (\<lambda>e. template_ok dateOk (snd e)) templates_orders_1"
    unfolding templates_orders_1_def defs
    by (intro conjI allI impI TrueI) (use fixed_link_ok order_link_ok valid_ref valid_amount m in \<open>auto\<close>)
  show "list_all (\<lambda>e. template_ok dateOk (snd e)) templates_orders_2"
    unfolding templates_orders_2_def defs
    by (intro conjI allI impI TrueI) (use fixed_link_ok order_link_ok valid_ref valid_amount m in \<open>auto\<close>)
  show "list_all (\<lambda>e. template_ok dateOk (snd e)) templates_rest"
    unfolding templates_rest_def defs
    by (intro conjI allI impI TrueI) (use fixed_link_ok link_ok order_link_ok valid_ref valid_amount m in \<open>auto\<close>)
qed

lemma template_in_catalogue:
  assumes "mget NOTIFICATION_TEMPLATES tid = Some d"
  shows "template_ok dateOk d"
proof -
  have "list_all (\<lambda>e. template_ok dateOk (snd e)) NOTIFICATION_TEMPLATES"
    using templates_ok by (simp add: NOTIFICATION_TEMPLATES_def)
  with mget_mem [OF assms] show ?thesis by (auto simp: list_all_iff)
qed

lemma validations_Inr:
  "esequence (map (\<lambda>(k, kind). validateParam dateOk kind (param_value p k)) (tm_params d)) = Inr us \<Longrightarrow> valid_params dateOk d p"
proof -
  assume "esequence (map (\<lambda>(k, kind). validateParam dateOk kind (param_value p k)) (tm_params d)) = Inr us"
  then have eq: "map (\<lambda>(k, kind). validateParam dateOk kind (param_value p k)) (tm_params d) = map Inr us"
    by (simp add: esequence_Inr_iff)
  have "validateParam dateOk kind (param_value p k) = Inr ()" if "(k, kind) \<in> set (tm_params d)" for k kind
  proof -
    have "validateParam dateOk kind (param_value p k) \<in> set (map Inr us)"
      unfolding eq [symmetric] using that by force
    then show ?thesis by auto
  qed
  then show ?thesis by (auto simp: valid_params_def)
qed

lemma valid_params_sequence:
  assumes "valid_params dateOk d p"
  shows "\<exists>us. esequence (map (\<lambda>(k, kind). validateParam dateOk kind (param_value p k)) (tm_params d)) = Inr us"
proof -
  have "map (\<lambda>(k, kind). validateParam dateOk kind (param_value p k)) (tm_params d) = map Inr (map (\<lambda>_. ()) (tm_params d))"
    using assms by (auto simp: valid_params_def)
  then show ?thesis by (metis esequence_map_Inr)
qed

text \<open>C40. A rendered message is safe: its subject and category are those of the template, every parameter passed is one
  the template declares and is valid for it, and its link is an internal path of route-safe segments, with no query,
  fragment, scheme or double slash.\<close>

theorem rendered_is_safe:
  assumes "renderNotification dateOk tid (Some p) = Inr r"
  shows "\<exists>d. mget NOTIFICATION_TEMPLATES tid = Some d \<and> rn_subject r = tm_subject d \<and> rn_category r = tm_category d
    \<and> set (mkeys p) \<subseteq> set (mkeys (tm_params d)) \<and> valid_params dateOk d p
    \<and> hd (rn_linkPath r) = CHR ''/'' \<and> (\<forall>c \<in> set (rn_linkPath r). ref_char c \<or> c = CHR ''/'') \<and> \<not> double_slash (rn_linkPath r)"
proof -
  obtain d us where d: "mget NOTIFICATION_TEMPLATES tid = Some d"
    and keys: "list_all (\<lambda>k. k \<in> set (mkeys (tm_params d))) (mkeys p)"
    and vals: "esequence (map (\<lambda>(k, kind). validateParam dateOk kind (param_value p k)) (tm_params d)) = Inr us"
    and link: "LINK_PATTERN (tm_linkPath d p)" "\<not> double_slash (tm_linkPath d p)"
    and r: "rn_subject r = tm_subject d" "rn_category r = tm_category d" "rn_linkPath r = tm_linkPath d p"
    using assms by (auto simp: renderNotification_def ebind_Inr echeck_Inr Let_def split: option.splits)
  have "hd (rn_linkPath r) = CHR ''/''" "\<forall>c \<in> set (rn_linkPath r). ref_char c \<or> c = CHR ''/''"
    using link(1) by (auto simp: r(3) LINK_PATTERN_def list_all_iff split: list.splits)
  with d keys r link(2) validations_Inr [OF vals] show ?thesis by (auto simp: list_all_iff)
qed

lemma rendered_is_safe_witness:
  "\<exists>d. mget NOTIFICATION_TEMPLATES ''order.new'' = Some d \<and> tm_subject d = ''You have a new order''"
proof -
  let ?p = "[(''orderRef'', JString ''o-1''), (''serviceTitle'', JString ''Logo'')]"
  have "renderNotification (\<lambda>_. True) ''order.new'' (Some ?p) = Inr \<lparr>rn_templateId = ''order.new'',
      rn_category = Transactional, rn_subject = ''You have a new order'',
      rn_body = ''A buyer booked '' @ [quote_c] @ ''Logo'' @ [quote_c] @ ''. Review the order to get started.'',
      rn_linkPath = ''/orders/o-1''\<rparr>"
    by code_simp
  from rendered_is_safe [OF this] show ?thesis by auto
qed

text \<open>No message is lost to its own template: for every template of the catalogue, parameters that are declared and
  valid, in a currency with a known exponent, render.\<close>

theorem valid_params_render:
  assumes "mget NOTIFICATION_TEMPLATES tid = Some d" "set (mkeys p) \<subseteq> set (mkeys (tm_params d))"
    and "valid_params dateOk d p" "supported_currency d p"
  shows "\<exists>r. renderNotification dateOk tid (Some p) = Inr r"
proof -
  obtain us where "esequence (map (\<lambda>(k, kind). validateParam dateOk kind (param_value p k)) (tm_params d)) = Inr us"
    using valid_params_sequence [OF assms(3)] by blast
  moreover obtain b where "LINK_PATTERN (tm_linkPath d p)" "\<not> double_slash (tm_linkPath d p)" "tm_body d p = Inr b"
    using template_in_catalogue [OF assms(1), of dateOk] assms(3,4) by (auto simp: template_ok_def)
  ultimately show ?thesis
    using assms(1,2) by (auto simp: renderNotification_def Let_def list_all_iff echeck_def)
qed

lemma valid_params_render_witness:
  "\<exists>r. renderNotification (\<lambda>_. True) ''payment.pending''
     (Some [(''orderRef'', JString ''o-1''), (''amount'', JBigint 5), (''currency'', JString ''EUR'')]) = Inr r"
proof -
  let ?p = "[(''orderRef'', JString ''o-1''), (''amount'', JBigint 5), (''currency'', JString ''EUR'')]"
  let ?d = "the (mget NOTIFICATION_TEMPLATES ''payment.pending'')"
  have "mget NOTIFICATION_TEMPLATES ''payment.pending'' \<noteq> None" by code_simp
  then have d: "mget NOTIFICATION_TEMPLATES ''payment.pending'' = Some ?d" by simp
  have "tm_params ?d = [(''orderRef'', Ref), (''amount'', Amount), (''currency'', Currency)]" by code_simp
  moreover have "validateParam (\<lambda>_. True) Ref (param_value ?p ''orderRef'') = Inr ()"
    "validateParam (\<lambda>_. True) Amount (param_value ?p ''amount'') = Inr ()"
    "validateParam (\<lambda>_. True) Currency (param_value ?p ''currency'') = Inr ()" by code_simp+
  moreover have "str_param ?p ''currency'' \<in> set (mkeys CURRENCY_EXPONENTS)" by code_simp
  ultimately show ?thesis
    by (intro valid_params_render [OF d]) (simp_all add: valid_params_def supported_currency_def mkeys_def)
qed

end
