(* ===== verification/Dispatch_Safety.thy ===== *)
theory Dispatch_Safety
  imports Dispatch_Invariant Notification_Rendering
begin

text \<open>
  What interleaved calls of \<open>dispatch\<close> guarantee. \<open>notification_sink\<close> is the contract the dispatcher
  needs of a sink; the invariant of \<open>Dispatch_Invariant\<close> is lifted to systems of calls inside it, and
  both sinks of the code interpret it.
\<close>

section \<open>Calls and the invariant\<close>

fun item_refs :: "work_item list \<Rightarrow> (string \<times> nat) multiset" where
  "item_refs [] = {#}"
| "item_refs (Claimed c k r # w) = add_mset (k, r) (item_refs w)"
| "item_refs (Settled oc # w) = item_refs w"

fun item_channel :: "work_item \<Rightarrow> notification_channel" where
  "item_channel (Claimed c k r) = c"
| "item_channel (Settled oc) = co_channel oc"

definition waiting :: "job \<Rightarrow> (string \<times> nat) multiset" where
  "waiting j = item_refs (jb_work j)"

definition in_flight :: "job \<Rightarrow> (string \<times> nat) multiset" where
  "in_flight j = (case jb_phase j of Calling c k r t m \<Rightarrow> {#(k, r)#} | Answered c k r t a \<Rightarrow> {#(k, r)#} | _ \<Rightarrow> {#})"

definition accepted :: "job \<Rightarrow> (string \<times> nat) multiset" where
  "accepted j = (case jb_phase j of Answered c k r t a \<Rightarrow> if isl a then {#} else {#(k, r)#} | _ \<Rightarrow> {#})"

definition total :: "(job \<Rightarrow> 'a multiset) \<Rightarrow> job list \<Rightarrow> 'a multiset" where
  "total f js = sum_list (map f js)"

definition rest :: "(job \<Rightarrow> 'a multiset) \<Rightarrow> nat \<Rightarrow> job list \<Rightarrow> 'a multiset" where
  "rest f i js = total f (take i js @ drop (Suc i) js)"

definition settled_channels :: "job \<Rightarrow> notification_channel list" where
  "settled_channels j = map co_channel (jb_outcomes j)
     @ (case jb_phase j of Calling c k r t m \<Rightarrow> [c] | Answered c k r t a \<Rightarrow> [c] | _ \<Rightarrow> []) @ map item_channel (jb_work j)"

definition job_ok :: "job \<Rightarrow> bool" where
  "job_ok j \<longleftrightarrow> rn_category (jb_rendered j) = jb_category j
     \<and> (case jb_phase j of
          Calling c k r t m \<Rightarrow> om_dedupeKey m = k \<and> om_rendered m = jb_rendered j
            \<and> om_recipientId m = nr_recipientId (jb_request j) \<and> (jb_category j = Marketing \<longrightarrow> jb_optIn j)
        | Returned \<Rightarrow> jb_work j = [] | Thrown e \<Rightarrow> jb_work j = [] | _ \<Rightarrow> True)
     \<and> ((\<nexists>e. jb_phase j = Thrown e) \<longrightarrow> settled_channels j = jb_channels j)"

lemma total_simps [simp]: "total f [] = {#}" "total f (js @ [j]) = f j + total f js"
  by (simp_all add: total_def)

lemma total_nth: "i < length js \<Longrightarrow> total f js = f (js ! i) + rest f i js"
  by (subst id_take_nth_drop [of i js]) (simp_all add: total_def rest_def)

lemma totals_update: "i < length js \<Longrightarrow> total f (js[i := j]) = f j + rest f i js"
  by (simp add: upd_conv_take_nth_drop total_def rest_def)

lemma total_mono: "(\<And>j. f j \<subseteq># g j) \<Longrightarrow> total f js \<subseteq># total g js"
  by (induction js) (auto simp: total_def intro: subset_mset.add_mono)

lemma accepted_in_flight: "accepted j \<subseteq># in_flight j"
  by (simp add: accepted_def in_flight_def split: job_phase.splits)

lemma rest_accepted: "rest accepted i js \<subseteq># rest in_flight i js"
  unfolding rest_def by (rule total_mono) (rule accepted_in_flight)

lemma claim_channels_settled:
  assumes "mget (nd_claims d) (keyOf c) = Some r"
    and "dc_state (claim_at d r) \<noteq> Claim_Failed \<or> nd_maxAttempts d \<le> dc_attemptCount (claim_at d r)"
  shows "\<exists>oc. co_channel oc = c \<and> claim_channels keyOf hash (c # cs) d
    = (let (w, d') = claim_channels keyOf hash cs d in (Settled oc # w, d'))"
proof (cases "dc_state (claim_at d r) = Claim_Failed")
  case True
  with assms show ?thesis
    by (intro exI [of _ "(outcome c (keyOf c) FAILED (claim_at d r))\<lparr>co_error := Some ''MAX_ATTEMPTS_EXCEEDED''\<rparr>"])
      (simp add: outcome_def Let_def)
next
  case False
  then have "dc_state (claim_at d r) = Claim_Sent \<or> dc_state (claim_at d r) = Claim_Sending"
    by (cases "dc_state (claim_at d r)") auto
  with assms show ?thesis
    by (intro exI [of _ "outcome c (keyOf c) DUPLICATE_SUPPRESSED (claim_at d r)"]) (auto simp: outcome_def Let_def)
qed

lemma claim_channels_inv:
  assumes "claim_channels keyOf hash cs d = (w, d')" "delivery_inv d P Q A h" "0 < nd_maxAttempts d"
  shows "delivery_inv d' (item_refs w + P) Q A h \<and> nd_maxAttempts d' = nd_maxAttempts d \<and> map item_channel w = cs"
  using assms
proof (induction cs arbitrary: w d P)
  case (Cons c cs)
  let ?step = "\<lambda>item d1. \<exists>w2. w = item # w2 \<and> claim_channels keyOf hash cs d1 = (w2, d')"
  let ?key = "keyOf c"
  show ?case
  proof (cases "mget (nd_claims d) ?key")
    case None
    let ?c = "\<lparr>dc_state = Claim_Sending, dc_payloadHash = hash, dc_attemptCount = 0, dc_messageId = None, dc_lastError = None\<rparr>"
    let ?d = "d\<lparr>nd_heap := nd_heap d @ [?c], nd_claims := mput ?key (length (nd_heap d)) (nd_claims d)\<rparr>"
    obtain w2 where w: "w = Claimed c ?key (length (nd_heap d)) # w2" "claim_channels keyOf hash cs ?d = (w2, d')"
      using Cons.prems(1) None by (auto simp: Let_def split: prod.splits)
    have "delivery_inv ?d (add_mset (?key, length (nd_heap d)) P) Q A h"
      by (rule claim_new_inv [OF Cons.prems(2) None Cons.prems(3)]) simp_all
    from Cons.IH [OF w(2) this] Cons.prems(3) show ?thesis by (simp add: w(1))
  next
    case (Some r)
    consider (settled) oc where "co_channel oc = c" "?step (Settled oc) d"
      | (failed) "dc_state (claim_at d r) = Claim_Failed" "dc_attemptCount (claim_at d r) < nd_maxAttempts d"
          "?step (Claimed c ?key r) (update_claim r (dc_state_update (\<lambda>_. Claim_Sending)) d)"
    proof (cases "dc_state (claim_at d r) = Claim_Failed \<and> dc_attemptCount (claim_at d r) < nd_maxAttempts d")
      case True
      then show ?thesis using Cons.prems(1) Some by (intro that(2)) (auto simp: Let_def split: prod.splits)
    next
      case False
      then have "dc_state (claim_at d r) \<noteq> Claim_Failed \<or> nd_maxAttempts d \<le> dc_attemptCount (claim_at d r)" by auto
      from claim_channels_settled [where keyOf = keyOf and cs = cs and hash = hash, OF Some this]
      obtain oc where "co_channel oc = c"
        "claim_channels keyOf hash (c # cs) d = (let (w, d') = claim_channels keyOf hash cs d in (Settled oc # w, d'))" by blast
      then show ?thesis using Cons.prems(1) that(1) [of oc] by (simp del: claim_channels.simps add: Let_def split: prod.splits)
    qed
    then show ?thesis
    proof cases
      case settled
      with Cons.IH Cons.prems(2,3) show ?thesis by auto
    next
      case failed
      from claim_existing_inv [OF Cons.prems(2) Some failed(1,2)] failed(3) Cons.IH Cons.prems(3)
      show ?thesis by fastforce
    qed
  qed
qed simp

lemma releaseClaim_simps [simp]: "nd_maxAttempts (releaseClaim k r d) = nd_maxAttempts d"
  by (simp add: releaseClaim_def)

lemma advance_inv:
  assumes "advance t j w outs d = (j', d')" "delivery_inv d (item_refs w + P) Q A h"
  shows "delivery_inv d' (waiting j' + P) (in_flight j' + Q) A h \<and> accepted j' = {#} \<and> nd_maxAttempts d' = nd_maxAttempts d"
  using assms
proof (induction t j w outs d rule: advance.induct)
  case (3 t j c k r w outs d)
  show ?case
  proof (cases "jb_category j = Marketing \<and> \<not> jb_optIn j")
    case True
    have "delivery_inv (releaseClaim k r d) (item_refs w + P) Q A h"
      by (rule release_inv) (use "3.prems"(2) in simp)
    from "3.IH" [OF True refl _ this] "3.prems"(1) True show ?thesis by (simp add: Let_def)
  next
    case False
    have "delivery_inv (update_claim r (\<lambda>c. c\<lparr>dc_attemptCount := dc_attemptCount c + 1\<rparr>) d) (item_refs w + P) (add_mset (k, r) Q) A h"
      by (rule attempt_inv) (use "3.prems"(2) in simp)
    with "3.prems"(1) False show ?thesis by (auto simp: Let_def waiting_def in_flight_def accepted_def)
  qed
qed (auto simp: waiting_def in_flight_def accepted_def)

lemma advance_ok:
  assumes "advance t j w outs d = (j', d')" "rn_category (jb_rendered j) = jb_category j"
    and "map co_channel outs @ map item_channel w = jb_channels j"
  shows "job_ok j' \<and> jb_request j' = jb_request j \<and> jb_optIn j' = jb_optIn j \<and> jb_category j' = jb_category j"
  using assms
  by (induction t j w outs d rule: advance.induct)
    (auto simp: Let_def job_ok_def settled_channels_def split: if_splits)

lemma release_all_inv:
  "delivery_inv d (item_refs w + P) Q A h \<Longrightarrow> delivery_inv (release_all w d) P Q A h \<and> nd_maxAttempts (release_all w d) = nd_maxAttempts d"
proof (induction w d rule: release_all.induct)
  case (2 c k r w d)
  have "delivery_inv (releaseClaim k r d) (item_refs w + P) Q A h"
    by (rule release_inv) (use "2.prems" in simp)
  from "2.IH" [OF this] show ?case by simp
qed auto

lemma record_answer_simps:
  "record_answer request c k r t a d = (oc, d') \<Longrightarrow> nd_maxAttempts d' = nd_maxAttempts d \<and> co_channel oc = c"
  by (cases a) (auto simp: Let_def log_attempt_def outcome_def)

lemma dispatch_Inr:
  assumes "dispatch env t request d = Inr (j, d')"
  obtains rendered def' channels work d1 j0
  where "dispatch_checks env request d = Inr (rendered, def', channels)"
    and "claim_channels (notificationDedupeKey (sr_sha256 env) (nr_recipientId request) (nr_semanticEventKey request))
       (payloadHash (sr_sha256 env) (nr_templateId request) rendered) channels d = (work, d1)"
    and "j0 = \<lparr>jb_request = request, jb_rendered = rendered, jb_category = tm_category def', jb_channels = channels,
              jb_optIn = False, jb_work = work, jb_outcomes = [], jb_phase = Awaiting_Preferences\<rparr>"
    and "j = j0 \<and> d' = d1 \<or> advance t j0 work [] d1 = (j, d')"
proof -
  obtain rendered def' channels where c: "dispatch_checks env request d = Inr (rendered, def', channels)"
    using assms by (auto simp: dispatch_def ebind_Inr)
  obtain work d1 where w: "claim_channels (notificationDedupeKey (sr_sha256 env) (nr_recipientId request) (nr_semanticEventKey request))
       (payloadHash (sr_sha256 env) (nr_templateId request) rendered) channels d = (work, d1)"
    by (metis surj_pair)
  show ?thesis
    using assms by (intro that [OF c w refl]) (auto simp: dispatch_def c w Let_def split: if_splits)
qed

lemma dispatch_inv:
  assumes "dispatch env t request d = Inr (j, d')" "delivery_inv d P Q A h" "0 < nd_maxAttempts d"
  shows "delivery_inv d' (waiting j + P) (in_flight j + Q) (accepted j + A) h \<and> nd_maxAttempts d' = nd_maxAttempts d"
  using assms(1)
proof (rule dispatch_Inr)
  fix rendered def' channels work d1 j0
  assume c: "claim_channels (notificationDedupeKey (sr_sha256 env) (nr_recipientId request) (nr_semanticEventKey request))
       (payloadHash (sr_sha256 env) (nr_templateId request) rendered) channels d = (work, d1)"
    and j0: "j0 = \<lparr>jb_request = request, jb_rendered = rendered, jb_category = tm_category def', jb_channels = channels,
              jb_optIn = False, jb_work = work, jb_outcomes = [], jb_phase = Awaiting_Preferences\<rparr>"
    and j: "j = j0 \<and> d' = d1 \<or> advance t j0 work [] d1 = (j, d')"
  note i = claim_channels_inv [OF c assms(2,3)]
  from j show ?thesis
  proof
    assume "j = j0 \<and> d' = d1"
    with i show ?thesis by (simp add: j0 waiting_def in_flight_def accepted_def)
  next
    assume "advance t j0 work [] d1 = (j, d')"
    from advance_inv [OF this conjunct1 [OF i]] i show ?thesis by simp
  qed
qed

lemma dispatch_ok:
  assumes "dispatch env t request d = Inr (j, d')"
  shows "job_ok j \<and> jb_request j = request"
  using assms
proof (rule dispatch_Inr)
  fix rendered def' channels work d1 j0
  assume k: "dispatch_checks env request d = Inr (rendered, def', channels)"
    and c: "claim_channels (notificationDedupeKey (sr_sha256 env) (nr_recipientId request) (nr_semanticEventKey request))
       (payloadHash (sr_sha256 env) (nr_templateId request) rendered) channels d = (work, d1)"
    and j0: "j0 = \<lparr>jb_request = request, jb_rendered = rendered, jb_category = tm_category def', jb_channels = channels,
              jb_optIn = False, jb_work = work, jb_outcomes = [], jb_phase = Awaiting_Preferences\<rparr>"
    and j: "j = j0 \<and> d' = d1 \<or> advance t j0 work [] d1 = (j, d')"
  have "map item_channel work = channels"
    using c by (induction channels arbitrary: work d d1) (auto simp: Let_def outcome_def split: prod.splits option.splits if_splits)
  moreover have "rn_category rendered = tm_category def'"
    using k by (auto simp: dispatch_checks_def ebind_Inr Let_def renderNotification_def split: option.splits)
  ultimately show ?thesis
    using j advance_ok [of t j0 work "[]" d1 j d'] by (auto simp: j0 job_ok_def settled_channels_def)
qed

section \<open>The contract of a sink\<close>

text \<open>\<open>holds k x\<close> counts the messages of the dedupe key \<open>x\<close> the sink holds: a delivery adds at most
  one, of its own key and only when it succeeds, and no other operation adds any.\<close>

locale notification_sink =
  fixes env :: "('k, 'o) surroundings"
    and holds :: "'k \<Rightarrow> string \<Rightarrow> nat"
  assumes delivered: "sr_deliver env m k = (a, k') \<Longrightarrow> holds k' x \<le> holds k x + (if \<not> isl a \<and> x = om_dedupeKey m then 1 else 0)"
    and operated: "holds (sr_sinkOp env oper k) x \<le> holds k x"
begin

definition system_inv :: "'k system \<Rightarrow> bool" where
  "system_inv s \<longleftrightarrow> delivery_inv (sy_dispatcher s) (total waiting (sy_jobs s)) (total in_flight (sy_jobs s))
      (total accepted (sy_jobs s)) (holds (sy_sink s))
    \<and> (\<forall>j \<in> set (sy_jobs s). job_ok j) \<and> 0 < nd_maxAttempts (sy_dispatcher s)"

lemma system_initial:
  assumes "new_dispatcher prefs m = Inr d" "\<And>x. holds k x = 0"
  shows "system_inv (initial d k)"
  using assms
  by (auto simp: system_inv_def initial_def new_dispatcher_def ebind_Inr echeck_Inr Let_def delivery_inv_def refs_inv_def
      owned_inv_def sending_def key_inv_def attempts_of_def)

lemma job_step_inv:
  assumes inv: "system_inv s" and i: "i < length (sy_jobs s)"
    and d: "delivery_inv d (waiting j + rest waiting i (sy_jobs s)) (in_flight j + rest in_flight i (sy_jobs s))
         (accepted j + rest accepted i (sy_jobs s)) (holds k)"
    and "job_ok j" "nd_maxAttempts d = nd_maxAttempts (sy_dispatcher s)"
  shows "system_inv (s\<lparr>sy_dispatcher := d, sy_sink := k, sy_jobs := (sy_jobs s)[i := j]\<rparr>)"
  using assms set_update_subset_insert [of "sy_jobs s" i j] by (auto simp: system_inv_def totals_update)

lemma step_inv:
  assumes "step env s t" "system_inv s"
  shows "system_inv t"
  using assms(1)
proof (cases rule: step_cases [consumes 1, case_names Dispatch Preferences Sink Delivery Sink_Operation])
  case (Dispatch time request j d)
  with assms(2) dispatch_inv [OF Dispatch(2)] dispatch_ok [OF Dispatch(2)] show ?thesis
    by (auto simp: system_inv_def)
next
  case (Preferences i time answer j d)
  let ?j = "sy_jobs s ! i"
  have inv: "delivery_inv (sy_dispatcher s) (item_refs (jb_work ?j) + rest waiting i (sy_jobs s)) (rest in_flight i (sy_jobs s))
      (rest accepted i (sy_jobs s)) (holds (sy_sink s))"
    using assms(2) Preferences(2,3) by (simp add: system_inv_def total_nth waiting_def in_flight_def accepted_def)
  have ok: "job_ok ?j" using assms(2) Preferences(2) by (simp add: system_inv_def)
  have "delivery_inv d (waiting j + rest waiting i (sy_jobs s)) (in_flight j + rest in_flight i (sy_jobs s))
         (accepted j + rest accepted i (sy_jobs s)) (holds (sy_sink s)) \<and> job_ok j
      \<and> nd_maxAttempts d = nd_maxAttempts (sy_dispatcher s)"
  proof (cases answer)
    case (Inl e)
    with Preferences(4) release_all_inv [OF inv] ok show ?thesis
      by (auto simp: waiting_def in_flight_def accepted_def job_ok_def)
  next
    case (Inr b)
    let ?j' = "?j\<lparr>jb_optIn := b\<rparr>"
    have a: "advance time ?j' (jb_work ?j) (jb_outcomes ?j) (sy_dispatcher s) = (j, d)"
      using Preferences(4) Inr by simp
    have "map co_channel (jb_outcomes ?j) @ map item_channel (jb_work ?j) = jb_channels ?j'" "rn_category (jb_rendered ?j') = jb_category ?j'"
      using ok Preferences(3) by (auto simp: job_ok_def settled_channels_def)
    with advance_inv [OF a inv] advance_ok [OF a] show ?thesis by simp
  qed
  then show ?thesis
    using job_step_inv [OF assms(2) Preferences(2), of d j "sy_sink s"] Preferences(1) by simp
next
  case (Sink i c k r time m answer sk)
  let ?j = "sy_jobs s ! i" and ?R = "\<lambda>f. rest f i (sy_jobs s)"
  have inv: "delivery_inv (sy_dispatcher s) (waiting ?j + ?R waiting) (add_mset (k, r) (?R in_flight)) (?R accepted) (holds (sy_sink s))"
    using assms(2) Sink(2,3) by (simp add: system_inv_def total_nth in_flight_def accepted_def)
  have ok: "job_ok ?j" using assms(2) Sink(2) by (simp add: system_inv_def)
  have "holds sk x \<le> holds (sy_sink s) x + (if \<not> isl answer \<and> x = k then 1 else 0)" for x
    using delivered [OF Sink(4), of x] ok Sink(3) by (simp add: job_ok_def)
  from sink_inv [OF inv rest_accepted this] ok Sink(3)
  show ?thesis unfolding Sink(1)
    by (intro job_step_inv [OF assms(2) Sink(2), where d = "sy_dispatcher s" and k = sk, simplified])
      (auto simp: waiting_def in_flight_def accepted_def job_ok_def settled_channels_def split: if_splits)
next
  case (Delivery i c k r time answer now j d)
  let ?j = "sy_jobs s ! i" and ?R = "\<lambda>f. rest f i (sy_jobs s)"
  obtain oc d1 where r: "record_answer (jb_request ?j) c k r time answer (sy_dispatcher s) = (oc, d1)"
    and a: "advance now ?j (jb_work ?j) (jb_outcomes ?j @ [oc]) d1 = (j, d)"
    using Delivery(4) by (auto simp: resume_delivery_def split: prod.splits)
  have inv: "delivery_inv (sy_dispatcher s) (item_refs (jb_work ?j) + ?R waiting) (add_mset (k, r) (?R in_flight))
      (if isl answer then ?R accepted else add_mset (k, r) (?R accepted)) (holds (sy_sink s))"
    using assms(2) Delivery(2,3) by (simp add: system_inv_def total_nth waiting_def in_flight_def accepted_def split: if_splits)
  have ok: "job_ok ?j" using assms(2) Delivery(2) by (simp add: system_inv_def)
  have "map co_channel (jb_outcomes ?j @ [oc]) @ map item_channel (jb_work ?j) = jb_channels ?j" "rn_category (jb_rendered ?j) = jb_category ?j"
    using ok Delivery(3) record_answer_simps [OF r] by (auto simp: job_ok_def settled_channels_def)
  from advance_ok [OF a this(2,1)] advance_inv [OF a record_answer_inv [OF inv rest_accepted r]] record_answer_simps [OF r]
  show ?thesis
    using job_step_inv [OF assms(2) Delivery(2), of d j "sy_sink s"] Delivery(1) by simp
next
  case (Sink_Operation oper)
  with assms(2) sink_less_inv [OF _ operated] show ?thesis by (auto simp: system_inv_def)
qed

lemma system_run: "run env s t \<Longrightarrow> system_inv s \<Longrightarrow> system_inv t"
  by (induction rule: run.induct) (auto dest: step_inv)

end

end
