(* ===== verification/Dispatch_Properties.thy ===== *)
theory Dispatch_Properties
  imports Dispatch_Safety
begin

text \<open>
  The theorems on interleaved dispatches: the sinks of the code meet the contract, a key is delivered
  at most once, attempts are numbered and bounded, marketing needs consent, every call can finish and
  none leaves a claim behind.
\<close>

section \<open>The sinks\<close>

definition local_surroundings :: "(string \<Rightarrow> string) \<Rightarrow> (string \<Rightarrow> bool) \<Rightarrow> (local_sink, local_sink_op) surroundings" where
  "local_surroundings sha256 dateOk =
     \<lparr>sr_deliver = local_deliver, sr_sinkOp = local_op, sr_sha256 = sha256, sr_dateOk = dateOk\<rparr>"

definition local_holds :: "local_sink \<Rightarrow> string \<Rightarrow> nat" where
  "local_holds k x = length (filter (\<lambda>(m, _). om_dedupeKey m = x) (ls_stored k))"

definition empty_sink :: local_sink where
  "empty_sink = \<lparr>ls_stored = [], ls_failuresRemaining = 0, ls_sequence = 0\<rparr>"

interpretation local_sink: notification_sink "local_surroundings sha256 dateOk" local_holds for sha256 dateOk
proof
  show "local_holds (sr_sinkOp (local_surroundings sha256 dateOk) oper k) x \<le> local_holds k x" for oper k x
    by (cases oper) (simp_all add: local_surroundings_def local_holds_def)
qed (auto simp: local_surroundings_def local_holds_def local_deliver_def Let_def split: if_splits)

definition database_surroundings :: "(string \<Rightarrow> string) \<Rightarrow> (string \<Rightarrow> bool) \<Rightarrow> (notification_table, unit) surroundings" where
  "database_surroundings sha256 dateOk =
     \<lparr>sr_deliver = database_deliver, sr_sinkOp = (\<lambda>_ t. t), sr_sha256 = sha256, sr_dateOk = dateOk\<rparr>"

definition table_holds :: "notification_table \<Rightarrow> string \<Rightarrow> nat" where
  "table_holds t x = length (filter (\<lambda>r. om_dedupeKey (nt_message r) = x) (tb_rows t))"

interpretation database_sink: notification_sink "database_surroundings sha256 dateOk" table_holds for sha256 dateOk
  by unfold_locales
    (auto simp: database_surroundings_def table_holds_def database_deliver_def Let_def split: option.splits)

text \<open>What does not depend on what the sink keeps holds for every sink.\<close>

interpretation any_sink: notification_sink env "\<lambda>_ _. 0" for env
  by unfold_locales simp_all

section \<open>From the invariant\<close>

lemma owned_bound:
  assumes "delivery_inv d P Q A h"
  shows "count Q (k, r) \<le> 1" "count A (k, r) \<le> count Q (k, r)"
proof -
  have o: "owned_inv d P Q A" using assms by (simp add: delivery_inv_def)
  show "count Q (k, r) \<le> 1" using owned_count [OF o, of k r] by (auto split: if_splits)
  show "count A (k, r) \<le> count Q (k, r)" using o by (auto simp: owned_inv_def intro: mset_subset_eq_count)
qed

lemma held_once:
  assumes "delivery_inv d P Q A h"
  shows "h k \<le> 1"
proof -
  have inv: "key_inv d Q A h k" using assms by (simp add: delivery_inv_def)
  show ?thesis
  proof (cases "mget (nd_claims d) k")
    case None
    with inv show ?thesis by (simp add: key_inv_def)
  next
    case (Some r)
    with inv have "key_counts (dc_state (claim_at d r)) (dc_attemptCount (claim_at d r)) (nd_maxAttempts d)
        (count Q (k, r)) (count A (k, r)) (sent_of d k) (h k)"
      by (simp add: key_inv_def)
    then show ?thesis using owned_bound [OF assms, of k r] by (cases "dc_state (claim_at d r)") auto
  qed
qed

lemma key_counts_bounds: "key_counts st n m q a s h \<Longrightarrow> n \<le> m \<and> s \<le> 1"
  by (cases st) auto

lemma attempts_numbered:
  assumes "delivery_inv d P Q A h"
  shows "\<exists>n \<le> nd_maxAttempts d. map na_attempt (attempts_of d k) = [1..<Suc n]" "sent_of d k \<le> 1"
proof -
  have inv: "key_inv d Q A h k" using assms by (simp add: delivery_inv_def)
  have "(\<exists>n \<le> nd_maxAttempts d. map na_attempt (attempts_of d k) = [1..<Suc n]) \<and> sent_of d k \<le> 1"
  proof (cases "mget (nd_claims d) k")
    case None
    with inv show ?thesis by (auto simp: key_inv_def sent_of_def intro: exI [of _ 0])
  next
    case (Some r)
    let ?n = "dc_attemptCount (claim_at d r)"
    have "map na_attempt (attempts_of d k) = [1..<Suc (?n - count Q (k, r))]" and
      "?n \<le> nd_maxAttempts d \<and> sent_of d k \<le> 1"
      using inv key_counts_bounds by (simp_all add: key_inv_def Some del: upt_Suc) blast
    moreover from this(2) have "?n - count Q (k, r) \<le> nd_maxAttempts d" by linarith
    ultimately show ?thesis by blast
  qed
  then show "\<exists>n \<le> nd_maxAttempts d. map na_attempt (attempts_of d k) = [1..<Suc n]" "sent_of d k \<le> 1" by auto
qed

fun finished_phase :: "job_phase \<Rightarrow> bool" where
  "finished_phase Returned = True"
| "finished_phase (Thrown e) = True"
| "finished_phase _ = False"

definition finished :: "job \<Rightarrow> bool" where
  "finished j = finished_phase (jb_phase j)"

lemma finished_owns_nothing:
  assumes "job_ok j" "finished j"
  shows "waiting j = {#}" "in_flight j = {#}"
  using assms by (auto simp: finished_def job_ok_def waiting_def in_flight_def split: job_phase.splits)

lemma total_empty: "(\<And>j. j \<in> set js \<Longrightarrow> f j = {#}) \<Longrightarrow> total f js = {#}"
  by (induction js) (auto simp: total_def)

text \<open>\<open>maxAttempts\<close> stays what the constructor made it.\<close>

lemma record_max: "record_answer rq c k r t a d = (oc, d') \<Longrightarrow> nd_maxAttempts d' = nd_maxAttempts d"
  using record_answer_simps by blast

lemma advance_max: "advance t j w outs d = (j', d') \<Longrightarrow> nd_maxAttempts d' = nd_maxAttempts d"
  by (induction t j w outs d rule: advance.induct) (auto simp: Let_def split: if_splits)

lemma claim_channels_max: "claim_channels keyOf hash cs d = (w, d') \<Longrightarrow> nd_maxAttempts d' = nd_maxAttempts d"
  by (induction cs arbitrary: w d) (auto simp: Let_def split: prod.splits option.splits if_splits)

lemma release_all_max: "nd_maxAttempts (release_all w d) = nd_maxAttempts d"
  by (induction w d rule: release_all.induct) auto

lemma step_max:
  assumes "step env s t"
  shows "nd_maxAttempts (sy_dispatcher t) = nd_maxAttempts (sy_dispatcher s)"
  using assms
proof (cases rule: step_cases [consumes 1, case_names Dispatch Preferences Sink Delivery Sink_Operation])
  case (Dispatch time request j d)
  then show ?thesis using claim_channels_max advance_max by (auto elim!: dispatch_Inr)
next
  case (Preferences i time answer j d)
  then show ?thesis using advance_max by (cases answer) (auto simp: release_all_max)
next
  case (Delivery i c k r time answer now j d)
  then show ?thesis using advance_max record_max by (auto simp: resume_delivery_def split: prod.splits)
qed auto

lemma run_max: "run env s t \<Longrightarrow> nd_maxAttempts (sy_dispatcher t) = nd_maxAttempts (sy_dispatcher s)"
  by (induction rule: run.induct) (auto simp: step_max)

section \<open>Progress\<close>

fun phase_steps :: "job_phase \<Rightarrow> nat" where
  "phase_steps Awaiting_Preferences = 1"
| "phase_steps (Calling c k r t m) = 2"
| "phase_steps (Answered c k r t a) = 1"
| "phase_steps _ = 0"

definition job_steps :: "job \<Rightarrow> nat" where
  "job_steps j = 2 * length (jb_work j) + phase_steps (jb_phase j)"

lemma advance_steps: "advance t j w outs d = (j', d') \<Longrightarrow> job_steps j' \<le> 2 * length w"
  by (induction t j w outs d rule: advance.induct) (auto simp: job_steps_def Let_def split: if_splits)

text \<open>An unfinished call has a step, and it is closer to its end after it.\<close>

lemma job_progress:
  assumes "i < length (sy_jobs s)" "\<not> finished (sy_jobs s ! i)"
  shows "\<exists>t j. step env s t \<and> sy_jobs t = (sy_jobs s)[i := j] \<and> job_steps j < job_steps (sy_jobs s ! i)"
proof (cases "jb_phase (sy_jobs s ! i)")
  case Awaiting_Preferences
  obtain j d where r: "resume_preferences [] (Inl []) (sy_jobs s ! i) (sy_dispatcher s) = (j, d)" by (meson surj_pair)
  have "step env s (s\<lparr>sy_dispatcher := d, sy_jobs := (sy_jobs s)[i := j]\<rparr>)"
    by (rule step.Preferences [OF assms(1) Awaiting_Preferences r])
  moreover have "job_steps j < job_steps (sy_jobs s ! i)"
    using r Awaiting_Preferences by (auto simp: job_steps_def)
  ultimately show ?thesis by fastforce
next
  case (Calling c k r time m)
  obtain a sk where a: "sr_deliver env m (sy_sink s) = (a, sk)" by (meson surj_pair)
  from step.Sink [OF assms(1) Calling a] show ?thesis
    by (intro exI [of _ "s\<lparr>sy_sink := sk, sy_jobs := (sy_jobs s)[i := (sy_jobs s ! i)\<lparr>jb_phase := Answered c k r time a\<rparr>]\<rparr>"]
        exI [of _ "(sy_jobs s ! i)\<lparr>jb_phase := Answered c k r time a\<rparr>"])
      (simp add: job_steps_def Calling)
next
  case (Answered c k r time a)
  obtain oc d1 where o: "record_answer (jb_request (sy_jobs s ! i)) c k r time a (sy_dispatcher s) = (oc, d1)" by (meson surj_pair)
  obtain j d where v: "advance [] (sy_jobs s ! i) (jb_work (sy_jobs s ! i)) (jb_outcomes (sy_jobs s ! i) @ [oc]) d1 = (j, d)"
    by (meson surj_pair)
  have "resume_delivery [] c k r time a (sy_jobs s ! i) (sy_dispatcher s) = (j, d)"
    by (simp add: resume_delivery_def o v)
  from step.Delivery [OF assms(1) Answered this] advance_steps [OF v] show ?thesis
    by (intro exI [of _ "s\<lparr>sy_dispatcher := d, sy_jobs := (sy_jobs s)[i := j]\<rparr>"] exI [of _ j]) (simp add: job_steps_def Answered)
qed (use assms(2) in \<open>auto simp: finished_def\<close>)

lemma run_trans: "run env t u \<Longrightarrow> run env s t \<Longrightarrow> run env s u"
  by (induction rule: run.induct) (auto intro: run.Next)

lemma calls_finish:
  "\<exists>t. run env s t \<and> length (sy_jobs t) = length (sy_jobs s) \<and> (\<forall>j \<in> set (sy_jobs t). finished j)"
proof (induction "sum_list (map job_steps (sy_jobs s))" arbitrary: s rule: less_induct)
  case less
  show ?case
  proof (cases "\<forall>j \<in> set (sy_jobs s). finished j")
    case True
    then show ?thesis by (intro exI [of _ s]) (simp add: run.Start)
  next
    case False
    then obtain i where i: "i < length (sy_jobs s)" "\<not> finished (sy_jobs s ! i)" by (auto simp: in_set_conv_nth)
    obtain t j where t: "step env s t" "sy_jobs t = (sy_jobs s)[i := j]" "job_steps j < job_steps (sy_jobs s ! i)"
      using job_progress [OF i] by blast
    have "sum_list (map job_steps (sy_jobs t)) < sum_list (map job_steps (sy_jobs s))"
      using t(2,3) i(1) elem_le_sum_list [of i "map job_steps (sy_jobs s)"]
      by (simp add: map_update sum_list_update)
    from less [OF this] obtain u where "run env t u" "length (sy_jobs u) = length (sy_jobs t)" "\<forall>j \<in> set (sy_jobs u). finished j" by blast
    with t(1,2) show ?thesis
      by (intro exI [of _ u]) (auto intro: run_trans run.Next [OF run.Start])
  qed
qed

section \<open>Consent\<close>

definition consent :: "local_sink system \<Rightarrow> bool" where
  "consent s \<longleftrightarrow> (\<forall>(m, _) \<in> set (ls_stored (sy_sink s)). rn_category (om_rendered m) = Marketing \<longrightarrow>
     (\<exists>j \<in> set (sy_jobs s). nr_recipientId (jb_request j) = om_recipientId m \<and> jb_optIn j \<and> jb_phase j \<noteq> Awaiting_Preferences))"

lemma advance_phase: "advance t j w outs d = (j', d') \<Longrightarrow> jb_phase j' \<noteq> Awaiting_Preferences \<and> jb_optIn j' = jb_optIn j \<and> jb_request j' = jb_request j"
  by (induction t j w outs d rule: advance.induct) (auto simp: Let_def split: if_splits)

lemma consent_kept:
  assumes "consent s" "i < length (sy_jobs s)" "sy_jobs t = (sy_jobs s)[i := j]" "sy_sink t = sy_sink s"
    and "jb_phase (sy_jobs s ! i) \<noteq> Awaiting_Preferences \<longrightarrow>
      nr_recipientId (jb_request j) = nr_recipientId (jb_request (sy_jobs s ! i)) \<and> jb_optIn j = jb_optIn (sy_jobs s ! i)
      \<and> jb_phase j \<noteq> Awaiting_Preferences"
  shows "consent t"
  unfolding consent_def assms(3,4)
proof (clarify)
  fix m x
  assume "(m, x) \<in> set (ls_stored (sy_sink s))" "rn_category (om_rendered m) = Marketing"
  with assms(1) obtain j' where j': "j' \<in> set (sy_jobs s)" "nr_recipientId (jb_request j') = om_recipientId m"
    "jb_optIn j'" "jb_phase j' \<noteq> Awaiting_Preferences"
    by (auto simp: consent_def)
  then obtain i' where "i' < length (sy_jobs s)" "j' = sy_jobs s ! i'" by (auto simp: in_set_conv_nth)
  moreover have "(sy_jobs s)[i := j] ! i' \<in> set ((sy_jobs s)[i := j])" using calculation(1) by (simp add: nth_mem)
  ultimately show "\<exists>j \<in> set ((sy_jobs s)[i := j]). nr_recipientId (jb_request j) = om_recipientId m \<and> jb_optIn j \<and> jb_phase j \<noteq> Awaiting_Preferences"
    using j' assms(2,5) by (intro bexI [of _ "(sy_jobs s)[i := j] ! i'"]) (auto simp: nth_list_update)
qed

lemma step_consent:
  assumes "step (local_surroundings sha256 dateOk) s t" "consent s" "\<forall>j \<in> set (sy_jobs s). job_ok j"
  shows "consent t"
  using assms(1)
proof (cases rule: step_cases [consumes 1, case_names Dispatch Preferences Sink Delivery Sink_Operation])
  case (Dispatch time request j d)
  with assms(2) show ?thesis by (auto simp: consent_def)
next
  case (Preferences i time answer j d)
  show ?thesis by (rule consent_kept [OF assms(2) Preferences(2)]) (use Preferences in auto)
next
  case (Sink i c k r time m a sk)
  let ?j = "(sy_jobs s ! i)\<lparr>jb_phase := Answered c k r time a\<rparr>"
  have kept: "consent (s\<lparr>sy_jobs := (sy_jobs s)[i := ?j]\<rparr>)"
    by (rule consent_kept [OF assms(2) Sink(2), where j = ?j]) auto
  have "job_ok (sy_jobs s ! i)" using assms(3) Sink(2) by simp
  then have m: "om_recipientId m = nr_recipientId (jb_request ?j) \<and> (rn_category (om_rendered m) = Marketing \<longrightarrow> jb_optIn ?j)"
    using Sink(3) by (auto simp: job_ok_def)
  have "?j \<in> set ((sy_jobs s)[i := ?j])" using Sink(2) by (simp add: set_update_memI)
  moreover have "ls_stored sk = ls_stored (sy_sink s) \<or> (\<exists>x. ls_stored sk = ls_stored (sy_sink s) @ [(m, x)])"
    using Sink(4) by (auto simp: local_surroundings_def local_deliver_def Let_def split: if_splits)
  moreover have "rn_category (om_rendered m) = Marketing \<longrightarrow> (\<exists>j \<in> set ((sy_jobs s)[i := ?j]).
      nr_recipientId (jb_request j) = om_recipientId m \<and> jb_optIn j \<and> jb_phase j \<noteq> Awaiting_Preferences)"
    using calculation(1) m by (intro impI bexI [of _ ?j]) auto
  ultimately show ?thesis using kept unfolding Sink(1) consent_def by auto
next
  case (Delivery i c k r time answer now j d)
  then show ?thesis
    by (intro consent_kept [OF assms(2) Delivery(2)]) (auto simp: resume_delivery_def dest: advance_phase split: prod.splits)
next
  case (Sink_Operation oper)
  with assms(2) show ?thesis by (cases oper) (auto simp: consent_def local_surroundings_def)
qed

section \<open>Properties\<close>

text \<open>A dispatcher that sends an order notice to one recipient, and the states it goes through.\<close>

definition example_request :: notification_request where
  "example_request = \<lparr>nr_recipientId = ''u-1'', nr_templateId = ''order.new'', nr_semanticEventKey = ''order:1:new'',
     nr_params = Some [(''orderRef'', JString ''o-1''), (''serviceTitle'', JString ''Logo'')], nr_channels = Some [In_App]\<rparr>"

definition example_offer :: notification_request where
  "example_offer = \<lparr>nr_recipientId = ''u-1'', nr_templateId = ''marketing.new_offers'', nr_semanticEventKey = ''offers:1'',
     nr_params = Some [], nr_channels = None\<rparr>"

definition example_dispatcher :: dispatcher where
  "example_dispatcher = \<lparr>nd_hasPreferences = True, nd_maxAttempts = 2, nd_claims = [], nd_heap = [], nd_attemptLog = []\<rparr>"

abbreviation example_env :: "(local_sink, local_sink_op) surroundings" where
  "example_env \<equiv> local_surroundings (\<lambda>s. s) (\<lambda>_. True)"

definition dispatched :: "notification_request \<Rightarrow> local_sink system \<Rightarrow> local_sink system" where
  "dispatched request s = (case dispatch example_env ''now'' request (sy_dispatcher s) of
     Inr (j, d) \<Rightarrow> s\<lparr>sy_dispatcher := d, sy_jobs := sy_jobs s @ [j]\<rparr> | Inl _ \<Rightarrow> s)"

definition answered :: "bool \<Rightarrow> local_sink system \<Rightarrow> local_sink system" where
  "answered b s = (let (j, d) = resume_preferences ''now'' (Inr b) (sy_jobs s ! 0) (sy_dispatcher s) in
     s\<lparr>sy_dispatcher := d, sy_jobs := (sy_jobs s)[0 := j]\<rparr>)"

definition sunk :: "local_sink system \<Rightarrow> local_sink system" where
  "sunk s = (case jb_phase (sy_jobs s ! 0) of
     Calling c k r t m \<Rightarrow> (let (a, sk) = local_deliver m (sy_sink s) in
       s\<lparr>sy_sink := sk, sy_jobs := (sy_jobs s)[0 := (sy_jobs s ! 0)\<lparr>jb_phase := Answered c k r t a\<rparr>]\<rparr>) | _ \<Rightarrow> s)"

definition taken_up :: "local_sink system \<Rightarrow> local_sink system" where
  "taken_up s = (case jb_phase (sy_jobs s ! 0) of
     Answered c k r t a \<Rightarrow> (let (j, d) = resume_delivery ''now'' c k r t a (sy_jobs s ! 0) (sy_dispatcher s) in
       s\<lparr>sy_dispatcher := d, sy_jobs := (sy_jobs s)[0 := j]\<rparr>) | _ \<Rightarrow> s)"

lemma dispatched_run: "run example_env s t \<Longrightarrow> run example_env s (dispatched rq t)"
  by (auto simp: dispatched_def intro: run.Next step.Dispatch split: sum.splits)

lemma answered_run:
  "run example_env s t \<Longrightarrow> sy_jobs t \<noteq> [] \<Longrightarrow> jb_phase (sy_jobs t ! 0) = Awaiting_Preferences \<Longrightarrow> run example_env s (answered b t)"
  unfolding answered_def
  by (auto simp del: resume_preferences.simps intro!: run.Next [where t = t] step.Preferences split: prod.splits)

lemma sunk_run: "run example_env s t \<Longrightarrow> sy_jobs t \<noteq> [] \<Longrightarrow> run example_env s (sunk t)"
  unfolding sunk_def
  by (cases "jb_phase (sy_jobs t ! 0)")
    (auto simp: local_surroundings_def intro!: run.Next [where t = t] step.Sink split: prod.splits)

lemma taken_up_run: "run example_env s t \<Longrightarrow> sy_jobs t \<noteq> [] \<Longrightarrow> run example_env s (taken_up t)"
  unfolding taken_up_def
  by (cases "jb_phase (sy_jobs t ! 0)") (auto intro: run.Next step.Delivery split: prod.splits)

definition example_start :: "local_sink system" where
  "example_start = initial example_dispatcher empty_sink"

lemma example_dispatcher_new: "new_dispatcher True (Some 2) = Inr example_dispatcher"
  by (simp add: new_dispatcher_def example_dispatcher_def)

text \<open>Two calls with the same event, the second while the first waits for the sink; and an offer to a recipient who agreed.\<close>

definition example_sent :: "local_sink system" where
  "example_sent = taken_up (sunk (dispatched example_request (dispatched example_request example_start)))"

definition example_offered :: "local_sink system" where
  "example_offered = sunk (answered True (dispatched example_offer example_start))"

lemma example_sent_run: "run example_env (initial example_dispatcher empty_sink) example_sent"
proof -
  have "sy_jobs (dispatched example_request (dispatched example_request example_start)) \<noteq> []"
    "sy_jobs (sunk (dispatched example_request (dispatched example_request example_start))) \<noteq> []" by code_simp+
  then show ?thesis
    unfolding example_sent_def by (intro taken_up_run sunk_run dispatched_run) (simp_all add: example_start_def run.Start)
qed

lemma example_offered_run: "run example_env (initial example_dispatcher empty_sink) example_offered"
proof -
  have "sy_jobs (dispatched example_offer example_start) \<noteq> []"
    "jb_phase (sy_jobs (dispatched example_offer example_start) ! 0) = Awaiting_Preferences"
    "sy_jobs (answered True (dispatched example_offer example_start)) \<noteq> []" by code_simp+
  then show ?thesis
    unfolding example_offered_def
    by (intro answered_run sunk_run dispatched_run) (simp_all add: example_start_def run.Start)
qed

text \<open>C33. No duplicate messages: however dispatches, preference answers, deliveries and sink failures interleave, the sink
  holds at most one message of a dedupe key (recipient, business event and channel).\<close>

theorem at_most_one_message:
  assumes "new_dispatcher prefs maxAttempts = Inr d"
    and "run (local_surroundings sha256 dateOk) (initial d empty_sink) s"
  shows "length (filter (\<lambda>(m, _). om_dedupeKey m = key) (ls_stored (sy_sink s))) \<le> 1"
proof -
  have "local_sink.system_inv s"
    using local_sink.system_run [OF assms(2) local_sink.system_initial [OF assms(1)]] by (simp add: local_holds_def empty_sink_def)
  then have "local_holds (sy_sink s) key \<le> 1"
    by (auto simp: local_sink.system_inv_def dest: held_once)
  then show ?thesis by (simp add: local_holds_def)
qed

lemma at_most_one_message_witness:
  "length (ls_stored (sy_sink example_sent)) = 1 \<and> length (sy_jobs example_sent) = 2
   \<and> length (filter (\<lambda>(m, _). om_dedupeKey m = ''k'') (ls_stored (sy_sink example_sent))) \<le> 1"
proof (intro conjI)
  show "length (ls_stored (sy_sink example_sent)) = 1" "length (sy_jobs example_sent) = 2" by code_simp+
  show "length (filter (\<lambda>(m, _). om_dedupeKey m = ''k'') (ls_stored (sy_sink example_sent))) \<le> 1"
    by (rule at_most_one_message [OF example_dispatcher_new example_sent_run])
qed

text \<open>Retries are bounded: with any sink and any interleaving, the attempts logged for a dedupe key are numbered
  1, 2, 3 and so on without a gap or a repeat, there are at most \<open>maxAttempts\<close> of them, and at most one of them succeeded.\<close>

theorem attempts_bounded:
  assumes "new_dispatcher prefs (Some maxAttempts) = Inr d"
    and "run env (initial d k) s"
  shows "(\<exists>n. int n \<le> maxAttempts \<and> map na_attempt (attempts_of (sy_dispatcher s) key) = [1..<Suc n])
    \<and> length (filter na_sent (attempts_of (sy_dispatcher s) key)) \<le> 1"
proof -
  have "any_sink.system_inv s"
    using any_sink.system_run [OF assms(2) any_sink.system_initial [OF assms(1)]] by simp
  then have inv: "delivery_inv (sy_dispatcher s) (total waiting (sy_jobs s)) (total in_flight (sy_jobs s)) (total accepted (sy_jobs s)) (\<lambda>_. 0)"
    by (simp add: any_sink.system_inv_def)
  have m: "int (nd_maxAttempts (sy_dispatcher s)) = maxAttempts"
    using run_max [OF assms(2)] assms(1) by (auto simp: initial_def new_dispatcher_def ebind_Inr echeck_Inr)
  obtain n where "n \<le> nd_maxAttempts (sy_dispatcher s)" "map na_attempt (attempts_of (sy_dispatcher s) key) = [1..<Suc n]"
    using attempts_numbered(1) [OF inv] by blast
  with m attempts_numbered(2) [OF inv, of key] show ?thesis
    by (intro conjI exI [of _ n]) (simp_all add: sent_of_def del: upt_Suc)
qed

lemma attempts_bounded_witness:
  "nd_attemptLog (sy_dispatcher example_sent) \<noteq> [] \<and>
   (\<exists>n. int n \<le> 2 \<and> map na_attempt (attempts_of (sy_dispatcher example_sent) ''k'') = [1..<Suc n])"
proof
  show "nd_attemptLog (sy_dispatcher example_sent) \<noteq> []" by code_simp
  show "\<exists>n. int n \<le> 2 \<and> map na_attempt (attempts_of (sy_dispatcher example_sent) ''k'') = [1..<Suc n]"
    using attempts_bounded [OF example_dispatcher_new example_sent_run, of "''k''"] by blast
qed

text \<open>Marketing is opt-in: a marketing message the sink holds was sent by a call for that recipient whose preferences
  answered with consent.\<close>

theorem marketing_needs_consent:
  assumes "new_dispatcher prefs maxAttempts = Inr d"
    and "run (local_surroundings sha256 dateOk) (initial d empty_sink) s"
    and "(m, messageId) \<in> set (ls_stored (sy_sink s))" "rn_category (om_rendered m) = Marketing"
  shows "\<exists>j \<in> set (sy_jobs s). nr_recipientId (jb_request j) = om_recipientId m \<and> jb_optIn j"
proof -
  have start: "local_sink.system_inv (initial d empty_sink)"
    by (rule local_sink.system_initial [OF assms(1)]) (simp add: local_holds_def empty_sink_def)
  have "consent s"
    using assms(2)
  proof (induction "initial d empty_sink" s rule: run.induct)
    case Start
    then show ?case by (simp add: consent_def initial_def empty_sink_def)
  next
    case (Next t u)
    have "local_sink.system_inv t" by (rule local_sink.system_run [OF Next(1) start])
    with step_consent [OF Next(3,2)] show ?case by (simp add: local_sink.system_inv_def)
  qed
  with assms(3,4) show ?thesis by (auto simp: consent_def)
qed

lemma marketing_needs_consent_witness:
  "\<exists>j \<in> set (sy_jobs example_offered). nr_recipientId (jb_request j) = ''u-1'' \<and> jb_optIn j"
proof -
  have a: "map (\<lambda>(m, i). (om_recipientId m, rn_category (om_rendered m))) (ls_stored (sy_sink example_offered)) = [(''u-1'', Marketing)]"
    by code_simp
  then obtain m i where m: "(m, i) \<in> set (ls_stored (sy_sink example_offered))" "om_recipientId m = ''u-1''" "rn_category (om_rendered m) = Marketing"
    by (cases "ls_stored (sy_sink example_offered)") auto
  show ?thesis
    using marketing_needs_consent [OF example_dispatcher_new example_offered_run m(1,3)] m(2) by simp
qed

text \<open>A finished call answers for every channel it was asked for, in order, and when every call has finished no claim
  is left in SENDING, so each event that was not sent can be dispatched again.\<close>

theorem finished_calls_leave_no_claim:
  assumes "new_dispatcher prefs maxAttempts = Inr d"
    and "run env (initial d k) s"
  shows "(\<forall>j \<in> set (sy_jobs s). jb_phase j = Returned \<longrightarrow> map co_channel (jb_outcomes j) = jb_channels j)
    \<and> ((\<forall>j \<in> set (sy_jobs s). finished j) \<longrightarrow> (\<forall>key r. \<not> sending (sy_dispatcher s) key r))"
proof (intro conjI ballI impI allI)
  have sys: "any_sink.system_inv s"
    using any_sink.system_run [OF assms(2) any_sink.system_initial [OF assms(1)]] by simp
  show "map co_channel (jb_outcomes j) = jb_channels j" if "j \<in> set (sy_jobs s)" "jb_phase j = Returned" for j
  proof -
    have "job_ok j" using sys that(1) by (simp add: any_sink.system_inv_def)
    with that(2) show ?thesis by (auto simp: job_ok_def settled_channels_def)
  qed
  fix key r
  assume all: "\<forall>j \<in> set (sy_jobs s). finished j"
  have ok: "\<forall>j \<in> set (sy_jobs s). job_ok j" using sys by (simp add: any_sink.system_inv_def)
  have "total waiting (sy_jobs s) = {#}" "total in_flight (sy_jobs s) = {#}"
    using ok all by (auto intro!: total_empty finished_owns_nothing)
  then have "owned_inv (sy_dispatcher s) {#} {#} (total accepted (sy_jobs s))"
    using sys by (simp add: any_sink.system_inv_def delivery_inv_def)
  from owned_count [OF this, of key r] show "\<not> sending (sy_dispatcher s) key r" by auto
qed

lemma finished_calls_leave_no_claim_witness:
  "list_all finished (sy_jobs example_sent) \<and> (\<forall>key r. \<not> sending (sy_dispatcher example_sent) key r)"
proof -
  have all: "list_all finished (sy_jobs example_sent)" by code_simp
  then have "\<forall>j \<in> set (sy_jobs example_sent). finished j" by (simp add: list_all_iff)
  with all finished_calls_leave_no_claim [OF example_dispatcher_new example_sent_run] show ?thesis by blast
qed


text \<open>An event key cannot be reused for another notification: a request that a fresh dispatcher accepts is rejected
  exactly when one of its channels already has a claim with another payload hash, and then with DEDUPE_KEY_REUSED.\<close>

theorem dedupe_key_not_reused:
  assumes "dispatch_checks env request (d\<lparr>nd_claims := []\<rparr>) = Inr (rendered, template, channels)"
  shows "dispatch env time request d = Inl e \<longleftrightarrow> e = DEDUPE_KEY_REUSED \<and> (\<exists>c \<in> set channels. \<exists>r.
      mget (nd_claims d) (notificationDedupeKey (sr_sha256 env) (nr_recipientId request) (nr_semanticEventKey request) c) = Some r
      \<and> dc_payloadHash (claim_at d r) \<noteq> payloadHash (sr_sha256 env) (nr_templateId request) rendered)"
proof -
  let ?key = "notificationDedupeKey (sr_sha256 env) (nr_recipientId request) (nr_semanticEventKey request)"
  let ?same = "list_all (\<lambda>c. case mget (nd_claims d) (?key c) of None \<Rightarrow> True
      | Some r \<Rightarrow> dc_payloadHash (claim_at d r) = payloadHash (sr_sha256 env) (nr_templateId request) rendered) channels"
  have "dispatch_checks env request d = (if ?same then Inr (rendered, template, channels) else Inl DEDUPE_KEY_REUSED)"
    using assms by (auto simp: dispatch_checks_def ebind_Inr echeck_Inr Let_def)
  then have "dispatch env time request d = Inl e \<longleftrightarrow> \<not> ?same \<and> e = DEDUPE_KEY_REUSED"
    by (auto simp: dispatch_def Let_def split: prod.splits)
  then show ?thesis by (auto simp: list_all_iff list_ex_iff split: option.splits)
qed

lemma dedupe_key_not_reused_witness:
  "dispatch example_env ''now'' (example_request\<lparr>nr_params := Some [(''orderRef'', JString ''o-2''), (''serviceTitle'', JString ''Logo'')]\<rparr>)
     (sy_dispatcher example_sent) = Inl DEDUPE_KEY_REUSED"
proof -
  let ?rq = "example_request\<lparr>nr_params := Some [(''orderRef'', JString ''o-2''), (''serviceTitle'', JString ''Logo'')]\<rparr>"
  let ?d = "sy_dispatcher example_sent"
  let ?key = "notificationDedupeKey (\<lambda>s. s) ''u-1'' ''order:1:new'' In_App"
  have "case dispatch_checks example_env ?rq (?d\<lparr>nd_claims := []\<rparr>) of
      Inr (rendered, template, channels) \<Rightarrow> channels = [In_App] \<and> mget (nd_claims ?d) ?key = Some 0
        \<and> dc_payloadHash (claim_at ?d 0) \<noteq> payloadHash (\<lambda>s. s) ''order.new'' rendered
    | Inl _ \<Rightarrow> False" by code_simp
  then obtain rendered template where
    c: "dispatch_checks example_env ?rq (?d\<lparr>nd_claims := []\<rparr>) = Inr (rendered, template, [In_App])"
    and k: "mget (nd_claims ?d) ?key = Some 0" "dc_payloadHash (claim_at ?d 0) \<noteq> payloadHash (\<lambda>s. s) ''order.new'' rendered"
    by (auto split: sum.splits)
  from dedupe_key_not_reused [OF c, of "''now''" DEDUPE_KEY_REUSED] k show ?thesis
    by (auto simp: local_surroundings_def example_request_def)
qed

end
