(* ===== verification/Moderation.thy ===== *)
theory Moderation
  imports Commands
begin

text \<open>
  The content policy of \<open>src/modules/moderation/policy.ts\<close>. Its rules are regular expressions with
  word boundaries and the \<open>i\<close> flag; \<open>ends\<close> lists where a match that starts at a position may stop. A
  position is the character before it and the text after it.
\<close>

datatype rx = Eps | Cls "char \<Rightarrow> bool" | Bnd | Seq rx rx | Alt rx rx | Rep rx nat "nat option"

type_synonym position = "char option \<times> string"

text \<open>\<open>\w\<close> and \<open>\b\<close>\<close>

definition word_char :: "char \<Rightarrow> bool" where
  "word_char c \<longleftrightarrow> is_alnum c \<or> c = CHR ''_''"

definition word_before :: "position \<Rightarrow> bool" where
  "word_before p = (case fst p of None \<Rightarrow> False | Some c \<Rightarrow> word_char c)"

definition word_after :: "position \<Rightarrow> bool" where
  "word_after p = (case snd p of [] \<Rightarrow> False | c # _ \<Rightarrow> word_char c)"

fun ends :: "rx \<Rightarrow> position \<Rightarrow> position list" where
  "ends Eps p = [p]"
| "ends (Cls f) p = (case snd p of [] \<Rightarrow> [] | c # s \<Rightarrow> if f c then [(Some c, s)] else [])"
| "ends Bnd p = (if word_before p \<noteq> word_after p then [p] else [])"
| "ends (Seq a b) p = concat (map (ends b) (ends a p))"
| "ends (Alt a b) p = ends a p @ ends b p"
| "ends (Rep a lo hi) p =
     concat (map (\<lambda>k. ((\<lambda>ps. concat (map (ends a) ps)) ^^ k) [p]) [lo..<Suc (case hi of Some h \<Rightarrow> h | None \<Rightarrow> lo + length (snd p))])"

fun positions :: "position \<Rightarrow> position list" where
  "positions (b, []) = [(b, [])]"
| "positions (b, c # s) = (b, c # s) # positions (Some c, s)"

text \<open>\<open>pattern.test(text)\<close>\<close>

definition rx_test :: "rx \<Rightarrow> string \<Rightarrow> bool" where
  "rx_test r s = list_ex (\<lambda>p. ends r p \<noteq> []) (positions (None, s))"

section \<open>Writing patterns\<close>

definition ci :: "char \<Rightarrow> rx" where
  "ci c = Cls (\<lambda>x. x = c \<or> (is_upper x \<and> char_of (code_of x + 32) = c))"

fun lit :: "string \<Rightarrow> rx" where
  "lit [] = Eps"
| "lit (c # s) = Seq (ci c) (lit s)"

fun seqs :: "rx list \<Rightarrow> rx" where
  "seqs [] = Eps"
| "seqs (r # rs) = Seq r (seqs rs)"

fun alts :: "rx list \<Rightarrow> rx" where
  "alts [] = Cls (\<lambda>_. False)"
| "alts (r # rs) = Alt r (alts rs)"

abbreviation words :: "string list \<Rightarrow> rx" where
  "words ws \<equiv> alts (map lit ws)"

definition optional_rx :: "rx \<Rightarrow> rx" where
  "optional_rx r = Rep r 0 (Some 1)"

definition spaces :: rx where
  "spaces = Rep (Cls js_space) 1 None"

definition word_chars :: "nat \<Rightarrow> rx" where
  "word_chars n = Rep (Cls word_char) n None"

definition rx_digits :: "nat \<Rightarrow> rx" where
  "rx_digits n = Rep (Cls is_digit) n None"

definition hyphen_or_space :: rx where
  "hyphen_or_space = Cls (\<lambda>c. c = CHR ''-'' \<or> c = CHR '' '')"

definition up_to_two_words :: rx where
  "up_to_two_words = Rep (Seq (word_chars 1) spaces) 0 (Some 2)"

definition apostrophe :: string where
  "apostrophe = [CHR 0x27]"

section \<open>The rules\<close>

datatype policy_reason = UNDISCLOSED_PROMOTION | FAKE_ENGAGEMENT | GUARANTEED_RETURNS | DECEPTIVE_SCRIPT

definition undisclosed_promotion :: "rx list" where
  "undisclosed_promotion =
    [seqs [Bnd, alts [seqs [lit ''don'', optional_rx (lit apostrophe), lit ''t''], lit ''do not'', lit ''never'', lit ''without'', lit ''no need to''],
       spaces, words [''mention'', ''disclose'', ''say'', ''tag'', ''label'', ''add''], Bnd,
       Rep (Cls (\<lambda>c. c \<noteq> CHR ''.'' \<and> code_of c \<noteq> 10)) 0 (Some 40), Bnd,
       alts [Seq (lit ''sponsor'') (optional_rx (words [''ed'', ''ship''])), lit ''paid'',
             seqs [optional_rx (lit ''#''), lit ''ad'', Bnd],
             Seq (lit ''advert'') (optional_rx (words [''isement'', ''ising''])), lit ''partnership'', lit ''disclosure'']],
     seqs [Bnd, words [''look'', ''seem'', ''appear'', ''pretend''], word_chars 0, spaces,
       optional_rx (Seq (alts [lit ''like'', lit ''to be'',
           Seq (lit ''as if it'') (alts [lit (apostrophe @ ''s''), lit '' is'']),
           Seq (lit ''it'') (alts [lit (apostrophe @ ''s''), lit '' is''])]) spaces),
       up_to_two_words, lit ''organic'', Bnd],
     seqs [Bnd, lit ''no'', spaces,
       alts [lit ''#ad'', lit ''disclosure'',
             seqs [lit ''sponsor'', optional_rx (lit ''ed''), spaces, words [''tag'', ''label'']]], Bnd]]"

definition fake_engagement :: "rx list" where
  "fake_engagement =
    [seqs [Bnd, alts [lit ''buy'', lit ''bought'', lit ''fake'', lit ''botted'', lit ''bot'', Seq (lit ''purchase'') (optional_rx (lit ''d'')), lit ''paid''],
       spaces, words [''likes'', ''followers'', ''retweets'', ''reposts'', ''views'', ''comments'', ''engagement'', ''impressions''], Bnd],
     seqs [Bnd, lit ''engagement'', spaces,
       alts [Seq (lit ''pod'') (optional_rx (lit ''s'')), Seq (lit ''farm'') (optional_rx (lit ''s'')), Seq (lit ''group'') (optional_rx (lit ''s''))], Bnd],
     seqs [Bnd, words [''like'', ''follow'', ''retweet'', ''repost''], hyphen_or_space, lit ''for'', hyphen_or_space,
       words [''like'', ''follow'', ''retweet'', ''repost''], Bnd]]"

definition guaranteed_returns :: "rx list" where
  "guaranteed_returns =
    [seqs [Bnd, lit ''guarantee'', optional_rx (Alt (lit ''s'') (lit ''d'')), spaces, up_to_two_words,
       alts [Seq (lit ''return'') (optional_rx (lit ''s'')), Seq (lit ''profit'') (optional_rx (lit ''s'')), Seq (lit ''gain'') (optional_rx (lit ''s'')),
             Seq (lit ''pump'') (optional_rx (lit ''s'')), lit ''moon'', lit ''100x'', Seq (rx_digits 1) (lit ''x'')], Bnd],
     seqs [Bnd, lit ''risk'', hyphen_or_space, lit ''free'', spaces,
       alts [Seq (lit ''return'') (optional_rx (lit ''s'')), Seq (lit ''profit'') (optional_rx (lit ''s'')), Seq (lit ''gain'') (optional_rx (lit ''s'')), lit ''investment''], Bnd],
     seqs [Bnd, alts [seqs [lit ''can'', optional_rx (lit apostrophe), lit ''t''], lit ''cannot'', seqs [lit ''won'', optional_rx (lit apostrophe), lit ''t'']],
       spaces, lit ''lose'', Bnd],
     seqs [Bnd, rx_digits 2, lit ''x'', spaces, words [''guaranteed'', ''for sure'', ''minimum''], Bnd]]"

definition deceptive_script :: "rx list" where
  "deceptive_script =
    [seqs [Bnd, words [''post'', ''copy'', ''publish'', ''tweet''], spaces,
       alts [lit ''this'', lit ''it'', Seq (lit ''the '') (words [''text'', ''script'', ''thread''])], spaces,
       alts [seqs [lit ''word'', hyphen_or_space, lit ''for'', hyphen_or_space, lit ''word''], lit ''verbatim'',
             Seq (lit ''exactly as '') (words [''written'', ''provided'', ''is''])], Bnd],
     seqs [Bnd, lit ''pass '', words [''it'', ''this''], lit '' off as '', words [''your'', ''their''], lit '' own'', Bnd]]"

definition RULES :: "(policy_reason \<times> rx list) list" where
  "RULES = [(UNDISCLOSED_PROMOTION, undisclosed_promotion), (FAKE_ENGAGEMENT, fake_engagement),
            (GUARANTEED_RETURNS, guaranteed_returns), (DECEPTIVE_SCRIPT, deceptive_script)]"

definition screenContent :: "string list \<Rightarrow> policy_reason list" where
  "screenContent texts =
     (let joined = js_join [CHR 0x0A] texts in
      map fst (filter (\<lambda>(_, patterns). list_ex (\<lambda>r. rx_test r joined) patterns) RULES))"

definition assertContentPolicy :: "string list \<Rightarrow> failure + unit" where
  "assertContentPolicy texts = echeck (screenContent texts = []) (Refused DOMAIN_RULE)"

section \<open>A match survives other texts around it\<close>

text \<open>Nothing or a line break, which is what \<open>join\<close> puts next to a text.\<close>

definition line_end :: "string \<Rightarrow> bool" where
  "line_end t \<longleftrightarrow> t = [] \<or> hd t = CHR 0x0A"

definition line_start :: "char option \<Rightarrow> bool" where
  "line_start b \<longleftrightarrow> b = None \<or> b = Some (CHR 0x0A)"

lemma newline_not_word [simp]: "\<not> word_char (CHR 0x0A)"
  by code_simp

lemma word_after_extend: "line_end t \<Longrightarrow> word_after (b', s @ t) = word_after (b, s)"
  by (cases s; cases t) (auto simp: word_after_def line_end_def)

text \<open>The same match with another line after the text and another before it.\<close>

inductive same_place :: "string \<Rightarrow> position \<Rightarrow> position \<Rightarrow> bool" for t where
  "b = b' \<or> line_start b \<and> line_start b' \<Longrightarrow> same_place t (b, s) (b', s @ t)"

inductive_cases same_placeE: "same_place t p q"

lemma same_place_boundary: "same_place t p q \<Longrightarrow> line_end t \<Longrightarrow> word_before q = word_before p \<and> word_after q = word_after p"
  by (erule same_placeE) (auto simp: word_before_def line_start_def word_after_extend)

lemma ends_extend:
  assumes "line_end t"
  shows "same_place t p q \<Longrightarrow> p' \<in> set (ends r p) \<Longrightarrow> \<exists>q' \<in> set (ends r q). same_place t p' q'"
proof (induction r arbitrary: p q p')
  case (Cls f)
  then show ?case
    by (auto elim!: same_placeE split: list.splits if_splits intro!: same_place.intros)
next
  case Bnd
  then show ?case using same_place_boundary [OF Bnd(1) assms] by (auto split: if_splits)
next
  case (Seq a b)
  from Seq.prems(2) obtain m where m: "m \<in> set (ends a p)" "p' \<in> set (ends b m)" by auto
  from Seq.IH(1) [OF Seq.prems(1) m(1)] obtain n where "n \<in> set (ends a q)" "same_place t m n" by blast
  with Seq.IH(2) [OF _ m(2)] show ?case by fastforce
next
  case (Alt a b)
  then show ?case by fastforce
next
  case (Rep a lo hi)
  let ?next = "\<lambda>ps. concat (map (ends a) ps)"
  have iter: "\<exists>q' \<in> set ((?next ^^ k) [q]). same_place t p' q'" if "p' \<in> set ((?next ^^ k) [p])" for k p'
    using that
  proof (induction k arbitrary: p')
    case 0
    with Rep.prems(1) show ?case by simp
  next
    case (Suc k)
    then obtain m where m: "m \<in> set ((?next ^^ k) [p])" "p' \<in> set (ends a m)" by auto
    from Suc.IH [OF m(1)] obtain n where "n \<in> set ((?next ^^ k) [q])" "same_place t m n" by blast
    with Rep.IH [OF _ m(2)] show ?case by fastforce
  qed
  obtain k where k: "lo \<le> k" "k < Suc (case hi of Some h \<Rightarrow> h | None \<Rightarrow> lo + length (snd p))" "p' \<in> set ((?next ^^ k) [p])"
    using Rep.prems(2) by auto
  have "length (snd p) \<le> length (snd q)" using Rep.prems(1) by (auto elim!: same_placeE)
  then have "k < Suc (case hi of Some h \<Rightarrow> h | None \<Rightarrow> lo + length (snd q))"
    using k(2) by (auto split: option.splits)
  with iter [OF k(3)] k(1) show ?case by (auto simp del: upt_Suc)
qed simp

lemma positions_suffix: "(c, s) \<in> set (positions (b, t)) \<Longrightarrow> \<exists>u. t = u @ s \<and> c = (if u = [] then b else Some (last u))"
  by (induction "(b, t)" arbitrary: b t rule: positions.induct) (force split: if_splits)+

lemma suffix_position: "(if u = [] then b else Some (last u), s) \<in> set (positions (b, u @ s))"
proof (induction u arbitrary: b)
  case Nil
  then show ?case by (cases s) simp_all
qed auto

lemma rx_test_extend:
  assumes "rx_test r s" "line_end t" "u = [] \<or> last u = CHR 0x0A"
  shows "rx_test r (u @ s @ t)"
proof -
  obtain c w p' where p: "(c, w) \<in> set (positions (None, s))" "p' \<in> set (ends r (c, w))"
    using assms(1) by (auto simp: rx_test_def list_ex_iff neq_Nil_conv) (metis list.set_intros(1))
  obtain v where v: "s = v @ w" "c = (if v = [] then None else Some (last v))"
    using positions_suffix [OF p(1)] by blast
  let ?c = "if u @ v = [] then None else Some (last (u @ v))"
  have "same_place t (c, w) (?c, w @ t)"
    by (rule same_place.intros) (use assms(3) v(2) in \<open>auto simp: line_start_def\<close>)
  from ends_extend [OF assms(2) this p(2)] have "ends r (?c, w @ t) \<noteq> []" by auto
  moreover have "(?c, w @ t) \<in> set (positions (None, u @ s @ t))"
    using suffix_position [of "u @ v" None "w @ t"] by (simp add: v(1))
  ultimately show ?thesis unfolding rx_test_def list_ex_iff by blast
qed

lemma join_around:
  "t \<in> set ts \<Longrightarrow> \<exists>u v. js_join [CHR 0x0A] ts = u @ t @ v \<and> line_end v \<and> (u = [] \<or> last u = CHR 0x0A)"
proof (induction "[CHR 0x0A]" ts rule: js_join.induct)
  case (3 s s2 ss)
  show ?case
  proof (cases "t = s")
    case True
    then show ?thesis
      by (intro exI [of _ "[]"] exI [of _ "CHR 0x0A # js_join [CHR 0x0A] (s2 # ss)"]) (simp add: line_end_def)
  next
    case False
    with 3 obtain u v where "js_join [CHR 0x0A] (s2 # ss) = u @ t @ v" "line_end v" "u = [] \<or> last u = CHR 0x0A" by auto
    then show ?thesis
      by (intro exI [of _ "s @ CHR 0x0A # u"] exI [of _ v]) auto
  qed
next
  case (2 s)
  then show ?case by (intro exI [of _ "[]"]) (simp add: line_end_def)
qed simp

text \<open>A phrase cannot be hidden among other fields: what one text breaks on its own, every list of texts that contains
  it breaks too.\<close>

theorem screening_is_monotone:
  assumes "text \<in> set texts" "reason \<in> set (screenContent [text])"
  shows "reason \<in> set (screenContent texts) \<and> assertContentPolicy texts = Inl (Refused DOMAIN_RULE)"
proof -
  obtain patterns r where r: "(reason, patterns) \<in> set RULES" "r \<in> set patterns" "rx_test r text"
    using assms(2) by (auto simp: screenContent_def list_ex_iff)
  obtain u v where "js_join [CHR 0x0A] texts = u @ text @ v" "line_end v" "u = [] \<or> last u = CHR 0x0A"
    using join_around [OF assms(1)] by blast
  then have "rx_test r (js_join [CHR 0x0A] texts)" using rx_test_extend [OF r(3)] by simp
  with r(1,2) have "reason \<in> set (screenContent texts)"
    by (force simp: screenContent_def list_ex_iff)
  moreover from this have "screenContent texts \<noteq> []" by auto
  ultimately show ?thesis by (simp add: assertContentPolicy_def)
qed

lemma screening_is_monotone_witness:
  "assertContentPolicy [''Logo'', ''You Can't lose'', ''by mail''] = Inl (Refused DOMAIN_RULE)"
proof -
  have "GUARANTEED_RETURNS \<in> set (screenContent [''You Can't lose''])" by code_simp
  from screening_is_monotone [OF _ this, of "[''Logo'', ''You Can't lose'', ''by mail'']"] show ?thesis by simp
qed

end
