(* ===== verification/Items.thy ===== *)
theory Items
  imports Moderation
begin

text \<open>
  Item auctions: \<open>src/modules/items/commands.ts\<close>, \<open>src/modules/items/jobs.ts\<close> and the windows of
  \<open>src/lib/items.ts\<close>. The state is the tables the handlers use, each as a map from ids to rows, with the
  checks, unique keys and triggers of \<open>drizzle/0033\<close>, \<open>0034\<close> and \<open>0039\<close>; what violates one is \<open>Crashed\<close>. A
  handler is an action on that state in a transaction, \<open>now\<close> is the transaction's time and \<open>newId\<close> the id
  the database draws. Messages are dropped. Users are not modelled.
\<close>

section \<open>Rows\<close>

record platform =
  pf_dateOf :: "string \<Rightarrow> int option"
  pf_urlOf :: "string \<Rightarrow> (string \<times> string) option"

datatype listing_status = AWAITING_COLLATERAL | OPEN | SOLD | NO_BIDS | CANCELLED

datatype sale_status =
    AWAITING_PAYMENT | AWAITING_DELIVERY | DELIVERED | COMPLETED | PAYMENT_EXPIRED | SELLER_DEFAULTED | DISPUTED | REFUNDED

datatype sale_kind = WINNER | BUY_NOW

record item_terms =
  it_origin :: string
  it_itemType :: string
  it_title :: string
  it_projectName :: string
  it_projectUrl :: "string option"
  it_network :: string
  it_quantity :: string
  it_description :: string
  it_deliveryMethod :: string
  it_buyerProvides :: string

record listing_image =
  im_asset :: string
  im_thumb :: "string option"

record listing =
  li_seller :: string
  li_terms :: item_terms
  li_deliveryDue :: int
  li_starting :: int
  li_increment :: int
  li_buyNow :: "int option"
  li_collateral :: int
  li_startsAt :: int
  li_endsAt :: int
  li_status :: listing_status
  li_postedAt :: "int option"
  li_releasedAt :: "int option"
  li_bidCount :: nat
  li_currentBid :: "string option"
  li_firstBidAt :: "int option"
  li_closedAt :: "int option"
  li_cancelReason :: "string option"
  li_images :: "listing_image list"
  li_version :: nat

record bid =
  bi_listing :: string
  bi_bidder :: string
  bi_amount :: int
  bi_sequence :: nat

record sale =
  sl_listing :: string
  sl_buyer :: string
  sl_seller :: string
  sl_kind :: sale_kind
  sl_bid :: "string option"
  sl_price :: int
  sl_collateral :: int
  sl_status :: sale_status
  sl_paymentDue :: int
  sl_paidAt :: "int option"
  sl_buyerDetails :: "string option"
  sl_deliveredAt :: "int option"
  sl_deliveryProof :: "string option"
  sl_confirmBy :: "int option"
  sl_completedAt :: "int option"
  sl_disputedAt :: "int option"
  sl_disputeReason :: "string option"
  sl_resolution :: "string option"
  sl_resolvedBy :: "string option"
  sl_version :: nat

record ledger_transaction =
  lt_kind :: string
  lt_entries :: "(string \<times> int) list"

record asset =
  as_owner :: string
  as_itemImage :: bool
  as_ready :: bool

record market =
  mk_listings :: "(string \<times> listing) list"
  mk_bids :: "(string \<times> bid) list"
  mk_sales :: "(string \<times> sale) list"
  mk_ledger :: "(string \<times> ledger_transaction) list"
  mk_assets :: "(string \<times> asset) list"
  mk_audit :: "audit_entry list"
  mk_flags :: "(string \<times> bool) list"
  mk_paymentsOpen :: bool

type_synonym 'a handler = "(market, failure, 'a) action"

record command_result =
  cr_path :: string
  cr_id :: "string option"

section \<open>Windows\<close>

definition ITEM_PAYMENT_HOURS :: int where "ITEM_PAYMENT_HOURS = 24"
definition ITEM_CONFIRM_HOURS :: int where "ITEM_CONFIRM_HOURS = 72"
definition ITEM_COLLATERAL_MIN_DIVISOR :: int where "ITEM_COLLATERAL_MIN_DIVISOR = 5"
definition HOUR :: int where "HOUR = 3600000"
definition START_TOLERANCE_MS :: int where "START_TOLERANCE_MS = 5 * 60000"
definition MIN_DURATION_MS :: int where "MIN_DURATION_MS = 5 * 60000"
definition MAX_DURATION_MS :: int where "MAX_DURATION_MS = 14 * 24 * HOUR"
definition DEFAULT_INCREMENT_MINOR :: int where "DEFAULT_INCREMENT_MINOR = 500"
definition DEFAULT_DELIVERY_DAYS :: int where "DEFAULT_DELIVERY_DAYS = 7"
definition MAX_ITEM_IMAGES :: nat where "MAX_ITEM_IMAGES = 6"

section \<open>Constraints of the tables\<close>

definition listing_check :: "listing \<Rightarrow> bool" where
  "listing_check l \<longleftrightarrow> it_origin (li_terms l) \<in> {''PROJECT'', ''RESALE''}
     \<and> length (it_itemType (li_terms l)) \<le> 60
     \<and> 1 \<le> length (it_title (li_terms l)) \<and> length (it_title (li_terms l)) \<le> 200
     \<and> length (it_projectName (li_terms l)) \<le> 120
     \<and> (case it_projectUrl (li_terms l) of None \<Rightarrow> True | Some u \<Rightarrow> take 8 u = ''https://'' \<and> length u \<le> 300)
     \<and> length (it_network (li_terms l)) \<le> 60 \<and> length (it_quantity (li_terms l)) \<le> 120
     \<and> length (it_description (li_terms l)) \<le> 20000 \<and> length (it_deliveryMethod (li_terms l)) \<le> 5000
     \<and> length (it_buyerProvides (li_terms l)) \<le> 500
     \<and> li_starting l > 0 \<and> li_increment l > 0
     \<and> (case li_buyNow l of None \<Rightarrow> True | Some b \<Rightarrow> b > li_starting l)
     \<and> li_collateral l > 0 \<and> li_collateral l * 5 \<ge> li_starting l
     \<and> li_endsAt l > li_startsAt l \<and> li_endsAt l - li_startsAt l \<le> 14 * 24 * HOUR
     \<and> li_deliveryDue l \<ge> li_endsAt l + HOUR \<and> li_deliveryDue l \<le> li_endsAt l + 365 * 24 * HOUR
     \<and> (case li_cancelReason l of None \<Rightarrow> True | Some r \<Rightarrow> length r \<le> 500)
     \<and> (li_status l = AWAITING_COLLATERAL \<or> li_status l = CANCELLED \<or> li_postedAt l \<noteq> None)"

definition listing_guard :: "listing \<Rightarrow> listing \<Rightarrow> bool" where
  "listing_guard old new \<longleftrightarrow>
     \<not> (li_firstBidAt old \<noteq> None \<and> (li_starting new \<noteq> li_starting old \<or> li_increment new \<noteq> li_increment old
          \<or> li_buyNow new \<noteq> li_buyNow old \<or> li_collateral new \<noteq> li_collateral old \<or> li_endsAt new \<noteq> li_endsAt old
          \<or> li_deliveryDue new \<noteq> li_deliveryDue old
          \<or> it_deliveryMethod (li_terms new) \<noteq> it_deliveryMethod (li_terms old)
          \<or> it_description (li_terms new) \<noteq> it_description (li_terms old)
          \<or> it_quantity (li_terms new) \<noteq> it_quantity (li_terms old)))
     \<and> \<not> (li_status new \<noteq> li_status old \<and> \<not> (
          (li_status old = AWAITING_COLLATERAL \<and> li_status new \<in> {OPEN, CANCELLED})
        \<or> (li_status old = OPEN \<and> li_status new \<in> {SOLD, NO_BIDS})
        \<or> (li_status old = OPEN \<and> li_status new = CANCELLED \<and> li_firstBidAt old = None)))"

definition sale_check :: "sale \<Rightarrow> bool" where
  "sale_check x \<longleftrightarrow> sl_price x > 0 \<and> sl_collateral x > 0
     \<and> ((sl_kind x = WINNER) = (sl_bid x \<noteq> None)) \<and> sl_buyer x \<noteq> sl_seller x
     \<and> ((sl_paidAt x = None) = (sl_buyerDetails x = None)) \<and> ((sl_deliveredAt x = None) = (sl_deliveryProof x = None))
     \<and> (case sl_buyerDetails x of None \<Rightarrow> True | Some t \<Rightarrow> length t \<le> 500)
     \<and> (case sl_deliveryProof x of None \<Rightarrow> True | Some t \<Rightarrow> length t \<le> 2000)
     \<and> (case sl_disputeReason x of None \<Rightarrow> True | Some t \<Rightarrow> 10 \<le> length t \<and> length t \<le> 1000)
     \<and> (case sl_resolution x of None \<Rightarrow> True | Some r \<Rightarrow> r \<in> {''RELEASED_TO_SELLER'', ''REFUNDED_WITH_COLLATERAL'', ''REFUNDED''})"

definition sale_guard :: "sale \<Rightarrow> sale \<Rightarrow> bool" where
  "sale_guard old new \<longleftrightarrow>
     sl_listing new = sl_listing old \<and> sl_buyer new = sl_buyer old \<and> sl_seller new = sl_seller old
     \<and> sl_price new = sl_price old \<and> sl_collateral new = sl_collateral old \<and> sl_kind new = sl_kind old
     \<and> \<not> (sl_status new \<noteq> sl_status old \<and> \<not> (
          (sl_status old = AWAITING_PAYMENT \<and> sl_status new \<in> {AWAITING_DELIVERY, PAYMENT_EXPIRED})
        \<or> (sl_status old = AWAITING_DELIVERY \<and> sl_status new \<in> {DELIVERED, SELLER_DEFAULTED, DISPUTED})
        \<or> (sl_status old = DELIVERED \<and> sl_status new \<in> {COMPLETED, DISPUTED})
        \<or> (sl_status old = DISPUTED \<and> sl_status new \<in> {COMPLETED, SELLER_DEFAULTED, REFUNDED})))"

section \<open>Statements\<close>

definition crash_unless :: "bool \<Rightarrow> unit handler" where
  "crash_unless b = acheck b Crashed"

definition require :: "bool \<Rightarrow> command_error_code \<Rightarrow> unit handler" where
  "require b code = acheck b (Refused code)"

text \<open>\<open>update .. where id\<close>: a row that is not there is not changed; a version is added to every change but the last one of
  a resolution.\<close>

definition update_listing :: "string \<Rightarrow> (listing \<Rightarrow> listing) \<Rightarrow> unit handler" where
  "update_listing lid f =
     abind (aget (\<lambda>s. mget (mk_listings s) lid)) (\<lambda>row. case row of
       None \<Rightarrow> areturn ()
     | Some old \<Rightarrow> abind (crash_unless (listing_check (f old) \<and> listing_guard old (f old))) (\<lambda>_.
         amodify (\<lambda>s. s\<lparr>mk_listings := mput lid (f old) (mk_listings s)\<rparr>)))"

definition update_sale :: "string \<Rightarrow> (sale \<Rightarrow> sale) \<Rightarrow> unit handler" where
  "update_sale sid f =
     abind (aget (\<lambda>s. mget (mk_sales s) sid)) (\<lambda>row. case row of
       None \<Rightarrow> areturn ()
     | Some old \<Rightarrow> abind (crash_unless (sale_check (f old) \<and> sale_guard old (f old))) (\<lambda>_.
         amodify (\<lambda>s. s\<lparr>mk_sales := mput sid (f old) (mk_sales s)\<rparr>)))"

definition insert_listing :: "string \<Rightarrow> listing \<Rightarrow> unit handler" where
  "insert_listing lid l =
     abind (aget (\<lambda>s. mget (mk_listings s) lid = None)) (\<lambda>new.
     abind (crash_unless (new \<and> listing_check l)) (\<lambda>_.
     amodify (\<lambda>s. s\<lparr>mk_listings := mput lid l (mk_listings s)\<rparr>)))"

definition insert_bid :: "string \<Rightarrow> bid \<Rightarrow> unit handler" where
  "insert_bid bidId b =
     abind (aget (\<lambda>s. mget (mk_bids s) bidId = None
       \<and> list_all (\<lambda>(_, c). \<not> (bi_listing c = bi_listing b \<and> bi_sequence c = bi_sequence b)) (mk_bids s))) (\<lambda>new.
     abind (crash_unless (new \<and> bi_amount b > 0 \<and> bi_sequence b > 0)) (\<lambda>_.
     amodify (\<lambda>s. s\<lparr>mk_bids := mput bidId b (mk_bids s)\<rparr>)))"

definition insert_sale :: "string \<Rightarrow> sale \<Rightarrow> unit handler" where
  "insert_sale sid x =
     abind (aget (\<lambda>s. mget (mk_sales s) sid = None
       \<and> list_all (\<lambda>(_, y). sl_listing y \<noteq> sl_listing x) (mk_sales s))) (\<lambda>new.
     abind (crash_unless (new \<and> sale_check x)) (\<lambda>_.
     amodify (\<lambda>s. s\<lparr>mk_sales := mput sid x (mk_sales s)\<rparr>)))"

definition write_audit :: "actor \<Rightarrow> string \<Rightarrow> string \<Rightarrow> string \<Rightarrow> string \<Rightarrow> string \<Rightarrow> string \<Rightarrow> unit handler" where
  "write_audit a action entityType entityId reason before after =
     amodify (\<lambda>s. s\<lparr>mk_audit := mk_audit s @ [\<lparr>au_actorId = ac_id a, au_actorRoles = ac_roles a, au_action = action,
       au_entityType = entityType, au_entityId = entityId, au_reason = reason, au_before = before, au_after = after\<rparr>]\<rparr>)"

definition assert_flags :: "string list \<Rightarrow> unit handler" where
  "assert_flags keys = abind (aget (\<lambda>s. assertFlags (mk_paymentsOpen s) (mk_flags s) keys)) alift"

definition bump :: "listing \<Rightarrow> listing" where
  "bump l = l\<lparr>li_version := li_version l + 1\<rparr>"

definition bump_sale :: "sale \<Rightarrow> sale" where
  "bump_sale x = x\<lparr>sl_version := sl_version x + 1\<rparr>"

section \<open>The ledger\<close>

definition wallet :: "string \<Rightarrow> string" where
  "wallet userId = ''sandbox_wallet:'' @ userId"

definition collateral_account :: "string \<Rightarrow> string" where
  "collateral_account lid = ''item_collateral:'' @ lid"

definition escrow_account :: "string \<Rightarrow> string" where
  "escrow_account sid = ''item_escrow:'' @ sid"

text \<open>One balanced transaction; a repeated key posts nothing and returns False.\<close>

definition post :: "string \<Rightarrow> string \<Rightarrow> (string \<times> int) list \<Rightarrow> bool handler" where
  "post kind key entries =
     abind (crash_unless (sum_list (map snd entries) = 0)) (\<lambda>_.
     abind (aget (\<lambda>s. mget (mk_ledger s) key)) (\<lambda>previous. case previous of
       Some _ \<Rightarrow> areturn False
     | None \<Rightarrow> abind (amodify (\<lambda>s. s\<lparr>mk_ledger := mput key
           \<lparr>lt_kind = kind, lt_entries = filter (\<lambda>(_, amount). amount \<noteq> 0) entries\<rparr> (mk_ledger s)\<rparr>)) (\<lambda>_.
         areturn True)))"

definition lock_key :: "string \<Rightarrow> string" where "lock_key lid = ''item-collateral-lock:'' @ lid"
definition release_key :: "string \<Rightarrow> string" where "release_key lid = ''item-collateral-release:'' @ lid"
definition pay_key :: "string \<Rightarrow> string" where "pay_key sid = ''item-payment-lock:'' @ sid"
definition payout_key :: "string \<Rightarrow> string" where "payout_key sid = ''item-payment-release:'' @ sid"
definition refund_key :: "string \<Rightarrow> string" where "refund_key sid = ''item-payment-refund:'' @ sid"

definition releaseCollateral :: "int \<Rightarrow> string \<Rightarrow> listing \<Rightarrow> string \<Rightarrow> unit handler" where
  "releaseCollateral now lid l recipient =
     abind (post ''ITEM_COLLATERAL_RELEASED'' (release_key lid)
       [(collateral_account lid, - li_collateral l), (wallet recipient, li_collateral l)]) (\<lambda>posted.
     if posted then update_listing lid (\<lambda>l. l\<lparr>li_releasedAt := Some now\<rparr>) else areturn ())"

definition completeSale :: "int \<Rightarrow> string \<Rightarrow> sale \<Rightarrow> listing \<Rightarrow> unit handler" where
  "completeSale now sid x l =
     abind (post ''ITEM_PAYMENT_RELEASED'' (payout_key sid)
       [(escrow_account sid, - sl_price x), (wallet (sl_seller x), sl_price x)]) (\<lambda>_.
     abind (releaseCollateral now (sl_listing x) l (sl_seller x)) (\<lambda>_.
     update_sale sid (\<lambda>x. bump_sale (x\<lparr>sl_status := COMPLETED, sl_completedAt := Some now\<rparr>))))"

definition refundPayment :: "string \<Rightarrow> sale \<Rightarrow> bool handler" where
  "refundPayment sid x =
     post ''ITEM_PAYMENT_REFUNDED'' (refund_key sid) [(escrow_account sid, - sl_price x), (wallet (sl_buyer x), sl_price x)]"

definition defaultSeller :: "int \<Rightarrow> string \<Rightarrow> sale \<Rightarrow> listing \<Rightarrow> unit handler" where
  "defaultSeller now sid x l =
     abind (refundPayment sid x) (\<lambda>_.
     abind (releaseCollateral now (sl_listing x) l (sl_buyer x)) (\<lambda>_.
     update_sale sid (\<lambda>x. bump_sale (x\<lparr>sl_status := SELLER_DEFAULTED\<rparr>))))"

definition createSale :: "int \<Rightarrow> string \<Rightarrow> string \<Rightarrow> listing \<Rightarrow> string \<Rightarrow> sale_kind \<Rightarrow> int \<Rightarrow> string option \<Rightarrow> string handler" where
  "createSale now sid lid l buyerId kind price bidId =
     abind (insert_sale sid \<lparr>sl_listing = lid, sl_buyer = buyerId, sl_seller = li_seller l, sl_kind = kind, sl_bid = bidId,
       sl_price = price, sl_collateral = li_collateral l, sl_status = AWAITING_PAYMENT,
       sl_paymentDue = now + ITEM_PAYMENT_HOURS * HOUR, sl_paidAt = None, sl_buyerDetails = None, sl_deliveredAt = None,
       sl_deliveryProof = None, sl_confirmBy = None, sl_completedAt = None, sl_disputedAt = None, sl_disputeReason = None,
       sl_resolution = None, sl_resolvedBy = None, sl_version = 1\<rparr>) (\<lambda>_.
     abind (update_listing lid (\<lambda>l. bump (l\<lparr>li_status := SOLD, li_closedAt := Some now\<rparr>))) (\<lambda>_.
     areturn sid))"

definition lockListing :: "string \<Rightarrow> listing handler" where
  "lockListing lid =
     abind (aget (\<lambda>s. mget (mk_listings s) lid)) (\<lambda>row. case row of None \<Rightarrow> afail (Refused NOT_FOUND) | Some l \<Rightarrow> areturn l)"

definition lockSale :: "string \<Rightarrow> (sale \<times> listing) handler" where
  "lockSale sid =
     abind (aget (\<lambda>s. mget (mk_sales s) sid)) (\<lambda>row. case row of
       None \<Rightarrow> afail (Refused NOT_FOUND)
     | Some x \<Rightarrow> abind (lockListing (sl_listing x)) (\<lambda>l. areturn (x, l)))"

definition path :: "string \<Rightarrow> string" where
  "path lid = ''/auctions/'' @ lid"

section \<open>Fields\<close>

text \<open>\<open>field(form, name, label, max)\<close> and \<open>optional(form, name, max)\<close>\<close>

definition item_field :: "form \<Rightarrow> string \<Rightarrow> nat \<Rightarrow> failure + string" where
  "item_field form name mx =
     ebind (echeck (field_value form name \<noteq> []) (Refused INVALID_INPUT)) (\<lambda>_.
     ebind (echeck (\<not> length (field_value form name) > mx) (Refused INVALID_INPUT)) (\<lambda>_.
     text_field form name True mx))"

definition optional_field :: "form \<Rightarrow> string \<Rightarrow> nat \<Rightarrow> failure + string" where
  "optional_field form name mx = text_field form name False mx"

text \<open>A price field that may be left empty.\<close>

definition optional_money :: "form \<Rightarrow> string \<Rightarrow> failure + int option" where
  "optional_money form name =
     ebind (text_field form name False 20) (\<lambda>v. if v = [] then Inr None else ebind (money v) (\<lambda>n. Inr (Some n)))"

text \<open>\<open>/^https?:\/\//i\<close>\<close>

definition has_scheme :: "string \<Rightarrow> bool" where
  "has_scheme v \<longleftrightarrow> take 7 (js_lower v) = ''http://'' \<or> take 8 (js_lower v) = ''https://''"

definition listing_terms :: "platform \<Rightarrow> actor \<Rightarrow> form \<Rightarrow> failure + item_terms" where
  "listing_terms pf a form =
     ebind (text_field form ''origin'' True DEFAULT_MAX_LENGTH) (\<lambda>origin.
     ebind (echeck (\<not> (origin \<noteq> ''PROJECT'' \<and> origin \<noteq> ''RESALE'')) (Refused INVALID_INPUT)) (\<lambda>_.
     ebind (echeck (\<not> (origin = ''PROJECT'' \<and> \<not> isBuyer a)) (Refused FORBIDDEN)) (\<lambda>_.
     ebind (optional_field form ''item_type'' 60) (\<lambda>itemType.
     ebind (item_field form ''title'' 200) (\<lambda>title.
     ebind (optional_field form ''project_name'' 120) (\<lambda>projectName.
     ebind (text_field form ''project_url'' False 300) (\<lambda>link.
     ebind (if link = [] then Inr None
            else ebind (httpUrl (pf_urlOf pf) (if has_scheme link then link else ''https://'' @ link)) (\<lambda>u. Inr (Some u))) (\<lambda>projectUrl.
     ebind (echeck (case projectUrl of None \<Rightarrow> True | Some u \<Rightarrow> u = [] \<or> take 8 u = ''https://'') (Refused INVALID_INPUT)) (\<lambda>_.
     ebind (optional_field form ''network'' 60) (\<lambda>network.
     ebind (optional_field form ''quantity'' 120) (\<lambda>quantity.
     ebind (optional_field form ''description'' 20000) (\<lambda>description.
     ebind (optional_field form ''delivery_method'' 5000) (\<lambda>deliveryMethod.
     ebind (optional_field form ''buyer_provides'' 500) (\<lambda>buyerProvides.
     ebind (echeck (screenContent [title, description, deliveryMethod] = []) (Refused DOMAIN_RULE)) (\<lambda>_.
     Inr \<lparr>it_origin = origin, it_itemType = itemType, it_title = title, it_projectName = projectName, it_projectUrl = projectUrl,
          it_network = network, it_quantity = quantity, it_description = description, it_deliveryMethod = deliveryMethod,
          it_buyerProvides = buyerProvides\<rparr>)))))))))))))))"

definition listing_prices :: "form \<Rightarrow> failure + int \<times> int \<times> int option \<times> int" where
  "listing_prices form =
     ebind (ebind (text_field form ''starting_price'' True DEFAULT_MAX_LENGTH) money) (\<lambda>starting.
     ebind (optional_money form ''min_increment'') (\<lambda>incrementValue.
     ebind (optional_money form ''buy_now_price'') (\<lambda>buyNow.
     ebind (echeck (case buyNow of None \<Rightarrow> True | Some b \<Rightarrow> \<not> b \<le> starting) (Refused INVALID_INPUT)) (\<lambda>_.
     let floor = (starting + ITEM_COLLATERAL_MIN_DIVISOR - 1) div ITEM_COLLATERAL_MIN_DIVISOR in
     ebind (optional_money form ''collateral'') (\<lambda>collateralValue.
     let collateral = (case collateralValue of Some c \<Rightarrow> c | None \<Rightarrow> floor) in
     ebind (echeck (\<not> collateral < floor) (Refused INVALID_INPUT)) (\<lambda>_.
     Inr (starting, case incrementValue of Some i \<Rightarrow> i | None \<Rightarrow> DEFAULT_INCREMENT_MINOR, buyNow, collateral)))))))"

definition listing_times :: "platform \<Rightarrow> int \<Rightarrow> form \<Rightarrow> failure + int \<times> int \<times> int" where
  "listing_times pf now form =
     ebind (ebind (text_field form ''starts_at'' False DEFAULT_MAX_LENGTH) (\<lambda>v.
       if v \<noteq> [] then instantField (pf_dateOf pf) form ''starts_at'' else Inr now)) (\<lambda>startsAt.
     ebind (instantField (pf_dateOf pf) form ''ends_at'') (\<lambda>endsAt.
     ebind (ebind (text_field form ''delivery_due_at'' False DEFAULT_MAX_LENGTH) (\<lambda>v.
       if v \<noteq> [] then instantField (pf_dateOf pf) form ''delivery_due_at''
       else Inr (endsAt + DEFAULT_DELIVERY_DAYS * 24 * HOUR))) (\<lambda>deliveryDue.
     ebind (echeck (\<not> startsAt < now - START_TOLERANCE_MS) (Refused INVALID_INPUT)) (\<lambda>_.
     ebind (echeck (\<not> endsAt - startsAt < MIN_DURATION_MS) (Refused INVALID_INPUT)) (\<lambda>_.
     ebind (echeck (\<not> endsAt - startsAt > MAX_DURATION_MS) (Refused INVALID_INPUT)) (\<lambda>_.
     ebind (echeck (\<not> deliveryDue < endsAt + HOUR) (Refused INVALID_INPUT)) (\<lambda>_.
     ebind (echeck (\<not> deliveryDue > endsAt + 365 * 24 * HOUR) (Refused INVALID_INPUT)) (\<lambda>_.
     Inr (startsAt, endsAt, deliveryDue)))))))))"

section \<open>Pictures\<close>

definition image_rows :: "string list \<Rightarrow> string list \<Rightarrow> listing_image list" where
  "image_rows ids thumbs =
     map (\<lambda>(position, i). \<lparr>im_asset = i, im_thumb =
         (if position < length thumbs \<and> thumbs ! position \<noteq> [] \<and> thumbs ! position \<noteq> i then Some (thumbs ! position) else None)\<rparr>)
       (enumerate 0 ids)"

definition replaceItemImages :: "string \<Rightarrow> string \<Rightarrow> string \<Rightarrow> string \<Rightarrow> nat handler" where
  "replaceItemImages sellerId lid imageValue thumbValue =
     (let tidy = map (\<lambda>v. js_lower (js_trim v));
          ids = filter (\<lambda>v. v \<noteq> []) (tidy (js_split (CHR '','') imageValue));
          thumbs = tidy (js_split (CHR '','') thumbValue);
          wanted = remdups (ids @ filter (\<lambda>v. v \<noteq> []) thumbs) in
      abind (require (\<not> (list_ex (\<lambda>i. \<not> UUID_PATTERN i) ids \<or> list_ex (\<lambda>i. i \<noteq> [] \<and> \<not> UUID_PATTERN i) thumbs)) INVALID_INPUT) (\<lambda>_.
      abind (require (\<not> length ids > MAX_ITEM_IMAGES) INVALID_INPUT) (\<lambda>_.
      abind (require (distinct ids) INVALID_INPUT) (\<lambda>_.
      abind (aget (\<lambda>s. filter (\<lambda>(i, x). i \<in> set wanted \<and> as_owner x = sellerId \<and> as_itemImage x) (mk_assets s))) (\<lambda>assets.
      abind (require (wanted = [] \<or> length assets = length wanted) NOT_FOUND) (\<lambda>_.
      abind (require (wanted = [] \<or> list_all (\<lambda>(_, x). as_ready x) assets) DOMAIN_RULE) (\<lambda>_.
      abind (update_listing lid (\<lambda>l. l\<lparr>li_images := image_rows ids thumbs\<rparr>)) (\<lambda>_.
      areturn (length ids)))))))))"

section \<open>Listing commands\<close>

definition createItemListing :: "platform \<Rightarrow> int \<Rightarrow> string \<Rightarrow> actor \<Rightarrow> form \<Rightarrow> command_result handler" where
  "createItemListing pf now newId a form =
     abind (alift (listing_terms pf a form)) (\<lambda>terms.
     abind (alift (listing_prices form)) (\<lambda>(starting, increment, buyNow, collateral).
     abind (alift (listing_times pf now form)) (\<lambda>(startsAt, endsAt, deliveryDue).
     abind (insert_listing newId \<lparr>li_seller = ac_id a, li_terms = terms, li_deliveryDue = deliveryDue, li_starting = starting,
       li_increment = increment, li_buyNow = buyNow, li_collateral = collateral, li_startsAt = startsAt, li_endsAt = endsAt,
       li_status = AWAITING_COLLATERAL, li_postedAt = None, li_releasedAt = None, li_bidCount = 0, li_currentBid = None,
       li_firstBidAt = None, li_closedAt = None, li_cancelReason = None, li_images = [], li_version = 1\<rparr>) (\<lambda>_.
     abind (alift (text_field form ''image_ids'' False 300)) (\<lambda>images.
     abind (alift (text_field form ''thumb_ids'' False 300)) (\<lambda>thumbs.
     abind (replaceItemImages (ac_id a) newId images thumbs) (\<lambda>_.
     areturn \<lparr>cr_path = path newId, cr_id = Some newId\<rparr>)))))))"

definition postItemCollateral :: "int \<Rightarrow> actor \<Rightarrow> form \<Rightarrow> command_result handler" where
  "postItemCollateral now a form =
     abind (assert_flags [''CHECKOUT_CREATION_ENABLED'']) (\<lambda>_.
     abind (alift (uuid form ''listing_id'')) (\<lambda>lid.
     abind (lockListing lid) (\<lambda>l.
     abind (require (li_seller l = ac_id a) NOT_FOUND) (\<lambda>_.
     abind (require (li_status l = AWAITING_COLLATERAL) ORDER_STATE_CONFLICT) (\<lambda>_.
     abind (require (\<not> li_endsAt l \<le> now) ORDER_STATE_CONFLICT) (\<lambda>_.
     abind (post ''ITEM_COLLATERAL_LOCKED'' (lock_key lid)
       [(wallet (ac_id a), - li_collateral l), (collateral_account lid, li_collateral l)]) (\<lambda>_.
     abind (update_listing lid (\<lambda>l. bump (l\<lparr>li_status := OPEN, li_postedAt := Some now\<rparr>))) (\<lambda>_.
     areturn \<lparr>cr_path = path lid, cr_id = None\<rparr>))))))))"

definition cancelItemListing :: "int \<Rightarrow> actor \<Rightarrow> form \<Rightarrow> command_result handler" where
  "cancelItemListing now a form =
     abind (alift (uuid form ''listing_id'')) (\<lambda>lid.
     abind (lockListing lid) (\<lambda>l.
     abind (require (li_seller l = ac_id a) NOT_FOUND) (\<lambda>_.
     abind (require (li_status l \<in> {AWAITING_COLLATERAL, OPEN}) ORDER_STATE_CONFLICT) (\<lambda>_.
     abind (require (\<not> li_bidCount l > 0) ORDER_STATE_CONFLICT) (\<lambda>_.
     abind (alift (text_field form ''reason'' False 500)) (\<lambda>reason.
     abind (update_listing lid (\<lambda>l. bump (l\<lparr>li_status := CANCELLED,
       li_cancelReason := (if reason = [] then None else Some reason), li_closedAt := Some now\<rparr>))) (\<lambda>_.
     abind (if li_postedAt l \<noteq> None then releaseCollateral now lid l (li_seller l) else areturn ()) (\<lambda>_.
     areturn \<lparr>cr_path = ''/auctions'', cr_id = None\<rparr>))))))))"

definition setItemImages :: "actor \<Rightarrow> form \<Rightarrow> command_result handler" where
  "setItemImages a form =
     abind (alift (uuid form ''listing_id'')) (\<lambda>lid.
     abind (lockListing lid) (\<lambda>l.
     abind (require (li_seller l = ac_id a) NOT_FOUND) (\<lambda>_.
     abind (require (li_status l \<in> {AWAITING_COLLATERAL, OPEN}) ORDER_STATE_CONFLICT) (\<lambda>_.
     abind (alift (text_field form ''clear'' False 10)) (\<lambda>clearValue.
     let clear = (clearValue = ''true'') in
     abind (if clear then areturn [] else alift (text_field form ''image_ids'' False 300)) (\<lambda>images.
     abind (require (clear \<or> images \<noteq> []) INVALID_INPUT) (\<lambda>_.
     abind (if clear then areturn [] else alift (text_field form ''thumb_ids'' False 300)) (\<lambda>thumbs.
     abind (replaceItemImages (ac_id a) lid images thumbs) (\<lambda>_.
     areturn \<lparr>cr_path = path lid, cr_id = None\<rparr>)))))))))"

section \<open>Bidding\<close>

definition assertLive :: "int \<Rightarrow> listing \<Rightarrow> string \<Rightarrow> unit handler" where
  "assertLive now l actorId =
     abind (require (li_status l = OPEN) ORDER_STATE_CONFLICT) (\<lambda>_.
     abind (require (li_seller l \<noteq> actorId) FORBIDDEN) (\<lambda>_.
     abind (require (\<not> now < li_startsAt l) ORDER_STATE_CONFLICT) (\<lambda>_.
     require (\<not> now \<ge> li_endsAt l) ORDER_STATE_CONFLICT)))"

definition bidItem :: "int \<Rightarrow> string \<Rightarrow> actor \<Rightarrow> form \<Rightarrow> command_result handler" where
  "bidItem now newId a form =
     abind (assert_flags [''BIDDING_ENABLED'']) (\<lambda>_.
     abind (alift (uuid form ''listing_id'')) (\<lambda>lid.
     abind (lockListing lid) (\<lambda>l.
     abind (assertLive now l (ac_id a)) (\<lambda>_.
     abind (alift (ebind (text_field form ''amount'' True DEFAULT_MAX_LENGTH) money)) (\<lambda>amount.
     abind (aget (\<lambda>s. Option.bind (li_currentBid l) (mget (mk_bids s)))) (\<lambda>current.
     let minimum = (case current of Some b \<Rightarrow> bi_amount b + li_increment l | None \<Rightarrow> li_starting l) in
     abind (require (\<not> amount < minimum) ORDER_STATE_CONFLICT) (\<lambda>_.
     abind (require (case li_buyNow l of Some p \<Rightarrow> \<not> amount \<ge> p | None \<Rightarrow> True) ORDER_STATE_CONFLICT) (\<lambda>_.
     let sequence = li_bidCount l + 1 in
     abind (insert_bid newId \<lparr>bi_listing = lid, bi_bidder = ac_id a, bi_amount = amount, bi_sequence = sequence\<rparr>) (\<lambda>_.
     abind (update_listing lid (\<lambda>l. bump (l\<lparr>li_currentBid := Some newId, li_bidCount := sequence,
       li_firstBidAt := (case li_firstBidAt l of Some t \<Rightarrow> Some t | None \<Rightarrow> Some now)\<rparr>))) (\<lambda>_.
     areturn \<lparr>cr_path = path lid, cr_id = Some newId\<rparr>))))))))))"

definition buyItemNow :: "int \<Rightarrow> string \<Rightarrow> actor \<Rightarrow> form \<Rightarrow> command_result handler" where
  "buyItemNow now newId a form =
     abind (assert_flags [''BIDDING_ENABLED'', ''CHECKOUT_CREATION_ENABLED'']) (\<lambda>_.
     abind (alift (uuid form ''listing_id'')) (\<lambda>lid.
     abind (lockListing lid) (\<lambda>l.
     abind (assertLive now l (ac_id a)) (\<lambda>_.
     (case li_buyNow l of
        None \<Rightarrow> afail (Refused BUY_NOW_UNAVAILABLE)
      | Some price \<Rightarrow>
          abind (require (\<not> li_bidCount l > 0) BUY_NOW_UNAVAILABLE) (\<lambda>_.
          abind (createSale now newId lid l (ac_id a) BUY_NOW price None) (\<lambda>_.
          areturn \<lparr>cr_path = path lid, cr_id = None\<rparr>)))))))"

section \<open>After the sale\<close>

definition payItemSale :: "int \<Rightarrow> actor \<Rightarrow> form \<Rightarrow> command_result handler" where
  "payItemSale now a form =
     abind (assert_flags [''CHECKOUT_CREATION_ENABLED'']) (\<lambda>_.
     abind (alift (uuid form ''sale_id'')) (\<lambda>sid.
     abind (lockSale sid) (\<lambda>(x, l).
     abind (require (sl_buyer x = ac_id a) NOT_FOUND) (\<lambda>_.
     abind (require (sl_status x = AWAITING_PAYMENT) ORDER_STATE_CONFLICT) (\<lambda>_.
     abind (require (\<not> now > sl_paymentDue x) ORDER_STATE_CONFLICT) (\<lambda>_.
     abind (alift (item_field form ''buyer_details'' 500)) (\<lambda>details.
     abind (post ''ITEM_PAYMENT_LOCKED'' (pay_key sid)
       [(wallet (ac_id a), - sl_price x), (escrow_account sid, sl_price x)]) (\<lambda>_.
     abind (update_sale sid (\<lambda>x. bump_sale (x\<lparr>sl_status := AWAITING_DELIVERY, sl_paidAt := Some now, sl_buyerDetails := Some details\<rparr>))) (\<lambda>_.
     areturn \<lparr>cr_path = path (sl_listing x), cr_id = None\<rparr>)))))))))"

definition markItemDelivered :: "int \<Rightarrow> actor \<Rightarrow> form \<Rightarrow> command_result handler" where
  "markItemDelivered now a form =
     abind (alift (uuid form ''sale_id'')) (\<lambda>sid.
     abind (lockSale sid) (\<lambda>(x, l).
     abind (require (sl_seller x = ac_id a) NOT_FOUND) (\<lambda>_.
     abind (require (sl_status x = AWAITING_DELIVERY) ORDER_STATE_CONFLICT) (\<lambda>_.
     abind (require (\<not> now > li_deliveryDue l) ORDER_STATE_CONFLICT) (\<lambda>_.
     abind (alift (item_field form ''delivery_proof'' 2000)) (\<lambda>proof_text.
     abind (update_sale sid (\<lambda>x. bump_sale (x\<lparr>sl_status := DELIVERED, sl_deliveredAt := Some now, sl_deliveryProof := Some proof_text,
       sl_confirmBy := Some (now + ITEM_CONFIRM_HOURS * HOUR)\<rparr>))) (\<lambda>_.
     areturn \<lparr>cr_path = path (sl_listing x), cr_id = None\<rparr>)))))))"

definition confirmItemReceived :: "int \<Rightarrow> actor \<Rightarrow> form \<Rightarrow> command_result handler" where
  "confirmItemReceived now a form =
     abind (alift (uuid form ''sale_id'')) (\<lambda>sid.
     abind (lockSale sid) (\<lambda>(x, l).
     abind (require (sl_buyer x = ac_id a) NOT_FOUND) (\<lambda>_.
     abind (require (sl_status x = DELIVERED) ORDER_STATE_CONFLICT) (\<lambda>_.
     abind (completeSale now sid x l) (\<lambda>_.
     areturn \<lparr>cr_path = path (sl_listing x), cr_id = None\<rparr>)))))"

definition disputeItemSale :: "int \<Rightarrow> actor \<Rightarrow> form \<Rightarrow> command_result handler" where
  "disputeItemSale now a form =
     abind (alift (uuid form ''sale_id'')) (\<lambda>sid.
     abind (lockSale sid) (\<lambda>(x, l).
     abind (require (sl_buyer x = ac_id a) NOT_FOUND) (\<lambda>_.
     abind (require (sl_status x = AWAITING_DELIVERY
       \<or> (sl_status x = DELIVERED \<and> (case sl_confirmBy x of Some t \<Rightarrow> now \<le> t | None \<Rightarrow> False))) ORDER_STATE_CONFLICT) (\<lambda>_.
     abind (alift (item_field form ''dispute_reason'' 4000)) (\<lambda>reason.
     abind (update_sale sid (\<lambda>x. bump_sale (x\<lparr>sl_status := DISPUTED, sl_disputedAt := Some now, sl_disputeReason := Some reason\<rparr>))) (\<lambda>_.
     areturn \<lparr>cr_path = path (sl_listing x), cr_id = None\<rparr>))))))"

definition claimItemRefund :: "int \<Rightarrow> actor \<Rightarrow> form \<Rightarrow> command_result handler" where
  "claimItemRefund now a form =
     abind (alift (uuid form ''sale_id'')) (\<lambda>sid.
     abind (lockSale sid) (\<lambda>(x, l).
     abind (require (sl_buyer x = ac_id a) NOT_FOUND) (\<lambda>_.
     abind (require (sl_status x = AWAITING_DELIVERY) ORDER_STATE_CONFLICT) (\<lambda>_.
     abind (require (\<not> now \<le> li_deliveryDue l) ORDER_STATE_CONFLICT) (\<lambda>_.
     abind (defaultSeller now sid x l) (\<lambda>_.
     areturn \<lparr>cr_path = path (sl_listing x), cr_id = None\<rparr>))))))"

definition resolveItemDispute :: "int \<Rightarrow> actor \<Rightarrow> form \<Rightarrow> command_result handler" where
  "resolveItemDispute now a form =
     abind (alift (text_field form ''outcome'' True DEFAULT_MAX_LENGTH)) (\<lambda>oc.
     abind (require (oc \<in> {''RELEASE_TO_SELLER'', ''REFUND_WITH_COLLATERAL'', ''REFUND''}) INVALID_INPUT) (\<lambda>_.
     abind (alift (requireRole a [''finance'', ''admin''])) (\<lambda>_.
     abind (alift (reasonOf form)) (\<lambda>reason.
     abind (alift (uuid form ''sale_id'')) (\<lambda>sid.
     abind (lockSale sid) (\<lambda>(x, l).
     abind (require (sl_status x = DISPUTED) ORDER_STATE_CONFLICT) (\<lambda>_.
     abind (if oc = ''RELEASE_TO_SELLER'' then completeSale now sid x l
            else if oc = ''REFUND_WITH_COLLATERAL'' then defaultSeller now sid x l
            else abind (refundPayment sid x) (\<lambda>_.
                 abind (releaseCollateral now (sl_listing x) l (sl_seller x)) (\<lambda>_.
                 update_sale sid (\<lambda>x. bump_sale (x\<lparr>sl_status := REFUNDED\<rparr>))))) (\<lambda>_.
     let resolution = (if oc = ''RELEASE_TO_SELLER'' then ''RELEASED_TO_SELLER''
                       else if oc = ''REFUND_WITH_COLLATERAL'' then ''REFUNDED_WITH_COLLATERAL'' else ''REFUNDED'') in
     abind (update_sale sid (\<lambda>x. x\<lparr>sl_resolution := Some resolution, sl_resolvedBy := Some (ac_id a)\<rparr>)) (\<lambda>_.
     abind (write_audit a ''resolve_item_dispute'' ''item_sale'' sid reason ''DISPUTED'' resolution) (\<lambda>_.
     areturn \<lparr>cr_path = ''/admin/item-disputes'', cr_id = None\<rparr>))))))))))"

definition itemCommands :: "(string \<times> (platform \<Rightarrow> int \<Rightarrow> string \<Rightarrow> actor \<Rightarrow> form \<Rightarrow> command_result handler)) list" where
  "itemCommands =
     [(''create_item_listing'', createItemListing),
      (''post_item_collateral'', \<lambda>pf now newId. postItemCollateral now),
      (''cancel_item_listing'', \<lambda>pf now newId. cancelItemListing now),
      (''set_item_images'', \<lambda>pf now newId. setItemImages),
      (''bid_item'', \<lambda>pf. bidItem),
      (''buy_item_now'', \<lambda>pf. buyItemNow),
      (''pay_item_sale'', \<lambda>pf now newId. payItemSale now),
      (''mark_item_delivered'', \<lambda>pf now newId. markItemDelivered now),
      (''confirm_item_received'', \<lambda>pf now newId. confirmItemReceived now),
      (''dispute_item_sale'', \<lambda>pf now newId. disputeItemSale now),
      (''claim_item_refund'', \<lambda>pf now newId. claimItemRefund now),
      (''admin_resolve_item_dispute'', \<lambda>pf now newId. resolveItemDispute now)]"

section \<open>Clocks\<close>

datatype job_outcome =
    Skipped | Cancelled_No_Collateral | No_Bids | Sold_To_Winner | Payment_Expired | Completed_By_Timeout | Seller_Defaulted

text \<open>The transaction of \<open>closeDueItemListings\<close> for one listing, and of \<open>settleItemSales\<close> for one sale.\<close>

definition closeListing :: "int \<Rightarrow> string \<Rightarrow> string \<Rightarrow> job_outcome handler" where
  "closeListing now newId lid =
     abind (aget (\<lambda>s. mget (mk_listings s) lid)) (\<lambda>row. case row of
       None \<Rightarrow> areturn Skipped
     | Some l \<Rightarrow>
         if \<not> li_endsAt l \<le> now then areturn Skipped
         else if li_status l = AWAITING_COLLATERAL
         then abind (update_listing lid (\<lambda>l. bump (l\<lparr>li_status := CANCELLED,
                li_cancelReason := Some ''The collateral was not locked before the auction ended'', li_closedAt := Some now\<rparr>))) (\<lambda>_.
              areturn Cancelled_No_Collateral)
         else if li_status l \<noteq> OPEN then areturn Skipped
         else (case li_currentBid l of
           None \<Rightarrow>
             abind (update_listing lid (\<lambda>l. bump (l\<lparr>li_status := NO_BIDS, li_closedAt := Some now\<rparr>))) (\<lambda>_.
             abind (releaseCollateral now lid l (li_seller l)) (\<lambda>_.
             areturn No_Bids))
         | Some bidId \<Rightarrow>
             abind (aget (\<lambda>s. mget (mk_bids s) bidId)) (\<lambda>found. case found of
               None \<Rightarrow> afail Crashed
             | Some b \<Rightarrow>
                 abind (createSale now newId lid l (bi_bidder b) WINNER (bi_amount b) (Some bidId)) (\<lambda>_.
                 areturn Sold_To_Winner))))"

definition settleSale :: "int \<Rightarrow> string \<Rightarrow> job_outcome handler" where
  "settleSale now sid =
     abind (aget (\<lambda>s. mget (mk_sales s) sid)) (\<lambda>row. case row of
       None \<Rightarrow> afail Crashed
     | Some x \<Rightarrow>
         abind (aget (\<lambda>s. mget (mk_listings s) (sl_listing x))) (\<lambda>found. case found of
           None \<Rightarrow> afail Crashed
         | Some l \<Rightarrow>
             if sl_status x = AWAITING_PAYMENT \<and> sl_paymentDue x < now
             then abind (update_sale sid (\<lambda>x. bump_sale (x\<lparr>sl_status := PAYMENT_EXPIRED\<rparr>))) (\<lambda>_.
                  abind (releaseCollateral now (sl_listing x) l (li_seller l)) (\<lambda>_.
                  areturn Payment_Expired))
             else if sl_status x = DELIVERED \<and> (case sl_confirmBy x of Some t \<Rightarrow> t < now | None \<Rightarrow> False)
             then abind (completeSale now sid x l) (\<lambda>_. areturn Completed_By_Timeout)
             else if sl_status x = AWAITING_DELIVERY \<and> li_deliveryDue l < now
             then abind (defaultSeller now sid x l) (\<lambda>_. areturn Seller_Defaulted)
             else areturn Skipped))"

text \<open>The rows due at the time of the query; each then gets its transaction, at the time and with the id of that
  transaction, and the first that throws ends the run.\<close>

definition due_listings :: "int \<Rightarrow> nat \<Rightarrow> string option \<Rightarrow> market \<Rightarrow> string list" where
  "due_listings now limit only s =
     take limit (map fst (sort_key (\<lambda>(_, l). li_endsAt l)
       (filter (\<lambda>(lid, l). li_status l \<in> {OPEN, AWAITING_COLLATERAL} \<and> li_endsAt l \<le> now
                          \<and> (case only of None \<Rightarrow> True | Some w \<Rightarrow> lid = w)) (mk_listings s))))"

definition sale_due :: "int \<Rightarrow> market \<Rightarrow> sale \<Rightarrow> bool" where
  "sale_due now s x \<longleftrightarrow> (sl_status x = AWAITING_PAYMENT \<and> sl_paymentDue x < now)
     \<or> (sl_status x = DELIVERED \<and> (case sl_confirmBy x of Some t \<Rightarrow> t < now | None \<Rightarrow> False))
     \<or> (sl_status x = AWAITING_DELIVERY \<and> (case mget (mk_listings s) (sl_listing x) of Some l \<Rightarrow> li_deliveryDue l < now | None \<Rightarrow> False))"

definition due_sales :: "int \<Rightarrow> nat \<Rightarrow> string option \<Rightarrow> market \<Rightarrow> string list" where
  "due_sales now limit only s =
     take limit (map fst (filter (\<lambda>(sid, x). sale_due now s x \<and> (case only of None \<Rightarrow> True | Some w \<Rightarrow> sid = w)) (mk_sales s)))"

fun each :: "('a \<Rightarrow> 'b handler) \<Rightarrow> 'a list \<Rightarrow> 'b list handler" where
  "each f [] = areturn []"
| "each f (x # xs) = abind (transact (f x)) (\<lambda>y. abind (each f xs) (\<lambda>ys. areturn (y # ys)))"

definition closeDueItemListings :: "int \<Rightarrow> (string \<Rightarrow> int) \<Rightarrow> (string \<Rightarrow> string) \<Rightarrow> nat \<Rightarrow> string option \<Rightarrow> job_outcome list handler" where
  "closeDueItemListings now clock newId limit only =
     abind (aget (due_listings now limit only)) (each (\<lambda>lid. closeListing (clock lid) (newId lid) lid))"

definition settleItemSales :: "int \<Rightarrow> (string \<Rightarrow> int) \<Rightarrow> nat \<Rightarrow> string option \<Rightarrow> job_outcome list handler" where
  "settleItemSales now clock limit only =
     abind (aget (due_sales now limit only)) (each (\<lambda>sid. settleSale (clock sid) sid))"

end
