(* ===== verification/Item_Ledger.thy ===== *)
theory Item_Ledger
  imports Items
begin

text \<open>
  The ledger of item auctions and its invariant: what each listing's and each sale's state says about
  the transactions posted for it and about the balance of its holding account. \<open>listing_row\<close> and
  \<open>sale_row\<close> say it of one row; the lemmas at the end show, for each way the handlers change rows and
  ledger together, that the invariant is kept.
\<close>

section \<open>Accounts and keys\<close>

lemma accounts_distinct [simp]:
  "wallet a = wallet b \<longleftrightarrow> a = b" "collateral_account a = collateral_account b \<longleftrightarrow> a = b" "escrow_account a = escrow_account b \<longleftrightarrow> a = b"
  "wallet a \<noteq> collateral_account b" "collateral_account b \<noteq> wallet a" "wallet a \<noteq> escrow_account b" "escrow_account b \<noteq> wallet a"
  "collateral_account a \<noteq> escrow_account b" "escrow_account b \<noteq> collateral_account a"
  by (simp_all add: wallet_def collateral_account_def escrow_account_def)

lemma keys_inj [simp]:
  "lock_key a = lock_key b \<longleftrightarrow> a = b" "release_key a = release_key b \<longleftrightarrow> a = b" "pay_key a = pay_key b \<longleftrightarrow> a = b"
  "payout_key a = payout_key b \<longleftrightarrow> a = b" "refund_key a = refund_key b \<longleftrightarrow> a = b"
  by (simp_all add: lock_key_def release_key_def pay_key_def payout_key_def refund_key_def)

lemma keys_distinct [simp]:
  "lock_key a \<noteq> release_key b" "lock_key a \<noteq> pay_key b" "lock_key a \<noteq> payout_key b" "lock_key a \<noteq> refund_key b"
  "release_key a \<noteq> lock_key b" "release_key a \<noteq> pay_key b" "release_key a \<noteq> payout_key b" "release_key a \<noteq> refund_key b"
  "pay_key a \<noteq> lock_key b" "pay_key a \<noteq> release_key b" "pay_key a \<noteq> payout_key b" "pay_key a \<noteq> refund_key b"
  "payout_key a \<noteq> lock_key b" "payout_key a \<noteq> release_key b" "payout_key a \<noteq> pay_key b" "payout_key a \<noteq> refund_key b"
  "refund_key a \<noteq> lock_key b" "refund_key a \<noteq> release_key b" "refund_key a \<noteq> pay_key b" "refund_key a \<noteq> payout_key b"
  by (simp_all add: lock_key_def release_key_def pay_key_def payout_key_def refund_key_def)

definition moves :: "string \<Rightarrow> string \<Rightarrow> string \<Rightarrow> int \<Rightarrow> ledger_transaction" where
  "moves kind source target amount = \<lparr>lt_kind = kind,
     lt_entries = filter (\<lambda>(_, n). n \<noteq> 0) [(source, - amount), (target, amount)]\<rparr>"

definition amount_on :: "string \<Rightarrow> ledger_transaction \<Rightarrow> int" where
  "amount_on account t = sum_list (map snd (filter (\<lambda>(a, _). a = account) (lt_entries t)))"

definition balance :: "market \<Rightarrow> string \<Rightarrow> int" where
  "balance s account = mtotal (amount_on account) (mk_ledger s)"

lemma amount_on_moves [simp]:
  "amount_on account (moves kind source target amount) = (if account = target then amount else 0) - (if account = source then amount else 0)"
  by (simp add: amount_on_def moves_def)

text \<open>The five transactions of the two escrows.\<close>

definition lock_tx :: "string \<Rightarrow> listing \<Rightarrow> ledger_transaction" where
  "lock_tx lid l = moves ''ITEM_COLLATERAL_LOCKED'' (wallet (li_seller l)) (collateral_account lid) (li_collateral l)"

definition release_tx :: "string \<Rightarrow> listing \<Rightarrow> string \<Rightarrow> ledger_transaction" where
  "release_tx lid l recipient = moves ''ITEM_COLLATERAL_RELEASED'' (collateral_account lid) (wallet recipient) (li_collateral l)"

definition pay_tx :: "string \<Rightarrow> sale \<Rightarrow> ledger_transaction" where
  "pay_tx sid x = moves ''ITEM_PAYMENT_LOCKED'' (wallet (sl_buyer x)) (escrow_account sid) (sl_price x)"

definition payout_tx :: "string \<Rightarrow> sale \<Rightarrow> ledger_transaction" where
  "payout_tx sid x = moves ''ITEM_PAYMENT_RELEASED'' (escrow_account sid) (wallet (sl_seller x)) (sl_price x)"

definition refund_tx :: "string \<Rightarrow> sale \<Rightarrow> ledger_transaction" where
  "refund_tx sid x = moves ''ITEM_PAYMENT_REFUNDED'' (escrow_account sid) (wallet (sl_buyer x)) (sl_price x)"

section \<open>The invariant\<close>

definition held :: "sale_status set" where
  "held = {AWAITING_DELIVERY, DELIVERED, DISPUTED}"

definition settled :: "sale_status set" where
  "settled = {COMPLETED, PAYMENT_EXPIRED, SELLER_DEFAULTED, REFUNDED}"

text \<open>Who gets the collateral when a sale settles.\<close>

definition collateral_to :: "sale \<Rightarrow> string" where
  "collateral_to x = (if sl_status x = SELLER_DEFAULTED then sl_buyer x else sl_seller x)"

fun listing_row :: "market \<Rightarrow> string \<Rightarrow> listing option \<Rightarrow> bool" where
  "listing_row s lid None \<longleftrightarrow> mget (mk_ledger s) (lock_key lid) = None \<and> mget (mk_ledger s) (release_key lid) = None
     \<and> balance s (collateral_account lid) = 0"
| "listing_row s lid (Some l) \<longleftrightarrow> listing_check l
     \<and> (case li_status l of
          AWAITING_COLLATERAL \<Rightarrow> li_postedAt l = None \<and> li_releasedAt l = None \<and> li_bidCount l = 0
        | OPEN \<Rightarrow> li_postedAt l \<noteq> None \<and> li_releasedAt l = None
        | SOLD \<Rightarrow> li_postedAt l \<noteq> None
        | NO_BIDS \<Rightarrow> li_postedAt l \<noteq> None \<and> li_releasedAt l \<noteq> None
        | CANCELLED \<Rightarrow> li_postedAt l = None \<longleftrightarrow> li_releasedAt l = None)
     \<and> mget (mk_ledger s) (lock_key lid) = (if li_postedAt l = None then None else Some (lock_tx lid l))
     \<and> (mget (mk_ledger s) (release_key lid) = None \<longleftrightarrow> li_releasedAt l = None)
     \<and> (li_status l \<noteq> SOLD \<and> li_releasedAt l \<noteq> None \<longrightarrow> mget (mk_ledger s) (release_key lid) = Some (release_tx lid l (li_seller l)))
     \<and> balance s (collateral_account lid) = (if li_postedAt l \<noteq> None \<and> li_releasedAt l = None then li_collateral l else 0)
     \<and> (li_firstBidAt l = None \<longleftrightarrow> li_bidCount l = 0) \<and> (li_currentBid l = None \<longleftrightarrow> li_bidCount l = 0)"

fun sale_row :: "market \<Rightarrow> string \<Rightarrow> sale option \<Rightarrow> bool" where
  "sale_row s sid None \<longleftrightarrow> mget (mk_ledger s) (pay_key sid) = None \<and> mget (mk_ledger s) (payout_key sid) = None
     \<and> mget (mk_ledger s) (refund_key sid) = None \<and> balance s (escrow_account sid) = 0"
| "sale_row s sid (Some x) \<longleftrightarrow> sale_check x
     \<and> mget (mk_ledger s) (pay_key sid) = (if sl_status x \<in> {AWAITING_PAYMENT, PAYMENT_EXPIRED} then None else Some (pay_tx sid x))
     \<and> mget (mk_ledger s) (payout_key sid) = (if sl_status x = COMPLETED then Some (payout_tx sid x) else None)
     \<and> mget (mk_ledger s) (refund_key sid) = (if sl_status x \<in> {SELLER_DEFAULTED, REFUNDED} then Some (refund_tx sid x) else None)
     \<and> balance s (escrow_account sid) = (if sl_status x \<in> held then sl_price x else 0)
     \<and> (\<exists>l. mget (mk_listings s) (sl_listing x) = Some l \<and> li_status l = SOLD \<and> li_seller l = sl_seller x \<and> li_collateral l = sl_collateral x
          \<and> mget (mk_ledger s) (release_key (sl_listing x))
            = (if sl_status x \<in> settled then Some (release_tx (sl_listing x) l (collateral_to x)) else None))"

definition one_sale :: "market \<Rightarrow> bool" where
  "one_sale s \<longleftrightarrow> (\<forall>sid sid' x y. mget (mk_sales s) sid = Some x \<longrightarrow> mget (mk_sales s) sid' = Some y \<longrightarrow> sl_listing x = sl_listing y \<longrightarrow> sid' = sid)
     \<and> (\<forall>lid l. mget (mk_listings s) lid = Some l \<longrightarrow> li_status l = SOLD \<longrightarrow> (\<exists>sid x. mget (mk_sales s) sid = Some x \<and> sl_listing x = lid))"

definition bid_row :: "market \<Rightarrow> bid \<Rightarrow> bool" where
  "bid_row s b \<longleftrightarrow> 0 < bi_amount b \<and> (\<exists>l c. mget (mk_listings s) (bi_listing b) = Some l \<and> bi_bidder b \<noteq> li_seller l
     \<and> bi_sequence b \<le> li_bidCount l \<and> Option.bind (li_currentBid l) (mget (mk_bids s)) = Some c \<and> bi_amount b \<le> bi_amount c)"

definition current_bids :: "market \<Rightarrow> bool" where
  "current_bids s \<longleftrightarrow> (\<forall>lid l i. mget (mk_listings s) lid = Some l \<longrightarrow> li_currentBid l = Some i \<longrightarrow>
     (\<exists>b. mget (mk_bids s) i = Some b \<and> bi_listing b = lid))"

definition market_inv :: "market \<Rightarrow> bool" where
  "market_inv s \<longleftrightarrow> mok (mk_listings s) \<and> mok (mk_bids s) \<and> mok (mk_sales s) \<and> mok (mk_ledger s)
     \<and> (\<forall>lid. listing_row s lid (mget (mk_listings s) lid))
     \<and> (\<forall>sid. sale_row s sid (mget (mk_sales s) sid))
     \<and> one_sale s
     \<and> (\<forall>i b. mget (mk_bids s) i = Some b \<longrightarrow> bid_row s b) \<and> current_bids s"

section \<open>Changes of state\<close>

definition put_listing :: "string \<Rightarrow> listing \<Rightarrow> market \<Rightarrow> market" where
  "put_listing lid l s = s\<lparr>mk_listings := mput lid l (mk_listings s)\<rparr>"

definition put_sale :: "string \<Rightarrow> sale \<Rightarrow> market \<Rightarrow> market" where
  "put_sale sid x s = s\<lparr>mk_sales := mput sid x (mk_sales s)\<rparr>"

definition put_bid :: "string \<Rightarrow> bid \<Rightarrow> market \<Rightarrow> market" where
  "put_bid i b s = s\<lparr>mk_bids := mput i b (mk_bids s)\<rparr>"

definition put_tx :: "string \<Rightarrow> ledger_transaction \<Rightarrow> market \<Rightarrow> market" where
  "put_tx key t s = s\<lparr>mk_ledger := mput key t (mk_ledger s)\<rparr>"

lemma put_simps [simp]:
  "mk_listings (put_listing lid l s) = mput lid l (mk_listings s)" "mk_sales (put_listing lid l s) = mk_sales s"
  "mk_bids (put_listing lid l s) = mk_bids s" "mk_ledger (put_listing lid l s) = mk_ledger s"
  "mk_sales (put_sale sid x s) = mput sid x (mk_sales s)" "mk_listings (put_sale sid x s) = mk_listings s"
  "mk_bids (put_sale sid x s) = mk_bids s" "mk_ledger (put_sale sid x s) = mk_ledger s"
  "mk_bids (put_bid i b s) = mput i b (mk_bids s)" "mk_listings (put_bid i b s) = mk_listings s"
  "mk_sales (put_bid i b s) = mk_sales s" "mk_ledger (put_bid i b s) = mk_ledger s"
  "mk_ledger (put_tx key t s) = mput key t (mk_ledger s)" "mk_listings (put_tx key t s) = mk_listings s"
  "mk_sales (put_tx key t s) = mk_sales s" "mk_bids (put_tx key t s) = mk_bids s"
  by (simp_all add: put_listing_def put_sale_def put_bid_def put_tx_def)

lemma balance_put [simp]:
  "balance (put_listing lid l s) a = balance s a" "balance (put_sale sid x s) a = balance s a" "balance (put_bid i b s) a = balance s a"
  by (simp_all add: balance_def)

lemma balance_put_tx:
  "mok (mk_ledger s) \<Longrightarrow> mget (mk_ledger s) key = None \<Longrightarrow> balance (put_tx key t s) a = balance s a + amount_on a t"
  by (simp add: balance_def mtotal_mput)

section \<open>Reading the invariant\<close>

lemma inv_listing: "market_inv s \<Longrightarrow> mget (mk_listings s) lid = Some l \<Longrightarrow> listing_row s lid (Some l)"
  by (auto simp: market_inv_def dest: spec [of _ lid])

lemma inv_sale: "market_inv s \<Longrightarrow> mget (mk_sales s) sid = Some x \<Longrightarrow> sale_row s sid (Some x)"
  unfolding market_inv_def by metis

lemma inv_sale_listing:
  assumes "market_inv s" "mget (mk_sales s) sid = Some x" "mget (mk_listings s) (sl_listing x) = Some l"
  shows "li_status l = SOLD" "li_seller l = sl_seller x" "li_collateral l = sl_collateral x"
    "mget (mk_ledger s) (release_key (sl_listing x)) = (if sl_status x \<in> settled then Some (release_tx (sl_listing x) l (collateral_to x)) else None)"
  using inv_sale [OF assms(1,2)] assms(3) by auto

lemma inv_maps: "market_inv s \<Longrightarrow> mok (mk_listings s) \<and> mok (mk_bids s) \<and> mok (mk_sales s) \<and> mok (mk_ledger s)"
  by (simp add: market_inv_def)

lemma inv_bid_row: "market_inv s \<Longrightarrow> mget (mk_bids s) i = Some b \<Longrightarrow> bid_row s b"
  by (simp add: market_inv_def)

lemma inv_one_sale: "market_inv s \<Longrightarrow> one_sale s"
  by (simp add: market_inv_def)

lemma one_sale_unique:
  "one_sale s \<Longrightarrow> mget (mk_sales s) a = Some y \<Longrightarrow> mget (mk_sales s) b = Some z \<Longrightarrow> sl_listing y = sl_listing z \<Longrightarrow> b = a"
  unfolding one_sale_def by metis

lemma one_sale_exists:
  assumes "one_sale s" "mget (mk_listings s) lid = Some l" "li_status l = SOLD"
  obtains sid x where "mget (mk_sales s) sid = Some x" "sl_listing x = lid"
  using assms unfolding one_sale_def by metis

lemma current_bid_exists:
  assumes "current_bids s" "mget (mk_listings s) lid = Some l" "li_currentBid l = Some i"
  obtains b where "mget (mk_bids s) i = Some b" "bi_listing b = lid"
  using assms unfolding current_bids_def by metis

lemma market_invI:
  assumes "mok (mk_listings s) \<and> mok (mk_bids s) \<and> mok (mk_sales s)" "mok (mk_ledger s)"
    "\<And>lid. listing_row s lid (mget (mk_listings s) lid)" "\<And>sid. sale_row s sid (mget (mk_sales s) sid)"
    "one_sale s" "\<And>i b. mget (mk_bids s) i = Some b \<Longrightarrow> bid_row s b" "current_bids s"
  shows "market_inv s"
  unfolding market_inv_def using assms by simp

text \<open>Rows that a change does not concern.\<close>

lemma listing_row_cong:
  assumes "mget (mk_ledger t) (lock_key lid) = mget (mk_ledger s) (lock_key lid)"
    "mget (mk_ledger t) (release_key lid) = mget (mk_ledger s) (release_key lid)"
    "balance t (collateral_account lid) = balance s (collateral_account lid)"
  shows "listing_row t lid r = listing_row s lid r"
  using assms by (cases r) simp_all

lemma sale_row_cong:
  assumes "mget (mk_ledger t) (pay_key sid) = mget (mk_ledger s) (pay_key sid)"
    "mget (mk_ledger t) (payout_key sid) = mget (mk_ledger s) (payout_key sid)"
    "mget (mk_ledger t) (refund_key sid) = mget (mk_ledger s) (refund_key sid)"
    "balance t (escrow_account sid) = balance s (escrow_account sid)"
    "\<And>x. r = Some x \<Longrightarrow> mget (mk_listings t) (sl_listing x) = mget (mk_listings s) (sl_listing x)
      \<and> mget (mk_ledger t) (release_key (sl_listing x)) = mget (mk_ledger s) (release_key (sl_listing x))"
  shows "sale_row t sid r = sale_row s sid r"
  using assms by (cases r) simp_all

lemma current_bids_put:
  assumes "current_bids s" "mk_listings t = mput lid l (mk_listings s)" "mk_bids t = mk_bids s"
    and same: "li_currentBid l = (case mget (mk_listings s) lid of None \<Rightarrow> None | Some old \<Rightarrow> li_currentBid old)"
  shows "current_bids t"
  unfolding current_bids_def
proof (intro allI impI)
  fix lid' m i
  assume m: "mget (mk_listings t) lid' = Some m" "li_currentBid m = Some i"
  show "\<exists>b. mget (mk_bids t) i = Some b \<and> bi_listing b = lid'"
  proof (cases "lid' = lid")
    case True
    with m assms(2) same obtain old where "mget (mk_listings s) lid = Some old" "li_currentBid old = Some i"
      by (auto split: option.splits)
    with assms(1,3) True show ?thesis unfolding current_bids_def by metis
  next
    case False
    with m assms(2) have "mget (mk_listings s) lid' = Some m" by simp
    with m(2) assms(1,3) show ?thesis unfolding current_bids_def by metis
  qed
qed

text \<open>A change of one listing that is not sold, before and after, with what it posts.\<close>

lemma listing_change:
  assumes inv: "market_inv s"
    and t: "mk_listings t = mput lid l (mk_listings s)" "mk_sales t = mk_sales s" "mk_bids t = mk_bids s" "mok (mk_ledger t)"
    and open_before: "\<And>old. mget (mk_listings s) lid = Some old \<Longrightarrow> li_status old \<noteq> SOLD \<and> li_seller l = li_seller old
        \<and> li_currentBid l = li_currentBid old \<and> li_bidCount l = li_bidCount old"
    and fresh: "mget (mk_listings s) lid = None \<Longrightarrow> li_currentBid l = None"
    and unsold: "li_status l \<noteq> SOLD"
    and row: "listing_row t lid (Some l)"
    and others: "\<And>lid'. lid' \<noteq> lid \<Longrightarrow> mget (mk_ledger t) (lock_key lid') = mget (mk_ledger s) (lock_key lid')
        \<and> mget (mk_ledger t) (release_key lid') = mget (mk_ledger s) (release_key lid')
        \<and> balance t (collateral_account lid') = balance s (collateral_account lid')"
    and sales: "\<And>sid. mget (mk_ledger t) (pay_key sid) = mget (mk_ledger s) (pay_key sid)
        \<and> mget (mk_ledger t) (payout_key sid) = mget (mk_ledger s) (payout_key sid)
        \<and> mget (mk_ledger t) (refund_key sid) = mget (mk_ledger s) (refund_key sid)
        \<and> balance t (escrow_account sid) = balance s (escrow_account sid)"
  shows "market_inv t"
proof -
  have not_sold: "sl_listing x \<noteq> lid" if "mget (mk_sales s) sid = Some x" for sid x
    using inv_sale [OF inv that] open_before by auto
  have rows: "listing_row t lid' (mget (mk_listings t) lid')" for lid'
    using row others [of lid'] inv listing_row_cong [of t lid' s]
    by (cases "lid' = lid") (simp_all add: t market_inv_def)
  have sale_rows: "sale_row t sid (mget (mk_sales t) sid)" for sid
  proof -
    have "sale_row t sid (mget (mk_sales s) sid) = sale_row s sid (mget (mk_sales s) sid)"
      using sales [of sid] others not_sold by (intro sale_row_cong) (auto simp: t)
    then show ?thesis using inv by (simp add: t market_inv_def)
  qed
  have one: "one_sale t"
    using inv_one_sale [OF inv] unsold by (simp add: one_sale_def t)
  have bids: "bid_row t b" if b: "mget (mk_bids t) i = Some b" for i b
  proof -
    have "bid_row s b" using inv_bid_row [OF inv] b by (simp add: t)
    then show ?thesis using open_before fresh by (cases "bi_listing b = lid") (auto simp: bid_row_def t)
  qed
  have "current_bids s" using inv by (simp add: market_inv_def)
  then have "current_bids t"
    using open_before fresh by (intro current_bids_put [OF _ t(1,3)]) (auto split: option.splits)
  from market_invI [OF _ t(4) rows sale_rows one bids this] show ?thesis
    using inv_maps [OF inv] by (simp add: t)
qed

text \<open>A change of one sale and its listing.\<close>

lemma sale_change:
  assumes inv: "market_inv s"
    and sold: "mget (mk_sales s) sid = Some x" "mget (mk_listings s) (sl_listing x) = Some l"
    and t: "mk_listings t = mput (sl_listing x) l' (mk_listings s)" "mk_sales t = mput sid x' (mk_sales s)" "mk_bids t = mk_bids s"
      "mok (mk_ledger t)"
    and l': "li_status l' = SOLD" "li_seller l' = li_seller l" "li_currentBid l' = li_currentBid l" "li_bidCount l' = li_bidCount l"
    and x': "sl_listing x' = sl_listing x"
    and rows: "listing_row t (sl_listing x) (Some l')" "sale_row t sid (Some x')"
    and others: "\<And>lid'. lid' \<noteq> sl_listing x \<Longrightarrow> mget (mk_ledger t) (lock_key lid') = mget (mk_ledger s) (lock_key lid')
        \<and> mget (mk_ledger t) (release_key lid') = mget (mk_ledger s) (release_key lid')
        \<and> balance t (collateral_account lid') = balance s (collateral_account lid')"
    and other_sales: "\<And>sid'. sid' \<noteq> sid \<Longrightarrow> mget (mk_ledger t) (pay_key sid') = mget (mk_ledger s) (pay_key sid')
        \<and> mget (mk_ledger t) (payout_key sid') = mget (mk_ledger s) (payout_key sid')
        \<and> mget (mk_ledger t) (refund_key sid') = mget (mk_ledger s) (refund_key sid')
        \<and> balance t (escrow_account sid') = balance s (escrow_account sid')"
  shows "market_inv t"
proof -
  have unique: "sid' = sid" if "mget (mk_sales s) sid' = Some y" "sl_listing y = sl_listing x" for sid' y
    by (rule one_sale_unique [OF inv_one_sale [OF inv] sold(1) that(1)]) (simp add: that(2))
  have listing_rows: "listing_row t lid' (mget (mk_listings t) lid')" for lid'
    using rows(1) others [of lid'] inv listing_row_cong [of t lid' s]
    by (cases "lid' = sl_listing x") (simp_all add: t market_inv_def)
  have sale_rows: "sale_row t sid' (mget (mk_sales t) sid')" for sid'
  proof (cases "sid' = sid")
    case True
    then show ?thesis using rows(2) by (simp add: t)
  next
    case False
    then have "sale_row t sid' (mget (mk_sales s) sid') = sale_row s sid' (mget (mk_sales s) sid')"
      using other_sales [OF False] others unique by (intro sale_row_cong) (auto simp: t)
    then show ?thesis using inv False by (simp add: t market_inv_def)
  qed
  have one: "one_sale t"
    unfolding one_sale_def
  proof (intro conjI allI impI)
    have before: "\<exists>y0. mget (mk_sales s) a = Some y0 \<and> sl_listing y0 = sl_listing y" if "mget (mk_sales t) a = Some y" for a y
      using that sold(1) x' by (cases "a = sid") (auto simp: t)
    show "b = a" if y: "mget (mk_sales t) a = Some y" and z: "mget (mk_sales t) b = Some z" and eq: "sl_listing y = sl_listing z" for a b y z
    proof -
      obtain y0 z0 where "mget (mk_sales s) a = Some y0" "mget (mk_sales s) b = Some z0" "sl_listing y0 = sl_listing z0"
        using before [OF y] before [OF z] eq by auto
      then show ?thesis by (rule one_sale_unique [OF inv_one_sale [OF inv]])
    qed
    show "\<exists>b y. mget (mk_sales t) b = Some y \<and> sl_listing y = lid'" if m: "mget (mk_listings t) lid' = Some m" "li_status m = SOLD" for lid' m
    proof (cases "lid' = sl_listing x")
      case True
      then show ?thesis by (intro exI [of _ sid] exI [of _ x']) (simp add: t x')
    next
      case False
      with m have "mget (mk_listings s) lid' = Some m" by (simp add: t)
      then obtain b y where y: "mget (mk_sales s) b = Some y" "sl_listing y = lid'"
        using one_sale_exists [OF inv_one_sale [OF inv] _ m(2)] by blast
      with False sold(1) have "b \<noteq> sid" by auto
      with y show ?thesis by (auto simp: t)
    qed
  qed
  have bids: "bid_row t b" if b: "mget (mk_bids t) i = Some b" for i b
  proof -
    have "bid_row s b" using inv_bid_row [OF inv] b by (simp add: t)
    then show ?thesis using sold(2) l' by (cases "bi_listing b = sl_listing x") (auto simp: bid_row_def t)
  qed
  have "current_bids s" using inv by (simp add: market_inv_def)
  then have "current_bids t" using sold(2) l' by (intro current_bids_put [OF _ t(1,3)]) simp_all
  from market_invI [OF _ t(4) listing_rows sale_rows one bids this] show ?thesis
    using inv_maps [OF inv] by (simp add: t(1,2,3))
qed

end
