(* ===== verification/Item_Changes.thy ===== *)
theory Item_Changes
  imports Item_Ledger
begin

text \<open>
  The ways in which the handlers of item auctions change the state, each with the lemma that the change
  keeps the invariant of \<open>Item_Ledger\<close>: a listing created, opened, dropped, returned, bid on or sold, and
  a sale paid, moved on or settled.
\<close>

section \<open>Rows that pass their checks\<close>

lemma listing_check_bump [simp]: "listing_check (bump l) = listing_check l"
  by (simp add: bump_def listing_check_def cong: option.case_cong)

lemma sale_check_bump [simp]: "sale_check (bump_sale x) = sale_check x"
  by (simp add: bump_sale_def sale_check_def)

lemma bump_simps [simp]:
  "li_status (bump l) = li_status l" "li_seller (bump l) = li_seller l" "li_currentBid (bump l) = li_currentBid l"
  "li_bidCount (bump l) = li_bidCount l" "li_postedAt (bump l) = li_postedAt l" "li_releasedAt (bump l) = li_releasedAt l"
  "li_firstBidAt (bump l) = li_firstBidAt l" "li_collateral (bump l) = li_collateral l" "li_terms (bump l) = li_terms l"
  "li_starting (bump l) = li_starting l" "li_increment (bump l) = li_increment l" "li_buyNow (bump l) = li_buyNow l"
  "li_endsAt (bump l) = li_endsAt l" "li_deliveryDue (bump l) = li_deliveryDue l"
  by (simp_all add: bump_def)

lemma bump_sale_simps [simp]:
  "sl_status (bump_sale x) = sl_status x" "sl_listing (bump_sale x) = sl_listing x" "sl_buyer (bump_sale x) = sl_buyer x"
  "sl_seller (bump_sale x) = sl_seller x" "sl_price (bump_sale x) = sl_price x" "sl_collateral (bump_sale x) = sl_collateral x"
  "sl_kind (bump_sale x) = sl_kind x"
  by (simp_all add: bump_sale_def)

lemma listing_check_updates:
  assumes "listing_check l"
  shows "li_postedAt l \<noteq> None \<or> st = CANCELLED \<Longrightarrow> listing_check (l\<lparr>li_status := st, li_closedAt := c\<rparr>)"
    "length r \<le> 500 \<Longrightarrow> listing_check (l\<lparr>li_status := CANCELLED, li_cancelReason := Some r, li_closedAt := c\<rparr>)"
    "listing_check (l\<lparr>li_status := CANCELLED, li_cancelReason := None, li_closedAt := c\<rparr>)"
    "listing_check (l\<lparr>li_status := OPEN, li_postedAt := Some now\<rparr>)"
    "listing_check (l\<lparr>li_releasedAt := Some now\<rparr>)" "listing_check (l\<lparr>li_images := im\<rparr>)"
    "listing_check (l\<lparr>li_currentBid := b, li_bidCount := n, li_firstBidAt := f\<rparr>)"
  using assms by (auto simp: listing_check_def split: option.splits)

lemma listing_tx_update [simp]:
  "lock_tx lid (bump l) = lock_tx lid l" "release_tx lid (bump l) r = release_tx lid l r"
  "lock_tx lid (l\<lparr>li_status := st\<rparr>) = lock_tx lid l" "release_tx lid (l\<lparr>li_status := st\<rparr>) r = release_tx lid l r"
  "lock_tx lid (l\<lparr>li_closedAt := c\<rparr>) = lock_tx lid l" "release_tx lid (l\<lparr>li_closedAt := c\<rparr>) r = release_tx lid l r"
  "lock_tx lid (l\<lparr>li_cancelReason := c'\<rparr>) = lock_tx lid l" "release_tx lid (l\<lparr>li_cancelReason := c'\<rparr>) r = release_tx lid l r"
  "lock_tx lid (l\<lparr>li_releasedAt := c\<rparr>) = lock_tx lid l" "release_tx lid (l\<lparr>li_releasedAt := c\<rparr>) r = release_tx lid l r"
  "lock_tx lid (l\<lparr>li_postedAt := c\<rparr>) = lock_tx lid l" "release_tx lid (l\<lparr>li_postedAt := c\<rparr>) r = release_tx lid l r"
  "lock_tx lid (l\<lparr>li_images := im\<rparr>) = lock_tx lid l" "release_tx lid (l\<lparr>li_images := im\<rparr>) r = release_tx lid l r"
  "lock_tx lid (l\<lparr>li_currentBid := b\<rparr>) = lock_tx lid l" "release_tx lid (l\<lparr>li_currentBid := b\<rparr>) r = release_tx lid l r"
  "lock_tx lid (l\<lparr>li_bidCount := n\<rparr>) = lock_tx lid l" "release_tx lid (l\<lparr>li_bidCount := n\<rparr>) r = release_tx lid l r"
  "lock_tx lid (l\<lparr>li_firstBidAt := c\<rparr>) = lock_tx lid l" "release_tx lid (l\<lparr>li_firstBidAt := c\<rparr>) r = release_tx lid l r"
  by (simp_all add: lock_tx_def release_tx_def bump_def)

lemma listing_txs:
  "amount_on a (lock_tx lid l) = (if a = collateral_account lid then li_collateral l else 0) - (if a = wallet (li_seller l) then li_collateral l else 0)"
  "amount_on a (release_tx lid l r) = (if a = wallet r then li_collateral l else 0) - (if a = collateral_account lid then li_collateral l else 0)"
  by (simp_all add: lock_tx_def release_tx_def)

lemma sale_txs:
  "amount_on a (pay_tx sid x) = (if a = escrow_account sid then sl_price x else 0) - (if a = wallet (sl_buyer x) then sl_price x else 0)"
  "amount_on a (payout_tx sid x) = (if a = wallet (sl_seller x) then sl_price x else 0) - (if a = escrow_account sid then sl_price x else 0)"
  "amount_on a (refund_tx sid x) = (if a = wallet (sl_buyer x) then sl_price x else 0) - (if a = escrow_account sid then sl_price x else 0)"
  by (simp_all add: pay_tx_def payout_tx_def refund_tx_def)

section \<open>Changes of a listing\<close>

lemma listing_created:
  assumes inv: "market_inv s" and "mget (mk_listings s) lid = None" and l: "listing_check l" "li_status l = AWAITING_COLLATERAL"
    "li_postedAt l = None" "li_releasedAt l = None" "li_bidCount l = 0" "li_currentBid l = None" "li_firstBidAt l = None"
  shows "market_inv (put_listing lid l s)"
proof (rule listing_change [OF inv])
  have "listing_row s lid None" using inv assms(2) unfolding market_inv_def by metis
  then show "listing_row (put_listing lid l s) lid (Some l)" using l by simp
qed (use assms inv_maps [OF inv] in auto)

lemma listing_touched:
  assumes inv: "market_inv s" and l: "mget (mk_listings s) lid = Some l" "li_status l \<noteq> SOLD"
  shows "market_inv (put_listing lid (l\<lparr>li_images := im\<rparr>) s)"
proof (rule listing_change [OF inv])
  show "listing_row (put_listing lid (l\<lparr>li_images := im\<rparr>) s) lid (Some (l\<lparr>li_images := im\<rparr>))"
    using inv_listing [OF inv l(1)] by (simp add: listing_check_updates cong: listing_status.case_cong)
qed (use l inv_maps [OF inv] in auto)

lemma listing_opened:
  assumes inv: "market_inv s" and l: "mget (mk_listings s) lid = Some l" "li_status l = AWAITING_COLLATERAL"
  shows "mget (mk_ledger s) (lock_key lid) = None"
    "market_inv (put_listing lid (bump (l\<lparr>li_status := OPEN, li_postedAt := Some now\<rparr>)) (put_tx (lock_key lid) (lock_tx lid l) s))"
proof -
  have row: "listing_row s lid (Some l)" by (rule inv_listing [OF inv l(1)])
  show none: "mget (mk_ledger s) (lock_key lid) = None" using row l(2) by simp
  note bal = balance_put_tx [OF _ none] listing_txs
  show "market_inv (put_listing lid (bump (l\<lparr>li_status := OPEN, li_postedAt := Some now\<rparr>)) (put_tx (lock_key lid) (lock_tx lid l) s))"
    by (rule listing_change [OF inv]) (use row l inv_maps [OF inv] in \<open>auto simp: listing_check_updates bal\<close>)
qed

lemma listing_dropped:
  assumes inv: "market_inv s" and l: "mget (mk_listings s) lid = Some l" "li_status l = AWAITING_COLLATERAL"
    and l': "listing_check l'" "l' = bump (l\<lparr>li_status := CANCELLED, li_cancelReason := r, li_closedAt := c\<rparr>)"
  shows "market_inv (put_listing lid l' s)"
proof (rule listing_change [OF inv])
  show "listing_row (put_listing lid l' s) lid (Some l')"
    using inv_listing [OF inv l(1)] l(2) l'(1) unfolding l'(2) by simp
qed (use l inv_maps [OF inv] in \<open>auto simp: l'(2)\<close>)

lemma listing_returned:
  assumes inv: "market_inv s" and l: "mget (mk_listings s) lid = Some l" "li_status l = OPEN"
    and st: "st \<in> {CANCELLED, NO_BIDS}" "listing_check l'" "l' = (bump (l\<lparr>li_status := st, li_cancelReason := r, li_closedAt := c\<rparr>))\<lparr>li_releasedAt := Some now\<rparr>"
  shows "mget (mk_ledger s) (release_key lid) = None"
    "market_inv (put_listing lid l' (put_tx (release_key lid) (release_tx lid l (li_seller l)) s))"
proof -
  have row: "listing_row s lid (Some l)" by (rule inv_listing [OF inv l(1)])
  show none: "mget (mk_ledger s) (release_key lid) = None" using row l(2) by simp
  note bal = balance_put_tx [OF _ none] listing_txs
  show "market_inv (put_listing lid l' (put_tx (release_key lid) (release_tx lid l (li_seller l)) s))"
  proof (rule listing_change [OF inv])
    show "listing_row (put_listing lid l' (put_tx (release_key lid) (release_tx lid l (li_seller l)) s)) lid (Some l')"
      using row l st inv_maps [OF inv] by (auto simp: bal)
  qed (use row l st inv_maps [OF inv] in \<open>auto simp: bal\<close>)
qed

section \<open>Bids and sales\<close>

definition best :: "market \<Rightarrow> listing \<Rightarrow> bid option" where
  "best s l = Option.bind (li_currentBid l) (mget (mk_bids s))"

text \<open>The bid a listing points to is there, and no bid of the listing is higher.\<close>

lemma best_bid:
  assumes inv: "market_inv s" and l: "mget (mk_listings s) lid = Some l" "li_currentBid l = Some i"
  obtains b where "mget (mk_bids s) i = Some b" "bi_listing b = lid" "bi_bidder b \<noteq> li_seller l" "0 < bi_amount b"
proof -
  have "current_bids s" using inv by (simp add: market_inv_def)
  then obtain b where b: "mget (mk_bids s) i = Some b" "bi_listing b = lid"
    by (rule current_bid_exists [OF _ l])
  with inv_bid_row [OF inv b(1)] l that show ?thesis by (auto simp: bid_row_def)
qed

lemma bid_placed:
  assumes inv: "market_inv s" and l: "mget (mk_listings s) lid = Some l" "li_status l = OPEN"
    and i: "mget (mk_bids s) i = None"
    and b: "bi_listing b = lid" "bi_bidder b \<noteq> li_seller l" "bi_sequence b = li_bidCount l + 1" "0 < bi_amount b"
    and higher: "\<And>c. best s l = Some c \<Longrightarrow> bi_amount c \<le> bi_amount b"
    and l': "l' = bump (l\<lparr>li_currentBid := Some i, li_bidCount := li_bidCount l + 1, li_firstBidAt := Some f\<rparr>)"
  shows "market_inv (put_listing lid l' (put_bid i b s))" (is "market_inv ?t")
proof (rule market_invI)
  have maps: "mok (mk_listings s)" "mok (mk_bids s)" "mok (mk_sales s)" "mok (mk_ledger s)" using inv_maps [OF inv] by auto
  then show "mok (mk_listings ?t) \<and> mok (mk_bids ?t) \<and> mok (mk_sales ?t)" "mok (mk_ledger ?t)" by auto
  have row: "listing_row s lid (Some l)" by (rule inv_listing [OF inv l(1)])
  have same: "listing_row ?t lid' r = listing_row s lid' r" for lid' r by (rule listing_row_cong) simp_all
  show "listing_row ?t lid' (mget (mk_listings ?t) lid')" for lid'
  proof (cases "lid' = lid")
    case True
    have "listing_row s lid (Some l')" using row l(2) by (simp add: l' listing_check_updates)
    then show ?thesis using True unfolding same by simp
  next
    case False
    then show ?thesis using inv unfolding same market_inv_def by simp
  qed
  show "sale_row ?t sid (mget (mk_sales ?t) sid)" for sid
  proof -
    have "sale_row ?t sid (mget (mk_sales s) sid) = sale_row s sid (mget (mk_sales s) sid)"
      using inv_sale [OF inv, of sid] l by (intro sale_row_cong) auto
    then show ?thesis using inv by (simp add: market_inv_def)
  qed
  show "one_sale ?t" using inv_one_sale [OF inv] l by (auto simp: one_sale_def l')
  show "bid_row ?t c" if c: "mget (mk_bids ?t) j = Some c" for j c
  proof (cases "j = i")
    case True
    with c have "c = b" by simp
    then show ?thesis using b l(1) by (auto simp: bid_row_def l')
  next
    case False
    then have old: "mget (mk_bids s) j = Some c" using c by simp
    then have cr: "bid_row s c" by (rule inv_bid_row [OF inv])
    show ?thesis
    proof (cases "bi_listing c = lid")
      case True
      then obtain d where d: "best s l = Some d" "bi_amount c \<le> bi_amount d" "0 < bi_amount c" "bi_bidder c \<noteq> li_seller l" "bi_sequence c \<le> li_bidCount l"
        using cr l(1) by (auto simp: bid_row_def best_def)
      then have "bi_amount c \<le> bi_amount b" using higher by fastforce
      then show ?thesis using d True by (auto simp: bid_row_def l')
    next
      case False
      from cr obtain m d k where m: "mget (mk_listings s) (bi_listing c) = Some m" "li_currentBid m = Some k" "mget (mk_bids s) k = Some d"
        by (auto simp: bid_row_def bind_eq_Some_conv)
      with i have "k \<noteq> i" by auto
      then show ?thesis using cr False m by (auto simp: bid_row_def)
    qed
  qed
  have cur: "current_bids s" using inv by (simp add: market_inv_def)
  show "current_bids ?t"
    unfolding current_bids_def
  proof (intro allI impI)
    fix lid' m j
    assume m: "mget (mk_listings ?t) lid' = Some m" "li_currentBid m = Some j"
    show "\<exists>c. mget (mk_bids ?t) j = Some c \<and> bi_listing c = lid'"
    proof (cases "lid' = lid")
      case True
      then show ?thesis using m b(1) by (auto simp: l' bump_def)
    next
      case False
      then have "mget (mk_listings s) lid' = Some m" using m(1) by simp
      then obtain c where "mget (mk_bids s) j = Some c" "bi_listing c = lid'"
        using current_bid_exists [OF cur _ m(2)] by blast
      with i show ?thesis by auto
    qed
  qed
qed

lemma sold_listing:
  assumes inv: "market_inv s" and l: "mget (mk_listings s) lid = Some l" "li_status l = OPEN"
    and sid: "mget (mk_sales s) sid = None"
    and x: "sale_check x" "sl_listing x = lid" "sl_seller x = li_seller l" "sl_collateral x = li_collateral l" "sl_status x = AWAITING_PAYMENT"
    and l': "l' = bump (l\<lparr>li_status := SOLD, li_closedAt := c\<rparr>)"
  shows "market_inv (put_listing lid l' (put_sale sid x s))" (is "market_inv ?t")
proof (rule market_invI)
  have maps: "mok (mk_listings s)" "mok (mk_bids s)" "mok (mk_sales s)" "mok (mk_ledger s)" using inv_maps [OF inv] by auto
  then show "mok (mk_listings ?t) \<and> mok (mk_bids ?t) \<and> mok (mk_sales ?t)" "mok (mk_ledger ?t)" by auto
  have row: "listing_row s lid (Some l)" by (rule inv_listing [OF inv l(1)])
  have unsold: "sl_listing y \<noteq> lid" if "mget (mk_sales s) k = Some y" for k y
    using inv_sale [OF inv that] l by auto
  have same: "listing_row ?t lid' r = listing_row s lid' r" for lid' r by (rule listing_row_cong) simp_all
  show "listing_row ?t lid' (mget (mk_listings ?t) lid')" for lid'
  proof (cases "lid' = lid")
    case True
    have "listing_row s lid (Some l')" using row l(2) by (auto simp: l' listing_check_updates)
    then show ?thesis using True unfolding same by simp
  next
    case False
    then show ?thesis using inv unfolding same market_inv_def by simp
  qed
  show "sale_row ?t k (mget (mk_sales ?t) k)" for k
  proof (cases "k = sid")
    case True
    have "sale_row s sid None" using inv sid unfolding market_inv_def by metis
    then show ?thesis using True x row l by (simp add: l' held_def settled_def)
  next
    case False
    have "sale_row ?t k (mget (mk_sales s) k) = sale_row s k (mget (mk_sales s) k)"
      using unsold by (intro sale_row_cong) auto
    then show ?thesis using inv False by (simp add: market_inv_def)
  qed
  show "one_sale ?t"
    unfolding one_sale_def
  proof (intro conjI allI impI)
    show "k' = k" if "mget (mk_sales ?t) k = Some y" "mget (mk_sales ?t) k' = Some z" "sl_listing y = sl_listing z" for k k' y z
    proof (cases "k = sid \<or> k' = sid")
      case True
      then show ?thesis using that unsold [of k y] unsold [of k' z] x(2) by (auto split: if_splits)
    next
      case False
      then show ?thesis using that by (auto intro: one_sale_unique [OF inv_one_sale [OF inv]])
    qed
    show "\<exists>k y. mget (mk_sales ?t) k = Some y \<and> sl_listing y = lid'" if m: "mget (mk_listings ?t) lid' = Some m" "li_status m = SOLD" for lid' m
    proof (cases "lid' = lid")
      case True
      then show ?thesis using x(2) by (intro exI [of _ sid]) simp
    next
      case False
      then have "mget (mk_listings s) lid' = Some m" using m(1) by simp
      then obtain k y where "mget (mk_sales s) k = Some y" "sl_listing y = lid'"
        using one_sale_exists [OF inv_one_sale [OF inv] _ m(2)] by blast
      with sid show ?thesis by (intro exI [of _ k]) auto
    qed
  qed
  show "bid_row ?t b" if b: "mget (mk_bids ?t) j = Some b" for j b
  proof -
    have "bid_row s b" using inv_bid_row [OF inv] b by simp
    then show ?thesis using l(1) by (cases "bi_listing b = lid") (auto simp: bid_row_def l' bump_def)
  qed
  have "current_bids s" using inv by (simp add: market_inv_def)
  then show "current_bids ?t"
    by (rule current_bids_put [of s _ lid l']) (simp_all add: l(1) l' bump_def)
qed

section \<open>Changes of a sale\<close>

text \<open>A sale changes with its listing as it is.\<close>

lemma sale_only_change:
  assumes inv: "market_inv s" and x: "mget (mk_sales s) sid = Some x"
    and t: "mk_listings t = mk_listings s" "mk_sales t = mput sid x' (mk_sales s)" "mk_bids t = mk_bids s" "mok (mk_ledger t)"
    and x': "sl_listing x' = sl_listing x"
    and row: "sale_row t sid (Some x')"
    and listings: "\<And>lid. mget (mk_ledger t) (lock_key lid) = mget (mk_ledger s) (lock_key lid)
        \<and> mget (mk_ledger t) (release_key lid) = mget (mk_ledger s) (release_key lid)
        \<and> balance t (collateral_account lid) = balance s (collateral_account lid)"
    and other_sales: "\<And>sid'. sid' \<noteq> sid \<Longrightarrow> mget (mk_ledger t) (pay_key sid') = mget (mk_ledger s) (pay_key sid')
        \<and> mget (mk_ledger t) (payout_key sid') = mget (mk_ledger s) (payout_key sid')
        \<and> mget (mk_ledger t) (refund_key sid') = mget (mk_ledger s) (refund_key sid')
        \<and> balance t (escrow_account sid') = balance s (escrow_account sid')"
  shows "market_inv t"
proof -
  obtain l where l: "mget (mk_listings s) (sl_listing x) = Some l" "li_status l = SOLD"
    using inv_sale [OF inv x] by auto
  have put: "mput (sl_listing x) l (mk_listings s) = mk_listings s" if "mok (mk_listings s)"
    using that l(1) unfolding mput_def mget_def mok_def by (induction "mk_listings s") (auto simp: update_triv)
  have "listing_row t (sl_listing x) (Some l)"
    using inv_listing [OF inv l(1)] listings [of "sl_listing x"] listing_row_cong [of t "sl_listing x" s "Some l"] by simp
  from sale_change [OF inv x l(1) _ t(2,3,4) l(2) refl refl refl x' this row] listings other_sales show ?thesis
    using put inv_maps [OF inv] by (simp add: t(1))
qed

lemma sale_touched:
  assumes inv: "market_inv s" and x: "mget (mk_sales s) sid = Some x" and check: "sale_check x'"
    and terms: "sl_listing x' = sl_listing x" "sl_buyer x' = sl_buyer x" "sl_seller x' = sl_seller x" "sl_price x' = sl_price x" "sl_collateral x' = sl_collateral x"
    and st: "sl_status x' = sl_status x \<or> {sl_status x, sl_status x'} \<subseteq> held"
  shows "market_inv (put_sale sid x' s)"
proof (rule sale_only_change [OF inv x])
  have txs: "pay_tx sid x' = pay_tx sid x" "payout_tx sid x' = payout_tx sid x" "refund_tx sid x' = refund_tx sid x"
    using terms by (simp_all add: pay_tx_def payout_tx_def refund_tx_def)
  have "sale_row s sid (Some x)" by (rule inv_sale [OF inv x])
  then show "sale_row (put_sale sid x' s) sid (Some x')"
    using st check by (auto simp: txs terms held_def settled_def collateral_to_def)
qed (use inv_maps [OF inv] terms in auto)

lemma sale_paid:
  assumes inv: "market_inv s" and x: "mget (mk_sales s) sid = Some x" "sl_status x = AWAITING_PAYMENT" and check: "sale_check x'"
    and terms: "sl_listing x' = sl_listing x" "sl_buyer x' = sl_buyer x" "sl_seller x' = sl_seller x" "sl_price x' = sl_price x" "sl_collateral x' = sl_collateral x"
      "sl_status x' = AWAITING_DELIVERY"
  shows "mget (mk_ledger s) (pay_key sid) = None" "market_inv (put_sale sid x' (put_tx (pay_key sid) (pay_tx sid x) s))"
proof -
  have row: "sale_row s sid (Some x)" by (rule inv_sale [OF inv x(1)])
  show none: "mget (mk_ledger s) (pay_key sid) = None" using row x(2) by simp
  have txs: "pay_tx sid x' = pay_tx sid x" "payout_tx sid x' = payout_tx sid x" "refund_tx sid x' = refund_tx sid x"
    using terms by (simp_all add: pay_tx_def payout_tx_def refund_tx_def)
  note bal = balance_put_tx [OF _ none] sale_txs
  show "market_inv (put_sale sid x' (put_tx (pay_key sid) (pay_tx sid x) s))"
  proof (rule sale_only_change [OF inv x(1)])
    show "sale_row (put_sale sid x' (put_tx (pay_key sid) (pay_tx sid x) s)) sid (Some x')"
      using row x(2) check inv_maps [OF inv] by (auto simp: txs terms held_def settled_def bal)
  qed (use inv_maps [OF inv] terms in \<open>auto simp: bal\<close>)
qed

section \<open>Settlement\<close>

text \<open>What a status of the sale takes out of the payment's escrow.\<close>

definition settle_payment :: "sale_status \<Rightarrow> string \<Rightarrow> sale \<Rightarrow> market \<Rightarrow> market" where
  "settle_payment st sid x s =
     (if st = COMPLETED then put_tx (payout_key sid) (payout_tx sid x) s
      else if st \<in> {SELLER_DEFAULTED, REFUNDED} then put_tx (refund_key sid) (refund_tx sid x) s else s)"

lemma settle_payment_simps [simp]:
  "mk_listings (settle_payment st sid x s) = mk_listings s" "mk_sales (settle_payment st sid x s) = mk_sales s"
  "mk_bids (settle_payment st sid x s) = mk_bids s"
  by (simp_all add: settle_payment_def)

lemma settle_payment_ledger [simp]:
  "mget (mk_ledger (settle_payment st sid x s)) (lock_key lid) = mget (mk_ledger s) (lock_key lid)"
  "mget (mk_ledger (settle_payment st sid x s)) (release_key lid) = mget (mk_ledger s) (release_key lid)"
  "mget (mk_ledger (settle_payment st sid x s)) (pay_key k) = mget (mk_ledger s) (pay_key k)"
  "mget (mk_ledger (settle_payment st sid x s)) (payout_key k) = (if k = sid \<and> st = COMPLETED then Some (payout_tx sid x) else mget (mk_ledger s) (payout_key k))"
  "mget (mk_ledger (settle_payment st sid x s)) (refund_key k) = (if k = sid \<and> st \<in> {SELLER_DEFAULTED, REFUNDED} then Some (refund_tx sid x) else mget (mk_ledger s) (refund_key k))"
  by (auto simp: settle_payment_def)

lemma settle_payment_balance:
  assumes "mok (mk_ledger s)" "st = COMPLETED \<Longrightarrow> mget (mk_ledger s) (payout_key sid) = None"
    "st \<in> {SELLER_DEFAULTED, REFUNDED} \<Longrightarrow> mget (mk_ledger s) (refund_key sid) = None"
  shows "mok (mk_ledger (settle_payment st sid x s))"
    "balance (settle_payment st sid x s) (collateral_account lid) = balance s (collateral_account lid)"
    "balance (settle_payment st sid x s) (escrow_account k)
      = balance s (escrow_account k) - (if k = sid \<and> st \<in> {COMPLETED, SELLER_DEFAULTED, REFUNDED} then sl_price x else 0)"
  using assms by (auto simp: settle_payment_def balance_put_tx sale_txs)

lemma sale_settled:
  assumes inv: "market_inv s" and x: "mget (mk_sales s) sid = Some x" "mget (mk_listings s) (sl_listing x) = Some l"
    and st: "sl_status x \<in> held \<and> st \<in> {COMPLETED, SELLER_DEFAULTED, REFUNDED} \<or> sl_status x = AWAITING_PAYMENT \<and> st = PAYMENT_EXPIRED"
    and check: "sale_check x'"
    and terms: "sl_listing x' = sl_listing x" "sl_buyer x' = sl_buyer x" "sl_seller x' = sl_seller x" "sl_price x' = sl_price x" "sl_collateral x' = sl_collateral x"
      "sl_status x' = st"
    and u: "u = settle_payment st sid x s"
  shows "mget (mk_ledger s) (payout_key sid) = None" "mget (mk_ledger s) (refund_key sid) = None" "mget (mk_ledger s) (release_key (sl_listing x)) = None"
    "market_inv (put_sale sid x' (put_listing (sl_listing x) (l\<lparr>li_releasedAt := Some now\<rparr>)
       (put_tx (release_key (sl_listing x)) (release_tx (sl_listing x) l (collateral_to x')) u)))"
proof -
  let ?l = "l\<lparr>li_releasedAt := Some now\<rparr>" and ?lid = "sl_listing x"
  have row: "sale_row s sid (Some x)" by (rule inv_sale [OF inv x(1)])
  have lrow: "listing_row s ?lid (Some l)" by (rule inv_listing [OF inv x(2)])
  note sl = inv_sale_listing [OF inv x]
  show none: "mget (mk_ledger s) (payout_key sid) = None" "mget (mk_ledger s) (refund_key sid) = None"
    using row st by (auto simp: held_def)
  show rel: "mget (mk_ledger s) (release_key ?lid) = None" using sl(4) st by (auto simp: held_def settled_def)
  then have rel': "mget (mk_ledger u) (release_key ?lid) = None" by (simp add: u)
  have txs: "pay_tx sid x' = pay_tx sid x" "payout_tx sid x' = payout_tx sid x" "refund_tx sid x' = refund_tx sid x"
    using terms by (simp_all add: pay_tx_def payout_tx_def refund_tx_def)
  have mok: "mok (mk_ledger u)" unfolding u using inv_maps [OF inv] none by (intro settle_payment_balance) auto
  have bal: "balance (put_tx (release_key ?lid) t u) a = balance u a + amount_on a t" for a t
    by (rule balance_put_tx [OF mok rel'])
  have ubal: "balance u (collateral_account k) = balance s (collateral_account k)"
    "balance u (escrow_account k) = balance s (escrow_account k) - (if k = sid \<and> st \<in> {COMPLETED, SELLER_DEFAULTED, REFUNDED} then sl_price x else 0)" for k
    unfolding u using inv_maps [OF inv] none by (intro settle_payment_balance; simp)+
  note led = settle_payment_simps [of st sid x s, folded u] settle_payment_ledger [of st sid x s, folded u]
  let ?t = "put_sale sid x' (put_listing ?lid ?l (put_tx (release_key ?lid) (release_tx ?lid l (collateral_to x')) u))"
  show "market_inv ?t"
  proof (rule sale_change [OF inv x])
    show "listing_row ?t ?lid (Some ?l)"
      using lrow sl rel by (auto simp: bal ubal listing_txs listing_check_updates led)
    have "collateral_to x' = (if st = SELLER_DEFAULTED then sl_buyer x else sl_seller x)"
      by (simp add: collateral_to_def terms)
    then show "sale_row ?t sid (Some x')"
      using row st check sl by (auto simp: bal ubal listing_txs txs terms held_def settled_def led)
  qed (use mok sl terms in \<open>auto simp: bal ubal listing_txs led\<close>)
qed

end
