(* ===== verification/Item_Safety.thy ===== *)
theory Item_Safety
  imports Item_Changes
begin

text \<open>
  Every handler and every clock of item auctions keeps the invariant of \<open>Item_Ledger\<close>, and none but the
  ones that store free text runs into a constraint of the database.
\<close>

section \<open>Weakest preconditions of the statements\<close>

lemma wp_case_option [wp]: "wp (case r of None \<Rightarrow> m | Some y \<Rightarrow> m' y) Q E = (\<lambda>s. case r of None \<Rightarrow> wp m Q E s | Some y \<Rightarrow> wp (m' y) Q E s)"
  by (rule ext) (simp split: option.splits)

lemma wp_case_prod [wp]: "wp (case p of (x, y) \<Rightarrow> m x y) Q E = (\<lambda>s. case p of (x, y) \<Rightarrow> wp (m x y) Q E s)"
  by (rule ext) (simp split: prod.splits)

lemma wp_require [wp]: "wp (require b code) Q E = (\<lambda>s. if b then Q () s else E (Refused code) s)"
  by (simp add: require_def wp)

lemma wp_crash_unless [wp]: "wp (crash_unless b) Q E = (\<lambda>s. if b then Q () s else E Crashed s)"
  by (simp add: crash_unless_def wp)

lemma wp_assert_flags [wp]:
  "wp (assert_flags keys) Q E = (\<lambda>s. case assertFlags (mk_paymentsOpen s) (mk_flags s) keys of Inl e \<Rightarrow> E e s | Inr u \<Rightarrow> Q u s)"
  by (simp add: assert_flags_def wp)

lemma wp_update_listing [wp]:
  "wp (update_listing lid f) Q E = (\<lambda>s. case mget (mk_listings s) lid of None \<Rightarrow> Q () s
     | Some l \<Rightarrow> if listing_check (f l) \<and> listing_guard l (f l) then Q () (put_listing lid (f l) s) else E Crashed s)"
  by (rule ext) (auto simp: update_listing_def wp put_listing_def split: option.splits)

lemma wp_update_sale [wp]:
  "wp (update_sale sid f) Q E = (\<lambda>s. case mget (mk_sales s) sid of None \<Rightarrow> Q () s
     | Some x \<Rightarrow> if sale_check (f x) \<and> sale_guard x (f x) then Q () (put_sale sid (f x) s) else E Crashed s)"
  by (rule ext) (auto simp: update_sale_def wp put_sale_def split: option.splits)

lemma wp_insert_listing [wp]:
  "wp (insert_listing lid l) Q E = (\<lambda>s. if mget (mk_listings s) lid = None \<and> listing_check l then Q () (put_listing lid l s) else E Crashed s)"
  by (rule ext) (simp add: insert_listing_def wp put_listing_def)

lemma wp_insert_bid [wp]:
  "wp (insert_bid i b) Q E = (\<lambda>s. if mget (mk_bids s) i = None
       \<and> list_all (\<lambda>(_, c). \<not> (bi_listing c = bi_listing b \<and> bi_sequence c = bi_sequence b)) (mk_bids s)
       \<and> bi_amount b > 0 \<and> bi_sequence b > 0 then Q () (put_bid i b s) else E Crashed s)"
  by (rule ext) (auto simp: insert_bid_def wp put_bid_def)

lemma wp_insert_sale [wp]:
  "wp (insert_sale sid x) Q E = (\<lambda>s. if mget (mk_sales s) sid = None \<and> list_all (\<lambda>(_, y). sl_listing y \<noteq> sl_listing x) (mk_sales s)
       \<and> sale_check x then Q () (put_sale sid x s) else E Crashed s)"
  by (rule ext) (auto simp: insert_sale_def wp put_sale_def)

lemma wp_post [wp]:
  "wp (post kind key [(a, - n), (b, n)]) Q E = (\<lambda>s. case mget (mk_ledger s) key of Some _ \<Rightarrow> Q False s
     | None \<Rightarrow> Q True (put_tx key (moves kind a b n) s))"
  by (rule ext) (simp add: post_def wp put_tx_def moves_def split: option.splits)

lemma wp_lockListing [wp]:
  "wp (lockListing lid) Q E = (\<lambda>s. case mget (mk_listings s) lid of None \<Rightarrow> E (Refused NOT_FOUND) s | Some l \<Rightarrow> Q l s)"
  by (rule ext) (simp add: lockListing_def wp split: option.splits)

lemma wp_lockSale [wp]:
  "wp (lockSale sid) Q E = (\<lambda>s. case mget (mk_sales s) sid of None \<Rightarrow> E (Refused NOT_FOUND) s
     | Some x \<Rightarrow> (case mget (mk_listings s) (sl_listing x) of None \<Rightarrow> E (Refused NOT_FOUND) s | Some l \<Rightarrow> Q (x, l) s))"
  by (rule ext) (simp add: lockSale_def wp split: option.splits)

lemma wp_assertLive [wp]:
  "wp (assertLive now l actorId) Q E = (\<lambda>s. if li_status l \<noteq> OPEN then E (Refused ORDER_STATE_CONFLICT) s
     else if li_seller l = actorId then E (Refused FORBIDDEN) s
     else if now < li_startsAt l \<or> li_endsAt l \<le> now then E (Refused ORDER_STATE_CONFLICT) s else Q () s)"
  by (rule ext) (simp add: assertLive_def wp)

lemma wp_write_audit [wp]:
  "wp (write_audit a action entityType entityId reason before after) Q E = (\<lambda>s. Q () (s\<lparr>mk_audit := mk_audit s @
     [\<lparr>au_actorId = ac_id a, au_actorRoles = ac_roles a, au_action = action, au_entityType = entityType, au_entityId = entityId,
       au_reason = reason, au_before = before, au_after = after\<rparr>]\<rparr>))"
  by (simp add: write_audit_def wp)

lemma market_inv_audit [simp]: "market_inv (s\<lparr>mk_audit := au\<rparr>) = market_inv s"
proof -
  have "balance (s\<lparr>mk_audit := au\<rparr>) = balance s" by (simp add: balance_def fun_eq_iff)
  then have "listing_row (s\<lparr>mk_audit := au\<rparr>) lid r = listing_row s lid r" "sale_row (s\<lparr>mk_audit := au\<rparr>) sid y = sale_row s sid y" for lid r sid y
    by (cases r; cases y; simp)+
  then show ?thesis by (simp add: market_inv_def one_sale_def bid_row_def current_bids_def)
qed

section \<open>Errors of the fields\<close>

lemma fields_refuse [simp]:
  "text_field form name required mx \<noteq> Inl Crashed" "item_field form name mx \<noteq> Inl Crashed" "uuid form name \<noteq> Inl Crashed"
  "money v \<noteq> Inl Crashed" "requireRole a roles \<noteq> Inl Crashed" "reasonOf form \<noteq> Inl Crashed"
  "assertFlags open flags keys \<noteq> Inl Crashed"
  by (auto simp: text_field_def item_field_def uuid_def money_def requireRole_def reasonOf_def assertFlags_def Let_def ebind_Inl echeck_Inl)

lemma item_field_length: "item_field form name mx = Inr v \<Longrightarrow> v \<noteq> [] \<and> length v \<le> mx"
  by (auto simp: item_field_def ebind_Inr echeck_Inr text_field_Inr)

lemma list_all_mget: "mok m \<Longrightarrow> list_all P m \<longleftrightarrow> (\<forall>k v. mget m k = Some v \<longrightarrow> P (k, v))"
  by (auto simp: list_all_iff dest: mget_mem mem_mget)

abbreviation safe :: "'a handler \<Rightarrow> market \<Rightarrow> bool" where
  "safe m s \<equiv> wp m (\<lambda>_ t. market_inv t) (\<lambda>e _. e \<noteq> Crashed) s"

section \<open>Stepping through a handler\<close>

text \<open>
  One rule for each statement of a handler, with the guard's outcome as a premise of what follows, so that a handler's
  proof is one application of \<open>intro step\<close> and a lemma for each block of statements that changes the state.
\<close>

named_theorems step "Rules for the statements of a handler"

lemma step_return [step]: "Q x s \<Longrightarrow> wp (areturn x) Q E s"
  by (simp add: wp)

lemma step_fail [step]: "E e s \<Longrightarrow> wp (afail e) Q E s"
  by (simp add: wp)

lemma step_alift [step]:
  "(\<And>e. r = Inl e \<Longrightarrow> E e s) \<Longrightarrow> (\<And>x. r = Inr x \<Longrightarrow> wp (f x) Q E s) \<Longrightarrow> wp (abind (alift r) f) Q E s"
  by (cases r) (simp_all add: wp)

lemma step_require [step]: "(\<not> b \<Longrightarrow> E (Refused c) s) \<Longrightarrow> (b \<Longrightarrow> wp (f ()) Q E s) \<Longrightarrow> wp (abind (require b c) f) Q E s"
  by (simp add: wp)

lemma step_flags [step]:
  "(\<And>e. assertFlags (mk_paymentsOpen s) (mk_flags s) keys = Inl e \<Longrightarrow> E e s) \<Longrightarrow> wp (f ()) Q E s \<Longrightarrow> wp (abind (assert_flags keys) f) Q E s"
  by (simp add: wp split: sum.split)

lemma step_get [step]: "wp (f (g s)) Q E s \<Longrightarrow> wp (abind (aget g) f) Q E s"
  by (simp add: wp)

lemma step_pair [step]: "(\<And>x y. p = (x, y) \<Longrightarrow> wp (f x y) Q E s) \<Longrightarrow> wp (case p of (x, y) \<Rightarrow> f x y) Q E s"
  by (cases p) simp

lemma step_pure [step]: "wp (f x) Q E s \<Longrightarrow> wp (abind (areturn x) f) Q E s"
  by (simp add: abind_def areturn_def)

lemma step_cond [step]:
  "(b \<Longrightarrow> wp (abind m f) Q E s) \<Longrightarrow> (\<not> b \<Longrightarrow> wp (abind m' f) Q E s) \<Longrightarrow> wp (abind (if b then m else m') f) Q E s"
  by simp

lemma step_if [step]: "(b \<Longrightarrow> wp m Q E s) \<Longrightarrow> (\<not> b \<Longrightarrow> wp m' Q E s) \<Longrightarrow> wp (if b then m else m') Q E s"
  by simp

lemma step_option [step]:
  "(r = None \<Longrightarrow> wp m Q E s) \<Longrightarrow> (\<And>y. r = Some y \<Longrightarrow> wp (f y) Q E s) \<Longrightarrow> wp (case r of None \<Rightarrow> m | Some y \<Rightarrow> f y) Q E s"
  by (cases r) simp_all

lemma step_lockListing [step]:
  "(mget (mk_listings s) lid = None \<Longrightarrow> E (Refused NOT_FOUND) s) \<Longrightarrow> (\<And>l. mget (mk_listings s) lid = Some l \<Longrightarrow> wp (f l) Q E s) \<Longrightarrow> wp (abind (lockListing lid) f) Q E s"
  by (simp add: wp split: option.split)

lemma step_lockSale [step]:
  "(mget (mk_sales s) sid = None \<or> (\<exists>x. mget (mk_sales s) sid = Some x \<and> mget (mk_listings s) (sl_listing x) = None) \<Longrightarrow> E (Refused NOT_FOUND) s) \<Longrightarrow> (\<And>x l. mget (mk_sales s) sid = Some x \<Longrightarrow> mget (mk_listings s) (sl_listing x) = Some l \<Longrightarrow> wp (f (x, l)) Q E s)
   \<Longrightarrow> wp (abind (lockSale sid) f) Q E s"
  by (simp add: wp split: option.split)

lemma step_assertLive [step]:
  "(\<And>c. \<not> (li_status l = OPEN \<and> li_seller l \<noteq> u \<and> li_startsAt l \<le> now \<and> now < li_endsAt l) \<Longrightarrow> E (Refused c) s) \<Longrightarrow> (li_status l = OPEN \<Longrightarrow> li_seller l \<noteq> u \<Longrightarrow> li_startsAt l \<le> now \<Longrightarrow> now < li_endsAt l \<Longrightarrow> wp (f ()) Q E s)
   \<Longrightarrow> wp (abind (assertLive now l u) f) Q E s"
  by (auto simp: wp)

lemma step_listing:
  assumes "mget (mk_listings s) lid = Some l" "listing_check (g l)" "listing_guard l (g l)" "wp (f ()) Q E (put_listing lid (g l) s)"
  shows "wp (abind (update_listing lid g) f) Q E s"
  using assms by (simp add: wp)

section \<open>Listing commands\<close>

text \<open>Each block of statements that changes the state, then the handler around it.\<close>

lemma step_open:
  assumes "market_inv s" "mget (mk_listings s) lid = Some l" "li_status l = AWAITING_COLLATERAL" "li_seller l = a"
    and "\<And>t. t = put_listing lid (bump (l\<lparr>li_status := OPEN, li_postedAt := Some now\<rparr>)) (put_tx (lock_key lid) (lock_tx lid l) s) \<Longrightarrow>
      market_inv t \<Longrightarrow> wp (f ()) Q E t"
  shows "wp (abind (post ''ITEM_COLLATERAL_LOCKED'' (lock_key lid) [(wallet a, - li_collateral l), (collateral_account lid, li_collateral l)]) (\<lambda>_.
     abind (update_listing lid (\<lambda>l. bump (l\<lparr>li_status := OPEN, li_postedAt := Some now\<rparr>))) f)) Q E s"
proof -
  have "lock_tx lid l = moves ''ITEM_COLLATERAL_LOCKED'' (wallet a) (collateral_account lid) (li_collateral l)"
    by (simp add: lock_tx_def assms)
  then show ?thesis
    using listing_opened(1) [OF assms(1-3)] listing_opened(2) [OF assms(1-3), of now] inv_listing [OF assms(1,2)] assms(2-)
    by (simp add: wp listing_check_updates(4) listing_guard_def)
qed

lemma put_listing_twice [simp]: "put_listing lid l' (put_tx k t (put_listing lid l s)) = put_listing lid l' (put_tx k t s)"
  by (simp add: put_listing_def put_tx_def mput_def update_triv)

lemma listing_check_closed:
  assumes "listing_check l" "li_postedAt l \<noteq> None \<or> st = CANCELLED" "case r of None \<Rightarrow> True | Some t \<Rightarrow> length t \<le> 500"
  shows "listing_check (l\<lparr>li_status := st, li_cancelReason := r, li_closedAt := c\<rparr>)"
  using assms unfolding listing_check_def by (cases r; elim disjE) (simp_all cong: option.case_cong)

lemma step_drop:
  assumes inv: "market_inv s" and l: "mget (mk_listings s) lid = Some l" "li_status l = AWAITING_COLLATERAL"
    and r: "case r of None \<Rightarrow> True | Some t \<Rightarrow> length t \<le> 500"
    and next_step: "\<And>t. t = put_listing lid (bump (l\<lparr>li_status := CANCELLED, li_cancelReason := r, li_closedAt := Some now\<rparr>)) s \<Longrightarrow> market_inv t \<Longrightarrow> wp (f ()) Q E t"
  shows "wp (abind (update_listing lid (\<lambda>l. bump (l\<lparr>li_status := CANCELLED, li_cancelReason := r, li_closedAt := Some now\<rparr>))) f) Q E s"
proof -
  let ?l = "bump (l\<lparr>li_status := CANCELLED, li_cancelReason := r, li_closedAt := Some now\<rparr>)"
  have check: "listing_check ?l" "listing_guard l ?l"
    using inv_listing [OF inv l(1)] l(2) r by (simp_all add: listing_check_closed listing_guard_def)
  with listing_dropped [OF inv l check(1) refl] next_step l show ?thesis by (simp add: wp)
qed

lemma step_returned:
  assumes inv: "market_inv s" and l: "mget (mk_listings s) lid = Some l" "li_status l = OPEN"
    and st: "st \<in> {CANCELLED, NO_BIDS}" "st = CANCELLED \<longrightarrow> li_bidCount l = 0" "case r of None \<Rightarrow> True | Some t \<Rightarrow> length t \<le> 500"
    and g: "g l = bump (l\<lparr>li_status := st, li_cancelReason := r, li_closedAt := Some now\<rparr>)"
    and next_step: "\<And>t. t = put_listing lid ((g l)\<lparr>li_releasedAt := Some now\<rparr>) (put_tx (release_key lid) (release_tx lid l (li_seller l)) s) \<Longrightarrow>
      market_inv t \<Longrightarrow> wp (f ()) Q E t"
  shows "wp (abind (update_listing lid g) (\<lambda>_. abind (releaseCollateral now lid l (li_seller l)) f)) Q E s"
proof -
  let ?l = "bump (l\<lparr>li_status := st, li_cancelReason := r, li_closedAt := Some now\<rparr>)"
  have row: "listing_row s lid (Some l)" by (rule inv_listing [OF inv l(1)])
  then have check: "listing_check ?l" "listing_check (?l\<lparr>li_releasedAt := Some now\<rparr>)"
    using l(2) st(1,3) by (simp_all add: listing_check_closed listing_check_updates(5))
  have guard: "listing_guard l ?l" "listing_guard ?l (?l\<lparr>li_releasedAt := Some now\<rparr>)" using row l(2) st by (auto simp: listing_guard_def)
  have tx: "release_tx lid l (li_seller l) = moves ''ITEM_COLLATERAL_RELEASED'' (collateral_account lid) (wallet (li_seller l)) (li_collateral l)"
    by (simp add: release_tx_def)
  show ?thesis
    using listing_returned(1) [OF inv l st(1) check(2) refl] listing_returned(2) [OF inv l st(1) check(2) refl] next_step
    by (simp add: releaseCollateral_def wp g l(1) tx check guard del: listing_check_bump)
qed

lemma safe_postItemCollateral: "market_inv s \<Longrightarrow> safe (postItemCollateral now a form) s"
  unfolding postItemCollateral_def by (intro step step_open) auto


lemma step_cancel:
  assumes inv: "market_inv s" and l: "mget (mk_listings s) lid = Some l" "li_status l \<in> {AWAITING_COLLATERAL, OPEN}" "li_bidCount l = 0"
    and r: "case r of None \<Rightarrow> True | Some t \<Rightarrow> length t \<le> 500"
    and next_step: "\<And>t. market_inv t \<Longrightarrow> wp (f ()) Q E t"
  shows "wp (abind (update_listing lid (\<lambda>l. bump (l\<lparr>li_status := CANCELLED, li_cancelReason := r, li_closedAt := Some now\<rparr>))) (\<lambda>_.
     abind (if li_postedAt l \<noteq> None then releaseCollateral now lid l (li_seller l) else areturn ()) f)) Q E s"
proof (cases "li_status l = OPEN")
  case True
  with inv_listing [OF inv l(1)] have posted: "li_postedAt l \<noteq> None" by simp
  show ?thesis unfolding if_P [OF posted]
    by (rule step_returned [OF inv l(1) True, where st = CANCELLED and r = r]) (use l(3) r next_step in auto)
next
  case False
  with l(2) have st: "li_status l = AWAITING_COLLATERAL" by simp
  with inv_listing [OF inv l(1)] have "\<not> li_postedAt l \<noteq> None" by simp
  then show ?thesis
    by (auto intro!: step_drop [OF inv l(1) st r] step_pure next_step)
qed

lemma text_field_length: "text_field form name required mx = Inr v \<Longrightarrow> length v \<le> mx"
  by (auto simp: text_field_Inr)

lemma safe_cancelItemListing: "market_inv s \<Longrightarrow> safe (cancelItemListing now a form) s"
  unfolding cancelItemListing_def by (intro step step_cancel) (auto dest: text_field_length)

lemma safe_images: "market_inv s \<Longrightarrow> mget (mk_listings s) lid = Some l \<Longrightarrow> li_status l \<noteq> SOLD \<Longrightarrow>
    wp (replaceItemImages u lid images thumbs) (\<lambda>_ t. market_inv t) (\<lambda>e _. e \<noteq> Crashed) s"
  using inv_listing [of s lid l]
  by (auto simp: replaceItemImages_def Let_def wp listing_check_updates(6) listing_guard_def intro: listing_touched)


lemma step_images:
  assumes inv: "market_inv s" and l: "mget (mk_listings s) lid = Some l" "li_status l \<in> {AWAITING_COLLATERAL, OPEN}"
    and "\<And>c. E (Refused c) s" "\<And>n im. market_inv (put_listing lid (l\<lparr>li_images := im\<rparr>) s) \<Longrightarrow> wp (f n) Q E (put_listing lid (l\<lparr>li_images := im\<rparr>) s)"
  shows "wp (abind (replaceItemImages u lid images thumbs) f) Q E s"
proof -
  have "listing_check (l\<lparr>li_images := im\<rparr>)" "listing_guard l (l\<lparr>li_images := im\<rparr>)" "market_inv (put_listing lid (l\<lparr>li_images := im\<rparr>) s)" for im
    using inv_listing [OF inv l(1)] listing_touched [OF inv l(1)] l(2) by (auto simp: listing_check_updates(6) listing_guard_def)
  then have "wp (replaceItemImages u lid images thumbs) (\<lambda>n. wp (f n) Q E) E s"
    unfolding replaceItemImages_def Let_def by (intro step step_listing [OF l(1)]) (simp_all add: assms(4,5))
  then show ?thesis by (simp only: wp_abind)
qed

lemma safe_setItemImages: "market_inv s \<Longrightarrow> safe (setItemImages a form) s"
  unfolding setItemImages_def Let_def
  by (intro step step_images) auto

text \<open>A new listing: the id is drawn by the database, the link is the only field that may not fit its column.\<close>

lemma step_created:
  assumes inv: "market_inv s" and l: "li_status l = AWAITING_COLLATERAL" "li_postedAt l = None" "li_releasedAt l = None"
      "li_bidCount l = 0" "li_currentBid l = None" "li_firstBidAt l = None"
    and crash: "mget (mk_listings s) lid \<noteq> None \<or> \<not> listing_check l \<Longrightarrow> E Crashed s"
    and next_step: "listing_check l \<Longrightarrow> market_inv (put_listing lid l s) \<Longrightarrow> wp (f ()) Q E (put_listing lid l s)"
  shows "wp (abind (insert_listing lid l) f) Q E s"
  using listing_created [OF inv _ _ l] crash next_step by (simp add: wp)

lemma keeps_createItemListing: "market_inv s \<Longrightarrow> wp (createItemListing pf now newId a form) (\<lambda>_ t. market_inv t) (\<lambda>_ _. True) s"
  unfolding createItemListing_def
  by (intro step step_created step_images) auto

section \<open>Bids and sales\<close>

lemma step_bid:
  assumes inv: "market_inv s" and l: "mget (mk_listings s) lid = Some l" "li_status l = OPEN" "li_seller l \<noteq> u"
    and amount: "0 < amount" "\<not> amount < (case Option.bind (li_currentBid l) (mget (mk_bids s)) of Some b \<Rightarrow> bi_amount b + li_increment l | None \<Rightarrow> li_starting l)"
    and crash: "mget (mk_bids s) i \<noteq> None \<Longrightarrow> E Crashed s"
    and g: "\<And>m. g m = bump (m\<lparr>li_currentBid := Some i, li_bidCount := li_bidCount l + 1,
       li_firstBidAt := (case li_firstBidAt m of Some t \<Rightarrow> Some t | None \<Rightarrow> Some now)\<rparr>)"
    and next_step: "\<And>b t. b = \<lparr>bi_listing = lid, bi_bidder = u, bi_amount = amount, bi_sequence = li_bidCount l + 1\<rparr> \<Longrightarrow>
       t = put_listing lid (g l) (put_bid i b s) \<Longrightarrow> market_inv t \<Longrightarrow> wp (f ()) Q E t"
  shows "wp (abind (insert_bid i \<lparr>bi_listing = lid, bi_bidder = u, bi_amount = amount, bi_sequence = li_bidCount l + 1\<rparr>) (\<lambda>_.
     abind (update_listing lid g) f)) Q E s"
proof (cases "mget (mk_bids s) i")
  case None
  let ?b = "\<lparr>bi_listing = lid, bi_bidder = u, bi_amount = amount, bi_sequence = li_bidCount l + 1\<rparr>"
  have row: "listing_row s lid (Some l)" by (rule inv_listing [OF inv l(1)])
  obtain t0 where g': "g l = bump (l\<lparr>li_currentBid := Some i, li_bidCount := li_bidCount l + 1, li_firstBidAt := Some t0\<rparr>)"
    unfolding g by (cases "li_firstBidAt l") auto
  have fresh: "bi_listing c = lid \<longrightarrow> bi_sequence c \<noteq> li_bidCount l + 1" if "mget (mk_bids s) k = Some c" for k c
    using inv_bid_row [OF inv that] l(1) by (auto simp: bid_row_def)
  then have unused: "list_all (\<lambda>(_, c). \<not> (bi_listing c = lid \<and> bi_sequence c = li_bidCount l + 1)) (mk_bids s)"
    using inv_maps [OF inv] by (auto simp: list_all_mget)
  have check: "listing_check (g l)" "listing_guard l (g l)" using row by (simp_all add: g' listing_check_updates(7) listing_guard_def)
  have "market_inv (put_listing lid (g l) (put_bid i ?b s))"
    by (rule bid_placed [OF inv l(1,2) None _ _ _ _ _ g'])
      (use l amount row in \<open>auto simp: best_def listing_check_def simp del: listing_row.simps(1)\<close>)
  from next_step [OF refl refl this] show ?thesis
    using None unused amount(1) l(1) check by (simp add: wp)
next
  case Some
  then show ?thesis using crash by (simp add: wp)
qed

text \<open>The ids the database draws are new.\<close>

definition fresh_id :: "string \<Rightarrow> market \<Rightarrow> bool" where
  "fresh_id i s \<longleftrightarrow> mget (mk_listings s) i = None \<and> mget (mk_bids s) i = None \<and> mget (mk_sales s) i = None"

lemma money_chain: "ebind r money = Inr n \<Longrightarrow> 0 < n"
  by (auto simp: ebind_Inr dest: money_positive)

lemma no_crash_money [simp]: "ebind (text_field form name b mx) money \<noteq> Inl Crashed"
  by (auto simp: ebind_Inl)

lemma safe_bidItem: "market_inv s \<Longrightarrow> fresh_id i s \<Longrightarrow> safe (bidItem now i a form) s"
  unfolding bidItem_def Let_def by (intro step step_bid) (auto simp: fresh_id_def dest: money_chain)

text \<open>A sale, to the highest bidder or at the Buy Now price.\<close>

lemma step_sold:
  assumes inv: "market_inv s" and l: "mget (mk_listings s) lid = Some l" "li_status l = OPEN"
    and args: "u \<noteq> li_seller l" "0 < price" "(kind = WINNER) = (b \<noteq> None)"
    and crash: "mget (mk_sales s) sid \<noteq> None \<Longrightarrow> E Crashed s"
    and next_step: "\<And>x t. sl_listing x = lid \<Longrightarrow> sl_buyer x = u \<Longrightarrow> sl_price x = price \<Longrightarrow> sl_bid x = b \<Longrightarrow> sl_status x = AWAITING_PAYMENT \<Longrightarrow>
       t = put_listing lid (bump (l\<lparr>li_status := SOLD, li_closedAt := Some now\<rparr>)) (put_sale sid x s) \<Longrightarrow> market_inv t \<Longrightarrow> wp (f sid) Q E t"
  shows "wp (abind (createSale now sid lid l u kind price b) f) Q E s"
proof (cases "mget (mk_sales s) sid")
  case None
  let ?x = "\<lparr>sl_listing = lid, sl_buyer = u, sl_seller = li_seller l, sl_kind = kind, sl_bid = b,
       sl_price = price, sl_collateral = li_collateral l, sl_status = AWAITING_PAYMENT,
       sl_paymentDue = now + ITEM_PAYMENT_HOURS * HOUR, sl_paidAt = None, sl_buyerDetails = None, sl_deliveredAt = None,
       sl_deliveryProof = None, sl_confirmBy = None, sl_completedAt = None, sl_disputedAt = None, sl_disputeReason = None,
       sl_resolution = None, sl_resolvedBy = None, sl_version = 1\<rparr>"
  let ?l = "bump (l\<lparr>li_status := SOLD, li_closedAt := Some now\<rparr>)"
  have row: "listing_row s lid (Some l)" by (rule inv_listing [OF inv l(1)])
  then have lc: "listing_check l" and posted: "li_postedAt l \<noteq> None" using l(2) by simp_all
  from lc have sc: "sale_check ?x" using args by (simp add: sale_check_def listing_check_def)
  have check: "listing_check ?l" "listing_guard l ?l"
    using lc posted l(2) by (simp_all add: listing_check_updates(1) listing_guard_def)
  have "sl_listing y \<noteq> lid" if "mget (mk_sales s) k = Some y" for k y
    using inv_sale [OF inv that] l by auto
  then have unused: "list_all (\<lambda>(_, y). sl_listing y \<noteq> lid) (mk_sales s)"
    using inv_maps [OF inv] by (auto simp: list_all_mget)
  have "market_inv (put_listing lid ?l (put_sale sid ?x s))"
    by (rule sold_listing [OF inv l None sc]) simp_all
  from next_step [OF _ _ _ _ _ refl this] show ?thesis
    using None unused l(1) check sc by (simp add: createSale_def wp)
next
  case Some
  then show ?thesis using crash by (simp add: createSale_def wp)
qed

lemma buy_now_positive: "market_inv s \<Longrightarrow> mget (mk_listings s) lid = Some l \<Longrightarrow> li_buyNow l = Some p \<Longrightarrow> 0 < p"
  using inv_listing [of s lid l] by (auto simp: listing_check_def)

lemma safe_buyItemNow: "market_inv s \<Longrightarrow> fresh_id i s \<Longrightarrow> safe (buyItemNow now i a form) s"
  unfolding buyItemNow_def by (intro step step_sold) (auto simp: fresh_id_def dest: buy_now_positive)

section \<open>After the sale\<close>

lemma sale_check_updates:
  assumes "sale_check x"
  shows "length d \<le> 500 \<Longrightarrow> sale_check (x\<lparr>sl_status := st, sl_paidAt := Some now, sl_buyerDetails := Some d\<rparr>)"
    "length p \<le> 2000 \<Longrightarrow> sale_check (x\<lparr>sl_status := st, sl_deliveredAt := Some now, sl_deliveryProof := Some p, sl_confirmBy := c\<rparr>)"
    "sale_check (x\<lparr>sl_status := st, sl_completedAt := c\<rparr>)" "sale_check (x\<lparr>sl_status := st\<rparr>)"
    "r \<in> {''RELEASED_TO_SELLER'', ''REFUNDED_WITH_COLLATERAL'', ''REFUNDED''} \<Longrightarrow> sale_check (x\<lparr>sl_resolution := Some r, sl_resolvedBy := u\<rparr>)"
  using assms unfolding sale_check_def by (simp_all cong: option.case_cong)

lemma inv_sale_check: "market_inv s \<Longrightarrow> mget (mk_sales s) sid = Some x \<Longrightarrow> sale_check x"
  using inv_sale by fastforce

lemma step_pay:
  assumes inv: "market_inv s" and x: "mget (mk_sales s) sid = Some x" "sl_status x = AWAITING_PAYMENT" "sl_buyer x = u"
    and g: "\<And>y. g y = bump_sale (y\<lparr>sl_status := AWAITING_DELIVERY, sl_paidAt := Some now, sl_buyerDetails := Some d\<rparr>)" and d: "length d \<le> 500"
    and next_step: "\<And>t. t = put_sale sid (g x) (put_tx (pay_key sid) (pay_tx sid x) s) \<Longrightarrow> market_inv t \<Longrightarrow> wp (f ()) Q E t"
  shows "wp (abind (post ''ITEM_PAYMENT_LOCKED'' (pay_key sid) [(wallet u, - sl_price x), (escrow_account sid, sl_price x)]) (\<lambda>_.
     abind (update_sale sid g) f)) Q E s"
proof -
  have check: "sale_check (g x)" "sale_guard x (g x)"
    using d x(2) inv_sale_check [OF inv x(1)] by (simp_all add: g sale_check_updates(1) sale_guard_def)
  have tx: "pay_tx sid x = moves ''ITEM_PAYMENT_LOCKED'' (wallet u) (escrow_account sid) (sl_price x)"
    by (simp add: pay_tx_def x(3))
  from sale_paid [OF inv x(1,2) check(1)] next_step show ?thesis
    using x check by (simp add: wp tx g)
qed

lemma safe_payItemSale: "market_inv s \<Longrightarrow> safe (payItemSale now a form) s"
  unfolding payItemSale_def by (intro step step_pay) (auto dest: item_field_length)

lemma step_move:
  assumes inv: "market_inv s" and x: "mget (mk_sales s) sid = Some x"
    and terms: "sl_listing (g x) = sl_listing x" "sl_buyer (g x) = sl_buyer x" "sl_seller (g x) = sl_seller x" "sl_price (g x) = sl_price x"
      "sl_collateral (g x) = sl_collateral x" "sale_guard x (g x)"
    and st: "sl_status (g x) = sl_status x \<or> {sl_status x, sl_status (g x)} \<subseteq> held"
    and crash: "\<not> sale_check (g x) \<Longrightarrow> E Crashed s"
    and next_step: "\<And>t. t = put_sale sid (g x) s \<Longrightarrow> market_inv t \<Longrightarrow> wp (f ()) Q E t"
  shows "wp (abind (update_sale sid g) f) Q E s"
  using sale_touched [OF inv x _ terms(1-5) st] next_step crash terms x by (simp add: wp)

lemma safe_markItemDelivered: "market_inv s \<Longrightarrow> safe (markItemDelivered now a form) s"
  unfolding markItemDelivered_def
  by (intro step step_move)
    (auto dest!: item_field_length intro!: sale_check_updates(2) intro: inv_sale_check simp: sale_guard_def held_def)

lemma keeps_disputeItemSale: "market_inv s \<Longrightarrow> wp (disputeItemSale now a form) (\<lambda>_ t. market_inv t) (\<lambda>_ _. True) s"
  unfolding disputeItemSale_def by (intro step step_move) (auto simp: sale_guard_def held_def)

section \<open>Settlement\<close>

text \<open>What the sale's escrow and the listing's collateral become when the sale ends in \<open>st\<close>.\<close>

definition settle :: "int \<Rightarrow> string \<Rightarrow> sale \<Rightarrow> sale \<Rightarrow> listing \<Rightarrow> market \<Rightarrow> market" where
  "settle now sid x x' l s = put_sale sid x' (put_listing (sl_listing x) (l\<lparr>li_releasedAt := Some now\<rparr>)
     (put_tx (release_key (sl_listing x)) (release_tx (sl_listing x) l (collateral_to x')) (settle_payment (sl_status x') sid x s)))"

lemma step_release:
  assumes "mget (mk_ledger s) (release_key lid) = None" "mget (mk_listings s) lid = Some l" "listing_check l"
    and "wp (f ()) Q E (put_listing lid (l\<lparr>li_releasedAt := Some now\<rparr>) (put_tx (release_key lid) (release_tx lid l r) s))"
  shows "wp (abind (releaseCollateral now lid l r) f) Q E s"
proof -
  have "release_tx lid l r = moves ''ITEM_COLLATERAL_RELEASED'' (collateral_account lid) (wallet r) (li_collateral l)"
    by (simp add: release_tx_def)
  then show ?thesis using assms by (simp add: releaseCollateral_def wp listing_check_updates(5) listing_guard_def)
qed

lemma step_sale:
  assumes "mget (mk_sales s) sid = Some x" "sale_check (g x)" "sale_guard x (g x)" "wp (f ()) Q E (put_sale sid (g x) s)"
  shows "wp (abind (update_sale sid g) f) Q E s"
  using assms by (simp add: wp)

lemma step_post:
  assumes "mget (mk_ledger s) key = None" "wp (f True) Q E (put_tx key (moves kind a b n) s)"
  shows "wp (abind (post kind key [(a, - n), (b, n)]) f) Q E s"
  using assms by (simp add: wp)

lemma step_assoc [step]: "wp (abind m (\<lambda>x. abind (f x) g)) Q E s \<Longrightarrow> wp (abind (abind m f) g) Q E s"
  by (simp only: wp_abind)

lemma settle_inv:
  assumes "market_inv s" "mget (mk_sales s) sid = Some x" "mget (mk_listings s) (sl_listing x) = Some l"
    and "sl_status x \<in> held \<and> sl_status x' \<in> {COMPLETED, SELLER_DEFAULTED, REFUNDED} \<or> sl_status x = AWAITING_PAYMENT \<and> sl_status x' = PAYMENT_EXPIRED"
    and "sale_check x'" "sl_listing x' = sl_listing x" "sl_buyer x' = sl_buyer x" "sl_seller x' = sl_seller x" "sl_price x' = sl_price x"
      "sl_collateral x' = sl_collateral x"
  shows "mget (mk_ledger s) (payout_key sid) = None" "mget (mk_ledger s) (refund_key sid) = None" "mget (mk_ledger s) (release_key (sl_listing x)) = None"
    "market_inv (settle now sid x x' l s)"
  using sale_settled [OF assms refl refl] by (simp_all add: settle_def)

lemma inv_listing_check: "market_inv s \<Longrightarrow> mget (mk_listings s) lid = Some l \<Longrightarrow> listing_check l"
  using inv_listing by fastforce

lemmas settling = settle_def settle_payment_def collateral_to_def payout_tx_def refund_tx_def

lemma step_complete:
  assumes inv: "market_inv s" and x: "mget (mk_sales s) sid = Some x" "mget (mk_listings s) (sl_listing x) = Some l"
    and st: "sl_status x \<in> {DELIVERED, DISPUTED}" and x': "x' = bump_sale (x\<lparr>sl_status := COMPLETED, sl_completedAt := Some now\<rparr>)"
    and next_step: "market_inv (settle now sid x x' l s) \<Longrightarrow> wp (f ()) Q E (settle now sid x x' l s)"
  shows "wp (abind (completeSale now sid x l) f) Q E s"
proof -
  have check: "sale_check x'" "sale_guard x x'" using inv_sale_check [OF inv x(1)] st by (auto simp: x' sale_check_updates(3) sale_guard_def)
  note settled = settle_inv(1-3) [OF inv x _ check(1)] settle_inv(4) [OF inv x _ check(1), of now]
  show ?thesis unfolding completeSale_def
    by (intro step_assoc step_post step_release step_sale)
      (use settled next_step check inv_listing_check [OF inv x(2)] x st in \<open>auto simp: settling x' held_def\<close>)
qed

lemma step_default:
  assumes inv: "market_inv s" and x: "mget (mk_sales s) sid = Some x" "mget (mk_listings s) (sl_listing x) = Some l"
    and st: "sl_status x \<in> {AWAITING_DELIVERY, DISPUTED}" and x': "x' = bump_sale (x\<lparr>sl_status := SELLER_DEFAULTED\<rparr>)"
    and next_step: "market_inv (settle now sid x x' l s) \<Longrightarrow> wp (f ()) Q E (settle now sid x x' l s)"
  shows "wp (abind (defaultSeller now sid x l) f) Q E s"
proof -
  have check: "sale_check x'" "sale_guard x x'" using inv_sale_check [OF inv x(1)] st by (auto simp: x' sale_check_updates(4) sale_guard_def)
  note settled = settle_inv(1-3) [OF inv x _ check(1)] settle_inv(4) [OF inv x _ check(1), of now]
  show ?thesis unfolding defaultSeller_def refundPayment_def
    by (intro step_assoc step_post step_release step_sale)
      (use settled next_step check inv_listing_check [OF inv x(2)] x st in \<open>auto simp: settling x' held_def\<close>)
qed

lemma step_refund:
  assumes inv: "market_inv s" and x: "mget (mk_sales s) sid = Some x" "mget (mk_listings s) (sl_listing x) = Some l"
    and st: "sl_status x = DISPUTED" and x': "x' = bump_sale (x\<lparr>sl_status := REFUNDED\<rparr>)"
    and next_step: "market_inv (settle now sid x x' l s) \<Longrightarrow> wp (f ()) Q E (settle now sid x x' l s)"
  shows "wp (abind (abind (refundPayment sid x) (\<lambda>_. abind (releaseCollateral now (sl_listing x) l (sl_seller x)) (\<lambda>_.
     update_sale sid (\<lambda>x. bump_sale (x\<lparr>sl_status := REFUNDED\<rparr>))))) f) Q E s"
proof -
  have check: "sale_check x'" "sale_guard x x'" using inv_sale_check [OF inv x(1)] st by (auto simp: x' sale_check_updates(4) sale_guard_def)
  note settled = settle_inv(1-3) [OF inv x _ check(1)] settle_inv(4) [OF inv x _ check(1), of now]
  show ?thesis unfolding refundPayment_def
    by (intro step_assoc step_post step_release step_sale)
      (use settled next_step check inv_listing_check [OF inv x(2)] x st in \<open>auto simp: settling x' held_def\<close>)
qed

lemma step_expire:
  assumes inv: "market_inv s" and x: "mget (mk_sales s) sid = Some x" "mget (mk_listings s) (sl_listing x) = Some l"
    and st: "sl_status x = AWAITING_PAYMENT" and x': "x' = bump_sale (x\<lparr>sl_status := PAYMENT_EXPIRED\<rparr>)"
    and next_step: "market_inv (settle now sid x x' l s) \<Longrightarrow> wp (f ()) Q E (settle now sid x x' l s)"
  shows "wp (abind (update_sale sid (\<lambda>x. bump_sale (x\<lparr>sl_status := PAYMENT_EXPIRED\<rparr>))) (\<lambda>_.
     abind (releaseCollateral now (sl_listing x) l (li_seller l)) f)) Q E s"
proof -
  have check: "sale_check x'" "sale_guard x x'" using inv_sale_check [OF inv x(1)] st by (auto simp: x' sale_check_updates(4) sale_guard_def)
  note settled = settle_inv(1-3) [OF inv x _ check(1)] settle_inv(4) [OF inv x _ check(1), of now]
  have "put_listing k a (put_tx i b (put_sale sid x' s)) = put_sale sid x' (put_listing k a (put_tx i b s))" for k a i b
    by (simp add: put_listing_def put_tx_def put_sale_def)
  then show ?thesis using inv_sale_listing(2) [OF inv x]
    by (intro step_release step_sale)
      (use settled next_step check inv_listing_check [OF inv x(2)] x st in \<open>auto simp: settling x' held_def\<close>)
qed

lemma safe_confirmItemReceived: "market_inv s \<Longrightarrow> safe (confirmItemReceived now a form) s"
  unfolding confirmItemReceived_def by (intro step step_complete) auto

lemma safe_claimItemRefund: "market_inv s \<Longrightarrow> safe (claimItemRefund now a form) s"
  unfolding claimItemRefund_def by (intro step step_default) auto

lemma settle_sales [simp]:
  "mk_sales (settle now sid x x' l s) = mput sid x' (mk_sales s)"
  "mk_listings (settle now sid x x' l s) = mput (sl_listing x) (l\<lparr>li_releasedAt := Some now\<rparr>) (mk_listings s)"
  by (simp_all add: settle_def)

lemma step_audit [step]:
  "(\<And>au. wp (f ()) Q E (s\<lparr>mk_audit := au\<rparr>)) \<Longrightarrow> wp (abind (write_audit a action entityType entityId reason before after) f) Q E s"
  by (simp add: wp)

lemma step_resolution:
  assumes inv: "market_inv s" and x: "mget (mk_sales s) sid = Some x"
    and r: "r \<in> {''RELEASED_TO_SELLER'', ''REFUNDED_WITH_COLLATERAL'', ''REFUNDED''}"
    and next_step: "market_inv (put_sale sid (x\<lparr>sl_resolution := Some r, sl_resolvedBy := u\<rparr>) s) \<Longrightarrow> wp (f ()) Q E (put_sale sid (x\<lparr>sl_resolution := Some r, sl_resolvedBy := u\<rparr>) s)"
  shows "wp (abind (update_sale sid (\<lambda>x. x\<lparr>sl_resolution := Some r, sl_resolvedBy := u\<rparr>)) f) Q E s"
  by (rule step_move [OF inv x]) (use next_step sale_check_updates(5) [OF inv_sale_check [OF inv x] r] in \<open>auto simp: sale_guard_def\<close>)

lemma safe_resolveItemDispute: "market_inv s \<Longrightarrow> safe (resolveItemDispute now a form) s"
  unfolding resolveItemDispute_def Let_def
  by (intro step step_cond step_complete step_default step_refund step_resolution) auto

section \<open>Clocks\<close>

lemma current_bid_there: "market_inv s \<Longrightarrow> mget (mk_listings s) lid = Some l \<Longrightarrow> li_currentBid l = Some i \<Longrightarrow> mget (mk_bids s) i \<noteq> None"
  by (erule (2) best_bid) simp

lemma current_bid_valid:
  "market_inv s \<Longrightarrow> mget (mk_listings s) lid = Some l \<Longrightarrow> li_currentBid l = Some i \<Longrightarrow> mget (mk_bids s) i = Some b \<Longrightarrow>
   bi_bidder b \<noteq> li_seller l \<and> 0 < bi_amount b"
  by (erule (2) best_bid) simp

lemma sale_listing_there: "market_inv s \<Longrightarrow> mget (mk_sales s) sid = Some x \<Longrightarrow> mget (mk_listings s) (sl_listing x) \<noteq> None"
  using inv_sale by fastforce

lemma step_unsold:
  assumes inv: "market_inv s" and l: "mget (mk_listings s) lid = Some l" "li_status l = OPEN"
    and next_step: "\<And>t. t = put_listing lid ((bump (l\<lparr>li_status := NO_BIDS, li_closedAt := Some now\<rparr>))\<lparr>li_releasedAt := Some now\<rparr>)
      (put_tx (release_key lid) (release_tx lid l (li_seller l)) s) \<Longrightarrow> market_inv t \<Longrightarrow> wp (f ()) Q E t"
  shows "wp (abind (update_listing lid (\<lambda>l. bump (l\<lparr>li_status := NO_BIDS, li_closedAt := Some now\<rparr>))) (\<lambda>_.
     abind (releaseCollateral now lid l (li_seller l)) f)) Q E s"
  by (rule step_returned [OF inv l, where st = NO_BIDS and r = "li_cancelReason l"])
    (use next_step inv_listing_check [OF inv l(1)] in \<open>auto simp: listing_check_def\<close>)

lemma safe_closeListing: "market_inv s \<Longrightarrow> fresh_id i s \<Longrightarrow> safe (closeListing now i lid) s"
  unfolding closeListing_def
  by (intro step step_sold step_drop step_unsold)
    (auto simp: fresh_id_def dest: current_bid_there current_bid_valid inv_listing_check)

lemma safe_settleSale: "market_inv s \<Longrightarrow> mget (mk_sales s) sid \<noteq> None \<Longrightarrow> safe (settleSale now sid) s"
  unfolding settleSale_def
  by (intro step step_complete step_default step_expire) (auto dest: sale_listing_there)

end
