(* ===== verification/Item_Reachable.thy ===== *)
theory Item_Reachable
  imports Item_Safety
begin

text \<open>
  The states item auctions reach, by commands, clocks and changes of the world around them, and that each satisfies
  the invariant of \<open>Item_Ledger\<close>.
\<close>

section \<open>Reachable states\<close>

lemma safe_keeps: "safe m s \<Longrightarrow> wp m (\<lambda>_ t. market_inv t) (\<lambda>_ _. True) s"
  by (erule wp_mono) auto

lemma keeps_bidItem: "market_inv s \<Longrightarrow> wp (bidItem now i a form) (\<lambda>_ t. market_inv t) (\<lambda>_ _. True) s"
  unfolding bidItem_def Let_def by (intro step step_bid) (auto dest: money_chain)

lemma keeps_buyItemNow: "market_inv s \<Longrightarrow> wp (buyItemNow now i a form) (\<lambda>_ t. market_inv t) (\<lambda>_ _. True) s"
  unfolding buyItemNow_def by (intro step step_sold) (auto dest: buy_now_positive)

lemma keeps_closeListing: "market_inv s \<Longrightarrow> wp (closeListing now i lid) (\<lambda>_ t. market_inv t) (\<lambda>_ _. True) s"
  unfolding closeListing_def by (intro step step_sold step_drop step_unsold) (auto dest: current_bid_valid)

lemma keeps_settleSale: "market_inv s \<Longrightarrow> wp (settleSale now sid) (\<lambda>_ t. market_inv t) (\<lambda>_ _. True) s"
  unfolding settleSale_def by (intro step step_complete step_default step_expire) auto

lemmas item_handlers = keeps_createItemListing keeps_bidItem keeps_buyItemNow keeps_disputeItemSale
  safe_postItemCollateral [THEN safe_keeps] safe_cancelItemListing [THEN safe_keeps] safe_setItemImages [THEN safe_keeps]
  safe_payItemSale [THEN safe_keeps] safe_markItemDelivered [THEN safe_keeps] safe_confirmItemReceived [THEN safe_keeps]
  safe_claimItemRefund [THEN safe_keeps] safe_resolveItemDispute [THEN safe_keeps]

lemma command_keeps:
  assumes "(n, h) \<in> set itemCommands" "market_inv s"
  shows "wp (h pf now i a form) (\<lambda>_ t. market_inv t) (\<lambda>_ _. True) s"
  using assms(1) unfolding itemCommands_def list.set insert_iff prod.inject empty_iff
  by (elim disjE conjE FalseE; clarify; intro item_handlers assms(2))

lemma keeps_each:
  assumes "\<And>x s. market_inv s \<Longrightarrow> wp (f x) (\<lambda>_ t. market_inv t) (\<lambda>_ _. True) s" "market_inv s"
  shows "wp (each f xs) (\<lambda>_ t. market_inv t) (\<lambda>_ t. market_inv t) s"
  using assms(2)
proof (induction xs arbitrary: s)
  case (Cons x xs)
  have "wp (f x) (\<lambda>y t. wp (each f xs) (\<lambda>_ t. market_inv t) (\<lambda>_ t. market_inv t) t) (\<lambda>_ _. market_inv s) s"
    by (rule wp_mono [OF assms(1) [OF Cons.prems]]) (rule Cons.IH, assumption, rule Cons.prems)
  then show ?case by (simp add: wp)
qed (simp add: wp)

inductive item_step :: "market \<Rightarrow> market \<Rightarrow> bool" where
  command: "(n, h) \<in> set itemCommands \<Longrightarrow> item_step s (snd (transact (h pf now i a form) s))"
| close_job: "item_step s (snd (closeDueItemListings now clock ids limit only s))"
| settle_job: "item_step s (snd (settleItemSales now clock limit only s))"
| world: "item_step s (s\<lparr>mk_assets := assets, mk_flags := flags, mk_paymentsOpen := b\<rparr>)"

inductive item_reachable :: "market \<Rightarrow> bool" where
  at_start: "item_reachable \<lparr>mk_listings = [], mk_bids = [], mk_sales = [], mk_ledger = [], mk_assets = [], mk_audit = [], mk_flags = [], mk_paymentsOpen = b\<rparr>"
| after_step: "item_reachable s \<Longrightarrow> item_step s t \<Longrightarrow> item_reachable t"

lemma market_inv_world [simp]: "market_inv (s\<lparr>mk_assets := assets, mk_flags := flags, mk_paymentsOpen := b\<rparr>) = market_inv s"
proof -
  let ?t = "s\<lparr>mk_assets := assets, mk_flags := flags, mk_paymentsOpen := b\<rparr>"
  have "balance ?t = balance s" by (simp add: balance_def fun_eq_iff)
  then have "listing_row ?t lid r = listing_row s lid r" "sale_row ?t sid y = sale_row s sid y" for lid r sid y
    by (cases r; cases y; simp)+
  then show ?thesis by (simp add: market_inv_def one_sale_def bid_row_def current_bids_def)
qed

lemma item_step_inv: "item_step s t \<Longrightarrow> market_inv s \<Longrightarrow> market_inv t"
proof (induction rule: item_step.induct)
  case (command n h s pf now i a form)
  then show ?case using keeps_transact [OF command_keeps] by metis
next
  case (close_job s now clock ids limit only)
  then show ?case
    unfolding closeDueItemListings_def by (simp flip: wp_state add: wp keeps_each keeps_closeListing)
next
  case (settle_job s now clock limit only)
  then show ?case
    unfolding settleItemSales_def by (simp flip: wp_state add: wp keeps_each keeps_settleSale)
qed simp

lemma market_reachable_inv: "item_reachable s \<Longrightarrow> market_inv s"
proof (induction rule: item_reachable.induct)
  case (at_start b)
  show ?case by (simp add: market_inv_def one_sale_def current_bids_def balance_def)
qed (rule item_step_inv)

end
