(* ===== verification/Item_Scenario.thy ===== *)
theory Item_Scenario
  imports Item_Reachable
begin

text \<open>
  One auction from the listing to the delivery, run through the handlers and the clock: the states it passes are
  reachable, and \<open>Item_Properties\<close> applies its properties to them. A handler runs by \<open>simp add: run\<close>; the fields of its form are
  read first.
\<close>

lemma abind_first: "m = m' \<Longrightarrow> abind m f = abind m' f" by simp

lemma abind_run: "abind m f s = (case m s of (Inl e, t) \<Rightarrow> (Inl e, t) | (Inr x, t) \<Rightarrow> f x t)" by (simp add: abind_def)

lemmas run = abind_run alift_def areturn_def aget_def amodify_def acheck_def require_def crash_unless_def transact_def
  update_listing_def update_sale_def insert_listing_def insert_bid_def insert_sale_def post_def lockListing_def lockSale_def
  assertLive_def assert_flags_def afail_def

definition demo_id :: "char \<Rightarrow> string" where
  "demo_id c = ''00000000-0000-4000-8000-00000000000'' @ [c]"

definition demo_platform :: platform where
  "demo_platform = \<lparr>pf_dateOf = (\<lambda>v. if v = ''1970-01-02T00:00Z'' then Some 86400000 else None), pf_urlOf = (\<lambda>v. Some (''https:'', v))\<rparr>"

definition sara :: actor where "sara = \<lparr>ac_id = ''sara'', ac_roles = [''buyer''], ac_active = True\<rparr>"
definition bob :: actor where "bob = \<lparr>ac_id = ''bob'', ac_roles = [''buyer''], ac_active = True\<rparr>"
definition fay :: actor where "fay = \<lparr>ac_id = ''fay'', ac_roles = [''finance''], ac_active = True\<rparr>"

definition demo_form :: form where
  "demo_form = [''origin'' \<mapsto> ''RESALE'', ''title'' \<mapsto> ''Hat'', ''starting_price'' \<mapsto> ''10'', ''ends_at'' \<mapsto> ''1970-01-02T00:00'']"

definition demo_market :: "(string \<times> listing) list \<Rightarrow> (string \<times> bid) list \<Rightarrow> (string \<times> sale) list \<Rightarrow> (string \<times> ledger_transaction) list \<Rightarrow> market" where
  "demo_market ls bs ss tx = \<lparr>mk_listings = ls, mk_bids = bs, mk_sales = ss, mk_ledger = tx, mk_assets = [], mk_audit = [],
     mk_flags = [(''CHECKOUT_CREATION_ENABLED'', True), (''BIDDING_ENABLED'', True)], mk_paymentsOpen = True\<rparr>"

definition demo_listing :: listing where
  "demo_listing = \<lparr>li_seller = ''sara'', li_terms = \<lparr>it_origin = ''RESALE'', it_itemType = [], it_title = ''Hat'', it_projectName = [],
       it_projectUrl = None, it_network = [], it_quantity = [], it_description = [], it_deliveryMethod = [], it_buyerProvides = []\<rparr>,
     li_deliveryDue = 691200000, li_starting = 1000, li_increment = 500, li_buyNow = None, li_collateral = 200, li_startsAt = 0,
     li_endsAt = 86400000, li_status = AWAITING_COLLATERAL, li_postedAt = None, li_releasedAt = None, li_bidCount = 0,
     li_currentBid = None, li_firstBidAt = None, li_closedAt = None, li_cancelReason = None, li_images = [], li_version = 1\<rparr>"

definition demo_open_listing :: listing where
  "demo_open_listing = demo_listing\<lparr>li_status := OPEN, li_postedAt := Some 1, li_version := 2\<rparr>"

definition demo_bid_listing :: listing where
  "demo_bid_listing = demo_open_listing\<lparr>li_currentBid := Some (demo_id CHR ''2''), li_bidCount := 1, li_firstBidAt := Some 2, li_version := 3\<rparr>"

definition demo_sold_listing :: listing where
  "demo_sold_listing = demo_bid_listing\<lparr>li_status := SOLD, li_closedAt := Some 86400000, li_version := 4\<rparr>"

definition demo_bid :: bid where
  "demo_bid = \<lparr>bi_listing = demo_id CHR ''1'', bi_bidder = ''bob'', bi_amount = 1200, bi_sequence = 1\<rparr>"

definition demo_sale :: sale where
  "demo_sale = \<lparr>sl_listing = demo_id CHR ''1'', sl_buyer = ''bob'', sl_seller = ''sara'', sl_kind = WINNER, sl_bid = Some (demo_id CHR ''2''),
     sl_price = 1200, sl_collateral = 200, sl_status = AWAITING_PAYMENT, sl_paymentDue = 172800000, sl_paidAt = None, sl_buyerDetails = None,
     sl_deliveredAt = None, sl_deliveryProof = None, sl_confirmBy = None, sl_completedAt = None, sl_disputedAt = None,
     sl_disputeReason = None, sl_resolution = None, sl_resolvedBy = None, sl_version = 1\<rparr>"

definition demo_paid_sale :: sale where
  "demo_paid_sale = demo_sale\<lparr>sl_status := AWAITING_DELIVERY, sl_paidAt := Some 86400001, sl_buyerDetails := Some ''me'', sl_version := 2\<rparr>"

definition demo_sent_sale :: sale where
  "demo_sent_sale = demo_paid_sale\<lparr>sl_status := DELIVERED, sl_deliveredAt := Some 86400002, sl_deliveryProof := Some ''sent'',
     sl_confirmBy := Some 345600002, sl_version := 3\<rparr>"

definition demo_disputed_sale :: sale where
  "demo_disputed_sale = demo_sent_sale\<lparr>sl_status := DISPUTED, sl_disputedAt := Some 86400003, sl_disputeReason := Some ''The hat is torn'', sl_version := 4\<rparr>"

definition demo_locked :: "string \<times> ledger_transaction" where
  "demo_locked = (lock_key (demo_id CHR ''1''), lock_tx (demo_id CHR ''1'') demo_listing)"

definition demo_payment :: "string \<times> ledger_transaction" where
  "demo_payment = (pay_key (demo_id CHR ''3''), pay_tx (demo_id CHR ''3'') demo_sale)"

abbreviation "demo_start \<equiv> demo_market [] [] [] []"
abbreviation "demo_listed \<equiv> demo_market [(demo_id CHR ''1'', demo_listing)] [] [] []"
abbreviation "demo_open \<equiv> demo_market [(demo_id CHR ''1'', demo_open_listing)] [] [] [demo_locked]"
abbreviation "demo_bidden \<equiv> demo_market [(demo_id CHR ''1'', demo_bid_listing)] [(demo_id CHR ''2'', demo_bid)] [] [demo_locked]"
abbreviation "demo_sold \<equiv> demo_market [(demo_id CHR ''1'', demo_sold_listing)] [(demo_id CHR ''2'', demo_bid)] [(demo_id CHR ''3'', demo_sale)] [demo_locked]"
abbreviation "demo_paid \<equiv> demo_market [(demo_id CHR ''1'', demo_sold_listing)] [(demo_id CHR ''2'', demo_bid)]
  [(demo_id CHR ''3'', demo_paid_sale)] [demo_locked, demo_payment]"
abbreviation "demo_sent \<equiv> demo_market [(demo_id CHR ''1'', demo_sold_listing)] [(demo_id CHR ''2'', demo_bid)]
  [(demo_id CHR ''3'', demo_sent_sale)] [demo_locked, demo_payment]"

abbreviation "demo_disputed \<equiv> demo_market [(demo_id CHR ''1'', demo_sold_listing)] [(demo_id CHR ''2'', demo_bid)]
  [(demo_id CHR ''3'', demo_disputed_sale)] [demo_locked, demo_payment]"

lemmas demo_rows = demo_listing_def demo_open_listing_def demo_bid_listing_def demo_sold_listing_def demo_bid_def demo_sale_def
  demo_paid_sale_def demo_sent_sale_def demo_disputed_sale_def demo_locked_def demo_payment_def

lemma demo_uuid [simp]:
  "uuid [''listing_id'' \<mapsto> demo_id CHR ''1''] ''listing_id'' = Inr (demo_id CHR ''1'')"
  "uuid [''listing_id'' \<mapsto> demo_id CHR ''1'', ''amount'' \<mapsto> ''12''] ''listing_id'' = Inr (demo_id CHR ''1'')"
  "uuid [''sale_id'' \<mapsto> demo_id CHR ''3''] ''sale_id'' = Inr (demo_id CHR ''3'')"
  "uuid [''sale_id'' \<mapsto> demo_id CHR ''3'', ''buyer_details'' \<mapsto> ''me''] ''sale_id'' = Inr (demo_id CHR ''3'')"
  "uuid [''sale_id'' \<mapsto> demo_id CHR ''3'', ''delivery_proof'' \<mapsto> ''sent''] ''sale_id'' = Inr (demo_id CHR ''3'')"
  "uuid [''sale_id'' \<mapsto> demo_id CHR ''3'', ''dispute_reason'' \<mapsto> ''broken''] ''sale_id'' = Inr (demo_id CHR ''3'')"
  "uuid [''sale_id'' \<mapsto> demo_id CHR ''3'', ''dispute_reason'' \<mapsto> ''The hat is torn''] ''sale_id'' = Inr (demo_id CHR ''3'')"
  "uuid [''sale_id'' \<mapsto> demo_id CHR ''3'', ''outcome'' \<mapsto> ''REFUND'', ''reason'' \<mapsto> ''Both are right''] ''sale_id'' = Inr (demo_id CHR ''3'')"
  by code_simp+

lemma demo_id_eq [simp]: "demo_id c = demo_id d \<longleftrightarrow> c = d"
  by (simp add: demo_id_def)

lemma demo_fields:
  "listing_prices demo_form = Inr (1000, 500, None, 200)"
  "listing_times demo_platform 0 demo_form = Inr (0, 86400000, 691200000)"
  "text_field demo_form ''image_ids'' False 300 = Inr []" "text_field demo_form ''thumb_ids'' False 300 = Inr []"
  "ebind (text_field [''listing_id'' \<mapsto> demo_id CHR ''1'', ''amount'' \<mapsto> ''12''] ''amount'' True DEFAULT_MAX_LENGTH) money = Inr 1200"
  "item_field [''sale_id'' \<mapsto> demo_id CHR ''3'', ''buyer_details'' \<mapsto> ''me''] ''buyer_details'' 500 = Inr ''me''"
  "item_field [''sale_id'' \<mapsto> demo_id CHR ''3'', ''delivery_proof'' \<mapsto> ''sent''] ''delivery_proof'' 2000 = Inr ''sent''"
  "item_field [''sale_id'' \<mapsto> demo_id CHR ''3'', ''dispute_reason'' \<mapsto> ''broken''] ''dispute_reason'' 4000 = Inr ''broken''"
  "item_field [''sale_id'' \<mapsto> demo_id CHR ''3'', ''dispute_reason'' \<mapsto> ''The hat is torn''] ''dispute_reason'' 4000 = Inr ''The hat is torn''"
  "text_field [''sale_id'' \<mapsto> demo_id CHR ''3'', ''outcome'' \<mapsto> ''REFUND'', ''reason'' \<mapsto> ''Both are right''] ''outcome'' True DEFAULT_MAX_LENGTH = Inr ''REFUND''"
  "reasonOf [''sale_id'' \<mapsto> demo_id CHR ''3'', ''outcome'' \<mapsto> ''REFUND'', ''reason'' \<mapsto> ''Both are right''] = Inr ''Both are right''"
  "requireRole fay [''finance'', ''admin''] = Inr ()"
  by code_simp+

lemma demo_screened: "screenContent [''Hat'', [], []] = []"
  by code_simp

lemma demo_text:
  "text_field demo_form ''origin'' True DEFAULT_MAX_LENGTH = Inr ''RESALE''" "optional_field demo_form ''item_type'' 60 = Inr []"
  "item_field demo_form ''title'' 200 = Inr ''Hat''" "optional_field demo_form ''project_name'' 120 = Inr []"
  "text_field demo_form ''project_url'' False 300 = Inr []" "optional_field demo_form ''network'' 60 = Inr []"
  "optional_field demo_form ''quantity'' 120 = Inr []" "optional_field demo_form ''description'' 20000 = Inr []"
  "optional_field demo_form ''delivery_method'' 5000 = Inr []" "optional_field demo_form ''buyer_provides'' 500 = Inr []"
  by code_simp+

lemma demo_terms: "listing_terms demo_platform sara demo_form = Inr (li_terms demo_listing)"
  by (simp add: listing_terms_def demo_text demo_screened echeck_def demo_rows)

lemma demo_no_images: "js_split (CHR '','') [] = [[]]" "js_trim [] = []" "js_lower [] = []"
  by code_simp+

lemmas demo_run = run demo_market_def demo_fields demo_terms demo_rows sara_def bob_def

lemma demo_create: "transact (createItemListing demo_platform 0 (demo_id CHR ''1'') sara demo_form) demo_start
   = (Inr \<lparr>cr_path = path (demo_id CHR ''1''), cr_id = Some (demo_id CHR ''1'')\<rparr>, demo_listed)"
  unfolding createItemListing_def replaceItemImages_def demo_fields demo_terms Let_def
  by (simp add: run demo_market_def demo_fields demo_terms demo_rows sara_def demo_no_images listing_check_def listing_guard_def
    image_rows_def HOUR_def MAX_ITEM_IMAGES_def enumerate_eq_zip cong: abind_first)

lemma demo_post: "transact (postItemCollateral 1 sara [''listing_id'' \<mapsto> demo_id CHR ''1'']) demo_listed
   = (Inr \<lparr>cr_path = path (demo_id CHR ''1''), cr_id = None\<rparr>, demo_open)"
  unfolding postItemCollateral_def
  by (simp add: demo_run assertFlags_def echeck_def bump_def listing_check_def listing_guard_def HOUR_def lock_tx_def moves_def cong: abind_first)

lemma demo_bids: "transact (bidItem 2 (demo_id CHR ''2'') bob [''listing_id'' \<mapsto> demo_id CHR ''1'', ''amount'' \<mapsto> ''12'']) demo_open
   = (Inr \<lparr>cr_path = path (demo_id CHR ''1''), cr_id = Some (demo_id CHR ''2'')\<rparr>, demo_bidden)"
  unfolding bidItem_def
  by (simp add: demo_run assertFlags_def echeck_def bump_def listing_check_def listing_guard_def HOUR_def cong: abind_first)

lemma demo_close: "closeDueItemListings 86400000 (\<lambda>_. 86400000) (\<lambda>_. demo_id CHR ''3'') 10 None demo_bidden = (Inr [Sold_To_Winner], demo_sold)"
  unfolding closeDueItemListings_def
  by (simp add: due_listings_def closeListing_def createSale_def demo_run bump_def listing_check_def listing_guard_def HOUR_def sale_check_def
    ITEM_PAYMENT_HOURS_def cong: abind_first)

lemma demo_pay: "transact (payItemSale 86400001 bob [''sale_id'' \<mapsto> demo_id CHR ''3'', ''buyer_details'' \<mapsto> ''me'']) demo_sold
   = (Inr \<lparr>cr_path = path (demo_id CHR ''1''), cr_id = None\<rparr>, demo_paid)"
  unfolding payItemSale_def
  by (simp add: demo_run assertFlags_def echeck_def bump_sale_def sale_check_def sale_guard_def pay_tx_def moves_def cong: abind_first)

lemma demo_deliver: "transact (markItemDelivered 86400002 sara [''sale_id'' \<mapsto> demo_id CHR ''3'', ''delivery_proof'' \<mapsto> ''sent'']) demo_paid
   = (Inr \<lparr>cr_path = path (demo_id CHR ''1''), cr_id = None\<rparr>, demo_sent)"
  unfolding markItemDelivered_def
  by (simp add: demo_run echeck_def bump_sale_def sale_check_def sale_guard_def HOUR_def ITEM_CONFIRM_HOURS_def cong: abind_first)

lemma demo_dispute: "transact (disputeItemSale 86400003 bob [''sale_id'' \<mapsto> demo_id CHR ''3'', ''dispute_reason'' \<mapsto> ''The hat is torn'']) demo_sent
   = (Inr \<lparr>cr_path = path (demo_id CHR ''1''), cr_id = None\<rparr>, demo_disputed)"
  unfolding disputeItemSale_def
  by (simp add: demo_run bump_sale_def sale_check_def sale_guard_def cong: abind_first)

section \<open>The states are reachable\<close>

lemma run_command:
  assumes "item_reachable s" "mget itemCommands n = Some h" "transact (h pf now i a form) s = (r, t)"
  shows "item_reachable t"
proof -
  have "(n, h) \<in> set itemCommands" using assms(2) by (rule mget_mem)
  from item_step.command [OF this, of s pf now i a form] assms(1,3) show ?thesis
    by (auto intro: item_reachable.after_step)
qed

lemma demo_reachable_start: "item_reachable demo_start"
proof -
  let ?s = "\<lparr>mk_listings = [], mk_bids = [], mk_sales = [], mk_ledger = [], mk_assets = [], mk_audit = [], mk_flags = [], mk_paymentsOpen = True\<rparr>"
  have "demo_start = ?s\<lparr>mk_assets := [], mk_flags := [(''CHECKOUT_CREATION_ENABLED'', True), (''BIDDING_ENABLED'', True)], mk_paymentsOpen := True\<rparr>"
    by (simp add: demo_market_def)
  then show ?thesis by (metis item_reachable.at_start item_reachable.after_step item_step.world)
qed

lemma demo_reachable_listed: "item_reachable demo_listed"
  by (rule run_command [where n = "''create_item_listing''" and h = createItemListing, OF demo_reachable_start _ demo_create]) (simp add: itemCommands_def)

lemma demo_reachable_open: "item_reachable demo_open"
  by (rule run_command [where n = "''post_item_collateral''" and h = "\<lambda>pf now i. postItemCollateral now", OF demo_reachable_listed _ demo_post])
    (simp add: itemCommands_def)

lemma demo_reachable_bidden: "item_reachable demo_bidden"
  by (rule run_command [where n = "''bid_item''" and h = "\<lambda>pf. bidItem", OF demo_reachable_open _ demo_bids]) (simp add: itemCommands_def)

lemma demo_reachable_sold: "item_reachable demo_sold"
  using item_reachable.after_step [OF demo_reachable_bidden item_step.close_job] demo_close by (metis snd_conv)

lemma demo_reachable_paid: "item_reachable demo_paid"
  by (rule run_command [where n = "''pay_item_sale''" and h = "\<lambda>pf now i. payItemSale now", OF demo_reachable_sold _ demo_pay])
    (simp add: itemCommands_def)

lemma demo_reachable_sent: "item_reachable demo_sent"
  by (rule run_command [where n = "''mark_item_delivered''" and h = "\<lambda>pf now i. markItemDelivered now", OF demo_reachable_paid _ demo_deliver])
    (simp add: itemCommands_def)

lemma demo_reachable_disputed: "item_reachable demo_disputed"
  by (rule run_command [where n = "''dispute_item_sale''" and h = "\<lambda>pf now i. disputeItemSale now", OF demo_reachable_sent _ demo_dispute])
    (simp add: itemCommands_def)

end
