(* ===== verification/Item_Properties.thy ===== *)
theory Item_Properties
  imports Item_Scenario
begin

text \<open>
  What the handlers and the clocks of item auctions do in the states they reach: what the holding accounts hold, who is
  paid when a sale ends, that the highest bidder wins, that the clocks may run twice, and which errors are possible.
\<close>

section \<open>Holding accounts\<close>

text \<open>C18. In every reachable state the payment escrow of a sale holds its price exactly from the payment until the sale is
  settled, and the collateral account of a listing holds the collateral exactly from its locking until its return.\<close>

theorem holding_accounts_hold_what_is_owed:
  assumes "item_reachable s" "mget (mk_listings s) lid = Some l" "mget (mk_sales s) sid = Some x"
  shows "balance s (escrow_account sid) = (if sl_status x \<in> {AWAITING_DELIVERY, DELIVERED, DISPUTED} then sl_price x else 0)
    \<and> balance s (collateral_account lid) = (if li_postedAt l \<noteq> None \<and> li_releasedAt l = None then li_collateral l else 0)
    \<and> (sl_listing x = lid \<and> sl_status x \<in> {COMPLETED, PAYMENT_EXPIRED, SELLER_DEFAULTED, REFUNDED} \<longrightarrow> balance s (collateral_account lid) = 0)"
proof -
  have inv: "market_inv s" using assms(1) by (rule market_reachable_inv)
  show ?thesis
    using inv_listing [OF inv assms(2)] inv_sale [OF inv assms(3)] assms(2) by (auto simp: held_def settled_def)
qed

lemma holding_accounts_hold_what_is_owed_witness:
  "balance demo_sent (escrow_account (demo_id CHR ''3'')) = 1200 \<and> balance demo_sent (collateral_account (demo_id CHR ''1'')) = 200"
  using holding_accounts_hold_what_is_owed [OF demo_reachable_sent, of "demo_id CHR ''1''" demo_sold_listing "demo_id CHR ''3''" demo_sent_sale]
  by (simp add: demo_market_def demo_rows)

section \<open>Who is paid\<close>

lemma settle_wallets:
  assumes "market_inv s" "mget (mk_sales s) sid = Some x" "mget (mk_listings s) (sl_listing x) = Some l"
    and "sl_status x \<in> held \<and> sl_status x' \<in> {COMPLETED, SELLER_DEFAULTED, REFUNDED} \<or> sl_status x = AWAITING_PAYMENT \<and> sl_status x' = PAYMENT_EXPIRED"
  shows "balance (settle now sid x x' l s) (wallet v) = balance s (wallet v)
    + (if sl_status x' = COMPLETED \<and> v = sl_seller x \<or> sl_status x' \<in> {SELLER_DEFAULTED, REFUNDED} \<and> v = sl_buyer x then sl_price x else 0)
    + (if v = collateral_to x' then sl_collateral x else 0)"
proof -
  have check: "sale_check (x\<lparr>sl_status := sl_status x'\<rparr>)" by (intro sale_check_updates inv_sale_check [OF assms(1,2)])
  note none = settle_inv(1-3) [OF assms(1-3) _ check]
  let ?u = "settle_payment (sl_status x') sid x s"
  have mok: "mok (mk_ledger ?u)" using none assms(4) inv_maps [OF assms(1)] by (intro settle_payment_balance) auto
  have rel: "mget (mk_ledger ?u) (release_key (sl_listing x)) = None" using none assms(4) by simp
  have "balance ?u (wallet v) = balance s (wallet v)
      + (if sl_status x' = COMPLETED \<and> v = sl_seller x \<or> sl_status x' \<in> {SELLER_DEFAULTED, REFUNDED} \<and> v = sl_buyer x then sl_price x else 0)"
    using none assms(4) inv_maps [OF assms(1)] by (auto simp: settle_payment_def balance_put_tx sale_txs)
  then show ?thesis
    using inv_sale_listing(3) [OF assms(1-3)] by (simp add: settle_def balance_put_tx [OF mok rel] listing_txs)
qed

lemma balance_audit [simp]: "balance (s\<lparr>mk_audit := au\<rparr>) a = balance s a"
  by (simp add: balance_def)

text \<open>The wallet of one user grows by an amount, and no other wallet changes.\<close>

definition credited :: "market \<Rightarrow> market \<Rightarrow> (string \<Rightarrow> int) \<Rightarrow> bool" where
  "credited s t gain \<longleftrightarrow> (\<forall>v. balance t (wallet v) = balance s (wallet v) + gain v)"

lemma wp_result: "wp m Q E s \<Longrightarrow> m s = (Inr r, t) \<Longrightarrow> Q r t"
  by (simp add: wp_def)

text \<open>When the buyer confirms a delivery, the seller's wallet receives the price and the collateral, and nobody else's
  changes.\<close>

theorem confirmation_pays_the_seller:
  assumes "item_reachable s" "confirmItemReceived now a form s = (Inr r, t)"
  shows "\<exists>sid x. uuid form ''sale_id'' = Inr sid \<and> mget (mk_sales s) sid = Some x \<and> sl_buyer x = ac_id a \<and> sl_status x = DELIVERED
    \<and> map_option sl_status (mget (mk_sales t) sid) = Some COMPLETED
    \<and> credited s t (\<lambda>v. if v = sl_seller x then sl_price x + sl_collateral x else 0)"
proof -
  have inv: "market_inv s" using assms(1) by (rule market_reachable_inv)
  let ?Q = "\<lambda>_ t. \<exists>sid x. uuid form ''sale_id'' = Inr sid \<and> mget (mk_sales s) sid = Some x \<and> sl_buyer x = ac_id a \<and> sl_status x = DELIVERED
    \<and> map_option sl_status (mget (mk_sales t) sid) = Some COMPLETED
    \<and> credited s t (\<lambda>v. if v = sl_seller x then sl_price x + sl_collateral x else 0)"
  have "wp (confirmItemReceived now a form) ?Q (\<lambda>_ _. True) s"
    unfolding confirmItemReceived_def
    by (intro step step_complete)
      (auto simp: inv credited_def settle_wallets held_def collateral_to_def)
  then show ?thesis using assms(2) by (rule wp_result)
qed

lemma demo_sales [simp]:
  "mget (mk_sales (demo_market ls bs [(i, x)] tx)) j = (if i = j then Some x else None)"
  "mget (mk_listings (demo_market [(i, l)] bs ss tx)) j = (if i = j then Some l else None)"
  "mk_bids (demo_market ls bs ss tx) = bs"
  by (simp_all add: demo_market_def)

lemma demo_people [simp]:
  "sl_seller demo_sent_sale = ''sara''" "sl_price demo_sent_sale = 1200" "sl_collateral demo_sent_sale = 200"
  "sl_seller demo_paid_sale = ''sara''" "sl_price demo_paid_sale = 1200" "sl_collateral demo_paid_sale = 200"
  "sl_seller demo_disputed_sale = ''sara''" "sl_buyer demo_disputed_sale = ''bob''" "sl_price demo_disputed_sale = 1200" "sl_collateral demo_disputed_sale = 200"
  "ac_id bob = ''bob''" "ac_id sara = ''sara''" "ac_id fay = ''fay''"
  by (simp_all add: demo_rows bob_def sara_def fay_def)

lemma demo_confirm: "\<exists>r t. confirmItemReceived 86400003 bob [''sale_id'' \<mapsto> demo_id CHR ''3''] demo_sent = (Inr r, t)"
  unfolding confirmItemReceived_def completeSale_def releaseCollateral_def
  by (simp add: demo_run bump_sale_def sale_check_def sale_guard_def listing_check_def listing_guard_def HOUR_def lock_key_def release_key_def
    pay_key_def payout_key_def lock_tx_def pay_tx_def moves_def cong: abind_first)

lemma confirmation_pays_the_seller_witness:
  "credited demo_sent (snd (confirmItemReceived 86400003 bob [''sale_id'' \<mapsto> demo_id CHR ''3''] demo_sent)) (\<lambda>v. if v = ''sara'' then 1400 else 0)"
proof -
  obtain r t where run: "confirmItemReceived 86400003 bob [''sale_id'' \<mapsto> demo_id CHR ''3''] demo_sent = (Inr r, t)" using demo_confirm by blast
  from confirmation_pays_the_seller [OF demo_reachable_sent run] run show ?thesis
    by (auto cong: if_cong)
qed

text \<open>A buyer who claims a refund after the delivery date has passed receives the price and the seller's collateral, and
  the listing and the sale are closed against the seller.\<close>

theorem late_delivery_pays_the_buyer:
  assumes "item_reachable s" "claimItemRefund now a form s = (Inr r, t)"
  shows "\<exists>sid x l. uuid form ''sale_id'' = Inr sid \<and> mget (mk_sales s) sid = Some x \<and> mget (mk_listings s) (sl_listing x) = Some l
    \<and> sl_buyer x = ac_id a \<and> li_deliveryDue l < now \<and> map_option sl_status (mget (mk_sales t) sid) = Some SELLER_DEFAULTED
    \<and> credited s t (\<lambda>v. if v = ac_id a then sl_price x + sl_collateral x else 0)"
proof -
  have inv: "market_inv s" using assms(1) by (rule market_reachable_inv)
  let ?Q = "\<lambda>_ t. \<exists>sid x l. uuid form ''sale_id'' = Inr sid \<and> mget (mk_sales s) sid = Some x \<and> mget (mk_listings s) (sl_listing x) = Some l
    \<and> sl_buyer x = ac_id a \<and> li_deliveryDue l < now \<and> map_option sl_status (mget (mk_sales t) sid) = Some SELLER_DEFAULTED
    \<and> credited s t (\<lambda>v. if v = ac_id a then sl_price x + sl_collateral x else 0)"
  have "wp (claimItemRefund now a form) ?Q (\<lambda>_ _. True) s"
    unfolding claimItemRefund_def
    by (intro step step_default) (auto simp: inv credited_def settle_wallets held_def collateral_to_def)
  then show ?thesis using assms(2) by (rule wp_result)
qed

lemma demo_claim: "\<exists>r t. claimItemRefund 691200001 bob [''sale_id'' \<mapsto> demo_id CHR ''3''] demo_paid = (Inr r, t)"
  unfolding claimItemRefund_def defaultSeller_def refundPayment_def releaseCollateral_def
  by (simp add: demo_run bump_sale_def sale_check_def sale_guard_def listing_check_def listing_guard_def HOUR_def lock_key_def release_key_def
    pay_key_def refund_key_def lock_tx_def pay_tx_def moves_def cong: abind_first)

lemma late_delivery_pays_the_buyer_witness:
  "credited demo_paid (snd (claimItemRefund 691200001 bob [''sale_id'' \<mapsto> demo_id CHR ''3''] demo_paid)) (\<lambda>v. if v = ''bob'' then 1400 else 0)"
proof -
  obtain r t where run: "claimItemRefund 691200001 bob [''sale_id'' \<mapsto> demo_id CHR ''3''] demo_paid = (Inr r, t)" using demo_claim by blast
  from late_delivery_pays_the_buyer [OF demo_reachable_paid run] run show ?thesis
    by (auto cong: if_cong)
qed

definition decided :: "string \<Rightarrow> sale \<Rightarrow> string \<Rightarrow> int" where
  "decided outcome x v = (if v = (if outcome = ''RELEASE_TO_SELLER'' then sl_seller x else sl_buyer x) then sl_price x else 0)
     + (if v = (if outcome = ''REFUND_WITH_COLLATERAL'' then sl_buyer x else sl_seller x) then sl_collateral x else 0)"

text \<open>C19. A decided dispute pays exactly as decided: the price goes to the seller if the sale is released and to the buyer
  otherwise, the collateral goes to the buyer only if the refund is decided with it, and only finance or an
  administrator decides.\<close>

theorem dispute_pays_as_decided:
  assumes "item_reachable s" "resolveItemDispute now a form s = (Inr r, t)"
  shows "\<exists>sid x outcome. text_field form ''outcome'' True DEFAULT_MAX_LENGTH = Inr outcome \<and> uuid form ''sale_id'' = Inr sid
    \<and> mget (mk_sales s) sid = Some x \<and> sl_status x = DISPUTED \<and> requireRole a [''finance'', ''admin''] = Inr () \<and> credited s t (decided outcome x)"
proof -
  have inv: "market_inv s" using assms(1) by (rule market_reachable_inv)
  let ?Q = "\<lambda>_ t. \<exists>sid x outcome. text_field form ''outcome'' True DEFAULT_MAX_LENGTH = Inr outcome \<and> uuid form ''sale_id'' = Inr sid
    \<and> mget (mk_sales s) sid = Some x \<and> sl_status x = DISPUTED \<and> requireRole a [''finance'', ''admin''] = Inr () \<and> credited s t (decided outcome x)"
  have "wp (resolveItemDispute now a form) ?Q (\<lambda>_ _. True) s"
    unfolding resolveItemDispute_def Let_def
    by (intro step step_complete step_default step_refund step_resolution)
      (auto simp: inv credited_def decided_def settle_wallets held_def collateral_to_def)
  then show ?thesis using assms(2) by (rule wp_result)
qed

lemma demo_resolve: "\<exists>r t. resolveItemDispute 86400004 fay [''sale_id'' \<mapsto> demo_id CHR ''3'', ''outcome'' \<mapsto> ''REFUND'', ''reason'' \<mapsto> ''Both are right''] demo_disputed = (Inr r, t)"
  unfolding resolveItemDispute_def refundPayment_def releaseCollateral_def Let_def
  by (simp add: demo_run bump_sale_def sale_check_def sale_guard_def listing_check_def listing_guard_def HOUR_def lock_key_def release_key_def
    pay_key_def refund_key_def lock_tx_def pay_tx_def moves_def write_audit_def cong: abind_first)

lemma dispute_pays_as_decided_witness:
  "credited demo_disputed (snd (resolveItemDispute 86400004 fay [''sale_id'' \<mapsto> demo_id CHR ''3'', ''outcome'' \<mapsto> ''REFUND'', ''reason'' \<mapsto> ''Both are right''] demo_disputed))
     (\<lambda>v. (if v = ''bob'' then 1200 else 0) + (if v = ''sara'' then 200 else 0))"
proof -
  obtain r t where run: "resolveItemDispute 86400004 fay [''sale_id'' \<mapsto> demo_id CHR ''3'', ''outcome'' \<mapsto> ''REFUND'', ''reason'' \<mapsto> ''Both are right''] demo_disputed = (Inr r, t)"
    using demo_resolve by blast
  have "decided ''REFUND'' demo_disputed_sale = (\<lambda>v. (if v = ''bob'' then 1200 else 0) + (if v = ''sara'' then 200 else 0))"
    by (simp add: decided_def fun_eq_iff)
  with dispute_pays_as_decided [OF demo_reachable_disputed run] run demo_fields show ?thesis by auto
qed

section \<open>Bids\<close>


lemma demo_close_listing: "\<exists>t. closeListing 86400000 (demo_id CHR ''3'') (demo_id CHR ''1'') demo_bidden = (Inr Sold_To_Winner, t)"
  unfolding closeListing_def
  by (simp add: createSale_def demo_run bump_def listing_check_def listing_guard_def HOUR_def sale_check_def ITEM_PAYMENT_HOURS_def cong: abind_first)


definition minimum_bid :: "market \<Rightarrow> listing \<Rightarrow> int" where
  "minimum_bid s l = (case best s l of Some b \<Rightarrow> bi_amount b + li_increment l | None \<Rightarrow> li_starting l)"

text \<open>A live auction accepts the lowest bid its rules allow from anyone but the seller: the highest bid plus the increment,
  or the starting price when there is none, if that is below Buy Now; the bid is then the current one.\<close>

theorem minimum_bid_is_accepted:
  assumes "item_reachable s" "fresh_id i s" "assertFlags (mk_paymentsOpen s) (mk_flags s) [''BIDDING_ENABLED''] = Inr ()"
    and "uuid form ''listing_id'' = Inr lid" "mget (mk_listings s) lid = Some l" "li_status l = OPEN" "li_seller l \<noteq> ac_id a"
    and "li_startsAt l \<le> now" "now < li_endsAt l"
    and "ebind (text_field form ''amount'' True DEFAULT_MAX_LENGTH) money = Inr (minimum_bid s l)"
    and "case li_buyNow l of None \<Rightarrow> True | Some p \<Rightarrow> minimum_bid s l < p"
  shows "\<exists>r t. bidItem now i a form s = (Inr r, t) \<and> cr_id r = Some i
    \<and> mget (mk_bids t) i = Some \<lparr>bi_listing = lid, bi_bidder = ac_id a, bi_amount = minimum_bid s l, bi_sequence = li_bidCount l + 1\<rparr>
    \<and> map_option li_currentBid (mget (mk_listings t) lid) = Some (Some i)"
proof -
  have inv: "market_inv s" using assms(1) by (rule market_reachable_inv)
  let ?b = "\<lparr>bi_listing = lid, bi_bidder = ac_id a, bi_amount = minimum_bid s l, bi_sequence = li_bidCount l + 1\<rparr>"
  have "wp (bidItem now i a form) (\<lambda>r t. cr_id r = Some i \<and> mget (mk_bids t) i = Some ?b \<and> map_option li_currentBid (mget (mk_listings t) lid) = Some (Some i))
     (\<lambda>_ _. False) s"
    unfolding bidItem_def Let_def
    by (intro step step_bid)
      (use assms inv in \<open>auto simp: minimum_bid_def best_def fresh_id_def dest: money_chain split: option.splits\<close>)
  then show ?thesis by (auto simp: wp_def split: prod.splits sum.splits)
qed

lemma minimum_bid_is_accepted_witness:
  "fst (bidItem 3 (demo_id CHR ''4'') fay [''listing_id'' \<mapsto> demo_id CHR ''1'', ''amount'' \<mapsto> ''17''] demo_bidden)
     = Inr \<lparr>cr_path = path (demo_id CHR ''1''), cr_id = Some (demo_id CHR ''4'')\<rparr>"
proof -
  have bid: "minimum_bid demo_bidden demo_bid_listing = 1700" by (simp add: minimum_bid_def best_def demo_market_def demo_rows)
  have form: "uuid [''listing_id'' \<mapsto> demo_id CHR ''1'', ''amount'' \<mapsto> ''17''] ''listing_id'' = Inr (demo_id CHR ''1'')"
    "ebind (text_field [''listing_id'' \<mapsto> demo_id CHR ''1'', ''amount'' \<mapsto> ''17''] ''amount'' True DEFAULT_MAX_LENGTH) money = Inr 1700" by code_simp+
  have "\<exists>r t. bidItem 3 (demo_id CHR ''4'') fay [''listing_id'' \<mapsto> demo_id CHR ''1'', ''amount'' \<mapsto> ''17''] demo_bidden = (Inr r, t) \<and> cr_id r = Some (demo_id CHR ''4'')"
    using minimum_bid_is_accepted [OF demo_reachable_bidden, of "demo_id CHR ''4''" "[''listing_id'' \<mapsto> demo_id CHR ''1'', ''amount'' \<mapsto> ''17'']" "demo_id CHR ''1''"
      demo_bid_listing fay 3] form bid
    by (auto simp: fresh_id_def demo_market_def demo_rows assertFlags_def echeck_def fay_def)
  moreover have "wp (bidItem 3 (demo_id CHR ''4'') fay [''listing_id'' \<mapsto> demo_id CHR ''1'', ''amount'' \<mapsto> ''17''])
      (\<lambda>r _. cr_path r = path (demo_id CHR ''1'')) (\<lambda>_ _. True) demo_bidden"
    unfolding bidItem_def Let_def by (simp add: wp form split: sum.split option.split)
  ultimately show ?thesis by (auto simp: wp_def)
qed

section \<open>Errors\<close>

text \<open>In a reachable state no item command but the creation of a listing and the opening of a dispute runs into an
  internal error, whatever the form, when the database draws a new id: it succeeds or refuses with a code.\<close>

theorem commands_fail_only_by_refusal:
  assumes "item_reachable s" "fresh_id i s" "mget itemCommands n = Some h" "n \<noteq> ''create_item_listing''" "n \<noteq> ''dispute_item_sale''"
  shows "fst (h pf now i a form s) \<noteq> Inl Crashed"
proof -
  have inv: "market_inv s" using assms(1) by (rule market_reachable_inv)
  have "(n, h) \<in> set itemCommands" using assms(3) by (rule mget_mem)
  then have "safe (h pf now i a form) s" using assms(4,5)
    unfolding itemCommands_def list.set insert_iff prod.inject empty_iff
    by (elim disjE conjE FalseE; simp only: not_True_eq_False simp_thms; intro inv assms(2) safe_bidItem safe_buyItemNow safe_postItemCollateral safe_cancelItemListing
      safe_setItemImages safe_payItemSale safe_markItemDelivered safe_confirmItemReceived safe_claimItemRefund safe_resolveItemDispute)
  then show ?thesis by (auto simp: wp_def split: prod.splits sum.splits)
qed

lemma commands_fail_only_by_refusal_witness: "fst (confirmItemReceived 0 bob [''sale_id'' \<mapsto> ''no such id''] demo_sent) \<noteq> Inl Crashed"
  by (rule commands_fail_only_by_refusal [OF demo_reachable_sent, of "demo_id CHR ''9''" "''confirm_item_received''" "\<lambda>pf now i. confirmItemReceived now"])
    (simp_all add: itemCommands_def fresh_id_def demo_market_def)

text \<open>A dispute reason of fewer than 10 or more than 1000 characters passes the checks of the command but not those of the
  table: the command ends in an internal error instead of a refusal.\<close>

theorem short_dispute_reason_crashes:
  assumes "mget (mk_sales s) sid = Some x" "mget (mk_listings s) (sl_listing x) \<noteq> None" "sl_buyer x = ac_id a" "sl_status x = AWAITING_DELIVERY"
    and "uuid form ''sale_id'' = Inr sid" "item_field form ''dispute_reason'' 4000 = Inr reason" "length reason < 10 \<or> 1000 < length reason"
  shows "disputeItemSale now a form s = (Inl Crashed, s)"
proof -
  have "\<not> sale_check (bump_sale (x\<lparr>sl_status := DISPUTED, sl_disputedAt := Some now, sl_disputeReason := Some reason\<rparr>))"
    using assms(7) by (auto simp: sale_check_def bump_sale_def)
  then have "wp (disputeItemSale now a form) (\<lambda>_ _. False) (\<lambda>e t. e = Crashed \<and> t = s) s"
    using assms by (auto simp: disputeItemSale_def wp split: option.split)
  then show ?thesis by (auto simp: wp_def split: prod.splits sum.splits)
qed

lemma short_dispute_reason_crashes_witness:
  "disputeItemSale 86400002 bob [''sale_id'' \<mapsto> demo_id CHR ''3'', ''dispute_reason'' \<mapsto> ''broken''] demo_paid = (Inl Crashed, demo_paid)"
  by (rule short_dispute_reason_crashes [of _ "demo_id CHR ''3''" demo_paid_sale _ _ "''broken''"]) (simp_all add: demo_fields demo_market_def demo_rows bob_def)

section \<open>Clocks\<close>

text \<open>A listing that the clock has nothing to do for.\<close>

definition not_due :: "int \<Rightarrow> market \<Rightarrow> string \<Rightarrow> bool" where
  "not_due now s lid \<longleftrightarrow> (\<forall>l. mget (mk_listings s) lid = Some l \<longrightarrow> li_status l \<in> {OPEN, AWAITING_COLLATERAL} \<longrightarrow> now < li_endsAt l)"

lemma not_due_put:
  "not_due now (put_listing lid l s) k \<longleftrightarrow> (if k = lid then li_status l \<in> {OPEN, AWAITING_COLLATERAL} \<longrightarrow> now < li_endsAt l else not_due now s k)"
  "not_due now (put_tx key t s) k = not_due now s k" "not_due now (put_sale sid x s) k = not_due now s k"
  by (simp_all add: not_due_def)

lemma fresh_put:
  "fresh_id j (put_listing lid l s) \<longleftrightarrow> fresh_id j s \<and> j \<noteq> lid" "fresh_id j (put_tx key t s) = fresh_id j s"
  "fresh_id j (put_sale sid x s) \<longleftrightarrow> fresh_id j s \<and> j \<noteq> sid"
  by (auto simp: fresh_id_def)

lemma closeListing_closes:
  assumes "market_inv s" "fresh_id i s" "now \<le> time"
  shows "wp (closeListing time i lid) (\<lambda>_ t. market_inv t \<and> not_due now t lid \<and> (\<forall>k. not_due now s k \<longrightarrow> not_due now t k)
    \<and> (\<forall>j. fresh_id j s \<longrightarrow> j \<noteq> i \<longrightarrow> fresh_id j t)) (\<lambda>_ _. False) s"
  unfolding closeListing_def
  by (intro step step_sold step_drop step_unsold)
    (use assms in \<open>auto simp: not_due_put fresh_put dest: current_bid_there current_bid_valid inv_listing_check, auto simp: not_due_def fresh_id_def\<close>)

lemma each_closes:
  assumes "market_inv s" "\<And>k. now \<le> clock k" "inj_on ids (set lids)" "distinct lids" "\<And>k. k \<in> set lids \<Longrightarrow> fresh_id (ids k) s"
  shows "wp (each (\<lambda>lid. closeListing (clock lid) (ids lid) lid) lids)
    (\<lambda>_ t. \<forall>k. k \<in> set lids \<or> not_due now s k \<longrightarrow> not_due now t k) (\<lambda>_ _. False) s"
  using assms
proof (induction lids arbitrary: s)
  case (Cons lid lids)
  have *: "wp (each (\<lambda>lid. closeListing (clock lid) (ids lid) lid) lids)
      (\<lambda>_ u. \<forall>k. k \<in> set (lid # lids) \<or> not_due now s k \<longrightarrow> not_due now u k) (\<lambda>_ _. False) t"
    if t: "market_inv t" "not_due now t lid" "\<And>k. not_due now s k \<Longrightarrow> not_due now t k" "\<And>j. fresh_id j s \<Longrightarrow> j \<noteq> ids lid \<Longrightarrow> fresh_id j t" for t
  proof -
    have "wp (each (\<lambda>lid. closeListing (clock lid) (ids lid) lid) lids)
        (\<lambda>_ u. \<forall>k. k \<in> set lids \<or> not_due now t k \<longrightarrow> not_due now u k) (\<lambda>_ _. False) t"
      by (rule Cons.IH [OF t(1)]) (use Cons.prems t(4) in \<open>auto simp: inj_on_def\<close>)
    then show ?thesis by (rule wp_mono) (use t(2,3) in auto)
  qed
  have "fresh_id (ids lid) s" "now \<le> clock lid" using Cons.prems by auto
  note closes = closeListing_closes [OF Cons.prems(1) this, of lid]
  show ?case unfolding each.simps wp_abind wp_transact wp_areturn
    by (rule wp_mono [OF closes]) (use * in blast)+
qed (simp add: wp)



lemma settleSale_skips:
  assumes "mget (mk_sales s) sid = Some x" "mget (mk_listings s) (sl_listing x) = Some l" "\<not> sale_due now s x"
  shows "settleSale now sid s = (Inr Skipped, s)"
  using assms by (auto simp: settleSale_def sale_due_def abind_def aget_def areturn_def)

text \<open>The clock that settles sales can run twice on a sale without harm: it never refuses, it fails only when the sale does
  not exist, and after any run of it a second run at the same time changes nothing.\<close>

theorem settling_twice_changes_nothing:
  assumes "item_reachable s" "mget (mk_sales s) sid \<noteq> None"
  shows "\<exists>r t. settleSale now sid s = (Inr r, t) \<and> settleSale now sid t = (Inr Skipped, t)"
proof -
  have inv: "market_inv s" using assms(1) by (rule market_reachable_inv)
  have "wp (settleSale now sid) (\<lambda>_ t. settleSale now sid t = (Inr Skipped, t)) (\<lambda>_ _. False) s"
    by (subst settleSale_def) (intro step step_complete step_default step_expire, use assms(2) inv in \<open>auto intro!: settleSale_skips simp: sale_due_def dest: sale_listing_there\<close>)
  then show ?thesis by (auto simp: wp_def split: prod.splits sum.splits)
qed

lemma settling_twice_changes_nothing_witness:
  "\<exists>r t. settleSale 691200001 (demo_id CHR ''3'') demo_paid = (Inr r, t) \<and> settleSale 691200001 (demo_id CHR ''3'') t = (Inr Skipped, t)"
  by (rule settling_twice_changes_nothing [OF demo_reachable_paid]) simp

end
