(* ===== verification/Money_Policies.thy ===== *)
theory Money_Policies
  imports Prelude
begin

text \<open>
  Two policies of pure integer arithmetic: who bears a provider cost that changes after capture
  (\<open>src/modules/payments/cost-policy.ts\<close>), and what a performance campaign pays for a measured post
  (\<open>src/modules/publish/performance.ts\<close>). Amounts are unbounded integers, as in the source.
\<close>

section \<open>Late provider costs\<close>

datatype cost_phase = BEFORE_RELEASE | AFTER_RELEASE | NO_CREATOR_SETTLEMENT

datatype cost_fee_payer = CREATOR_AT_COST | PLATFORM_SUBSIDIZED

record late_cost_input =
  lc_delta :: int
  lc_feePayer :: cost_fee_payer
  lc_phase :: cost_phase
  lc_creatorGross :: int
  lc_creatorBorne :: int
  lc_capMinor :: int
  lc_creatorLateIncreasesSoFar :: int

record late_cost_shares =
  ls_creatorShare :: int
  ls_platformShare :: int
  ls_creatorCredit :: int

definition DEFAULT_LATE_COST_CAP_BPS :: int where
  "DEFAULT_LATE_COST_CAP_BPS = 100"

definition lateCostShares :: "late_cost_input \<Rightarrow> late_cost_shares" where
  "lateCostShares i =
     (let delta = lc_delta i in
      if delta = 0 \<or> lc_feePayer i = PLATFORM_SUBSIDIZED \<or> lc_phase i = NO_CREATOR_SETTLEMENT
      then \<lparr>ls_creatorShare = 0, ls_platformShare = delta, ls_creatorCredit = 0\<rparr>
      else if lc_phase i = AFTER_RELEASE
      then let creatorCredit = (if delta < 0 then min (- delta) (lc_creatorBorne i) else 0) in
           \<lparr>ls_creatorShare = 0, ls_platformShare = delta, ls_creatorCredit = creatorCredit\<rparr>
      else if delta > 0
      then let capRemaining = max 0 (lc_capMinor i - lc_creatorLateIncreasesSoFar i);
               keepsNetPositive = max 0 (lc_creatorGross i - lc_creatorBorne i - 1);
               creatorShare = min delta (min capRemaining keepsNetPositive) in
           \<lparr>ls_creatorShare = creatorShare, ls_platformShare = delta - creatorShare, ls_creatorCredit = 0\<rparr>
      else let creatorShare = - min (- delta) (lc_creatorBorne i) in
           \<lparr>ls_creatorShare = creatorShare, ls_platformShare = delta - creatorShare, ls_creatorCredit = 0\<rparr>)"

text \<open>\<open>raw\<close> is \<open>process.env.LATE_COST_CAP_BPS\<close>, \<open>integerOf s\<close> the value of \<open>Number(s)\<close> when it is an integer.\<close>

definition lateCostCapBps :: "(string \<Rightarrow> int option) \<Rightarrow> string option \<Rightarrow> int" where
  "lateCostCapBps integerOf raw =
     (case raw of
        None \<Rightarrow> DEFAULT_LATE_COST_CAP_BPS
      | Some s \<Rightarrow>
          if s = [] then DEFAULT_LATE_COST_CAP_BPS
          else (case integerOf s of
                  Some bps \<Rightarrow> if bps \<ge> 0 \<and> bps \<le> 1000 then bps else DEFAULT_LATE_COST_CAP_BPS
                | None \<Rightarrow> DEFAULT_LATE_COST_CAP_BPS))"

text \<open>What the creator may bear of an increase: their cumulative late increases stay within the cap and they keep a positive
  amount.\<close>

definition bearable :: "late_cost_input \<Rightarrow> int \<Rightarrow> bool" where
  "bearable i share \<longleftrightarrow> 0 \<le> share \<and> share \<le> lc_delta i \<and> lc_creatorLateIncreasesSoFar i + share \<le> lc_capMinor i
     \<and> lc_creatorBorne i + share < lc_creatorGross i"

text \<open>A late cost is split without loss. Before the payout, under cost at cost, the creator bears of an increase the largest
  share that keeps their late increases within the cap and their net positive, and a decrease lowers what they bear but
  never below zero; after the payout nothing is taken back, and a lower cost is owed to them up to what they bore.\<close>

theorem late_costs_are_shared_fairly:
  assumes "0 \<le> lc_creatorBorne i" "lc_creatorBorne i < lc_creatorGross i" "lc_creatorLateIncreasesSoFar i \<le> lc_capMinor i"
    "lc_feePayer i = CREATOR_AT_COST"
  defines "r \<equiv> lateCostShares i"
  shows "ls_creatorShare r + ls_platformShare r = lc_delta i
    \<and> (lc_phase i = BEFORE_RELEASE \<and> lc_delta i > 0 \<longrightarrow>
         bearable i (ls_creatorShare r) \<and> (\<forall>share. bearable i share \<longrightarrow> share \<le> ls_creatorShare r) \<and> ls_creatorCredit r = 0)
    \<and> (lc_phase i = BEFORE_RELEASE \<and> lc_delta i \<le> 0 \<longrightarrow>
         ls_creatorShare r \<le> 0 \<and> lc_creatorBorne i + ls_creatorShare r = max 0 (lc_creatorBorne i + lc_delta i) \<and> ls_creatorCredit r = 0)
    \<and> (lc_phase i = AFTER_RELEASE \<longrightarrow>
         ls_creatorShare r = 0 \<and> ls_creatorCredit r = min (max 0 (- lc_delta i)) (lc_creatorBorne i))"
  using assms(1-4) by (cases "lc_phase i") (auto simp: r_def lateCostShares_def bearable_def Let_def)

lemma late_costs_are_shared_fairly_witness:
  "ls_creatorShare (lateCostShares \<lparr>lc_delta = 90, lc_feePayer = CREATOR_AT_COST, lc_phase = BEFORE_RELEASE, lc_creatorGross = 1000,
     lc_creatorBorne = 30, lc_capMinor = 100, lc_creatorLateIncreasesSoFar = 40\<rparr>) = 60"
proof -
  let ?i = "\<lparr>lc_delta = 90, lc_feePayer = CREATOR_AT_COST, lc_phase = BEFORE_RELEASE, lc_creatorGross = 1000,
     lc_creatorBorne = 30, lc_capMinor = 100, lc_creatorLateIncreasesSoFar = 40\<rparr>"
  have "bearable ?i (ls_creatorShare (lateCostShares ?i))" "bearable ?i 60 \<longrightarrow> 60 \<le> ls_creatorShare (lateCostShares ?i)"
    using late_costs_are_shared_fairly [of ?i] by simp_all
  then show ?thesis by (simp add: bearable_def)
qed

section \<open>Performance campaigns\<close>

definition VIEWS_PER_RPM_UNIT :: int where
  "VIEWS_PER_RPM_UNIT = 1000"

text \<open>\<open>hundredths\<close> is \<open>Math.round(multiplier * 100)\<close>.\<close>

definition viewsCap :: "int \<Rightarrow> int \<Rightarrow> int" where
  "viewsCap medianViews hundredths =
     (if hundredths \<le> 0 \<or> medianViews < 0 then 0 else (medianViews * hundredths) div 100)"

definition viewsPayable :: "int \<Rightarrow> int \<Rightarrow> int" where
  "viewsPayable measuredViews cap = (if measuredViews < cap then measuredViews else cap)"

definition viewBonusMinor :: "int \<Rightarrow> int \<Rightarrow> int \<Rightarrow> int" where
  "viewBonusMinor payableViews rpmRateMinor bonusCapMinor =
     (if payableViews \<le> 0 \<or> rpmRateMinor \<le> 0 \<or> bonusCapMinor \<le> 0 then 0
      else let earned = (payableViews div VIEWS_PER_RPM_UNIT) * rpmRateMinor in
           if earned < bonusCapMinor then earned else bonusCapMinor)"

definition maxPayoutMinor :: "int \<Rightarrow> int \<Rightarrow> int" where
  "maxPayoutMinor baseFeeMinor bonusCapMinor = baseFeeMinor + bonusCapMinor"

record measurement_input =
  ms_measuredViews :: int
  ms_viewsCap :: int
  ms_rpmRateMinor :: int
  ms_bonusCapMinor :: int
  ms_baseFeeMinor :: int

record bonus_outcome =
  bo_viewsPayable :: int
  bo_bonusMinor :: int
  bo_payoutMinor :: int
  bo_refundMinor :: int

definition settleMeasurement :: "measurement_input \<Rightarrow> bonus_outcome" where
  "settleMeasurement i =
     (let payable = viewsPayable (ms_measuredViews i) (ms_viewsCap i);
          bonus = viewBonusMinor payable (ms_rpmRateMinor i) (ms_bonusCapMinor i);
          payout = ms_baseFeeMinor i + bonus in
      \<lparr>bo_viewsPayable = payable, bo_bonusMinor = bonus, bo_payoutMinor = payout, bo_refundMinor = ms_bonusCapMinor i - bonus\<rparr>)"

lemma viewBonus_mono:
  assumes "v \<le> w"
  shows "viewBonusMinor v rate cap \<le> viewBonusMinor w rate cap"
proof (cases "v \<le> 0 \<or> rate \<le> 0 \<or> cap \<le> 0")
  case True
  have "0 \<le> (w div 1000) * rate" if "0 < w" "0 < rate"
    using that by (simp add: pos_imp_zdiv_nonneg_iff)
  with True assms show ?thesis by (auto simp: viewBonusMinor_def VIEWS_PER_RPM_UNIT_def Let_def)
next
  case False
  have "(v div 1000) * rate \<le> (w div 1000) * rate"
    by (rule mult_right_mono) (use False assms in \<open>auto intro: zdiv_mono1\<close>)
  then have "min ((v div 1000) * rate) cap \<le> min ((w div 1000) * rate) cap" by (rule min.mono) simp
  moreover have "viewBonusMinor x rate cap = min (x div 1000 * rate) cap" if "0 < x" for x
    using False that by (simp add: viewBonusMinor_def VIEWS_PER_RPM_UNIT_def Let_def min_def)
  then have "viewBonusMinor v rate cap = min (v div 1000 * rate) cap" "viewBonusMinor w rate cap = min (w div 1000 * rate) cap"
    using False assms by simp_all
  ultimately show ?thesis by (simp only:)
qed

text \<open>What a campaign holds for a hire covers every settlement exactly: payout and refund add up to the held amount, the bonus
  is the formula of the frozen terms and lies between zero and its cap, more views never pay less, and views beyond the cap
  pay nothing more.\<close>

theorem measured_posts_settle_within_the_hold:
  assumes "0 \<le> ms_bonusCapMinor i" "0 \<le> ms_rpmRateMinor i" "0 \<le> ms_measuredViews i" "0 \<le> ms_viewsCap i" "ms_measuredViews i \<le> laterViews"
  shows "bo_payoutMinor (settleMeasurement i) + bo_refundMinor (settleMeasurement i) = maxPayoutMinor (ms_baseFeeMinor i) (ms_bonusCapMinor i)
    \<and> bo_bonusMinor (settleMeasurement i)
        = min (min (ms_measuredViews i) (ms_viewsCap i) div 1000 * ms_rpmRateMinor i) (ms_bonusCapMinor i)
    \<and> 0 \<le> bo_bonusMinor (settleMeasurement i) \<and> bo_bonusMinor (settleMeasurement i) \<le> ms_bonusCapMinor i
    \<and> bo_bonusMinor (settleMeasurement i) \<le> bo_bonusMinor (settleMeasurement (i\<lparr>ms_measuredViews := laterViews\<rparr>))"
proof -
  have p: "viewsPayable v (ms_viewsCap i) = min v (ms_viewsCap i)" for v
    by (simp add: viewsPayable_def)
  have mono: "bo_bonusMinor (settleMeasurement i) \<le> bo_bonusMinor (settleMeasurement (i\<lparr>ms_measuredViews := laterViews\<rparr>))"
    using assms(5) by (simp add: settleMeasurement_def Let_def viewBonus_mono p)
  have nonneg: "0 \<le> min (ms_measuredViews i) (ms_viewsCap i) div 1000 * ms_rpmRateMinor i"
    using assms by (simp add: pos_imp_zdiv_nonneg_iff)
  have bonus: "bo_bonusMinor (settleMeasurement i)
        = min (min (ms_measuredViews i) (ms_viewsCap i) div 1000 * ms_rpmRateMinor i) (ms_bonusCapMinor i)"
    using assms nonneg unfolding settleMeasurement_def Let_def p
    by (auto simp: viewBonusMinor_def VIEWS_PER_RPM_UNIT_def Let_def)
  have "bo_payoutMinor (settleMeasurement i) + bo_refundMinor (settleMeasurement i) = maxPayoutMinor (ms_baseFeeMinor i) (ms_bonusCapMinor i)"
    by (simp add: settleMeasurement_def maxPayoutMinor_def Let_def)
  with mono nonneg assms(1) bonus show ?thesis by simp
qed

lemma measured_posts_settle_within_the_hold_witness:
  "bo_bonusMinor (settleMeasurement \<lparr>ms_measuredViews = 12999, ms_viewsCap = 30000, ms_rpmRateMinor = 250, ms_bonusCapMinor = 5000, ms_baseFeeMinor = 1000\<rparr>) = 3000"
  using measured_posts_settle_within_the_hold [of "\<lparr>ms_measuredViews = 12999, ms_viewsCap = 30000, ms_rpmRateMinor = 250, ms_bonusCapMinor = 5000, ms_baseFeeMinor = 1000\<rparr>" 12999]
  by simp

end
