(* ===== verification/Pools.thy ===== *)
theory Pools
  imports Commands
begin

text \<open>
  The per-asset buckets of a campaign pool: \<open>src/modules/pools/balances.ts\<close> over the tables of
  \<open>drizzle/0010_campaign_pools.sql\<close> with their checks, unique keys and triggers. A movement runs in its
  caller's transaction, so what it wrote before it throws is gone. A column holds fewer than \<open>10^78\<close> units.
\<close>

section \<open>State\<close>

datatype pool_status = FUNDING | ACTIVE | CLOSED

datatype movement =
    DEPOSIT | ALLOCATE | DEALLOCATE | RELEASE_START | RELEASE_DONE | RELEASE_FAILED | REFUND_START | REFUND_DONE | REFUND_FAILED

datatype bucket = Unallocated | Allocated_active | Pending_outflow | Released | Refunded

record pool_asset =
  pa_pool :: string
  pa_required :: bool
  pa_target :: int
  pa_confirmed_deposit :: int
  pa_unallocated :: int
  pa_allocated_active :: int
  pa_pending_outflow :: int
  pa_released :: int
  pa_refunded :: int

record pool_journal_entry =
  pj_asset :: string
  pj_movement :: movement
  pj_amount :: int
  pj_reference :: string

record pools =
  ps_pools :: "(string \<times> pool_status) list"
  ps_assets :: "(string \<times> pool_asset) list"
  ps_journal :: "pool_journal_entry list"

type_synonym 'a pool_action = "(pools, failure, 'a) action"

fun pa_bucket :: "bucket \<Rightarrow> pool_asset \<Rightarrow> int" where
  "pa_bucket Unallocated a = pa_unallocated a"
| "pa_bucket Allocated_active a = pa_allocated_active a"
| "pa_bucket Pending_outflow a = pa_pending_outflow a"
| "pa_bucket Released a = pa_released a"
| "pa_bucket Refunded a = pa_refunded a"

fun add_bucket :: "bucket \<Rightarrow> int \<Rightarrow> pool_asset \<Rightarrow> pool_asset" where
  "add_bucket Unallocated n a = a\<lparr>pa_unallocated := pa_unallocated a + n\<rparr>"
| "add_bucket Allocated_active n a = a\<lparr>pa_allocated_active := pa_allocated_active a + n\<rparr>"
| "add_bucket Pending_outflow n a = a\<lparr>pa_pending_outflow := pa_pending_outflow a + n\<rparr>"
| "add_bucket Released n a = a\<lparr>pa_released := pa_released a + n\<rparr>"
| "add_bucket Refunded n a = a\<lparr>pa_refunded := pa_refunded a + n\<rparr>"

section \<open>Constraints\<close>

definition COLUMN_LIMIT :: int where "COLUMN_LIMIT = 10 ^ 78"

definition all_buckets :: "bucket list" where
  "all_buckets = [Unallocated, Allocated_active, Pending_outflow, Released, Refunded]"

definition pool_assets_nonnegative :: "pool_asset \<Rightarrow> bool" where
  "pool_assets_nonnegative a \<longleftrightarrow> pa_confirmed_deposit a \<ge> 0 \<and> pa_unallocated a \<ge> 0 \<and> pa_allocated_active a \<ge> 0
     \<and> pa_pending_outflow a \<ge> 0 \<and> pa_released a \<ge> 0 \<and> pa_refunded a \<ge> 0"

definition pool_assets_conservation :: "pool_asset \<Rightarrow> bool" where
  "pool_assets_conservation a \<longleftrightarrow>
     pa_confirmed_deposit a = pa_unallocated a + pa_allocated_active a + pa_pending_outflow a + pa_released a + pa_refunded a"

definition pool_asset_guard :: "pool_asset \<Rightarrow> pool_asset \<Rightarrow> bool" where
  "pool_asset_guard old new \<longleftrightarrow> pa_pool new = pa_pool old
     \<and> \<not> (pa_confirmed_deposit new < pa_confirmed_deposit old \<or> pa_released new < pa_released old \<or> pa_refunded new < pa_refunded old)"

definition columns_fit :: "pool_asset \<Rightarrow> bool" where
  "columns_fit a \<longleftrightarrow> pa_confirmed_deposit a < COLUMN_LIMIT \<and> list_all (\<lambda>b. \<bar>pa_bucket b a\<bar> < COLUMN_LIMIT) all_buckets"

section \<open>Operations\<close>

fun MOVES :: "movement \<Rightarrow> bucket option \<times> bucket" where
  "MOVES DEPOSIT = (None, Unallocated)"
| "MOVES ALLOCATE = (Some Unallocated, Allocated_active)"
| "MOVES DEALLOCATE = (Some Allocated_active, Unallocated)"
| "MOVES RELEASE_START = (Some Allocated_active, Pending_outflow)"
| "MOVES RELEASE_DONE = (Some Pending_outflow, Released)"
| "MOVES RELEASE_FAILED = (Some Pending_outflow, Allocated_active)"
| "MOVES REFUND_START = (Some Unallocated, Pending_outflow)"
| "MOVES REFUND_DONE = (Some Pending_outflow, Refunded)"
| "MOVES REFUND_FAILED = (Some Pending_outflow, Unallocated)"

definition moved :: "movement \<Rightarrow> int \<Rightarrow> pool_asset \<Rightarrow> pool_asset" where
  "moved movement amount a = (case MOVES movement of
     (None, to) \<Rightarrow> add_bucket to amount (a\<lparr>pa_confirmed_deposit := pa_confirmed_deposit a + amount\<rparr>)
   | (Some from, to) \<Rightarrow> add_bucket to amount (add_bucket from (- amount) a))"

text \<open>The update's trigger and checks, in the order the database applies them; only \<open>pool_assets_nonnegative\<close> is turned into a
  refusal.\<close>

definition update_pool_asset :: "string \<Rightarrow> (pool_asset \<Rightarrow> pool_asset) \<Rightarrow> unit pool_action" where
  "update_pool_asset aid f =
     abind (aget (\<lambda>s. mget (ps_assets s) aid)) (\<lambda>row. case row of
       None \<Rightarrow> areturn ()
     | Some old \<Rightarrow>
         abind (acheck (columns_fit (f old)) Crashed) (\<lambda>_.
         abind (acheck (pool_asset_guard old (f old)) Crashed) (\<lambda>_.
         abind (acheck (pool_assets_conservation (f old)) Crashed) (\<lambda>_.
         abind (acheck (pool_assets_nonnegative (f old)) (Refused BUDGET_EXCEEDED)) (\<lambda>_.
         amodify (\<lambda>s. s\<lparr>ps_assets := mput aid (f old) (ps_assets s)\<rparr>))))))"

definition moveBalance :: "string \<Rightarrow> movement \<Rightarrow> int \<Rightarrow> string \<Rightarrow> bool pool_action" where
  "moveBalance aid movement amount reference =
     abind (acheck (\<not> amount \<le> 0) Crashed) (\<lambda>_.
     abind (acheck (amount < COLUMN_LIMIT) Crashed) (\<lambda>_.
     abind (aget (\<lambda>s. list_ex (\<lambda>e. pj_movement e = movement \<and> pj_reference e = reference) (ps_journal s))) (\<lambda>previous.
     if previous then areturn False
     else abind (aget (\<lambda>s. mget (ps_assets s) aid \<noteq> None)) (\<lambda>known.
          abind (acheck known Crashed) (\<lambda>_.
          abind (amodify (\<lambda>s. s\<lparr>ps_journal := ps_journal s @
            [\<lparr>pj_asset = aid, pj_movement = movement, pj_amount = amount, pj_reference = reference\<rparr>]\<rparr>)) (\<lambda>_.
          abind (update_pool_asset aid (moved movement amount)) (\<lambda>_.
          areturn True)))))))"

text \<open>The status afterwards, none when the pool does not exist (the text \<open>undefined\<close>).\<close>

definition refreshPoolStatus :: "string \<Rightarrow> pool_status option pool_action" where
  "refreshPoolStatus pid =
     abind (aget (\<lambda>s. mget (ps_pools s) pid)) (\<lambda>row. case row of
       None \<Rightarrow> areturn None
     | Some status \<Rightarrow>
         abind (aget (\<lambda>s. filter (\<lambda>(_, a). pa_pool a = pid \<and> pa_required a \<and> pa_confirmed_deposit a - pa_refunded a < pa_target a) (ps_assets s))) (\<lambda>short.
         let next_status = (if status = CLOSED then CLOSED else if short = [] then ACTIVE else FUNDING) in
         abind (amodify (\<lambda>s. s\<lparr>ps_pools := mput pid next_status (ps_pools s)\<rparr>)) (\<lambda>_.
         areturn (Some next_status))))"

section \<open>Specification\<close>

text \<open>The buckets a journal says there are.\<close>

definition journal_bucket :: "string \<Rightarrow> bucket \<Rightarrow> pool_journal_entry list \<Rightarrow> int" where
  "journal_bucket aid b js = (\<Sum>e\<leftarrow>js. if pj_asset e = aid
     then (if snd (MOVES (pj_movement e)) = b then pj_amount e else 0) - (if fst (MOVES (pj_movement e)) = Some b then pj_amount e else 0) else 0)"

definition journal_deposits :: "string \<Rightarrow> pool_journal_entry list \<Rightarrow> int" where
  "journal_deposits aid js = (\<Sum>e\<leftarrow>js. if pj_asset e = aid \<and> pj_movement e = DEPOSIT then pj_amount e else 0)"

definition asset_inv :: "pool_journal_entry list \<Rightarrow> string \<Rightarrow> pool_asset \<Rightarrow> bool" where
  "asset_inv js aid a \<longleftrightarrow> (\<forall>b. pa_bucket b a = journal_bucket aid b js) \<and> pa_confirmed_deposit a = journal_deposits aid js
     \<and> pool_assets_nonnegative a \<and> pool_assets_conservation a"

definition pools_inv :: "pools \<Rightarrow> bool" where
  "pools_inv s \<longleftrightarrow> mok (ps_assets s) \<and> (\<forall>aid a. mget (ps_assets s) aid = Some a \<longrightarrow> asset_inv (ps_journal s) aid a)
     \<and> (\<forall>e \<in> set (ps_journal s). mget (ps_assets s) (pj_asset e) \<noteq> None \<and> 0 < pj_amount e)
     \<and> distinct (map (\<lambda>e. (pj_movement e, pj_reference e)) (ps_journal s))"

lemma pa_bucket_add [simp]: "pa_bucket b (add_bucket c n a) = pa_bucket b a + (if b = c then n else 0)"
  by (cases b; cases c) simp_all

lemma pa_deposit_add [simp]: "pa_confirmed_deposit (add_bucket c n a) = pa_confirmed_deposit a"
  by (cases c) simp_all

lemma pa_bucket_deposit [simp]: "pa_bucket b (a\<lparr>pa_confirmed_deposit := d\<rparr>) = pa_bucket b a"
  by (cases b) simp_all

lemma bucket_moved: "pa_bucket b (moved m n a) = pa_bucket b a + (if snd (MOVES m) = b then n else 0) - (if fst (MOVES m) = Some b then n else 0)"
  by (cases m) (simp_all add: moved_def del: add_bucket.simps)

lemma deposit_moved: "pa_confirmed_deposit (moved m n a) = pa_confirmed_deposit a + (if m = DEPOSIT then n else 0)"
  by (cases m) (simp_all add: moved_def)

lemma pool_moved [simp]: "pa_pool (moved m n a) = pa_pool a"
proof -
  have "pa_pool (add_bucket c k x) = pa_pool x" for c k x by (cases c) simp_all
  then show ?thesis by (cases m) (simp_all add: moved_def)
qed

lemma conservation_moved: "pool_assets_conservation a \<Longrightarrow> pool_assets_conservation (moved m n a)"
  by (cases m) (simp_all add: pool_assets_conservation_def moved_def)

lemma journal_snoc [simp]:
  "journal_bucket aid b (js @ [e]) = journal_bucket aid b js + (if pj_asset e = aid
     then (if snd (MOVES (pj_movement e)) = b then pj_amount e else 0) - (if fst (MOVES (pj_movement e)) = Some b then pj_amount e else 0) else 0)"
  "journal_deposits aid (js @ [e]) = journal_deposits aid js + (if pj_asset e = aid \<and> pj_movement e = DEPOSIT then pj_amount e else 0)"
  by (simp_all add: journal_bucket_def journal_deposits_def)

lemma asset_inv_moved:
  assumes "asset_inv js aid a" "e = \<lparr>pj_asset = aid, pj_movement = m, pj_amount = n, pj_reference = r\<rparr>" "pool_assets_nonnegative (moved m n a)"
  shows "asset_inv (js @ [e]) aid (moved m n a)"
  using assms by (simp add: asset_inv_def bucket_moved deposit_moved conservation_moved)

lemma asset_inv_other: "asset_inv js k a \<Longrightarrow> pj_asset e \<noteq> k \<Longrightarrow> asset_inv (js @ [e]) k a"
  by (simp add: asset_inv_def)

lemma moveBalance_keeps: "pools_inv s \<Longrightarrow> wp (moveBalance aid m n r) (\<lambda>_ t. pools_inv t) (\<lambda>_ _. True) s"
  by (auto simp: moveBalance_def update_pool_asset_def wp pools_inv_def list_ex_iff split: option.split
    intro!: asset_inv_moved intro: asset_inv_other)

lemma bucket_bounds:
  assumes "pool_assets_nonnegative a" "pool_assets_conservation a"
  shows "0 \<le> pa_bucket b a" "pa_bucket b a \<le> pa_confirmed_deposit a"
  using assms by (cases b; simp add: pool_assets_nonnegative_def pool_assets_conservation_def)+

section \<open>Reachable pools\<close>

definition new_pool_asset :: "string \<Rightarrow> bool \<Rightarrow> int \<Rightarrow> pool_asset" where
  "new_pool_asset pid required target = \<lparr>pa_pool = pid, pa_required = required, pa_target = target, pa_confirmed_deposit = 0,
     pa_unallocated = 0, pa_allocated_active = 0, pa_pending_outflow = 0, pa_released = 0, pa_refunded = 0\<rparr>"

text \<open>Movements and status refreshes, and what other code does to these tables: pools come and change status, assets are added
  empty, and a template changes what an asset must reach.\<close>

inductive pool_step :: "pools \<Rightarrow> pools \<Rightarrow> bool" where
  move: "pool_step s (snd (transact (moveBalance aid m n r) s))"
| refresh: "pool_step s (snd (transact (refreshPoolStatus pid) s))"
| pool_change: "pool_step s (s\<lparr>ps_pools := ps\<rparr>)"
| add_asset: "mget (ps_assets s) aid = None \<Longrightarrow> pool_step s (s\<lparr>ps_assets := mput aid (new_pool_asset pid required target) (ps_assets s)\<rparr>)"
| retarget: "mget (ps_assets s) aid = Some a \<Longrightarrow> pool_step s (s\<lparr>ps_assets := mput aid (a\<lparr>pa_required := required, pa_target := target\<rparr>) (ps_assets s)\<rparr>)"

inductive pool_reachable :: "pools \<Rightarrow> bool" where
  no_pools: "pool_reachable \<lparr>ps_pools = [], ps_assets = [], ps_journal = []\<rparr>"
| after_pool_step: "pool_reachable s \<Longrightarrow> pool_step s t \<Longrightarrow> pool_reachable t"

lemma journal_unknown:
  assumes "\<And>e. e \<in> set js \<Longrightarrow> pj_asset e \<noteq> aid"
  shows "journal_bucket aid b js = 0" "journal_deposits aid js = 0"
  using assms by (induction js) (auto simp: journal_bucket_def journal_deposits_def)

lemma asset_inv_new: "(\<And>e. e \<in> set js \<Longrightarrow> pj_asset e \<noteq> aid) \<Longrightarrow> asset_inv js aid (new_pool_asset pid required target)"
proof -
  have "pa_bucket b (new_pool_asset pid required target) = 0" for b by (cases b) (simp_all add: new_pool_asset_def)
  then show "(\<And>e. e \<in> set js \<Longrightarrow> pj_asset e \<noteq> aid) \<Longrightarrow> ?thesis"
    by (simp add: asset_inv_def journal_unknown pool_assets_nonnegative_def pool_assets_conservation_def) (simp add: new_pool_asset_def)
qed

lemma asset_inv_retarget: "asset_inv js aid (a\<lparr>pa_required := required, pa_target := target\<rparr>) = asset_inv js aid a"
proof -
  have "pa_bucket b (a\<lparr>pa_required := required, pa_target := target\<rparr>) = pa_bucket b a" for b by (cases b) simp_all
  then show ?thesis by (simp add: asset_inv_def pool_assets_nonnegative_def pool_assets_conservation_def)
qed

lemma pool_step_inv: "pool_step s t \<Longrightarrow> pools_inv s \<Longrightarrow> pools_inv t"
proof (induction rule: pool_step.induct)
  case (move s aid m n r)
  show ?case using keeps_transact [OF moveBalance_keeps, OF move move] .
next
  case (refresh s pid)
  have "wp (refreshPoolStatus pid) (\<lambda>_ t. pools_inv t) (\<lambda>_ _. True) s"
    using refresh by (auto simp: refreshPoolStatus_def wp pools_inv_def Let_def split: option.split)
  then show ?case by (rule keeps_transact) (rule refresh)
next
  case (add_asset s aid pid required target)
  then show ?case by (auto simp: pools_inv_def intro!: asset_inv_new)
next
  case (retarget s aid a required target)
  then show ?case by (auto simp: pools_inv_def asset_inv_retarget)
qed (simp add: pools_inv_def)

lemma pool_reachable_inv: "pool_reachable s \<Longrightarrow> pools_inv s"
proof (induction rule: pool_reachable.induct)
  case no_pools
  show ?case by (simp add: pools_inv_def)
next
  case (after_pool_step s t)
  then show ?case by (blast intro: pool_step_inv)
qed

section \<open>Properties\<close>

text \<open>C22. In every reachable state each bucket of a pool's asset holds exactly what the journal's movements put into it and have
  not taken out, none is negative, and together they hold the confirmed deposits.\<close>

theorem buckets_follow_the_journal:
  assumes "pool_reachable s" "mget (ps_assets s) aid = Some a"
  shows "pa_bucket b a = journal_bucket aid b (ps_journal s) \<and> 0 \<le> pa_bucket b a
    \<and> pa_confirmed_deposit a = journal_deposits aid (ps_journal s)
    \<and> pa_confirmed_deposit a = sum_list (map (\<lambda>b. pa_bucket b a) all_buckets)"
proof -
  have a: "asset_inv (ps_journal s) aid a" using pool_reachable_inv [OF assms(1)] assms(2) by (simp add: pools_inv_def)
  then have "0 \<le> pa_bucket b a" unfolding asset_inv_def using bucket_bounds(1) by blast
  moreover have "pa_confirmed_deposit a = sum_list (map (\<lambda>b. pa_bucket b a) all_buckets)"
  proof -
    have "pool_assets_conservation a" using a unfolding asset_inv_def by blast
    then show ?thesis by (simp add: pool_assets_conservation_def all_buckets_def)
  qed
  ultimately show ?thesis using a unfolding asset_inv_def by blast
qed

text \<open>The abstract machine has only the journal: a movement is recorded once per reference, and only if the journal says that
  its source holds enough.\<close>

definition ledger_move :: "string \<Rightarrow> movement \<Rightarrow> int \<Rightarrow> string \<Rightarrow> pool_journal_entry list \<Rightarrow> (failure + bool) \<times> pool_journal_entry list" where
  "ledger_move aid m n r js =
     (if list_ex (\<lambda>e. pj_movement e = m \<and> pj_reference e = r) js then (Inr False, js)
      else if (case fst (MOVES m) of None \<Rightarrow> True | Some b \<Rightarrow> n \<le> journal_bucket aid b js)
      then (Inr True, js @ [\<lparr>pj_asset = aid, pj_movement = m, pj_amount = n, pj_reference = r\<rparr>])
      else (Inl (Refused BUDGET_EXCEEDED), js))"

lemma moved_nonnegative:
  assumes "pool_assets_nonnegative a" "0 < n"
  shows "pool_assets_nonnegative (moved m n a) \<longleftrightarrow> (case fst (MOVES m) of None \<Rightarrow> True | Some b \<Rightarrow> n \<le> pa_bucket b a)"
  using assms by (cases m) (auto simp: pool_assets_nonnegative_def moved_def)

lemma moved_fits:
  assumes "pool_assets_nonnegative a" "pool_assets_conservation a" "0 < n" "pa_confirmed_deposit a + n < COLUMN_LIMIT"
  shows "columns_fit (moved m n a)" "pool_asset_guard a (moved m n a)"
proof -
  have "\<bar>pa_bucket b (moved m n a)\<bar> < COLUMN_LIMIT" for b
    using bucket_bounds [OF assms(1,2), of b] assms(3,4) by (auto simp: bucket_moved abs_less_iff)
  moreover have "pa_confirmed_deposit (moved m n a) < COLUMN_LIMIT" using assms(3,4) by (simp add: deposit_moved)
  ultimately show "columns_fit (moved m n a)" by (simp add: columns_fit_def all_buckets_def del: pa_bucket.simps)
  show "pool_asset_guard a (moved m n a)" using assms(3) by (cases m) (simp_all add: pool_asset_guard_def moved_def)
qed


definition demo_pools :: pools where
  "demo_pools = snd (transact (moveBalance ''usdc'' DEPOSIT 500 ''d1'')
     \<lparr>ps_pools = [], ps_assets = mput ''usdc'' (new_pool_asset ''p'' True 300) [], ps_journal = []\<rparr>)"

lemma demo_pools_reachable: "pool_reachable demo_pools"
proof -
  let ?s = "\<lparr>ps_pools = [], ps_assets = [], ps_journal = []\<rparr>"
  have "pool_reachable (?s\<lparr>ps_assets := mput ''usdc'' (new_pool_asset ''p'' True 300) (ps_assets ?s)\<rparr>)"
    by (rule after_pool_step [OF no_pools add_asset]) simp
  then show ?thesis unfolding demo_pools_def using after_pool_step [OF _ pool_step.move] by simp
qed

lemma demo_pools_asset: "map_option pa_unallocated (mget (ps_assets demo_pools) ''usdc'') = Some 500" "journal_deposits ''usdc'' (ps_journal demo_pools) = 500"
  by code_simp+

lemma buckets_follow_the_journal_witness: "journal_bucket ''usdc'' Unallocated (ps_journal demo_pools) = 500"
proof -
  obtain a where a: "mget (ps_assets demo_pools) ''usdc'' = Some a" "pa_unallocated a = 500" using demo_pools_asset(1) by auto
  from buckets_follow_the_journal [OF demo_pools_reachable a(1), of Unallocated] a(2) show ?thesis by simp
qed


end
