(* ===== verification/Envelope_Properties.thy ===== *)
theory Envelope_Properties
  imports Envelope
begin

text \<open>
  What the command envelope guarantees for any handlers: a command that is not allowed or fails changes nothing, a command
  that succeeded is answered again and not run again, and its key is not accepted for other input.
\<close>

section \<open>Definitions\<close>

definition authorized :: "'w command_env \<Rightarrow> request \<Rightarrow> 'w server \<Rightarrow> bool" where
  "authorized env rq s \<longleftrightarrow> rq_sameOrigin rq \<and> KEY_PATTERN (idempotencyKey rq) \<and> find_handler env (commandName rq) \<noteq> None
     \<and> (case rq_actor rq of None \<Rightarrow> False
        | Some a \<Rightarrow> (take 6 (commandName rq) = ''admin_'' \<or> ''buyer'' \<in> set (ac_roles a) \<or> ''creator'' \<in> set (ac_roles a))
            \<and> (case requiredAccountType (commandName rq) of None \<Rightarrow> True | Some needed \<Rightarrow> role_of needed \<in> set (ac_roles a))
            \<and> (ac_active a \<or> commandName rq \<in> set SUSPENDED_ALLOWED_COMMANDS)
            \<and> (needsOnboarding (commandName rq) \<longrightarrow> en_onboarded env (sv_world s) (ac_id a)))"

definition answer :: "request \<Rightarrow> command_result \<Rightarrow> response" where
  "answer rq result = (if rq_wantsJson rq then Json_result result else Redirect_to (destination rq result))"

fun accepted :: "response \<Rightarrow> bool" where
  "accepted (Json_result r) = True"
| "accepted (Redirect_to l) = True"
| "accepted (Json_error n) = False"
| "accepted (Redirect_error l) = False"

definition slot :: "actor \<Rightarrow> request \<Rightarrow> string \<times> string \<times> string" where
  "slot a rq = (ac_id a, commandName rq, idempotencyKey rq)"

text \<open>Other requests, and any other change of the marketplace.\<close>

inductive later :: "'w command_env \<Rightarrow> 'w server \<Rightarrow> 'w server \<Rightarrow> bool" for env s where
  no_time: "later env s s"
| posted: "later env s t \<Longrightarrow> later env s (snd (POST env rq t))"
| elsewhere: "later env s t \<Longrightarrow> later env s (t\<lparr>sv_world := w\<rparr>)"

section \<open>Lemmas\<close>

lemma accepted_answer [simp]: "accepted (answer rq r)"
  by (simp add: answer_def)

lemma wp_on_world: "wp (on_world m) Q E = (\<lambda>s. wp m (\<lambda>x w. Q x (s\<lparr>sv_world := w\<rparr>)) (\<lambda>e w. E e (s\<lparr>sv_world := w\<rparr>)) (sv_world s))"
  by (rule ext) (simp add: wp_def on_world_def split: prod.splits sum.splits)

lemma wp_any: "(\<And>x t. Q x t) \<Longrightarrow> (\<And>e t. E e t) \<Longrightarrow> wp m Q E s"
  by (simp add: wp_def split: prod.split sum.split)

text \<open>A command runs only for an authorized request; refused, it changes nothing; finished, its slot holds its result.\<close>

lemma wp_recorded:
  assumes "\<And>r w. mget (sv_commands s) (slot a rq) = None \<Longrightarrow>
      Q r (s\<lparr>sv_world := w, sv_commands := mput (slot a rq) (hashInput env (valuesOf (rq_form rq)), r) (sv_commands s)\<rparr>)"
    and "\<And>r. mget (sv_commands s) (slot a rq) = Some (hashInput env (valuesOf (rq_form rq)), r) \<Longrightarrow> Q r s"
    and "\<And>e. E e s"
  shows "wp (recorded env h a rq) Q E s"
  unfolding recorded_def Let_def wp slot_def [symmetric]
  using assms by (auto simp: wp wp_on_world split: option.split intro!: wp_any)

lemma wp_run:
  assumes "\<And>r t. rq_sameOrigin rq \<Longrightarrow> KEY_PATTERN (idempotencyKey rq) \<Longrightarrow> authorized env rq s \<Longrightarrow> rq_actor rq = Some a \<Longrightarrow>
      mget (sv_commands t) (slot a rq) = Some (hashInput env (valuesOf (rq_form rq)), r) \<Longrightarrow>
      (\<And>k x. mget (sv_commands s) k = Some x \<Longrightarrow> mget (sv_commands t) k = Some x) \<Longrightarrow> Q r t"
    and "\<And>e. E e s" "rq_sameOrigin rq" "KEY_PATTERN (idempotencyKey rq)" "rq_actor rq = Some a"
  shows "wp (run_command env a rq) Q E s"
proof (cases "find_handler env (commandName rq)")
  case (Some h)
  have "wp (recorded env h a rq) (\<lambda>x t. Q x (deliver_pending env t)) E s" if "authorized env rq s"
    by (rule wp_recorded) (auto intro!: assms that simp: deliver_pending_def)
  then show ?thesis using Some assms(2-)
    by (auto simp: run_command_def Let_def wp authorized_def hasAnyRole_def split: option.splits)
qed (use assms(2) in \<open>simp add: run_command_def wp\<close>)

lemma POST_cases:
  "(\<exists>r t a. POST env rq s = (answer rq r, t) \<and> authorized env rq s \<and> rq_actor rq = Some a
      \<and> mget (sv_commands t) (slot a rq) = Some (hashInput env (valuesOf (rq_form rq)), r)
      \<and> (\<forall>k x. mget (sv_commands s) k = Some x \<longrightarrow> mget (sv_commands t) k = Some x))
   \<or> (\<exists>resp. POST env rq s = (resp, s) \<and> \<not> accepted resp)"
proof (cases "rq_sameOrigin rq \<and> KEY_PATTERN (idempotencyKey rq) \<and> rq_actor rq \<noteq> None")
  case True
  then obtain a where a: "rq_actor rq = Some a" by auto
  have "wp (run_command env a rq) (\<lambda>r t. authorized env rq s
      \<and> mget (sv_commands t) (slot a rq) = Some (hashInput env (valuesOf (rq_form rq)), r)
      \<and> (\<forall>k x. mget (sv_commands s) k = Some x \<longrightarrow> mget (sv_commands t) k = Some x)) (\<lambda>e t. t = s) s"
    using True a by (intro wp_run) auto
  then show ?thesis using True a by (auto simp: POST_def answer_def wp_def split: prod.splits sum.splits)
qed (auto simp: POST_def split: option.split)

lemma later_keeps: "later env t u \<Longrightarrow> mget (sv_commands t) k = Some x \<Longrightarrow> mget (sv_commands u) k = Some x"
proof (induction rule: later.induct)
  case (posted u rq)
  then show ?case using POST_cases [of env rq u] by (metis snd_conv)
qed simp_all

lemma POST_recorded:
  assumes "authorized env rq u" "rq_actor rq = Some a" "mget (sv_commands u) (slot a rq) = Some (h, r)"
  shows "POST env rq u = (if h = hashInput env (valuesOf (rq_form rq)) then (answer rq r, deliver_pending env u)
    else (if rq_wantsJson rq then Json_error 409 else Redirect_error (returnTo rq), u))"
proof -
  obtain handler where "find_handler env (commandName rq) = Some handler" using assms(1) by (auto simp: authorized_def)
  then have "run_command env a rq u = (if h = hashInput env (valuesOf (rq_form rq)) then (Inr r, deliver_pending env u) else (Inl (Command_error IDEMPOTENCY_CONFLICT), u))"
    using assms by (auto simp: run_command_def recorded_def Let_def authorized_def hasAnyRole_def deliver_pending_def slot_def transact_def
      abind_def acheck_def aget_def amodify_def areturn_def split: option.splits)
  then show ?thesis using assms(1,2) by (simp add: POST_def authorized_def answer_def statusForCode_def)
qed

lemma json_pair_split: "json_pair p @ r = json_pair q @ r' \<Longrightarrow> p = q \<and> r = r'"
  by (cases p; cases q) (auto dest!: json_string_prefix_free)

lemma json_pair_head: "\<exists>cs. json_pair p = CHR ''['' # cs"
  by (cases p) simp

lemma join_pairs:
  "js_join '','' (map json_pair (p # x)) @ '']'' = json_pair p @ (if x = [] then '']'' else '','' @ js_join '','' (map json_pair x) @ '']'')"
  by (cases x) (simp_all del: json_pair.simps)

lemma join_pairs_inj: "js_join '','' (map json_pair x) @ '']'' = js_join '','' (map json_pair y) @ '']'' \<Longrightarrow> x = y"
proof (induction x arbitrary: y)
  case Nil
  show ?case
  proof (cases y)
    case (Cons q y')
    have "'']'' = json_pair q @ (if y' = [] then '']'' else '','' @ js_join '','' (map json_pair y') @ '']'')"
      using Nil unfolding Cons join_pairs by simp
    then show ?thesis using json_pair_head [of q] by auto
  qed simp
next
  case (Cons p x)
  show ?case
  proof (cases y)
    case Nil
    have "json_pair p @ (if x = [] then '']'' else '','' @ js_join '','' (map json_pair x) @ '']'') = '']''"
      using Cons.prems unfolding Nil join_pairs by simp
    then show ?thesis using json_pair_head [of p] by auto
  next
    case y: (Cons q y')
    have "p = q \<and> (if x = [] then '']'' else '','' @ js_join '','' (map json_pair x) @ '']'') = (if y' = [] then '']'' else '','' @ js_join '','' (map json_pair y') @ '']'')"
      using Cons.prems unfolding y join_pairs by (rule json_pair_split)
    with Cons.IH [of y'] y show ?thesis by (auto simp del: json_pair.simps split: if_splits)
  qed
qed

lemma json_pairs_inj: "json_pairs x = json_pairs y \<Longrightarrow> x = y"
  by (simp add: json_pairs_def join_pairs_inj del: json_pair.simps)

lemma hashInput_inj:
  assumes "inj (en_sha256 env)" "hashInput env x = hashInput env y"
  shows "set x = set y"
proof -
  have "json_pairs (sort_key (\<lambda>(k, v). en_collation env k) x) = json_pairs (sort_key (\<lambda>(k, v). en_collation env k) y)"
    using assms(2) unfolding hashInput_def by (rule injD [OF assms(1)])
  then have "set (sort_key (\<lambda>(k, v). en_collation env k) x) = set (sort_key (\<lambda>(k, v). en_collation env k) y)"
    by (rule json_pairs_inj [THEN arg_cong])
  then show ?thesis by simp
qed

section \<open>Properties\<close>

text \<open>C29. A request that changes anything, or is answered with success, came from the site itself and a signed-in account that may
  run the command: of the account type the command needs, active unless the command only settles existing orders, and
  set up where the command puts it in front of others. Every refused or failed command leaves everything as it was.\<close>

theorem only_authorized_commands_act:
  assumes "POST env rq s = (resp, t)" "accepted resp \<or> t \<noteq> s"
  shows "accepted resp \<and> authorized env rq s"
  using POST_cases [of env rq s] assms by (metis accepted_answer prod.inject)

text \<open>C30. A command that succeeded is not run again: repeated after any other requests and changes, it is answered as it was the
  first time, and nothing but the delivery of pending webhooks happens.\<close>

theorem finished_commands_are_replayed:
  assumes "POST env rq s = (resp, t)" "accepted resp" "later env t u" "authorized env rq u"
  shows "POST env rq u = (resp, if en_mockPayments env then u\<lparr>sv_world := en_deliver env (sv_world u)\<rparr> else u)"
proof -
  obtain r a where "resp = answer rq r" "rq_actor rq = Some a" "mget (sv_commands t) (slot a rq) = Some (hashInput env (valuesOf (rq_form rq)), r)"
    using POST_cases [of env rq s] assms(1,2) by auto
  with POST_recorded [OF assms(4)] later_keeps [OF assms(3)] show ?thesis by (simp add: deliver_pending_def)
qed

text \<open>The key of a command that succeeded cannot be used again by the account for the same command with other input: as long
  as SHA-256 does not collide, the request is refused with 409 and nothing changes.\<close>

theorem keys_are_not_reused:
  assumes "POST env rq s = (resp, t)" "accepted resp" "later env t u" "authorized env other u" "inj (en_sha256 env)"
    and "rq_actor other = rq_actor rq" "commandName other = commandName rq" "idempotencyKey other = idempotencyKey rq"
    and "set (valuesOf (rq_form other)) \<noteq> set (valuesOf (rq_form rq))"
  shows "POST env other u = (if rq_wantsJson other then Json_error 409 else Redirect_error (returnTo other), u)"
proof -
  obtain r a where "rq_actor rq = Some a" "mget (sv_commands t) (slot a rq) = Some (hashInput env (valuesOf (rq_form rq)), r)"
    using POST_cases [of env rq s] assms(1,2) by auto
  then have a: "rq_actor other = Some a" "mget (sv_commands u) (slot a other) = Some (hashInput env (valuesOf (rq_form rq)), r)"
    using assms(6-8) later_keeps [OF assms(3)] by (auto simp: slot_def)
  have "hashInput env (valuesOf (rq_form rq)) \<noteq> hashInput env (valuesOf (rq_form other))"
    using hashInput_inj [OF assms(5)] assms(9) by metis
  with POST_recorded [OF assms(4) a] show ?thesis by simp
qed


section \<open>A counter as the marketplace\<close>

definition demo_actor :: actor where
  "demo_actor = \<lparr>ac_id = ''u1'', ac_roles = [''creator''], ac_active = True\<rparr>"

definition demo_command_env :: "nat command_env" where
  "demo_command_env = \<lparr>en_handlers = [(''message'', \<lambda>actor form command. abind (amodify Suc) (\<lambda>_. areturn (Command_result ''/orders/1'' ''Sent'' None)))],
     en_onboarded = \<lambda>w i. True, en_sha256 = \<lambda>t. t, en_collation = \<lambda>t. t, en_mockPayments = False, en_deliver = \<lambda>w. w,
     en_actor_json = \<lambda>a c. ''{}''\<rparr>"

definition demo_request :: "string \<Rightarrow> string \<Rightarrow> request" where
  "demo_request command body = \<lparr>rq_sameOrigin = True, rq_actor = Some demo_actor, rq_form = [(''command'', command), (''body'', body),
     (''idempotency_key'', ''key-0001'')], rq_wantsJson = True, rq_randomUUID = []\<rparr>"

definition demo_server :: "nat server" where
  "demo_server = \<lparr>sv_world = 0, sv_commands = []\<rparr>"

definition demo_sent :: "nat server" where
  "demo_sent = snd (POST demo_command_env (demo_request ''message'' ''hi'') demo_server)"

lemma demo_posted: "POST demo_command_env (demo_request ''message'' ''hi'') demo_server = (Json_result (Command_result ''/orders/1'' ''Sent'' None), demo_sent)"
  "sv_world demo_sent = 1" "authorized demo_command_env (demo_request ''message'' b) (demo_sent\<lparr>sv_world := 7\<rparr>)"
proof -
  have "fst (POST demo_command_env (demo_request ''message'' ''hi'') demo_server) = Json_result (Command_result ''/orders/1'' ''Sent'' None)" by code_simp
  then show "POST demo_command_env (demo_request ''message'' ''hi'') demo_server = (Json_result (Command_result ''/orders/1'' ''Sent'' None), demo_sent)"
    by (simp add: demo_sent_def prod_eq_iff)
  show "sv_world demo_sent = 1" by code_simp
  show "authorized demo_command_env (demo_request ''message'' b) (demo_sent\<lparr>sv_world := 7\<rparr>)" by code_simp
qed

lemma demo_values: "valuesOf (rq_form (demo_request c b)) = [(''command'', c), (''body'', b)]"
  by (simp add: valuesOf_def demo_request_def)

lemma demo_names: "commandName (demo_request ''message'' b) = ''message''" "idempotencyKey (demo_request c b) = ''key-0001''"
  "rq_actor (demo_request c b) = Some demo_actor" "rq_wantsJson (demo_request c b)"
  by (code_simp, simp_all add: idempotencyKey_def form_get_def demo_request_def)

text \<open>A name of \<open>Object.prototype\<close> passes for a command and is answered with success.\<close>

lemma inherited_names_pass_for_commands:
  "fst (POST demo_command_env (demo_request ''toString'' ''hi'') demo_server) = Json_result (Other_value ([quote_c] @ ''[object Undefined]'' @ [quote_c]))
   \<and> fst (POST demo_command_env (demo_request ''tostring'' ''hi'') demo_server) = Json_error 400"
proof
  show "fst (POST demo_command_env (demo_request ''toString'' ''hi'') demo_server) = Json_result (Other_value ([quote_c] @ ''[object Undefined]'' @ [quote_c]))" by code_simp
  show "fst (POST demo_command_env (demo_request ''tostring'' ''hi'') demo_server) = Json_error 400" by code_simp
qed

lemma only_authorized_commands_act_witness: "authorized demo_command_env (demo_request ''message'' ''hi'') demo_server"
  using only_authorized_commands_act [OF demo_posted(1)] by simp

lemma finished_commands_are_replayed_witness:
  "POST demo_command_env (demo_request ''message'' ''hi'') (demo_sent\<lparr>sv_world := 7\<rparr>) = (Json_result (Command_result ''/orders/1'' ''Sent'' None), demo_sent\<lparr>sv_world := 7\<rparr>)"
  using finished_commands_are_replayed [OF demo_posted(1) _ elsewhere [OF no_time] demo_posted(3)] by (simp add: demo_command_env_def)

lemma keys_are_not_reused_witness:
  "POST demo_command_env (demo_request ''message'' ''bye'') (demo_sent\<lparr>sv_world := 7\<rparr>) = (Json_error 409, demo_sent\<lparr>sv_world := 7\<rparr>)"
proof -
  have "inj (en_sha256 demo_command_env)" by (simp add: demo_command_env_def)
  from keys_are_not_reused [OF demo_posted(1) _ elsewhere [OF no_time] demo_posted(3) this, of "''bye''"]
  show ?thesis by (simp add: demo_names demo_values doubleton_eq_iff)
qed

end
