(* ===== verification/Dev_Chain.thy ===== *)
theory Dev_Chain
  imports Actions
begin

text \<open>
  The devnet simulator \<open>LocalDevChain\<close> of \<open>src/modules/crypto/chain.ts\<close> with the authorization checks of
  \<open>src/modules/crypto/authorization.ts\<close>: blocks and receipts, the escrow buckets, signed releases, refunds and
  freezes, batches. Hashing, event encoding, signature recovery and the signer are parameters (\<open>chain_env\<close>); the clock
  is an argument of the call that reads it. A \<open>Set\<close> is a list without repetitions.
\<close>

section \<open>Authorizations\<close>

record escrow_domain =
  ed_chainId :: int
  ed_verifyingContract :: string

record release_message =
  rm_payoutRef :: string
  rm_escrowRef :: string
  rm_recipient :: string
  rm_token :: string
  rm_amount :: int
  rm_nonce :: string
  rm_expiry :: int

record refund_message =
  rf_payoutRef :: string
  rf_escrowRef :: string
  rf_amount :: int
  rf_nonce :: string
  rf_expiry :: int

record freeze_message =
  fm_escrowRef :: string
  fm_frozen :: bool
  fm_nonce :: string
  fm_expiry :: int

record 'm signed =
  sg_domain :: escrow_domain
  sg_message :: 'm
  sg_signature :: string

datatype typed_message = Release_type release_message | Refund_type refund_message | Freeze_type freeze_message

record expected =
  ex_chainId :: int
  ex_contract :: string
  ex_signer :: string
  ex_now :: int

text \<open>What the simulator calls: keccak of a label and the salt (with the time and a random draw), the topics and data of the
  \<open>Funded\<close> event (none when the encoder throws), the address recovered from a signature or the message of the error
  thrown, and the signer's address (none where the process may not sign).\<close>

record chain_env =
  ce_keccak :: "int \<Rightarrow> string \<Rightarrow> nat \<Rightarrow> string"
  ce_topics :: "string \<Rightarrow> string \<Rightarrow> string \<Rightarrow> string list option"
  ce_data :: "string \<Rightarrow> int \<Rightarrow> string option"
  ce_recover :: "escrow_domain \<Rightarrow> typed_message \<Rightarrow> string \<Rightarrow> string + string"
  ce_signer :: "string option"

definition checkDomain :: "escrow_domain \<Rightarrow> int \<Rightarrow> expected \<Rightarrow> string + unit" where
  "checkDomain domain expiry expected =
     ebind (echeck (ed_chainId domain = ex_chainId expected) ''WRONG_CHAIN'') (\<lambda>_.
     ebind (echeck (js_lower (ed_verifyingContract domain) = js_lower (ex_contract expected)) ''WRONG_CONTRACT'') (\<lambda>_.
     echeck (\<not> expiry < ex_now expected) ''EXPIRED''))"

definition verifyReleaseSignature :: "chain_env \<Rightarrow> release_message signed \<Rightarrow> expected \<Rightarrow> string + string" where
  "verifyReleaseSignature env x expected =
     ebind (checkDomain (sg_domain x) (rm_expiry (sg_message x)) expected) (\<lambda>_.
     ebind (ce_recover env (sg_domain x) (Release_type (sg_message x)) (sg_signature x)) (\<lambda>recovered.
     ebind (echeck (js_lower recovered = js_lower (ex_signer expected)) ''BAD_SIGNATURE'') (\<lambda>_. Inr recovered)))"

definition verifyRefundSignature :: "chain_env \<Rightarrow> refund_message signed \<Rightarrow> expected \<Rightarrow> string + string" where
  "verifyRefundSignature env x expected =
     ebind (checkDomain (sg_domain x) (rf_expiry (sg_message x)) expected) (\<lambda>_.
     ebind (ce_recover env (sg_domain x) (Refund_type (sg_message x)) (sg_signature x)) (\<lambda>recovered.
     ebind (echeck (js_lower recovered = js_lower (ex_signer expected)) ''BAD_SIGNATURE'') (\<lambda>_. Inr recovered)))"

definition verifyFreezeSignature :: "chain_env \<Rightarrow> freeze_message signed \<Rightarrow> expected \<Rightarrow> string + string" where
  "verifyFreezeSignature env x expected =
     ebind (checkDomain (sg_domain x) (fm_expiry (sg_message x)) expected) (\<lambda>_.
     ebind (ce_recover env (sg_domain x) (Freeze_type (sg_message x)) (sg_signature x)) (\<lambda>recovered.
     ebind (echeck (js_lower recovered = js_lower (ex_signer expected)) ''BAD_SIGNATURE'') (\<lambda>_. Inr recovered)))"

section \<open>The chain\<close>

record chain_log =
  lg_address :: string
  lg_topics :: "string list"
  lg_data :: string
  lg_logIndex :: nat
  lg_blockNumber :: int
  lg_blockHash :: string
  lg_transactionHash :: string

record chain_receipt =
  rc_transactionHash :: string
  rc_blockNumber :: int
  rc_blockHash :: string
  rc_success :: bool
  rc_logs :: "chain_log list"

record block =
  bk_number :: int
  bk_hash :: string
  bk_receipts :: "chain_receipt list"

record sim_bucket =
  sb_payer :: string
  sb_token :: string
  sb_deposited :: int
  sb_released :: int
  sb_refunded :: int
  sb_frozen :: bool

datatype payout_kind = Release_kind | Refund_kind

record chain_transfer =
  ct_kind :: payout_kind
  ct_payoutRef :: string
  ct_recipient :: string
  ct_token :: string
  ct_amount :: int
  ct_txHash :: string

record chain =
  ch_chainId :: int
  ch_settlement :: "string option"
  ch_blocks :: "block list"
  ch_offline :: bool
  ch_salt :: nat
  ch_usedNonces :: "string list"
  ch_releasedPayouts :: "(string \<times> string) list"
  ch_buckets :: "(string \<times> sim_bucket) list"
  ch_paused :: bool
  ch_failingTokens :: "string list"
  ch_nftOwners :: "((string \<times> int) \<times> string) list"
  ch_transfers :: "chain_transfer list"

datatype chain_error = Chain_unavailable | Payout_rejected string | Encoding_failed | No_signer

type_synonym 'a chain_action = "(chain, chain_error, 'a) action"

definition nextHash :: "chain_env \<Rightarrow> string \<Rightarrow> string chain_action" where
  "nextHash env label =
     abind (amodify (\<lambda>s. s\<lparr>ch_salt := ch_salt s + 1\<rparr>)) (\<lambda>_.
     aget (\<lambda>s. ''0x'' @ ce_keccak env (ch_chainId s) label (ch_salt s)))"

definition guard :: "unit chain_action" where
  "guard = abind (aget ch_offline) (\<lambda>offline. acheck (\<not> offline) Chain_unavailable)"

definition head :: "chain \<Rightarrow> int" where
  "head s = bk_number (last (ch_blocks s))"

definition push_block :: "int \<Rightarrow> string \<Rightarrow> chain_receipt list \<Rightarrow> unit chain_action" where
  "push_block number hash receipts = amodify (\<lambda>s. s\<lparr>ch_blocks := ch_blocks s @ [\<lparr>bk_number = number, bk_hash = hash, bk_receipts = receipts\<rparr>]\<rparr>)"

fun mine :: "chain_env \<Rightarrow> nat \<Rightarrow> unit chain_action" where
  "mine env 0 = areturn ()"
| "mine env (Suc count) =
     abind (aget head) (\<lambda>h.
     abind (nextHash env ''block'') (\<lambda>hash.
     abind (push_block (h + 1) hash []) (\<lambda>_.
     mine env count)))"

definition new_chain :: "chain_env \<Rightarrow> int \<Rightarrow> string option \<Rightarrow> chain" where
  "new_chain env chainId settlement =
     snd (abind (nextHash env ''genesis'') (\<lambda>hash. push_block 0 hash [])
       \<lparr>ch_chainId = chainId, ch_settlement = settlement, ch_blocks = [], ch_offline = False, ch_salt = 0, ch_usedNonces = [],
        ch_releasedPayouts = [], ch_buckets = [], ch_paused = False, ch_failingTokens = [], ch_nftOwners = [], ch_transfers = []\<rparr>)"

record snapshot =
  sn_nonces :: "string list"
  sn_released :: "(string \<times> string) list"
  sn_buckets :: "(string \<times> sim_bucket) list"
  sn_transfers :: nat

definition take_snapshot :: "chain \<Rightarrow> snapshot" where
  "take_snapshot s = \<lparr>sn_nonces = ch_usedNonces s, sn_released = ch_releasedPayouts s, sn_buckets = ch_buckets s, sn_transfers = length (ch_transfers s)\<rparr>"

definition restore :: "snapshot \<Rightarrow> chain \<Rightarrow> chain" where
  "restore st s = s\<lparr>ch_usedNonces := sn_nonces st, ch_releasedPayouts := sn_released st, ch_buckets := sn_buckets st,
     ch_transfers := take (sn_transfers st) (ch_transfers s)\<rparr>"

record deposit_input =
  di_emitter :: string
  di_escrowRef :: string
  di_reference :: string
  di_payer :: string
  di_token :: string
  di_amount :: int
  di_reverted :: bool
  di_txHash :: "string option"
  di_duplicateLogs :: "nat option"

definition di_copies :: "deposit_input \<Rightarrow> nat" where
  "di_copies input = 1 + (case di_duplicateLogs input of Some n \<Rightarrow> n | None \<Rightarrow> 0)"

definition credit_bucket :: "deposit_input \<Rightarrow> chain \<Rightarrow> chain" where
  "credit_bucket input s =
     (if \<not> di_reverted input \<and> ch_settlement s = Some (js_lower (di_emitter input)) then
        let key = js_lower (di_escrowRef input);
            bucket = (case mget (ch_buckets s) key of Some b \<Rightarrow> b
              | None \<Rightarrow> \<lparr>sb_payer = js_lower (di_payer input), sb_token = js_lower (di_token input), sb_deposited = 0, sb_released = 0,
                   sb_refunded = 0, sb_frozen = False\<rparr>) in
        s\<lparr>ch_buckets := mput key (bucket\<lparr>sb_deposited := sb_deposited bucket + di_amount input * int (di_copies input)\<rparr>) (ch_buckets s)\<rparr>
      else s)"

definition submitDeposit :: "chain_env \<Rightarrow> deposit_input \<Rightarrow> string chain_action" where
  "submitDeposit env input =
     abind (aget head) (\<lambda>h.
     abind (nextHash env ''block'') (\<lambda>blockHash.
     abind (case di_txHash input of Some t \<Rightarrow> areturn t | None \<Rightarrow> nextHash env ''tx'') (\<lambda>transactionHash.
     (case (ce_topics env (di_escrowRef input) (di_reference input) (di_payer input), ce_data env (di_token input) (di_amount input)) of
        (Some topics, Some data) \<Rightarrow>
          abind (amodify (credit_bucket input)) (\<lambda>_.
          let logs = (if di_reverted input then [] else map (\<lambda>i. \<lparr>lg_address = js_lower (di_emitter input), lg_topics = topics, lg_data = data,
                 lg_logIndex = i, lg_blockNumber = h + 1, lg_blockHash = blockHash, lg_transactionHash = transactionHash\<rparr>) [0..<di_copies input]) in
          abind (push_block (h + 1) blockHash [\<lparr>rc_transactionHash = transactionHash, rc_blockNumber = h + 1, rc_blockHash = blockHash,
                 rc_success = (\<not> di_reverted input), rc_logs = logs\<rparr>]) (\<lambda>_.
          areturn transactionHash))
      | _ \<Rightarrow> afail Encoding_failed))))"

definition reorg :: "chain_env \<Rightarrow> nat \<Rightarrow> unit chain_action" where
  "reorg env depth =
     abind (amodify (\<lambda>s. s\<lparr>ch_blocks := take (max 1 (length (ch_blocks s) - depth)) (ch_blocks s)\<rparr>)) (\<lambda>_.
     mine env (depth + 1))"

definition reinclude :: "chain_env \<Rightarrow> chain_receipt \<Rightarrow> unit chain_action" where
  "reinclude env receipt =
     abind (aget head) (\<lambda>h.
     abind (nextHash env ''block'') (\<lambda>blockHash.
     push_block (h + 1) blockHash [receipt\<lparr>rc_blockNumber := h + 1, rc_blockHash := blockHash,
       rc_logs := map (\<lambda>l. l\<lparr>lg_blockNumber := h + 1, lg_blockHash := blockHash\<rparr>) (rc_logs receipt)\<rparr>]))"

definition setOffline :: "bool \<Rightarrow> unit chain_action" where
  "setOffline offline = amodify (\<lambda>s. s\<lparr>ch_offline := offline\<rparr>)"

definition setPaused :: "bool \<Rightarrow> unit chain_action" where
  "setPaused paused = amodify (\<lambda>s. s\<lparr>ch_paused := paused\<rparr>)"

definition failTransfersOf :: "string \<Rightarrow> bool \<Rightarrow> unit chain_action" where
  "failTransfersOf token failing = amodify (\<lambda>s. s\<lparr>ch_failingTokens :=
     (if failing then List.insert (js_lower token) (ch_failingTokens s) else removeAll (js_lower token) (ch_failingTokens s))\<rparr>)"

definition setNftOwner :: "string \<Rightarrow> int \<Rightarrow> string \<Rightarrow> unit chain_action" where
  "setNftOwner contract tokenId owner = amodify (\<lambda>s. s\<lparr>ch_nftOwners := mput (js_lower contract, tokenId) (js_lower owner) (ch_nftOwners s)\<rparr>)"

definition getNftOwner :: "string \<Rightarrow> int \<Rightarrow> string option chain_action" where
  "getNftOwner contract tokenId = abind guard (\<lambda>_. aget (\<lambda>s. mget (ch_nftOwners s) (js_lower contract, tokenId)))"

definition bucket_of :: "string \<Rightarrow> chain \<Rightarrow> sim_bucket option" where
  "bucket_of escrowRef s = mget (ch_buckets s) (js_lower escrowRef)"

section \<open>Payouts\<close>

datatype signed_payout = Signed_release "release_message signed" | Signed_refund "refund_message signed"

fun po_kind :: "signed_payout \<Rightarrow> payout_kind" where
  "po_kind (Signed_release x) = Release_kind"
| "po_kind (Signed_refund x) = Refund_kind"

fun po_ref :: "signed_payout \<Rightarrow> string" where
  "po_ref (Signed_release x) = rm_payoutRef (sg_message x)"
| "po_ref (Signed_refund x) = rf_payoutRef (sg_message x)"

fun po_escrow :: "signed_payout \<Rightarrow> string" where
  "po_escrow (Signed_release x) = js_lower (rm_escrowRef (sg_message x))"
| "po_escrow (Signed_refund x) = js_lower (rf_escrowRef (sg_message x))"

fun po_amount :: "signed_payout \<Rightarrow> int" where
  "po_amount (Signed_release x) = rm_amount (sg_message x)"
| "po_amount (Signed_refund x) = rf_amount (sg_message x)"

fun po_nonce :: "signed_payout \<Rightarrow> string" where
  "po_nonce (Signed_release x) = rm_nonce (sg_message x)"
| "po_nonce (Signed_refund x) = rf_nonce (sg_message x)"

fun po_token :: "signed_payout \<Rightarrow> sim_bucket \<Rightarrow> string" where
  "po_token (Signed_release x) b = js_lower (rm_token (sg_message x))"
| "po_token (Signed_refund x) b = sb_token b"

fun po_recipient :: "signed_payout \<Rightarrow> sim_bucket \<Rightarrow> string" where
  "po_recipient (Signed_release x) b = rm_recipient (sg_message x)"
| "po_recipient (Signed_refund x) b = sb_payer b"

fun po_verify :: "chain_env \<Rightarrow> signed_payout \<Rightarrow> expected \<Rightarrow> string + string" where
  "po_verify env (Signed_release x) = verifyReleaseSignature env x"
| "po_verify env (Signed_refund x) = verifyRefundSignature env x"

text \<open>\<open>verify(kind, signed)\<close>, given the check of that kind.\<close>

definition verify :: "chain_env \<Rightarrow> int \<Rightarrow> (expected \<Rightarrow> string + string) \<Rightarrow> unit chain_action" where
  "verify env now check =
     abind (aget (\<lambda>s. (ch_settlement s, ch_chainId s))) (\<lambda>(settlement, chainId).
     (case settlement of
        None \<Rightarrow> afail (Payout_rejected ''CONTRACT_NOT_DEPLOYED'')
      | Some contract \<Rightarrow> (case ce_signer env of
          None \<Rightarrow> afail No_signer
        | Some signer \<Rightarrow> (case check \<lparr>ex_chainId = chainId, ex_contract = contract, ex_signer = signer, ex_now = now\<rparr> of
            Inl code \<Rightarrow> afail (Payout_rejected (if code = ''EXPIRED'' then ''AuthorizationExpired'' else if code = ''BAD_SIGNATURE'' then ''BadSignature'' else code))
          | Inr _ \<Rightarrow> areturn ()))))"

text \<open>\<open>payout\<close> up to its \<open>await\<close>, and the rest, which runs when the verification is done: other calls may run between them.
  The bucket found before the \<open>await\<close> is the object under the same key after it.\<close>

definition payout_admit :: "signed_payout \<Rightarrow> unit chain_action" where
  "payout_admit p =
     abind guard (\<lambda>_.
     abind (aget ch_paused) (\<lambda>paused.
     abind (acheck (\<not> paused) (Payout_rejected ''EnforcedPause'')) (\<lambda>_.
     abind (aget (\<lambda>s. mget (ch_buckets s) (po_escrow p))) (\<lambda>found.
     (case found of
        None \<Rightarrow> afail (Payout_rejected ''UnknownBucket'')
      | Some bucket \<Rightarrow>
          abind (acheck (po_token p bucket = sb_token bucket) (Payout_rejected ''TokenMismatch'')) (\<lambda>_.
          abind (aget ch_usedNonces) (\<lambda>used.
          abind (acheck (po_nonce p \<notin> set used) (Payout_rejected ''NonceUsed'')) (\<lambda>_.
          abind (aget (\<lambda>s. mget (ch_releasedPayouts s) (po_ref p))) (\<lambda>previous.
          (case previous of
             Some tx \<Rightarrow> acheck (tx = []) (Payout_rejected (''ALREADY_RELEASED:'' @ tx))
           | None \<Rightarrow> areturn ()))))))))))"

definition payout_settle :: "chain_env \<Rightarrow> int \<Rightarrow> signed_payout \<Rightarrow> string chain_action" where
  "payout_settle env now p =
     abind (verify env now (po_verify env p)) (\<lambda>_.
     abind (aget (\<lambda>s. mget (ch_buckets s) (po_escrow p))) (\<lambda>found.
     (case found of
        None \<Rightarrow> afail (Payout_rejected ''UnknownBucket'')
      | Some bucket \<Rightarrow>
          abind (acheck (\<not> sb_frozen bucket) (Payout_rejected ''BucketFrozen'')) (\<lambda>_.
          abind (acheck (\<not> (po_amount p \<le> 0 \<or> po_amount p > sb_deposited bucket - sb_released bucket - sb_refunded bucket))
            (Payout_rejected ''InsufficientBucketBalance'')) (\<lambda>_.
          abind (aget ch_failingTokens) (\<lambda>failing.
          abind (acheck (po_token p bucket \<notin> set failing) (Payout_rejected ''TOKEN_TRANSFER_FAILED'')) (\<lambda>_.
          abind (amodify (\<lambda>s. s\<lparr>ch_usedNonces := List.insert (po_nonce p) (ch_usedNonces s)\<rparr>)) (\<lambda>_.
          abind (nextHash env (case po_kind p of Release_kind \<Rightarrow> ''release'' | Refund_kind \<Rightarrow> ''refund'')) (\<lambda>txHash.
          abind (amodify (\<lambda>s. s\<lparr>
            ch_releasedPayouts := mput (po_ref p) txHash (ch_releasedPayouts s),
            ch_buckets := mput (po_escrow p)
              (case po_kind p of Release_kind \<Rightarrow> bucket\<lparr>sb_released := sb_released bucket + po_amount p\<rparr>
               | Refund_kind \<Rightarrow> bucket\<lparr>sb_refunded := sb_refunded bucket + po_amount p\<rparr>) (ch_buckets s),
            ch_transfers := ch_transfers s @ [\<lparr>ct_kind = po_kind p, ct_payoutRef = po_ref p, ct_recipient = po_recipient p bucket,
              ct_token = sb_token bucket, ct_amount = po_amount p, ct_txHash = txHash\<rparr>]\<rparr>)) (\<lambda>_.
          abind (mine env 1) (\<lambda>_.
          areturn txHash)))))))))))"

definition payout :: "chain_env \<Rightarrow> int \<Rightarrow> signed_payout \<Rightarrow> string chain_action" where
  "payout env now p = abind (payout_admit p) (\<lambda>_. payout_settle env now p)"

definition executeRelease :: "chain_env \<Rightarrow> int \<Rightarrow> release_message signed \<Rightarrow> string chain_action" where
  "executeRelease env now x = payout env now (Signed_release x)"

definition executeRefund :: "chain_env \<Rightarrow> int \<Rightarrow> refund_message signed \<Rightarrow> string chain_action" where
  "executeRefund env now x = payout env now (Signed_refund x)"

text \<open>A batch; every release comes with the clock's reading when it is verified. An empty batch has no hash to return.\<close>

fun release_each :: "chain_env \<Rightarrow> (int \<times> release_message signed) list \<Rightarrow> string list chain_action" where
  "release_each env [] = areturn []"
| "release_each env ((now, x) # rest) =
     abind (payout env now (Signed_release x)) (\<lambda>txHash.
     abind (release_each env rest) (\<lambda>hashes.
     areturn (txHash # hashes)))"

definition executeReleaseBatch :: "chain_env \<Rightarrow> (int \<times> release_message signed) list \<Rightarrow> string option chain_action" where
  "executeReleaseBatch env batch =
     abind (aget take_snapshot) (\<lambda>before.
     acatch (release_each env batch)
       (\<lambda>e. abind (amodify (restore before)) (\<lambda>_. afail e))
       (\<lambda>hashes. areturn (if hashes = [] then None else Some (last hashes))))"

definition freeze_admit :: "freeze_message signed \<Rightarrow> unit chain_action" where
  "freeze_admit x =
     abind guard (\<lambda>_.
     abind (aget (bucket_of (fm_escrowRef (sg_message x)))) (\<lambda>found.
     abind (acheck (found \<noteq> None) (Payout_rejected ''UnknownBucket'')) (\<lambda>_.
     abind (aget ch_usedNonces) (\<lambda>used.
     acheck (fm_nonce (sg_message x) \<notin> set used) (Payout_rejected ''NonceUsed'')))))"

definition freeze_settle :: "chain_env \<Rightarrow> int \<Rightarrow> freeze_message signed \<Rightarrow> string chain_action" where
  "freeze_settle env now x =
     abind (verify env now (verifyFreezeSignature env x)) (\<lambda>_.
     abind (aget (bucket_of (fm_escrowRef (sg_message x)))) (\<lambda>found.
     (case found of
        None \<Rightarrow> afail (Payout_rejected ''UnknownBucket'')
      | Some bucket \<Rightarrow>
          abind (amodify (\<lambda>s. s\<lparr>ch_usedNonces := List.insert (fm_nonce (sg_message x)) (ch_usedNonces s),
            ch_buckets := mput (js_lower (fm_escrowRef (sg_message x))) (bucket\<lparr>sb_frozen := fm_frozen (sg_message x)\<rparr>) (ch_buckets s)\<rparr>)) (\<lambda>_.
          abind (nextHash env ''freeze'') (\<lambda>txHash.
          abind (mine env 1) (\<lambda>_.
          areturn txHash))))))"

definition executeFreeze :: "chain_env \<Rightarrow> int \<Rightarrow> freeze_message signed \<Rightarrow> string chain_action" where
  "executeFreeze env now x = abind (freeze_admit x) (\<lambda>_. freeze_settle env now x)"

section \<open>Reading\<close>

definition findPayout :: "string \<Rightarrow> string option chain_action" where
  "findPayout payoutRef = abind guard (\<lambda>_. aget (\<lambda>s. mget (ch_releasedPayouts s) payoutRef))"

definition getBlockNumber :: "int chain_action" where
  "getBlockNumber = abind guard (\<lambda>_. aget head)"

definition getBlockHash :: "int \<Rightarrow> string option chain_action" where
  "getBlockHash number = abind guard (\<lambda>_. aget (\<lambda>s. map_option bk_hash (find (\<lambda>b. bk_number b = number) (ch_blocks s))))"

fun first_receipt :: "string \<Rightarrow> block list \<Rightarrow> chain_receipt option" where
  "first_receipt h [] = None"
| "first_receipt h (b # bs) = (case find (\<lambda>r. js_lower (rc_transactionHash r) = js_lower h) (bk_receipts b) of
     Some r \<Rightarrow> Some r | None \<Rightarrow> first_receipt h bs)"

definition getTransactionReceipt :: "string \<Rightarrow> chain_receipt option chain_action" where
  "getTransactionReceipt h = abind guard (\<lambda>_. aget (\<lambda>s. first_receipt h (ch_blocks s)))"

definition getLogs :: "string \<Rightarrow> int \<Rightarrow> int \<Rightarrow> chain_log list chain_action" where
  "getLogs address fromBlock toBlock = abind guard (\<lambda>_. aget (\<lambda>s.
     filter (\<lambda>l. js_lower (lg_address l) = js_lower address)
       (concat (map (\<lambda>b. concat (map rc_logs (bk_receipts b)))
         (filter (\<lambda>b. bk_number b \<ge> fromBlock \<and> bk_number b \<le> toBlock) (ch_blocks s))))))"

end
