(* ===== verification/Payout_Queue.thy ===== *)
theory Payout_Queue
  imports Dev_Chain Commands
begin

text \<open>
  The outbox of payouts on chain (\<open>src/modules/crypto/payouts.ts\<close>, the tables and triggers of \<open>drizzle/0014\<close>): business
  transactions queue a payout, a worker signs and submits it outside any transaction, then records what came of it and applies its
  business effect. A dispatch is split where it awaits (\<open>phase\<close>): each database transaction, each call to the chain and each
  recording of an outcome is one phase, and other dispatches may run in between. The chain adapter, the effects of the modules
  that queue payouts, the registry of networks, hashing and signing are parameters (\<open>queue_env\<close>).
\<close>

section \<open>Tables\<close>

datatype payout_type = Allocation | Pool_refund | Order_release | Order_refund | Freeze | Unfreeze

datatype payout_state = Queued | Submitting | Unknown | Retry | Confirmed | Failed

record chain_payout =
  cp_kind :: payout_type
  cp_subject :: string
  cp_order :: "string option"
  cp_chain :: int
  cp_escrow :: string
  cp_ref :: string
  cp_recipient :: "string option"
  cp_token :: "string option"
  cp_amount :: int
  cp_state :: payout_state
  cp_attempts :: nat
  cp_next :: int
  cp_error :: "string option"
  cp_tx :: "string option"
  cp_confirmed :: "int option"

datatype authorization_outcome = Transferred | Not_transferred | Unclear_transfer

record release_authorization =
  ra_kind :: payout_type
  ra_subject :: string
  ra_chain :: int
  ra_contract :: string
  ra_recipient :: "string option"
  ra_token :: "string option"
  ra_amount :: int
  ra_expires :: int
  ra_signature :: string
  ra_payout :: string
  ra_consumed :: "int option"
  ra_outcome :: "authorization_outcome option"

record 'b queue =
  qu_payouts :: "(string \<times> chain_payout) list"
  qu_auths :: "(string \<times> release_authorization) list"
  qu_cases :: "(string option \<times> string) list"
  qu_business :: 'b

datatype queue_error = Db_error | Signing_error | Business_error

type_synonym ('b, 'a) queue_action = "('b queue, queue_error, 'a) action"

record network =
  nw_enabled :: bool
  nw_contract :: string

datatype authorized = Pay signed_payout | Set_frozen "freeze_message signed"

text \<open>The effects that a module registers for a kind of payout; one that throws gives \<open>False\<close>.\<close>

record 'b payout_effects =
  ef_confirmed :: "chain_payout \<Rightarrow> 'b \<Rightarrow> bool \<times> 'b"
  ef_failed :: "chain_payout \<Rightarrow> string \<Rightarrow> 'b \<Rightarrow> bool \<times> 'b"

text \<open>\<open>qe_adapter\<close> is what \<open>getPayoutAdapter\<close> gives for a network: the message of the error it throws, or whether the adapter can send
  batches. \<open>qe_submit\<close> stands for \<open>executeRelease\<close>, \<open>executeRefund\<close> and \<open>executeFreeze\<close>, \<open>qe_batch\<close> for \<open>executeReleaseBatch\<close>,
  \<open>qe_find\<close> for \<open>findPayout\<close>, on a chain \<open>'c\<close>. \<open>qe_sign\<close> gives the signature, none where the process may not sign.\<close>

record ('b, 'c) queue_env =
  qe_hash :: "string \<Rightarrow> string"
  qe_network :: "int \<Rightarrow> network option"
  qe_adapter :: "network \<Rightarrow> string + bool"
  qe_sign :: "escrow_domain \<Rightarrow> typed_message \<Rightarrow> string option"
  qe_effects :: "payout_type \<Rightarrow> 'b payout_effects option"
  qe_submit :: "int \<Rightarrow> authorized \<Rightarrow> 'c \<Rightarrow> (chain_error + string) \<times> 'c"
  qe_batch :: "int \<Rightarrow> release_message signed list \<Rightarrow> 'c \<Rightarrow> (chain_error + string) \<times> 'c"
  qe_find :: "string \<Rightarrow> 'c \<Rightarrow> (chain_error + string option) \<times> 'c"

definition AUTHORIZATION_TTL_SECONDS :: int where "AUTHORIZATION_TTL_SECONDS = 15 * 60"
definition MAX_ATTEMPTS :: nat where "MAX_ATTEMPTS = 8"
definition BATCHABLE_KINDS :: "payout_type list" where "BATCHABLE_KINDS = [Allocation, Order_release]"
definition BATCH_MAX_AMOUNT_ATOMIC :: int where "BATCH_MAX_AMOUNT_ATOMIC = 50000000"
definition BATCH_MAX_SIZE :: nat where "BATCH_MAX_SIZE = 10"
definition BATCH_MIN_SIZE :: nat where "BATCH_MIN_SIZE = 2"
definition WAITING_CODES :: "string list" where "WAITING_CODES = [''EnforcedPause'', ''BucketFrozen'', ''RPC_UNAVAILABLE'']"

text \<open>\<open>value ~ '^0x[0-9a-f]{n}$'\<close>\<close>

definition is_hex :: "nat \<Rightarrow> string \<Rightarrow> bool" where
  "is_hex n t \<longleftrightarrow> take 2 t = ''0x'' \<and> length t = n + 2 \<and> list_all (\<lambda>c. c \<in> set ''0123456789abcdef'') (drop 2 t)"

definition optional :: "('a \<Rightarrow> bool) \<Rightarrow> 'a option \<Rightarrow> bool" where
  "optional P x \<longleftrightarrow> (case x of None \<Rightarrow> True | Some v \<Rightarrow> P v)"

definition is_freeze :: "payout_type \<Rightarrow> bool" where
  "is_freeze k \<longleftrightarrow> k \<in> {Freeze, Unfreeze}"

definition payout_checks :: "chain_payout \<Rightarrow> bool" where
  "payout_checks p \<longleftrightarrow> is_hex 64 (cp_escrow p) \<and> is_hex 64 (cp_ref p) \<and> optional (is_hex 40) (cp_recipient p) \<and> optional (is_hex 40) (cp_token p)
     \<and> 0 \<le> cp_amount p \<and> optional (\<lambda>t. length t \<le> 300) (cp_error p) \<and> optional (is_hex 64) (cp_tx p)
     \<and> is_freeze (cp_kind p) = (cp_amount p = 0)
     \<and> (cp_kind p \<notin> {Allocation, Order_release} \<or> (cp_recipient p \<noteq> None \<and> cp_token p \<noteq> None))
     \<and> (cp_state p = Confirmed) = (cp_confirmed p \<noteq> None)"

definition same_terms :: "chain_payout \<Rightarrow> chain_payout \<Rightarrow> bool" where
  "same_terms old new \<longleftrightarrow> cp_kind new = cp_kind old \<and> cp_subject new = cp_subject old \<and> cp_chain new = cp_chain old \<and> cp_escrow new = cp_escrow old
     \<and> cp_ref new = cp_ref old \<and> cp_recipient new = cp_recipient old \<and> cp_token new = cp_token old \<and> cp_amount new = cp_amount old"

definition chain_payout_guard :: "chain_payout \<Rightarrow> chain_payout \<Rightarrow> bool" where
  "chain_payout_guard old new \<longleftrightarrow> same_terms old new \<and> (cp_state old \<in> {Confirmed, Failed} \<longrightarrow> cp_state new = cp_state old)"

definition update_payout :: "string \<Rightarrow> (chain_payout \<Rightarrow> chain_payout) \<Rightarrow> ('b, unit) queue_action" where
  "update_payout i f =
     abind (aget (\<lambda>s. mget (qu_payouts s) i)) (\<lambda>row. case row of
       None \<Rightarrow> areturn ()
     | Some p \<Rightarrow>
         abind (acheck (chain_payout_guard p (f p)) Db_error) (\<lambda>_.
         abind (acheck (payout_checks (f p)) Db_error) (\<lambda>_.
         amodify (\<lambda>s. s\<lparr>qu_payouts := mput i (f p) (qu_payouts s)\<rparr>))))"

section \<open>Queueing\<close>

record queued_payout =
  qp_kind :: payout_type
  qp_subject :: string
  qp_order :: "string option"
  qp_chain :: int
  qp_escrow :: string
  qp_logicalKey :: string
  qp_recipient :: "string option"
  qp_token :: "string option"
  qp_amount :: int

definition bytes32Of :: "('b, 'c) queue_env \<Rightarrow> string \<Rightarrow> string" where
  "bytes32Of env value = ''0x'' @ qe_hash env value"

definition new_payout :: "('b, 'c) queue_env \<Rightarrow> int \<Rightarrow> queued_payout \<Rightarrow> chain_payout" where
  "new_payout env now q = \<lparr>cp_kind = qp_kind q, cp_subject = qp_subject q, cp_order = qp_order q, cp_chain = qp_chain q,
     cp_escrow = js_lower (qp_escrow q), cp_ref = bytes32Of env (qp_logicalKey q), cp_recipient = map_option js_lower (qp_recipient q),
     cp_token = map_option js_lower (qp_token q), cp_amount = qp_amount q, cp_state = Queued, cp_attempts = 0, cp_next = now,
     cp_error = None, cp_tx = None, cp_confirmed = None\<rparr>"

definition payout_with_ref :: "'b queue \<Rightarrow> string \<Rightarrow> (string \<times> chain_payout) option" where
  "payout_with_ref s ref = find (\<lambda>(i, p). cp_ref p = ref) (qu_payouts s)"

definition enqueueChainPayout :: "('b, 'c) queue_env \<Rightarrow> int \<Rightarrow> string \<Rightarrow> queued_payout \<Rightarrow> ('b, string \<times> chain_payout) queue_action" where
  "enqueueChainPayout env now newId q =
     (let p = new_payout env now q in
      abind (acheck (payout_checks p) Db_error) (\<lambda>_.
      abind (aget (\<lambda>s. payout_with_ref s (cp_ref p))) (\<lambda>existing. case existing of
        Some row \<Rightarrow> areturn row
      | None \<Rightarrow>
          abind (aget (\<lambda>s. mget (qu_payouts s) newId)) (\<lambda>taken.
          abind (acheck (taken = None) Db_error) (\<lambda>_.
          abind (amodify (\<lambda>s. s\<lparr>qu_payouts := mput newId p (qu_payouts s)\<rparr>)) (\<lambda>_.
          areturn (newId, p)))))))"

section \<open>Signing\<close>

definition escrowDomain :: "int \<Rightarrow> string \<Rightarrow> escrow_domain" where
  "escrowDomain chainId escrow = \<lparr>ed_chainId = chainId, ed_verifyingContract = js_lower escrow\<rparr>"

definition signed_with :: "('b, 'c) queue_env \<Rightarrow> escrow_domain \<Rightarrow> ('m \<Rightarrow> typed_message) \<Rightarrow> 'm \<Rightarrow> 'm signed option" where
  "signed_with env domain type m = map_option (\<lambda>t. \<lparr>sg_domain = domain, sg_message = m, sg_signature = t\<rparr>) (qe_sign env domain (type m))"

definition text_of :: "string option \<Rightarrow> string" where
  "text_of t = (case t of Some v \<Rightarrow> v | None \<Rightarrow> ''null'')"

definition authorization_expiry :: "int \<Rightarrow> int" where
  "authorization_expiry now = now div 1000 + AUTHORIZATION_TTL_SECONDS"

definition sign_release :: "('b, 'c) queue_env \<Rightarrow> int \<Rightarrow> string \<Rightarrow> chain_payout \<Rightarrow> network \<Rightarrow> release_message signed option" where
  "sign_release env now nonce p nw = signed_with env (escrowDomain (cp_chain p) (nw_contract nw)) Release_type
     \<lparr>rm_payoutRef = cp_ref p, rm_escrowRef = cp_escrow p, rm_recipient = text_of (cp_recipient p), rm_token = text_of (cp_token p),
      rm_amount = cp_amount p, rm_nonce = nonce, rm_expiry = authorization_expiry now\<rparr>"

definition sign :: "('b, 'c) queue_env \<Rightarrow> int \<Rightarrow> string \<Rightarrow> chain_payout \<Rightarrow> network \<Rightarrow> authorized option" where
  "sign env now nonce p nw =
     (let domain = escrowDomain (cp_chain p) (nw_contract nw); expiry = authorization_expiry now in
      if cp_kind p \<in> {Allocation, Order_release} then map_option (\<lambda>x. Pay (Signed_release x)) (sign_release env now nonce p nw)
      else if cp_kind p \<in> {Pool_refund, Order_refund} then
        map_option (\<lambda>x. Pay (Signed_refund x)) (signed_with env domain Refund_type
          \<lparr>rf_payoutRef = cp_ref p, rf_escrowRef = cp_escrow p, rf_amount = cp_amount p, rf_nonce = nonce, rf_expiry = expiry\<rparr>)
      else map_option Set_frozen (signed_with env domain Freeze_type
          \<lparr>fm_escrowRef = cp_escrow p, fm_frozen = (cp_kind p = Freeze), fm_nonce = nonce, fm_expiry = expiry\<rparr>))"

fun signature_of :: "authorized \<Rightarrow> string" where
  "signature_of (Pay (Signed_release x)) = sg_signature x"
| "signature_of (Pay (Signed_refund x)) = sg_signature x"
| "signature_of (Set_frozen x) = sg_signature x"

definition insert_authorization :: "string \<Rightarrow> string \<Rightarrow> int \<Rightarrow> chain_payout \<Rightarrow> network \<Rightarrow> string \<Rightarrow> ('b, unit) queue_action" where
  "insert_authorization nonce i now p nw sig =
     abind (aget (\<lambda>s. mget (qu_auths s) nonce)) (\<lambda>taken.
     abind (acheck (taken = None \<and> is_hex 64 nonce) Db_error) (\<lambda>_.
     amodify (\<lambda>s. s\<lparr>qu_auths := mput nonce \<lparr>ra_kind = cp_kind p, ra_subject = cp_subject p, ra_chain = cp_chain p, ra_contract = nw_contract nw,
       ra_recipient = cp_recipient p, ra_token = cp_token p, ra_amount = cp_amount p, ra_expires = authorization_expiry now, ra_signature = sig,
       ra_payout = i, ra_consumed = None, ra_outcome = None\<rparr> (qu_auths s)\<rparr>)))"

section \<open>What came of a submission\<close>

text \<open>The outcomes \<open>CONFIRMED\<close> with the hash, \<open>RETRY\<close>, \<open>UNKNOWN\<close> and \<open>FAILED\<close> with a code.\<close>

datatype outcome = Sent "string option" | Wait string | Unclear string | Refused string

definition clean_hash :: "string option \<Rightarrow> string option" where
  "clean_hash tx = (case tx of None \<Rightarrow> None | Some t \<Rightarrow> if take 2 t = ''0x'' \<and> is_hex 64 (js_lower t) then Some (js_lower t) else None)"

definition close_authorizations :: "string \<Rightarrow> (release_authorization \<Rightarrow> release_authorization) \<Rightarrow> ('b, unit) queue_action" where
  "close_authorizations i f = amodify (\<lambda>s. s\<lparr>qu_auths := map (\<lambda>(n, a). (n, if ra_payout a = i \<and> ra_consumed a = None then f a else a)) (qu_auths s)\<rparr>)"

definition payout_case :: "string option \<Rightarrow> string \<Rightarrow> ('b, unit) queue_action" where
  "payout_case oid kind = amodify (\<lambda>s. s\<lparr>qu_cases := qu_cases s @ [(oid, kind)]\<rparr>)"

definition business :: "('b \<Rightarrow> bool \<times> 'b) \<Rightarrow> ('b, unit) queue_action" where
  "business f = (\<lambda>s. case f (qu_business s) of (ok, b) \<Rightarrow> (if ok then Inr () else Inl Business_error, s\<lparr>qu_business := b\<rparr>))"

definition record_confirmed :: "('b, 'c) queue_env \<Rightarrow> int \<Rightarrow> string \<Rightarrow> chain_payout \<Rightarrow> string option \<Rightarrow> ('b, string) queue_action" where
  "record_confirmed env now i p tx =
     (let txHash = clean_hash tx in
      abind (update_payout i (\<lambda>r. r\<lparr>cp_state := Confirmed, cp_tx := txHash, cp_confirmed := Some now, cp_error := None\<rparr>)) (\<lambda>_.
      abind (close_authorizations i (\<lambda>a. if ra_outcome a \<noteq> Some Transferred then a\<lparr>ra_consumed := Some now, ra_outcome := Some Transferred\<rparr> else a)) (\<lambda>_.
      acatch (transact (case qe_effects env (cp_kind p) of None \<Rightarrow> areturn () | Some h \<Rightarrow> business (ef_confirmed h (p\<lparr>cp_tx := txHash\<rparr>))))
        (\<lambda>_. abind (payout_case (cp_order p) ''CHAIN_PAYOUT_EFFECT_FAILED'') (\<lambda>_. areturn ''CONFIRMED_EFFECT_FAILED''))
        (\<lambda>_. areturn ''CONFIRMED''))))"

definition record_failed :: "('b, 'c) queue_env \<Rightarrow> int \<Rightarrow> string \<Rightarrow> chain_payout \<Rightarrow> string \<Rightarrow> ('b, string) queue_action" where
  "record_failed env now i p code =
     abind (update_payout i (\<lambda>r. r\<lparr>cp_state := Failed, cp_error := Some (take 300 code)\<rparr>)) (\<lambda>_.
     abind (close_authorizations i (\<lambda>a. a\<lparr>ra_consumed := Some now, ra_outcome := Some Not_transferred\<rparr>)) (\<lambda>_.
     abind (case qe_effects env (cp_kind p) of None \<Rightarrow> areturn () | Some h \<Rightarrow> business (ef_failed h p (take 300 code))) (\<lambda>_.
     abind (payout_case (cp_order p) ''CHAIN_PAYOUT_FAILED'') (\<lambda>_.
     areturn ''FAILED''))))"

text \<open>30 s, 1 min, 2 min .. capped at 30 min.\<close>

definition delaySeconds :: "nat \<Rightarrow> int" where
  "delaySeconds attempts = min 1800 (30 * 2 ^ (attempts - 1))"

definition record_open :: "int \<Rightarrow> string \<Rightarrow> chain_payout \<Rightarrow> bool \<Rightarrow> string \<Rightarrow> ('b, string) queue_action" where
  "record_open now i p retry code =
     abind (update_payout i (\<lambda>r. r\<lparr>cp_state := (if retry then Retry else Unknown), cp_error := Some (take 300 code),
       cp_next := now + delaySeconds (cp_attempts p) * 1000\<rparr>)) (\<lambda>_.
     abind (close_authorizations i (\<lambda>a. if retry then a\<lparr>ra_consumed := Some now, ra_outcome := Some Not_transferred\<rparr>
       else a\<lparr>ra_outcome := Some Unclear_transfer\<rparr>)) (\<lambda>_.
     areturn (if retry then ''RETRY'' else ''UNKNOWN'')))"

definition finish :: "('b, 'c) queue_env \<Rightarrow> int \<Rightarrow> string \<Rightarrow> outcome \<Rightarrow> ('b, string) queue_action" where
  "finish env now i outcome = transact (
     abind (aget (\<lambda>s. mget (qu_payouts s) i)) (\<lambda>row. case row of
       None \<Rightarrow> areturn ''SKIPPED_FINAL''
     | Some p \<Rightarrow>
         if cp_state p \<in> {Confirmed, Failed} then areturn ''SKIPPED_FINAL''
         else (case outcome of
             Sent tx \<Rightarrow> record_confirmed env now i p tx
           | Refused code \<Rightarrow> record_failed env now i p code
           | Wait code \<Rightarrow> if cp_attempts p \<ge> MAX_ATTEMPTS then record_failed env now i p code else record_open now i p True code
           | Unclear code \<Rightarrow> if cp_attempts p \<ge> MAX_ATTEMPTS then record_failed env now i p code else record_open now i p False code)))"

section \<open>Dispatch\<close>

record ('b, 'c) payout_world =
  wo_queue :: "'b queue"
  wo_chain :: 'c

datatype phase =
    Begin string
  | Reconcile string string network
  | Signing string network
  | Sending string authorized
  | Finishing string outcome
  | Batch_begin "string list"
  | Batch_signing "string list" network
  | Batch_sending "(string \<times> release_message signed) list"

text \<open>A phase leads to further phases, is the end with a result, or throws and ends the whole dispatch.\<close>

datatype progress = Next "phase list" | Ended string | Threw

definition open_states :: "payout_state list" where
  "open_states = [Queued, Retry, Unknown, Submitting]"

definition open_payout :: "'b queue \<Rightarrow> string \<Rightarrow> chain_payout option" where
  "open_payout s i = (case mget (qu_payouts s) i of Some p \<Rightarrow> if cp_state p \<in> set open_states then Some p else None | None \<Rightarrow> None)"

text \<open>A transaction on the queue, and what follows its result.\<close>

definition in_queue :: "('b, 'a) queue_action \<Rightarrow> ('a \<Rightarrow> progress) \<Rightarrow> ('b, 'c) payout_world \<Rightarrow> progress \<times> ('b, 'c) payout_world" where
  "in_queue m k w = (case transact m (wo_queue w) of
     (Inr x, s) \<Rightarrow> (k x, w\<lparr>wo_queue := s\<rparr>) | (Inl e, s) \<Rightarrow> (Threw, w\<lparr>wo_queue := s\<rparr>))"

definition on_chain :: "('c \<Rightarrow> 'r \<times> 'c) \<Rightarrow> ('r \<Rightarrow> progress) \<Rightarrow> ('b, 'c) payout_world \<Rightarrow> progress \<times> ('b, 'c) payout_world" where
  "on_chain m k w = (case m (wo_chain w) of (r, c) \<Rightarrow> (k r, w\<lparr>wo_chain := c\<rparr>))"

definition prepare :: "('b, 'c) queue_env \<Rightarrow> int \<Rightarrow> string \<Rightarrow> ('b, (chain_payout \<times> network) option) queue_action" where
  "prepare env now i =
     abind (aget (\<lambda>s. open_payout s i)) (\<lambda>row. case row of
       None \<Rightarrow> areturn None
     | Some p \<Rightarrow> (case qe_network env (cp_chain p) of
         Some nw \<Rightarrow>
           if nw_enabled nw then areturn (Some (p, nw))
           else abind (update_payout i (\<lambda>r. r\<lparr>cp_state := Retry, cp_error := Some ''NETWORK_DISABLED'', cp_next := now + 300000\<rparr>)) (\<lambda>_. areturn None)
       | None \<Rightarrow> abind (update_payout i (\<lambda>r. r\<lparr>cp_state := Retry, cp_error := Some ''NETWORK_DISABLED'', cp_next := now + 300000\<rparr>)) (\<lambda>_. areturn None)))"

definition after_prepare :: "('b, 'c) queue_env \<Rightarrow> string \<Rightarrow> (chain_payout \<times> network) option \<Rightarrow> progress" where
  "after_prepare env i prepared = (case prepared of
     None \<Rightarrow> Ended ''SKIPPED''
   | Some (p, nw) \<Rightarrow> (case qe_adapter env nw of
       Inl message \<Rightarrow> Next [Finishing i (Wait (''NO_ADAPTER:'' @ message))]
     | Inr batches \<Rightarrow>
         if cp_state p \<in> {Unknown, Submitting} \<and> \<not> is_freeze (cp_kind p) then Next [Reconcile i (cp_ref p) nw] else Next [Signing i nw]))"

definition authorize :: "('b, 'c) queue_env \<Rightarrow> int \<Rightarrow> string \<Rightarrow> string \<Rightarrow> network \<Rightarrow> ('b, authorized option) queue_action" where
  "authorize env now nonce i nw =
     abind (aget (\<lambda>s. open_payout s i)) (\<lambda>row. case row of
       None \<Rightarrow> areturn None
     | Some p \<Rightarrow> (case sign env now nonce p nw of
         None \<Rightarrow> afail Signing_error
       | Some a \<Rightarrow>
           abind (update_payout i (\<lambda>r. r\<lparr>cp_state := Submitting, cp_attempts := cp_attempts r + 1\<rparr>)) (\<lambda>_.
           abind (insert_authorization nonce i now p nw (signature_of a)) (\<lambda>_.
           areturn (Some a)))))"

definition ALREADY_RELEASED :: string where "ALREADY_RELEASED = ''ALREADY_RELEASED:''"

definition error_name :: "chain_error \<Rightarrow> string" where
  "error_name e = (case e of Chain_unavailable \<Rightarrow> ''RPC unavailable'' | Payout_rejected code \<Rightarrow> code | _ \<Rightarrow> ''Error'')"

definition outcome_of :: "chain_error + string \<Rightarrow> outcome" where
  "outcome_of r = (case r of
     Inr txHash \<Rightarrow> Sent (Some txHash)
   | Inl (Payout_rejected code) \<Rightarrow>
       if take (length ALREADY_RELEASED) code = ALREADY_RELEASED then Sent (Some (drop (length ALREADY_RELEASED) code))
       else if code \<in> set WAITING_CODES then Wait code
       else Refused code
   | Inl e \<Rightarrow> Unclear (error_name e))"

definition outcome_found :: "string \<Rightarrow> network \<Rightarrow> chain_error + string option \<Rightarrow> progress" where
  "outcome_found i nw r = (case r of
     Inl e \<Rightarrow> Next [Finishing i (Unclear ''RPC_UNAVAILABLE'')]
   | Inr None \<Rightarrow> Next [Signing i nw]
   | Inr (Some tx) \<Rightarrow> if tx = [] then Next [Signing i nw] else Next [Finishing i (Sent (Some tx))])"

definition finish_all :: "outcome \<Rightarrow> string list \<Rightarrow> progress" where
  "finish_all outcome ids = Next (map (\<lambda>i. Finishing i outcome) ids)"

section \<open>Batches\<close>

definition batch_rows :: "'b queue \<Rightarrow> string list \<Rightarrow> (string \<times> chain_payout) list" where
  "batch_rows s ids = filter (\<lambda>(i, p). i \<in> set ids \<and> cp_state p \<in> {Queued, Retry} \<and> cp_kind p \<in> set BATCHABLE_KINDS) (qu_payouts s)"

definition prepare_batch :: "('b, 'c) queue_env \<Rightarrow> string list \<Rightarrow> 'b queue \<Rightarrow> (string list \<times> network) option" where
  "prepare_batch env ids s = (let rows = batch_rows s ids in
     if length rows < BATCH_MIN_SIZE then None
     else (case qe_network env (cp_chain (snd (hd rows))) of
       None \<Rightarrow> None
     | Some nw \<Rightarrow>
         if \<not> nw_enabled nw \<or> list_ex (\<lambda>(i, p). cp_chain p \<noteq> cp_chain (snd (hd rows))) rows then None
         else Some (map fst rows, nw)))"

definition after_batch :: "('b, 'c) queue_env \<Rightarrow> (string list \<times> network) option \<Rightarrow> progress" where
  "after_batch env prepared = (case prepared of
     None \<Rightarrow> Next []
   | Some (ids, nw) \<Rightarrow> (case qe_adapter env nw of
       Inl message \<Rightarrow> finish_all (Wait (''NO_ADAPTER:'' @ message)) ids
     | Inr batches \<Rightarrow> if \<not> batches then Next (map Begin ids) else Next [Batch_signing ids nw]))"

text \<open>A member that cannot be prepared ends the transaction with what it has written; a signer that throws rolls it back.\<close>

fun sign_batch :: "('b, 'c) queue_env \<Rightarrow> int \<Rightarrow> (string \<Rightarrow> string) \<Rightarrow> network \<Rightarrow> string list \<Rightarrow> ('b, (string \<times> release_message signed) list option) queue_action" where
  "sign_batch env now nonce nw [] = areturn (Some [])"
| "sign_batch env now nonce nw (i # rest) =
     abind (aget (\<lambda>s. mget (qu_payouts s) i)) (\<lambda>row. case row of
       None \<Rightarrow> areturn None
     | Some p \<Rightarrow>
         if cp_state p \<notin> {Queued, Retry} then areturn None
         else (case sign env now (nonce i) p nw of
             None \<Rightarrow> afail Signing_error
           | Some a \<Rightarrow>
               abind (update_payout i (\<lambda>r. r\<lparr>cp_state := Submitting, cp_attempts := cp_attempts r + 1\<rparr>)) (\<lambda>_.
               abind (insert_authorization (nonce i) i now p nw (signature_of a)) (\<lambda>_.
               (case a of
                  Pay (Signed_release x) \<Rightarrow> abind (sign_batch env now nonce nw rest) (\<lambda>others. areturn (map_option (\<lambda>xs. (i, x) # xs) others))
                | _ \<Rightarrow> areturn None)))))"

definition batch_outcome :: "chain_error + string \<Rightarrow> outcome" where
  "batch_outcome r = (case r of
     Inr txHash \<Rightarrow> Sent (Some txHash)
   | Inl (Payout_rejected code) \<Rightarrow> Wait (''BATCH_REJECTED:'' @ code)
   | Inl e \<Rightarrow> Unclear (error_name e))"

section \<open>Phases\<close>

fun run_phase :: "('b, 'c) queue_env \<Rightarrow> int \<Rightarrow> (string \<Rightarrow> string) \<Rightarrow> phase \<Rightarrow> ('b, 'c) payout_world \<Rightarrow> progress \<times> ('b, 'c) payout_world" where
  "run_phase env now nonce (Begin i) w = in_queue (prepare env now i) (after_prepare env i) w"
| "run_phase env now nonce (Reconcile i ref nw) w = on_chain (qe_find env ref) (outcome_found i nw) w"
| "run_phase env now nonce (Signing i nw) w =
     in_queue (authorize env now (nonce i) i nw) (\<lambda>a. case a of None \<Rightarrow> Ended ''SKIPPED'' | Some a \<Rightarrow> Next [Sending i a]) w"
| "run_phase env now nonce (Sending i a) w = on_chain (qe_submit env now a) (\<lambda>r. Next [Finishing i (outcome_of r)]) w"
| "run_phase env now nonce (Finishing i outcome) w = in_queue (finish env now i outcome) Ended w"
| "run_phase env now nonce (Batch_begin ids) w =
     (case ids of
        [] \<Rightarrow> (Next [], w)
      | [i] \<Rightarrow> (Next [Begin i], w)
      | _ \<Rightarrow> in_queue (aget (prepare_batch env ids)) (after_batch env) w)"
| "run_phase env now nonce (Batch_signing ids nw) w =
     in_queue (sign_batch env now nonce nw ids) (\<lambda>xs. case xs of
       None \<Rightarrow> finish_all (Wait ''BATCH_NOT_PREPARED'') ids | Some xs \<Rightarrow> Next [Batch_sending xs]) w"
| "run_phase env now nonce (Batch_sending xs) w =
     on_chain (qe_batch env now (map snd xs)) (\<lambda>r. finish_all (batch_outcome r) (map fst xs)) w"

text \<open>A dispatch is the list of its phases to come; one phase of it, and all of it without a break.\<close>

definition job_step :: "('b, 'c) queue_env \<Rightarrow> int \<Rightarrow> (string \<Rightarrow> string) \<Rightarrow> phase list \<Rightarrow> ('b, 'c) payout_world \<Rightarrow> (phase list \<times> string option) \<times> ('b, 'c) payout_world" where
  "job_step env now nonce job w = (case job of
     [] \<Rightarrow> (([], None), w)
   | ph # rest \<Rightarrow> (case run_phase env now nonce ph w of
       (Next phs, w') \<Rightarrow> ((phs @ rest, None), w')
     | (Ended r, w') \<Rightarrow> ((rest, Some r), w')
     | (Threw, w') \<Rightarrow> (([], Some ''ERROR''), w')))"

section \<open>What is due\<close>

definition dueChainPayouts :: "int \<Rightarrow> (string \<Rightarrow> bool) \<Rightarrow> nat \<Rightarrow> string option \<Rightarrow> 'b queue \<Rightarrow> string list" where
  "dueChainPayouts now stuck limit oid s =
     map fst (take limit (filter (\<lambda>(i, p). cp_state p \<in> {Queued, Retry, Unknown} \<and> cp_next p \<le> now \<and> (oid = None \<or> cp_order p = oid)) (qu_payouts s)))
     @ map fst (take 10 (filter (\<lambda>(i, p). cp_state p = Submitting \<and> stuck i \<and> (oid = None \<or> cp_order p = oid)) (qu_payouts s)))"

definition batch_candidate :: "int \<Rightarrow> chain_payout \<Rightarrow> bool" where
  "batch_candidate now p \<longleftrightarrow> cp_state p \<in> {Queued, Retry} \<and> cp_next p \<le> now \<and> cp_kind p \<in> set BATCHABLE_KINDS \<and> cp_amount p \<le> BATCH_MAX_AMOUNT_ATOMIC"

definition add_to_group :: "string \<times> chain_payout \<Rightarrow> ((int \<times> string) \<times> string list) list \<Rightarrow> ((int \<times> string) \<times> string list) list" where
  "add_to_group row groups = (case row of (i, p) \<Rightarrow> let key = (cp_chain p, case cp_token p of Some t \<Rightarrow> t | None \<Rightarrow> []) in
     mput key ((case mget groups key of Some ids \<Rightarrow> ids | None \<Rightarrow> []) @ [i]) groups)"

fun slices :: "'a list \<Rightarrow> 'a list list" where
  "slices [] = []"
| "slices (x # xs) = take BATCH_MAX_SIZE (x # xs) # slices (drop (BATCH_MAX_SIZE - 1) xs)"

definition dueReleaseBatches :: "int \<Rightarrow> nat \<Rightarrow> 'b queue \<Rightarrow> string list list" where
  "dueReleaseBatches now limit s =
     (let rows = take limit (filter (\<lambda>(i, p). batch_candidate now p) (qu_payouts s)); groups = fold add_to_group rows [] in
      filter (\<lambda>b. length b \<ge> BATCH_MIN_SIZE) (concat (map (slices \<circ> snd) groups)))"

end
