(* ===== verification/State_Frames.thy ===== *)
theory State_Frames
  imports Commands
begin

text \<open>
  Relations between the states before and after an action. One that is reflexive and transitive holds of a sequence of statements
  when it holds of each (\<open>state_frame\<close>), whether they return or throw.
\<close>

section \<open>Relations that statements keep\<close>

locale state_frame =
  fixes R :: "'s \<Rightarrow> 's \<Rightarrow> bool"
  assumes R_refl: "R s s"
    and R_trans: "R s t \<Longrightarrow> R t u \<Longrightarrow> R s u"
begin

definition within :: "('s, 'e, 'a) action \<Rightarrow> bool" where
  "within m \<longleftrightarrow> (\<forall>s. R s (snd (m s)))"

lemma withinD: "within m \<Longrightarrow> R s (snd (m s))"
  by (simp add: within_def)

lemma within_areturn: "within (areturn x)"
  by (simp add: within_def areturn_def R_refl)

lemma within_afail: "within (afail e)"
  by (simp add: within_def afail_def R_refl)

lemma within_alift: "within (alift r)"
  by (simp add: within_def alift_def R_refl)

lemma within_acheck: "within (acheck b e)"
  by (simp add: within_def acheck_def R_refl)

lemma within_aget: "within (aget g)"
  by (simp add: within_def aget_def R_refl)

lemma within_amodify: "(\<And>s. R s (u s)) \<Longrightarrow> within (amodify u)"
  by (simp add: within_def amodify_def)

lemma within_abind: "within m \<Longrightarrow> (\<And>x. within (f x)) \<Longrightarrow> within (abind m f)"
  by (auto simp: within_def abind_def split: prod.splits sum.splits) (metis R_trans snd_conv)+

lemma within_acatch: "within m \<Longrightarrow> (\<And>e. within (f e)) \<Longrightarrow> (\<And>x. within (g x)) \<Longrightarrow> within (acatch m f g)"
  by (auto simp: within_def acatch_def split: prod.splits sum.splits) (metis R_trans snd_conv)+

lemma within_transact: "within m \<Longrightarrow> within (transact m)"
  by (auto simp: within_def transact_def R_refl split: prod.splits sum.splits) (metis snd_conv)

lemma within_if: "within m \<Longrightarrow> within m' \<Longrightarrow> within (if b then m else m')"
  by simp

lemma within_option: "within m \<Longrightarrow> (\<And>x. within (f x)) \<Longrightarrow> within (case r of None \<Rightarrow> m | Some x \<Rightarrow> f x)"
  by (cases r) simp_all

lemma within_sum: "(\<And>x. within (f x)) \<Longrightarrow> (\<And>x. within (g x)) \<Longrightarrow> within (case r of Inl x \<Rightarrow> f x | Inr x \<Rightarrow> g x)"
  by (cases r) simp_all

lemma within_prod: "(\<And>x y. within (f x y)) \<Longrightarrow> within (case p of (x, y) \<Rightarrow> f x y)"
  by (cases p) simp

lemma within_let: "(\<And>x. within (f x)) \<Longrightarrow> within (let x = v in f x)"
  by simp

lemmas within_intros = within_areturn within_afail within_alift within_acheck within_aget within_acatch within_transact within_if
  within_option within_sum within_prod within_let within_abind

end

end
