(* ===== verification/Payout_System.thy ===== *)
theory Payout_System
  imports Payout_Queue State_Frames
begin

text \<open>
  Dispatches of payouts as they run: any number of them interleaved phase by phase, stopped by a crash after any phase, beside
  business transactions that queue payouts or change their own tables, and a chain that moves on. Then what every transaction on the
  queue leaves in place: the terms of a payout, its final state, the uniqueness of references (\<open>payouts_move\<close>).
\<close>

section \<open>Steps\<close>

type_synonym ('b, 'c) payout_system = "('b, 'c) payout_world \<times> phase list list"

text \<open>\<open>allowed\<close> are the environments that the calls may see, \<open>moves\<close> what the chain may do on its own.\<close>

inductive payout_step :: "(('b, 'c) queue_env \<Rightarrow> bool) \<Rightarrow> ('c \<Rightarrow> 'c \<Rightarrow> bool) \<Rightarrow> ('b \<Rightarrow> 'b \<Rightarrow> bool) \<Rightarrow> ('b, 'c) payout_system \<Rightarrow> ('b, 'c) payout_system \<Rightarrow> bool"
  for allowed moves works where
  queued: "allowed env \<Longrightarrow> payout_step allowed moves works (w, js) (w\<lparr>wo_queue := snd (transact (enqueueChainPayout env now newId q) (wo_queue w))\<rparr>, js)"
| dispatched: "payout_step allowed moves works (w, js) (w, js @ [[Begin i]])"
| batched: "payout_step allowed moves works (w, js) (w, js @ [[Batch_begin ids]])"
| advanced: "allowed env \<Longrightarrow> k < length js \<Longrightarrow> job_step env now nonce (js ! k) w = ((job, result), w') \<Longrightarrow>
    payout_step allowed moves works (w, js) (w', js[k := job])"
| crashed: "payout_step allowed moves works (w, js) (w, js[k := []])"
| chain_alone: "moves c c' \<Longrightarrow> wo_chain w = c \<Longrightarrow> payout_step allowed moves works (w, js) (w\<lparr>wo_chain := c'\<rparr>, js)"
| worked: "works (qu_business (wo_queue w)) b \<Longrightarrow> payout_step allowed moves works (w, js) (w\<lparr>wo_queue := (wo_queue w)\<lparr>qu_business := b\<rparr>\<rparr>, js)"

definition no_payouts :: "'b \<Rightarrow> 'c \<Rightarrow> ('b, 'c) payout_system" where
  "no_payouts b c = (\<lparr>wo_queue = \<lparr>qu_payouts = [], qu_auths = [], qu_cases = [], qu_business = b\<rparr>, wo_chain = c\<rparr>, [])"

inductive payout_reachable :: "(('b, 'c) queue_env \<Rightarrow> bool) \<Rightarrow> ('c \<Rightarrow> 'c \<Rightarrow> bool) \<Rightarrow> ('b \<Rightarrow> 'b \<Rightarrow> bool) \<Rightarrow> ('b, 'c) payout_system \<Rightarrow> ('b, 'c) payout_system \<Rightarrow> bool"
  for allowed moves works start where
  payouts_start: "payout_reachable allowed moves works start start"
| payouts_moved: "payout_reachable allowed moves works start x \<Longrightarrow> payout_step allowed moves works x y \<Longrightarrow> payout_reachable allowed moves works start y"

section \<open>What stays\<close>

definition final :: "chain_payout \<Rightarrow> bool" where
  "final p \<longleftrightarrow> cp_state p \<in> {Confirmed, Failed}"

definition payouts_ok :: "'b queue \<Rightarrow> bool" where
  "payouts_ok s \<longleftrightarrow> mok (qu_payouts s)
     \<and> (\<forall>i j p q. mget (qu_payouts s) i = Some p \<longrightarrow> mget (qu_payouts s) j = Some q \<longrightarrow> cp_ref p = cp_ref q \<longrightarrow> i = j)"

definition payouts_move :: "string set \<Rightarrow> 'b queue \<Rightarrow> 'b queue \<Rightarrow> bool" where
  "payouts_move A s t \<longleftrightarrow> (payouts_ok s \<longrightarrow> payouts_ok t)
     \<and> (\<forall>i p. mget (qu_payouts s) i = Some p \<longrightarrow> (\<exists>q. mget (qu_payouts t) i = Some q \<and> same_terms p q \<and> (final p \<longrightarrow> cp_state q = cp_state p)))
     \<and> (\<forall>i q. mget (qu_payouts t) i = Some q \<longrightarrow> cp_state q = Confirmed \<longrightarrow> i \<in> A \<or> (\<exists>p. mget (qu_payouts s) i = Some p \<and> cp_state p = Confirmed))"

lemma same_terms_refl: "same_terms p p"
  by (simp add: same_terms_def)

lemma same_terms_trans: "same_terms p q \<Longrightarrow> same_terms q r \<Longrightarrow> same_terms p r"
  by (simp add: same_terms_def)

lemma payouts_move_refl: "payouts_move A s s"
  by (auto simp: payouts_move_def intro: same_terms_refl)

lemma payouts_move_trans:
  assumes "payouts_move A s t" "payouts_move A t u"
  shows "payouts_move A s u"
  unfolding payouts_move_def
proof (intro conjI allI impI)
  show "payouts_ok u" if "payouts_ok s" using that assms by (simp add: payouts_move_def)
  fix i p assume "mget (qu_payouts s) i = Some p"
  then obtain q where "mget (qu_payouts t) i = Some q" "same_terms p q" "final p \<longrightarrow> cp_state q = cp_state p"
    using assms(1) unfolding payouts_move_def by blast
  moreover from this obtain r where "mget (qu_payouts u) i = Some r" "same_terms q r" "final q \<longrightarrow> cp_state r = cp_state q"
    using assms(2) unfolding payouts_move_def by blast
  ultimately show "\<exists>r. mget (qu_payouts u) i = Some r \<and> same_terms p r \<and> (final p \<longrightarrow> cp_state r = cp_state p)"
    by (auto simp: final_def intro: same_terms_trans)
next
  fix i r assume "mget (qu_payouts u) i = Some r" "cp_state r = Confirmed"
  then show "i \<in> A \<or> (\<exists>p. mget (qu_payouts s) i = Some p \<and> cp_state p = Confirmed)"
    using assms unfolding payouts_move_def by blast
qed

interpretation rows: state_frame "payouts_move A" for A
  by unfold_locales (rule payouts_move_refl, rule payouts_move_trans)

lemma within_update:
  assumes "\<And>p. cp_state (f p) = Confirmed \<Longrightarrow> cp_state p = Confirmed \<or> i \<in> A"
  shows "rows.within A (update_payout i f)"
  unfolding rows.within_def
proof
  fix s :: "'b queue"
  have "payouts_move A s (s\<lparr>qu_payouts := mput i (f p) (qu_payouts s)\<rparr>)"
    if p: "mget (qu_payouts s) i = Some p" "chain_payout_guard p (f p)" for p
  proof -
    have "cp_ref (f p) = cp_ref p" using p(2) by (simp add: chain_payout_guard_def same_terms_def)
    then have "payouts_ok s \<longrightarrow> payouts_ok (s\<lparr>qu_payouts := mput i (f p) (qu_payouts s)\<rparr>)"
      using p(1) by (auto simp: payouts_ok_def split: if_splits)
    with p assms show ?thesis by (auto simp: payouts_move_def chain_payout_guard_def final_def intro: same_terms_refl)
  qed
  then show "payouts_move A s (snd (update_payout i f s))"
    by (auto simp: update_payout_def abind_def aget_def acheck_def amodify_def areturn_def payouts_move_refl split: option.split)
qed

lemma wp_business: "wp (business f) Q E t \<longleftrightarrow> (if fst (f (qu_business t)) then Q () (t\<lparr>qu_business := snd (f (qu_business t))\<rparr>)
    else E Business_error (t\<lparr>qu_business := snd (f (qu_business t))\<rparr>))"
  by (simp add: wp_def business_def split: prod.split)

lemma wp_update_row:
  assumes "mget (qu_payouts s) i = Some p"
  shows "wp (update_payout i f) Q E s \<longleftrightarrow> (if chain_payout_guard p (f p) \<and> payout_checks (f p) then Q () (s\<lparr>qu_payouts := mput i (f p) (qu_payouts s)\<rparr>) else E Db_error s)"
  using assms by (simp add: update_payout_def wp)

lemma payouts_same: "qu_payouts t = qu_payouts s \<Longrightarrow> payouts_move A s t"
  by (auto simp: payouts_move_def payouts_ok_def intro: same_terms_refl)

lemma within_asides:
  "rows.within A (close_authorizations i g)" "rows.within A (payout_case oid k)" "rows.within A (insert_authorization nonce i now p nw sig)"
  "rows.within A (business h)"
  unfolding close_authorizations_def payout_case_def insert_authorization_def
  by (intro rows.within_intros rows.within_amodify payouts_same; simp)+
    (auto simp: business_def rows.within_def payouts_same split: prod.split)

lemmas within_rows = rows.within_intros within_asides

lemma within_finish: "rows.within (case outcome of Sent tx \<Rightarrow> {i} | _ \<Rightarrow> {}) (finish env now i outcome)"
  unfolding finish_def record_confirmed_def record_failed_def record_open_def Let_def
  by (intro within_rows within_update; cases outcome; (simp only: outcome.case)?; intro within_rows within_update) auto

lemma within_prepare: "rows.within {} (prepare env now i)"
  unfolding prepare_def by (intro within_rows within_update) auto

lemma within_authorize: "rows.within {} (authorize env now nonce i nw)"
  unfolding authorize_def by (intro within_rows within_update) auto

lemma within_sign_batch: "rows.within {} (sign_batch env now nonce nw ids)"
proof (induction ids)
  case (Cons i ids)
  have "rows.within {} (case a of Pay (Signed_release x) \<Rightarrow> abind (sign_batch env now nonce nw ids) (\<lambda>others. areturn (map_option (\<lambda>xs. (i, x) # xs) others))
      | _ \<Rightarrow> areturn None)" for a
    by (cases a rule: signature_of.cases) (simp_all add: within_rows Cons)
  then show ?case unfolding sign_batch.simps by (intro within_rows within_update) auto
qed (simp add: within_rows)

lemma payouts_added:
  assumes "mget (qu_payouts s) i = None" "payout_with_ref s (cp_ref p) = None" "cp_state p \<noteq> Confirmed"
  shows "payouts_move A s (s\<lparr>qu_payouts := mput i p (qu_payouts s)\<rparr>)"
proof -
  have fresh: "cp_ref q \<noteq> cp_ref p" if "mget (qu_payouts s) j = Some q" for j q
    using assms(2) mget_mem [OF that] by (auto simp: payout_with_ref_def find_None_iff)
  from assms show ?thesis by (auto simp: payouts_move_def payouts_ok_def dest: fresh intro: same_terms_refl)
qed

lemma within_enqueue: "rows.within {} (enqueueChainPayout env now newId q)"
proof -
  have "wp (enqueueChainPayout env now newId q) (\<lambda>_. payouts_move {} s) (\<lambda>_. payouts_move {} s) s" for s
    by (auto simp: enqueueChainPayout_def Let_def wp payouts_move_refl split: option.split intro!: payouts_added) (simp add: new_payout_def)
  then show ?thesis by (simp add: rows.within_def wp_state)
qed

section \<open>Every step\<close>

lemma move_any: "payouts_move A s t \<Longrightarrow> payouts_move UNIV s t"
  by (simp add: payouts_move_def)

lemma queue_moves: "rows.within A m \<Longrightarrow> payouts_move UNIV (wo_queue w) (wo_queue (snd (in_queue m k w)))"
  using move_any [OF rows.withinD [OF rows.within_transact [of A m]], of "wo_queue w"]
  by (auto simp: in_queue_def split: prod.splits sum.splits)

lemmas phases_move = queue_moves [OF within_prepare] queue_moves [OF within_authorize] queue_moves [OF within_finish]
  queue_moves [OF within_sign_batch] queue_moves [OF rows.within_aget]

lemma phase_moves: "payouts_move UNIV (wo_queue w) (wo_queue (snd (run_phase env now nonce ph w)))"
proof (cases ph)
  case (Batch_begin ids)
  then show ?thesis by (simp add: phases_move payouts_move_refl split: list.split)
qed (simp_all add: phases_move payouts_move_refl on_chain_def split: prod.split)

lemma step_moves: "payout_step allowed moves works x y \<Longrightarrow> payouts_move UNIV (wo_queue (fst x)) (wo_queue (fst y))"
proof (induction rule: payout_step.induct)
  case (queued env w js now newId q)
  have "payouts_move {} (wo_queue w) (snd (transact (enqueueChainPayout env now newId q) (wo_queue w)))"
    by (rule rows.withinD [OF rows.within_transact [OF within_enqueue]])
  from move_any [OF this] show ?case by simp
next
  case (advanced env k js now nonce w job result w')
  show ?case
  proof (cases "js ! k")
    case (Cons ph rest)
    with advanced(3) have "w' = snd (run_phase env now nonce ph w)" by (auto simp: job_step_def split: prod.splits progress.splits)
    then show ?thesis by (simp add: phase_moves)
  qed (use advanced(3) in \<open>simp add: job_step_def payouts_move_refl\<close>)
qed (simp_all add: payouts_move_refl payouts_same)

lemma run_moves: "payout_reachable allowed moves works x y \<Longrightarrow> payouts_move UNIV (wo_queue (fst x)) (wo_queue (fst y))"
proof (induction rule: payout_reachable.induct)
  case (payouts_moved y z)
  from payouts_move_trans [OF payouts_moved(3) step_moves [OF payouts_moved(2)]] show ?case .
qed (rule payouts_move_refl)

lemma reachable_rows_ok: "payout_reachable allowed moves works (no_payouts b c) x \<Longrightarrow> payouts_ok (wo_queue (fst x))"
  using run_moves [of allowed moves works "no_payouts b c" x] by (simp add: payouts_move_def no_payouts_def payouts_ok_def)

lemma reachable_more: "payout_reachable allowed moves works y z \<Longrightarrow> payout_reachable allowed moves works x y \<Longrightarrow> payout_reachable allowed moves works x z"
  by (induction rule: payout_reachable.induct) (auto intro: payouts_moved)

end
