(* ===== verification/Payout_Safety.thy ===== *)
theory Payout_Safety
  imports Payout_System
begin

text \<open>
  What the queue needs of the contract that holds the escrows (\<open>payout_contract\<close>: it pays a reference at most once and says so
  truthfully), and what the two achieve together however dispatches interleave, crash and retry: the chain pays only what was queued,
  and a payout is confirmed only when the chain has paid it.
\<close>

section \<open>Payments and rows\<close>

text \<open>A payment: release or refund, its reference, the recipient of a release, the amount.\<close>

type_synonym payment = "payout_kind \<times> string \<times> string \<times> int"

definition payment_ref :: "payment \<Rightarrow> string" where
  "payment_ref x = fst (snd x)"

fun paid_as :: "signed_payout \<Rightarrow> payment" where
  "paid_as (Signed_release x) = (Release_kind, rm_payoutRef (sg_message x), rm_recipient (sg_message x), rm_amount (sg_message x))"
| "paid_as (Signed_refund x) = (Refund_kind, rf_payoutRef (sg_message x), [], rf_amount (sg_message x))"

definition owed :: "chain_payout \<Rightarrow> payment" where
  "owed p = (if cp_kind p \<in> {Allocation, Order_release} then (Release_kind, cp_ref p, text_of (cp_recipient p), cp_amount p)
     else (Refund_kind, cp_ref p, [], cp_amount p))"

definition authorizes :: "chain_payout \<Rightarrow> authorized \<Rightarrow> bool" where
  "authorizes p a \<longleftrightarrow> (case a of Pay q \<Rightarrow> \<not> is_freeze (cp_kind p) \<and> paid_as q = owed p | Set_frozen x \<Rightarrow> is_freeze (cp_kind p))"

definition paid_row :: "payment set \<Rightarrow> chain_payout \<Rightarrow> bool" where
  "paid_row pays p \<longleftrightarrow> is_freeze (cp_kind p) \<or> owed p \<in> pays"

lemma payment_ref_simps [simp]: "payment_ref (paid_as q) = po_ref q" "payment_ref (owed p) = cp_ref p"
  by (cases q) (simp_all add: payment_ref_def owed_def)

lemma terms_simps:
  assumes "same_terms p q"
  shows "owed q = owed p" "is_freeze (cp_kind q) = is_freeze (cp_kind p)" "authorizes q a = authorizes p a" "paid_row pays q = paid_row pays p" "cp_ref q = cp_ref p"
  using assms by (auto simp: same_terms_def owed_def authorizes_def paid_row_def split: authorized.split)

lemma sign_authorizes: "sign env now nonce p nw = Some a \<Longrightarrow> authorizes p a"
  by (auto simp: sign_def Let_def sign_release_def signed_with_def authorizes_def owed_def is_freeze_def split: if_splits) (cases "cp_kind p"; simp)

fun phase_ok :: "payment set \<Rightarrow> 'b queue \<Rightarrow> phase \<Rightarrow> bool" where
  "phase_ok pays s (Reconcile i ref nw) \<longleftrightarrow> (\<exists>p. mget (qu_payouts s) i = Some p \<and> cp_ref p = ref \<and> \<not> is_freeze (cp_kind p))"
| "phase_ok pays s (Sending i a) \<longleftrightarrow> (\<exists>p. mget (qu_payouts s) i = Some p \<and> authorizes p a)"
| "phase_ok pays s (Finishing i (Sent tx)) \<longleftrightarrow> (\<exists>p. mget (qu_payouts s) i = Some p \<and> paid_row pays p)"
| "phase_ok pays s (Batch_sending xs) \<longleftrightarrow> (\<forall>(i, x) \<in> set xs. \<exists>p. mget (qu_payouts s) i = Some p \<and> authorizes p (Pay (Signed_release x)))"
| "phase_ok pays s ph \<longleftrightarrow> True"

definition progress_ok :: "payment set \<Rightarrow> 'b queue \<Rightarrow> progress \<Rightarrow> bool" where
  "progress_ok pays s pr \<longleftrightarrow> (case pr of Next phs \<Rightarrow> list_all (phase_ok pays s) phs | _ \<Rightarrow> True)"

definition payouts_inv :: "payment set \<Rightarrow> 'b queue \<Rightarrow> bool" where
  "payouts_inv pays s \<longleftrightarrow> payouts_ok s
     \<and> (\<forall>x \<in> pays. \<exists>i p. mget (qu_payouts s) i = Some p \<and> \<not> is_freeze (cp_kind p) \<and> x = owed p)
     \<and> (\<forall>i p. mget (qu_payouts s) i = Some p \<longrightarrow> cp_state p = Confirmed \<longrightarrow> paid_row pays p)"

lemma row_moved: "payouts_move A s t \<Longrightarrow> mget (qu_payouts s) i = Some p \<Longrightarrow> \<exists>q. mget (qu_payouts t) i = Some q \<and> same_terms p q"
  unfolding payouts_move_def by blast

lemma paid_row_more: "pays \<subseteq> pays' \<Longrightarrow> paid_row pays p \<Longrightarrow> paid_row pays' p"
  by (auto simp: paid_row_def)

lemma ex_moved:
  assumes "payouts_move A s t" "\<exists>p. mget (qu_payouts s) i = Some p \<and> P p" "\<And>p q. same_terms p q \<Longrightarrow> P p \<Longrightarrow> Q q"
  shows "\<exists>q. mget (qu_payouts t) i = Some q \<and> Q q"
  using assms(2) row_moved [OF assms(1)] assms(3) by meson

lemma phase_moved:
  assumes "payouts_move A s t" "pays \<subseteq> pays'" "phase_ok pays s ph"
  shows "phase_ok pays' t ph"
proof (cases ph)
  case (Reconcile i ref nw)
  with assms(3) show ?thesis using ex_moved [OF assms(1), where P = "\<lambda>p. cp_ref p = ref \<and> \<not> is_freeze (cp_kind p)"] by (simp add: terms_simps)
next
  case (Sending i a)
  with assms(3) show ?thesis using ex_moved [OF assms(1), where P = "\<lambda>p. authorizes p a"] by (simp add: terms_simps)
next
  case (Finishing i outcome)
  show ?thesis
  proof (cases outcome)
    case (Sent tx)
    with Finishing assms(3) have "\<exists>p. mget (qu_payouts s) i = Some p \<and> paid_row pays p" by simp
    then have "\<exists>q. mget (qu_payouts t) i = Some q \<and> paid_row pays' q"
    proof (rule ex_moved [OF assms(1)])
      fix p q assume pq: "same_terms p q" "paid_row pays p"
      show "paid_row pays' q" unfolding terms_simps(4) [OF pq(1)] by (rule paid_row_more [OF assms(2) pq(2)])
    qed
    with Finishing Sent show ?thesis by simp
  qed (simp_all add: Finishing)
next
  case (Batch_sending xs)
  have "\<exists>q. mget (qu_payouts t) i = Some q \<and> authorizes q (Pay (Signed_release x))" if "(i, x) \<in> set xs" for i x
    using that assms(3) Batch_sending by (intro ex_moved [OF assms(1), where P = "\<lambda>p. authorizes p (Pay (Signed_release x))"]) (auto simp: terms_simps)
  with Batch_sending show ?thesis by auto
qed simp_all

lemma inv_moved:
  assumes "payouts_inv pays s" "payouts_move A s t" "\<And>i. i \<in> A \<Longrightarrow> \<exists>p. mget (qu_payouts s) i = Some p \<and> paid_row pays p"
  shows "payouts_inv pays t"
  unfolding payouts_inv_def
proof (intro conjI ballI allI impI)
  show "payouts_ok t" using assms(1,2) by (simp add: payouts_inv_def payouts_move_def)
  fix x assume "x \<in> pays"
  then obtain i where "\<exists>p. mget (qu_payouts s) i = Some p \<and> (\<not> is_freeze (cp_kind p) \<and> x = owed p)"
    using assms(1) unfolding payouts_inv_def by blast
  then have "\<exists>p. mget (qu_payouts t) i = Some p \<and> (\<not> is_freeze (cp_kind p) \<and> x = owed p)"
    by (rule ex_moved [OF assms(2)]) (simp add: terms_simps(1,2) del: not_None_eq)
  then show "\<exists>i p. mget (qu_payouts t) i = Some p \<and> \<not> is_freeze (cp_kind p) \<and> x = owed p" by blast
next
  fix i q assume q: "mget (qu_payouts t) i = Some q" "cp_state q = Confirmed"
  then have "\<exists>p. mget (qu_payouts s) i = Some p \<and> paid_row pays p"
    using assms(1,2,3) unfolding payouts_inv_def payouts_move_def by blast
  then have "\<exists>p. mget (qu_payouts t) i = Some p \<and> paid_row pays p"
    by (rule ex_moved [OF assms(2)]) (simp add: terms_simps(4))
  then show "paid_row pays q" using q(1) by simp
qed

lemma inv_paid:
  assumes "payouts_inv pays s" "\<And>x. x \<in> X \<Longrightarrow> \<exists>i p. mget (qu_payouts s) i = Some p \<and> \<not> is_freeze (cp_kind p) \<and> x = owed p"
  shows "payouts_inv (pays \<union> X) s"
  using assms by (auto simp: payouts_inv_def intro: paid_row_more [of pays])

text \<open>A reference that was paid is the payment of its row.\<close>

lemma ref_paid:
  assumes "payouts_inv pays s" "mget (qu_payouts s) i = Some p" "cp_ref p \<in> payment_ref ` pays"
  shows "paid_row pays p"
proof -
  obtain x where x: "x \<in> pays" "payment_ref x = cp_ref p" using assms(3) by auto
  then obtain j q where q: "mget (qu_payouts s) j = Some q" "x = owed q" using assms(1) unfolding payouts_inv_def by blast
  then have "i = j" using assms(1,2) x(2) unfolding payouts_inv_def payouts_ok_def by (metis payment_ref_simps(2))
  then show ?thesis using q assms(2) x(1) by (simp add: paid_row_def)
qed

end
