(* ===== verification/Chain_Properties.thy ===== *)
theory Chain_Properties
  imports Dev_Chain
begin

text \<open>
  What the devnet simulator guarantees: its calls as steps that interleave at their \<open>await\<close>, no escrow overdrawn however
  they interleave, batches all or nothing, and a payout reference paid once while payouts run one at a time.
\<close>

section \<open>Steps\<close>

datatype chain_call =
    Mine nat | Deposit deposit_input | Reorg nat | Reinclude chain_receipt | Offline bool | Pause bool
  | Fail_transfers string bool | Own_nft string int string | Learn_contract string

fun chain_sync :: "chain_env \<Rightarrow> chain_call \<Rightarrow> unit chain_action" where
  "chain_sync env (Mine n) = mine env n"
| "chain_sync env (Deposit input) = abind (submitDeposit env input) (\<lambda>_. areturn ())"
| "chain_sync env (Reorg n) = reorg env n"
| "chain_sync env (Reinclude r) = reinclude env r"
| "chain_sync env (Offline b) = setOffline b"
| "chain_sync env (Pause b) = setPaused b"
| "chain_sync env (Fail_transfers t b) = failTransfersOf t b"
| "chain_sync env (Own_nft c i w) = setNftOwner c i w"
| "chain_sync env (Learn_contract a) = amodify (\<lambda>s. s\<lparr>ch_settlement := (case ch_settlement s of None \<Rightarrow> Some a | Some c \<Rightarrow> Some c)\<rparr>)"

datatype waiting = Paying signed_payout | Freezing "freeze_message signed"

fun admit :: "waiting \<Rightarrow> unit chain_action" where
  "admit (Paying p) = payout_admit p"
| "admit (Freezing x) = freeze_admit x"

fun settle :: "chain_env \<Rightarrow> int \<Rightarrow> waiting \<Rightarrow> string chain_action" where
  "settle env now (Paying p) = payout_settle env now p"
| "settle env now (Freezing x) = freeze_settle env now x"

text \<open>At most \<open>limit\<close> signed calls wait for their verification at a time; a batch runs while none waits.\<close>

inductive chain_step :: "chain_env \<Rightarrow> nat \<Rightarrow> chain \<times> waiting list \<Rightarrow> chain \<times> waiting list \<Rightarrow> bool" for env limit where
  call: "chain_step env limit (s, ws) (snd (chain_sync env c s), ws)"
| arrive: "length ws < limit \<Longrightarrow> fst (admit w s) = Inr () \<Longrightarrow> chain_step env limit (s, ws) (s, ws @ [w])"
| resume: "i < length ws \<Longrightarrow> chain_step env limit (s, ws) (snd (settle env now (ws ! i) s), take i ws @ drop (Suc i) ws)"
| batched: "chain_step env limit (s, []) (snd (executeReleaseBatch env batch s), [])"

inductive chain_reachable :: "chain_env \<Rightarrow> nat \<Rightarrow> chain \<times> waiting list \<Rightarrow> bool" for env limit where
  fresh_chain: "chain_reachable env limit (new_chain env chainId settlement, [])"
| chain_moved: "chain_reachable env limit x \<Longrightarrow> chain_step env limit x y \<Longrightarrow> chain_reachable env limit y"

section \<open>What the calls change\<close>

lemma wp_nextHash [wp]: "wp (nextHash env label) Q E = (\<lambda>s. Q (''0x'' @ ce_keccak env (ch_chainId s) label (ch_salt s + 1)) (s\<lparr>ch_salt := ch_salt s + 1\<rparr>))"
  by (simp add: nextHash_def wp)

lemma wp_push_block [wp]: "wp (push_block number hash receipts) Q E =
    (\<lambda>s. Q () (s\<lparr>ch_blocks := ch_blocks s @ [\<lparr>bk_number = number, bk_hash = hash, bk_receipts = receipts\<rparr>]\<rparr>))"
  by (simp add: push_block_def wp)

definition mined :: "chain \<Rightarrow> chain \<Rightarrow> bool" where
  "mined s t \<longleftrightarrow> ch_chainId t = ch_chainId s \<and> ch_settlement t = ch_settlement s \<and> ch_offline t = ch_offline s
     \<and> ch_usedNonces t = ch_usedNonces s \<and> ch_releasedPayouts t = ch_releasedPayouts s \<and> ch_buckets t = ch_buckets s
     \<and> ch_paused t = ch_paused s \<and> ch_failingTokens t = ch_failingTokens s \<and> ch_nftOwners t = ch_nftOwners s
     \<and> ch_transfers t = ch_transfers s"

lemma mined_update [simp]: "mined s (s\<lparr>ch_salt := n\<rparr>)" "mined s (s\<lparr>ch_blocks := bs\<rparr>)" "mined s (s\<lparr>ch_salt := n, ch_blocks := bs\<rparr>)" "mined s s"
  by (simp_all add: mined_def)

lemma mined_trans: "mined s t \<Longrightarrow> mined t u \<Longrightarrow> mined s u"
  by (simp add: mined_def)

lemma wp_mine: "(\<And>t. mined s t \<Longrightarrow> Q () t) \<Longrightarrow> wp (mine env n) Q E s"
proof (induction n arbitrary: s)
  case (Suc n)
  show ?case
    by (simp add: wp, rule Suc.IH, rule Suc.prems, erule mined_trans [rotated]) simp
qed (simp add: wp)

lemma wp_verify: "Q () s \<Longrightarrow> (\<And>e. E e s) \<Longrightarrow> wp (verify env now check) Q E s"
  by (auto simp: verify_def wp split: option.splits sum.splits)

definition paid_bucket :: "signed_payout \<Rightarrow> sim_bucket \<Rightarrow> sim_bucket" where
  "paid_bucket p b = (case po_kind p of Release_kind \<Rightarrow> b\<lparr>sb_released := sb_released b + po_amount p\<rparr>
     | Refund_kind \<Rightarrow> b\<lparr>sb_refunded := sb_refunded b + po_amount p\<rparr>)"

definition settled :: "signed_payout \<Rightarrow> sim_bucket \<Rightarrow> string \<Rightarrow> chain \<Rightarrow> chain" where
  "settled p b txHash s = s\<lparr>ch_usedNonces := List.insert (po_nonce p) (ch_usedNonces s),
     ch_releasedPayouts := mput (po_ref p) txHash (ch_releasedPayouts s), ch_buckets := mput (po_escrow p) (paid_bucket p b) (ch_buckets s),
     ch_transfers := ch_transfers s @ [\<lparr>ct_kind = po_kind p, ct_payoutRef = po_ref p, ct_recipient = po_recipient p b,
       ct_token = sb_token b, ct_amount = po_amount p, ct_txHash = txHash\<rparr>]\<rparr>"

lemma wp_settle:
  assumes "\<And>b tx t. mget (ch_buckets s) (po_escrow p) = Some b \<Longrightarrow> 0 < po_amount p \<Longrightarrow>
      po_amount p \<le> sb_deposited b - sb_released b - sb_refunded b \<Longrightarrow> tx \<noteq> [] \<Longrightarrow> mined (settled p b tx s) t \<Longrightarrow> Q tx t"
    and "\<And>e. E e s"
  shows "wp (payout_settle env now p) Q E s"
  unfolding payout_settle_def wp
proof (rule wp_verify, goal_cases)
  case 1
  have step: "wp (mine env 1) (\<lambda>_. Q tx) E t"
    if "mget (ch_buckets s) (po_escrow p) = Some b" "0 < po_amount p" "po_amount p \<le> sb_deposited b - sb_released b - sb_refunded b"
      "tx \<noteq> []" "mined (settled p b tx s) t" for b tx t
    by (rule wp_mine) (blast intro: assms(1) [OF that(1-4)] mined_trans [OF that(5)])
  show ?case
    by (auto simp: wp assms(2) not_le not_less simp del: mine.simps One_nat_def split: option.split
      intro!: step simp: settled_def paid_bucket_def mined_def)
qed (rule assms(2))


lemma wp_admit:
  assumes "mget (ch_buckets s) (po_escrow p) \<noteq> None \<Longrightarrow> mget (ch_releasedPayouts s) (po_ref p) \<in> {None, Some []} \<Longrightarrow> Q () s" "\<And>e. E e s"
  shows "wp (payout_admit p) Q E s"
  using assms by (auto simp: payout_admit_def guard_def wp split: option.split)

lemma wp_payout:
  assumes "\<And>b tx t. mget (ch_buckets s) (po_escrow p) = Some b \<Longrightarrow> mget (ch_releasedPayouts s) (po_ref p) \<in> {None, Some []} \<Longrightarrow> 0 < po_amount p \<Longrightarrow>
      po_amount p \<le> sb_deposited b - sb_released b - sb_refunded b \<Longrightarrow> tx \<noteq> [] \<Longrightarrow> mined (settled p b tx s) t \<Longrightarrow> Q tx t"
    and "\<And>e. E e s"
  shows "wp (payout env now p) Q E s"
  unfolding payout_def wp by (rule wp_admit) (blast intro: wp_settle assms)+

text \<open>A refused payout changes nothing; what a release does to the rest of the state.\<close>

definition paid_out :: "chain \<Rightarrow> chain \<Rightarrow> bool" where
  "paid_out s t \<longleftrightarrow> ch_chainId t = ch_chainId s \<and> ch_settlement t = ch_settlement s \<and> ch_offline t = ch_offline s
     \<and> ch_paused t = ch_paused s \<and> ch_failingTokens t = ch_failingTokens s \<and> ch_nftOwners t = ch_nftOwners s
     \<and> (\<exists>xs. ch_transfers t = ch_transfers s @ xs)"

lemma paid_out_trans: "paid_out s t \<Longrightarrow> paid_out t u \<Longrightarrow> paid_out s u"
  by (auto simp: paid_out_def)

lemma paid_out_settled: "mined (settled p b tx s) t \<Longrightarrow> paid_out s t"
  by (simp add: paid_out_def mined_def settled_def)

lemma paid_out_refl: "paid_out s s"
  by (simp add: paid_out_def)

lemma release_each_paid: "wp (release_each env batch) (\<lambda>_. paid_out s) (\<lambda>_. paid_out s) s"
proof (induction env batch arbitrary: s rule: release_each.induct)
  case (2 env now x rest)
  show ?case
    unfolding release_each.simps wp
    by (rule wp_payout) (blast intro: paid_out_refl wp_mono [OF 2] paid_out_trans [OF paid_out_settled])+
qed (simp add: wp paid_out_refl)

lemma restored: "paid_out s t \<Longrightarrow> mined s (restore (take_snapshot s) t)"
  by (auto simp: paid_out_def mined_def restore_def take_snapshot_def)

lemma wp_batch:
  assumes "wp (release_each env batch) (\<lambda>hs. Q (if hs = [] then None else Some (last hs))) (\<lambda>_ _. True) s"
    and "\<And>e t. mined s t \<Longrightarrow> E e t"
  shows "wp (executeReleaseBatch env batch) Q E s"
  unfolding executeReleaseBatch_def wp
  by (rule wp_mono [OF wp_conj [OF assms(1) release_each_paid [of env batch s]]]) (auto intro: assms(2) restored)

section \<open>Escrows\<close>

definition transferred :: "string \<Rightarrow> chain \<Rightarrow> int" where
  "transferred t s = (\<Sum>x\<leftarrow>ch_transfers s. if ct_token x = t then ct_amount x else 0)"

definition paid_from :: "string \<Rightarrow> sim_bucket \<Rightarrow> int" where
  "paid_from t b = (if sb_token b = t then sb_released b + sb_refunded b else 0)"

definition solvent :: "sim_bucket \<Rightarrow> bool" where
  "solvent b \<longleftrightarrow> 0 \<le> sb_released b \<and> 0 \<le> sb_refunded b \<and> sb_released b + sb_refunded b \<le> sb_deposited b"

definition money_inv :: "chain \<Rightarrow> bool" where
  "money_inv s \<longleftrightarrow> mok (ch_buckets s) \<and> (\<forall>k b. mget (ch_buckets s) k = Some b \<longrightarrow> solvent b)
     \<and> (\<forall>t. transferred t s = mtotal (paid_from t) (ch_buckets s))"

definition encodes_uints :: "chain_env \<Rightarrow> bool" where
  "encodes_uints env \<longleftrightarrow> (\<forall>token n d. ce_data env token n = Some d \<longrightarrow> 0 \<le> n)"

lemma money_mined: "mined s t \<Longrightarrow> money_inv t = money_inv s"
  by (simp add: mined_def money_inv_def transferred_def)

lemma money_settled:
  assumes "money_inv s" "mget (ch_buckets s) (po_escrow p) = Some b" "0 < po_amount p"
    "po_amount p \<le> sb_deposited b - sb_released b - sb_refunded b"
  shows "money_inv (settled p b tx s)"
proof -
  have "solvent b" using assms(1,2) by (simp add: money_inv_def)
  then have "solvent (paid_bucket p b)" using assms(3,4) by (auto simp: solvent_def paid_bucket_def split: payout_kind.split)
  moreover have "transferred t (settled p b tx s) = transferred t s + (if sb_token b = t then po_amount p else 0)" for t
    by (simp add: transferred_def settled_def)
  moreover have "paid_from t (paid_bucket p b) = paid_from t b + (if sb_token b = t then po_amount p else 0)" for t
    by (auto simp: paid_from_def paid_bucket_def split: payout_kind.split)
  ultimately show ?thesis using assms(1,2) by (auto simp: money_inv_def settled_def mtotal_mput)
qed

lemma money_credit: "money_inv s \<Longrightarrow> 0 \<le> di_amount input \<Longrightarrow> money_inv (credit_bucket input s)"
proof -
  assume inv: "money_inv s" and "0 \<le> di_amount input"
  then have "0 \<le> di_amount input * int (di_copies input)" by simp
  then have "solvent b \<Longrightarrow> solvent (b\<lparr>sb_deposited := sb_deposited b + di_amount input * int (di_copies input)\<rparr>)" for b
    by (simp add: solvent_def)
  moreover have "solvent \<lparr>sb_payer = x, sb_token = y, sb_deposited = di_amount input * int (di_copies input), sb_released = 0, sb_refunded = 0, sb_frozen = False\<rparr>" for x y
    using \<open>0 \<le> di_amount input * int (di_copies input)\<close> by (simp add: solvent_def)
  ultimately show ?thesis using inv
    by (auto simp: money_inv_def credit_bucket_def Let_def transferred_def mtotal_mput paid_from_def split: option.split)
qed

lemma money_payout: "money_inv s \<Longrightarrow> wp (payout env now p) (\<lambda>_. money_inv) (\<lambda>_. money_inv) s"
  by (rule wp_payout) (simp_all add: money_mined money_settled)

lemma money_release_each: "money_inv s \<Longrightarrow> wp (release_each env batch) (\<lambda>_. money_inv) (\<lambda>_. money_inv) s"
proof (induction env batch arbitrary: s rule: release_each.induct)
  case (2 env now x rest)
  show ?case unfolding release_each.simps wp
    by (rule wp_mono [OF money_payout [OF 2(2)]]) (auto intro: wp_mono [OF 2(1)])
qed (simp add: wp)

lemma money_sync: "encodes_uints env \<Longrightarrow> money_inv s \<Longrightarrow> wp (chain_sync env c) (\<lambda>_. money_inv) (\<lambda>_. money_inv) s"
proof (cases c)
  case (Deposit input)
  assume "encodes_uints env" "money_inv s"
  then show ?thesis using Deposit
    by (auto simp: submitDeposit_def wp encodes_uints_def money_mined [OF mined_update(1)] money_mined [OF mined_update(2)] Let_def
      split: option.split intro!: money_credit)
qed (auto simp: wp reorg_def reinclude_def setOffline_def setPaused_def failTransfersOf_def setNftOwner_def money_mined
    intro!: wp_mine simp: money_inv_def transferred_def dest: money_mined)


lemma wp_freeze:
  assumes "\<And>b t. mget (ch_buckets s) (js_lower (fm_escrowRef (sg_message x))) = Some b \<Longrightarrow> ch_transfers t = ch_transfers s \<Longrightarrow>
      ch_releasedPayouts t = ch_releasedPayouts s \<Longrightarrow>
      ch_buckets t = mput (js_lower (fm_escrowRef (sg_message x))) (b\<lparr>sb_frozen := fm_frozen (sg_message x)\<rparr>) (ch_buckets s) \<Longrightarrow> Q t"
    and "Q s"
  shows "wp (freeze_settle env now x) (\<lambda>_. Q) (\<lambda>_. Q) s"
  unfolding freeze_settle_def wp
proof (rule wp_verify, goal_cases)
  case 1
  show ?case using assms(2)
    by (auto simp: wp bucket_of_def simp del: mine.simps One_nat_def split: option.split intro!: wp_mine assms(1) simp: mined_def)
qed (rule assms(2))

lemma money_freeze: "money_inv s \<Longrightarrow> wp (freeze_settle env now x) (\<lambda>_. money_inv) (\<lambda>_. money_inv) s"
  by (rule wp_freeze) (auto simp: money_inv_def transferred_def mtotal_mput paid_from_def solvent_def)

lemma money_step: "chain_step env limit x y \<Longrightarrow> encodes_uints env \<Longrightarrow> money_inv (fst x) \<Longrightarrow> money_inv (fst y)"
proof (induction rule: chain_step.induct)
  case (call s ws c)
  then show ?case using money_sync [of env s c] by (simp add: wp_state)
next
  case (resume i ws s now)
  then have "wp (settle env now (ws ! i)) (\<lambda>_. money_inv) (\<lambda>_. money_inv) s"
    by (cases "ws ! i") (auto intro: money_freeze wp_settle simp: money_mined money_settled)
  then show ?case by (simp add: wp_state)
next
  case (batched s batch)
  then have "wp (executeReleaseBatch env batch) (\<lambda>_. money_inv) (\<lambda>_. money_inv) s"
    by (auto intro!: wp_batch wp_mono [OF money_release_each] simp: money_mined)
  then show ?case by (simp add: wp_state)
qed simp

lemma money_reachable: "chain_reachable env limit x \<Longrightarrow> encodes_uints env \<Longrightarrow> money_inv (fst x)"
proof (induction rule: chain_reachable.induct)
  case (fresh_chain chainId settlement)
  have "wp (abind (nextHash env ''genesis'') (\<lambda>hash. push_block 0 hash [])) (\<lambda>_. money_inv) (\<lambda>_. money_inv) s"
    if "ch_buckets s = []" "ch_transfers s = []" for s
    using that by (simp add: wp money_inv_def transferred_def)
  then show ?case by (simp add: wp_state new_chain_def)
qed (blast intro: money_step)

section \<open>Payout references\<close>

definition refs_inv :: "chain \<Rightarrow> bool" where
  "refs_inv s \<longleftrightarrow> distinct (map ct_payoutRef (ch_transfers s))
     \<and> (\<forall>x \<in> set (ch_transfers s). mget (ch_releasedPayouts s) (ct_payoutRef x) = Some (ct_txHash x))
     \<and> (\<forall>r tx. mget (ch_releasedPayouts s) r = Some tx \<longrightarrow> tx \<noteq> [] \<and> r \<in> ct_payoutRef ` set (ch_transfers s))"

definition unpaid :: "chain \<Rightarrow> waiting \<Rightarrow> bool" where
  "unpaid s w \<longleftrightarrow> (\<forall>p. w = Paying p \<longrightarrow> mget (ch_releasedPayouts s) (po_ref p) = None)"

definition same_refs :: "chain \<Rightarrow> chain \<Rightarrow> bool" where
  "same_refs s t \<longleftrightarrow> ch_transfers t = ch_transfers s \<and> ch_releasedPayouts t = ch_releasedPayouts s"

lemma same_refs_inv: "same_refs s t \<Longrightarrow> refs_inv t = refs_inv s" "same_refs s t \<Longrightarrow> unpaid t = unpaid s"
  by (simp_all add: same_refs_def refs_inv_def unpaid_def [abs_def])

lemma mined_same: "mined s t \<Longrightarrow> same_refs s t"
  by (simp add: mined_def same_refs_def)

lemma refs_settled: "refs_inv s \<Longrightarrow> mget (ch_releasedPayouts s) (po_ref p) = None \<Longrightarrow> tx \<noteq> [] \<Longrightarrow> refs_inv (settled p b tx s)"
  by (force simp: refs_inv_def settled_def)

lemma refs_released: "refs_inv s \<Longrightarrow> mget (ch_releasedPayouts s) r \<in> {None, Some []} \<Longrightarrow> mget (ch_releasedPayouts s) r = None"
  by (auto simp: refs_inv_def)

lemma refs_mined: "mined s t \<Longrightarrow> refs_inv t = refs_inv s"
  by (rule same_refs_inv(1) [OF mined_same])

lemma refs_payout: "refs_inv s \<Longrightarrow> wp (payout env now p) (\<lambda>_. refs_inv) (\<lambda>_. refs_inv) s"
  by (rule wp_payout) (simp_all add: refs_mined refs_settled refs_released)

lemma refs_release_each: "refs_inv s \<Longrightarrow> wp (release_each env batch) (\<lambda>_. refs_inv) (\<lambda>_. refs_inv) s"
proof (induction env batch arbitrary: s rule: release_each.induct)
  case (2 env now x rest)
  show ?case unfolding release_each.simps wp
    by (rule wp_mono [OF refs_payout [OF 2(2)]]) (auto intro: wp_mono [OF 2(1)])
qed (simp add: wp)

lemma sync_same: "wp (chain_sync env c) (\<lambda>_. same_refs s) (\<lambda>_. same_refs s) s"
  by (cases c) (auto simp: wp submitDeposit_def credit_bucket_def Let_def reorg_def reinclude_def setOffline_def setPaused_def failTransfersOf_def
      setNftOwner_def same_refs_def mined_def intro!: wp_mine split: option.split)

lemma refs_step:
  "chain_step env limit x y \<Longrightarrow> limit \<le> 1 \<Longrightarrow> refs_inv (fst x) \<and> length (snd x) \<le> 1 \<and> list_all (unpaid (fst x)) (snd x) \<Longrightarrow>
   refs_inv (fst y) \<and> length (snd y) \<le> 1 \<and> list_all (unpaid (fst y)) (snd y)"
proof (induction rule: chain_step.induct)
  case (call s ws c)
  have "same_refs s (snd (chain_sync env c s))" using sync_same [of env c s] by (simp add: wp_state)
  with call show ?case by (simp add: same_refs_inv)
next
  case (arrive ws w s)
  have "wp (admit w) (\<lambda>_ _. refs_inv s \<longrightarrow> unpaid s w) (\<lambda>_ _. True) s"
  proof (cases w)
    case (Paying p)
    then show ?thesis by (auto simp: unpaid_def intro!: wp_admit refs_released)
  qed (simp add: unpaid_def wp_def split: prod.split sum.split)
  with arrive show ?case by (cases ws) (auto simp: wp_def split: prod.splits sum.splits)
next
  case (resume i ws s now)
  then have one: "i = 0" "ws = [ws ! 0]" "unpaid s (ws ! 0)" by (cases ws; simp)+
  then have "wp (settle env now (ws ! i)) (\<lambda>_. refs_inv) (\<lambda>_. refs_inv) s" using resume
    by (cases "ws ! 0") (auto intro!: wp_freeze wp_settle simp: unpaid_def refs_mined refs_settled same_refs_def intro: same_refs_inv(1) [THEN iffD2])
  moreover have "take i ws @ drop (Suc i) ws = []" using one by (metis append_Nil drop_Nil drop_Suc_Cons take0)
  ultimately show ?case by (simp only: fst_conv snd_conv wp_state) simp
next
  case (batched s batch)
  then have "wp (executeReleaseBatch env batch) (\<lambda>_. refs_inv) (\<lambda>_. refs_inv) s"
    by (auto intro!: wp_batch wp_mono [OF refs_release_each] simp: refs_mined)
  then show ?case by (simp add: wp_state)
qed

lemma refs_reachable:
  "chain_reachable env limit x \<Longrightarrow> limit \<le> 1 \<Longrightarrow> refs_inv (fst x) \<and> length (snd x) \<le> 1 \<and> list_all (unpaid (fst x)) (snd x)"
proof (induction rule: chain_reachable.induct)
  case (fresh_chain chainId settlement)
  have "wp (abind (nextHash env ''genesis'') (\<lambda>hash. push_block 0 hash [])) (\<lambda>_. refs_inv) (\<lambda>_. refs_inv) s"
    if "ch_releasedPayouts s = []" "ch_transfers s = []" for s
    using that by (simp add: wp refs_inv_def)
  then show ?case by (simp add: wp_state new_chain_def)
qed (rule refs_step)


section \<open>Properties\<close>


text \<open>While payouts run one at a time, a payout reference is paid at most once, whatever batches fail in between, and
  \<open>findPayout\<close> answers with the transaction that paid it.\<close>

theorem payout_references_paid_once:
  assumes "chain_reachable env 1 (s, ws)" "x \<in> set (ch_transfers s)" "\<not> ch_offline s"
  shows "distinct (map ct_payoutRef (ch_transfers s)) \<and> findPayout (ct_payoutRef x) s = (Inr (Some (ct_txHash x)), s)"
  using refs_reachable [OF assms(1)] assms(2,3)
  by (simp add: refs_inv_def findPayout_def guard_def abind_def aget_def acheck_def)

definition transfer_of :: "release_message signed \<Rightarrow> chain_transfer \<Rightarrow> bool" where
  "transfer_of x c \<longleftrightarrow> ct_kind c = Release_kind \<and> ct_payoutRef c = rm_payoutRef (sg_message x) \<and> ct_recipient c = rm_recipient (sg_message x)
     \<and> ct_amount c = rm_amount (sg_message x)"

lemma release_each_transfers:
  "wp (release_each env batch) (\<lambda>hs t. \<exists>paid. ch_transfers t = ch_transfers s @ paid \<and> list_all2 transfer_of (map snd batch) paid
     \<and> hs = map ct_txHash paid) (\<lambda>_ _. True) s"
proof (induction env batch arbitrary: s rule: release_each.induct)
  case (2 env now x rest)
  show ?case
    unfolding release_each.simps wp
  proof (rule wp_payout, goal_cases)
    case (1 b tx t)
    then have t: "ch_transfers t = ch_transfers s @ [\<lparr>ct_kind = Release_kind, ct_payoutRef = rm_payoutRef (sg_message x),
        ct_recipient = rm_recipient (sg_message x), ct_token = sb_token b, ct_amount = rm_amount (sg_message x), ct_txHash = tx\<rparr>]"
      by (simp add: mined_def settled_def)
    have "transfer_of x (last (ch_transfers t))" by (simp add: t transfer_of_def)
    then show ?case
      by (intro wp_mono [OF 2 [of t]]) (auto simp: t)
  qed simp
qed (simp add: wp)



section \<open>Two payouts in flight\<close>

definition demo_chain_env :: chain_env where
  "demo_chain_env = \<lparr>ce_keccak = \<lambda>chainId label salt. show_nat salt, ce_topics = \<lambda>a b c. Some [a, b, c],
     ce_data = \<lambda>token n. if n < 0 then None else Some token, ce_recover = \<lambda>d m sig. Inr sig, ce_signer = Some ''0x51''\<rparr>"

definition demo_release :: "release_message signed" where
  "demo_release = \<lparr>sg_domain = \<lparr>ed_chainId = 31337, ed_verifyingContract = ''0xe5''\<rparr>,
     sg_message = \<lparr>rm_payoutRef = ''0xa1'', rm_escrowRef = ''0xb1'', rm_recipient = ''0xc1'', rm_token = ''0xd1'', rm_amount = 40,
       rm_nonce = ''0x01'', rm_expiry = 1000\<rparr>, sg_signature = ''0x51''\<rparr>"

definition demo_deposit :: deposit_input where
  "demo_deposit = \<lparr>di_emitter = ''0xe5'', di_escrowRef = ''0xb1'', di_reference = ''0xf1'', di_payer = ''0xaa'', di_token = ''0xd1'',
     di_amount = 100, di_reverted = False, di_txHash = None, di_duplicateLogs = None\<rparr>"

definition demo_funded :: chain where
  "demo_funded = snd (chain_sync demo_chain_env (Deposit demo_deposit) (new_chain demo_chain_env 31337 (Some ''0xe5'')))"

definition demo_paid :: chain where
  "demo_paid = snd (settle demo_chain_env 900 (Paying (Signed_release demo_release)) demo_funded)"

definition demo_paid_twice :: chain where
  "demo_paid_twice = snd (settle demo_chain_env 900 (Paying (Signed_release demo_release)) demo_paid)"

lemma demo_funded_reachable: "chain_reachable demo_chain_env limit (demo_funded, [])"
  unfolding demo_funded_def by (rule chain_moved [OF fresh_chain call])

lemma demo_admitted: "fst (admit (Paying (Signed_release demo_release)) demo_funded) = Inr ()"
  by code_simp

lemma demo_paid_reachable: "chain_reachable demo_chain_env 1 (demo_paid, [])"
proof -
  let ?w = "Paying (Signed_release demo_release)"
  have "chain_reachable demo_chain_env 1 (demo_funded, [?w])"
    using chain_moved [OF demo_funded_reachable arrive [OF _ demo_admitted]] by simp
  from chain_moved [OF this resume [of 0, where now = 900]] show ?thesis by (simp add: demo_paid_def)
qed

lemma demo_transfers: "map (\<lambda>x. (ct_payoutRef x, ct_recipient x, ct_amount x)) (ch_transfers demo_paid) = [(''0xa1'', ''0xc1'', 40)]"
  "map (\<lambda>x. (ct_payoutRef x, ct_recipient x, ct_amount x)) (ch_transfers demo_paid_twice) = [(''0xa1'', ''0xc1'', 40), (''0xa1'', ''0xc1'', 40)]"
  "map_option sb_released (mget (ch_buckets demo_paid_twice) ''0xb1'') = Some 80" "ch_offline demo_paid = False"
  by code_simp+

lemma demo_encodes: "encodes_uints demo_chain_env"
  by (simp add: encodes_uints_def demo_chain_env_def)

text \<open>Two calls with the same signed release in flight at once pay it twice: the nonce and the reference are checked before
  the signature is awaited and recorded after it.\<close>

theorem concurrent_releases_pay_twice:
  "chain_reachable demo_chain_env 2 (demo_paid_twice, [])
    \<and> map (\<lambda>x. (ct_payoutRef x, ct_recipient x, ct_amount x)) (ch_transfers demo_paid_twice) = [(''0xa1'', ''0xc1'', 40), (''0xa1'', ''0xc1'', 40)]"
proof
  let ?w = "Paying (Signed_release demo_release)"
  have "chain_reachable demo_chain_env 2 (demo_funded, [?w])"
    using chain_moved [OF demo_funded_reachable arrive [OF _ demo_admitted]] by simp
  then have "chain_reachable demo_chain_env 2 (demo_funded, [?w, ?w])"
    using chain_moved [OF _ arrive [OF _ demo_admitted], of demo_chain_env 2 "[?w]"] by simp
  from chain_moved [OF this resume [of 0, where now = 900]] have "chain_reachable demo_chain_env 2 (demo_paid, [?w])"
    by (simp add: demo_paid_def)
  from chain_moved [OF this resume [of 0, where now = 900]] show "chain_reachable demo_chain_env 2 (demo_paid_twice, [])"
    by (simp add: demo_paid_twice_def)
qed (rule demo_transfers(2))


lemma payout_references_paid_once_witness:
  "map_option (\<lambda>x. findPayout (ct_payoutRef x) demo_paid = (Inr (Some (ct_txHash x)), demo_paid)) (find (\<lambda>x. ct_amount x = 40) (ch_transfers demo_paid)) = Some True"
proof -
  obtain x where x: "ch_transfers demo_paid = [x]" "ct_amount x = 40" using demo_transfers(1) by auto
  from payout_references_paid_once [OF demo_paid_reachable, of x] x demo_transfers(4) show ?thesis by simp
qed

end
