(* ===== verification/Payout_Contract.thy ===== *)
theory Payout_Contract
  imports Payout_Safety Chain_Properties
begin

text \<open>
  The interface between the queue and the contract that holds the escrows (\<open>payout_contract\<close>), the invariant of the two under every
  step, and the simulated chain as a contract (\<open>dev\<close>).
\<close>

section \<open>Phases on the queue\<close>

lemma authorize_result:
  "wp (authorize env now nonce i nw) (\<lambda>a t. \<forall>x. a = Some x \<longrightarrow> (\<exists>p. mget (qu_payouts t) i = Some p \<and> authorizes p x)) (\<lambda>_ _. True) s"
  by (auto simp: authorize_def wp update_payout_def insert_authorization_def chain_payout_guard_def open_payout_def
      terms_simps(3) sign_authorizes split: option.split if_splits)

definition fits :: "'b queue \<Rightarrow> (string \<times> release_message signed) list option \<Rightarrow> bool" where
  "fits s xs \<longleftrightarrow> (\<forall>ys. xs = Some ys \<longrightarrow> phase_ok {} s (Batch_sending ys))"

lemma fits_simps [simp]: "fits s None" "fits s (Some [])" "fits s (Some ((i, x) # xs)) \<longleftrightarrow>
    (\<exists>p. mget (qu_payouts s) i = Some p \<and> authorizes p (Pay (Signed_release x))) \<and> fits s (Some xs)"
  by (auto simp: fits_def)

lemma sign_batch_result: "wp (sign_batch env now nonce nw ids) (\<lambda>xs t. fits t xs) (\<lambda>_ _. True) s"
proof (induction ids arbitrary: s)
  case (Cons i ids)
  have rest: "wp (sign_batch env now nonce nw ids) (\<lambda>xs t. fits t (map_option (\<lambda>xs. (i, x) # xs) xs)) (\<lambda>_ _. True) s"
    if "\<exists>p. mget (qu_payouts s) i = Some p \<and> authorizes p (Pay (Signed_release x))" for x s
  proof -
    have "wp (sign_batch env now nonce nw ids) (\<lambda>_. payouts_move {} s) (\<lambda>_. payouts_move {} s) s"
      using rows.withinD [OF within_sign_batch] by (simp add: wp_state)
    from wp_conj [OF this Cons.IH [of s]] show ?thesis
    proof (rule wp_mono)
      fix xs t assume t: "payouts_move {} s t \<and> fits t xs"
      then have "\<exists>p. mget (qu_payouts t) i = Some p \<and> authorizes p (Pay (Signed_release x))"
        by (intro ex_moved [OF _ that]) (auto simp: terms_simps(3))
      with t show "fits t (map_option (\<lambda>xs. (i, x) # xs) xs)" by (cases xs) auto
    qed simp
  qed
  have a: "wp (case a of Pay (Signed_release x) \<Rightarrow> abind (sign_batch env now nonce nw ids) (\<lambda>others. areturn (map_option (\<lambda>xs. (i, x) # xs) others))
      | _ \<Rightarrow> areturn None) (\<lambda>xs t. fits t xs) (\<lambda>_ _. True) s"
    if "\<exists>p. mget (qu_payouts s) i = Some p \<and> authorizes p a" for a s
    using that rest by (cases a rule: signature_of.cases) (auto simp: wp)
  show ?case
    unfolding sign_batch.simps
    by (auto simp: wp update_payout_def insert_authorization_def chain_payout_guard_def terms_simps(3) sign_authorizes
        simp del: not_None_eq split: option.split intro!: a)
qed (simp add: wp)

section \<open>The contract\<close>

definition batch_payments :: "release_message signed list \<Rightarrow> payment list" where
  "batch_payments xs = map (\<lambda>x. paid_as (Signed_release x)) xs"

locale payout_contract =
  fixes trusted :: "'e \<Rightarrow> bool"
    and sound :: "'c \<Rightarrow> bool"
    and payments :: "'c \<Rightarrow> payment list"
    and submit :: "'e \<Rightarrow> int \<Rightarrow> authorized \<Rightarrow> 'c \<Rightarrow> (chain_error + string) \<times> 'c"
    and batch :: "'e \<Rightarrow> int \<Rightarrow> release_message signed list \<Rightarrow> 'c \<Rightarrow> (chain_error + string) \<times> 'c"
    and lookup :: "'e \<Rightarrow> string \<Rightarrow> 'c \<Rightarrow> (chain_error + string option) \<times> 'c"
    and other :: "'e \<Rightarrow> 'o \<Rightarrow> 'c \<Rightarrow> 'c"
  assumes once: "sound c \<Longrightarrow> distinct (map payment_ref (payments c))"
    and stays_sound: "trusted e \<Longrightarrow> sound c \<Longrightarrow> sound (snd (submit e now a c)) \<and> sound (snd (batch e now xs c)) \<and> sound (snd (lookup e ref c)) \<and> sound (other e y c)"
    and pays: "trusted e \<Longrightarrow> sound c \<Longrightarrow> submit e now (Pay p) c = (Inr tx, c') \<Longrightarrow> payments c' = payments c @ [paid_as p]"
    and refuses: "trusted e \<Longrightarrow> sound c \<Longrightarrow> submit e now (Pay p) c = (Inl (Payout_rejected code), c') \<Longrightarrow>
      payments c' = payments c \<and> (take (length ALREADY_RELEASED) code = ALREADY_RELEASED \<longrightarrow> po_ref p \<in> payment_ref ` set (payments c))"
    and unclear: "trusted e \<Longrightarrow> sound c \<Longrightarrow> submit e now (Pay p) c = (Inl x, c') \<Longrightarrow> payments c' = payments c \<or> payments c' = payments c @ [paid_as p]"
    and freezes: "trusted e \<Longrightarrow> sound c \<Longrightarrow> payments (snd (submit e now (Set_frozen m) c)) = payments c"
    and pays_batch: "trusted e \<Longrightarrow> sound c \<Longrightarrow> batch e now xs c = (Inr tx, c') \<Longrightarrow> payments c' = payments c @ batch_payments xs"
    and refuses_batch: "trusted e \<Longrightarrow> sound c \<Longrightarrow> batch e now xs c = (Inl x, c') \<Longrightarrow> payments c' = payments c \<or> payments c' = payments c @ batch_payments xs"
    and finds: "trusted e \<Longrightarrow> sound c \<Longrightarrow> lookup e ref c = (r, c') \<Longrightarrow>
      payments c' = payments c \<and> (r = Inr (Some tx) \<longrightarrow> tx \<noteq> [] \<longrightarrow> ref \<in> payment_ref ` set (payments c))"
    and others: "trusted e \<Longrightarrow> sound c \<Longrightarrow> payments (other e y c) = payments c"
begin

definition linked :: "('b, 'c) queue_env \<Rightarrow> bool" where
  "linked env \<longleftrightarrow> (\<exists>e. trusted e \<and> qe_submit env = submit e \<and> qe_batch env = batch e \<and> qe_find env = lookup e)"

definition world_ok :: "('b, 'c) payout_world \<Rightarrow> bool" where
  "world_ok w \<longleftrightarrow> sound (wo_chain w) \<and> payouts_inv (set (payments (wo_chain w))) (wo_queue w)"

text \<open>A phase leaves a sound world, keeps what was paid and the rows, and leads to phases that fit.\<close>

definition passes :: "('b, 'c) payout_world \<Rightarrow> progress \<times> ('b, 'c) payout_world \<Rightarrow> bool" where
  "passes w r \<longleftrightarrow> (case r of (pr, w') \<Rightarrow> world_ok w' \<and> set (payments (wo_chain w)) \<subseteq> set (payments (wo_chain w'))
     \<and> (\<exists>A. payouts_move A (wo_queue w) (wo_queue w')) \<and> progress_ok (set (payments (wo_chain w'))) (wo_queue w') pr)"

lemma threw_ok: "progress_ok pays s Threw"
  by (simp add: progress_ok_def)

lemma queue_passes:
  assumes "world_ok w" "rows.within A m" "\<And>i. i \<in> A \<Longrightarrow> \<exists>p. mget (qu_payouts (wo_queue w)) i = Some p \<and> paid_row (set (payments (wo_chain w))) p"
    and "wp m (\<lambda>x t. progress_ok (set (payments (wo_chain w))) t (k x)) (\<lambda>_ _. True) (wo_queue w)"
  shows "passes w (in_queue m k w)"
proof -
  have move: "payouts_move A (wo_queue w) (snd (transact m (wo_queue w)))" using rows.withinD [OF rows.within_transact [OF assms(2)]] .
  from inv_moved [OF _ this assms(3)] assms(1) have "payouts_inv (set (payments (wo_chain w))) (snd (transact m (wo_queue w)))"
    by (simp add: world_ok_def)
  with move assms(1,4) show ?thesis
    by (auto simp: passes_def in_queue_def world_ok_def wp_def transact_def threw_ok split: prod.splits sum.splits)
qed

lemma chain_passes:
  assumes "world_ok w" "m (wo_chain w) = (r, c)" "sound c" "set (payments c) = set (payments (wo_chain w)) \<union> X"
    and "\<And>x. x \<in> X \<Longrightarrow> \<exists>i p. mget (qu_payouts (wo_queue w)) i = Some p \<and> \<not> is_freeze (cp_kind p) \<and> x = owed p"
    and "payouts_inv (set (payments c)) (wo_queue w) \<Longrightarrow> progress_ok (set (payments c)) (wo_queue w) (k r)"
  shows "passes w (on_chain m k w)"
proof -
  have "payouts_inv (set (payments c)) (wo_queue w)" using inv_paid [OF _ assms(5)] assms(1,4) by (simp add: world_ok_def)
  with assms show ?thesis by (auto simp: passes_def on_chain_def world_ok_def intro: payouts_move_refl)
qed

lemma pass_reconcile:
  assumes "linked env" "world_ok w" "phase_ok (set (payments (wo_chain w))) (wo_queue w) (Reconcile i ref nw)"
  shows "passes w (on_chain (qe_find env ref) (outcome_found i nw) w)"
proof -
  let ?P = "set (payments (wo_chain w))"
  obtain e where e: "trusted e" "qe_find env = lookup e" using assms(1) by (auto simp: linked_def)
  obtain r c where r: "lookup e ref (wo_chain w) = (r, c)" by fastforce
  have s: "sound (wo_chain w)" using assms(2) by (simp add: world_ok_def)
  have c: "sound c" "payments c = payments (wo_chain w)" using stays_sound [OF e(1) s] finds [OF e(1) s r] r by (metis snd_conv)+
  obtain p where p: "mget (qu_payouts (wo_queue w)) i = Some p" "cp_ref p = ref" using assms(3) by auto
  have "paid_row ?P p" if "r = Inr (Some tx)" "tx \<noteq> []" for tx
    using finds [OF e(1) s r, of tx] that p assms(2) by (intro ref_paid) (auto simp: world_ok_def)
  with p show ?thesis
    by (intro chain_passes [OF assms(2), where r = r and c = c and X = "{}"])
      (auto simp: e r c outcome_found_def progress_ok_def split: sum.split option.split)
qed

lemma outcome_simps: "phase_ok P s (Finishing i (outcome_of (Inl e))) \<longleftrightarrow>
    (\<forall>code. e = Payout_rejected code \<longrightarrow> take (length ALREADY_RELEASED) code = ALREADY_RELEASED \<longrightarrow>
      (\<exists>p. mget (qu_payouts s) i = Some p \<and> paid_row P p))"
  by (cases e) (auto simp: outcome_of_def)

lemma outcome_fits: "mget (qu_payouts s) i = Some p \<Longrightarrow> paid_row P p \<Longrightarrow> phase_ok P s (Finishing i (outcome_of r))"
  by (cases r) (auto simp: outcome_simps, simp add: outcome_of_def)

lemma pass_sending:
  assumes "linked env" "world_ok w" "phase_ok (set (payments (wo_chain w))) (wo_queue w) (Sending i a)"
  shows "passes w (on_chain (qe_submit env now a) (\<lambda>r. Next [Finishing i (outcome_of r)]) w)"
proof -
  let ?P = "set (payments (wo_chain w))"
  obtain e where e: "trusted e" "qe_submit env = submit e" using assms(1) by (auto simp: linked_def)
  obtain r c where r: "submit e now a (wo_chain w) = (r, c)" by fastforce
  have s: "sound (wo_chain w)" using assms(2) by (simp add: world_ok_def)
  have c: "sound c" using stays_sound [OF e(1) s] r by (metis snd_conv)
  obtain p where p: "mget (qu_payouts (wo_queue w)) i = Some p" "authorizes p a" using assms(3) by auto
  show ?thesis
  proof (cases a)
    case (Set_frozen m)
    then have "payments c = payments (wo_chain w)" "paid_row P p" for P
      using freezes [OF e(1) s, of now m] r p(2) by (simp_all add: authorizes_def paid_row_def)
    with p show ?thesis
      by (intro chain_passes [OF assms(2), where r = r and c = c and X = "{}"])
        (auto simp: e r c progress_ok_def simp del: phase_ok.simps intro: outcome_fits)
  next
    case (Pay q)
    then have q: "\<not> is_freeze (cp_kind p)" "paid_as q = owed p" using p(2) by (auto simp: authorizes_def)
    show ?thesis
    proof (cases r)
      case (Inr tx)
      then have "payments c = payments (wo_chain w) @ [paid_as q]" using pays [OF e(1) s, of now q tx c] r Pay by simp
      with p q Inr show ?thesis
        by (intro chain_passes [OF assms(2), where r = r and c = c and X = "{paid_as q}"])
          (auto simp: e r c progress_ok_def outcome_of_def paid_row_def)
    next
      case (Inl x)
      then have x: "submit e now (Pay q) (wo_chain w) = (Inl x, c)" using r Pay by simp
      from unclear [OF e(1) s x] obtain X where X: "set (payments c) = ?P \<union> X" "X \<subseteq> {paid_as q}" by fastforce
      have already: "paid_row (set (payments c)) p" if "x = Payout_rejected code" "take (length ALREADY_RELEASED) code = ALREADY_RELEASED" for code
      proof -
        from refuses [OF e(1) s x [unfolded that(1)]] that(2)
        have "payments c = payments (wo_chain w)" "po_ref q \<in> payment_ref ` ?P" by simp_all
        moreover have "po_ref q = cp_ref p" using q(2) by (metis payment_ref_simps)
        ultimately show ?thesis using p(1) assms(2) by (auto simp: world_ok_def intro: ref_paid)
      qed
      show ?thesis
        by (rule chain_passes [OF assms(2), where r = r and c = c and X = X])
          (use X p q already in \<open>auto simp: e r c progress_ok_def outcome_simps Inl\<close>)
    qed
  qed
qed

lemma pass_batch:
  assumes "linked env" "world_ok w" "phase_ok (set (payments (wo_chain w))) (wo_queue w) (Batch_sending xs)"
  shows "passes w (on_chain (qe_batch env now (map snd xs)) (\<lambda>r. finish_all (batch_outcome r) (map fst xs)) w)"
proof -
  let ?P = "set (payments (wo_chain w))"
  obtain e where e: "trusted e" "qe_batch env = batch e" using assms(1) by (auto simp: linked_def)
  obtain r c where r: "batch e now (map snd xs) (wo_chain w) = (r, c)" by fastforce
  have s: "sound (wo_chain w)" using assms(2) by (simp add: world_ok_def)
  have c: "sound c" using stays_sound [OF e(1) s] r by (metis snd_conv)
  have rows: "\<exists>p. mget (qu_payouts (wo_queue w)) i = Some p \<and> \<not> is_freeze (cp_kind p) \<and> paid_as (Signed_release x) = owed p" if "(i, x) \<in> set xs" for i x
    using assms(3) that by (auto simp: authorizes_def)
  then have owed: "\<exists>i p. mget (qu_payouts (wo_queue w)) i = Some p \<and> \<not> is_freeze (cp_kind p) \<and> y = owed p"
    if "y \<in> set (batch_payments (map snd xs))" for y
    using that by (auto simp: batch_payments_def) blast
  show ?thesis
  proof (cases r)
    case (Inr tx)
    then have pay: "payments c = payments (wo_chain w) @ batch_payments (map snd xs)" using pays_batch [OF e(1) s] r by simp
    have "\<exists>p. mget (qu_payouts (wo_queue w)) i = Some p \<and> paid_row (set (payments c)) p" if "(i, x) \<in> set xs" for i x
      using rows [OF that] that pay by (force simp: paid_row_def batch_payments_def)
    with Inr owed show ?thesis
      by (intro chain_passes [OF assms(2), where r = r and c = c and X = "set (batch_payments (map snd xs))"])
        (auto simp: e r c pay progress_ok_def finish_all_def batch_outcome_def list_all_iff)
  next
    case (Inl x)
    define X where "X = set (payments c) - ?P"
    have "payments c = payments (wo_chain w) \<or> payments c = payments (wo_chain w) @ batch_payments (map snd xs)"
      by (rule refuses_batch [OF e(1) s, of now _ x]) (simp add: r Inl)
    then have X: "set (payments c) = ?P \<union> X" "X \<subseteq> set (batch_payments (map snd xs))" by (auto simp: X_def)
    have waits: "progress_ok P t (finish_all (batch_outcome (Inl x)) ids)" for P ids t
      by (cases x) (auto simp: progress_ok_def finish_all_def batch_outcome_def list_all_iff)
    show ?thesis
      by (rule chain_passes [OF assms(2) _ c X(1)]) (use e r Inl in simp, rule owed, use X(2) in blast, simp add: Inl waits)
  qed
qed

lemma phase_passes:
  assumes "linked env" "world_ok w" "phase_ok (set (payments (wo_chain w))) (wo_queue w) ph"
  shows "passes w (run_phase env now nonce ph w)"
proof (cases ph)
  case (Begin i)
  have "wp (prepare env now i) (\<lambda>r t. \<forall>p nw. r = Some (p, nw) \<longrightarrow> mget (qu_payouts t) i = Some p) (\<lambda>_ _. True) s" for s
    by (auto simp: prepare_def wp update_payout_def open_payout_def split: option.split if_splits)
  then have "wp (prepare env now i) (\<lambda>r t. progress_ok P t (after_prepare env i r)) (\<lambda>_ _. True) s" for P s
    by (rule wp_mono) (auto simp: progress_ok_def after_prepare_def split: option.split sum.split)
  then show ?thesis unfolding Begin run_phase.simps by (intro queue_passes [OF assms(2) within_prepare]) simp_all
next
  case (Signing i nw)
  have "wp (authorize env now (nonce i) i nw) (\<lambda>a t. progress_ok P t (case a of None \<Rightarrow> Ended ''SKIPPED'' | Some a \<Rightarrow> Next [Sending i a])) (\<lambda>_ _. True) s" for P s
    by (rule wp_mono [OF authorize_result]) (auto simp: progress_ok_def split: option.split)
  then show ?thesis unfolding Signing run_phase.simps by (intro queue_passes [OF assms(2) within_authorize]) simp_all
next
  case (Finishing i outcome)
  have "\<exists>p. mget (qu_payouts (wo_queue w)) j = Some p \<and> paid_row (set (payments (wo_chain w))) p" if "j \<in> (case outcome of Sent tx \<Rightarrow> {i} | _ \<Rightarrow> {})" for j
    using that assms(3) Finishing by (cases outcome) auto
  moreover have "wp (finish env now i outcome) (\<lambda>x t. progress_ok P t (Ended x)) (\<lambda>_ _. True) s" for P s
    by (simp add: wp_def progress_ok_def split: prod.split sum.split)
  ultimately show ?thesis unfolding Finishing run_phase.simps by (intro queue_passes [OF assms(2) within_finish])
next
  case (Batch_begin ids)
  have "progress_ok P s (after_batch env r)" for P s r
    by (auto simp: progress_ok_def after_batch_def finish_all_def list_all_iff split: option.split sum.split)
  then have "passes w (in_queue (aget (prepare_batch env ids)) (after_batch env) w)"
    by (intro queue_passes [OF assms(2) rows.within_aget, where A = "{}"]) (simp_all add: wp)
  moreover have "passes w (Next phs, w)" if "list_all (phase_ok (set (payments (wo_chain w))) (wo_queue w)) phs" for phs
    using that assms(2) by (auto simp: passes_def progress_ok_def intro: payouts_move_refl)
  ultimately show ?thesis using Batch_begin by (auto split: list.split)
next
  case (Batch_signing ids nw)
  have "wp (sign_batch env now nonce nw ids) (\<lambda>xs t. progress_ok P t (case xs of
      None \<Rightarrow> finish_all (Wait ''BATCH_NOT_PREPARED'') ids | Some xs \<Rightarrow> Next [Batch_sending xs])) (\<lambda>_ _. True) s" for P s
    by (rule wp_mono [OF sign_batch_result]) (auto simp: fits_def progress_ok_def finish_all_def list_all_iff split: option.split)
  then show ?thesis unfolding Batch_signing run_phase.simps by (intro queue_passes [OF assms(2) within_sign_batch]) simp_all
qed (use assms in \<open>simp_all add: pass_reconcile pass_sending pass_batch del: phase_ok.simps\<close>)

definition system_ok :: "('b, 'c) payout_system \<Rightarrow> bool" where
  "system_ok x \<longleftrightarrow> world_ok (fst x)
     \<and> (\<forall>job \<in> set (snd x). list_all (phase_ok (set (payments (wo_chain (fst x)))) (wo_queue (fst x))) job)"

lemma phases_moved:
  assumes "payouts_move A (wo_queue w) (wo_queue w')" "set (payments (wo_chain w)) \<subseteq> set (payments (wo_chain w'))"
    and "list_all (phase_ok (set (payments (wo_chain w))) (wo_queue w)) phs"
  shows "list_all (phase_ok (set (payments (wo_chain w'))) (wo_queue w')) phs"
  using assms(3) by (rule list.pred_mono_strong) (rule phase_moved [OF assms(1,2)])

lemma world_moved:
  assumes "world_ok w" "payouts_move {} (wo_queue w) s"
  shows "world_ok (w\<lparr>wo_queue := s\<rparr>)"
  using assms inv_moved [OF _ assms(2)] by (auto simp: world_ok_def)

lemma job_passes:
  assumes "linked env" "world_ok w" "list_all (phase_ok (set (payments (wo_chain w))) (wo_queue w)) job"
    and "job_step env now nonce job w = ((job', r), w')"
  shows "world_ok w' \<and> set (payments (wo_chain w)) \<subseteq> set (payments (wo_chain w')) \<and> (\<exists>A. payouts_move A (wo_queue w) (wo_queue w'))
    \<and> list_all (phase_ok (set (payments (wo_chain w'))) (wo_queue w')) job'"
proof (cases job)
  case Nil
  with assms show ?thesis by (auto simp: job_step_def intro: payouts_move_refl)
next
  case (Cons ph rest)
  obtain pr v where run: "run_phase env now nonce ph w = (pr, v)" by fastforce
  with phase_passes [OF assms(1,2), of ph now nonce] assms(3) Cons obtain A where v: "world_ok v"
      "set (payments (wo_chain w)) \<subseteq> set (payments (wo_chain v))" "payouts_move A (wo_queue w) (wo_queue v)"
      "progress_ok (set (payments (wo_chain v))) (wo_queue v) pr"
    by (auto simp: passes_def)
  moreover have "list_all (phase_ok (set (payments (wo_chain v))) (wo_queue v)) rest"
    using assms(3) Cons by (intro phases_moved [OF v(3,2)]) simp
  ultimately show ?thesis using assms(4) run Cons by (cases pr) (auto simp: job_step_def progress_ok_def)
qed

lemma step_ok:
  assumes "payout_step allowed moves works x y" "\<And>env. allowed env \<Longrightarrow> linked env"
    and "\<And>c c'. moves c c' \<Longrightarrow> \<exists>e a. trusted e \<and> c' = other e a c" "system_ok x"
  shows "system_ok y"
  using assms(1,4)
proof (induction rule: payout_step.induct)
  case (queued env w js now newId q)
  let ?s = "snd (transact (enqueueChainPayout env now newId q) (wo_queue w))"
  have move: "payouts_move {} (wo_queue w) ?s" by (rule rows.withinD [OF rows.within_transact [OF within_enqueue]])
  then show ?case using queued world_moved [OF _ move] phases_moved [of "{}" w "w\<lparr>wo_queue := ?s\<rparr>"] by (auto simp: system_ok_def)
next
  case (advanced env k js now nonce w job result w')
  then have "world_ok w" and k: "list_all (phase_ok (set (payments (wo_chain w))) (wo_queue w)) (js ! k)" by (auto simp: system_ok_def)
  from job_passes [OF assms(2) [OF advanced(1)] this advanced(3)] obtain A where j: "world_ok w'"
      "set (payments (wo_chain w)) \<subseteq> set (payments (wo_chain w'))" "payouts_move A (wo_queue w) (wo_queue w')"
      "list_all (phase_ok (set (payments (wo_chain w'))) (wo_queue w')) job" by blast
  then show ?case using advanced(4) by (auto simp: system_ok_def dest!: set_update_subset_insert [THEN subsetD] intro: phases_moved)
next
  case (crashed w js k)
  then show ?case by (auto simp: system_ok_def dest!: set_update_subset_insert [THEN subsetD])
next
  case (chain_alone c c' w js)
  then obtain e a where e: "trusted e" "c' = other e a c" using assms(3) by blast
  moreover have "sound c" using chain_alone by (auto simp: system_ok_def world_ok_def)
  ultimately have "sound c'" "payments c' = payments c" using stays_sound [OF e(1)] others [OF e(1)] by auto
  with chain_alone show ?case by (auto simp: system_ok_def world_ok_def)
next
  case (worked w b js)
  let ?w = "w\<lparr>wo_queue := (wo_queue w)\<lparr>qu_business := b\<rparr>\<rparr>"
  have move: "payouts_move {} (wo_queue w) (wo_queue ?w)" by (rule payouts_same) simp
  then show ?case using worked world_moved [OF _ move] phases_moved [of "{}" w ?w] by (auto simp: system_ok_def)
qed (auto simp: system_ok_def)

lemma reachable_ok:
  assumes "payout_reachable allowed moves works (no_payouts b c) x" "\<And>env. allowed env \<Longrightarrow> linked env"
    and "\<And>c c'. moves c c' \<Longrightarrow> \<exists>e a. trusted e \<and> c' = other e a c" "sound c" "payments c = []"
  shows "system_ok x"
  using assms(1)
proof (induction rule: payout_reachable.induct)
  case payouts_start
  then show ?case using assms(4,5) by (simp add: no_payouts_def system_ok_def world_ok_def payouts_inv_def payouts_ok_def mok_def mget_def)
qed (rule step_ok [OF _ assms(2,3)])

end

section \<open>The simulated chain\<close>

fun dev_submit :: "chain_env \<Rightarrow> int \<Rightarrow> authorized \<Rightarrow> chain \<Rightarrow> (chain_error + string) \<times> chain" where
  "dev_submit e now (Pay (Signed_release x)) c = executeRelease e (now div 1000) x c"
| "dev_submit e now (Pay (Signed_refund x)) c = executeRefund e (now div 1000) x c"
| "dev_submit e now (Set_frozen x) c = executeFreeze e (now div 1000) x c"

definition dev_batch :: "chain_env \<Rightarrow> int \<Rightarrow> release_message signed list \<Rightarrow> chain \<Rightarrow> (chain_error + string) \<times> chain" where
  "dev_batch e now xs c = (case executeReleaseBatch e (map (\<lambda>x. (now div 1000, x)) xs) c of
     (Inr h, c') \<Rightarrow> (Inr (case h of Some tx \<Rightarrow> tx | None \<Rightarrow> []), c') | (Inl x, c') \<Rightarrow> (Inl x, c'))"

definition dev_find :: "chain_env \<Rightarrow> string \<Rightarrow> chain \<Rightarrow> (chain_error + string option) \<times> chain" where
  "dev_find e ref = findPayout ref"

definition dev_other :: "chain_env \<Rightarrow> chain_call \<Rightarrow> chain \<Rightarrow> chain" where
  "dev_other e a c = snd (chain_sync e a c)"

text \<open>No message of a failed recovery of a signer looks like the contract's answer for a reference it has paid.\<close>

definition honest_errors :: "chain_env \<Rightarrow> bool" where
  "honest_errors e \<longleftrightarrow> (\<forall>d m sig code. ce_recover e d m sig = Inl code \<longrightarrow> take (length ALREADY_RELEASED) code \<noteq> ALREADY_RELEASED)"

definition transfer_payment :: "chain_transfer \<Rightarrow> payment" where
  "transfer_payment x = (ct_kind x, ct_payoutRef x, (case ct_kind x of Release_kind \<Rightarrow> ct_recipient x | Refund_kind \<Rightarrow> []), ct_amount x)"

definition dev_payments :: "chain \<Rightarrow> payment list" where
  "dev_payments c = map transfer_payment (ch_transfers c)"

lemma dev_same: "same_refs c c' \<Longrightarrow> dev_payments c' = dev_payments c"
  by (simp add: dev_payments_def same_refs_def)

lemma settled_payment: "dev_payments (settled p b tx s) = dev_payments s @ [paid_as p]"
  by (cases p) (simp_all add: dev_payments_def settled_def transfer_payment_def)

lemma dev_payout:
  assumes "refs_inv c"
  shows "wp (payout e now p) (\<lambda>_ c'. refs_inv c' \<and> dev_payments c' = dev_payments c @ [paid_as p]) (\<lambda>_ c'. c' = c) c"
proof (rule wp_payout)
  fix b tx t assume *: "mget (ch_releasedPayouts c) (po_ref p) \<in> {None, Some []}" "tx \<noteq> []" "mined (settled p b tx c) t"
  then have "refs_inv (settled p b tx c)" using assms by (simp add: refs_settled refs_released)
  with *(3) show "refs_inv t \<and> dev_payments t = dev_payments c @ [paid_as p]"
    by (simp add: refs_mined dev_same [OF mined_same] settled_payment)
qed simp

definition says_paid :: "string \<Rightarrow> bool" where
  "says_paid code \<longleftrightarrow> take (length ALREADY_RELEASED) code = ALREADY_RELEASED"

lemma says_paid_constants [simp]: "\<not> says_paid ''WRONG_CHAIN''" "\<not> says_paid ''WRONG_CONTRACT''" "\<not> says_paid ''EXPIRED''" "\<not> says_paid ''BAD_SIGNATURE''"
  "\<not> says_paid ''AuthorizationExpired''" "\<not> says_paid ''BadSignature''" "\<not> says_paid ''CONTRACT_NOT_DEPLOYED''" "\<not> says_paid ''UnknownBucket''"
  "\<not> says_paid ''BucketFrozen''" "\<not> says_paid ''InsufficientBucketBalance''" "\<not> says_paid ''TOKEN_TRANSFER_FAILED''" "\<not> says_paid ''EnforcedPause''"
  "\<not> says_paid ''TokenMismatch''" "\<not> says_paid ''NonceUsed''"
  by (simp_all add: says_paid_def ALREADY_RELEASED_def)

lemma verify_codes:
  assumes "honest_errors e" "po_verify e p expected = Inl code"
  shows "\<not> says_paid code"
proof -
  have recover: "\<not> says_paid code" if "ce_recover e d m sig = Inl code" for d m sig code
    using assms(1) that by (auto simp: honest_errors_def says_paid_def)
  show ?thesis using assms(2) recover
    by (cases p) (auto simp: verifyReleaseSignature_def verifyRefundSignature_def checkDomain_def ebind_Inl echeck_Inl split: if_splits)
qed

lemma dev_refused:
  assumes "honest_errors e" "refs_inv c"
  shows "wp (payout e now p) (\<lambda>_ _. True) (\<lambda>x _. \<forall>code. x = Payout_rejected code \<longrightarrow> says_paid code \<longrightarrow> po_ref p \<in> payment_ref ` set (dev_payments c)) c"
proof -
  have paid: "r \<in> payment_ref ` set (dev_payments c)" if "mget (ch_releasedPayouts c) r = Some tx" for r tx
    using assms(2) that by (force simp: refs_inv_def dev_payments_def transfer_payment_def payment_ref_def)
  have settle: "wp (payout_settle e now p) (\<lambda>_ _. True) (\<lambda>x _. \<forall>code. x = Payout_rejected code \<longrightarrow> \<not> says_paid code) s" for s
    by (auto simp: payout_settle_def verify_def wp simp del: mine.simps One_nat_def
        dest: verify_codes [OF assms(1)] intro!: wp_mine split: option.split sum.split)
  show ?thesis
    unfolding payout_def payout_admit_def guard_def
    by (auto simp: wp dest: paid split: option.split intro!: wp_mono [OF settle])
qed

lemma dev_batch_pays:
  assumes "refs_inv c"
  shows "wp (executeReleaseBatch e batch) (\<lambda>_ c'. refs_inv c' \<and> dev_payments c' = dev_payments c @ batch_payments (map snd batch))
    (\<lambda>_ c'. refs_inv c' \<and> dev_payments c' = dev_payments c) c"
proof (rule wp_batch)
  have transfers: "map transfer_payment paid = batch_payments xs" if "list_all2 transfer_of xs paid" for xs paid
    using that by (induction rule: list_all2_induct) (auto simp: batch_payments_def transfer_of_def transfer_payment_def)
  show "wp (release_each e batch) (\<lambda>hs c'. refs_inv c' \<and> dev_payments c' = dev_payments c @ batch_payments (map snd batch)) (\<lambda>_ _. True) c"
    by (rule wp_mono [OF wp_conj [OF refs_release_each [OF assms] release_each_transfers]]) (auto simp: dev_payments_def dest: transfers)
  show "refs_inv t \<and> dev_payments t = dev_payments c" if "mined c t" for t
    using that assms by (simp add: refs_mined dev_same [OF mined_same])
qed

lemma dev_freeze: "refs_inv c \<Longrightarrow> wp (executeFreeze e now m) (\<lambda>_ c'. refs_inv c' \<and> dev_payments c' = dev_payments c) (\<lambda>_ c'. refs_inv c' \<and> dev_payments c' = dev_payments c) c"
proof -
  assume inv: "refs_inv c"
  have same: "refs_inv t \<and> dev_payments t = dev_payments c" if "same_refs c t" for t
    using that inv by (simp add: dev_same same_refs_inv(1))
  have "wp (freeze_settle e now m) (\<lambda>_. same_refs c) (\<lambda>_. same_refs c) c"
    by (rule wp_freeze) (auto simp: same_refs_def)
  then show ?thesis unfolding executeFreeze_def freeze_admit_def guard_def
    by (auto simp: wp inv intro!: wp_mono [where Q = "\<lambda>_. same_refs c" and E = "\<lambda>_. same_refs c"] same)
qed

lemma dev_submit_pay: "dev_submit e now (Pay p) = payout e (now div 1000) p"
  by (cases p) (auto simp: executeRelease_def executeRefund_def)

lemma dev_submit_result:
  assumes "honest_errors e" "refs_inv c" "dev_submit e now (Pay p) c = (r, c')"
  shows "case r of Inr tx \<Rightarrow> refs_inv c' \<and> dev_payments c' = dev_payments c @ [paid_as p]
    | Inl x \<Rightarrow> c' = c \<and> (\<forall>code. x = Payout_rejected code \<longrightarrow> says_paid code \<longrightarrow> po_ref p \<in> payment_ref ` set (dev_payments c))"
  using wp_elim [OF dev_payout [OF assms(2)]] wp_elim [OF dev_refused [OF assms(1,2)]] assms(3)
  by (fastforce simp: dev_submit_pay split: sum.split)

lemma dev_stays: "honest_errors e \<Longrightarrow> refs_inv c \<Longrightarrow> refs_inv (snd (dev_submit e now a c)) \<and> refs_inv (snd (dev_batch e now xs c))
    \<and> refs_inv (snd (dev_find e ref c)) \<and> refs_inv (dev_other e y c)"
proof (intro conjI)
  assume e: "honest_errors e" and c: "refs_inv c"
  show "refs_inv (snd (dev_submit e now a c))"
  proof (cases a)
    case (Pay p)
    with dev_submit_result [OF e c, of now p] c show ?thesis by (cases "dev_submit e now a c") (auto split: sum.splits)
  next
    case (Set_frozen m)
    have "wp (executeFreeze e (now div 1000) m) (\<lambda>_. refs_inv) (\<lambda>_. refs_inv) c" by (rule wp_mono [OF dev_freeze [OF c]]) simp_all
    with Set_frozen show ?thesis by (simp add: wp_state)
  qed
  show "refs_inv (snd (dev_batch e now xs c))"
    using wp_elim [OF dev_batch_pays [OF c]] by (fastforce simp: dev_batch_def split: prod.split sum.split)
  show "refs_inv (snd (dev_find e ref c))" using c by (simp add: dev_find_def findPayout_def guard_def abind_def aget_def acheck_def)
  have "same_refs c (dev_other e y c)" using sync_same [of e y c] by (simp add: wp_state dev_other_def)
  then show "refs_inv (dev_other e y c)" using c by (simp add: same_refs_inv(1))
qed

interpretation dev: payout_contract honest_errors refs_inv dev_payments dev_submit dev_batch dev_find dev_other
proof
  show "refs_inv c \<Longrightarrow> distinct (map payment_ref (dev_payments c))" for c
    by (simp add: refs_inv_def dev_payments_def transfer_payment_def payment_ref_def comp_def)
  fix e now p c c' tx code x m xs ref r y a
  assume e: "honest_errors e" and c: "refs_inv c"
  note results = dev_submit_result [OF e c] wp_elim [OF dev_batch_pays [OF c]]
  show "refs_inv (snd (dev_submit e now a c)) \<and> refs_inv (snd (dev_batch e now xs c)) \<and> refs_inv (snd (dev_find e ref c)) \<and> refs_inv (dev_other e y c)"
    by (rule dev_stays [OF e c])
  show "dev_submit e now (Pay p) c = (Inr tx, c') \<Longrightarrow> dev_payments c' = dev_payments c @ [paid_as p]" using results(1) by fastforce
  show "dev_submit e now (Pay p) c = (Inl (Payout_rejected code), c') \<Longrightarrow> dev_payments c' = dev_payments c \<and>
      (take (length ALREADY_RELEASED) code = ALREADY_RELEASED \<longrightarrow> po_ref p \<in> payment_ref ` set (dev_payments c))"
    using results(1) by (fastforce simp: says_paid_def)
  show "dev_submit e now (Pay p) c = (Inl x, c') \<Longrightarrow> dev_payments c' = dev_payments c \<or> dev_payments c' = dev_payments c @ [paid_as p]"
    using results(1) by fastforce
  have "wp (executeFreeze e (now div 1000) m) (\<lambda>_ c'. dev_payments c' = dev_payments c) (\<lambda>_ c'. dev_payments c' = dev_payments c) c"
    by (rule wp_mono [OF dev_freeze [OF c]]) simp_all
  then show "dev_payments (snd (dev_submit e now (Set_frozen m) c)) = dev_payments c" by (simp add: wp_state)
  show "dev_batch e now xs c = (Inr tx, c') \<Longrightarrow> dev_payments c' = dev_payments c @ batch_payments xs"
    using results(2) by (fastforce simp: dev_batch_def comp_def split: prod.splits sum.splits)
  show "dev_batch e now xs c = (Inl x, c') \<Longrightarrow> dev_payments c' = dev_payments c \<or> dev_payments c' = dev_payments c @ batch_payments xs"
    using results(2) by (fastforce simp: dev_batch_def split: prod.splits sum.splits)
  have "ref \<in> payment_ref ` set (dev_payments c)" if "mget (ch_releasedPayouts c) ref = Some tx"
    using c that by (force simp: refs_inv_def dev_payments_def transfer_payment_def payment_ref_def)
  then show "dev_find e ref c = (r, c') \<Longrightarrow> dev_payments c' = dev_payments c \<and> (r = Inr (Some tx) \<longrightarrow> tx \<noteq> [] \<longrightarrow> ref \<in> payment_ref ` set (dev_payments c))"
    by (auto simp: dev_find_def findPayout_def guard_def abind_def aget_def acheck_def split: if_splits)
  have "same_refs c (dev_other e y c)" using sync_same [of e y c] by (simp add: wp_state dev_other_def)
  then show "dev_payments (dev_other e y c) = dev_payments c" by (rule dev_same)
qed

end
