(* ===== verification/Payout_Effects.thy ===== *)
theory Payout_Effects
  imports Payout_System
begin

text \<open>
  The business effects of payouts: where every effect writes the payout's reference and its outcome into a log, the log names each
  reference at most once and agrees with the final state of its row (\<open>log_inv\<close>), however dispatches interleave, crash and throw.
\<close>

section \<open>Logged effects\<close>

type_synonym effect_log = "(string \<times> bool) list"

text \<open>Effects that log what they are called with; any of them may throw, and what it threw away is rolled back.\<close>

definition effects_logged :: "(effect_log, 'c) queue_env \<Rightarrow> bool" where
  "effects_logged env \<longleftrightarrow> (\<forall>k h p code b. qe_effects env k = Some h \<longrightarrow>
     snd (ef_confirmed h p b) = b @ [(cp_ref p, True)] \<and> snd (ef_failed h p code b) = b @ [(cp_ref p, False)])"

definition ended_as :: "bool \<Rightarrow> payout_state" where
  "ended_as ok = (if ok then Confirmed else Failed)"

definition log_inv :: "effect_log queue \<Rightarrow> bool" where
  "log_inv s \<longleftrightarrow> payouts_ok s \<and> distinct (map fst (qu_business s))
     \<and> (\<forall>(r, ok) \<in> set (qu_business s). \<exists>i p. mget (qu_payouts s) i = Some p \<and> cp_ref p = r \<and> cp_state p = ended_as ok)"

text \<open>A transaction leaves the log as it was, or adds the entry of a row that it brings to its end.\<close>

definition logs :: "effect_log queue \<Rightarrow> effect_log queue \<Rightarrow> bool" where
  "logs s t \<longleftrightarrow> qu_business t = qu_business s
     \<or> (\<exists>i p q ok. mget (qu_payouts s) i = Some p \<and> \<not> final p \<and> mget (qu_payouts t) i = Some q \<and> cp_ref q = cp_ref p
        \<and> cp_state q = ended_as ok \<and> qu_business t = qu_business s @ [(cp_ref p, ok)])"

lemma log_kept:
  assumes "log_inv s" "payouts_move A s t" "logs s t"
  shows "log_inv t"
proof -
  have ok: "payouts_ok s" "payouts_ok t" using assms(1,2) by (auto simp: log_inv_def payouts_move_def)
  have kept: "\<exists>i p. mget (qu_payouts t) i = Some p \<and> cp_ref p = r \<and> cp_state p = ended_as v" if r: "(r, v) \<in> set (qu_business s)" for r v
  proof -
    obtain i p where p: "mget (qu_payouts s) i = Some p" "cp_ref p = r" "cp_state p = ended_as v" using assms(1) r by (fastforce simp: log_inv_def)
    then have "final p" by (simp add: final_def ended_as_def)
    with p show ?thesis using assms(2) unfolding payouts_move_def same_terms_def by metis
  qed
  from assms(3) show ?thesis unfolding logs_def
  proof
    assume "qu_business t = qu_business s"
    with kept ok assms(1) show ?thesis by (auto simp: log_inv_def)
  next
    assume "\<exists>i p q ok. mget (qu_payouts s) i = Some p \<and> \<not> final p \<and> mget (qu_payouts t) i = Some q \<and> cp_ref q = cp_ref p
      \<and> cp_state q = ended_as ok \<and> qu_business t = qu_business s @ [(cp_ref p, ok)]"
    then obtain i p q v where n: "mget (qu_payouts s) i = Some p" "\<not> final p" "mget (qu_payouts t) i = Some q" "cp_ref q = cp_ref p"
      "cp_state q = ended_as v" "qu_business t = qu_business s @ [(cp_ref p, v)]" by blast
    have "cp_ref p \<notin> fst ` set (qu_business s)"
    proof
      assume "cp_ref p \<in> fst ` set (qu_business s)"
      then obtain u where "(cp_ref p, u) \<in> set (qu_business s)" by force
      then obtain j r where "mget (qu_payouts s) j = Some r" "cp_ref r = cp_ref p" "cp_state r = ended_as u" using assms(1) by (fastforce simp: log_inv_def)
      then show False using n(1,2) ok(1) unfolding payouts_ok_def by (metis ended_as_def final_def insertCI option.inject)
    qed
    with kept n ok assms(1) show ?thesis by (auto simp: log_inv_def)
  qed
qed

section \<open>Transactions\<close>

interpretation quiet: state_frame "\<lambda>s t :: effect_log queue. qu_business t = qu_business s"
  by unfold_locales simp_all

lemma quiet_update: "quiet.within (update_payout i f)"
  unfolding update_payout_def by (intro quiet.within_intros quiet.within_amodify) simp

lemma quiet_asides: "quiet.within (close_authorizations i g)" "quiet.within (payout_case oid k)" "quiet.within (insert_authorization nonce i now p nw sig)"
  unfolding close_authorizations_def payout_case_def insert_authorization_def
  by (intro quiet.within_intros quiet.within_amodify; simp)+

lemmas quiet_rows = quiet.within_intros quiet_asides quiet_update

lemma quiet_prepare: "quiet.within (prepare env now i)"
  unfolding prepare_def by (intro quiet_rows)

lemma quiet_authorize: "quiet.within (authorize env now nonce i nw)"
  unfolding authorize_def by (intro quiet_rows)

lemma quiet_enqueue: "quiet.within (enqueueChainPayout env now newId q)"
  unfolding enqueueChainPayout_def by (intro quiet_rows quiet.within_amodify) simp

lemma quiet_sign_batch: "quiet.within (sign_batch env now nonce nw ids)"
proof (induction ids)
  case (Cons i ids)
  have "quiet.within (case a of Pay (Signed_release x) \<Rightarrow> abind (sign_batch env now nonce nw ids) (\<lambda>others. areturn (map_option (\<lambda>xs. (i, x) # xs) others))
      | _ \<Rightarrow> areturn None)" for a
    by (cases a rule: signature_of.cases) (simp_all add: quiet_rows Cons)
  then show ?case unfolding sign_batch.simps by (intro quiet_rows)
qed (simp add: quiet_rows)

lemma finish_logs:
  assumes "effects_logged env"
  shows "logs s (snd (finish env now i outcome s))"
proof -
  have logged: "snd (ef_confirmed h p b) = b @ [(cp_ref p, True)]" "snd (ef_failed h p code b) = b @ [(cp_ref p, False)]"
    if "qe_effects env k = Some h" for k h p code b
    using assms that unfolding effects_logged_def by blast+
  have same: "logs s s" by (simp add: logs_def)
  have "wp (finish env now i outcome) (\<lambda>_. logs s) (\<lambda>_. logs s) s"
  proof (cases "mget (qu_payouts s) i")
    case None
    then show ?thesis by (simp add: finish_def wp same)
  next
    case (Some p)
    note upd = wp_update_row [OF Some]
    show ?thesis
    proof (cases "final p")
      case True
      then show ?thesis using Some by (simp add: finish_def wp final_def same)
    next
      case False
      have confirmed: "wp (transact (record_confirmed env now i p tx)) (\<lambda>_. logs s) (\<lambda>_. logs s) s" for tx
        unfolding record_confirmed_def Let_def using Some False
        by (auto simp: wp upd wp_business close_authorizations_def payout_case_def logged same logs_def ended_as_def split: option.split)
      have failed: "wp (transact (record_failed env now i p code)) (\<lambda>_. logs s) (\<lambda>_. logs s) s" for code
        unfolding record_failed_def using Some False
        by (auto simp: wp upd wp_business close_authorizations_def payout_case_def logged same logs_def ended_as_def split: option.split)
      have opened: "wp (transact (record_open now i p retry code)) (\<lambda>_. logs s) (\<lambda>_. logs s) s" for retry code
        unfolding record_open_def by (auto simp: wp upd close_authorizations_def logs_def)
      show ?thesis using Some False confirmed failed opened
        by (cases outcome) (simp_all add: finish_def wp final_def)
    qed
  qed
  then show ?thesis by (simp add: wp_state)
qed

lemma queue_log:
  assumes "log_inv (wo_queue w)" "rows.within A m" "logs (wo_queue w) (snd (transact m (wo_queue w)))" "in_queue m k w = (pr, w')"
  shows "log_inv (wo_queue w')"
  using log_kept [OF assms(1) rows.withinD [OF rows.within_transact [OF assms(2)]] assms(3)] assms(4)
  by (auto simp: in_queue_def split: prod.splits sum.splits)

lemma quiet_log:
  assumes "log_inv (wo_queue w)" "rows.within A m" "quiet.within m" "in_queue m k w = (pr, w')"
  shows "log_inv (wo_queue w')"
  using queue_log [OF assms(1,2) _ assms(4)] quiet.withinD [OF quiet.within_transact [OF assms(3)]] by (simp add: logs_def)

lemma phase_log:
  assumes "effects_logged env" "log_inv (wo_queue w)" "run_phase env now nonce ph w = (pr, w')"
  shows "log_inv (wo_queue w')"
proof (cases ph)
  case (Finishing i outcome)
  have "transact (finish env now i outcome) = finish env now i outcome"
    by (rule ext) (simp add: finish_def transact_def split: prod.split sum.split)
  then have "logs (wo_queue w) (snd (transact (finish env now i outcome) (wo_queue w)))" using finish_logs [OF assms(1)] by simp
  with assms(3) Finishing show ?thesis by (intro queue_log [OF assms(2) within_finish]) simp_all
next
  case (Batch_begin ids)
  then show ?thesis using assms(2,3) quiet_log [OF assms(2) rows.within_aget quiet.within_aget]
    by (auto split: list.splits)
next
  case (Begin i)
  then show ?thesis using assms(3) quiet_log [OF assms(2) within_prepare quiet_prepare] by simp
next
  case (Signing i nw)
  then show ?thesis using assms(3) quiet_log [OF assms(2) within_authorize quiet_authorize] by simp
next
  case (Batch_signing ids nw)
  then show ?thesis using assms(3) quiet_log [OF assms(2) within_sign_batch quiet_sign_batch] by simp
qed (use assms(2,3) in \<open>auto simp: on_chain_def split: prod.splits\<close>)

lemma step_log:
  assumes "payout_step allowed moves works x y" "\<And>env. allowed env \<Longrightarrow> effects_logged env" "\<And>b b'. \<not> works b b'" "log_inv (wo_queue (fst x))"
  shows "log_inv (wo_queue (fst y))"
  using assms(1,4)
proof (induction rule: payout_step.induct)
  case (queued env w js now newId q)
  let ?m = "enqueueChainPayout env now newId q"
  have "logs (wo_queue w) (snd (transact ?m (wo_queue w)))"
    unfolding logs_def by (rule disjI1 [OF quiet.withinD [OF quiet.within_transact [OF quiet_enqueue]]])
  with queued have "log_inv (snd (transact ?m (wo_queue w)))"
    by (intro log_kept [OF _ rows.withinD [OF rows.within_transact [OF within_enqueue]]]) simp_all
  then show ?case by simp
next
  case (advanced env k js now nonce w job result w')
  show ?case
  proof (cases "js ! k")
    case Nil
    with advanced show ?thesis by (simp add: job_step_def)
  next
    case (Cons ph rest)
    then obtain pr v where run: "run_phase env now nonce ph w = (pr, v)" "w' = v"
      using advanced(3) by (auto simp: job_step_def split: prod.splits progress.splits)
    then show ?thesis using phase_log [OF assms(2) [OF advanced(1)] _ run(1)] advanced(4) by simp
  qed
qed (simp_all add: assms(3))

lemma reachable_log:
  assumes "payout_reachable allowed moves works (no_payouts [] c) x" "\<And>env. allowed env \<Longrightarrow> effects_logged env" "\<And>b b'. \<not> works b b'"
  shows "log_inv (wo_queue (fst x))"
  using assms(1)
proof (induction rule: payout_reachable.induct)
  case payouts_start
  then show ?case by (simp add: no_payouts_def log_inv_def payouts_ok_def mok_def mget_def)
qed (rule step_log [OF _ assms(2,3)])

end
