(* ===== verification/Payout_Batches.thy ===== *)
theory Payout_Batches
  imports Payout_System "HOL-Library.Multiset"
begin

text \<open>
  Batches of small releases: what \<open>dueReleaseBatches\<close> puts together, and what a batch that the contract refuses does to its members
  when its dispatch runs on without a break (\<open>run_job\<close>).
\<close>

section \<open>Groups\<close>

definition group_key :: "chain_payout \<Rightarrow> int \<times> string" where
  "group_key p = (cp_chain p, case cp_token p of Some t \<Rightarrow> t | None \<Rightarrow> [])"

lemma add_to_group_key: "add_to_group (i, p) groups = mput (group_key p) ((case mget groups (group_key p) of Some ids \<Rightarrow> ids | None \<Rightarrow> []) @ [i]) groups"
  by (simp add: add_to_group_def group_key_def Let_def)

text \<open>The rows of one key, in their order.\<close>

lemma groups_of:
  "mok groups \<Longrightarrow> mok (fold add_to_group rows groups)
    \<and> (case mget (fold add_to_group rows groups) k of Some ids \<Rightarrow> ids | None \<Rightarrow> [])
      = (case mget groups k of Some ids \<Rightarrow> ids | None \<Rightarrow> []) @ map fst (filter (\<lambda>(i, p). group_key p = k) rows)"
proof (induction rows arbitrary: groups)
  case (Cons row rows)
  obtain i p where row: "row = (i, p)" by fastforce
  have "mok (add_to_group row groups)" using Cons.prems by (simp add: row add_to_group_key)
  from Cons.IH [OF this] show ?case by (simp add: row add_to_group_key)
qed simp

lemma slices_flat: "concat (slices xs) = xs"
  by (induction xs rule: slices.induct) (simp_all add: BATCH_MAX_SIZE_def)

lemma in_slices: "x \<in> set xs \<longleftrightarrow> (\<exists>b \<in> set (slices xs). x \<in> set b)"
  using arg_cong [OF slices_flat [of xs], of "\<lambda>ys. x \<in> set ys"] by simp

lemma slices_length: "ys \<in> set (slices xs) \<Longrightarrow> length ys \<le> BATCH_MAX_SIZE"
  by (induction xs rule: slices.induct) (auto simp: BATCH_MAX_SIZE_def)

text \<open>Only the last slice can be too short for a batch.\<close>

lemma slices_short: "length (concat (filter (\<lambda>b. \<not> length b \<ge> BATCH_MIN_SIZE) (slices xs))) \<le> 1"
proof (induction xs rule: slices.induct)
  case (2 x xs)
  show ?case
  proof (cases "length (x # xs) \<ge> BATCH_MAX_SIZE")
    case True
    then show ?thesis using 2 by (simp add: BATCH_MAX_SIZE_def BATCH_MIN_SIZE_def)
  next
    case False
    then have "drop (BATCH_MAX_SIZE - 1) xs = []" by (simp add: BATCH_MAX_SIZE_def)
    with False show ?thesis by (auto simp: BATCH_MIN_SIZE_def BATCH_MAX_SIZE_def Suc_le_eq)
  qed
qed simp

lemma group_members:
  assumes "mok groups" "mget groups (group_key p) = old"
  shows "mset (concat (map snd (add_to_group (i, p) groups))) = add_mset i (mset (concat (map snd groups)))"
proof -
  have "mset (concat (map snd (mput k ((case mget m k of Some ids \<Rightarrow> ids | None \<Rightarrow> []) @ [i]) m))) = add_mset i (mset (concat (map snd m)))" for k and m :: "('k \<times> string list) list"
    by (induction m) auto
  then show ?thesis by (simp add: add_to_group_key)
qed

lemma groups_members: "mset (concat (map snd (fold add_to_group rows groups))) = mset (concat (map snd groups)) + mset (map fst rows)" if "mok groups"
  using that
proof (induction rows arbitrary: groups)
  case (Cons row rows)
  obtain i p where row: "row = (i, p)" by fastforce
  have "mok (add_to_group row groups)" using Cons.prems by (simp add: row add_to_group_key)
  from Cons.IH [OF this] group_members [OF Cons.prems refl, of i p] show ?case by (simp add: row)
qed simp

lemma distinct_filtered: "distinct (concat xss) \<Longrightarrow> distinct (concat (filter P xss))"
  by (induction xss) auto

definition due_rows :: "int \<Rightarrow> nat \<Rightarrow> 'b queue \<Rightarrow> (string \<times> chain_payout) list" where
  "due_rows now limit s = take limit (filter (\<lambda>(i, p). batch_candidate now p) (qu_payouts s))"

definition due_groups :: "int \<Rightarrow> nat \<Rightarrow> 'b queue \<Rightarrow> ((int \<times> string) \<times> string list) list" where
  "due_groups now limit s = fold add_to_group (due_rows now limit s) []"

lemma due_batches: "dueReleaseBatches now limit s = filter (\<lambda>b. length b \<ge> BATCH_MIN_SIZE) (concat (map slices (map snd (due_groups now limit s))))"
  by (simp add: dueReleaseBatches_def due_groups_def due_rows_def Let_def comp_def)

lemma due_rows_found: "mok (qu_payouts s) \<Longrightarrow> (i, p) \<in> set (due_rows now limit s) \<Longrightarrow> mget (qu_payouts s) i = Some p \<and> batch_candidate now p"
  by (auto simp: due_rows_def dest!: in_set_takeD intro: mem_mget)

lemma due_rows_distinct: "mok (qu_payouts s) \<Longrightarrow> distinct (map fst (due_rows now limit s))"
  by (simp add: due_rows_def mok_def distinct_map_filter take_map [symmetric] del: take_map)

lemma due_group:
  assumes "(k, ids) \<in> set (due_groups now limit s)"
  shows "ids = map fst (filter (\<lambda>(i, p). group_key p = k) (due_rows now limit s))"
proof -
  have ok: "mok (due_groups now limit s)" unfolding due_groups_def using groups_of [of "[]"] by (simp add: mok_def)
  then have "mget (due_groups now limit s) k = Some ids" using assms by (intro mem_mget)
  then show ?thesis using groups_of [of "[]" "due_rows now limit s" k] by (simp add: due_groups_def mok_def mget_def)
qed

text \<open>What a batch is: two to ten due releases of one chain and token; and what is left over of a chain and token is one release.\<close>

lemma batch_members:
  assumes "mok (qu_payouts s)" "b \<in> set (dueReleaseBatches now limit s)"
  shows "BATCH_MIN_SIZE \<le> length b \<and> length b \<le> BATCH_MAX_SIZE
    \<and> (\<exists>k. \<forall>i \<in> set b. \<exists>p. mget (qu_payouts s) i = Some p \<and> batch_candidate now p \<and> group_key p = k)"
proof -
  obtain k ids where g: "(k, ids) \<in> set (due_groups now limit s)" "b \<in> set (slices ids)" and len: "BATCH_MIN_SIZE \<le> length b"
    using assms(2) by (auto simp: due_batches)
  have "set b \<subseteq> set ids" using g(2) in_slices [of _ ids] by blast
  then have "\<exists>p. mget (qu_payouts s) i = Some p \<and> batch_candidate now p \<and> group_key p = k" if "i \<in> set b" for i
    using that due_group [OF g(1)] by (auto dest!: due_rows_found [OF assms(1)])
  with len slices_length [OF g(2)] show ?thesis by blast
qed

lemma batches_disjoint:
  assumes "mok (qu_payouts s)"
  shows "distinct (concat (dueReleaseBatches now limit s))"
proof -
  have flat: "concat (concat (map slices xss)) = concat xss" for xss :: "string list list"
    by (induction xss) (simp_all add: slices_flat)
  have "mset (concat (map snd (due_groups now limit s))) = mset (map fst (due_rows now limit s))"
    unfolding due_groups_def by (simp add: groups_members)
  then have "distinct (concat (map snd (due_groups now limit s)))"
    using due_rows_distinct [OF assms] mset_eq_imp_distinct_iff by blast
  then show ?thesis unfolding due_batches by (intro distinct_filtered) (simp only: flat)
qed

lemma batch_partners:
  assumes "mok (qu_payouts s)" "(i, p) \<in> set (due_rows now limit s)" "(j, q) \<in> set (due_rows now limit s)" "i \<noteq> j" "group_key p = group_key q"
  shows "\<exists>b \<in> set (dueReleaseBatches now limit s). i \<in> set b \<or> j \<in> set b"
proof (rule ccontr)
  assume none: "\<not> ?thesis"
  define ids where "ids = map fst (filter (\<lambda>(i, p). group_key p = group_key q) (due_rows now limit s))"
  have ids: "i \<in> set ids" "j \<in> set ids" using assms by (force simp: ids_def)+
  have "(case mget (due_groups now limit s) (group_key q) of Some ids \<Rightarrow> ids | None \<Rightarrow> []) = ids"
    using groups_of [of "[]" "due_rows now limit s"] by (simp add: due_groups_def ids_def)
  then have g: "(group_key q, ids) \<in> set (due_groups now limit s)" using ids(1) by (cases "mget (due_groups now limit s) (group_key q)") (auto intro: mget_mem)
  have short: "x \<in> set (concat (filter (\<lambda>b. \<not> length b \<ge> BATCH_MIN_SIZE) (slices ids)))" if x: "x \<in> {i, j}" for x
  proof -
    obtain b where b: "b \<in> set (slices ids)" "x \<in> set b" using ids x in_slices [of x ids] by blast
    moreover have "\<not> length b \<ge> BATCH_MIN_SIZE"
    proof
      assume "length b \<ge> BATCH_MIN_SIZE"
      then have "b \<in> set (dueReleaseBatches now limit s)" using g b(1) unfolding due_batches by force
      with none b(2) x show False by blast
    qed
    ultimately show ?thesis by auto
  qed
  have "x = y" if "length xs \<le> 1" "x \<in> set xs" "y \<in> set xs" for x y and xs :: "string list"
    using that by (cases xs) auto
  from this [OF slices_short [of ids] short [of i] short [of j]] assms(4) show False by simp
qed

section \<open>A dispatch without a break\<close>

fun run_job :: "('b, 'c) queue_env \<Rightarrow> int \<Rightarrow> (string \<Rightarrow> string) \<Rightarrow> nat \<Rightarrow> phase list \<Rightarrow> ('b, 'c) payout_world \<Rightarrow> phase list \<times> ('b, 'c) payout_world" where
  "run_job env now nonce 0 job w = (job, w)"
| "run_job env now nonce (Suc n) job w = (case job_step env now nonce job w of ((job', r), w') \<Rightarrow> run_job env now nonce n job' w')"

text \<open>Recording that nothing was paid: the row waits, or fails when its attempts are used up.\<close>

definition waits_or_fails :: "int \<Rightarrow> string \<Rightarrow> chain_payout \<Rightarrow> chain_payout \<Rightarrow> bool" where
  "waits_or_fails now code p q \<longleftrightarrow> cp_error q = Some (take 300 code) \<and> cp_attempts q = cp_attempts p
     \<and> (if cp_attempts p < MAX_ATTEMPTS then cp_state q = Retry \<and> cp_next q = now + delaySeconds (cp_attempts p) * 1000 else cp_state q = Failed)"

definition failures_handled :: "('b, 'c) queue_env \<Rightarrow> bool" where
  "failures_handled env \<longleftrightarrow> (\<forall>k h p code b. qe_effects env k = Some h \<longrightarrow> fst (ef_failed h p code b))"

lemma finish_wait:
  assumes "failures_handled env" "mget (qu_payouts s) i = Some p" "cp_state p = Submitting" "payout_checks p"
  shows "wp (finish env now i (Wait code)) (\<lambda>_ t. \<exists>q. qu_payouts t = mput i q (qu_payouts s) \<and> waits_or_fails now code p q) (\<lambda>_ _. False) s"
proof -
  have handled: "fst (ef_failed h p code b)" if "qe_effects env k = Some h" for k h p code b
    using assms(1) that by (auto simp: failures_handled_def)
  note upd = wp_update_row [OF assms(2)]
  have checks: "payout_checks (p\<lparr>cp_state := st, cp_error := Some (take 300 code)\<rparr>)" "payout_checks (p\<lparr>cp_state := st, cp_error := Some (take 300 code), cp_next := n\<rparr>)"
    if "st \<noteq> Confirmed" for st n
    using assms(3,4) that by (auto simp: payout_checks_def optional_def)
  have guard: "chain_payout_guard p (p\<lparr>cp_state := st, cp_error := Some (take 300 code)\<rparr>)" "chain_payout_guard p (p\<lparr>cp_state := st, cp_error := Some (take 300 code), cp_next := n\<rparr>)"
    for st n using assms(3) by (simp_all add: chain_payout_guard_def same_terms_def)
  have "wp (record_failed env now i p code) (\<lambda>_ t. \<exists>q. qu_payouts t = mput i q (qu_payouts s) \<and> waits_or_fails now code p q) (\<lambda>_ _. False) s"
    if "\<not> cp_attempts p < MAX_ATTEMPTS"
    using that unfolding record_failed_def
    by (auto simp: wp upd checks guard wp_business handled close_authorizations_def payout_case_def waits_or_fails_def split: option.split)
  moreover have "wp (record_open now i p True code) (\<lambda>_ t. \<exists>q. qu_payouts t = mput i q (qu_payouts s) \<and> waits_or_fails now code p q) (\<lambda>_ _. False) s"
    if "cp_attempts p < MAX_ATTEMPTS"
    using that unfolding record_open_def
    by (auto simp: wp upd checks guard close_authorizations_def waits_or_fails_def)
  ultimately show ?thesis using assms(2,3) by (simp add: finish_def wp not_le)
qed

lemma finish_all_wait:
  assumes "failures_handled env" "distinct ids" "\<forall>i \<in> set ids. \<exists>p. mget (qu_payouts (wo_queue w)) i = Some p \<and> cp_state p = Submitting \<and> payout_checks p"
  shows "\<exists>w'. run_job env now nonce (length ids) (map (\<lambda>i. Finishing i (Wait code)) ids) w = ([], w') \<and> wo_chain w' = wo_chain w
    \<and> (\<forall>i. i \<notin> set ids \<longrightarrow> mget (qu_payouts (wo_queue w')) i = mget (qu_payouts (wo_queue w)) i)
    \<and> (\<forall>i \<in> set ids. \<forall>p. mget (qu_payouts (wo_queue w)) i = Some p \<longrightarrow> (\<exists>q. mget (qu_payouts (wo_queue w')) i = Some q \<and> waits_or_fails now code p q))"
  using assms(2,3)
proof (induction ids arbitrary: w)
  case (Cons i ids)
  obtain p where p: "mget (qu_payouts (wo_queue w)) i = Some p" "cp_state p = Submitting" "payout_checks p" using Cons.prems(2) by auto
  obtain x t q where f: "finish env now i (Wait code) (wo_queue w) = (Inr x, t)"
    and q: "qu_payouts t = mput i q (qu_payouts (wo_queue w))" "waits_or_fails now code p q"
    using finish_wait [OF assms(1) p, of now code] by (auto simp: wp_def split: prod.splits sum.splits)
  let ?w = "w\<lparr>wo_queue := t\<rparr>"
  have step: "job_step env now nonce (map (\<lambda>i. Finishing i (Wait code)) (i # ids)) w = ((map (\<lambda>i. Finishing i (Wait code)) ids, Some x), ?w)"
    using f by (simp add: job_step_def in_queue_def transact_def)
  have "\<forall>j \<in> set ids. \<exists>p. mget (qu_payouts (wo_queue ?w)) j = Some p \<and> cp_state p = Submitting \<and> payout_checks p"
    using Cons.prems q(1) by auto
  from Cons.IH [OF _ this] Cons.prems(1) obtain w' where w': "run_job env now nonce (length ids) (map (\<lambda>i. Finishing i (Wait code)) ids) ?w = ([], w')"
      "wo_chain w' = wo_chain w" "\<forall>j. j \<notin> set ids \<longrightarrow> mget (qu_payouts (wo_queue w')) j = mget (qu_payouts t) j"
      "\<forall>j \<in> set ids. \<forall>p. mget (qu_payouts t) j = Some p \<longrightarrow> (\<exists>q. mget (qu_payouts (wo_queue w')) j = Some q \<and> waits_or_fails now code p q)"
    by auto
  show ?case
  proof (intro exI [of _ w'] conjI)
    show "run_job env now nonce (length (i # ids)) (map (\<lambda>i. Finishing i (Wait code)) (i # ids)) w = ([], w')"
      unfolding list.size run_job.simps add_Suc_right add_0_right step using w'(1) by simp
    show "\<forall>j \<in> set (i # ids). \<forall>p. mget (qu_payouts (wo_queue w)) j = Some p \<longrightarrow> (\<exists>q. mget (qu_payouts (wo_queue w')) j = Some q \<and> waits_or_fails now code p q)"
    proof (intro ballI allI impI)
      fix j r assume j: "j \<in> set (i # ids)" "mget (qu_payouts (wo_queue w)) j = Some r"
      show "\<exists>q. mget (qu_payouts (wo_queue w')) j = Some q \<and> waits_or_fails now code r q"
      proof (cases "j = i")
        case True
        then show ?thesis using j p q w'(3) Cons.prems(1) by auto
      next
        case False
        then have "mget (qu_payouts t) j = Some r" "j \<in> set ids" using j q(1) by auto
        with w'(4) show ?thesis by blast
      qed
    qed
  qed (use w' q in auto)
qed simp

end
