(* ===== verification/Payout_Scenario.thy ===== *)
theory Payout_Scenario
  imports Payout_Contract Payout_Effects Payout_Batches
begin

text \<open>
  Concrete runs of the outbox over the simulated chain: a release that is queued, paid and confirmed, two releases batched while the
  contract is paused, and a payout whose last attempt pays but is recorded as failed.
\<close>

section \<open>Evaluation\<close>

text \<open>Tests and case of characters on their bits, for evaluation.\<close>

fun hex_char :: "char \<Rightarrow> bool" where
  "hex_char (Char b0 b1 b2 b3 b4 b5 b6 b7) \<longleftrightarrow> \<not> b7 \<and> b5 \<and>
     (if b6 then \<not> b4 \<and> \<not> b3 \<and> (b0 \<or> b1 \<or> b2) \<and> \<not> (b0 \<and> b1 \<and> b2) else b4 \<and> (\<not> b3 \<or> (\<not> b1 \<and> \<not> b2)))"

lemma hex_char_code: "c \<in> set ''0123456789abcdef'' \<longleftrightarrow> hex_char c"
proof (cases c)
  case (Char b0 b1 b2 b3 b4 b5 b6 b7)
  show ?thesis unfolding Char
    by (cases b0; cases b1; cases b2; cases b3; cases b4; cases b5; cases b6; cases b7; simp)
qed

lemma is_hex_code [code]: "is_hex n t \<longleftrightarrow> take 2 t = ''0x'' \<and> length t = n + 2 \<and> list_all hex_char (drop 2 t)"
  unfolding is_hex_def hex_char_code ..

lemma js_lower_char_code [code]: "js_lower_char (Char b0 b1 b2 b3 b4 b5 b6 b7) =
   (if b6 \<and> \<not> b5 \<and> (if b7 then \<not> (b4 \<and> b2 \<and> b1 \<and> b0) else is_upper (Char b0 b1 b2 b3 b4 b5 b6 b7))
    then Char b0 b1 b2 b3 b4 True b6 b7 else Char b0 b1 b2 b3 b4 b5 b6 b7)"
  by (cases b0; cases b1; cases b2; cases b3; cases b4; cases b5; cases b6; cases b7; simp add: js_lower_char_def is_upper_def code_of_def char_of_def bit_0)

section \<open>Worlds\<close>

definition uses_chain :: "('b, chain) queue_env \<Rightarrow> bool" where
  "uses_chain env \<longleftrightarrow> (\<exists>e. honest_errors e \<and> qe_submit env = dev_submit e \<and> qe_batch env = dev_batch e \<and> qe_find env = dev_find e)"

definition chain_moves :: "chain \<Rightarrow> chain \<Rightarrow> bool" where
  "chain_moves c c' \<longleftrightarrow> (\<exists>e a. honest_errors e \<and> c' = dev_other e a c)"

definition hex_of :: "nat \<Rightarrow> char \<Rightarrow> string" where
  "hex_of n c = ''0x'' @ replicate n c"

definition demo_queue_env :: "(effect_log, chain) queue_env" where
  "demo_queue_env = \<lparr>qe_hash = \<lambda>v. take 64 (v @ replicate 64 (CHR ''0'')), qe_network = \<lambda>_. Some \<lparr>nw_enabled = True, nw_contract = ''0xe5''\<rparr>,
     qe_adapter = \<lambda>_. Inr True, qe_sign = \<lambda>_ _. Some ''0x51'',
     qe_effects = \<lambda>_. Some \<lparr>ef_confirmed = \<lambda>p b. (True, b @ [(cp_ref p, True)]), ef_failed = \<lambda>p code b. (True, b @ [(cp_ref p, False)])\<rparr>,
     qe_submit = dev_submit demo_chain_env, qe_batch = dev_batch demo_chain_env, qe_find = dev_find demo_chain_env\<rparr>"

definition demo_payout :: "string \<Rightarrow> queued_payout" where
  "demo_payout key = \<lparr>qp_kind = Order_release, qp_subject = ''o1'', qp_order = Some ''o1'', qp_chain = 31337, qp_escrow = hex_of 64 (CHR ''b''),
     qp_logicalKey = key, qp_recipient = Some (hex_of 40 (CHR ''c'')), qp_token = Some (hex_of 40 (CHR ''d'')), qp_amount = 40\<rparr>"

definition demo_bucket :: deposit_input where
  "demo_bucket = \<lparr>di_emitter = ''0xe5'', di_escrowRef = hex_of 64 (CHR ''b''), di_reference = ''0xf1'', di_payer = ''0xaa'', di_token = hex_of 40 (CHR ''d''),
     di_amount = 1000, di_reverted = False, di_txHash = None, di_duplicateLogs = None\<rparr>"

definition demo_fresh :: "(effect_log, chain) payout_system" where
  "demo_fresh = no_payouts [] (new_chain demo_chain_env 31337 (Some ''0xe5''))"

definition call_chain :: "chain_call \<Rightarrow> (effect_log, chain) payout_world \<Rightarrow> (effect_log, chain) payout_world" where
  "call_chain a w = w\<lparr>wo_chain := dev_other demo_chain_env a (wo_chain w)\<rparr>"

definition queue_payout :: "string \<Rightarrow> string \<Rightarrow> (effect_log, chain) payout_world \<Rightarrow> (effect_log, chain) payout_world" where
  "queue_payout i key w = w\<lparr>wo_queue := snd (transact (enqueueChainPayout demo_queue_env 1000 i (demo_payout key)) (wo_queue w))\<rparr>"

definition demo_nonce :: "char \<Rightarrow> string \<Rightarrow> string" where
  "demo_nonce digit i = hex_of 63 digit @ [last i]"

text \<open>A dispatch that runs \<open>n\<close> phases and is then cut off, with the given digit in its nonces.\<close>

definition cut_dispatch :: "char \<Rightarrow> nat \<Rightarrow> phase \<Rightarrow> (effect_log, chain) payout_world \<Rightarrow> (effect_log, chain) payout_world" where
  "cut_dispatch digit n ph w = snd (run_job demo_queue_env 2000 (demo_nonce digit) n [ph] w)"

definition demo_queued :: "(effect_log, chain) payout_world" where
  "demo_queued = queue_payout ''p1'' ''a1'' (call_chain (Deposit demo_bucket) (fst demo_fresh))"

definition demo_confirmed :: "(effect_log, chain) payout_world" where
  "demo_confirmed = cut_dispatch (CHR ''1'') 4 (Begin ''p1'') demo_queued"

definition rows_of :: "'b queue \<Rightarrow> (string \<times> payout_state \<times> nat \<times> string option) list" where
  "rows_of s = map (\<lambda>(i, p). (i, cp_state p, cp_attempts p, cp_error p)) (qu_payouts s)"

text \<open>A payout on its eighth attempt: the release is sent, the process stops before it records that, and the chain cannot be reached.\<close>

definition demo_eighth :: "(effect_log, chain) payout_world" where
  "demo_eighth = call_chain (Offline True) (cut_dispatch (CHR ''8'') 3 (Begin ''p1'')
     (demo_queued\<lparr>wo_queue := (wo_queue demo_queued)\<lparr>qu_payouts := map (\<lambda>(i, p). (i, p\<lparr>cp_state := Retry, cp_attempts := 7\<rparr>)) (qu_payouts (wo_queue demo_queued))\<rparr>\<rparr>))"

definition demo_two :: "(effect_log, chain) payout_world" where
  "demo_two = call_chain (Pause True) (queue_payout ''p2'' ''a2'' demo_queued)"

text \<open>The two releases signed for one batch, the second at its eighth attempt.\<close>

definition demo_pair :: "(effect_log, chain) payout_world" where
  "demo_pair = demo_two\<lparr>wo_queue := (wo_queue demo_two)\<lparr>qu_payouts :=
     map (\<lambda>(i, p). (i, p\<lparr>cp_state := Submitting, cp_attempts := (if i = ''p2'' then 8 else 1)\<rparr>)) (qu_payouts (wo_queue demo_two))\<rparr>\<rparr>"

definition demo_signed :: "string \<Rightarrow> release_message signed" where
  "demo_signed i = \<lparr>sg_domain = escrowDomain 31337 ''0xe5'', sg_message = \<lparr>rm_payoutRef = bytes32Of demo_queue_env (''a'' @ [last i]),
     rm_escrowRef = hex_of 64 (CHR ''b''), rm_recipient = hex_of 40 (CHR ''c''), rm_token = hex_of 40 (CHR ''d''), rm_amount = 40,
     rm_nonce = demo_nonce (CHR ''1'') i, rm_expiry = authorization_expiry 2000\<rparr>, sg_signature = ''0x51''\<rparr>"

definition demo_members :: "(string \<times> release_message signed) list" where
  "demo_members = [(''p1'', demo_signed ''p1''), (''p2'', demo_signed ''p2'')]"

definition demo_ref :: "string \<Rightarrow> string" where
  "demo_ref key = bytes32Of demo_queue_env key"

lemma demo_confirmed_rows: "map (\<lambda>(i, p). (i, cp_kind p, cp_state p, cp_ref p)) (qu_payouts (wo_queue demo_confirmed)) = [(''p1'', Order_release, Confirmed, demo_ref ''a1'')]"
  by code_simp

lemma demo_confirmed_paid: "map (\<lambda>x. (ct_payoutRef x, ct_amount x)) (ch_transfers (wo_chain demo_confirmed)) = [(demo_ref ''a1'', 40)]"
  by code_simp

lemma demo_confirmed_effects: "qu_business (wo_queue demo_confirmed) = [(demo_ref ''a1'', True)]"
  by code_simp

lemma demo_eighth_rows: "rows_of (wo_queue demo_eighth) = [(''p1'', Submitting, 8, None)]"
  by code_simp

lemma demo_eighth_paid: "map (\<lambda>x. (ct_payoutRef x, ct_amount x)) (ch_transfers (wo_chain demo_eighth)) = [(demo_ref ''a1'', 40)]"
  by code_simp

lemma demo_eighth_asked: "qe_find demo_queue_env (demo_ref ''a1'') (wo_chain demo_eighth) = (Inl Chain_unavailable, wo_chain demo_eighth)"
  by code_simp

lemma demo_eighth_checks: "map (\<lambda>(i, p). (cp_kind p, cp_ref p, payout_checks p)) (qu_payouts (wo_queue demo_eighth)) = [(Order_release, demo_ref ''a1'', True)]"
  by code_simp

lemma demo_pair_rows: "map (\<lambda>(i, p). (i, cp_state p, cp_attempts p, payout_checks p)) (qu_payouts (wo_queue demo_pair)) = [(''p1'', Submitting, 1, True), (''p2'', Submitting, 8, True)]"
  by code_simp

lemma demo_pair_refused: "fst (qe_batch demo_queue_env 2000 (map snd demo_members) (wo_chain demo_pair)) = Inl (Payout_rejected ''EnforcedPause'')"
  by code_simp

lemma demo_two_due: "dueReleaseBatches 2000 100 (wo_queue demo_two) = [[''p1'', ''p2'']]"
  by code_simp

section \<open>The runs are runs of the system\<close>

lemma honest_demo: "honest_errors demo_chain_env"
  by (simp add: honest_errors_def demo_chain_env_def)

lemma demo_env_ok: "uses_chain demo_queue_env" "effects_logged demo_queue_env"
  by (auto simp: uses_chain_def demo_queue_env_def effects_logged_def intro: honest_demo)

lemma run_reachable:
  assumes "payout_reachable allowed moves works x (w, js)" "allowed env" "k < length js" "run_job env now nonce n (js ! k) w = (job, w')"
  shows "payout_reachable allowed moves works x (w', js[k := job])"
  using assms
proof (induction n arbitrary: w js)
  case (Suc n)
  obtain mid r v where step: "job_step env now nonce (js ! k) w = ((mid, r), v)" by (metis surj_pair)
  have "payout_reachable allowed moves works x (v, js[k := mid])"
    by (rule payouts_moved [OF Suc.prems(1)], rule advanced, rule Suc.prems(2), rule Suc.prems(3), rule step)
  from Suc.IH [OF this Suc.prems(2)] Suc.prems(3,4) step show ?case by simp
qed auto

lemma dispatch_reachable:
  assumes "payout_reachable allowed moves works x (w, js)" "allowed demo_queue_env"
  shows "\<exists>ks. payout_reachable allowed moves works x (cut_dispatch digit n (Begin i) w, ks)"
proof -
  obtain job w' where run: "run_job demo_queue_env 2000 (demo_nonce digit) n [Begin i] w = (job, w')" by fastforce
  have "payout_reachable allowed moves works x (w, js @ [[Begin i]])" by (rule payouts_moved [OF assms(1) dispatched])
  from run_reachable [OF this assms(2), of "length js" 2000 "demo_nonce digit" n job w'] run show ?thesis by (auto simp: cut_dispatch_def)
qed

lemma queue_reachable: "payout_reachable allowed moves works x (w, js) \<Longrightarrow> allowed demo_queue_env \<Longrightarrow> payout_reachable allowed moves works x (queue_payout i key w, js)"
  unfolding queue_payout_def by (rule payouts_moved [OF _ queued])

lemma call_reachable: "payout_reachable allowed moves works x (w, js) \<Longrightarrow> (\<And>c c'. chain_moves c c' \<Longrightarrow> moves c c') \<Longrightarrow> payout_reachable allowed moves works x (call_chain a w, js)"
  unfolding call_chain_def by (rule payouts_moved [OF _ chain_alone [OF _ refl]]) (auto simp: chain_moves_def intro: honest_demo)

lemma demo_queued_reachable: "allowed demo_queue_env \<Longrightarrow> (\<And>c c'. chain_moves c c' \<Longrightarrow> moves c c') \<Longrightarrow> payout_reachable allowed moves works demo_fresh (demo_queued, [])"
  unfolding demo_queued_def by (intro queue_reachable call_reachable) (simp_all add: demo_fresh_def no_payouts_def payouts_start)

end
