(* ===== verification/Payout_Properties.thy ===== *)
theory Payout_Properties
  imports Payout_Scenario
begin

text \<open>
  The properties of the payout outbox: over the simulated chain, and over any business tables, networks, keys and interleaving.
\<close>

section \<open>The queue over the simulated chain\<close>

lemma new_chain_empty: "refs_inv (new_chain e chainId contract) \<and> dev_payments (new_chain e chainId contract) = []"
  by (simp add: new_chain_def nextHash_def push_block_def abind_def aget_def amodify_def areturn_def refs_inv_def dev_payments_def)

lemma chain_system:
  assumes "payout_reachable uses_chain chain_moves works (no_payouts b (new_chain e chainId contract)) x"
  shows "dev.system_ok x"
  using assms
  by (rule dev.reachable_ok) (auto simp: uses_chain_def dev.linked_def chain_moves_def new_chain_empty)

lemma chain_world:
  assumes "payout_reachable uses_chain chain_moves works (no_payouts b (new_chain e chainId contract)) (w, js)"
  shows "refs_inv (wo_chain w)" "payouts_inv (set (dev_payments (wo_chain w))) (wo_queue w)"
  using chain_system [OF assms] by (simp_all add: dev.system_ok_def dev.world_ok_def)



section \<open>Queued once, ended once\<close>

lemma found_row: "payouts_ok s \<Longrightarrow> payout_with_ref s r = Some (i, p) \<Longrightarrow> mget (qu_payouts s) i = Some p \<and> cp_ref p = r"
proof -
  have "x \<in> set xs \<and> P x" if "find P xs = Some x" for P x and xs :: "(string \<times> chain_payout) list"
    using that by (induction xs) (auto split: if_splits)
  from this [of "\<lambda>(i, p). cp_ref p = r" "qu_payouts s" "(i, p)"] show "payouts_ok s \<Longrightarrow> payout_with_ref s r = Some (i, p) \<Longrightarrow> ?thesis"
    by (auto simp: payout_with_ref_def payouts_ok_def intro: mem_mget)
qed

lemma enqueued_row:
  assumes "enqueueChainPayout env now newId q s = (Inr (i, p), t)" "payouts_ok s"
  shows "mget (qu_payouts t) i = Some p \<and> cp_ref p = bytes32Of env (qp_logicalKey q) \<and> payouts_ok t"
proof -
  have "wp (enqueueChainPayout env now newId q) (\<lambda>(i, p) t. mget (qu_payouts t) i = Some p \<and> cp_ref p = bytes32Of env (qp_logicalKey q)) (\<lambda>_ _. True) s"
    using assms(2) unfolding enqueueChainPayout_def Let_def
    by (auto simp: wp found_row new_payout_def split: option.split)
  moreover have "payouts_ok t" using rows.withinD [OF within_enqueue, of s env now newId q] assms by (simp add: payouts_move_def)
  ultimately show ?thesis using assms(1) by (simp add: wp_def)
qed

lemma enqueue_again:
  assumes "mget (qu_payouts s) i = Some p" "payouts_ok s" "cp_ref p = bytes32Of env (qp_logicalKey q)" "payout_checks (new_payout env now q)"
  shows "enqueueChainPayout env now newId q s = (Inr (i, p), s)"
proof -
  have "payout_with_ref s (cp_ref p) = Some (i, p)"
  proof (cases "payout_with_ref s (cp_ref p)")
    case None
    then show ?thesis using mget_mem [OF assms(1)] by (auto simp: payout_with_ref_def find_None_iff)
  next
    case (Some x)
    then have "mget (qu_payouts s) (fst x) = Some (snd x)" "cp_ref (snd x) = cp_ref p" using found_row [OF assms(2), of "cp_ref p" "fst x" "snd x"] by simp_all
    with assms(1,2) have "x = (i, p)" unfolding payouts_ok_def by (metis option.inject prod.collapse)
    with Some show ?thesis by simp
  qed
  with assms show ?thesis by (simp add: enqueueChainPayout_def Let_def abind_def acheck_def aget_def areturn_def new_payout_def)
qed

text \<open>C12. A payout is queued once: when a business transaction has queued a payout, then after any further steps, whatever crashed or was
  retried, queueing the same logical key again answers with the same row and changes nothing; the row has the terms it was first
  queued with, whatever the repetition asks for, and once confirmed or failed it has stayed so.\<close>

theorem payouts_are_queued_once:
  assumes "payout_reachable allowed moves works (no_payouts b c) (w, js)"
    and "enqueueChainPayout env now newId q (wo_queue w) = (Inr (i, p), s)"
    and "payout_reachable allowed moves works (w\<lparr>wo_queue := s\<rparr>, js) (v, ks)"
    and "qp_logicalKey q' = qp_logicalKey q" "qe_hash env' = qe_hash env" "payout_checks (new_payout env' now' q')"
  shows "\<exists>p'. enqueueChainPayout env' now' newId' q' (wo_queue v) = (Inr (i, p'), wo_queue v) \<and> same_terms p p'
    \<and> (cp_state p \<in> {Confirmed, Failed} \<longrightarrow> cp_state p' = cp_state p)"
proof -
  have "payouts_ok (wo_queue w)" using reachable_rows_ok [OF assms(1)] by simp
  note s = enqueued_row [OF assms(2) this]
  have move: "payouts_move UNIV s (wo_queue v)" using run_moves [OF assms(3)] by simp
  with s obtain p' where p': "mget (qu_payouts (wo_queue v)) i = Some p'" "same_terms p p'" "final p \<longrightarrow> cp_state p' = cp_state p"
    unfolding payouts_move_def by blast
  have "cp_ref p' = bytes32Of env' (qp_logicalKey q')" using s p'(2) assms(4,5) by (simp add: same_terms_def bytes32Of_def)
  from enqueue_again [OF p'(1) _ this assms(6)] s move p' show ?thesis by (auto simp: payouts_move_def final_def)
qed

text \<open>C11. The business effect of a payout is applied at most once: whatever dispatches interleave, crash or run again, and whichever effects
  throw, the effects that were kept are of different payouts, an effect for confirmation only of a row that is confirmed and an
  effect for failure only of a row that has failed.\<close>

theorem effects_apply_once:
  assumes "payout_reachable effects_logged moves (\<lambda>_ _. False) (no_payouts [] c) (w, js)"
  shows "distinct (map fst (qu_business (wo_queue w)))
    \<and> (\<forall>(ref, ok) \<in> set (qu_business (wo_queue w)). \<exists>i p. mget (qu_payouts (wo_queue w)) i = Some p \<and> cp_ref p = ref
        \<and> cp_state p = (if ok then Confirmed else Failed))"
  using reachable_log [OF assms] by (simp add: log_inv_def ended_as_def)

section \<open>Batches\<close>

text \<open>C15. A batch holds two to ten different due releases of small amounts, of one chain and token; no payout is in two batches; and of two
  due releases of one chain and token among those read, at least one is in a batch.\<close>

theorem batches_are_small_and_complete:
  assumes "payout_reachable allowed moves works (no_payouts b c) (w, js)"
  shows "distinct (concat (dueReleaseBatches now limit (wo_queue w)))
    \<and> (\<forall>ids \<in> set (dueReleaseBatches now limit (wo_queue w)). 2 \<le> length ids \<and> length ids \<le> 10
        \<and> (\<exists>chainId token. \<forall>i \<in> set ids. \<exists>p. mget (qu_payouts (wo_queue w)) i = Some p \<and> cp_state p \<in> {Queued, Retry} \<and> cp_next p \<le> now
            \<and> cp_kind p \<in> {Allocation, Order_release} \<and> cp_amount p \<le> 50000000 \<and> cp_chain p = chainId \<and> (case cp_token p of Some t \<Rightarrow> t | None \<Rightarrow> []) = token))
    \<and> (\<forall>(i, p) \<in> set (due_rows now limit (wo_queue w)). \<forall>(j, q) \<in> set (due_rows now limit (wo_queue w)).
        i \<noteq> j \<longrightarrow> group_key p = group_key q \<longrightarrow> (\<exists>ids \<in> set (dueReleaseBatches now limit (wo_queue w)). i \<in> set ids \<or> j \<in> set ids))"
proof -
  have ok: "mok (qu_payouts (wo_queue w))" using reachable_rows_ok [OF assms] by (simp add: payouts_ok_def)
  have members: "2 \<le> length ids \<and> length ids \<le> 10
        \<and> (\<exists>chainId token. \<forall>i \<in> set ids. \<exists>p. mget (qu_payouts (wo_queue w)) i = Some p \<and> cp_state p \<in> {Queued, Retry} \<and> cp_next p \<le> now
            \<and> cp_kind p \<in> {Allocation, Order_release} \<and> cp_amount p \<le> 50000000 \<and> cp_chain p = chainId \<and> (case cp_token p of Some t \<Rightarrow> t | None \<Rightarrow> []) = token)"
    if "ids \<in> set (dueReleaseBatches now limit (wo_queue w))" for ids
  proof -
    from batch_members [OF ok that] obtain k where len: "2 \<le> length ids" "length ids \<le> 10"
      and k: "\<forall>i \<in> set ids. \<exists>p. mget (qu_payouts (wo_queue w)) i = Some p \<and> batch_candidate now p \<and> group_key p = k"
      by (auto simp: BATCH_MIN_SIZE_def BATCH_MAX_SIZE_def)
    have "\<forall>i \<in> set ids. \<exists>p. mget (qu_payouts (wo_queue w)) i = Some p \<and> cp_state p \<in> {Queued, Retry} \<and> cp_next p \<le> now
        \<and> cp_kind p \<in> {Allocation, Order_release} \<and> cp_amount p \<le> 50000000 \<and> cp_chain p = fst k \<and> (case cp_token p of Some t \<Rightarrow> t | None \<Rightarrow> []) = snd k"
      using k by (fastforce simp: batch_candidate_def BATCHABLE_KINDS_def BATCH_MAX_AMOUNT_ATOMIC_def group_key_def)
    with len show ?thesis by blast
  qed
  show ?thesis using members batches_disjoint [OF ok] batch_partners [OF ok] by blast
qed


section \<open>The last attempt\<close>

lemma finish_unclear:
  assumes "mget (qu_payouts s) i = Some p" "\<not> final p" "MAX_ATTEMPTS \<le> cp_attempts p" "payout_checks p"
    and "qe_effects env (cp_kind p) = Some h" "fst (ef_failed h p ''RPC_UNAVAILABLE'' (qu_business s))"
  shows "wp (finish env now i (Unclear ''RPC_UNAVAILABLE'')) (\<lambda>_ t. (\<exists>q. mget (qu_payouts t) i = Some q \<and> cp_state q = Failed)
    \<and> qu_business t = snd (ef_failed h p ''RPC_UNAVAILABLE'' (qu_business s))) (\<lambda>_ _. False) s"
proof -
  have "payout_checks (p\<lparr>cp_state := Failed, cp_error := Some t\<rparr>)" if "length t \<le> 300" for t
    using assms(2,4) that by (auto simp: payout_checks_def optional_def final_def)
  moreover have "chain_payout_guard p (p\<lparr>cp_state := Failed, cp_error := Some t\<rparr>)" for t
    using assms(2) by (simp add: chain_payout_guard_def same_terms_def final_def)
  ultimately show ?thesis using assms unfolding finish_def record_failed_def final_def
    by (simp add: wp wp_update_row wp_business close_authorizations_def payout_case_def)
qed

text \<open>C13. When the chain cannot be asked about a payout that has used up its attempts and may have been sent, the dispatch records the payout as
  failed and applies its effect for failure, without the chain having said that nothing was paid.\<close>

theorem unanswered_last_attempt_fails:
  assumes "mget (qu_payouts (wo_queue w)) i = Some p" "cp_state p \<in> {Unknown, Submitting}" "cp_kind p \<notin> {Freeze, Unfreeze}"
    and "MAX_ATTEMPTS \<le> cp_attempts p" "payout_checks p" "qe_network env (cp_chain p) = Some nw" "nw_enabled nw" "qe_adapter env nw = Inr batches"
    and "qe_find env (cp_ref p) (wo_chain w) = (Inl e, c)" "qe_effects env (cp_kind p) = Some h" "fst (ef_failed h p ''RPC_UNAVAILABLE'' (qu_business (wo_queue w)))"
  shows "\<exists>w' q. run_job env now nonce 3 [Begin i] w = ([], w') \<and> wo_chain w' = c \<and> mget (qu_payouts (wo_queue w')) i = Some q
    \<and> cp_state q = Failed \<and> qu_business (wo_queue w') = snd (ef_failed h p ''RPC_UNAVAILABLE'' (qu_business (wo_queue w)))"
proof -
  let ?s = "wo_queue w"
  have "wp (finish env now i (Unclear ''RPC_UNAVAILABLE'')) (\<lambda>_ t. (\<exists>q. mget (qu_payouts t) i = Some q \<and> cp_state q = Failed)
      \<and> qu_business t = snd (ef_failed h p ''RPC_UNAVAILABLE'' (qu_business ?s))) (\<lambda>_ _. False) ?s"
    using assms(2) by (intro finish_unclear assms) (auto simp: final_def)
  then obtain x t q where f: "finish env now i (Unclear ''RPC_UNAVAILABLE'') ?s = (Inr x, t)" and q: "mget (qu_payouts t) i = Some q" "cp_state q = Failed"
      "qu_business t = snd (ef_failed h p ''RPC_UNAVAILABLE'' (qu_business ?s))"
    by (auto simp: wp_def split: prod.splits sum.splits)
  have "open_payout ?s i = Some p" using assms(1,2) by (auto simp: open_payout_def open_states_def)
  then have start: "job_step env now nonce [Begin i] w = (([Reconcile i (cp_ref p) nw], None), w)"
    using assms(2,3,6-8) by (simp add: job_step_def in_queue_def transact_def prepare_def abind_def aget_def areturn_def after_prepare_def is_freeze_def)
  have ask: "job_step env now nonce [Reconcile i (cp_ref p) nw] w = (([Finishing i (Unclear ''RPC_UNAVAILABLE'')], None), w\<lparr>wo_chain := c\<rparr>)"
    using assms(9) by (simp add: job_step_def on_chain_def outcome_found_def)
  have record': "job_step env now nonce [Finishing i (Unclear ''RPC_UNAVAILABLE'')] (w\<lparr>wo_chain := c\<rparr>) = (([], Some x), w\<lparr>wo_chain := c, wo_queue := t\<rparr>)"
    using f by (simp add: job_step_def in_queue_def transact_def)
  have "run_job env now nonce 3 [Begin i] w = ([], w\<lparr>wo_chain := c, wo_queue := t\<rparr>)"
    by (simp add: numeral_3_eq_3 start ask record')
  with q show ?thesis by auto
qed

section \<open>Runs\<close>

lemma demo_confirmed_reachable:
  assumes "allowed demo_queue_env" "\<And>c c'. chain_moves c c' \<Longrightarrow> moves c c'"
  shows "\<exists>ks. payout_reachable allowed moves works demo_fresh (demo_confirmed, ks)"
  unfolding demo_confirmed_def using demo_queued_reachable assms by (intro dispatch_reachable) blast+

lemma demo_confirmed_row: "\<exists>p. mget (qu_payouts (wo_queue demo_confirmed)) ''p1'' = Some p \<and> cp_kind p = Order_release \<and> cp_state p = Confirmed \<and> cp_ref p = demo_ref ''a1''"
  using demo_confirmed_rows by (auto simp: mget_def map_eq_Cons_conv)



lemma effects_apply_once_witness:
  "\<exists>i p. mget (qu_payouts (wo_queue demo_confirmed)) i = Some p \<and> cp_ref p = demo_ref ''a1'' \<and> cp_state p = Confirmed"
proof -
  obtain ks where run: "payout_reachable effects_logged chain_moves (\<lambda>_ _. False) demo_fresh (demo_confirmed, ks)"
    using demo_confirmed_reachable [of effects_logged chain_moves] demo_env_ok by blast
  from effects_apply_once [OF run [unfolded demo_fresh_def]] demo_confirmed_effects show ?thesis by auto
qed

lemma demo_checks: "payout_checks (new_payout demo_queue_env 1000 (demo_payout ''a1''))" "payout_checks (new_payout demo_queue_env 1000 (demo_payout ''a1''\<lparr>qp_amount := 99\<rparr>))"
  by code_simp+

lemma payouts_are_queued_once_witness:
  "\<exists>p. enqueueChainPayout demo_queue_env 1000 ''p9'' (demo_payout ''a1''\<lparr>qp_amount := 99\<rparr>) (wo_queue demo_confirmed) = (Inr (''p1'', p), wo_queue demo_confirmed)
    \<and> cp_amount p = 40"
proof -
  let ?w = "call_chain (Deposit demo_bucket) (fst demo_fresh)" and ?p = "new_payout demo_queue_env 1000 (demo_payout ''a1'')"
  have start: "payout_reachable uses_chain chain_moves (\<lambda>_ _. False) demo_fresh (?w, [])"
    by (rule call_reachable) (simp_all add: demo_fresh_def no_payouts_def payouts_start)
  have empty: "qu_payouts (wo_queue ?w) = []" by (simp add: call_chain_def demo_fresh_def no_payouts_def)
  define t where "t = (wo_queue ?w)\<lparr>qu_payouts := [(''p1'', ?p)]\<rparr>"
  have queued: "enqueueChainPayout demo_queue_env 1000 ''p1'' (demo_payout ''a1'') (wo_queue ?w) = (Inr (''p1'', ?p), t)"
    using demo_checks(1) empty by (simp add: enqueueChainPayout_def Let_def abind_def acheck_def aget_def amodify_def areturn_def payout_with_ref_def t_def)
  have "demo_queued = ?w\<lparr>wo_queue := t\<rparr>" by (simp add: demo_queued_def queue_payout_def transact_def queued)
  then have "payout_reachable uses_chain chain_moves (\<lambda>_ _. False) (?w\<lparr>wo_queue := t\<rparr>, []) (demo_queued, [])" by (simp add: payouts_start)
  from dispatch_reachable [OF this demo_env_ok(1)] obtain ks where
    run: "payout_reachable uses_chain chain_moves (\<lambda>_ _. False) (?w\<lparr>wo_queue := t\<rparr>, []) (demo_confirmed, ks)" unfolding demo_confirmed_def by blast
  have "cp_amount ?p = 40" by (simp add: new_payout_def demo_payout_def)
  with payouts_are_queued_once [OF start [unfolded demo_fresh_def] queued [unfolded demo_fresh_def] run [unfolded demo_fresh_def] _ refl demo_checks(2), where newId' = "''p9''"]
  show ?thesis by (auto simp: demo_payout_def same_terms_def)
qed

lemma batches_are_small_and_complete_witness: "\<exists>p. mget (qu_payouts (wo_queue demo_two)) ''p2'' = Some p \<and> cp_amount p \<le> 50000000 \<and> cp_next p \<le> 2000"
proof -
  have "payout_reachable uses_chain chain_moves (\<lambda>_ _. False) demo_fresh (demo_two, [])"
    unfolding demo_two_def by (intro call_reachable queue_reachable demo_queued_reachable demo_env_ok)
  from batches_are_small_and_complete [OF this [unfolded demo_fresh_def], of 2000 100] demo_two_due show ?thesis by auto
qed

lemma demo_pair_row: "\<exists>p. mget (qu_payouts (wo_queue demo_pair)) ''p1'' = Some p \<and> cp_state p = Submitting \<and> cp_attempts p = 1 \<and> payout_checks p"
  "\<exists>p. mget (qu_payouts (wo_queue demo_pair)) ''p2'' = Some p \<and> cp_state p = Submitting \<and> cp_attempts p = 8 \<and> payout_checks p"
  using demo_pair_rows by (auto simp: map_eq_Cons_conv)


lemma unanswered_last_attempt_fails_witness:
  "\<exists>w' q. run_job demo_queue_env 2000 (demo_nonce (CHR ''9'')) 3 [Begin ''p1''] demo_eighth = ([], w') \<and> wo_chain w' = wo_chain demo_eighth
    \<and> mget (qu_payouts (wo_queue w')) ''p1'' = Some q \<and> cp_state q = Failed
    \<and> map (\<lambda>x. (ct_payoutRef x, ct_amount x)) (ch_transfers (wo_chain w')) = [(demo_ref ''a1'', 40)]"
proof -
  obtain p where p: "mget (qu_payouts (wo_queue demo_eighth)) ''p1'' = Some p" "cp_state p = Submitting" "cp_attempts p = 8"
      "cp_kind p = Order_release" "cp_ref p = demo_ref ''a1''" "payout_checks p"
    using demo_eighth_rows demo_eighth_checks by (auto simp: rows_of_def map_eq_Cons_conv)
  let ?h = "\<lparr>ef_confirmed = \<lambda>p b. (True, b @ [(cp_ref p, True)]), ef_failed = \<lambda>p code b. (True, b @ [(cp_ref p, False)])\<rparr>"
  have "\<exists>w' q. run_job demo_queue_env 2000 (demo_nonce (CHR ''9'')) 3 [Begin ''p1''] demo_eighth = ([], w') \<and> wo_chain w' = wo_chain demo_eighth
    \<and> mget (qu_payouts (wo_queue w')) ''p1'' = Some q \<and> cp_state q = Failed
    \<and> qu_business (wo_queue w') = snd (ef_failed ?h p ''RPC_UNAVAILABLE'' (qu_business (wo_queue demo_eighth)))"
  proof (rule unanswered_last_attempt_fails)
    show "qe_find demo_queue_env (cp_ref p) (wo_chain demo_eighth) = (Inl Chain_unavailable, wo_chain demo_eighth)"
      unfolding p(5) by (rule demo_eighth_asked)
    show "qe_network demo_queue_env (cp_chain p) = Some \<lparr>nw_enabled = True, nw_contract = ''0xe5''\<rparr>" by (simp add: demo_queue_env_def)
    show "qe_adapter demo_queue_env \<lparr>nw_enabled = True, nw_contract = ''0xe5''\<rparr> = Inr True" by (simp add: demo_queue_env_def)
    show "qe_effects demo_queue_env (cp_kind p) = Some ?h" by (simp add: demo_queue_env_def)
  qed (simp_all add: p MAX_ATTEMPTS_def)
  then obtain w' q where w': "run_job demo_queue_env 2000 (demo_nonce (CHR ''9'')) 3 [Begin ''p1''] demo_eighth = ([], w')" "wo_chain w' = wo_chain demo_eighth"
      "mget (qu_payouts (wo_queue w')) ''p1'' = Some q" "cp_state q = Failed" by blast
  show ?thesis by (intro exI conjI, rule w'(1), rule w'(2), rule w'(3), rule w'(4)) (simp only: w'(2) demo_eighth_paid)
qed

end
