(* ===== verification/Payment_Tables.thy ===== *)
theory Payment_Tables
  imports Orders Money_Policies Provider_Types
begin

text \<open>
  The tables of payments (\<open>drizzle/0001\<close>, \<open>0012\<close>, \<open>0016\<close>, \<open>0021\<close>, \<open>0022\<close>, \<open>0023\<close>) beside the desk of orders, and the statements that
  \<open>src/modules/payments/funding.ts\<close> makes on them: the journal of provider operations, the ledger, holds, cases and events. The
  provider's answers, the request hash, the flags, the chain and the pools are parameters (\<open>pay_env\<close>). A row's id is its
  operation id, provider reference or event id where that is unique; row order is the order of \<open>created_at\<close>.
\<close>

section \<open>Tables\<close>

datatype operation_status = Op_pending | Op_succeeded | Op_failed | Op_unknown

text \<open>The plan of a release: \<open>netAmount\<close>, \<open>providerFee\<close>, \<open>feePolicy\<close> and \<open>grossAmount\<close> of its outcome.\<close>

record release_plan =
  pl_net :: int
  pl_fee :: int
  pl_policy :: cost_fee_payer
  pl_gross :: int

text \<open>\<open>po_fact\<close> is the status that the last accepted fact reported: \<open>fundingStatus\<close>, \<open>refundStatus\<close>, \<open>releaseStatus\<close> or \<open>reversalStatus\<close>
  of the outcome, of which an operation has only the one of its kind.\<close>

record provider_operation =
  po_order :: "string option"
  po_kind :: operation_kind
  po_hash :: string
  po_status :: operation_status
  po_reference :: "string option"
  po_fact :: "string option"
  po_method :: "string option"
  po_plan :: "release_plan option"
  po_refund :: "string option"
  po_reversed :: "int option"

record inbox_row =
  ib_event :: verified_event
  ib_verified :: bool
  ib_processed :: bool
  ib_attempts :: nat

datatype account =
    Order_principal string | Provider_clearing | Provider_fee_expense | Bank_return_loss string | Chargeback_loss string
  | Creator_cost_credit string | Platform_loss string | Post_release_refund string | Pool_clearing string | Chain_clearing string

record booking =
  bk_order :: string
  bk_kind :: string
  bk_currency :: string
  bk_entries :: "(account \<times> int) list"

datatype hold_state = HELD | EXPIRY_RECONCILING | ACTIVE | DONE | RELEASED | REVOKED

record hold =
  hd_state :: hold_state
  hd_expires :: "int option"

datatype intent_status = Awaiting_deposit | Pending_finality | Intent_cancelled | Intent_closed

record payment_dispute =
  pd_order :: string
  pd_funding :: string
  pd_amount :: int
  pd_currency :: string
  pd_status :: dispute_status_code
  pd_order_status :: order_status
  pd_settlement_status :: settlement_status
  pd_opened_event :: string
  pd_closed_event :: "string option"

datatype recovery_status = Recovering | Deficit | Refund_pending | Refund_done

record post_release_refund =
  pr_order :: string
  pr_amount :: int
  pr_currency :: string
  pr_reason :: string
  pr_by :: string
  pr_status :: recovery_status
  pr_recovered :: int
  pr_covered :: int
  pr_covered_by :: "string option"
  pr_covered_reason :: "string option"

record cost_adjustment =
  ca_order :: string
  ca_event :: string
  ca_previous :: int
  ca_actual :: int
  ca_delta :: int
  ca_creator_share :: int
  ca_platform_share :: int
  ca_creator_credit :: int
  ca_phase :: cost_phase
  ca_fee_payer :: cost_fee_payer
  ca_cap_bps :: int
  ca_cap :: int

record pay =
  pa_desk :: desk
  pa_operations :: "(string \<times> provider_operation) list"
  pa_inbox :: "((string \<times> string) \<times> inbox_row) list"
  pa_ledger :: "(string \<times> booking) list"
  pa_claims :: "(string \<times> hold) list"
  pa_entitlements :: "(string \<times> hold) list"
  pa_intents :: "(string \<times> intent_status) list"
  pa_disputes :: "(string \<times> payment_dispute) list"
  pa_refunds :: "(string \<times> post_release_refund) list"
  pa_costs :: "cost_adjustment list"

type_synonym 'a pay_action = "(pay, exception_value, 'a) action"

datatype pay_request =
    Funding_request funding_input
  | Cancel_request string
  | Release_request release_input
  | Refund_request refund_input
  | Reversal_request reversal_input

text \<open>\<open>READY\<close> with the provider's reference, \<open>RETRY\<close>, \<open>REJECTED\<close>: a \<open>ProviderCallResult\<close> of an operation; error codes are left out.\<close>

datatype call_result = READY string string | RETRY string | REJECTED string

text \<open>
  Parameters of a call. \<open>pe_answer\<close> is what the provider answers to a request under an operation id: its reference (for a
  cancellation the status it reports) or an error. \<open>pe_chainPayout\<close> queues a payout of a kind for an order whose verified deposit
  \<open>pe_deposit\<close> finds; \<open>pe_wallet\<close> says whether the creator has a verified wallet there. \<open>pe_poolReturn\<close> and \<open>pe_settlePool\<close> are the
  pools' calls, \<open>pe_pool\<close> the pool of an order with its allocations (required, released). \<open>pe_feePolicy\<close>, \<open>pe_costCap\<close> and
  \<open>pe_integerOf\<close> read the environment variables.
\<close>

record pay_env =
  pe_mock :: bool
  pe_paymentsOpen :: bool
  pe_production :: bool
  pe_flag :: "string \<Rightarrow> bool"
  pe_feePolicy :: "string option"
  pe_costCap :: "string option"
  pe_integerOf :: "string \<Rightarrow> int option"
  pe_mode :: string
  pe_payee :: "string \<Rightarrow> string"
  pe_hash :: "pay_request \<Rightarrow> string"
  pe_answer :: "pay_request \<Rightarrow> string \<Rightarrow> thrown + string"
  pe_deposit :: "string \<Rightarrow> bool"
  pe_wallet :: "string \<Rightarrow> bool"
  pe_chainPayout :: "string \<Rightarrow> string \<Rightarrow> string \<Rightarrow> int \<Rightarrow> exception_value + string"
  pe_poolReturn :: "string \<Rightarrow> exception_value + unit"
  pe_settlePool :: "string \<Rightarrow> exception_value + int"
  pe_pool :: "string \<Rightarrow> (string \<times> (bool \<times> bool) list) option"

section \<open>Statements on the desk\<close>

text \<open>\<open>on_desk\<close> runs a statement that changes no order. \<open>on_orders\<close> runs one that may: the triggers of an order's status follow
  (\<open>order_workload_release\<close> of \<open>drizzle/0012\<close>, \<open>order_entitlement_sync\<close> of \<open>drizzle/0016\<close>), over the orders whose status moved.\<close>

definition on_desk :: "'a order_action \<Rightarrow> 'a pay_action" where
  "on_desk m = (\<lambda>s. case m (pa_desk s) of (r, d) \<Rightarrow> (r, s\<lparr>pa_desk := d\<rparr>))"

definition claim_after :: "order_status \<Rightarrow> hold \<Rightarrow> hold" where
  "claim_after st h =
     (if st \<in> {APPROVED, COMPLETED} \<and> hd_state h = ACTIVE then h\<lparr>hd_state := DONE\<rparr>
      else if st \<in> {CANCELLED, REFUNDED} \<and> hd_state h \<in> {HELD, EXPIRY_RECONCILING, ACTIVE} then h\<lparr>hd_state := RELEASED\<rparr>
      else h)"

definition entitlement_after :: "order_status \<Rightarrow> hold \<Rightarrow> hold" where
  "entitlement_after st h =
     (if st = FUNDED \<and> hd_state h \<in> {HELD, EXPIRY_RECONCILING} then h\<lparr>hd_state := ACTIVE, hd_expires := None\<rparr>
      else if st \<in> {CANCELLED, REFUNDED} \<and> hd_state h \<in> {HELD, EXPIRY_RECONCILING} then h\<lparr>hd_state := RELEASED\<rparr>
      else if st \<in> {CANCELLED, REFUNDED} \<and> hd_state h = ACTIVE then h\<lparr>hd_state := REVOKED\<rparr>
      else h)"

definition status_of :: "desk \<Rightarrow> string \<Rightarrow> order_status option" where
  "status_of d oid = map_option od_status (mget (dk_orders d) oid)"

definition sync_holds :: "desk \<Rightarrow> desk \<Rightarrow> (order_status \<Rightarrow> hold \<Rightarrow> hold) \<Rightarrow> (string \<times> hold) list \<Rightarrow> (string \<times> hold) list" where
  "sync_holds d d' after holds = map (\<lambda>(oid, h). (oid, case status_of d' oid of
     None \<Rightarrow> h | Some st \<Rightarrow> if status_of d oid = Some st then h else after st h)) holds"

definition status_triggers :: "desk \<Rightarrow> pay \<Rightarrow> pay" where
  "status_triggers d s = s\<lparr>pa_claims := sync_holds d (pa_desk s) claim_after (pa_claims s),
     pa_entitlements := sync_holds d (pa_desk s) entitlement_after (pa_entitlements s)\<rparr>"

definition on_orders :: "'a order_action \<Rightarrow> 'a pay_action" where
  "on_orders m = (\<lambda>s. case m (pa_desk s) of (r, d) \<Rightarrow> (r, status_triggers (pa_desk s) (s\<lparr>pa_desk := d\<rparr>)))"

definition update_paid :: "int \<Rightarrow> string \<Rightarrow> (order \<Rightarrow> order) \<Rightarrow> unit pay_action" where
  "update_paid now oid f = on_orders (update_order now oid f)"

definition order_row :: "pay \<Rightarrow> string \<Rightarrow> order option" where
  "order_row s oid = mget (dk_orders (pa_desk s)) oid"

text \<open>\<open>update .. where guard returning id\<close>: whether a row changed.\<close>

definition update_where :: "int \<Rightarrow> string \<Rightarrow> (order \<Rightarrow> bool) \<Rightarrow> (order \<Rightarrow> order) \<Rightarrow> bool pay_action" where
  "update_where now oid guard f =
     abind (aget (\<lambda>s. case order_row s oid of Some x \<Rightarrow> guard x | None \<Rightarrow> False)) (\<lambda>b.
     if b then abind (update_paid now oid f) (\<lambda>_. areturn True) else areturn False)"

definition pay_case :: "string option \<Rightarrow> string option \<Rightarrow> string \<Rightarrow> unit pay_action" where
  "pay_case oid operation kind = on_desk (openCase oid operation kind)"

definition pay_event :: "string \<Rightarrow> string \<Rightarrow> string option \<Rightarrow> int option \<Rightarrow> unit pay_action" where
  "pay_event oid kind reference fee = on_desk (amodify (\<lambda>d. d\<lparr>dk_events := dk_events d @
     [\<lparr>ev_order = oid, ev_actor = None, ev_kind = kind, ev_reference = reference, ev_fee = fee\<rparr>]\<rparr>))"

definition outbox :: "string \<Rightarrow> string \<Rightarrow> string \<Rightarrow> unit pay_action" where
  "outbox key template recipient = on_desk (enqueue key template recipient)"

section \<open>Ledger\<close>

definition ledger :: "string \<Rightarrow> string \<Rightarrow> string \<Rightarrow> (account \<times> int) list \<Rightarrow> string \<Rightarrow> bool pay_action" where
  "ledger oid kind key entries currency =
     abind (acheck (sum_list (map snd entries) = 0) Other_error) (\<lambda>_.
     abind (aget (\<lambda>s. mget (pa_ledger s) key)) (\<lambda>row. case row of
       Some _ \<Rightarrow> areturn False
     | None \<Rightarrow>
         abind (amodify (\<lambda>s. s\<lparr>pa_ledger := mput key \<lparr>bk_order = oid, bk_kind = kind, bk_currency = currency,
           bk_entries = filter (\<lambda>(a, n). n \<noteq> 0) entries\<rparr> (pa_ledger s)\<rparr>)) (\<lambda>_.
         areturn True)))"

text \<open>The balance of an account over all transactions.\<close>

definition entries_total :: "account \<Rightarrow> booking \<Rightarrow> int" where
  "entries_total a b = sum_list (map snd (filter (\<lambda>(c, n). c = a) (bk_entries b)))"

definition account_balance :: "account \<Rightarrow> pay \<Rightarrow> int" where
  "account_balance a s = mtotal (entries_total a) (pa_ledger s)"

section \<open>Journal of provider operations\<close>

definition new_operation :: "string \<Rightarrow> operation_kind \<Rightarrow> string \<Rightarrow> provider_operation" where
  "new_operation oid kind hash = \<lparr>po_order = Some oid, po_kind = kind, po_hash = hash, po_status = Op_pending, po_reference = None,
     po_fact = None, po_method = None, po_plan = None, po_refund = None, po_reversed = None\<rparr>"

definition journal :: "string \<Rightarrow> string \<Rightarrow> operation_kind \<Rightarrow> string \<Rightarrow> unit pay_action" where
  "journal operationId oid kind hash =
     abind (amodify (\<lambda>s. if mget (pa_operations s) operationId \<noteq> None then s
       else s\<lparr>pa_operations := mput operationId (new_operation oid kind hash) (pa_operations s)\<rparr>)) (\<lambda>_.
     abind (aget (\<lambda>s. mget (pa_operations s) operationId)) (\<lambda>row.
     acheck (case row of Some r \<Rightarrow> po_hash r = hash \<and> po_kind r = kind | None \<Rightarrow> False) (Flow_error ''IDEMPOTENCY_CONFLICT'')))"

definition change_operation :: "string \<Rightarrow> (provider_operation \<Rightarrow> provider_operation) \<Rightarrow> unit pay_action" where
  "change_operation operationId f = amodify (\<lambda>s. case mget (pa_operations s) operationId of
     None \<Rightarrow> s | Some r \<Rightarrow> s\<lparr>pa_operations := mput operationId (f r) (pa_operations s)\<rparr>)"

definition failed_status :: "provider_error \<Rightarrow> operation_status" where
  "failed_status e = (if error_outcome e = UNKNOWN then Op_unknown else if error_retryable e then Op_pending else Op_failed)"

definition recordCallFailure :: "string \<Rightarrow> thrown \<Rightarrow> call_result pay_action" where
  "recordCallFailure operationId e = (case e of
     OtherError _ \<Rightarrow> afail Other_error
   | Provider pe \<Rightarrow>
       abind (change_operation operationId (\<lambda>r. if po_status r \<noteq> Op_succeeded then r\<lparr>po_status := failed_status pe\<rparr> else r)) (\<lambda>_.
       areturn (if error_outcome pe = UNKNOWN \<or> error_retryable pe then RETRY operationId else REJECTED operationId)))"

text \<open>\<open>try { reference = await provider.call(request, operationId); .. SUCCEEDED .. } catch (error) { .. }\<close>\<close>

definition answered :: "string \<Rightarrow> string \<Rightarrow> call_result pay_action" where
  "answered operationId reference =
     abind (change_operation operationId (\<lambda>r. r\<lparr>po_status := Op_succeeded, po_reference := Some reference\<rparr>)) (\<lambda>_.
     areturn (READY operationId reference))"

definition getMockPaymentProvider :: "pay_env \<Rightarrow> unit pay_action" where
  "getMockPaymentProvider env = acheck (pe_mock env) (Flow_error ''UNAVAILABLE'')"

text \<open>The operations of an order of one kind, in the order they were created.\<close>

definition operations_of :: "pay \<Rightarrow> string \<Rightarrow> operation_kind \<Rightarrow> (string \<times> provider_operation) list" where
  "operations_of s oid kind = filter (\<lambda>(i, r). po_order r = Some oid \<and> po_kind r = kind) (pa_operations s)"

definition latest :: "'a list \<Rightarrow> 'a option" where
  "latest xs = (if xs = [] then None else Some (last xs))"

text \<open>\<open>.. kind='funding.create' and outcome->>'fundingStatus'='SUCCEEDED' order by created_at desc limit 1\<close>: its reference.\<close>

definition confirmed_funding :: "pay \<Rightarrow> string \<Rightarrow> string option option" where
  "confirmed_funding s oid = map_option (\<lambda>(i, r). po_reference r)
     (latest (filter (\<lambda>(i, r). po_fact r = Some ''SUCCEEDED'') (operations_of s oid Funding_Create)))"

text \<open>\<open>String(row.provider_reference)\<close>\<close>

definition reference_text :: "string option \<Rightarrow> string" where
  "reference_text r = (case r of Some t \<Rightarrow> t | None \<Rightarrow> ''null'')"

definition feePayerPolicy :: "pay_env \<Rightarrow> exception_value + cost_fee_payer" where
  "feePayerPolicy env =
     (if pe_feePolicy env = Some ''CREATOR_AT_COST'' then Inr CREATOR_AT_COST
      else if pe_feePolicy env = Some ''PLATFORM_SUBSIDIZED'' then Inr PLATFORM_SUBSIDIZED
      else if pe_production env then Inl (Flow_error ''UNAVAILABLE'')
      else Inr CREATOR_AT_COST)"

section \<open>Holds\<close>

definition lockCheckoutHold :: "pay \<Rightarrow> string \<Rightarrow> hold option" where
  "lockCheckoutHold s oid = (case mget (pa_claims s) oid of Some h \<Rightarrow> Some h | None \<Rightarrow> mget (pa_entitlements s) oid)"

definition live_hold :: "hold option \<Rightarrow> bool" where
  "live_hold h \<longleftrightarrow> (case h of Some h \<Rightarrow> hd_state h \<in> {HELD, EXPIRY_RECONCILING} | None \<Rightarrow> False)"

definition activateOrderClaim :: "string \<Rightarrow> bool pay_action" where
  "activateOrderClaim oid =
     abind (aget (\<lambda>s. mget (pa_claims s) oid)) (\<lambda>claim. case claim of
       None \<Rightarrow> areturn False
     | Some h \<Rightarrow>
         if hd_state h \<notin> {HELD, EXPIRY_RECONCILING} then areturn False
         else abind (amodify (\<lambda>s. s\<lparr>pa_claims := mput oid \<lparr>hd_state = ACTIVE, hd_expires = None\<rparr> (pa_claims s)\<rparr>)) (\<lambda>_. areturn True))"

text \<open>A digital order is delivered as soon as it is funded (\<open>src/modules/digital/index.ts\<close>); the delivery's note is a fixed text.\<close>

definition fulfillDigitalOrder :: "int \<Rightarrow> string \<Rightarrow> bool pay_action" where
  "fulfillDigitalOrder now oid =
     abind (aget (\<lambda>s. (order_row s oid, mget (pa_entitlements s) oid))) (\<lambda>(row, entitlement). case row of
       None \<Rightarrow> areturn False
     | Some x \<Rightarrow>
         if \<not> ot_digital (od_terms x) \<or> od_status x \<noteq> FUNDED \<or> map_option hd_state entitlement \<noteq> Some ACTIVE then areturn False
         else
           abind (update_paid now oid (\<lambda>x. bump_order (x\<lparr>od_status := IN_PROGRESS\<rparr>))) (\<lambda>_.
           abind (on_desk (insert_delivery \<lparr>dl_order = oid, dl_version = 1, dl_body = ''Digital product'', dl_url = None, dl_validation = Valid,
             dl_submitted_by = od_creator x, dl_viewed_at = None, dl_assets = []\<rparr>)) (\<lambda>_.
           abind (update_paid now oid (\<lambda>y. bump_order (y\<lparr>od_status := DELIVERED,
             od_review_due_at := Some (now + HOURS (reviewWindowHours (od_terms x)))\<rparr>))) (\<lambda>_.
           abind (pay_event oid ''DIGITAL_DELIVERED'' None None) (\<lambda>_.
           abind (outbox (''notify:order.delivered:'' @ oid @ '':v1'') ''order.delivered'' (od_buyer x)) (\<lambda>_.
           areturn True))))))"

end
