(* ===== verification/Payments.thy ===== *)
theory Payments
  imports Payment_Tables
begin

text \<open>
  Requests to the payment provider (\<open>src/modules/payments/funding.ts\<close>): funding intents and bank transfers, the cancellation of an
  open payment, refunds, the creator's release, and refunds after the release. A call to the provider is recorded in the journal
  before it is made and its answer after; what the provider did becomes a fact of the order only by an event (\<open>Payment_Facts\<close>).
\<close>

section \<open>Funding\<close>

definition open_attempt :: "(string \<times> provider_operation) option \<Rightarrow> bool" where
  "open_attempt row \<longleftrightarrow> (case row of None \<Rightarrow> False
     | Some (i, r) \<Rightarrow> po_status r \<noteq> Op_failed \<and> po_fact r \<noteq> Some ''FAILED'' \<and> po_fact r \<noteq> Some ''CANCELED'')"

definition method_text :: "funding_method \<Rightarrow> string" where
  "method_text m = (case m of CARD \<Rightarrow> ''CARD'' | BANK_TRANSFER \<Rightarrow> ''BANK_TRANSFER'')"

definition methodOf :: "(string \<times> provider_operation) option \<Rightarrow> string" where
  "methodOf row = (case row of Some (i, r) \<Rightarrow> (case po_method r of Some m \<Rightarrow> m | None \<Rightarrow> ''CARD'') | None \<Rightarrow> ''CARD'')"

text \<open>The payment that may still be cancelled, and whether an attempt is unresolved.\<close>

definition open_funding :: "pay \<Rightarrow> string \<Rightarrow> (string \<times> provider_operation) option" where
  "open_funding s oid = latest (filter (\<lambda>(i, r). po_status r = Op_succeeded \<and> po_reference r \<noteq> None
     \<and> po_fact r \<notin> {Some ''FAILED'', Some ''CANCELED'', Some ''SUCCEEDED'', Some ''RETURNED''}) (operations_of s oid Funding_Create))"

definition unresolved_funding :: "pay \<Rightarrow> string \<Rightarrow> bool" where
  "unresolved_funding s oid \<longleftrightarrow> list_ex (\<lambda>(i, r). po_status r \<in> {Op_pending, Op_unknown}) (operations_of s oid Funding_Create)"

definition close_intents :: "string \<Rightarrow> pay \<Rightarrow> pay" where
  "close_intents oid s = s\<lparr>pa_intents := map (\<lambda>(o', st). (o', if o' = oid \<and> st = Awaiting_deposit then Intent_cancelled else st)) (pa_intents s)\<rparr>"

definition cancelOpenFunding :: "pay_env \<Rightarrow> string \<Rightarrow> unit pay_action" where
  "cancelOpenFunding env oid =
     abind (aget (\<lambda>s. list_ex (\<lambda>(o', st). o' = oid \<and> st = Pending_finality) (pa_intents s))) (\<lambda>pendingChain.
     abind (acheck (\<not> pendingChain) (Flow_error ''INVALID_STATE'')) (\<lambda>_.
     abind (amodify (close_intents oid)) (\<lambda>_.
     if \<not> pe_mock env then areturn ()
     else
       abind (aget (\<lambda>s. (open_funding s oid, unresolved_funding s oid))) (\<lambda>(row, unresolved).
       abind (acheck (\<not> unresolved) (Flow_error ''INVALID_STATE'')) (\<lambda>_.
       case row of
         None \<Rightarrow> areturn ()
       | Some (i, r) \<Rightarrow>
           let reference = reference_text (po_reference r); operationId = ''cancel:'' @ reference; request = Cancel_request reference in
           abind (journal operationId oid Funding_Cancel (pe_hash env request)) (\<lambda>_.
           case pe_answer env request operationId of
             Inr status \<Rightarrow>
               abind (change_operation operationId (\<lambda>c. c\<lparr>po_status := Op_succeeded, po_reference := Some reference\<rparr>)) (\<lambda>_.
               change_operation i (\<lambda>c. if po_fact c \<noteq> Some ''SUCCEEDED'' then c\<lparr>po_fact := Some status\<rparr> else c))
           | Inl e \<Rightarrow>
               if isProviderError e (Some INVALID_STATE) then afail (Flow_error ''INVALID_STATE'')
               else abind (recordCallFailure operationId e) (\<lambda>_. afail (Flow_error ''INVALID_STATE''))))))))"

definition funding_request :: "pay_env \<Rightarrow> string \<Rightarrow> string \<Rightarrow> order \<Rightarrow> funding_method \<Rightarrow> pay_request" where
  "funding_request env buyerId oid x method = Funding_request \<lparr>fi_orderId = oid, fi_buyerId = buyerId, fi_payeeAccountId = pe_payee env (od_creator x),
     fi_amount = od_amount x, fi_currency = od_currency x, fi_platformFee = 0, fi_description = None,
     fi_method = (if method = BANK_TRANSFER then Some ''BANK_TRANSFER'' else None)\<rparr>"

definition attempts_of :: "pay \<Rightarrow> string \<Rightarrow> (string \<times> provider_operation) list" where
  "attempts_of s oid = operations_of s oid Funding_Create"

definition funding_attempt :: "pay_env \<Rightarrow> int \<Rightarrow> string \<Rightarrow> string \<Rightarrow> order \<Rightarrow> funding_method \<Rightarrow> (string \<times> provider_operation) list \<Rightarrow> call_result pay_action" where
  "funding_attempt env now buyerId oid x method attempts =
     (let reuse = (open_attempt (latest attempts) \<and> methodOf (latest attempts) = method_text method);
          operationId = (if reuse then fst (the (latest attempts)) else ''fund:'' @ oid @ '':'' @ show_nat (length attempts + 1));
          request = funding_request env buyerId oid x method in
      abind (journal operationId oid Funding_Create (pe_hash env request)) (\<lambda>_.
      abind (if method = BANK_TRANSFER then change_operation operationId (\<lambda>r. r\<lparr>po_method := Some ''BANK_TRANSFER''\<rparr>) else areturn ()) (\<lambda>_.
      abind (if \<not> reuse \<and> od_payment x = Pay_failed then update_paid now oid (\<lambda>y. bump_order (y\<lparr>od_payment := Pay_pending\<rparr>)) else areturn ()) (\<lambda>_.
      case pe_answer env request operationId of
        Inr reference \<Rightarrow> answered operationId reference
      | Inl e \<Rightarrow> recordCallFailure operationId e))))"

definition ensureFundingIntent :: "pay_env \<Rightarrow> int \<Rightarrow> string \<Rightarrow> string \<Rightarrow> funding_method \<Rightarrow> call_result pay_action" where
  "ensureFundingIntent env now buyerId oid method =
     abind (getMockPaymentProvider env) (\<lambda>_.
     abind (acheck (pe_paymentsOpen env) (Flow_error ''UNAVAILABLE'')) (\<lambda>_.
     abind (acheck (pe_flag env ''CHECKOUT_CREATION_ENABLED'') (Flow_error ''UNAVAILABLE'')) (\<lambda>_.
     abind (acheck (\<not> (method = BANK_TRANSFER \<and> \<not> pe_flag env ''BANK_FUNDING_ENABLED'')) (Flow_error ''UNAVAILABLE'')) (\<lambda>_.
     abind (aget (\<lambda>s. order_row s oid)) (\<lambda>row. case row of
       None \<Rightarrow> afail (Flow_error ''FORBIDDEN'')
     | Some x \<Rightarrow>
         abind (acheck (od_buyer x = buyerId) (Flow_error ''FORBIDDEN'')) (\<lambda>_.
         abind (acheck (od_status x = AWAITING_PAYMENT \<and> od_payment x \<in> {Pay_pending, Pay_processing, Pay_failed}) (Flow_error ''INVALID_STATE'')) (\<lambda>_.
         abind (aget (\<lambda>s. lockCheckoutHold s oid)) (\<lambda>claim.
         abind (acheck (map_option hd_state claim = Some HELD) (Flow_error ''INVALID_STATE'')) (\<lambda>_.
         abind (aget (\<lambda>s. attempts_of s oid)) (\<lambda>attempts.
         if open_attempt (latest attempts) \<and> methodOf (latest attempts) \<noteq> method_text method then
           abind (cancelOpenFunding env oid) (\<lambda>_.
           abind (aget (\<lambda>s. attempts_of s oid)) (\<lambda>again.
           funding_attempt env now buyerId oid x method again))
         else funding_attempt env now buyerId oid x method attempts))))))))))"

definition BANK_HOLD_HOURS :: int where "BANK_HOLD_HOURS = 120"

text \<open>\<open>set expires_at = greatest(expires_at, ..) where state = 'HELD'\<close>; \<open>greatest\<close> passes over null.\<close>

definition extend_hold :: "string \<Rightarrow> int \<Rightarrow> (string \<times> hold) list \<Rightarrow> (string \<times> hold) list" where
  "extend_hold oid until holds = map (\<lambda>(o', h). (o', if o' = oid \<and> hd_state h = HELD
     then h\<lparr>hd_expires := Some (case hd_expires h of Some e \<Rightarrow> max e until | None \<Rightarrow> until)\<rparr> else h)) holds"

definition startBankTransfer :: "pay_env \<Rightarrow> int \<Rightarrow> string \<Rightarrow> string \<Rightarrow> (call_result \<times> int option) pay_action" where
  "startBankTransfer env now buyerId oid =
     abind (ensureFundingIntent env now buyerId oid BANK_TRANSFER) (\<lambda>intent. case intent of
       RETRY i \<Rightarrow> areturn (intent, None)
     | REJECTED i \<Rightarrow> areturn (intent, None)
     | READY i reference \<Rightarrow>
         let holdUntil = now + HOURS BANK_HOLD_HOURS in
         abind (amodify (\<lambda>s. s\<lparr>pa_claims := extend_hold oid holdUntil (pa_claims s), pa_entitlements := extend_hold oid holdUntil (pa_entitlements s)\<rparr>)) (\<lambda>_.
         abind (aget (\<lambda>s. list_ex (\<lambda>e. ev_order e = oid \<and> ev_kind e = ''BANK_TRANSFER_REQUESTED'' \<and> ev_reference e = Some reference)
           (dk_events (pa_desk s)))) (\<lambda>already.
         abind (if already then areturn () else pay_event oid ''BANK_TRANSFER_REQUESTED'' (Some reference) None) (\<lambda>_.
         areturn (intent, Some holdUntil)))))"

section \<open>Refunds\<close>

text \<open>The pools' and the chain's rails.\<close>

definition pool_refund :: "pay_env \<Rightarrow> int \<Rightarrow> string \<Rightarrow> order \<Rightarrow> call_result pay_action" where
  "pool_refund env now oid x =
     abind (acheck (\<not> agreed_amount x < od_amount x) (Flow_error ''UNAVAILABLE'')) (\<lambda>_.
     abind (alift (pe_poolReturn env oid)) (\<lambda>_.
     abind (aget (\<lambda>s. map_option od_status (order_row s oid))) (\<lambda>current.
     abind (if current = Some CANCELLED then update_paid now oid (\<lambda>y. bump_order (y\<lparr>od_status := REFUNDED, od_payment := Pay_refunded\<rparr>)) else areturn ()) (\<lambda>_.
     abind (pay_event oid ''REFUND_SUCCEEDED'' None None) (\<lambda>_.
     abind (case pe_pool env oid of
              None \<Rightarrow> areturn False
            | Some (poolId, _) \<Rightarrow> ledger oid ''REFUND_SUCCEEDED'' (''refund:pool:'' @ oid)
                [(Order_principal oid, od_amount x), (Pool_clearing poolId, - od_amount x)] ''USD'') (\<lambda>_.
     areturn (READY (''pool-return:'' @ oid) ''pool'')))))))"

definition crypto_refund :: "pay_env \<Rightarrow> string \<Rightarrow> order \<Rightarrow> call_result pay_action" where
  "crypto_refund env oid x =
     abind (acheck (pe_deposit env oid) (Flow_error ''INVALID_STATE'')) (\<lambda>_.
     abind (acheck (\<not> agreed_amount x \<le> 0) (Flow_error ''INVALID_STATE'')) (\<lambda>_.
     let logicalKey = ''ORDER_REFUND:'' @ oid @ (if od_cancellation_refund x \<noteq> None \<and> agreed_amount x < od_amount x then '':agreed'' else '':full'') in
     abind (alift (pe_chainPayout env ''ORDER_REFUND'' oid logicalKey (agreed_amount x))) (\<lambda>payoutId.
     areturn (READY logicalKey payoutId))))"

definition provider_refund :: "pay_env \<Rightarrow> string \<Rightarrow> order \<Rightarrow> string \<Rightarrow> call_result pay_action" where
  "provider_refund env oid x reason =
     abind (aget (\<lambda>s. confirmed_funding s oid)) (\<lambda>funding. case funding of
       None \<Rightarrow> afail (Flow_error ''INVALID_STATE'')
     | Some reference \<Rightarrow>
         let (operationId, amount) = refund_operation oid x;
             request = Refund_request \<lparr>fr_fundingReference = reference_text reference, fr_orderId = oid, fr_amount = amount,
               fr_currency = od_currency x, fr_reason = reason, fr_source = None\<rparr> in
         abind (acheck (\<not> amount \<le> 0) (Flow_error ''INVALID_STATE'')) (\<lambda>_.
         abind (journal operationId oid Refund_Create (pe_hash env request)) (\<lambda>_.
         abind (getMockPaymentProvider env) (\<lambda>_.
         case pe_answer env request operationId of
           Inr refundReference \<Rightarrow> answered operationId refundReference
         | Inl e \<Rightarrow> recordCallFailure operationId e))))"

definition request_refund :: "pay_env \<Rightarrow> int \<Rightarrow> string \<Rightarrow> order \<Rightarrow> string \<Rightarrow> call_result pay_action" where
  "request_refund env now oid x reason = (case od_rail x of
     CRYPTO \<Rightarrow> crypto_refund env oid x
   | POOL \<Rightarrow> pool_refund env now oid x
   | MOCK_PROVIDER \<Rightarrow> provider_refund env oid x reason)"

section \<open>Release to the creator\<close>

definition settlement_pending :: "order \<Rightarrow> order" where
  "settlement_pending y = bump_order (y\<lparr>od_settlement := Settling\<rparr>)"

definition cancelled_part :: "order \<Rightarrow> int" where
  "cancelled_part x = (if od_status x = CANCELLED then (case od_cancellation_refund x of Some r \<Rightarrow> r | None \<Rightarrow> 0) else 0)"

definition unused_hold :: "order \<Rightarrow> int" where
  "unused_hold x = (if od_status x \<noteq> CANCELLED then (case od_performance_refund x of Some r \<Rightarrow> r | None \<Rightarrow> 0) else 0)"

definition crypto_release :: "pay_env \<Rightarrow> int \<Rightarrow> string \<Rightarrow> order \<Rightarrow> call_result pay_action" where
  "crypto_release env now oid x =
     abind (acheck (pe_deposit env oid) (Flow_error ''INVALID_STATE'')) (\<lambda>_.
     if \<not> pe_wallet env oid then
       abind (pay_case (Some oid) None ''NO_PAYOUT_WALLET'') (\<lambda>_. areturn (RETRY (''ORDER_RELEASE:'' @ oid)))
     else
       abind (acheck (\<not> od_amount x - cancelled_part x \<le> 0) (Flow_error ''INVALID_STATE'')) (\<lambda>_.
       let logicalKey = ''ORDER_RELEASE:'' @ oid @ (if cancelled_part x > 0 then '':remainder'' else '':full'') in
       abind (alift (pe_chainPayout env ''ORDER_RELEASE'' oid logicalKey (od_amount x - cancelled_part x))) (\<lambda>payoutId.
       abind (update_where now oid (\<lambda>y. od_settlement y = Ready) settlement_pending) (\<lambda>_.
       areturn (READY logicalKey payoutId)))))"

definition settled :: "int \<Rightarrow> string \<Rightarrow> order \<Rightarrow> unit pay_action" where
  "settled now oid x =
     (if od_status x = APPROVED then
        abind (update_paid now oid (\<lambda>y. bump_order (y\<lparr>od_settlement := Settled_out, od_status := COMPLETED, od_completed_at := Some now\<rparr>))) (\<lambda>_.
        outbox (''notify:order.completed:'' @ oid) ''order.completed'' (od_buyer x))
      else update_paid now oid (\<lambda>y. y\<lparr>od_settlement := Settled_out\<rparr>))"

definition finalizePoolOrder :: "pay_env \<Rightarrow> int \<Rightarrow> string \<Rightarrow> order \<Rightarrow> bool pay_action" where
  "finalizePoolOrder env now oid x = (case pe_pool env oid of
     None \<Rightarrow> areturn False
   | Some (poolId, allocations) \<Rightarrow>
       if allocations = [] \<or> list_ex (\<lambda>(required, released). required \<and> \<not> released) allocations \<or> od_settlement x = Settled_out then areturn False
       else
         abind (settled now oid x) (\<lambda>_.
         abind (pay_event oid ''SETTLEMENT_RELEASED'' None None) (\<lambda>_.
         abind (ledger oid ''SETTLEMENT_RELEASED'' (''release:pool:'' @ oid)
           [(Order_principal oid, od_amount x), (Pool_clearing poolId, - od_amount x)] ''USD'') (\<lambda>_.
         abind (outbox (''notify:payout.succeeded:'' @ oid) ''payout.succeeded'' (od_creator x)) (\<lambda>_.
         areturn True)))))"

definition settlePoolOrder :: "pay_env \<Rightarrow> int \<Rightarrow> string \<Rightarrow> order \<Rightarrow> call_result pay_action" where
  "settlePoolOrder env now oid x =
     abind (alift (pe_settlePool env oid)) (\<lambda>requiredOutstanding.
     if requiredOutstanding > 0 then
       abind (update_where now oid (\<lambda>y. od_settlement y \<noteq> Settling) (\<lambda>y. y\<lparr>od_settlement := Settling\<rparr>)) (\<lambda>_.
       areturn (RETRY (''pool-release:'' @ oid)))
     else
       abind (finalizePoolOrder env now oid x) (\<lambda>_. areturn (READY (''pool-release:'' @ oid) ''pool'')))"

definition release_operation :: "string \<Rightarrow> order \<Rightarrow> string" where
  "release_operation oid x = ''release:'' @ oid @
     (if unused_hold x > 0 then '':performance'' else if cancelled_part x + unused_hold x > 0 then '':remainder'' else '':full'')"

definition provider_release :: "pay_env \<Rightarrow> int \<Rightarrow> string \<Rightarrow> order \<Rightarrow> call_result pay_action" where
  "provider_release env now oid x =
     abind (aget (\<lambda>s. confirmed_funding s oid)) (\<lambda>funding. case funding of
       None \<Rightarrow> afail (Flow_error ''INVALID_STATE'')
     | Some reference \<Rightarrow>
         let amount = od_amount x - (cancelled_part x + unused_hold x);
             providerFee = (case od_provider_fee x of Some f \<Rightarrow> f | None \<Rightarrow> 0) in
         abind (alift (feePayerPolicy env)) (\<lambda>policy.
         let net = (if policy = CREATOR_AT_COST then amount - providerFee else amount);
             operationId = release_operation oid x;
             request = Release_request \<lparr>ri_fundingReference = reference_text reference, ri_orderId = oid, ri_payeeAccountId = pe_payee env (od_creator x),
               ri_amount = net, ri_currency = od_currency x, ri_platformFee = 0\<rparr> in
         abind (acheck (\<not> net \<le> 0) (Flow_error ''INVALID_STATE'')) (\<lambda>_.
         abind (journal operationId oid Release_Create (pe_hash env request)) (\<lambda>_.
         abind (change_operation operationId (\<lambda>r. r\<lparr>po_plan := Some \<lparr>pl_net = net, pl_fee = providerFee, pl_policy = policy, pl_gross = amount\<rparr>\<rparr>)) (\<lambda>_.
         abind (getMockPaymentProvider env) (\<lambda>_.
         case pe_answer env request operationId of
           Inr releaseReference \<Rightarrow>
             abind (change_operation operationId (\<lambda>r. r\<lparr>po_status := Op_succeeded, po_reference := Some releaseReference\<rparr>)) (\<lambda>_.
             abind (update_where now oid (\<lambda>y. od_settlement y = Ready) settlement_pending) (\<lambda>_.
             areturn (READY operationId releaseReference)))
         | Inl e \<Rightarrow>
             abind (recordCallFailure operationId e) (\<lambda>result.
             abind (if isProviderError e (Some PAYEE_NOT_CAPABLE) then pay_case (Some oid) (Some operationId) ''PAYOUT_CAPABILITY_MISSING'' else areturn ()) (\<lambda>_.
             abind (if isProviderError e (Some provider_error_code.NOT_FOUND) then pay_case (Some oid) (Some operationId) ''PROVIDER_OBJECT_MISSING''
               else areturn ()) (\<lambda>_.
             areturn result)))))))))"

definition requestCreatorRelease :: "pay_env \<Rightarrow> int \<Rightarrow> string \<Rightarrow> order \<Rightarrow> call_result pay_action" where
  "requestCreatorRelease env now oid x =
     abind (acheck (pe_flag env ''PAYOUT_CREATION_ENABLED'') (Flow_error ''UNAVAILABLE'')) (\<lambda>_.
     case od_rail x of
       CRYPTO \<Rightarrow> crypto_release env now oid x
     | POOL \<Rightarrow> settlePoolOrder env now oid x
     | MOCK_PROVIDER \<Rightarrow> provider_release env now oid x)"

end
