(* ===== verification/Recoveries.thy ===== *)
theory Recoveries
  imports Payments
begin

text \<open>
  Refunds after the creator was paid (\<open>startPostReleaseRefund\<close> and its followers in \<open>src/modules/payments/funding.ts\<close>) over the
  table, checks and guard of \<open>drizzle/0022\<close>: the money first comes back from the creator's transfer or is covered by the platform.
\<close>

section \<open>Table\<close>

definition refund_checks :: "post_release_refund \<Rightarrow> bool" where
  "refund_checks r \<longleftrightarrow> 0 < pr_amount r \<and> 10 \<le> length (pr_reason r) \<and> length (pr_reason r) \<le> 2000 \<and> 0 \<le> pr_recovered r \<and> 0 \<le> pr_covered r
     \<and> (case pr_covered_reason r of None \<Rightarrow> True | Some t \<Rightarrow> 10 \<le> length t \<and> length t \<le> 2000)
     \<and> pr_recovered r + pr_covered r \<le> pr_amount r
     \<and> ((0 < pr_covered r) = (pr_covered_by r \<noteq> None \<and> pr_covered_reason r \<noteq> None))
     \<and> (pr_status r \<notin> {Refund_pending, Refund_done} \<or> pr_recovered r + pr_covered r = pr_amount r)
     \<and> (pr_status r \<in> {Refund_pending, Refund_done} \<or> pr_recovered r + pr_covered r < pr_amount r)"

definition AFTER_RELEASE_REFUND_PREFIX :: string where
  "AFTER_RELEASE_REFUND_PREFIX = ''refund:after-release:''"

definition confirmed_reversals :: "pay \<Rightarrow> string \<Rightarrow> string \<Rightarrow> int" where
  "confirmed_reversals s oid refundId = sum_list (map (\<lambda>(i, p). case po_reversed p of Some n \<Rightarrow> n | None \<Rightarrow> 0)
     (filter (\<lambda>(i, p). po_refund p = Some refundId \<and> po_fact p = Some ''SUCCEEDED'') (operations_of s oid Reversal_Create)))"

definition refund_confirmed :: "pay \<Rightarrow> string \<Rightarrow> string \<Rightarrow> bool" where
  "refund_confirmed s oid refundId \<longleftrightarrow> list_ex (\<lambda>(i, p). i = AFTER_RELEASE_REFUND_PREFIX @ refundId \<and> po_fact p = Some ''SUCCEEDED'')
     (operations_of s oid Refund_Create)"

definition post_release_refund_guard :: "pay \<Rightarrow> string \<Rightarrow> post_release_refund \<Rightarrow> post_release_refund \<Rightarrow> bool" where
  "post_release_refund_guard s refundId old new \<longleftrightarrow>
     pr_order new = pr_order old \<and> pr_amount new = pr_amount old \<and> pr_currency new = pr_currency old \<and> pr_reason new = pr_reason old \<and> pr_by new = pr_by old
     \<and> pr_status old \<noteq> Refund_done
     \<and> pr_recovered old \<le> pr_recovered new \<and> pr_covered old \<le> pr_covered new
     \<and> (0 < pr_covered old \<longrightarrow> pr_covered_by new = pr_covered_by old \<and> pr_covered_reason new = pr_covered_reason old)
     \<and> (pr_recovered new \<noteq> pr_recovered old \<longrightarrow> pr_recovered new = confirmed_reversals s (pr_order new) refundId)
     \<and> (pr_status new = Refund_done \<longrightarrow> refund_confirmed s (pr_order new) refundId)"

definition update_refund :: "string \<Rightarrow> (post_release_refund \<Rightarrow> bool) \<Rightarrow> (post_release_refund \<Rightarrow> post_release_refund) \<Rightarrow> unit pay_action" where
  "update_refund refundId guard f =
     abind (aget (\<lambda>s. (mget (pa_refunds s) refundId, s))) (\<lambda>(row, s). case row of
       None \<Rightarrow> areturn ()
     | Some r \<Rightarrow>
         if \<not> guard r then areturn ()
         else
           abind (acheck (post_release_refund_guard s refundId r (f r)) Other_error) (\<lambda>_.
           abind (acheck (refund_checks (f r)) Other_error) (\<lambda>_.
           amodify (\<lambda>s. s\<lparr>pa_refunds := mput refundId (f r) (pa_refunds s)\<rparr>))))"

definition insert_refund :: "string \<Rightarrow> post_release_refund \<Rightarrow> unit pay_action" where
  "insert_refund newId r =
     abind (acheck (refund_checks r) Other_error) (\<lambda>_.
     abind (aget (\<lambda>s. list_ex (\<lambda>(i, e). pr_order e = pr_order r \<and> pr_status e \<noteq> Refund_done) (pa_refunds s) \<or> mget (pa_refunds s) newId \<noteq> None)) (\<lambda>taken.
     abind (acheck (\<not> taken) Other_error) (\<lambda>_.
     amodify (\<lambda>s. s\<lparr>pa_refunds := mput newId r (pa_refunds s)\<rparr>))))"

section \<open>Reversal and cover\<close>

definition confirmed_release :: "pay \<Rightarrow> string \<Rightarrow> provider_operation option" where
  "confirmed_release s oid = map_option snd
     (latest (filter (\<lambda>(i, r). po_status r = Op_succeeded \<and> po_fact r = Some ''SUCCEEDED'') (operations_of s oid Release_Create)))"

text \<open>\<open>BigInt(String(outcome.netAmount))\<close>, which throws where there is no plan.\<close>

definition transferred :: "provider_operation \<Rightarrow> exception_value + int" where
  "transferred r = (case po_plan r of Some p \<Rightarrow> Inr (pl_net p) | None \<Rightarrow> Inl Other_error)"

definition attemptTransferReversal :: "pay_env \<Rightarrow> string \<Rightarrow> post_release_refund \<Rightarrow> string \<Rightarrow> string pay_action" where
  "attemptTransferReversal env refundId refund releaseReference =
     (let oid = pr_order refund; operationId = ''reversal:'' @ refundId;
          request = Reversal_request \<lparr>rv_releaseReference = releaseReference, rv_orderId = oid, rv_amount = pr_amount refund, rv_currency = pr_currency refund\<rparr> in
      abind (journal operationId oid Reversal_Create (pe_hash env request)) (\<lambda>_.
      abind (change_operation operationId (\<lambda>r. r\<lparr>po_refund := Some refundId\<rparr>)) (\<lambda>_.
      abind (getMockPaymentProvider env) (\<lambda>_.
      case pe_answer env request operationId of
        Inr reference \<Rightarrow>
          abind (change_operation operationId (\<lambda>r. r\<lparr>po_status := Op_succeeded, po_reference := Some reference\<rparr>)) (\<lambda>_.
          abind (update_refund refundId (\<lambda>r. pr_status r = Deficit) (\<lambda>r. r\<lparr>pr_status := Recovering\<rparr>)) (\<lambda>_.
          areturn ''RECOVERING''))
      | Inl e \<Rightarrow>
          abind (recordCallFailure operationId e) (\<lambda>result. case result of
            RETRY i \<Rightarrow> areturn ''RETRY''
          | _ \<Rightarrow>
              abind (update_refund refundId (\<lambda>r. pr_status r \<in> {Recovering, Deficit}) (\<lambda>r. r\<lparr>pr_status := Deficit\<rparr>)) (\<lambda>_.
              abind (pay_event oid ''REFUND_DEFICIT_OPENED'' None None) (\<lambda>_.
              abind (pay_case (Some oid) (Some operationId) ''REFUND_DEFICIT'') (\<lambda>_.
              areturn ''DEFICIT''))))))))"

definition startPostReleaseRefund :: "pay_env \<Rightarrow> string \<Rightarrow> string \<Rightarrow> string \<Rightarrow> int \<Rightarrow> string \<Rightarrow> (string \<times> string) pay_action" where
  "startPostReleaseRefund env newId requestedBy oid amount reason =
     abind (aget (\<lambda>s. order_row s oid)) (\<lambda>row. case row of
       None \<Rightarrow> afail (Flow_error ''INVALID_STATE'')
     | Some x \<Rightarrow>
         abind (acheck (od_rail x \<notin> {CRYPTO, POOL}) (Flow_error ''INVALID_STATE'')) (\<lambda>_.
         abind (acheck (od_settlement x = Settled_out) (Flow_error ''INVALID_STATE'')) (\<lambda>_.
         abind (aget (\<lambda>s. confirmed_release s oid)) (\<lambda>rel. case rel of
           None \<Rightarrow> afail (Flow_error ''INVALID_STATE'')
         | Some release \<Rightarrow>
             abind (aget (\<lambda>s. list_ex (\<lambda>(i, r). pr_order r = oid \<and> pr_status r \<noteq> Refund_done) (pa_refunds s))) (\<lambda>active.
             abind (acheck (\<not> active) (Flow_error ''INVALID_STATE'')) (\<lambda>_.
             abind (aget (\<lambda>s. list_ex (\<lambda>(i, d). pd_order d = oid \<and> pd_status d \<in> {D_OPEN, D_LOST}) (pa_disputes s))) (\<lambda>disputed.
             abind (acheck (\<not> disputed) (Flow_error ''INVALID_STATE'')) (\<lambda>_.
             abind (alift (transferred release)) (\<lambda>paid.
             abind (aget (\<lambda>s. mtotal (\<lambda>r. if pr_order r = oid then pr_amount r else 0) (pa_refunds s))) (\<lambda>total.
             abind (acheck (\<not> amount > paid - total) (Flow_error ''INVALID_STATE'')) (\<lambda>_.
             let refund = \<lparr>pr_order = oid, pr_amount = amount, pr_currency = od_currency x, pr_reason = reason, pr_by = requestedBy, pr_status = Recovering,
               pr_recovered = 0, pr_covered = 0, pr_covered_by = None, pr_covered_reason = None\<rparr> in
             abind (insert_refund newId refund) (\<lambda>_.
             abind (pay_event oid ''REFUND_AFTER_RELEASE_REQUESTED'' None None) (\<lambda>_.
             abind (attemptTransferReversal env newId refund (reference_text (po_reference release))) (\<lambda>state.
             areturn (newId, state)))))))))))))))"

definition waiting_refund :: "string \<Rightarrow> post_release_refund pay_action" where
  "waiting_refund refundId =
     abind (aget (\<lambda>s. mget (pa_refunds s) refundId)) (\<lambda>row. case row of
       None \<Rightarrow> afail (Flow_error ''INVALID_STATE'')
     | Some r \<Rightarrow>
         abind (acheck (pr_status r = Deficit) (Flow_error ''INVALID_STATE'')) (\<lambda>_.
         areturn r))"

definition retryPostReleaseRecovery :: "pay_env \<Rightarrow> string \<Rightarrow> string pay_action" where
  "retryPostReleaseRecovery env refundId =
     abind (waiting_refund refundId) (\<lambda>refund.
     abind (aget (\<lambda>s. confirmed_release s (pr_order refund))) (\<lambda>rel. case rel of
       None \<Rightarrow> afail Other_error
     | Some release \<Rightarrow> attemptTransferReversal env refundId refund (reference_text (po_reference release))))"

text \<open>The request of the buyer's refund, once its money is recovered or covered.\<close>

definition requestAfterReleaseRefund :: "pay_env \<Rightarrow> string \<Rightarrow> post_release_refund \<Rightarrow> string pay_action" where
  "requestAfterReleaseRefund env refundId refund =
     abind (aget (\<lambda>s. confirmed_funding s (pr_order refund))) (\<lambda>funding. case funding of
       None \<Rightarrow> afail Other_error
     | Some reference \<Rightarrow>
         let oid = pr_order refund; operationId = AFTER_RELEASE_REFUND_PREFIX @ refundId;
             request = Refund_request \<lparr>fr_fundingReference = reference_text reference, fr_orderId = oid, fr_amount = pr_amount refund,
               fr_currency = pr_currency refund, fr_reason = ''OPERATOR_RESOLUTION'',
               fr_source = (if pr_covered refund > 0 then Some ''PLATFORM_BALANCE'' else None)\<rparr> in
         abind (journal operationId oid Refund_Create (pe_hash env request)) (\<lambda>_.
         abind (getMockPaymentProvider env) (\<lambda>_.
         case pe_answer env request operationId of
           Inr refundReference \<Rightarrow> abind (answered operationId refundReference) (\<lambda>_. areturn ''REFUND_REQUESTED'')
         | Inl e \<Rightarrow>
             abind (recordCallFailure operationId e) (\<lambda>result. case result of
               RETRY i \<Rightarrow> areturn ''REFUND_RETRY''
             | _ \<Rightarrow> abind (pay_case (Some oid) (Some operationId) ''REFUND_FAILED'') (\<lambda>_. areturn ''REFUND_REJECTED'')))))"

definition coverPostReleaseDeficit :: "pay_env \<Rightarrow> string \<Rightarrow> string \<Rightarrow> string \<Rightarrow> string pay_action" where
  "coverPostReleaseDeficit env coveredBy refundId reason =
     abind (waiting_refund refundId) (\<lambda>refund.
     abind (aget (\<lambda>s. list_ex (\<lambda>(i, p). po_kind p = Reversal_Create \<and> po_refund p = Some refundId \<and> po_status p \<in> {Op_pending, Op_unknown, Op_succeeded})
       (pa_operations s))) (\<lambda>inflight.
     abind (acheck (\<not> inflight) (Flow_error ''INVALID_STATE'')) (\<lambda>_.
     let oid = pr_order refund; remaining = pr_amount refund - pr_recovered refund in
     abind (update_refund refundId (\<lambda>_. True) (\<lambda>r. r\<lparr>pr_covered := remaining, pr_covered_by := Some coveredBy, pr_covered_reason := Some reason,
       pr_status := Refund_pending\<rparr>)) (\<lambda>_.
     abind (ledger oid ''PLATFORM_COVERED_REFUND'' (''cover:'' @ refundId) [(Platform_loss oid, remaining), (Post_release_refund oid, - remaining)]
       (pr_currency refund)) (\<lambda>_.
     abind (pay_event oid ''REFUND_DEFICIT_COVERED'' None None) (\<lambda>_.
     requestAfterReleaseRefund env refundId (refund\<lparr>pr_covered := remaining\<rparr>)))))))"

end
