(* ===== verification/Payment_Facts.thy ===== *)
theory Payment_Facts
  imports Recoveries
begin

text \<open>
  What verified facts do (\<open>src/modules/payments/funding.ts\<close>): the inbox that lets each event through once, the match of an event to
  its journal row, and the handlers of funding, late costs, returned bank transfers, refunds, releases, reversals and card
  disputes; then the deposits of the chain and of pools, and the effects of payouts. Texts of cases and evidence are left out.
\<close>

section \<open>Matching\<close>

definition matchOperation :: "operation_kind \<Rightarrow> verified_event \<Rightarrow> (string \<times> provider_operation) option pay_action" where
  "matchOperation kind e =
     abind (aget (\<lambda>s. let rows = filter (\<lambda>(i, r). po_kind r = kind) (pa_operations s) in
       (case find (\<lambda>(i, r). po_reference r = Some (ve_reference e)) rows of
          Some row \<Rightarrow> Some row
        | None \<Rightarrow> find (\<lambda>(i, r). po_reference r = None \<and> i = ve_operationId e) rows))) (\<lambda>row. case row of
       None \<Rightarrow> areturn None
     | Some (i, r) \<Rightarrow>
         abind (if po_reference r = None then change_operation i (\<lambda>c. c\<lparr>po_reference := Some (ve_reference e)\<rparr>) else areturn ()) (\<lambda>_.
         areturn row))"

text \<open>A later fact never regresses a recorded success.\<close>

definition note_fact :: "string \<Rightarrow> verified_event \<Rightarrow> unit pay_action" where
  "note_fact operationId e = change_operation operationId (\<lambda>c. if po_fact c \<noteq> Some ''SUCCEEDED'' then c\<lparr>po_fact := Some (ve_status e)\<rparr> else c)"

text \<open>The operation and the order it belongs to; \<open>kind\<close> names the case that an unmatched event opens.\<close>

definition matched :: "operation_kind \<Rightarrow> string \<Rightarrow> verified_event \<Rightarrow> (string \<Rightarrow> provider_operation \<Rightarrow> string \<Rightarrow> string pay_action) \<Rightarrow> string pay_action" where
  "matched kind unmatched e handler =
     abind (matchOperation kind e) (\<lambda>row. case row of
       None \<Rightarrow> abind (pay_case None None unmatched) (\<lambda>_. areturn ''UNMATCHED'')
     | Some (i, r) \<Rightarrow> (case po_order r of
         None \<Rightarrow> abind (pay_case None (Some i) unmatched) (\<lambda>_. areturn ''UNMATCHED'')
       | Some oid \<Rightarrow> handler i r oid))"

definition with_row :: "string \<Rightarrow> (order \<Rightarrow> string pay_action) \<Rightarrow> string pay_action" where
  "with_row oid handler = abind (aget (\<lambda>s. order_row s oid)) (\<lambda>row. case row of
     None \<Rightarrow> areturn ''UNMATCHED'' | Some x \<Rightarrow> handler x)"

section \<open>Returned bank transfers\<close>

definition paid_out :: "order \<Rightarrow> bool" where
  "paid_out x \<longleftrightarrow> od_settlement x \<in> {Settling, Settled_out}"

definition notify_returned :: "string \<Rightarrow> order \<Rightarrow> unit pay_action" where
  "notify_returned oid x =
     abind (outbox (''notify:payment.returned:'' @ oid @ '':'' @ od_buyer x) ''payment.returned'' (od_buyer x)) (\<lambda>_.
     outbox (''notify:payment.returned:'' @ oid @ '':'' @ od_creator x) ''payment.returned'' (od_creator x))"

definition applyBankReturn :: "int \<Rightarrow> verified_event \<Rightarrow> string \<Rightarrow> string \<Rightarrow> order \<Rightarrow> string pay_action" where
  "applyBankReturn now e i oid x =
     (if od_payment x = Pay_returned then areturn ''DUPLICATE_FACT''
      else if od_funding_method x \<noteq> Some ''BANK_TRANSFER'' \<or> od_payment x \<notin> {Pay_succeeded, Pay_refund_pending} then
        abind (pay_case (Some oid) (Some i) ''UNEXPECTED_BANK_RETURN'') (\<lambda>_. areturn ''UNEXPECTED_BANK_RETURN'')
      else if od_status x = FUNDED then
        abind (update_paid now oid (\<lambda>y. bump_order (y\<lparr>od_status := CANCELLED, od_payment := Pay_returned, od_settlement := Not_ready,
          od_cancelled_at := Some now\<rparr>))) (\<lambda>_.
        abind (ledger oid ''BANK_FUNDS_RETURNED'' (''bank-return:mock:'' @ ve_eventId e)
          [(Order_principal oid, od_amount x), (Provider_clearing, - od_amount x)] (od_currency x)) (\<lambda>_.
        abind (pay_event oid ''BANK_FUNDS_RETURNED'' (Some (ve_reference e)) None) (\<lambda>_.
        abind (notify_returned oid x) (\<lambda>_.
        areturn ''RETURNED_CANCELLED''))))
      else
        abind (update_paid now oid (\<lambda>y. y\<lparr>od_payment := Pay_returned\<rparr>)) (\<lambda>_.
        abind (ledger oid ''BANK_FUNDS_RETURNED'' (''bank-return:mock:'' @ ve_eventId e)
          [(if paid_out x then Bank_return_loss oid else Order_principal oid, od_amount x), (Provider_clearing, - od_amount x)] (od_currency x)) (\<lambda>_.
        abind (pay_event oid ''BANK_FUNDS_RETURNED'' (Some (ve_reference e)) None) (\<lambda>_.
        abind (pay_case (Some oid) (Some i) (if paid_out x then ''BANK_RETURN_AFTER_RELEASE'' else ''BANK_FUNDS_RETURNED'')) (\<lambda>_.
        abind (notify_returned oid x) (\<lambda>_.
        areturn (if paid_out x then ''RETURNED_AFTER_RELEASE'' else ''RETURNED_SETTLEMENT_FROZEN'')))))))"

section \<open>Late provider costs\<close>

definition cost_checks :: "cost_adjustment \<Rightarrow> bool" where
  "cost_checks c \<longleftrightarrow> 0 \<le> ca_previous c \<and> 0 \<le> ca_actual c \<and> 0 \<le> ca_creator_credit c \<and> 0 \<le> ca_cap_bps c \<and> ca_cap_bps c \<le> 1000 \<and> 0 \<le> ca_cap c
     \<and> ca_delta c = ca_actual c - ca_previous c \<and> ca_creator_share c + ca_platform_share c = ca_delta c
     \<and> (ca_phase c = BEFORE_RELEASE \<or> ca_creator_share c = 0)
     \<and> (ca_fee_payer c = CREATOR_AT_COST \<or> (ca_creator_share c = 0 \<and> ca_creator_credit c = 0))
     \<and> (if ca_delta c \<ge> 0 then 0 \<le> ca_creator_share c \<and> ca_creator_share c \<le> ca_delta c else ca_delta c \<le> ca_creator_share c \<and> ca_creator_share c \<le> 0)
     \<and> (ca_creator_credit c = 0 \<or> (ca_phase c = AFTER_RELEASE \<and> ca_delta c < 0 \<and> ca_creator_credit c \<le> - ca_delta c))"

definition costs_of :: "pay \<Rightarrow> string \<Rightarrow> cost_adjustment list" where
  "costs_of s oid = filter (\<lambda>c. ca_order c = oid) (pa_costs s)"

definition creator_borne :: "pay \<Rightarrow> string \<Rightarrow> int" where
  "creator_borne s oid = sum_list (map ca_creator_share (filter (\<lambda>c. ca_creator_share c > 0) (costs_of s oid)))"

definition insert_cost :: "cost_adjustment \<Rightarrow> unit pay_action" where
  "insert_cost c =
     abind (acheck (cost_checks c) Other_error) (\<lambda>_.
     abind (aget (\<lambda>s. (list_ex (\<lambda>d. ca_event d = ca_event c) (pa_costs s), creator_borne s (ca_order c)))) (\<lambda>(taken, borne).
     abind (acheck (\<not> taken) Other_error) (\<lambda>_.
     abind (acheck (\<not> (ca_creator_share c > 0 \<and> borne + ca_creator_share c > ca_cap c)) Other_error) (\<lambda>_.
     amodify (\<lambda>s. s\<lparr>pa_costs := pa_costs s @ [c]\<rparr>)))))"

text \<open>The fee last recorded: by the latest adjustment, else by the event that confirmed the payment.\<close>

definition recorded_fee :: "pay \<Rightarrow> string \<Rightarrow> int" where
  "recorded_fee s oid = (case latest (costs_of s oid) of
     Some c \<Rightarrow> ca_actual c
   | None \<Rightarrow> (case find (\<lambda>e. ev_order e = oid \<and> ev_kind e = ''PAYMENT_CONFIRMED'') (dk_events (pa_desk s)) of
       Some e \<Rightarrow> (case ev_fee e of Some f \<Rightarrow> f | None \<Rightarrow> 0) | None \<Rightarrow> 0))"

definition refund_agreed :: "order \<Rightarrow> int" where
  "refund_agreed x = (case od_cancellation_refund x of Some r \<Rightarrow> r | None \<Rightarrow> 0)"

definition creator_gross :: "order \<Rightarrow> int" where
  "creator_gross x = (if od_status x = REFUNDED then 0 else od_amount x - refund_agreed x)"

definition cost_phase_of :: "order \<Rightarrow> cost_phase" where
  "cost_phase_of x = (if creator_gross x \<le> 0 then NO_CREATOR_SETTLEMENT else if paid_out x then AFTER_RELEASE else BEFORE_RELEASE)"

definition cost_shares :: "order \<Rightarrow> cost_fee_payer \<Rightarrow> int \<Rightarrow> int \<Rightarrow> int \<Rightarrow> late_cost_shares" where
  "cost_shares x feePayer capMinor soFar delta = lateCostShares \<lparr>lc_delta = delta, lc_feePayer = feePayer, lc_phase = cost_phase_of x,
     lc_creatorGross = creator_gross x, lc_creatorBorne = (case od_provider_fee x of Some f \<Rightarrow> f | None \<Rightarrow> 0), lc_capMinor = capMinor,
     lc_creatorLateIncreasesSoFar = soFar\<rparr>"

definition cost_entries :: "string \<Rightarrow> int \<Rightarrow> int \<Rightarrow> (account \<times> int) list" where
  "cost_entries oid delta credit = (if delta > 0 then [(Provider_fee_expense, delta), (Provider_clearing, - delta)]
     else [(Provider_clearing, - delta), (Provider_fee_expense, - (- delta - credit)), (Creator_cost_credit oid, - credit)])"

definition cost_case :: "order \<Rightarrow> cost_fee_payer \<Rightarrow> int \<Rightarrow> late_cost_shares \<Rightarrow> string option" where
  "cost_case x feePayer delta shares =
     (if cost_phase_of x = AFTER_RELEASE \<and> delta > 0 then Some ''LATE_PROVIDER_COST_AFTER_RELEASE''
      else if ls_creatorCredit shares > 0 then Some ''LATE_COST_CREDIT_OWED''
      else if delta > 0 \<and> ls_platformShare shares > 0 \<and> feePayer = CREATOR_AT_COST \<and> cost_phase_of x = BEFORE_RELEASE
      then Some ''LATE_PROVIDER_COST_ABOVE_CAP'' else None)"

definition phase_text :: "cost_phase \<Rightarrow> string" where
  "phase_text p = (case p of BEFORE_RELEASE \<Rightarrow> ''BEFORE_RELEASE'' | AFTER_RELEASE \<Rightarrow> ''AFTER_RELEASE'' | NO_CREATOR_SETTLEMENT \<Rightarrow> ''NO_CREATOR_SETTLEMENT'')"

definition applyLateProviderCost :: "pay_env \<Rightarrow> int \<Rightarrow> verified_event \<Rightarrow> string \<Rightarrow> string \<Rightarrow> order \<Rightarrow> string pay_action" where
  "applyLateProviderCost env now e i oid x =
     abind (acheck (od_payment x \<in> {Pay_succeeded, Pay_refund_pending, Pay_refunded, Pay_partially_refunded}) Other_error) (\<lambda>_.
     abind (aget (\<lambda>s. list_ex (\<lambda>c. ca_event c = ve_eventId e) (pa_costs s))) (\<lambda>seen.
     if seen then areturn ''DUPLICATE_FACT''
     else
       abind (aget (\<lambda>s. (recorded_fee s oid, creator_borne s oid))) (\<lambda>(previous, soFar).
       let actual = (case ve_providerFee e of Some f \<Rightarrow> f | None \<Rightarrow> 0); delta = actual - previous in
       if delta = 0 then areturn ''COST_UNCHANGED''
       else
         abind (alift (feePayerPolicy env)) (\<lambda>feePayer.
         let capBps = lateCostCapBps (pe_integerOf env) (pe_costCap env); capMinor = od_amount x * capBps div 10000;
             shares = cost_shares x feePayer capMinor soFar delta in
         abind (insert_cost \<lparr>ca_order = oid, ca_event = ve_eventId e, ca_previous = previous, ca_actual = actual, ca_delta = delta,
           ca_creator_share = ls_creatorShare shares, ca_platform_share = ls_platformShare shares, ca_creator_credit = ls_creatorCredit shares,
           ca_phase = cost_phase_of x, ca_fee_payer = feePayer, ca_cap_bps = capBps, ca_cap = capMinor\<rparr>) (\<lambda>_.
         abind (if ls_creatorShare shares \<noteq> 0
                then update_paid now oid (\<lambda>y. y\<lparr>od_provider_fee := map_option (\<lambda>f. f + ls_creatorShare shares) (od_provider_fee y)\<rparr>)
                else areturn ()) (\<lambda>_.
         abind (ledger oid ''PROVIDER_COST_ADJUSTED'' (''cost:mock:'' @ ve_eventId e) (cost_entries oid delta (ls_creatorCredit shares)) (od_currency x)) (\<lambda>_.
         abind (pay_event oid ''PROVIDER_COST_ADJUSTED'' None None) (\<lambda>_.
         abind (case cost_case x feePayer delta shares of None \<Rightarrow> areturn () | Some kind \<Rightarrow> pay_case (Some oid) (Some i) kind) (\<lambda>_.
         areturn (''COST_ADJUSTED_'' @ phase_text (cost_phase_of x)))))))))))"

section \<open>Funding\<close>

text \<open>The entries of captured money and the order of a confirmed payment.\<close>

definition capture_entries :: "string \<Rightarrow> int \<Rightarrow> int \<Rightarrow> (account \<times> int) list" where
  "capture_entries oid amount fee = [(Provider_clearing, amount - fee), (Provider_fee_expense, fee), (Order_principal oid, - amount)]"

definition funded_by :: "int \<Rightarrow> payment_rail \<Rightarrow> string option \<Rightarrow> int \<Rightarrow> order \<Rightarrow> order" where
  "funded_by now rail method fee y = bump_order (y\<lparr>od_status := FUNDED, od_payment := Pay_succeeded, od_rail := rail, od_funding_method := method,
     od_provider_fee := Some fee, od_funded_at := Some now\<rparr>)"

definition accepts_funding :: "order \<Rightarrow> hold option \<Rightarrow> bool" where
  "accepts_funding x claim \<longleftrightarrow> \<not> (od_payment x = Pay_succeeded \<or> od_status x \<noteq> AWAITING_PAYMENT \<or> \<not> live_hold claim)"

definition confirm_payment :: "int \<Rightarrow> verified_event \<Rightarrow> string \<Rightarrow> string \<Rightarrow> order \<Rightarrow> string pay_action" where
  "confirm_payment now e method oid x =
     (let fee = (case ve_providerFee e of Some f \<Rightarrow> f | None \<Rightarrow> 0) in
      abind (update_paid now oid (\<lambda>y. funded_by now (od_rail y) (Some method) fee y)) (\<lambda>_.
      abind (on_desk (recomputeWorkClock now oid)) (\<lambda>_.
      abind (activateOrderClaim oid) (\<lambda>_.
      abind (pay_event oid ''PAYMENT_CONFIRMED'' (Some (ve_reference e)) (Some fee)) (\<lambda>_.
      abind (ledger oid ''FUNDING_CAPTURED'' (''funding:mock:'' @ ve_reference e) (capture_entries oid (od_amount x) fee) (od_currency x)) (\<lambda>_.
      abind (outbox (''notify:payment.confirmed:'' @ oid) ''payment.confirmed'' (od_buyer x)) (\<lambda>_.
      abind (outbox (''notify:order.new:'' @ oid) ''order.new'' (od_creator x)) (\<lambda>_.
      abind (fulfillDigitalOrder now oid) (\<lambda>_.
      areturn ''FUNDED'')))))))))"

definition refuse_payment :: "verified_event \<Rightarrow> string \<Rightarrow> string \<Rightarrow> order \<Rightarrow> string pay_action" where
  "refuse_payment e i oid x =
     (let kind = (if od_payment x = Pay_succeeded then ''DUPLICATE_FUNDING'' else ''LATE_FUNDING''); fee = (case ve_providerFee e of Some f \<Rightarrow> f | None \<Rightarrow> 0) in
      abind (pay_case (Some oid) (Some i) kind) (\<lambda>_.
      abind (pay_event oid kind (Some (ve_reference e)) None) (\<lambda>_.
      abind (ledger oid (kind @ ''_CAPTURED'') (''funding:mock:'' @ ve_reference e) (capture_entries oid (od_amount x) fee) (od_currency x)) (\<lambda>_.
      areturn kind))))"

definition applyFundingEvent :: "pay_env \<Rightarrow> int \<Rightarrow> verified_event \<Rightarrow> string pay_action" where
  "applyFundingEvent env now e = matched Funding_Create ''UNMATCHED_FUNDING'' e (\<lambda>i r oid.
     abind (note_fact i e) (\<lambda>_.
     with_row oid (\<lambda>x.
       if ve_type e = ''funding.fee_updated'' then applyLateProviderCost env now e i oid x
       else if ve_type e = ''funding.returned'' then applyBankReturn now e i oid x
       else if ve_type e = ''funding.succeeded'' then
         (if ve_amount e \<noteq> od_amount x \<or> ve_currency e \<noteq> od_currency x then
            abind (pay_case (Some oid) (Some i) ''AMOUNT_MISMATCH'') (\<lambda>_. areturn ''AMOUNT_MISMATCH'')
          else
            abind (aget (\<lambda>s. (mget (pa_ledger s) (''funding:mock:'' @ ve_reference e) \<noteq> None, lockCheckoutHold s oid))) (\<lambda>(existing, claim).
            if existing then areturn ''DUPLICATE_FACT''
            else if accepts_funding x claim then confirm_payment now e (methodOf (Some (i, r))) oid x
            else refuse_payment e i oid x))
       else
         abind (aget (\<lambda>s. map_option fst (latest (attempts_of s oid)) = Some i)) (\<lambda>isLatestAttempt.
         if ve_type e = ''funding.processing'' then
           abind (update_where now oid (\<lambda>y. od_status y = AWAITING_PAYMENT \<and> od_payment y = Pay_pending \<and> isLatestAttempt)
             (\<lambda>y. bump_order (y\<lparr>od_payment := Pay_processing\<rparr>))) (\<lambda>updated.
           areturn (if updated then ''PROCESSING'' else ''NO_REGRESSION''))
         else if ve_type e \<in> {''funding.failed'', ''funding.canceled''} then
           abind (update_where now oid (\<lambda>y. od_status y = AWAITING_PAYMENT \<and> od_payment y \<in> {Pay_pending, Pay_processing} \<and> isLatestAttempt)
             (\<lambda>y. bump_order (y\<lparr>od_payment := Pay_failed\<rparr>))) (\<lambda>updated.
           abind (if updated then pay_event oid ''PAYMENT_FAILED'' (Some (ve_reference e)) None else areturn ()) (\<lambda>_.
           areturn (if updated then ''PAYMENT_FAILED'' else ''NO_REGRESSION'')))
         else areturn ''IGNORED''))))"

text \<open>The rails that charge nothing: a pool's allocation made in the same transaction, and a final deposit on chain.\<close>

definition confirm_free :: "int \<Rightarrow> payment_rail \<Rightarrow> string \<Rightarrow> order \<Rightarrow> string \<Rightarrow> account \<Rightarrow> unit pay_action" where
  "confirm_free now rail oid x key clearing =
     abind (update_paid now oid (\<lambda>y. funded_by now rail (od_funding_method y) 0 y)) (\<lambda>_.
     abind (on_desk (recomputeWorkClock now oid)) (\<lambda>_.
     abind (activateOrderClaim oid) (\<lambda>_.
     abind (pay_event oid ''PAYMENT_CONFIRMED'' None (Some 0)) (\<lambda>_.
     abind (ledger oid ''FUNDING_CAPTURED'' key [(clearing, od_amount x), (Order_principal oid, - od_amount x)] ''USD'') (\<lambda>_.
     areturn ())))))"

definition applyPoolFunding :: "int \<Rightarrow> string \<Rightarrow> string \<Rightarrow> int \<Rightarrow> string pay_action" where
  "applyPoolFunding now oid poolId cashMinor =
     abind (aget (\<lambda>s. (order_row s oid, mget (pa_claims s) oid))) (\<lambda>(row, claim). case row of
       None \<Rightarrow> afail (Flow_error ''INVALID_STATE'')
     | Some x \<Rightarrow>
         abind (acheck (od_status x = AWAITING_PAYMENT \<and> map_option hd_state claim = Some HELD) (Flow_error ''INVALID_STATE'')) (\<lambda>_.
         abind (acheck (cashMinor = od_amount x) (Flow_error ''INVALID_STATE'')) (\<lambda>_.
         abind (confirm_free now POOL oid x (''funding:pool:'' @ oid) (Pool_clearing poolId)) (\<lambda>_.
         abind (outbox (''notify:order.new:'' @ oid) ''order.new'' (od_creator x)) (\<lambda>_.
         areturn ''FUNDED'')))))"

text \<open>\<open>eventKey\<close> is the chain id, the lower-cased hash and the log index of the deposit, \<open>chainId\<close> the chain id as text.\<close>

definition applyChainFunding :: "int \<Rightarrow> string \<Rightarrow> int \<Rightarrow> string \<Rightarrow> string \<Rightarrow> string pay_action" where
  "applyChainFunding now oid amountMinor chainId eventKey =
     (let key = ''funding:chain:'' @ eventKey in
      abind (aget (\<lambda>s. (order_row s oid, mget (pa_ledger s) key \<noteq> None, lockCheckoutHold s oid))) (\<lambda>(row, existing, claim). case row of
        None \<Rightarrow> afail (Flow_error ''INVALID_STATE'')
      | Some x \<Rightarrow>
          if existing then areturn ''DUPLICATE_FACT''
          else if amountMinor \<noteq> od_amount x \<or> od_currency x \<noteq> ''USD'' then
            abind (pay_case (Some oid) None ''AMOUNT_MISMATCH'') (\<lambda>_. areturn ''AMOUNT_MISMATCH'')
          else if \<not> accepts_funding x claim then
            let kind = (if od_payment x = Pay_succeeded then ''DUPLICATE_FUNDING'' else ''LATE_FUNDING'') in
            abind (pay_case (Some oid) None kind) (\<lambda>_.
            abind (pay_event oid kind None None) (\<lambda>_.
            areturn kind))
          else
            abind (confirm_free now CRYPTO oid x key (Chain_clearing chainId)) (\<lambda>_.
            abind (outbox (''notify:payment.confirmed:'' @ oid) ''payment.confirmed'' (od_buyer x)) (\<lambda>_.
            abind (outbox (''notify:order.new:'' @ oid) ''order.new'' (od_creator x)) (\<lambda>_.
            abind (fulfillDigitalOrder now oid) (\<lambda>_.
            areturn ''FUNDED''))))))"

section \<open>Refunds\<close>

definition applyPostReleaseRefundEvent :: "verified_event \<Rightarrow> string \<Rightarrow> string \<Rightarrow> string pay_action" where
  "applyPostReleaseRefundEvent e i oid =
     (let refundId = drop (length AFTER_RELEASE_REFUND_PREFIX) i in
      abind (aget (\<lambda>s. mget (pa_refunds s) refundId)) (\<lambda>row. case row of
        None \<Rightarrow> areturn ''UNMATCHED''
      | Some refund \<Rightarrow>
          if ve_type e = ''refund.succeeded'' then
            (if pr_status refund = Refund_done then areturn ''DUPLICATE_FACT''
             else if ve_amount e \<noteq> pr_amount refund \<or> ve_currency e \<noteq> pr_currency refund \<or> pr_status refund \<noteq> Refund_pending then
               abind (pay_case (Some oid) (Some i) ''UNEXPECTED_REFUND'') (\<lambda>_. areturn ''UNEXPECTED_REFUND'')
             else
               abind (update_refund refundId (\<lambda>_. True) (\<lambda>r. r\<lparr>pr_status := Refund_done\<rparr>)) (\<lambda>_.
               abind (ledger oid ''REFUND_SETTLED'' (''refund:mock:'' @ ve_reference e)
                 [(Post_release_refund oid, ve_amount e), (Provider_clearing, - ve_amount e)] (pr_currency refund)) (\<lambda>_.
               abind (pay_event oid ''REFUND_AFTER_RELEASE_CONFIRMED'' (Some (ve_reference e)) None) (\<lambda>_.
               abind (aget (\<lambda>s. order_row s oid)) (\<lambda>order. case order of
                 None \<Rightarrow> afail Other_error
               | Some x \<Rightarrow>
                   abind (outbox (''notify:refund.updated:SUCCEEDED:after-release:'' @ refundId) ''refund.updated'' (od_buyer x)) (\<lambda>_.
                   areturn ''REFUNDED_AFTER_RELEASE''))))))
          else if ve_type e = ''refund.failed'' then
            abind (pay_case (Some oid) (Some i) ''REFUND_FAILED'') (\<lambda>_.
            abind (pay_event oid ''REFUND_FAILED'' (Some (ve_reference e)) None) (\<lambda>_.
            areturn ''REFUND_FAILED''))
          else areturn ''REFUND_PENDING''))"

text \<open>The refund that a fact may confirm, and the order after it. The operation of an unused performance hold is its own.\<close>

definition performance_operation :: "string \<Rightarrow> string \<Rightarrow> bool" where
  "performance_operation oid i \<longleftrightarrow> i = ''refund:'' @ oid @ '':performance''"

definition expected_refund :: "string \<Rightarrow> string \<Rightarrow> order \<Rightarrow> int option" where
  "expected_refund oid i x = (if performance_operation oid i then od_performance_refund x else Some (agreed_amount x))"

definition refund_awaited :: "string \<Rightarrow> string \<Rightarrow> order \<Rightarrow> bool" where
  "refund_awaited oid i x \<longleftrightarrow> (if performance_operation oid i then od_payment x \<in> {Pay_succeeded, Pay_refund_pending} else od_payment x = Pay_refund_pending)"

definition refunded_order :: "string \<Rightarrow> string \<Rightarrow> int \<Rightarrow> order \<Rightarrow> order" where
  "refunded_order oid i expected y =
     (if performance_operation oid i then bump_order (y\<lparr>od_payment := Pay_partially_refunded\<rparr>)
      else if expected = od_amount y then bump_order (y\<lparr>od_status := REFUNDED, od_payment := Pay_refunded, od_settlement := Not_ready\<rparr>)
      else y\<lparr>od_payment := Pay_partially_refunded\<rparr>)"

definition applyRefundEvent :: "int \<Rightarrow> verified_event \<Rightarrow> string pay_action" where
  "applyRefundEvent now e = matched Refund_Create ''UNMATCHED_REFUND'' e (\<lambda>i r oid.
     abind (note_fact i e) (\<lambda>_.
     if take (length AFTER_RELEASE_REFUND_PREFIX) i = AFTER_RELEASE_REFUND_PREFIX then applyPostReleaseRefundEvent e i oid
     else with_row oid (\<lambda>x.
       if ve_type e = ''refund.succeeded'' then
         (if od_payment x \<in> {Pay_refunded, Pay_partially_refunded} then areturn ''DUPLICATE_FACT''
          else (case expected_refund oid i x of
            None \<Rightarrow> abind (pay_case (Some oid) (Some i) ''UNEXPECTED_REFUND'') (\<lambda>_. areturn ''UNEXPECTED_REFUND'')
          | Some expected \<Rightarrow>
              if ve_amount e \<noteq> expected \<or> ve_currency e \<noteq> od_currency x \<or> \<not> refund_awaited oid i x then
                abind (pay_case (Some oid) (Some i) ''UNEXPECTED_REFUND'') (\<lambda>_. areturn ''UNEXPECTED_REFUND'')
              else
                abind (update_paid now oid (refunded_order oid i expected)) (\<lambda>_.
                abind (pay_event oid ''REFUND_CONFIRMED'' (Some (ve_reference e)) None) (\<lambda>_.
                abind (ledger oid ''REFUND_SETTLED'' (''refund:mock:'' @ ve_reference e)
                  [(Order_principal oid, expected), (Provider_clearing, - expected)] (od_currency x)) (\<lambda>_.
                abind (outbox (''notify:refund.updated:SUCCEEDED:'' @ oid) ''refund.updated'' (od_buyer x)) (\<lambda>_.
                areturn (if expected = od_amount x then ''REFUNDED'' else ''PARTIALLY_REFUNDED'')))))))
       else if ve_type e = ''refund.failed'' then
         abind (pay_case (Some oid) (Some i) ''REFUND_FAILED'') (\<lambda>_.
         abind (pay_event oid ''REFUND_FAILED'' (Some (ve_reference e)) None) (\<lambda>_.
         areturn ''REFUND_FAILED''))
       else areturn ''REFUND_PENDING'')))"

section \<open>Releases\<close>

text \<open>\<open>operation.outcome ?? {}\<close> with the defaults of its fields.\<close>

definition plan_of :: "provider_operation \<Rightarrow> order \<Rightarrow> release_plan" where
  "plan_of r x = (case po_plan r of Some p \<Rightarrow> p | None \<Rightarrow> \<lparr>pl_net = 0, pl_fee = 0, pl_policy = CREATOR_AT_COST, pl_gross = od_amount x\<rparr>)"

definition release_entries :: "string \<Rightarrow> release_plan \<Rightarrow> (account \<times> int) list" where
  "release_entries oid p = (if pl_policy p = CREATOR_AT_COST
     then [(Order_principal oid, pl_gross p), (Provider_clearing, - pl_net p), (Provider_fee_expense, - pl_fee p)]
     else [(Order_principal oid, pl_gross p), (Provider_clearing, - pl_gross p)])"

definition applyReleaseEvent :: "int \<Rightarrow> verified_event \<Rightarrow> string pay_action" where
  "applyReleaseEvent now e = matched Release_Create ''UNMATCHED_RELEASE'' e (\<lambda>i r oid.
     abind (note_fact i e) (\<lambda>_.
     with_row oid (\<lambda>x.
       let plan = plan_of r x in
       if ve_type e = ''release.succeeded'' then
         (if od_settlement x = Settled_out then areturn ''DUPLICATE_FACT''
          else if ve_amount e \<noteq> pl_net plan \<or> ve_currency e \<noteq> od_currency x \<or> od_settlement x \<notin> {Ready, Settling} then
            abind (pay_case (Some oid) (Some i) ''UNEXPECTED_RELEASE'') (\<lambda>_. areturn ''UNEXPECTED_RELEASE'')
          else
            abind (settled now oid x) (\<lambda>_.
            abind (pay_event oid ''SETTLEMENT_RELEASED'' (Some (ve_reference e)) (Some (pl_fee plan))) (\<lambda>_.
            abind (ledger oid ''SETTLEMENT_RELEASED'' (''release:mock:'' @ ve_reference e) (release_entries oid plan) (od_currency x)) (\<lambda>_.
            abind (outbox (''notify:payout.succeeded:'' @ oid) ''payout.succeeded'' (od_creator x)) (\<lambda>_.
            areturn ''RELEASED'')))))
       else if ve_type e = ''release.failed'' then
         abind (update_where now oid (\<lambda>y. od_settlement y \<in> {Ready, Settling}) (\<lambda>y. bump_order (y\<lparr>od_settlement := Settle_failed\<rparr>))) (\<lambda>_.
         abind (pay_case (Some oid) (Some i) ''PAYOUT_FAILED'') (\<lambda>_.
         abind (pay_event oid ''SETTLEMENT_FAILED'' (Some (ve_reference e)) None) (\<lambda>_.
         abind (outbox (''notify:payout.failed:'' @ oid @ '':'' @ ve_reference e) ''payout.failed'' (od_creator x)) (\<lambda>_.
         areturn ''RELEASE_FAILED''))))
       else
         abind (update_where now oid (\<lambda>y. od_settlement y = Ready) settlement_pending) (\<lambda>_.
         areturn ''RELEASE_PENDING''))))"

section \<open>Reversals\<close>

definition applyReversalEvent :: "pay_env \<Rightarrow> verified_event \<Rightarrow> string pay_action" where
  "applyReversalEvent env e = matched Reversal_Create ''UNMATCHED_REVERSAL'' e (\<lambda>i r oid.
     abind (alift (case po_refund r of Some t \<Rightarrow> Inr t | None \<Rightarrow> Inl Other_error)) (\<lambda>refundId.
     abind (aget (\<lambda>s. mget (pa_refunds s) refundId)) (\<lambda>row. case row of
       None \<Rightarrow> abind (pay_case (Some oid) (Some i) ''UNMATCHED_REVERSAL'') (\<lambda>_. areturn ''UNMATCHED'')
     | Some refund \<Rightarrow>
         if ve_type e \<noteq> ''reversal.succeeded'' then areturn ''REVERSAL_PENDING''
         else if po_fact r = Some ''SUCCEEDED'' then areturn ''DUPLICATE_FACT''
         else if ve_amount e \<noteq> pr_amount refund \<or> ve_currency e \<noteq> pr_currency refund then
           abind (pay_case (Some oid) (Some i) ''UNEXPECTED_REVERSAL'') (\<lambda>_. areturn ''UNEXPECTED_REVERSAL'')
         else
           abind (change_operation i (\<lambda>c. c\<lparr>po_fact := Some ''SUCCEEDED'', po_reversed := Some (ve_amount e)\<rparr>)) (\<lambda>_.
           if pr_covered refund > 0 then
             abind (ledger oid ''REVERSAL_RECOVERED_AFTER_COVER'' (''reversal:mock:'' @ ve_reference e)
               [(Provider_clearing, ve_amount e), (Platform_loss oid, - ve_amount e)] (pr_currency refund)) (\<lambda>_.
             abind (pay_case (Some oid) (Some i) ''REVERSAL_AFTER_COVER'') (\<lambda>_.
             areturn ''RECOVERED_AFTER_COVER''))
           else
             abind (update_refund refundId (\<lambda>_. True) (\<lambda>c. c\<lparr>pr_recovered := ve_amount e, pr_status := Refund_pending\<rparr>)) (\<lambda>_.
             abind (ledger oid ''REVERSAL_RECOVERED'' (''reversal:mock:'' @ ve_reference e)
               [(Provider_clearing, ve_amount e), (Post_release_refund oid, - ve_amount e)] (pr_currency refund)) (\<lambda>_.
             abind (pay_event oid ''REFUND_AFTER_RELEASE_RECOVERED'' (Some (ve_reference e)) None) (\<lambda>_.
             abind (requestAfterReleaseRefund env refundId (refund\<lparr>pr_recovered := ve_amount e\<rparr>)) (\<lambda>state.
             areturn (''RECOVERED_'' @ state)))))))))"

section \<open>Card disputes\<close>

definition dispute_checks :: "payment_dispute \<Rightarrow> bool" where
  "dispute_checks d \<longleftrightarrow> 0 < pd_amount d \<and> (pd_status d = D_OPEN) = (pd_closed_event d = None)"

definition funding_of :: "pay \<Rightarrow> string \<Rightarrow> (string \<times> provider_operation) option" where
  "funding_of s reference = find (\<lambda>(i, r). po_kind r = Funding_Create \<and> po_reference r = Some reference) (pa_operations s)"

definition open_payment_dispute :: "verified_event \<Rightarrow> string \<Rightarrow> string \<Rightarrow> order \<Rightarrow> string pay_action" where
  "open_payment_dispute e i oid x =
     (let d = \<lparr>pd_order = oid, pd_funding = ve_fundingReference e, pd_amount = ve_amount e, pd_currency = od_currency x, pd_status = D_OPEN,
        pd_order_status = od_status x, pd_settlement_status = od_settlement x, pd_opened_event = ve_eventId e, pd_closed_event = None\<rparr> in
      if ve_currency e \<noteq> od_currency x \<or> ve_amount e > od_amount x then
        abind (pay_case (Some oid) (Some i) ''UNEXPECTED_PAYMENT_DISPUTE'') (\<lambda>_. areturn ''UNEXPECTED_DISPUTE'')
      else
        abind (acheck (dispute_checks d) Other_error) (\<lambda>_.
        abind (aget (\<lambda>s. mget (pa_disputes s) (ve_reference e) \<noteq> None)) (\<lambda>known.
        if known then areturn ''DUPLICATE_FACT''
        else
          abind (amodify (\<lambda>s. s\<lparr>pa_disputes := mput (ve_reference e) d (pa_disputes s)\<rparr>)) (\<lambda>_.
          abind (pay_event oid ''PAYMENT_DISPUTE_OPENED'' (Some (ve_reference e)) None) (\<lambda>_.
          abind (pay_case (Some oid) (Some i) ''PAYMENT_DISPUTE'') (\<lambda>_.
          abind (outbox (''notify:payment.disputed:OPENED:'' @ ve_reference e) ''payment.disputed'' (od_creator x)) (\<lambda>_.
          areturn ''PAYMENT_DISPUTE_OPENED'')))))))"

definition outcome_text :: "dispute_status_code \<Rightarrow> string" where
  "outcome_text d = dispute_status_text d"

definition close_payment_dispute :: "verified_event \<Rightarrow> string \<Rightarrow> string \<Rightarrow> order \<Rightarrow> string pay_action" where
  "close_payment_dispute e i oid x =
     (let outcome = (if ve_type e = ''dispute.won'' then D_WON else D_LOST) in
      abind (aget (\<lambda>s. mget (pa_disputes s) (ve_reference e))) (\<lambda>row. case row of
        None \<Rightarrow> abind (pay_case (Some oid) (Some i) ''UNMATCHED_PAYMENT_DISPUTE'') (\<lambda>_. areturn ''UNMATCHED'')
      | Some d \<Rightarrow>
          if pd_status d \<noteq> D_OPEN then
            (if pd_status d = outcome then areturn ''DUPLICATE_FACT''
             else abind (pay_case (Some oid) (Some i) ''CONFLICTING_PAYMENT_DISPUTE'') (\<lambda>_. areturn ''CONFLICTING_FACT''))
          else
            abind (amodify (\<lambda>s. s\<lparr>pa_disputes := mput (ve_reference e) (d\<lparr>pd_status := outcome, pd_closed_event := Some (ve_eventId e)\<rparr>) (pa_disputes s)\<rparr>)) (\<lambda>_.
            abind (pay_event oid (''PAYMENT_DISPUTE_'' @ outcome_text outcome) (Some (ve_reference e)) None) (\<lambda>_.
            abind (if outcome = D_LOST then
                abind (ledger oid ''CHARGEBACK_LOST'' (''chargeback:mock:'' @ ve_reference e)
                  [(Chargeback_loss oid, pd_amount d), (Provider_clearing, - pd_amount d)] (od_currency x)) (\<lambda>_.
                pay_case (Some oid) (Some i) ''CHARGEBACK_LOST'')
              else areturn ()) (\<lambda>_.
            abind (outbox (''notify:payment.disputed:'' @ outcome_text outcome @ '':'' @ ve_reference e) ''payment.disputed'' (od_creator x)) (\<lambda>_.
            areturn (''PAYMENT_DISPUTE_'' @ outcome_text outcome)))))))"

definition applyDisputeEvent :: "verified_event \<Rightarrow> string pay_action" where
  "applyDisputeEvent e =
     abind (aget (\<lambda>s. funding_of s (ve_fundingReference e))) (\<lambda>funding. case funding of
       None \<Rightarrow> abind (pay_case None None ''UNMATCHED_PAYMENT_DISPUTE'') (\<lambda>_. areturn ''UNMATCHED'')
     | Some (i, r) \<Rightarrow> (case po_order r of
         None \<Rightarrow> abind (pay_case None (Some i) ''UNMATCHED_PAYMENT_DISPUTE'') (\<lambda>_. areturn ''UNMATCHED'')
       | Some oid \<Rightarrow> with_row oid (\<lambda>x.
           if ve_type e = ''dispute.opened'' then open_payment_dispute e i oid x else close_payment_dispute e i oid x)))"

section \<open>Effects of chain payouts\<close>

text \<open>The confirmation of a payout on chain, of the amount \<open>minor\<close> in cents, or its failure (\<open>registerPayoutEffects\<close>).\<close>

definition release_confirmed :: "int \<Rightarrow> string \<Rightarrow> int \<Rightarrow> string \<Rightarrow> string \<Rightarrow> unit pay_action" where
  "release_confirmed now oid minor chainId payoutRef =
     abind (aget (\<lambda>s. order_row s oid)) (\<lambda>row. case row of
       None \<Rightarrow> areturn ()
     | Some x \<Rightarrow>
         if od_settlement x = Settled_out then areturn ()
         else
           abind (settled now oid x) (\<lambda>_.
           abind (pay_event oid ''SETTLEMENT_RELEASED'' None None) (\<lambda>_.
           abind (ledger oid ''SETTLEMENT_RELEASED'' (''release:chain:'' @ payoutRef) [(Order_principal oid, minor), (Chain_clearing chainId, - minor)] ''USD'') (\<lambda>_.
           outbox (''notify:payout.succeeded:'' @ oid) ''payout.succeeded'' (od_creator x)))))"

definition release_failed :: "int \<Rightarrow> string \<Rightarrow> unit pay_action" where
  "release_failed now oid =
     abind (update_where now oid (\<lambda>y. od_settlement y = Settling) (\<lambda>y. y\<lparr>od_settlement := Settle_failed\<rparr>)) (\<lambda>_.
     pay_event oid ''SETTLEMENT_FAILED'' None None)"

definition refund_confirmed_on_chain :: "int \<Rightarrow> string \<Rightarrow> int \<Rightarrow> string \<Rightarrow> string \<Rightarrow> unit pay_action" where
  "refund_confirmed_on_chain now oid minor chainId payoutRef =
     abind (aget (\<lambda>s. order_row s oid)) (\<lambda>row. case row of
       None \<Rightarrow> areturn ()
     | Some x \<Rightarrow>
         if od_payment x \<in> {Pay_refunded, Pay_partially_refunded} then areturn ()
         else
           abind (if minor = od_amount x
                  then update_paid now oid (\<lambda>y. bump_order (y\<lparr>od_status := (if od_status y = CANCELLED then REFUNDED else od_status y),
                    od_payment := Pay_refunded, od_settlement := Not_ready\<rparr>))
                  else update_paid now oid (\<lambda>y. y\<lparr>od_payment := Pay_partially_refunded\<rparr>)) (\<lambda>_.
           abind (pay_event oid ''REFUND_CONFIRMED'' None None) (\<lambda>_.
           abind (ledger oid ''REFUND_SETTLED'' (''refund:chain:'' @ payoutRef) [(Order_principal oid, minor), (Chain_clearing chainId, - minor)] ''USD'') (\<lambda>_.
           outbox (''notify:refund.updated:SUCCEEDED:'' @ oid) ''refund.updated'' (od_buyer x)))))"

section \<open>The inbox\<close>

definition applyPaymentEvent :: "pay_env \<Rightarrow> int \<Rightarrow> verified_event \<Rightarrow> string pay_action" where
  "applyPaymentEvent env now e =
     (if ve_objectType e = ''funding'' then applyFundingEvent env now e
      else if ve_objectType e = ''refund'' then applyRefundEvent now e
      else if ve_objectType e = ''dispute'' then applyDisputeEvent e
      else if ve_objectType e = ''reversal'' then applyReversalEvent env e
      else applyReleaseEvent now e)"

definition inbox_key :: "verified_event \<Rightarrow> string \<times> string" where
  "inbox_key e = (ve_mode e, ve_eventId e)"

definition mark_inbox :: "string \<times> string \<Rightarrow> bool \<Rightarrow> unit pay_action" where
  "mark_inbox key done = amodify (\<lambda>s. case mget (pa_inbox s) key of
     None \<Rightarrow> s
   | Some r \<Rightarrow> s\<lparr>pa_inbox := mput key (r\<lparr>ib_processed := ib_processed r \<or> done, ib_attempts := ib_attempts r + 1\<rparr>) (pa_inbox s)\<rparr>)"

definition process_inbox :: "pay_env \<Rightarrow> int \<Rightarrow> verified_event \<Rightarrow> (bool \<times> string) pay_action" where
  "process_inbox env now e =
     abind (aget (\<lambda>s. mget (pa_inbox s) (inbox_key e))) (\<lambda>inbox. case inbox of
       None \<Rightarrow> afail Other_error
     | Some r \<Rightarrow>
         if ib_processed r then areturn (True, ''ALREADY_PROCESSED'')
         else
           abind (applyPaymentEvent env now e) (\<lambda>outcome.
           abind (mark_inbox (inbox_key e) True) (\<lambda>_.
           areturn (False, outcome))))"

definition processVerifiedEvent :: "pay_env \<Rightarrow> int \<Rightarrow> verified_event \<Rightarrow> (bool \<times> string) pay_action" where
  "processVerifiedEvent env now e = acatch (transact (process_inbox env now e))
     (\<lambda>err. abind (mark_inbox (inbox_key e) False) (\<lambda>_. afail err)) areturn"

definition insert_inbox :: "verified_event \<Rightarrow> bool \<Rightarrow> unit pay_action" where
  "insert_inbox e verified = amodify (\<lambda>s. if mget (pa_inbox s) (inbox_key e) \<noteq> None then s
     else s\<lparr>pa_inbox := mput (inbox_key e) \<lparr>ib_event = e, ib_verified = verified, ib_processed = False, ib_attempts = 0\<rparr> (pa_inbox s)\<rparr>)"

text \<open>\<open>verified\<close> is what \<open>verifyWebhook\<close> answers to the body and the headers, or throws.\<close>

definition receivePaymentWebhook :: "pay_env \<Rightarrow> int \<Rightarrow> exception_value + verified_event \<Rightarrow> (bool \<times> string) pay_action" where
  "receivePaymentWebhook env now verified =
     abind (getMockPaymentProvider env) (\<lambda>_.
     abind (alift verified) (\<lambda>e.
     abind (insert_inbox e True) (\<lambda>_.
     processVerifiedEvent env now e)))"

definition fetched_event :: "pay_env \<Rightarrow> string \<Rightarrow> verified_event \<Rightarrow> verified_event" where
  "fetched_event env createdAt e = e\<lparr>ve_eventId := ''fetch:'' @ ve_reference e @ '':'' @ ve_status e, ve_mode := pe_mode env, ve_createdAt := createdAt\<rparr>"

definition applyFetchedProviderFact :: "pay_env \<Rightarrow> int \<Rightarrow> string \<Rightarrow> verified_event \<Rightarrow> (bool \<times> string) pay_action" where
  "applyFetchedProviderFact env now createdAt e =
     abind (getMockPaymentProvider env) (\<lambda>_.
     abind (insert_inbox (fetched_event env createdAt e) False) (\<lambda>_.
     processVerifiedEvent env now (fetched_event env createdAt e)))"

end
