(* ===== verification/Payment_Jobs.thy ===== *)
theory Payment_Jobs
  imports Payment_Facts
begin

text \<open>
  The jobs of \<open>src/modules/jobs/index.ts\<close> that move payments: expired checkout holds, unprocessed inbox rows, the reconciliation with
  the provider and the release of ready settlements. A job tries each candidate in a transaction of its own and goes on when one
  throws. What the provider answers to lookups and status calls, whether a post is still being measured and the age of a row
  (\<open>stale\<close>) are arguments; each list of candidates may be cut off.
\<close>

section \<open>Runs over candidates\<close>

text \<open>One candidate: the outcome that the job counts, with the state before where the transaction threw.\<close>

definition attempt_job :: "string pay_action \<Rightarrow> pay \<Rightarrow> string \<times> pay" where
  "attempt_job m s = (case transact m s of (Inr outcome, t) \<Rightarrow> (outcome, t) | (Inl e, t) \<Rightarrow> (''ERROR'', t))"

fun run_each :: "('x \<Rightarrow> pay \<Rightarrow> string \<times> pay) \<Rightarrow> 'x list \<Rightarrow> pay \<Rightarrow> string list \<times> pay" where
  "run_each f [] s = ([], s)"
| "run_each f (x # xs) s = (let (outcome, t) = f x s; (outcomes, u) = run_each f xs t in (outcome # outcomes, u))"

section \<open>Expired holds\<close>

definition expired :: "int \<Rightarrow> hold \<Rightarrow> bool" where
  "expired now h \<longleftrightarrow> hd_state h \<in> {HELD, EXPIRY_RECONCILING} \<and> (case hd_expires h of Some e \<Rightarrow> e < now | None \<Rightarrow> False)"

definition awaiting :: "pay \<Rightarrow> string \<Rightarrow> bool" where
  "awaiting s oid \<longleftrightarrow> (case order_row s oid of Some x \<Rightarrow> od_status x = AWAITING_PAYMENT | None \<Rightarrow> False)"

definition expired_holds :: "int \<Rightarrow> pay \<Rightarrow> string list" where
  "expired_holds now s = map fst (sort_key (\<lambda>(oid, h). case hd_expires h of Some e \<Rightarrow> e | None \<Rightarrow> 0)
     (filter (\<lambda>(oid, h). expired now h \<and> awaiting s oid) (pa_claims s @ pa_entitlements s)))"

definition reconcile_hold :: "string \<Rightarrow> (string \<times> hold) list \<Rightarrow> (string \<times> hold) list" where
  "reconcile_hold oid holds = (case mget holds oid of
     Some h \<Rightarrow> mput oid (h\<lparr>hd_state := EXPIRY_RECONCILING\<rparr>) holds | None \<Rightarrow> holds)"

definition expired_hold :: "int \<Rightarrow> string \<Rightarrow> pay \<Rightarrow> (bool \<times> hold) option" where
  "expired_hold now oid s = (case mget (pa_claims s) oid of
     Some h \<Rightarrow> if expired now h then Some (True, h) else (case mget (pa_entitlements s) oid of Some d \<Rightarrow> if expired now d then Some (False, d) else None | None \<Rightarrow> None)
   | None \<Rightarrow> (case mget (pa_entitlements s) oid of Some d \<Rightarrow> if expired now d then Some (False, d) else None | None \<Rightarrow> None))"

definition expire_hold :: "pay_env \<Rightarrow> int \<Rightarrow> string \<Rightarrow> string pay_action" where
  "expire_hold env now oid =
     abind (aget (\<lambda>s. (awaiting s oid, expired_hold now oid s))) (\<lambda>(waiting, hold).
     if \<not> waiting then areturn ''SKIPPED_STATE_CHANGED''
     else (case hold of
       None \<Rightarrow> areturn ''SKIPPED_STATE_CHANGED''
     | Some (is_claim, h) \<Rightarrow>
         acatch (if pe_mock env then cancelOpenFunding env oid else areturn ())
           (\<lambda>e. if \<not> is_flow_error e then afail e
             else
               abind (if hd_state h = HELD then
                   abind (amodify (\<lambda>s. if is_claim then s\<lparr>pa_claims := reconcile_hold oid (pa_claims s)\<rparr>
                     else s\<lparr>pa_entitlements := reconcile_hold oid (pa_entitlements s)\<rparr>)) (\<lambda>_.
                   abind (pay_case (Some oid) None ''HOLD_EXPIRED_PAYMENT_UNRESOLVED'') (\<lambda>_.
                   pay_event oid ''HOLD_RECONCILING'' None None))
                 else areturn ()) (\<lambda>_.
               areturn ''RECONCILING''))
           (\<lambda>_.
             abind (update_paid now oid (\<lambda>y. bump_order (y\<lparr>od_status := CANCELLED\<rparr>))) (\<lambda>_.
             abind (pay_event oid ''HOLD_EXPIRED'' None None) (\<lambda>_.
             areturn ''RELEASED'')))))"

definition expireCheckoutHolds :: "pay_env \<Rightarrow> int \<Rightarrow> nat \<Rightarrow> pay \<Rightarrow> string list \<times> pay" where
  "expireCheckoutHolds env now limit s = run_each (\<lambda>oid. attempt_job (expire_hold env now oid)) (take limit (expired_holds now s)) s"

section \<open>The inbox again\<close>

definition eventFromInboxRow :: "inbox_row \<Rightarrow> verified_event" where
  "eventFromInboxRow r = (ib_event r)\<lparr>ve_accountId := ''acct_mock_local''\<rparr>"

text \<open>\<open>processVerifiedEvent\<close> holds its own transaction.\<close>

definition reprocess_event :: "pay_env \<Rightarrow> int \<Rightarrow> verified_event \<Rightarrow> pay \<Rightarrow> string \<times> pay" where
  "reprocess_event env now e s = (case processVerifiedEvent env now e s of
     (Inr (duplicate, outcome), t) \<Rightarrow> (outcome, t) | (Inl err, t) \<Rightarrow> (''ERROR'', t))"

definition reprocessWebhookInbox :: "pay_env \<Rightarrow> int \<Rightarrow> (string \<Rightarrow> bool) \<Rightarrow> nat \<Rightarrow> nat \<Rightarrow> pay \<Rightarrow> string list \<times> pay" where
  "reprocessWebhookInbox env now stale maxAttempts limit s =
     run_each (reprocess_event env now) (take limit (map (\<lambda>(k, r). eventFromInboxRow r)
       (filter (\<lambda>(k, r). \<not> ib_processed r \<and> ib_attempts r < maxAttempts \<and> stale (snd k)) (pa_inbox s)))) s"

section \<open>Reconciliation with the provider\<close>

definition unresolved_operation :: "provider_operation \<Rightarrow> bool" where
  "unresolved_operation r \<longleftrightarrow> po_status r \<in> {Op_pending, Op_unknown}"

definition result_text :: "call_result \<Rightarrow> string" where
  "result_text r = (case r of READY i t \<Rightarrow> ''READY'' | RETRY i \<Rightarrow> ''RETRY'' | REJECTED i \<Rightarrow> ''REJECTED'')"

definition retry_operation :: "pay_env \<Rightarrow> int \<Rightarrow> provider_operation \<Rightarrow> string pay_action" where
  "retry_operation env now r =
     abind (aget (\<lambda>s. (case po_order r of Some oid \<Rightarrow> map_option (\<lambda>x. (oid, x)) (order_row s oid) | None \<Rightarrow> None))) (\<lambda>row. case row of
       None \<Rightarrow> areturn ''SKIPPED_STATE_CHANGED''
     | Some (oid, x) \<Rightarrow>
         if po_kind r = Refund_Create \<and> od_payment x = Pay_refund_pending then
           abind (request_refund env now oid x (refundReasonFor (od_status x))) (\<lambda>result.
           areturn (''RETRIED_SAME_OPERATION_'' @ result_text result))
         else if po_kind r = Release_Create \<and> od_settlement x \<in> {Ready, Settling} then
           abind (requestCreatorRelease env now oid x) (\<lambda>result.
           areturn (''RETRIED_SAME_OPERATION_'' @ result_text result))
         else areturn ''SKIPPED_STATE_CHANGED'')"

text \<open>\<open>lookup operationId\<close> is the reference of an applied operation, none for one that the provider did not apply.\<close>

definition resolve_operation :: "pay_env \<Rightarrow> int \<Rightarrow> (string \<Rightarrow> thrown + string option) \<Rightarrow> string \<times> provider_operation \<Rightarrow> pay \<Rightarrow> string \<times> pay" where
  "resolve_operation env now lookup row s = (case row of (i, r) \<Rightarrow> (case lookup i of
     Inl e \<Rightarrow> (''ERROR'', s)
   | Inr (Some reference) \<Rightarrow>
       attempt_job (abind (change_operation i (\<lambda>c. if unresolved_operation c then c\<lparr>po_status := Op_succeeded, po_reference := Some reference\<rparr> else c))
         (\<lambda>_. areturn ''RESOLVED_APPLIED'')) s
   | Inr None \<Rightarrow>
       if po_kind r \<in> {Funding_Create, Funding_Cancel} then
         attempt_job (abind (change_operation i (\<lambda>c. if unresolved_operation c then c\<lparr>po_status := Op_failed\<rparr> else c))
           (\<lambda>_. areturn ''RESOLVED_NOT_APPLIED'')) s
       else attempt_job (retry_operation env now r) s))"

definition awaits_fact :: "provider_operation \<Rightarrow> bool" where
  "awaits_fact r \<longleftrightarrow> po_status r = Op_succeeded \<and> po_reference r \<noteq> None \<and>
     ((po_kind r = Funding_Create \<and> po_fact r \<notin> {Some ''SUCCEEDED'', Some ''FAILED'', Some ''CANCELED''})
    \<or> (po_kind r \<in> {Refund_Create, Release_Create} \<and> po_fact r \<notin> {Some ''SUCCEEDED'', Some ''FAILED''}))"

text \<open>\<open>status reference\<close> is the fact that the provider's status call gives, none while it is pending.\<close>

definition fetch_fact :: "pay_env \<Rightarrow> int \<Rightarrow> string \<Rightarrow> (string \<Rightarrow> thrown + verified_event option) \<Rightarrow> string \<times> provider_operation \<Rightarrow> pay \<Rightarrow> string \<times> pay" where
  "fetch_fact env now createdAt status row s = (case row of (i, r) \<Rightarrow> (case status (reference_text (po_reference r)) of
     Inr None \<Rightarrow> (''PROVIDER_STILL_PENDING'', s)
   | Inr (Some e) \<Rightarrow> (case applyFetchedProviderFact env now createdAt e s of
       (Inr (duplicate, outcome), t) \<Rightarrow> (''FETCHED_'' @ outcome, t) | (Inl err, t) \<Rightarrow> (''ERROR'', t))
   | Inl e \<Rightarrow> if isProviderError e (Some provider_error_code.NOT_FOUND)
       then attempt_job (abind (pay_case (po_order r) (Some i) ''PROVIDER_OBJECT_MISSING'') (\<lambda>_. areturn ''PROVIDER_OBJECT_MISSING'')) s
       else (''ERROR'', s)))"

definition reconcileProviderOperations ::
  "pay_env \<Rightarrow> int \<Rightarrow> string \<Rightarrow> (string \<Rightarrow> thrown + string option) \<Rightarrow> (string \<Rightarrow> thrown + verified_event option) \<Rightarrow> (string \<Rightarrow> bool) \<Rightarrow> nat \<Rightarrow> pay
    \<Rightarrow> string list \<times> pay" where
  "reconcileProviderOperations env now createdAt lookup status stale limit s =
     (if \<not> pe_mock env then ([], s)
      else
        let (outcomes, t) = run_each (resolve_operation env now lookup) (take limit (filter (\<lambda>(i, r). unresolved_operation r \<and> stale i) (pa_operations s))) s;
            (fetched, u) = run_each (fetch_fact env now createdAt status) (take limit (filter (\<lambda>(i, r). awaits_fact r \<and> stale i) (pa_operations t))) t
        in (outcomes @ fetched, u))"

section \<open>Ready settlements\<close>

definition settlement_ready :: "(string \<Rightarrow> bool) \<Rightarrow> pay \<Rightarrow> string \<Rightarrow> order \<Rightarrow> bool" where
  "settlement_ready measuring s oid x \<longleftrightarrow>
     (od_settlement x = Ready \<or> (od_rail x = POOL \<and> od_settlement x = Settling))
     \<and> \<not> measuring oid
     \<and> ((od_status x = APPROVED \<and> (od_payment x = Pay_succeeded \<or> (od_payment x = Pay_partially_refunded \<and> od_performance_refund x \<noteq> None)))
        \<or> (od_status x = CANCELLED \<and> (case od_cancellation_refund x of Some r \<Rightarrow> r < od_amount x | None \<Rightarrow> False)
           \<and> od_payment x \<in> {Pay_succeeded, Pay_refund_pending, Pay_partially_refunded}))
     \<and> \<not> list_ex (\<lambda>(i, d). ds_order d = oid \<and> ds_open d) (dk_disputes (pa_desk s))
     \<and> \<not> list_ex (\<lambda>(i, d). pd_order d = oid \<and> pd_status d \<in> {D_OPEN, D_LOST}) (pa_disputes s)"

definition release_ready :: "pay_env \<Rightarrow> int \<Rightarrow> (string \<Rightarrow> bool) \<Rightarrow> string \<Rightarrow> string pay_action" where
  "release_ready env now measuring oid =
     abind (aget (\<lambda>s. (s, order_row s oid))) (\<lambda>(s, row). case row of
       None \<Rightarrow> areturn ''SKIPPED_STATE_CHANGED''
     | Some x \<Rightarrow>
         if \<not> settlement_ready measuring s oid x then areturn ''SKIPPED_STATE_CHANGED''
         else
           abind (requestCreatorRelease env now oid x) (\<lambda>result.
           areturn (case result of READY i t \<Rightarrow> ''RELEASE_REQUESTED'' | _ \<Rightarrow> ''RELEASE_'' @ result_text result)))"

definition releaseReadySettlements :: "pay_env \<Rightarrow> int \<Rightarrow> (string \<Rightarrow> bool) \<Rightarrow> nat \<Rightarrow> pay \<Rightarrow> string list \<times> pay" where
  "releaseReadySettlements env now measuring limit s =
     run_each (\<lambda>oid. attempt_job (release_ready env now measuring oid))
       (take limit (map fst (filter (\<lambda>(oid, x). settlement_ready measuring s oid x \<and> (pe_mock env \<or> od_rail x \<in> {CRYPTO, POOL})) (dk_orders (pa_desk s))))) s"

end
