(* ===== verification/Payment_Frames.thy ===== *)
theory Payment_Frames
  imports Payment_Jobs State_Frames
begin

text \<open>
  What every payment operation leaves alone, whether it returns or throws: the ledger only grows by balanced transactions, a
  journal row keeps its order, kind and request, a confirmed fact and a processed event stay (\<open>evolves\<close>, a \<open>state_frame\<close>).
\<close>

section \<open>Growth of the tables\<close>

definition same_operation :: "provider_operation \<Rightarrow> provider_operation \<Rightarrow> bool" where
  "same_operation r r' \<longleftrightarrow> po_order r' = po_order r \<and> po_kind r' = po_kind r \<and> po_hash r' = po_hash r
     \<and> (po_reference r \<noteq> None \<longrightarrow> po_reference r' \<noteq> None) \<and> (po_status r = Op_succeeded \<longrightarrow> po_status r' = Op_succeeded)
     \<and> (po_fact r = Some ''SUCCEEDED'' \<longrightarrow> po_fact r' = Some ''SUCCEEDED'')"

definition operations_grow :: "pay \<Rightarrow> pay \<Rightarrow> bool" where
  "operations_grow s t \<longleftrightarrow> (\<forall>i r. mget (pa_operations s) i = Some r \<longrightarrow> (\<exists>r'. mget (pa_operations t) i = Some r' \<and> same_operation r r'))"

definition booking_ok :: "booking \<Rightarrow> bool" where
  "booking_ok b \<longleftrightarrow> sum_list (map snd (bk_entries b)) = 0 \<and> (\<forall>(a, n) \<in> set (bk_entries b). n \<noteq> 0)"

definition ledger_ok :: "pay \<Rightarrow> bool" where
  "ledger_ok s \<longleftrightarrow> mok (pa_ledger s) \<and> (\<forall>k b. mget (pa_ledger s) k = Some b \<longrightarrow> booking_ok b)"

definition ledger_grows :: "pay \<Rightarrow> pay \<Rightarrow> bool" where
  "ledger_grows s t \<longleftrightarrow> (\<forall>k b. mget (pa_ledger s) k = Some b \<longrightarrow> mget (pa_ledger t) k = Some b) \<and> (ledger_ok s \<longrightarrow> ledger_ok t)"

definition inbox_grows :: "pay \<Rightarrow> pay \<Rightarrow> bool" where
  "inbox_grows s t \<longleftrightarrow> (\<forall>k r. mget (pa_inbox s) k = Some r \<longrightarrow>
     (\<exists>r'. mget (pa_inbox t) k = Some r' \<and> ib_event r' = ib_event r \<and> (ib_processed r \<longrightarrow> ib_processed r')))"

definition refunds_grow :: "pay \<Rightarrow> pay \<Rightarrow> bool" where
  "refunds_grow s t \<longleftrightarrow> (mok (pa_refunds s) \<longrightarrow> mok (pa_refunds t)) \<and> (\<forall>i r. mget (pa_refunds s) i = Some r \<longrightarrow>
     (\<exists>r'. mget (pa_refunds t) i = Some r' \<and> pr_order r' = pr_order r \<and> pr_amount r' = pr_amount r \<and> (pr_status r = Refund_done \<longrightarrow> r' = r)))"

definition evolves :: "pay \<Rightarrow> pay \<Rightarrow> bool" where
  "evolves s t \<longleftrightarrow> operations_grow s t \<and> ledger_grows s t \<and> inbox_grows s t \<and> refunds_grow s t"

lemma evolves_refl: "evolves s s"
  by (simp add: evolves_def operations_grow_def same_operation_def ledger_grows_def inbox_grows_def refunds_grow_def)

lemma same_operation_trans: "same_operation a b \<Longrightarrow> same_operation b c \<Longrightarrow> same_operation a c"
  by (auto simp: same_operation_def)

lemma operations_grow_trans: "operations_grow s t \<Longrightarrow> operations_grow t u \<Longrightarrow> operations_grow s u"
  unfolding operations_grow_def by (meson same_operation_trans)

lemma inbox_grows_trans: "inbox_grows s t \<Longrightarrow> inbox_grows t u \<Longrightarrow> inbox_grows s u"
  unfolding inbox_grows_def by metis

lemma refunds_grow_trans: "refunds_grow s t \<Longrightarrow> refunds_grow t u \<Longrightarrow> refunds_grow s u"
  unfolding refunds_grow_def by metis

lemma evolves_trans: "evolves s t \<Longrightarrow> evolves t u \<Longrightarrow> evolves s u"
  using operations_grow_trans inbox_grows_trans refunds_grow_trans by (auto simp: evolves_def ledger_grows_def)

interpretation ev: state_frame evolves
  by unfold_locales (auto intro: evolves_refl evolves_trans)

lemma evolves_same: "pa_operations t = pa_operations s \<Longrightarrow> pa_ledger t = pa_ledger s \<Longrightarrow> pa_inbox t = pa_inbox s \<Longrightarrow> pa_refunds t = pa_refunds s \<Longrightarrow> evolves s t"
  by (auto simp: evolves_def operations_grow_def same_operation_def ledger_grows_def ledger_ok_def inbox_grows_def refunds_grow_def)

section \<open>Statements\<close>

named_theorems steady "Actions within the growth of the tables"

lemmas [steady] = ev.within_areturn ev.within_afail ev.within_alift ev.within_acheck ev.within_aget ev.within_acatch ev.within_transact
  ev.within_if ev.within_option ev.within_sum ev.within_prod ev.within_let ev.within_abind

lemma steady_amodify [steady]:
  "(\<And>s. pa_operations (u s) = pa_operations s) \<Longrightarrow> (\<And>s. pa_ledger (u s) = pa_ledger s) \<Longrightarrow> (\<And>s. pa_inbox (u s) = pa_inbox s) \<Longrightarrow>
   (\<And>s. pa_refunds (u s) = pa_refunds s) \<Longrightarrow> ev.within (amodify u)"
  by (simp add: ev.within_amodify evolves_same)

lemma steady_desk [steady]: "ev.within (on_desk m)" "ev.within (on_orders m)"
  by (auto simp: ev.within_def on_desk_def on_orders_def status_triggers_def intro!: evolves_same split: prod.splits)

lemma steady_asides [steady]:
  "ev.within (update_paid now oid f)" "ev.within (pay_case who i kind)" "ev.within (pay_event oid kind ref fee)" "ev.within (outbox key template recipient)"
  "ev.within (getMockPaymentProvider env)"
  by (simp_all add: update_paid_def pay_case_def pay_event_def outbox_def getMockPaymentProvider_def steady)

lemma steady_where [steady]: "ev.within (update_where now oid guard f)"
  unfolding update_where_def by (rule steady | assumption)+

lemma sum_list_nonzero: "sum_list (map snd (filter (\<lambda>(a, n). n \<noteq> 0) xs)) = sum_list (map snd (xs :: ('a \<times> int) list))"
  by (induction xs) auto

lemma booking_booked: "sum_list (map snd entries) = 0 \<Longrightarrow>
   booking_ok \<lparr>bk_order = oid, bk_kind = kind, bk_currency = c, bk_entries = filter (\<lambda>(a, n). n \<noteq> 0) entries\<rparr>"
  by (auto simp: booking_ok_def sum_list_nonzero)

lemma steady_ledger [steady]: "ev.within (ledger oid kind key entries c)"
  unfolding ledger_def ev.within_def
  by (auto simp: abind_def acheck_def aget_def amodify_def areturn_def evolves_def operations_grow_def same_operation_def ledger_grows_def ledger_ok_def
      inbox_grows_def refunds_grow_def booking_booked split: option.split sum.split prod.split)

lemma steady_change [steady]:
  assumes "\<And>r. same_operation r (f r)"
  shows "ev.within (change_operation i f)"
  using assms unfolding change_operation_def ev.within_def
  by (auto simp: amodify_def evolves_def operations_grow_def ledger_grows_def ledger_ok_def inbox_grows_def refunds_grow_def same_operation_def split: option.split)

lemma steady_journal [steady]: "ev.within (journal i oid kind hash)"
  unfolding journal_def
  by (rule ev.within_abind ev.within_amodify ev.within_aget ev.within_acheck
    | auto simp: evolves_def operations_grow_def ledger_grows_def ledger_ok_def inbox_grows_def refunds_grow_def same_operation_def)+

lemma steady_mark [steady]: "ev.within (mark_inbox key done)"
  unfolding mark_inbox_def
  by (rule ev.within_amodify) (auto simp: evolves_def operations_grow_def ledger_grows_def ledger_ok_def inbox_grows_def refunds_grow_def same_operation_def split: option.split)

lemma steady_insert_inbox [steady]: "ev.within (insert_inbox e v)"
  unfolding insert_inbox_def
  by (rule ev.within_amodify) (auto simp: evolves_def operations_grow_def ledger_grows_def ledger_ok_def inbox_grows_def refunds_grow_def same_operation_def)

lemma same_operation_simps [simp]:
  "same_operation r r" "same_operation r (r\<lparr>po_method := m\<rparr>)" "same_operation r (r\<lparr>po_plan := p\<rparr>)" "same_operation r (r\<lparr>po_refund := q\<rparr>)"
  "same_operation r (r\<lparr>po_reference := Some t\<rparr>)" "same_operation r (r\<lparr>po_status := Op_succeeded, po_reference := Some t\<rparr>)"
  "same_operation r (r\<lparr>po_fact := Some ''SUCCEEDED'', po_reversed := Some n\<rparr>)"
  by (simp_all add: same_operation_def)

lemma same_operation_guarded [simp]:
  "po_status r \<noteq> Op_succeeded \<Longrightarrow> same_operation r (r\<lparr>po_status := st\<rparr>)" "po_fact r \<noteq> Some ''SUCCEEDED'' \<Longrightarrow> same_operation r (r\<lparr>po_fact := f\<rparr>)"
  by (simp_all add: same_operation_def)

section \<open>Operations\<close>

lemma steady_result [steady]:
  "(\<And>i t. ev.within (f i t)) \<Longrightarrow> (\<And>i. ev.within (g i)) \<Longrightarrow> (\<And>i. ev.within (h i)) \<Longrightarrow>
   ev.within (case r of READY i t \<Rightarrow> f i t | RETRY i \<Rightarrow> g i | REJECTED i \<Rightarrow> h i)"
  by (cases r) simp_all

lemma steady_thrown [steady]: "(\<And>p. ev.within (f p)) \<Longrightarrow> (\<And>t. ev.within (g t)) \<Longrightarrow> ev.within (case e of Provider p \<Rightarrow> f p | OtherError t \<Rightarrow> g t)"
  by (cases e) simp_all

lemma steady_rail [steady]: "ev.within f \<Longrightarrow> ev.within g \<Longrightarrow> ev.within h \<Longrightarrow> ev.within (case r of MOCK_PROVIDER \<Rightarrow> f | CRYPTO \<Rightarrow> g | POOL \<Rightarrow> h)"
  by (cases r) simp_all

lemma steady_answer [steady]: "ev.within (answered i ref)" "ev.within (recordCallFailure i e)"
  unfolding answered_def recordCallFailure_def by (intro steady; simp)+

lemma steady_holds [steady]: "ev.within (activateOrderClaim oid)" "ev.within (fulfillDigitalOrder now oid)"
  unfolding activateOrderClaim_def fulfillDigitalOrder_def by (intro steady; simp)+

lemma steady_cancel [steady]: "ev.within (cancelOpenFunding env oid)"
  unfolding cancelOpenFunding_def close_intents_def Let_def by (intro steady; simp)

lemma steady_attempt [steady]: "ev.within (funding_attempt env now buyer oid x method attempts)"
  unfolding funding_attempt_def Let_def by (intro steady; simp)

lemma steady_funding [steady]:
  "ev.within (ensureFundingIntent env now buyer oid method)" "ev.within (startBankTransfer env now buyer oid)"
proof -
  show e: "ev.within (ensureFundingIntent env now buyer oid way)" for way
    unfolding ensureFundingIntent_def by (intro steady)
  show "ev.within (startBankTransfer env now buyer oid)"
    unfolding startBankTransfer_def Let_def by (intro steady e; simp)
qed

lemma steady_refund [steady]: "ev.within (request_refund env now oid x reason)"
  unfolding request_refund_def pool_refund_def crypto_refund_def provider_refund_def Let_def by (intro steady; simp)

lemma steady_settled [steady]: "ev.within (settled now oid x)" "ev.within (finalizePoolOrder env now oid x)"
proof -
  show e: "ev.within (settled now oid x)"
    unfolding settled_def by (intro steady)
  show "ev.within (finalizePoolOrder env now oid x)"
    unfolding finalizePoolOrder_def by (intro steady e)
qed

lemma steady_release [steady]: "ev.within (requestCreatorRelease env now oid x)"
  unfolding requestCreatorRelease_def crypto_release_def settlePoolOrder_def provider_release_def Let_def by (intro steady; simp)

lemma evolves_refunds:
  assumes "pa_operations t = pa_operations s" "pa_ledger t = pa_ledger s" "pa_inbox t = pa_inbox s" "refunds_grow s t"
  shows "evolves s t"
  using assms by (auto simp: evolves_def operations_grow_def ledger_grows_def ledger_ok_def inbox_grows_def)

lemma steady_table [steady]: "ev.within (update_refund refundId guard f)" "ev.within (insert_refund newId r)" "ev.within (waiting_refund refundId)"
proof -
  show "ev.within (update_refund refundId guard f)"
    unfolding ev.within_def
    by (auto simp: update_refund_def abind_def aget_def acheck_def areturn_def amodify_def post_release_refund_guard_def refunds_grow_def evolves_refl
        intro!: evolves_refunds split: option.split sum.split prod.split)
  show "ev.within (insert_refund newId r)"
    unfolding ev.within_def
    by (auto simp: insert_refund_def abind_def aget_def acheck_def areturn_def amodify_def refunds_grow_def evolves_refl
        intro!: evolves_refunds split: option.split sum.split prod.split)
  show "ev.within (waiting_refund refundId)" unfolding waiting_refund_def by (intro steady; simp)
qed

lemma steady_recovery [steady]: "ev.within (attemptTransferReversal env refundId refund ref)" "ev.within (requestAfterReleaseRefund env refundId refund)"
  unfolding attemptTransferReversal_def requestAfterReleaseRefund_def Let_def by (intro steady; simp)+

lemma steady_recoveries [steady]:
  "ev.within (startPostReleaseRefund env newId who oid amount reason)" "ev.within (retryPostReleaseRecovery env refundId)"
  "ev.within (coverPostReleaseDeficit env who refundId reason)"
  unfolding startPostReleaseRefund_def retryPostReleaseRecovery_def coverPostReleaseDeficit_def Let_def by (intro steady; simp)+

section \<open>Facts\<close>

lemma steady_match [steady]: "ev.within (matchOperation kind e)" "ev.within (note_fact i e)"
  unfolding matchOperation_def note_fact_def by (intro steady; simp)+

lemma steady_matched [steady]: "(\<And>i r oid. ev.within (handler i r oid)) \<Longrightarrow> ev.within (matched kind unmatched e handler)"
  unfolding matched_def by (intro steady; simp)

lemma steady_row [steady]: "(\<And>x. ev.within (f x)) \<Longrightarrow> ev.within (with_row oid f)"
  unfolding with_row_def by (intro steady; simp)

lemma steady_return [steady]: "ev.within (applyBankReturn now e i oid x)"
  unfolding applyBankReturn_def notify_returned_def by (intro steady)

lemma steady_cost [steady]: "ev.within (applyLateProviderCost env now e i oid x)"
  unfolding applyLateProviderCost_def insert_cost_def Let_def by (intro steady; simp)

lemma steady_confirm [steady]: "ev.within (confirm_payment now e method oid x)" "ev.within (refuse_payment e i oid x)"
  "ev.within (confirm_free now rail oid x key clearing)"
  unfolding confirm_payment_def refuse_payment_def confirm_free_def Let_def by (intro steady)+

lemma steady_fundings [steady]: "ev.within (applyFundingEvent env now e)" "ev.within (applyPoolFunding now oid poolId cash)"
  "ev.within (applyChainFunding now oid amount chainId key)"
  unfolding applyFundingEvent_def applyPoolFunding_def applyChainFunding_def Let_def by (intro steady; simp)+

lemma steady_refund_fact [steady]: "ev.within (applyRefundEvent now e)"
  unfolding applyRefundEvent_def applyPostReleaseRefundEvent_def Let_def by (intro steady)

lemma steady_release_fact [steady]: "ev.within (applyReleaseEvent now e)"
  unfolding applyReleaseEvent_def Let_def by (intro steady)

lemma steady_reversal [steady]: "ev.within (applyReversalEvent env e)"
  unfolding applyReversalEvent_def by (intro steady; simp)

lemma steady_dispute [steady]: "ev.within (applyDisputeEvent e)"
  unfolding applyDisputeEvent_def open_payment_dispute_def close_payment_dispute_def Let_def by (intro steady; simp)

lemma steady_event [steady]: "ev.within (applyPaymentEvent env now e)"
  unfolding applyPaymentEvent_def by (intro steady)

lemma steady_process [steady]: "ev.within (processVerifiedEvent env now e)"
  unfolding processVerifiedEvent_def process_inbox_def by (intro steady)

lemma steady_webhook [steady]: "ev.within (receivePaymentWebhook env now v)" "ev.within (applyFetchedProviderFact env now createdAt e)"
  unfolding receivePaymentWebhook_def applyFetchedProviderFact_def by (intro steady)+

section \<open>Jobs\<close>

lemma steady_expire [steady]: "ev.within (expire_hold env now oid)"
  unfolding expire_hold_def by (intro steady; simp)

lemma steady_retry [steady]: "ev.within (retry_operation env now r)" "ev.within (release_ready env now measuring oid)"
  unfolding retry_operation_def release_ready_def by (intro steady)+

end
