(* ===== verification/Payment_System.thy ===== *)
theory Payment_System
  imports Payment_Frames Order_Answers
begin

text \<open>
  The payments of the marketplace as one system: every entry point of the payment modules, each in its transaction, the jobs, the
  commands on orders and the writes that other modules make to an order, in any sequence and with any answers of the provider.
  The effects of payouts on chain are not entry points here: the queue that calls them is not modelled.
\<close>

section \<open>Entry points\<close>

datatype pay_call =
    Checkout string string funding_method
  | Bank_transfer string string
  | Cancel_funding string
  | Webhook "exception_value + verified_event"
  | Reprocess "string \<Rightarrow> bool" nat nat
  | Expire nat
  | Reconcile string "string \<Rightarrow> thrown + string option" "string \<Rightarrow> thrown + verified_event option" "string \<Rightarrow> bool" nat
  | Release_ready "string \<Rightarrow> bool" nat
  | Refund string string
  | Start_refund string string string int string
  | Retry_recovery string
  | Cover_deficit string string string
  | Pool_funding string string int
  | Chain_funding string int string string
  | Pool_payout string
  | Order_command order_env string order_command actor form
  | Auto_accept order_env string
  | Place_order string order hold bool
  | Settle_performance string int

text \<open>Modules that sell something insert the order with its hold (\<open>claimWorkload\<close>, \<open>holdEntitlement\<close>); the performance module records
  what a measured post leaves of the hold. The payouts of a pool are queued once its settlement has begun, so the last of them is
  confirmed while the settlement is open. The id of a row that a command inserts (\<open>gen_random_uuid()\<close>) is fresh.\<close>

definition new_order :: "order \<Rightarrow> bool" where
  "new_order x \<longleftrightarrow> od_status x = AWAITING_PAYMENT \<and> od_payment x = Pay_pending \<and> od_settlement x = Not_ready \<and> od_funded_at x = None
     \<and> od_work_start_at x = None \<and> od_delivery_due_at x = None \<and> od_provider_fee x = None \<and> od_funding_method x = None
     \<and> od_cancellation_refund x = None \<and> od_performance_refund x = None \<and> order_checks x \<and> revisionLimit (od_terms x) \<le> 3
     \<and> (ot_digital (od_terms x) \<longrightarrow> od_brief_ready_at x \<noteq> None)"

definition place_order :: "string \<Rightarrow> order \<Rightarrow> hold \<Rightarrow> bool \<Rightarrow> unit pay_action" where
  "place_order oid x h digital =
     abind (aget (\<lambda>s. order_row s oid)) (\<lambda>row.
     abind (acheck (row = None \<and> new_order x \<and> hd_state h = HELD) Other_error) (\<lambda>_.
     amodify (\<lambda>s. let d = pa_desk s; t = s\<lparr>pa_desk := d\<lparr>dk_orders := mput oid x (dk_orders d)\<rparr>\<rparr> in
       if digital then t\<lparr>pa_entitlements := mput oid h (pa_entitlements s)\<rparr> else t\<lparr>pa_claims := mput oid h (pa_claims s)\<rparr>)))"

definition settle_performance :: "int \<Rightarrow> string \<Rightarrow> int \<Rightarrow> unit pay_action" where
  "settle_performance now oid unused = update_paid now oid (\<lambda>y. bump_order (y\<lparr>od_performance_refund := Some unused\<rparr>))"

definition refund_now :: "pay_env \<Rightarrow> int \<Rightarrow> string \<Rightarrow> string \<Rightarrow> call_result pay_action" where
  "refund_now env now oid reason =
     abind (aget (\<lambda>s. order_row s oid)) (\<lambda>row. case row of
       None \<Rightarrow> afail (Flow_error ''INVALID_STATE'') | Some x \<Rightarrow> request_refund env now oid x reason)"

definition pool_payout :: "pay_env \<Rightarrow> int \<Rightarrow> string \<Rightarrow> bool pay_action" where
  "pool_payout env now oid =
     abind (aget (\<lambda>s. order_row s oid)) (\<lambda>row. case row of
       None \<Rightarrow> areturn False | Some x \<Rightarrow> if od_settlement x \<in> {Ready, Settling} then finalizePoolOrder env now oid x else areturn False)"

definition order_command :: "order_env \<Rightarrow> int \<Rightarrow> string \<Rightarrow> order_command \<Rightarrow> actor \<Rightarrow> form \<Rightarrow> command_result pay_action" where
  "order_command oenv now newId c actor form =
     abind (aget (\<lambda>s. fresh_id newId (pa_desk s))) (\<lambda>fresh.
     abind (acheck fresh Other_error) (\<lambda>_.
     on_orders (orderCommands oenv now newId c actor form)))"

definition after :: "'a pay_action \<Rightarrow> pay \<Rightarrow> pay" where
  "after m s = snd (transact m s)"

fun pay_step :: "pay_env \<Rightarrow> int \<Rightarrow> pay_call \<Rightarrow> pay \<Rightarrow> pay" where
  "pay_step env now (Checkout buyerId oid method) s = after (ensureFundingIntent env now buyerId oid method) s"
| "pay_step env now (Bank_transfer buyerId oid) s = after (startBankTransfer env now buyerId oid) s"
| "pay_step env now (Cancel_funding oid) s = after (cancelOpenFunding env oid) s"
| "pay_step env now (Webhook verified) s = snd (receivePaymentWebhook env now verified s)"
| "pay_step env now (Reprocess stale maxAttempts limit) s = snd (reprocessWebhookInbox env now stale maxAttempts limit s)"
| "pay_step env now (Expire limit) s = snd (expireCheckoutHolds env now limit s)"
| "pay_step env now (Reconcile createdAt lookup status stale limit) s = snd (reconcileProviderOperations env now createdAt lookup status stale limit s)"
| "pay_step env now (Release_ready measuring limit) s = snd (releaseReadySettlements env now measuring limit s)"
| "pay_step env now (Refund oid reason) s = after (refund_now env now oid reason) s"
| "pay_step env now (Start_refund newId who oid amount reason) s = after (startPostReleaseRefund env newId who oid amount reason) s"
| "pay_step env now (Retry_recovery refundId) s = after (retryPostReleaseRecovery env refundId) s"
| "pay_step env now (Cover_deficit who refundId reason) s = after (coverPostReleaseDeficit env who refundId reason) s"
| "pay_step env now (Pool_funding oid poolId cash) s = after (applyPoolFunding now oid poolId cash) s"
| "pay_step env now (Chain_funding oid amount chainId eventKey) s = after (applyChainFunding now oid amount chainId eventKey) s"
| "pay_step env now (Pool_payout oid) s = after (pool_payout env now oid) s"
| "pay_step env now (Order_command oenv newId c actor form) s = after (order_command oenv now newId c actor form) s"
| "pay_step env now (Auto_accept oenv oid) s = after (on_orders (autoAcceptDelivery oenv now oid)) s"
| "pay_step env now (Place_order oid x h digital) s = after (place_order oid x h digital) s"
| "pay_step env now (Settle_performance oid unused) s = after (settle_performance now oid unused) s"

fun pay_run :: "(pay_env \<times> int \<times> pay_call) list \<Rightarrow> pay \<Rightarrow> pay" where
  "pay_run [] s = s"
| "pay_run ((env, now, c) # cs) s = pay_run cs (pay_step env now c s)"

section \<open>Growth\<close>

lemma after_within: "ev.within m \<Longrightarrow> evolves s (after m s)"
  by (simp add: after_def ev.withinD ev.within_transact)

lemma attempt_evolves: "ev.within m \<Longrightarrow> evolves s (snd (attempt_job m s))"
  using ev.withinD [OF ev.within_transact, of m s] by (auto simp: attempt_job_def split: prod.splits sum.splits)

lemma each_evolves: "(\<And>x s. evolves s (snd (f x s))) \<Longrightarrow> evolves s (snd (run_each f xs s))"
proof (induction xs arbitrary: s)
  case (Cons x xs)
  from Cons.prems [of s x] Cons.IH [OF Cons.prems, of "snd (f x s)"] show ?case
    by (auto simp: split_beta Let_def intro: evolves_trans)
qed (simp add: evolves_refl)

lemma reprocess_evolves: "evolves s (snd (reprocess_event env now e s))"
  using ev.withinD [OF steady_process, of s env now e] by (auto simp: reprocess_event_def split: prod.splits sum.splits)

lemma resolve_evolves: "evolves s (snd (resolve_operation env now lookup row s))"
  by (auto simp: resolve_operation_def evolves_refl unresolved_operation_def split: prod.split sum.split option.split
      intro!: attempt_evolves steady)

lemma fetch_evolves: "evolves s (snd (fetch_fact env now createdAt status row s))"
proof -
  have "evolves s t" if "applyFetchedProviderFact env now createdAt e s = (r, t)" for e r t
    using ev.withinD [OF steady_webhook(2), of s env now createdAt e] that by simp
  then show ?thesis
    by (auto simp: fetch_fact_def evolves_refl split: prod.split sum.split option.split intro!: attempt_evolves steady)
qed

lemma reconcile_evolves: "evolves s (snd (reconcileProviderOperations env now createdAt lookup status stale limit s))"
proof -
  let ?f = "run_each (resolve_operation env now lookup)" and ?g = "run_each (fetch_fact env now createdAt status)"
  have "evolves s (snd (?g ys (snd (?f xs s))))" for xs ys
    by (rule evolves_trans [OF each_evolves each_evolves]) (rule resolve_evolves fetch_evolves)+
  then show ?thesis by (simp add: reconcileProviderOperations_def split_beta Let_def evolves_refl)
qed

lemma step_evolves: "evolves s (pay_step env now c s)"
proof (cases c)
  case (Webhook v)
  then show ?thesis using ev.withinD [OF steady_webhook(1), of s env now v] by simp
next
  case (Reprocess stale m n)
  then show ?thesis by (simp add: reprocessWebhookInbox_def each_evolves reprocess_evolves)
next
  case (Expire n)
  then show ?thesis by (simp add: expireCheckoutHolds_def each_evolves attempt_evolves steady)
next
  case (Release_ready m n)
  then show ?thesis by (simp add: releaseReadySettlements_def each_evolves attempt_evolves steady)
next
  case (Reconcile a b d e f)
  then show ?thesis by (simp add: reconcile_evolves)
qed (simp_all add: after_within steady refund_now_def pool_payout_def settle_performance_def place_order_def order_command_def Let_def)

lemma run_evolves: "evolves s (pay_run cs s)"
  by (induction cs s rule: pay_run.induct) (auto intro: evolves_trans step_evolves evolves_refl)

end
