(* ===== verification/Payment_Invariant.thy ===== *)
theory Payment_Invariant
  imports Payment_System
begin

text \<open>
  The invariant of payments (\<open>pay_inv\<close>): the desk of orders is well formed, every order whose work may begin was paid by exactly one
  booked capture of its amount, and its creator is paid out at most once. An action is \<open>safe\<close> when it keeps the invariant if it
  returns; its transaction undoes it if it throws.
\<close>

section \<open>Invariant\<close>

definition paid_status :: "order_status \<Rightarrow> bool" where
  "paid_status st \<longleftrightarrow> st \<notin> {AWAITING_PAYMENT, CANCELLED, REFUNDED}"

definition captured :: "pay \<Rightarrow> string \<Rightarrow> string \<Rightarrow> booking \<Rightarrow> bool" where
  "captured s oid k b \<longleftrightarrow> mget (pa_ledger s) k = Some b \<and> bk_kind b = ''FUNDING_CAPTURED'' \<and> bk_order b = oid"

definition payout :: "pay \<Rightarrow> string \<Rightarrow> string \<Rightarrow> booking \<Rightarrow> bool" where
  "payout s oid k b \<longleftrightarrow> mget (pa_ledger s) k = Some b \<and> bk_kind b = ''SETTLEMENT_RELEASED'' \<and> bk_order b = oid"

definition captures_ok :: "pay \<Rightarrow> bool" where
  "captures_ok s \<longleftrightarrow> (\<forall>oid k b. captured s oid k b \<longrightarrow>
     (\<exists>x. order_row s oid = Some x \<and> od_status x \<noteq> AWAITING_PAYMENT \<and> entries_total (Order_principal oid) b = - od_amount x)
     \<and> (\<forall>k' b'. captured s oid k' b' \<longrightarrow> k' = k))"

definition releases_ok :: "pay \<Rightarrow> bool" where
  "releases_ok s \<longleftrightarrow> (\<forall>oid k b. payout s oid k b \<longrightarrow>
     (\<exists>x. order_row s oid = Some x \<and> od_settlement x = Settled_out) \<and> (\<forall>k' b'. payout s oid k' b' \<longrightarrow> k' = k))"

definition work_paid :: "string option \<Rightarrow> pay \<Rightarrow> bool" where
  "work_paid busy s \<longleftrightarrow> (\<forall>oid x. order_row s oid = Some x \<longrightarrow> paid_status (od_status x) \<longrightarrow> Some oid \<noteq> busy \<longrightarrow>
     (\<exists>k b. captured s oid k b))"

definition pool_keys_ok :: "pay \<Rightarrow> bool" where
  "pool_keys_ok s \<longleftrightarrow> (\<forall>oid b. mget (pa_ledger s) (''funding:pool:'' @ oid) = Some b \<longrightarrow> bk_order b = oid \<and> bk_kind b = ''FUNDING_CAPTURED'')"

text \<open>\<open>busy\<close> is the order whose payment is being confirmed: it is funded and its capture is about to be booked.\<close>

definition money_inv :: "string option \<Rightarrow> pay \<Rightarrow> bool" where
  "money_inv busy s \<longleftrightarrow> captures_ok s \<and> releases_ok s \<and> work_paid busy s \<and> pool_keys_ok s"

definition pay_inv :: "pay \<Rightarrow> bool" where
  "pay_inv s \<longleftrightarrow> desk_inv None (pa_desk s) \<and> money_inv None s"

section \<open>Statements that touch neither orders nor the ledger\<close>

definition untouched :: "pay \<Rightarrow> pay \<Rightarrow> bool" where
  "untouched s t \<longleftrightarrow> same_rows (pa_desk s) (pa_desk t) \<and> dk_cancellations (pa_desk t) = dk_cancellations (pa_desk s) \<and> pa_ledger t = pa_ledger s"

lemma untouched_refl: "untouched s s"
  by (simp add: untouched_def same_rows_def)

lemma untouched_trans: "untouched s t \<Longrightarrow> untouched t u \<Longrightarrow> untouched s u"
  by (auto simp: untouched_def same_rows_def)

interpretation un: state_frame untouched
  by unfold_locales (auto intro: untouched_refl untouched_trans)

named_theorems idle "Actions that touch neither orders nor the ledger"

lemmas [idle] = un.within_areturn un.within_afail un.within_alift un.within_acheck un.within_aget un.within_acatch un.within_transact
  un.within_if un.within_option un.within_sum un.within_prod un.within_let un.within_abind

lemma idle_result [idle]:
  "(\<And>i t. un.within (f i t)) \<Longrightarrow> (\<And>i. un.within (g i)) \<Longrightarrow> (\<And>i. un.within (h i)) \<Longrightarrow>
   un.within (case r of READY i t \<Rightarrow> f i t | RETRY i \<Rightarrow> g i | REJECTED i \<Rightarrow> h i)"
  by (cases r) simp_all

lemma idle_thrown [idle]: "(\<And>p. un.within (f p)) \<Longrightarrow> (\<And>t. un.within (g t)) \<Longrightarrow> un.within (case e of Provider p \<Rightarrow> f p | OtherError t \<Rightarrow> g t)"
  by (cases e) simp_all

lemma idle_modify [idle]:
  "(\<And>s. pa_desk (u s) = pa_desk s) \<Longrightarrow> (\<And>s. pa_ledger (u s) = pa_ledger s) \<Longrightarrow> un.within (amodify u)"
  by (rule un.within_amodify) (simp add: untouched_def same_rows_def)

lemma idle_desk: "aside m \<Longrightarrow> un.within (on_desk m)"
proof -
  assume m: "aside m"
  have "same_rows d (snd (m d)) \<and> dk_cancellations (snd (m d)) = dk_cancellations d" for d
  proof -
    have "wp m (\<lambda>_ t. same_rows d t \<and> dk_cancellations t = dk_cancellations d) (\<lambda>_ _. False) d" using m by (simp add: aside_def)
    then show ?thesis by (auto simp: wp_def split: prod.splits sum.splits)
  qed
  then show ?thesis by (simp add: un.within_def on_desk_def untouched_def split_beta)
qed

lemma idle_asides [idle]:
  "un.within (pay_case who row kind)" "un.within (pay_event oid kind ref fee)" "un.within (outbox key template recipient)"
  "un.within (getMockPaymentProvider env)" "un.within (journal i oid kind' hash)" "un.within (change_operation i f)"
  unfolding pay_case_def outbox_def pay_event_def getMockPaymentProvider_def journal_def change_operation_def
  by (intro idle_desk aside_simps idle; simp add: aside_def wp same_rows_def split: option.split)+

lemma idle_answer [idle]: "un.within (answered i ref)" "un.within (recordCallFailure i e)"
  unfolding answered_def recordCallFailure_def by (intro idle)+

lemma idle_holds [idle]: "un.within (activateOrderClaim oid)" "un.within (mark_inbox key d)" "un.within (insert_inbox e v)"
  unfolding activateOrderClaim_def mark_inbox_def insert_inbox_def by (intro idle; simp split: option.split)+

lemma idle_cancel [idle]: "un.within (cancelOpenFunding env oid)"
  unfolding cancelOpenFunding_def close_intents_def Let_def by (intro idle; simp)

lemma idle_table [idle]: "un.within (update_refund refundId guard f)" "un.within (insert_refund newId r)" "un.within (waiting_refund refundId)"
  unfolding update_refund_def insert_refund_def waiting_refund_def by (intro idle; simp)+

lemma idle_recovery [idle]: "un.within (attemptTransferReversal env refundId refund ref)" "un.within (requestAfterReleaseRefund env refundId refund)"
  unfolding attemptTransferReversal_def requestAfterReleaseRefund_def Let_def by (intro idle)+

lemma idle_recoveries [idle]:
  "un.within (startPostReleaseRefund env newId who oid amount reason)" "un.within (retryPostReleaseRecovery env refundId)"
  unfolding startPostReleaseRefund_def retryPostReleaseRecovery_def Let_def by (intro idle)+

lemma idle_match [idle]: "un.within (matchOperation kind e)" "un.within (note_fact i e)" "un.within (insert_cost c)"
  unfolding matchOperation_def note_fact_def insert_cost_def by (intro idle; simp)+

lemma idle_provider_refund [idle]: "un.within (provider_refund env oid x reason)" "un.within (crypto_refund env oid x)"
  unfolding provider_refund_def crypto_refund_def Let_def by (intro idle)+

section \<open>Safe actions\<close>

lemma money_inv_untouched: "untouched s t \<Longrightarrow> money_inv busy t = money_inv busy s"
  by (simp add: untouched_def same_rows_def money_inv_def captures_ok_def releases_ok_def work_paid_def pool_keys_ok_def captured_def payout_def order_row_def)

lemma desk_inv_untouched: "untouched s t \<Longrightarrow> desk_inv busy (pa_desk t) = desk_inv busy (pa_desk s)"
  unfolding untouched_def by (intro desk_inv_cong) (simp_all add: same_rows_def)

lemma pay_inv_untouched: "untouched s t \<Longrightarrow> pay_inv t = pay_inv s"
  by (simp add: pay_inv_def money_inv_untouched desk_inv_untouched)

lemma row_untouched: "untouched s t \<Longrightarrow> order_row t oid = order_row s oid"
  by (simp add: untouched_def same_rows_def order_row_def)

abbreviation wpi :: "'a pay_action \<Rightarrow> pay \<Rightarrow> bool" where
  "wpi m s \<equiv> wp m (\<lambda>_. pay_inv) (\<lambda>_ _. True) s"

definition safe :: "'a pay_action \<Rightarrow> bool" where
  "safe m \<longleftrightarrow> (\<forall>s. pay_inv s \<longrightarrow> wpi m s)"

named_theorems safe "Actions that keep the invariant of payments"

lemma safeI: "(\<And>s. pay_inv s \<Longrightarrow> wpi m s) \<Longrightarrow> safe m"
  by (simp add: safe_def)

lemma safeD: "safe m \<Longrightarrow> pay_inv s \<Longrightarrow> wpi m s"
  by (simp add: safe_def)

lemma safe_idle: "un.within m \<Longrightarrow> safe m"
proof (rule safeI)
  fix s assume "un.within m" "pay_inv s"
  then have "pay_inv (snd (m s))" using pay_inv_untouched [OF un.withinD] by blast
  then show "wpi m s" by (auto simp: wp_def split: prod.splits sum.splits)
qed

lemma safe_basic [safe]: "safe (areturn x)" "safe (afail e)" "safe (alift r)" "safe (acheck b e)" "safe (aget g)"
  by (simp_all add: safe_def wp split: sum.split)

lemma safe_bind [safe]: "safe m \<Longrightarrow> (\<And>x. safe (f x)) \<Longrightarrow> safe (abind m f)"
proof (rule safeI)
  fix s assume m: "safe m" and f: "\<And>x. safe (f x)" and s: "pay_inv s"
  show "wpi (abind m f) s" unfolding wp_abind by (rule wp_mono [OF safeD [OF m s]]) (use f in \<open>auto simp: safe_def\<close>)
qed

lemma safe_branches [safe]:
  "safe m \<Longrightarrow> safe m' \<Longrightarrow> safe (if b then m else m')"
  "safe m \<Longrightarrow> (\<And>x. safe (f x)) \<Longrightarrow> safe (case r of None \<Rightarrow> m | Some x \<Rightarrow> f x)"
  "(\<And>x y. safe (g x y)) \<Longrightarrow> safe (case p of (x, y) \<Rightarrow> g x y)"
  by (auto split: option.split prod.split)

lemma safe_sum [safe]: "(\<And>x. safe (f x)) \<Longrightarrow> (\<And>x. safe (g x)) \<Longrightarrow> safe (case r of Inl x \<Rightarrow> f x | Inr x \<Rightarrow> g x)"
  by (cases r) simp_all

lemma after_safe: "safe m \<Longrightarrow> pay_inv s \<Longrightarrow> pay_inv (after m s)"
  using safeD [of m s] by (auto simp: after_def transact_def wp_def split: prod.splits sum.splits)

text \<open>An idle statement in a sequence, and one that follows a reading of the state.\<close>

lemma wpi_idle:
  assumes "un.within m" "pay_inv s" "\<And>x t. untouched s t \<Longrightarrow> pay_inv t \<Longrightarrow> wpi (f x) t"
  shows "wpi (abind m f) s"
proof -
  have "wp m (\<lambda>_ t. untouched s t) (\<lambda>_ _. True) s" using un.withinD [OF assms(1), of s] by (auto simp: wp_def split: prod.splits sum.splits)
  then show ?thesis unfolding wp_abind by (rule wp_mono) (use assms(2,3) pay_inv_untouched in auto)
qed

end
