(* ===== verification/Payment_Safety.thy ===== *)
theory Payment_Safety
  imports Payment_Invariant
begin

text \<open>
  Every entry point of payments keeps the invariant, whatever the provider answers and whatever facts arrive (\<open>step_safe\<close>).
\<close>

section \<open>Updates of an order\<close>

lemma wp_on_desk [wp]: "wp (on_desk m) Q E s = wp m (\<lambda>x d. Q x (s\<lparr>pa_desk := d\<rparr>)) (\<lambda>e d. E e (s\<lparr>pa_desk := d\<rparr>)) (pa_desk s)"
  by (simp add: wp_def on_desk_def split: prod.split sum.split)

lemma wp_on_orders [wp]: "wp (on_orders m) Q E s = wp m (\<lambda>x d. Q x (status_triggers (pa_desk s) (s\<lparr>pa_desk := d\<rparr>)))
    (\<lambda>e d. E e (status_triggers (pa_desk s) (s\<lparr>pa_desk := d\<rparr>))) (pa_desk s)"
  by (simp add: wp_def on_orders_def split: prod.split sum.split)

definition paid_after :: "int \<Rightarrow> string \<Rightarrow> order \<Rightarrow> order \<Rightarrow> pay \<Rightarrow> pay" where
  "paid_after now oid x y s = status_triggers (pa_desk s) (s\<lparr>pa_desk := updated now oid x y (pa_desk s)\<rparr>)"

lemma paid_after_simps [simp]:
  "pa_desk (paid_after now oid x y s) = updated now oid x y (pa_desk s)" "pa_ledger (paid_after now oid x y s) = pa_ledger s"
  "order_row (paid_after now oid x y s) k = (if k = oid then Some y else order_row s k)"
  by (simp_all add: paid_after_def status_triggers_def order_row_def)

lemma wp_update_paid:
  assumes "order_row s oid = Some x"
    "order_snapshot_guard x (f x) \<Longrightarrow> order_transition_guard x (f x) \<Longrightarrow> order_checks (f x) \<Longrightarrow> wp (g ()) Q (\<lambda>_ _. True) (paid_after now oid x (f x) s)"
  shows "wp (abind (update_paid now oid f) g) Q (\<lambda>_ _. True) s"
  using assms by (simp add: update_paid_def update_order_def wp constraint_def order_row_def paid_after_def updated_def)

lemma wp_update_missing:
  "order_row s oid = None \<Longrightarrow> wp (g ()) Q E (status_triggers (pa_desk s) s) \<Longrightarrow> wp (abind (update_paid now oid f) g) Q E s"
  by (simp add: update_paid_def update_order_def wp order_row_def)

lemma triggers_idle: "untouched s (status_triggers d s)"
  by (simp add: untouched_def status_triggers_def same_rows_def)

text \<open>What an update of a payment may do to an order.\<close>

definition fine :: "order \<Rightarrow> order \<Rightarrow> bool" where
  "fine x y \<longleftrightarrow> clock_ok y \<and> settle_ok y \<and> (od_status x = DISPUTED \<longrightarrow> od_status y = DISPUTED)
     \<and> (od_settlement x = Settled_out \<longrightarrow> od_settlement y = Settled_out)"

lemma row_ok: "pay_inv s \<Longrightarrow> order_row s oid = Some x \<Longrightarrow> order_ok x"
  by (simp add: pay_inv_def desk_inv_def orders_ok_def order_row_def)

lemma left_awaiting: "order_transition_guard x y \<Longrightarrow> od_status x \<noteq> AWAITING_PAYMENT \<Longrightarrow> od_status y \<noteq> AWAITING_PAYMENT"
  by (cases "od_status x") (auto simp: order_transition_guard_def)

lemma desk_paid_after:
  assumes "desk_inv None (pa_desk s)" "order_row s oid = Some x" "order_snapshot_guard x y" "order_checks y" "fine x y"
  shows "desk_inv None (pa_desk (paid_after now oid x y s))"
proof -
  have x: "mget (dk_orders (pa_desk s)) oid = Some x" "order_ok x" "disputes_ok None (pa_desk s)"
    using assms(1,2) by (auto simp: desk_inv_def orders_ok_def order_row_def)
  then have "order_ok y" using assms(3-5) by (simp add: order_ok_def fine_def order_snapshot_guard_def)
  then show ?thesis using desk_updated [OF assms(1) x(1) assms(3)] disputes_updated [OF x(3,1)] assms(5) by (simp add: fine_def)
qed

lemma capture_row:
  "money_inv busy s \<Longrightarrow> captured s oid k b \<Longrightarrow>
   \<exists>x. order_row s oid = Some x \<and> od_status x \<noteq> AWAITING_PAYMENT \<and> entries_total (Order_principal oid) b = - od_amount x"
  unfolding money_inv_def captures_ok_def by blast

lemma capture_once: "money_inv busy s \<Longrightarrow> captured s oid k b \<Longrightarrow> captured s oid k' b' \<Longrightarrow> k' = k"
  unfolding money_inv_def captures_ok_def by blast

lemma payout_once: "money_inv busy s \<Longrightarrow> payout s oid k b \<Longrightarrow> payout s oid k' b' \<Longrightarrow> k' = k"
  unfolding money_inv_def releases_ok_def by blast

lemma release_row:
  "money_inv busy s \<Longrightarrow> payout s oid k b \<Longrightarrow> \<exists>x. order_row s oid = Some x \<and> od_settlement x = Settled_out"
  unfolding money_inv_def releases_ok_def by blast

lemma booked_paid_after [simp]:
  "captured (paid_after now oid x y s) k key b = captured s k key b" "payout (paid_after now oid x y s) k key b = payout s k key b"
  by (simp_all add: captured_def payout_def)

lemma money_paid_after:
  assumes inv: "money_inv busy s" and x: "order_row s oid = Some x" and g: "order_snapshot_guard x y" "order_transition_guard x y"
    and keep: "od_settlement x = Settled_out \<Longrightarrow> od_settlement y = Settled_out"
    and paid: "paid_status (od_status y) \<Longrightarrow> paid_status (od_status x) \<or> busy' = Some oid" and busy: "busy' = busy \<or> busy = None"
  shows "money_inv busy' (paid_after now oid x y s)"
proof -
  have "captures_ok (paid_after now oid x y s)"
    unfolding captures_ok_def
  proof (intro allI impI conjI)
    fix k key b assume b: "captured (paid_after now oid x y s) k key b"
    then obtain z where z: "order_row s k = Some z" "od_status z \<noteq> AWAITING_PAYMENT" "entries_total (Order_principal k) b = - od_amount z"
      using capture_row [OF inv, of k key b] b by auto
    then show "\<exists>z. order_row (paid_after now oid x y s) k = Some z \<and> od_status z \<noteq> AWAITING_PAYMENT \<and> entries_total (Order_principal k) b = - od_amount z"
      using x left_awaiting [OF g(2)] g(1) by (auto simp: order_snapshot_guard_def)
  qed (use capture_once [OF inv] in \<open>simp; blast\<close>)
  moreover have "releases_ok (paid_after now oid x y s)"
    using inv x keep by (fastforce simp: money_inv_def releases_ok_def)
  moreover have "work_paid busy' (paid_after now oid x y s)"
    using inv x paid busy by (auto simp: money_inv_def work_paid_def split: if_splits)
  ultimately show ?thesis using inv by (simp add: money_inv_def pool_keys_ok_def)
qed

lemma pay_paid_after:
  assumes "pay_inv s" "order_row s oid = Some x" "order_snapshot_guard x y" "order_transition_guard x y" "order_checks y" "fine x y"
    "paid_status (od_status y) \<Longrightarrow> paid_status (od_status x)"
  shows "pay_inv (paid_after now oid x y s)"
  using desk_paid_after [of s oid x y now] money_paid_after [of None s oid x y None now] assms by (auto simp: pay_inv_def fine_def)

text \<open>The update of a row that the action has read, and one guarded by a \<open>where\<close>.\<close>

lemma wpi_update:
  assumes "pay_inv s" "order_row s oid = Some x"
    and "order_ok x \<Longrightarrow> order_transition_guard x (f x) \<Longrightarrow> fine x (f x) \<and> (paid_status (od_status (f x)) \<longrightarrow> paid_status (od_status x))"
    and "\<And>t. pay_inv t \<Longrightarrow> order_row t oid = Some (f x) \<Longrightarrow> pa_ledger t = pa_ledger s \<Longrightarrow> wpi (g ()) t"
  shows "wpi (abind (update_paid now oid f) g) s"
  by (rule wp_update_paid [OF assms(2)])
    (use assms(3) [OF row_ok [OF assms(1,2)]] pay_paid_after [OF assms(1,2)] assms(4) in auto)

lemma safe_update:
  assumes "\<And>x. order_ok x \<Longrightarrow> order_transition_guard x (f x) \<Longrightarrow> fine x (f x) \<and> (paid_status (od_status (f x)) \<longrightarrow> paid_status (od_status x))"
  shows "safe (update_paid now oid f)"
proof (rule safeI)
  fix s assume s: "pay_inv s"
  have "wpi (abind (update_paid now oid f) (\<lambda>_. areturn ())) s"
  proof (cases "order_row s oid")
    case None
    then show ?thesis using s pay_inv_untouched [OF triggers_idle] by (intro wp_update_missing) (auto simp: wp)
  next
    case (Some x)
    show ?thesis by (rule wpi_update [where f = f, OF s Some]) (use assms in \<open>auto simp: wp\<close>)
  qed
  then show "wpi (update_paid now oid f) s" by (simp add: wp)
qed

lemma safe_where:
  assumes "\<And>x. order_ok x \<Longrightarrow> guard x \<Longrightarrow> order_transition_guard x (f x) \<Longrightarrow> fine x (f x) \<and> (paid_status (od_status (f x)) \<longrightarrow> paid_status (od_status x))"
  shows "safe (update_where now oid guard f)"
proof (rule safeI)
  fix s assume s: "pay_inv s"
  show "wpi (update_where now oid guard f) s"
  proof (cases "order_row s oid")
    case (Some x)
    have "wpi (abind (update_paid now oid f) (\<lambda>_. areturn True)) s" if "guard x"
      by (rule wpi_update [OF s Some]) (use assms that in \<open>auto simp: wp\<close>)
    then show ?thesis using s Some by (simp add: update_where_def wp_abind wp_aget wp_areturn)
  qed (use s in \<open>simp add: update_where_def wp\<close>)
qed


section \<open>Actions on a row that was read\<close>

definition safe_row :: "string \<Rightarrow> order \<Rightarrow> 'a pay_action \<Rightarrow> bool" where
  "safe_row oid x m \<longleftrightarrow> (\<forall>s. pay_inv s \<longrightarrow> order_row s oid = Some x \<longrightarrow> wpi m s)"

lemma row_safe: "safe m \<Longrightarrow> safe_row oid x m"
  by (simp add: safe_row_def safe_def)

lemma row_idle:
  assumes "un.within m" "\<And>y. safe_row oid x (f y)"
  shows "safe_row oid x (abind m f)"
  unfolding safe_row_def
proof (intro allI impI)
  fix s assume s: "pay_inv s" "order_row s oid = Some x"
  show "wpi (abind m f) s" by (rule wpi_idle [OF assms(1) s(1)]) (use assms(2) s(2) row_untouched in \<open>auto simp: safe_row_def\<close>)
qed

lemma row_update:
  assumes "order_ok x \<Longrightarrow> order_transition_guard x (f x) \<Longrightarrow> fine x (f x) \<and> (paid_status (od_status (f x)) \<longrightarrow> paid_status (od_status x))"
    and "safe_row oid (f x) (g ())"
  shows "safe_row oid x (abind (update_paid now oid f) g)"
  unfolding safe_row_def by (intro allI impI wpi_update) (use assms in \<open>auto simp: safe_row_def\<close>)

lemma row_last:
  assumes "order_ok x \<Longrightarrow> order_transition_guard x (f x) \<Longrightarrow> fine x (f x) \<and> (paid_status (od_status (f x)) \<longrightarrow> paid_status (od_status x))"
  shows "safe_row oid x (update_paid now oid f)"
proof -
  have "safe_row oid x (abind (update_paid now oid f) (\<lambda>_. areturn ()))" by (rule row_update [where f = f]) (use assms row_safe [OF safe(1)] in auto)
  then show ?thesis by (simp add: safe_row_def wp)
qed

lemma row_if: "(b \<Longrightarrow> safe_row oid x m) \<Longrightarrow> (\<not> b \<Longrightarrow> safe_row oid x m') \<Longrightarrow> safe_row oid x (if b then m else m')"
  by simp

lemma row_option: "(z = None \<Longrightarrow> safe_row oid x m) \<Longrightarrow> (\<And>y. z = Some y \<Longrightarrow> safe_row oid x (f y)) \<Longrightarrow> safe_row oid x (case z of None \<Rightarrow> m | Some y \<Rightarrow> f y)"
  by (cases z) simp_all

lemma row_let: "(\<And>y. y = v \<Longrightarrow> safe_row oid x (f y)) \<Longrightarrow> safe_row oid x (let y = v in f y)"
  by simp

lemma row_check: "(b \<Longrightarrow> safe_row oid x (f ())) \<Longrightarrow> safe_row oid x (abind (acheck b e) f)"
  by (simp add: safe_row_def wp)

lemma safe_with_row: "(\<And>x. safe_row oid x (f x)) \<Longrightarrow> safe (with_row oid f)"
  by (auto simp: with_row_def safe_def safe_row_def wp split: option.split)

section \<open>Bookings\<close>

definition plain_booking :: "string \<Rightarrow> string \<Rightarrow> bool" where
  "plain_booking kind key \<longleftrightarrow> kind \<noteq> ''FUNDING_CAPTURED'' \<and> kind \<noteq> ''SETTLEMENT_RELEASED'' \<and> (\<forall>oid. key \<noteq> ''funding:pool:'' @ oid)"

definition booked :: "string \<Rightarrow> booking \<Rightarrow> pay \<Rightarrow> pay" where
  "booked key b s = s\<lparr>pa_ledger := mput key b (pa_ledger s)\<rparr>"

lemma booked_simps [simp]: "pa_desk (booked key b s) = pa_desk s" "order_row (booked key b s) oid = order_row s oid"
  "mget (pa_ledger (booked key b s)) k = (if k = key then Some b else mget (pa_ledger s) k)"
  by (simp_all add: booked_def order_row_def)

lemma wp_ledger:
  assumes "mget (pa_ledger s) key \<noteq> None \<Longrightarrow> wp (f False) Q (\<lambda>_ _. True) s"
    and "mget (pa_ledger s) key = None \<Longrightarrow> wp (f True) Q (\<lambda>_ _. True)
      (booked key \<lparr>bk_order = oid, bk_kind = kind, bk_currency = c, bk_entries = filter (\<lambda>(a, n). n \<noteq> 0) entries\<rparr> s)"
  shows "wp (abind (ledger oid kind key entries c) f) Q (\<lambda>_ _. True) s"
  using assms by (auto simp: ledger_def booked_def wp split: option.split)

lemma booked_plain:
  assumes "pay_inv s" "mget (pa_ledger s) key = None" "plain_booking (bk_kind b) key"
  shows "pay_inv (booked key b s)"
proof -
  have c: "captured (booked key b s) oid k b' = captured s oid k b'" "payout (booked key b s) oid k b' = payout s oid k b'" for oid k b'
    using assms(2,3) by (auto simp: captured_def payout_def plain_booking_def)
  have "\<forall>oid. ''funding:pool:'' @ oid \<noteq> key" using assms(3) unfolding plain_booking_def by metis
  then show ?thesis using assms(1)
    by (simp add: pay_inv_def money_inv_def captures_ok_def releases_ok_def work_paid_def c pool_keys_ok_def)
qed

lemma safe_ledger [safe]:
  assumes "plain_booking kind key"
  shows "safe (ledger oid kind key entries c)"
proof (rule safeI)
  fix s assume s: "pay_inv s"
  have "wpi (abind (ledger oid kind key entries c) areturn) s"
    by (rule wp_ledger) (use booked_plain [OF s] assms s in \<open>auto simp: wp\<close>)
  then show "wpi (ledger oid kind key entries c) s" by (simp add: wp)
qed

section \<open>Confirmed payments\<close>

text \<open>The order is funded and its capture is about to be booked under \<open>key\<close>.\<close>

definition paying :: "string \<Rightarrow> string \<Rightarrow> int \<Rightarrow> pay \<Rightarrow> bool" where
  "paying oid key amount s \<longleftrightarrow> desk_inv None (pa_desk s) \<and> money_inv (Some oid) s \<and> mget (pa_ledger s) key = None
     \<and> (\<exists>y. order_row s oid = Some y \<and> od_status y = FUNDED \<and> od_amount y = amount) \<and> (\<forall>k b. \<not> captured s oid k b)"

lemma paying_untouched: "untouched s t \<Longrightarrow> paying oid key amount t = paying oid key amount s"
  by (simp add: paying_def money_inv_untouched desk_inv_untouched row_untouched) (simp add: untouched_def captured_def)

lemma paying_idle:
  assumes "un.within m" "paying oid key amount s" "\<And>x t. paying oid key amount t \<Longrightarrow> wp (f x) Q (\<lambda>_ _. True) t"
  shows "wp (abind m f) Q (\<lambda>_ _. True) s"
proof -
  have "wp m (\<lambda>_ t. untouched s t) (\<lambda>_ _. True) s" using un.withinD [OF assms(1), of s] by (auto simp: wp_def split: prod.splits sum.splits)
  then show ?thesis unfolding wp_abind by (rule wp_mono) (use assms(2,3) paying_untouched in auto)
qed

lemma booked_capture:
  assumes p: "paying oid key amount s" and b: "bk_order b = oid" "bk_kind b = ''FUNDING_CAPTURED''" "entries_total (Order_principal oid) b = - amount"
    and key: "\<And>o'. key = ''funding:pool:'' @ o' \<Longrightarrow> o' = oid"
  shows "pay_inv (booked key b s)"
proof -
  have s: "desk_inv None (pa_desk s)" "money_inv (Some oid) s" "mget (pa_ledger s) key = None" "\<forall>k b. \<not> captured s oid k b"
    using p by (auto simp: paying_def)
  obtain y where y: "order_row s oid = Some y" "od_status y = FUNDED" "od_amount y = amount" using p by (auto simp: paying_def)
  have c: "captured (booked key b s) o' k b' \<longleftrightarrow> (o' = oid \<and> k = key \<and> b' = b) \<or> captured s o' k b'" for o' k b'
    using b s(3) by (auto simp: captured_def)
  have r: "payout (booked key b s) o' k b' = payout s o' k b'" for o' k b' using b s(3) by (auto simp: payout_def)
  have "captures_ok (booked key b s)"
    unfolding captures_ok_def c booked_simps
    using y b(3) s(4) capture_row [OF s(2)] capture_once [OF s(2)] by (metis order_status.distinct(1))
  moreover have "releases_ok (booked key b s)" using s(2) by (simp add: money_inv_def releases_ok_def r)
  moreover have "work_paid None (booked key b s)" using s(2) unfolding money_inv_def work_paid_def c booked_simps by blast
  moreover have "pool_keys_ok (booked key b s)" using s(2) b key unfolding money_inv_def pool_keys_ok_def booked_simps by auto
  ultimately show ?thesis using s(1) by (simp add: pay_inv_def money_inv_def)
qed

lemma paying_booked:
  assumes "paying oid key amount s" "\<And>o'. key = ''funding:pool:'' @ o' \<Longrightarrow> o' = oid"
    "entries_total (Order_principal oid) \<lparr>bk_order = oid, bk_kind = ''FUNDING_CAPTURED'', bk_currency = c, bk_entries = filter (\<lambda>(a, n). n \<noteq> 0) entries\<rparr> = - amount"
    "safe (f True)"
  shows "wpi (abind (ledger oid ''FUNDING_CAPTURED'' key entries c) f) s"
  by (rule wp_ledger) (use assms booked_capture [OF assms(1)] safeD [OF assms(4)] in \<open>auto simp: paying_def\<close>)


lemma paid_inv_cong: "dk_orders (pa_desk t) = dk_orders (pa_desk s) \<Longrightarrow> pa_ledger t = pa_ledger s \<Longrightarrow> money_inv busy t = money_inv busy s"
  by (simp add: money_inv_def captures_ok_def releases_ok_def work_paid_def pool_keys_ok_def captured_def payout_def order_row_def)

lemma paid_twice: "od_status z = od_status y \<Longrightarrow> updated now oid y z (updated now oid x y d) = updated now oid x z d"
  by (simp add: updated_def order_amendment_expiry_def mput_def expire_amendments_def)

lemma start_clock_keeps: "od_currency (start_clock x) = od_currency x" "od_status (start_clock x) = od_status x" "od_buyer (start_clock x) = od_buyer x"
    "od_creator (start_clock x) = od_creator x" "od_amount (start_clock x) = od_amount x" "od_terms (start_clock x) = od_terms x"
    "od_version (start_clock x) = od_version x" "od_settlement (start_clock x) = od_settlement x"
  by (auto simp: start_clock_def split: option.split)

lemma start_clock_fine:
  assumes "order_ok x" "od_status x = AWAITING_PAYMENT" "y = start_clock (funded_by now rail method fee x)"
  shows "clock_ok y \<and> settle_ok y"
  using assms unfolding start_clock_def by (auto simp: funded_by_def clock_ok_def settle_ok_def order_ok_def bump_order_def split: option.splits)

text \<open>Between the two updates the order is funded and its clock not yet started.\<close>

lemma confirm_update:
  assumes inv: "pay_inv s" and x: "order_row s oid = Some x" "od_status x = AWAITING_PAYMENT" and key: "mget (pa_ledger s) key = None"
    and f: "f x = funded_by now rail way fee x"
    and g: "\<And>t. paying oid key (od_amount x) t \<Longrightarrow> wp (g ()) Q (\<lambda>_ _. True) t"
  shows "wp (abind (update_paid now oid f) (\<lambda>_. abind (on_desk (recomputeWorkClock now oid)) g)) Q (\<lambda>_ _. True) s"
proof (rule wp_update_paid [OF x(1)])
  let ?y = "f x" and ?z = "start_clock (f x)"
  let ?t = "(paid_after now oid x ?y s)\<lparr>pa_desk := updated now oid x ?z (pa_desk s)\<rparr>"
  assume guards: "order_snapshot_guard x ?y" "order_transition_guard x ?y" "order_checks ?y"
  have snap: "order_snapshot_guard x ?z" "order_transition_guard x ?z"
    using guards(1,2) by (auto simp: order_snapshot_guard_def order_transition_guard_def start_clock_keeps)
  have ok: "clock_ok ?z" "settle_ok ?z" using start_clock_fine [OF row_ok [OF inv x(1)] x(2), of ?z now rail way fee] f by auto
  have amount: "od_amount ?z = od_amount x" "od_status ?z = FUNDED" using guards(1) f
    by (auto simp: order_snapshot_guard_def start_clock_keeps funded_by_def bump_order_def)
  have still: "od_settlement x = Not_ready" using row_ok [OF inv x(1)] x(2) by (simp add: order_ok_def settle_ok_def)
  have dinv: "desk_inv None (pa_desk s)" using inv by (simp add: pay_inv_def)
  have fine: "fine x ?z" using ok x(2) still by (simp add: fine_def)
  have none: "\<not> captured s oid k b" for k b
    using capture_row [of None s oid k b] inv x by (auto simp: pay_inv_def)
  have money: "money_inv (Some oid) (paid_after now oid x ?z s)"
    by (rule money_paid_after [of None s oid x ?z]) (use inv x snap still in \<open>simp_all add: pay_inv_def\<close>)
  have "paying oid key (od_amount x) ?t" if "order_checks ?z"
  proof -
    have "desk_inv None (pa_desk (paid_after now oid x ?z s))"
      by (rule desk_paid_after [OF dinv x(1) snap(1) that fine])
    moreover have "money_inv (Some oid) ?t"
      using money by (rule iffD2 [OF paid_inv_cong, rotated 2]) simp_all
    ultimately show ?thesis using amount none key by (simp add: paying_def order_row_def captured_def)
  qed
  then show "wp (abind (on_desk (recomputeWorkClock now oid)) g) Q (\<lambda>_ _. True) (paid_after now oid x ?y s)"
    using paid_twice [of ?z ?y now oid x "pa_desk s"] g
    by (simp add: recomputeWorkClock_def update_order_def wp constraint_def start_clock_keeps flip: updated_def)
qed


section \<open>Released settlements\<close>

text \<open>The settlement is done and its payout is about to be booked.\<close>

definition releasing :: "string \<Rightarrow> pay \<Rightarrow> bool" where
  "releasing oid s \<longleftrightarrow> pay_inv s \<and> (\<exists>y. order_row s oid = Some y \<and> od_settlement y = Settled_out) \<and> (\<forall>k b. \<not> payout s oid k b)"

lemma releasing_untouched: "untouched s t \<Longrightarrow> releasing oid t = releasing oid s"
  by (simp add: releasing_def pay_inv_untouched row_untouched) (simp add: untouched_def payout_def)

lemma releasing_idle:
  assumes "un.within m" "releasing oid s" "\<And>x t. releasing oid t \<Longrightarrow> wpi (f x) t"
  shows "wpi (abind m f) s"
proof -
  have "wp m (\<lambda>_ t. untouched s t) (\<lambda>_ _. True) s" using un.withinD [OF assms(1), of s] by (auto simp: wp_def split: prod.splits sum.splits)
  then show ?thesis unfolding wp_abind by (rule wp_mono) (use assms(2,3) releasing_untouched in auto)
qed

lemma booked_payout:
  assumes p: "releasing oid s" "mget (pa_ledger s) key = None" and b: "bk_order b = oid" "bk_kind b = ''SETTLEMENT_RELEASED''"
    and key: "\<And>o'. key \<noteq> ''funding:pool:'' @ o'"
  shows "pay_inv (booked key b s)"
proof -
  have s: "desk_inv None (pa_desk s)" "money_inv None s" using p(1) by (auto simp: releasing_def pay_inv_def)
  have r: "payout (booked key b s) o' k b' \<longleftrightarrow> (o' = oid \<and> k = key \<and> b' = b) \<or> payout s o' k b'" for o' k b'
    using b p(2) by (auto simp: payout_def)
  have c: "captured (booked key b s) o' k b' = captured s o' k b'" for o' k b' using b p(2) by (auto simp: captured_def)
  have no: "\<And>k b. \<not> payout s oid k b" "\<exists>y. order_row s oid = Some y \<and> od_settlement y = Settled_out" using p(1) by (auto simp: releasing_def)
  have "releases_ok (booked key b s)"
    unfolding releases_ok_def r booked_simps using no release_row [OF s(2)] payout_once [OF s(2)] by blast
  moreover have "pool_keys_ok (booked key b s)" using s(2) key unfolding money_inv_def pool_keys_ok_def booked_simps by simp metis
  ultimately show ?thesis using s by (simp add: pay_inv_def money_inv_def captures_ok_def work_paid_def c)
qed

lemma releasing_booked:
  assumes "releasing oid s" "\<And>o'. key \<noteq> ''funding:pool:'' @ o'" "\<And>b. safe (f b)"
  shows "wpi (abind (ledger oid ''SETTLEMENT_RELEASED'' key entries c) f) s"
  by (rule wp_ledger) (use booked_payout [OF assms(1)] assms safeD [OF assms(3)] in \<open>auto simp: releasing_def\<close>)

lemma settled_fine:
  assumes "order_ok x" "od_settlement x \<in> {Ready, Settling}"
  shows "od_status x = APPROVED \<Longrightarrow> fine x (bump_order (x\<lparr>od_settlement := Settled_out, od_status := COMPLETED, od_completed_at := Some now\<rparr>))"
    "fine x (x\<lparr>od_settlement := Settled_out\<rparr>)"
  using assms by (cases "od_status x"; auto simp: fine_def order_ok_def clock_ok_def settle_ok_def bump_order_def)+

lemma row_settled:
  assumes "od_settlement x \<in> {Ready, Settling}" "\<And>t. releasing oid t \<Longrightarrow> wpi (g ()) t"
  shows "safe_row oid x (abind (settled now oid x) g)"
  unfolding safe_row_def
proof (intro allI impI)
  fix s assume s: "pay_inv s" "order_row s oid = Some x"
  note ok = settled_fine [OF row_ok [OF s] assms(1)]
  have none: "\<not> payout s oid k b" for k b using release_row [of None s oid k b] s assms(1) by (auto simp: pay_inv_def)
  have later: "wpi (g ()) t" if "pay_inv t" "order_row t oid = Some (f x)" "pa_ledger t = pa_ledger s" "od_settlement (f x) = Settled_out" for f :: "order \<Rightarrow> order" and t
    by (rule assms(2)) (use none that in \<open>auto simp: releasing_def payout_def\<close>)
  show "wpi (abind (settled now oid x) g) s"
  proof (cases "od_status x = APPROVED")
    case True
    have "wpi (abind (update_paid now oid (\<lambda>y. bump_order (y\<lparr>od_settlement := Settled_out, od_status := COMPLETED, od_completed_at := Some now\<rparr>)))
        (\<lambda>_. abind (outbox (''notify:order.completed:'' @ oid) ''order.completed'' (od_buyer x)) g)) s"
    proof (rule wpi_update [OF s])
      fix t assume t: "pay_inv t" "order_row t oid = Some (bump_order (x\<lparr>od_settlement := Settled_out, od_status := COMPLETED, od_completed_at := Some now\<rparr>))"
        "pa_ledger t = pa_ledger s"
      then have "releasing oid t" using none by (auto simp: releasing_def payout_def bump_order_def)
      then show "wpi (abind (outbox (''notify:order.completed:'' @ oid) ''order.completed'' (od_buyer x)) g) t"
        by (rule releasing_idle [OF idle_asides(3)]) (simp add: assms(2))
    qed (use ok True in \<open>auto simp: paid_status_def bump_order_def\<close>)
    then show ?thesis using True by (simp add: settled_def wp)
  next
    case False
    have "wpi (abind (update_paid now oid (\<lambda>y. y\<lparr>od_settlement := Settled_out\<rparr>)) g) s"
      by (rule wpi_update [OF s]) (use ok False later [where f = "\<lambda>y. y\<lparr>od_settlement := Settled_out\<rparr>"] in \<open>auto simp: paid_status_def\<close>)
    then show ?thesis using False by (simp add: settled_def)
  qed
qed

end
