(* ===== verification/Payment_Requests.thy ===== *)
theory Payment_Requests
  imports Payment_Safety
begin

text \<open>
  Requests to the provider keep the invariant of payments: funding intents, refunds, releases and recoveries.
\<close>

section \<open>Rules\<close>

lemmas safe_asides [safe] = idle_asides [THEN safe_idle] idle_answer [THEN safe_idle] idle_holds [THEN safe_idle] idle_cancel [THEN safe_idle]
  idle_table [THEN safe_idle] idle_recovery [THEN safe_idle] idle_recoveries [THEN safe_idle] idle_match [THEN safe_idle]
  idle_provider_refund [THEN safe_idle]

lemmas row_idles = row_idle [OF un.within_alift] idle_asides [THEN row_idle] idle_answer [THEN row_idle] idle_holds [THEN row_idle]
  idle_cancel [THEN row_idle] idle_match [THEN row_idle]

lemma safe_modify [safe]: "(\<And>s. pa_desk (u s) = pa_desk s) \<Longrightarrow> (\<And>s. pa_ledger (u s) = pa_ledger s) \<Longrightarrow> safe (amodify u)"
  by (rule safe_idle [OF idle_modify])

lemma safe_result [safe]:
  "(\<And>i t. safe (f i t)) \<Longrightarrow> (\<And>i. safe (g i)) \<Longrightarrow> (\<And>i. safe (h i)) \<Longrightarrow> safe (case r of READY i t \<Rightarrow> f i t | RETRY i \<Rightarrow> g i | REJECTED i \<Rightarrow> h i)"
  by (cases r) simp_all

lemma safe_rail: "safe_row oid x f \<Longrightarrow> safe_row oid x g \<Longrightarrow> safe_row oid x h \<Longrightarrow> safe_row oid x (case r of MOCK_PROVIDER \<Rightarrow> f | CRYPTO \<Rightarrow> g | POOL \<Rightarrow> h)"
  by (cases r) simp_all

lemma row_get: "(\<And>s. order_row s oid = Some x \<Longrightarrow> safe_row oid x (f (g s))) \<Longrightarrow> safe_row oid x (abind (aget g) f)"
  by (simp add: safe_row_def wp)

lemma row_where:
  assumes "order_ok x \<Longrightarrow> guard x \<Longrightarrow> order_transition_guard x (f x) \<Longrightarrow> fine x (f x) \<and> (paid_status (od_status (f x)) \<longrightarrow> paid_status (od_status x))"
    and "\<And>b. safe (g b)"
  shows "safe_row oid x (abind (update_where now oid guard f) g)"
proof (cases "guard x")
  case True
  have "safe_row oid x (abind (update_paid now oid f) (\<lambda>_. g True))" by (rule row_update) (use assms True row_safe in auto)
  with True show ?thesis by (simp add: safe_row_def update_where_def wp)
next
  case False
  then show ?thesis using row_safe [OF assms(2)] by (simp add: safe_row_def update_where_def wp)
qed

lemma safe_read: "(\<And>s. safe (f (g s))) \<Longrightarrow> safe (abind (aget g) f)"
  by (simp add: safe_def wp)

lemma safe_read_row:
  assumes "safe m" "\<And>x. safe_row oid x (f x)"
  shows "safe (abind (aget (\<lambda>s. order_row s oid)) (\<lambda>row. case row of None \<Rightarrow> m | Some x \<Rightarrow> f x))"
  using assms by (auto simp: safe_def safe_row_def wp split: option.split)

text \<open>A settlement that waits for the provider.\<close>

lemma pending_fine:
  assumes "order_ok x" "od_settlement x = Ready"
  shows "fine x (settlement_pending x)" "od_status (settlement_pending x) = od_status x"
  using assms by (cases "od_status x"; auto simp: fine_def order_ok_def clock_ok_def settle_ok_def bump_order_def settlement_pending_def)+

lemma safe_pending [safe]: "safe (update_where now oid (\<lambda>y. od_settlement y = Ready) settlement_pending)"
  by (rule safe_where) (use pending_fine in auto)

section \<open>Funding intents\<close>

lemma reopened_fine:
  assumes "order_ok x" "od_status x = AWAITING_PAYMENT"
  shows "fine x (bump_order (x\<lparr>od_payment := Pay_pending\<rparr>))" "od_status (bump_order (x\<lparr>od_payment := Pay_pending\<rparr>)) = od_status x"
  using assms by (auto simp: fine_def order_ok_def clock_ok_def settle_ok_def bump_order_def)

lemma row_branch:
  "(b \<Longrightarrow> safe_row oid x (abind m f)) \<Longrightarrow> (\<not> b \<Longrightarrow> safe_row oid x (abind m' f)) \<Longrightarrow> safe_row oid x (abind (if b then m else m') f)"
  by simp

lemma row_pure: "safe_row oid x (f y) \<Longrightarrow> safe_row oid x (abind (areturn y) f)"
  by (simp add: safe_row_def wp)

lemma attempt_row:
  assumes x: "od_status x = AWAITING_PAYMENT"
  shows "safe_row oid x (funding_attempt env now buyerId oid x method attempts)"
  unfolding funding_attempt_def
  by (intro row_let row_idles row_branch row_update row_pure row_safe safe conjI impI) (use reopened_fine x in auto)

lemma safe_intent [safe]: "safe (ensureFundingIntent env now buyerId oid method)"
  unfolding ensureFundingIntent_def
  by (intro safe safe_read_row row_check row_get row_if row_idles attempt_row; simp)

lemma safe_bank_transfer [safe]: "safe (startBankTransfer env now buyerId oid)"
  unfolding startBankTransfer_def Let_def by (intro safe; simp)

section \<open>Refunds and releases\<close>

lemma returned_fine:
  assumes "order_ok x" "od_status x = CANCELLED" "\<not> agreed_amount x < od_amount x"
  shows "fine x (bump_order (x\<lparr>od_status := REFUNDED, od_payment := Pay_refunded\<rparr>))"
  using assms by (auto simp: fine_def order_ok_def clock_ok_def settle_ok_def bump_order_def agreed_amount_def split: option.splits)

lemma pool_refund_row: "safe_row oid x (pool_refund env now oid x)"
  unfolding pool_refund_def
  by (intro row_check row_idles row_get row_branch row_update row_pure row_safe safe conjI impI)
    (use returned_fine in \<open>auto simp: paid_status_def bump_order_def plain_booking_def\<close>)

lemma request_refund_row: "safe_row oid x (request_refund env now oid x reason)"
  unfolding request_refund_def by (intro safe_rail pool_refund_row row_safe safe)

lemma pool_pending_fine:
  assumes "order_ok x" "od_settlement x \<in> {Ready, Settling}"
  shows "fine x (x\<lparr>od_settlement := Settling\<rparr>)"
  using assms by (cases "od_status x") (auto simp: fine_def order_ok_def clock_ok_def settle_ok_def)

lemma row_pair: "(\<And>a b. safe_row oid x (f a b)) \<Longrightarrow> safe_row oid x (case z of (a, b) \<Rightarrow> f a b)"
  by (cases z) simp

lemma finalize_row:
  assumes "od_settlement x \<in> {Ready, Settling}"
  shows "safe_row oid x (finalizePoolOrder env now oid x)"
proof -
  have paid: "wpi (abind (pay_event oid kind' None None) (\<lambda>_. abind (ledger oid ''SETTLEMENT_RELEASED'' (''release:pool:'' @ oid) entries c)
      (\<lambda>_. abind (outbox key template who) (\<lambda>_. areturn True)))) t" if "releasing oid t" for t kind' entries c key template who
    using that by (rule releasing_idle [OF idle_asides(2)]) (rule releasing_booked, assumption, simp, intro safe)
  then show ?thesis unfolding finalizePoolOrder_def
    by (intro row_option row_pair row_if row_settled row_safe [OF safe_basic(1)] assms paid)
qed

lemma row_then: "safe_row oid x m \<Longrightarrow> (\<And>y. safe (f y)) \<Longrightarrow> safe_row oid x (abind m f)"
proof -
  assume m: "safe_row oid x m" and f: "\<And>y. safe (f y)"
  show ?thesis unfolding safe_row_def
  proof (intro allI impI)
    fix s assume s: "pay_inv s" "order_row s oid = Some x"
    show "wpi (abind m f) s" unfolding wp_abind by (rule wp_mono [where Q = "\<lambda>_. pay_inv"]) (use m f s in \<open>auto simp: safe_row_def safe_def\<close>)
  qed
qed

lemma settle_pool_row:
  assumes "od_settlement x \<in> {Ready, Settling}"
  shows "safe_row oid x (settlePoolOrder env now oid x)"
  unfolding settlePoolOrder_def
  by (intro row_idles row_if row_where row_then finalize_row assms safe) (use pool_pending_fine assms in auto)

lemma safe_crypto_release [safe]: "safe (crypto_release env now oid x)"
  unfolding crypto_release_def Let_def by (intro safe)

lemma safe_provider_release [safe]: "safe (provider_release env now oid x)"
  unfolding provider_release_def Let_def by (intro safe)

lemma request_release_row:
  assumes "od_settlement x \<in> {Ready, Settling}"
  shows "safe_row oid x (requestCreatorRelease env now oid x)"
  unfolding requestCreatorRelease_def by (intro row_check safe_rail settle_pool_row row_safe assms safe)

section \<open>Recoveries\<close>

lemma safe_cover [safe]: "safe (coverPostReleaseDeficit env who refundId reason)"
  unfolding coverPostReleaseDeficit_def Let_def by (intro safe) (simp add: plain_booking_def)

end
