(* ===== verification/Payment_Outcomes.thy ===== *)
theory Payment_Outcomes
  imports Payment_Requests
begin

text \<open>
  Facts, jobs and commands keep the invariant of payments, and so does every run of the system (\<open>run_safe\<close>).
\<close>

section \<open>Rules\<close>

lemma safe_matched [safe]: "(\<And>i r oid. safe (handler i r oid)) \<Longrightarrow> safe (matched kind unmatched e handler)"
  unfolding matched_def by (intro safe; simp)

lemma safe_catch: "safe m \<Longrightarrow> (\<And>e. safe (f e)) \<Longrightarrow> (\<And>y. safe (g y)) \<Longrightarrow> safe (acatch (transact m) f g)"
proof (rule safeI)
  fix s assume m: "safe m" and f: "\<And>e. safe (f e)" and g: "\<And>y. safe (g y)" and s: "pay_inv s"
  have "wp (transact m) (\<lambda>_. pay_inv) (\<lambda>_. pay_inv) s"
    using safeD [OF m s] s by (auto simp: wp_def transact_def split: prod.splits sum.splits)
  then show "wpi (acatch (transact m) f g) s" unfolding wp_acatch
    by (rule wp_mono) (use safeD [OF f] safeD [OF g] in auto)
qed

lemma row_catch:
  assumes "un.within m" "\<And>e. safe_row oid x (f e)" "\<And>y. safe_row oid x (g y)"
  shows "safe_row oid x (acatch m f g)"
  unfolding safe_row_def
proof (intro allI impI)
  fix s assume s: "pay_inv s" "order_row s oid = Some x"
  have "wp m (\<lambda>_ t. untouched s t) (\<lambda>_ t. untouched s t) s" using un.withinD [OF assms(1)] by (simp add: wp_state)
  then show "wpi (acatch m f g) s" unfolding wp_acatch
    by (rule wp_mono) (use s assms(2,3) pay_inv_untouched row_untouched in \<open>auto simp: safe_row_def\<close>)
qed

lemma wpi_more: "pay_inv s \<Longrightarrow> order_row s oid = Some x \<Longrightarrow> safe_row oid x m \<Longrightarrow> wpi m s"
  by (simp add: safe_row_def)

section \<open>Digital orders\<close>

lemma row_delivery:
  assumes "safe_row oid x (f ())"
  shows "safe_row oid x (abind (on_desk (insert_delivery d)) f)"
  unfolding safe_row_def
proof (intro allI impI)
  fix s assume s: "pay_inv s" "order_row s oid = Some x"
  let ?t = "s\<lparr>pa_desk := (pa_desk s)\<lparr>dk_deliveries := dk_deliveries (pa_desk s) @ [d]\<rparr>\<rparr>"
  have money: "money_inv None ?t = money_inv None s" by (rule paid_inv_cong) simp_all
  have "desk_inv None (pa_desk ?t)" if "0 < dl_version d" using s(1) that
    by (simp add: pay_inv_def desk_inv_def orders_ok_def amendments_ok_def cancellations_ok_def disputes_ok_def open_dispute_def deliveries_ok_def)
  then have "0 < dl_version d \<Longrightarrow> pay_inv ?t" using s(1) money by (simp add: pay_inv_def)
  moreover have "order_row ?t oid = Some x" using s(2) by (simp add: order_row_def)
  ultimately show "wpi (abind (on_desk (insert_delivery d)) f) s"
    using assms by (auto simp: insert_delivery_def wp constraint_def safe_row_def)
qed

lemma digital_fine:
  assumes "order_ok x" "ot_digital (od_terms x)" "od_status x = FUNDED"
  shows "fine x (bump_order (x\<lparr>od_status := IN_PROGRESS\<rparr>))"
    "fine (bump_order (x\<lparr>od_status := IN_PROGRESS\<rparr>)) (bump_order (bump_order (x\<lparr>od_status := IN_PROGRESS\<rparr>)\<lparr>od_status := DELIVERED, od_review_due_at := z\<rparr>))"
  using assms by (auto simp: fine_def order_ok_def clock_ok_def settle_ok_def bump_order_def)

lemma status_bumped [simp]: "od_status (bump_order x) = od_status x"
  by (simp add: bump_order_def)

lemma safe_digital [safe]: "safe (fulfillDigitalOrder now oid)"
proof (rule safeI)
  fix s assume s: "pay_inv s"
  show "wpi (fulfillDigitalOrder now oid) s"
  proof (cases "order_row s oid")
    case None
    then show ?thesis using s by (simp add: fulfillDigitalOrder_def wp)
  next
    case (Some x)
    have "safe_row oid x (fulfillDigitalOrder now oid)"
      unfolding safe_row_def
    proof (intro allI impI)
      fix s assume s: "pay_inv s" "order_row s oid = Some x"
      have "wpi (if \<not> ot_digital (od_terms x) \<or> od_status x \<noteq> FUNDED \<or> b then areturn False else
          abind (update_paid now oid (\<lambda>x. bump_order (x\<lparr>od_status := IN_PROGRESS\<rparr>))) (\<lambda>_.
           abind (on_desk (insert_delivery d)) (\<lambda>_.
           abind (update_paid now oid (\<lambda>y. bump_order (y\<lparr>od_status := DELIVERED, od_review_due_at := z\<rparr>))) (\<lambda>_.
           abind (pay_event oid ''DIGITAL_DELIVERED'' None None) (\<lambda>_.
           abind (outbox k t u) (\<lambda>_.
           areturn True)))))) s" for b d z k t u
        by (rule wpi_more [OF s]) (intro row_if row_safe [OF safe_basic(1)] row_update row_delivery row_safe safe; (use row_ok [OF s] in \<open>auto simp: paid_status_def digital_fine\<close>)?)
      then show "wpi (fulfillDigitalOrder now oid) s" unfolding fulfillDigitalOrder_def wp_abind wp_aget prod.case s(2) option.case .
    qed
    then show ?thesis using s Some by (rule wpi_more [rotated 2])
  qed
qed


section \<open>Returned transfers and late costs\<close>

lemma safe_notify [safe]: "safe (notify_returned oid x)"
  unfolding notify_returned_def by (intro safe)

lemma safe_cost_insert [safe]: "safe (insert_cost c)"
  unfolding insert_cost_def by (intro safe; simp)

lemma fee_fine:
  assumes "order_ok x"
  shows "fine x (x\<lparr>od_provider_fee := fee\<rparr>)"
  using assms by (auto simp: fine_def order_ok_def clock_ok_def settle_ok_def)

lemma return_fine:
  assumes "order_ok x" "od_payment x \<in> {Pay_succeeded, Pay_refund_pending}"
  shows "fine x (x\<lparr>od_payment := Pay_returned\<rparr>)"
  using assms by (cases "od_status x") (auto simp: fine_def order_ok_def clock_ok_def settle_ok_def)

lemma return_cancels_fine:
  assumes "order_ok x" "od_status x = FUNDED"
  shows "fine x (bump_order (x\<lparr>od_status := CANCELLED, od_payment := p, od_settlement := Not_ready, od_cancelled_at := z\<rparr>))"
  using assms by (auto simp: fine_def order_ok_def clock_ok_def settle_ok_def bump_order_def)

lemma return_row: "safe_row oid x (applyBankReturn now e i oid x)"
  unfolding applyBankReturn_def
  by (intro row_if row_update row_safe safe;
    (use return_fine return_cancels_fine in \<open>auto simp: paid_status_def plain_booking_def\<close>)?)

lemma safe_cost [safe]: "safe (applyLateProviderCost env now e i oid x)"
  unfolding applyLateProviderCost_def Let_def
  by (intro safe safe_update; (use fee_fine in \<open>auto simp: plain_booking_def\<close>)?)

section \<open>Funding\<close>

lemma capture_total:
  "entries_total (Order_principal oid) \<lparr>bk_order = o', bk_kind = k, bk_currency = c, bk_entries = filter (\<lambda>(a, n). n \<noteq> 0) (capture_entries oid amount fee)\<rparr> = - amount"
  by (simp add: entries_total_def capture_entries_def)

lemma free_total:
  "clearing \<noteq> Order_principal oid \<Longrightarrow> entries_total (Order_principal oid)
     \<lparr>bk_order = o', bk_kind = k, bk_currency = c, bk_entries = filter (\<lambda>(a, n). n \<noteq> 0) [(clearing, amount), (Order_principal oid, - amount)]\<rparr> = - amount"
  by (simp add: entries_total_def)

lemmas paying_idles = idle_holds [THEN paying_idle] idle_asides [THEN paying_idle]

lemma wpi_confirm:
  assumes "pay_inv s" "order_row s oid = Some x" "od_status x = AWAITING_PAYMENT" "mget (pa_ledger s) (''funding:mock:'' @ ve_reference e) = None"
  shows "wpi (confirm_payment now e way oid x) s"
  unfolding confirm_payment_def Let_def
  by (rule confirm_update [OF assms, where rail = "od_rail x" and way = "Some way"], rule refl,
    intro paying_idles paying_booked safe; simp add: capture_total)

lemma wpi_free:
  assumes "pay_inv s" "order_row s oid = Some x" "od_status x = AWAITING_PAYMENT" "mget (pa_ledger s) key = None"
    and "\<And>o'. key = ''funding:pool:'' @ o' \<Longrightarrow> o' = oid" "clearing \<noteq> Order_principal oid"
  shows "wpi (confirm_free now rail oid x key clearing) s"
  unfolding confirm_free_def
  by (rule confirm_update [OF assms(1-4), where rail = rail and way = "od_funding_method x"], rule refl,
    intro paying_idles paying_booked safe; simp add: free_total [simplified] assms(5,6))

lemma wpi_then: "wpi m s \<Longrightarrow> (\<And>x. safe (f x)) \<Longrightarrow> wpi (abind m f) s"
  unfolding wp_abind by (rule wp_mono [where Q = "\<lambda>_. pay_inv"]) (auto simp: safe_def)

lemma safe_refused [safe]: "safe (refuse_payment e i oid x)"
  unfolding refuse_payment_def Let_def by (intro safe) (auto simp: plain_booking_def)

lemma confirm_row:
  "safe_row oid x (abind (aget (\<lambda>s. (mget (pa_ledger s) (''funding:mock:'' @ ve_reference e) \<noteq> None, lockCheckoutHold s oid))) (\<lambda>(existing, claim).
     if existing then areturn ''DUPLICATE_FACT'' else if accepts_funding x claim then confirm_payment now e way oid x else refuse_payment e i oid x))"
  unfolding safe_row_def wp_abind wp_aget prod.case wp_if
  using wpi_confirm [of _ oid x e now way] safeD [OF safe_refused] by (auto simp: wp_areturn accepts_funding_def)

lemma waiting_fine:
  assumes "order_ok x" "od_status x = AWAITING_PAYMENT"
  shows "fine x (bump_order (x\<lparr>od_payment := p\<rparr>))"
  using assms by (auto simp: fine_def order_ok_def clock_ok_def settle_ok_def bump_order_def)

lemma safe_waiting [safe]:
  "safe (update_where now oid (\<lambda>y. od_status y = AWAITING_PAYMENT \<and> P y) (\<lambda>y. bump_order (y\<lparr>od_payment := p\<rparr>)))"
  by (rule safe_where) (auto simp: waiting_fine paid_status_def)

lemma safe_funding_fact [safe]: "safe (applyFundingEvent env now e)"
  unfolding applyFundingEvent_def Let_def
  by (intro safe safe_with_row row_if confirm_row return_row row_safe; simp)


lemma pool_key_free: "pay_inv s \<Longrightarrow> order_row s oid = Some x \<Longrightarrow> od_status x = AWAITING_PAYMENT \<Longrightarrow> mget (pa_ledger s) (''funding:pool:'' @ oid) = None"
proof (rule ccontr)
  assume s: "pay_inv s" "order_row s oid = Some x" "od_status x = AWAITING_PAYMENT" and "mget (pa_ledger s) (''funding:pool:'' @ oid) \<noteq> None"
  then obtain b where b: "mget (pa_ledger s) (''funding:pool:'' @ oid) = Some b" by blast
  have m: "money_inv None s" using s(1) by (simp add: pay_inv_def)
  then have "captured s oid (''funding:pool:'' @ oid) b" using b unfolding money_inv_def pool_keys_ok_def captured_def by blast
  from capture_row [OF m this] s(2,3) show False by simp
qed

lemma safe_pool_funding [safe]: "safe (applyPoolFunding now oid poolId cash)"
proof (rule safeI)
  fix s assume s: "pay_inv s"
  have free: "wpi (abind (confirm_free now POOL oid x (''funding:pool:'' @ oid) (Pool_clearing poolId)) (\<lambda>_. abind (outbox k t u) (\<lambda>_. areturn ''FUNDED''))) s"
    if "order_row s oid = Some x" "od_status x = AWAITING_PAYMENT" for x k t u
    by (rule wpi_then [OF wpi_free [OF s that pool_key_free [OF s that]]]) (simp, simp, intro safe)
  show "wpi (applyPoolFunding now oid poolId cash) s"
    unfolding applyPoolFunding_def wp_abind wp_aget prod.case
    using free s by (auto simp: wp_abind wp_acheck wp_afail split: option.split)
qed

lemma safe_chain_funding [safe]: "safe (applyChainFunding now oid amount chainId eventKey)"
proof (rule safeI)
  fix s assume s: "pay_inv s"
  let ?key = "''funding:chain:'' @ eventKey"
  have free: "wpi (abind (confirm_free now CRYPTO oid x ?key (Chain_clearing chainId)) (\<lambda>_. abind (outbox k t u) (\<lambda>_. abind (outbox k' t' u') (\<lambda>_.
      abind (fulfillDigitalOrder now oid) (\<lambda>_. areturn ''FUNDED''))))) s"
    if "order_row s oid = Some x" "od_status x = AWAITING_PAYMENT" "mget (pa_ledger s) ?key = None" for x k t u k' t' u'
    by (rule wpi_then [OF wpi_free [OF s that]]) (simp, simp, intro safe)
  have idle: "wpi (abind (pay_case a b c) (\<lambda>_. areturn r)) s" "wpi (abind (pay_case a b c) (\<lambda>_. abind (pay_event oid c d e) (\<lambda>_. areturn r))) s" for a b c d e r
    by (rule safeD [OF _ s], intro safe)+
  show "wpi (applyChainFunding now oid amount chainId eventKey) s"
    unfolding applyChainFunding_def Let_def wp_abind wp_aget prod.case
    using free [unfolded wp_abind] idle [unfolded wp_abind] s
    by (auto simp: wp_areturn wp_afail wp_abind accepts_funding_def split: option.split)
qed

section \<open>Refunds\<close>

lemma refunded_fine:
  assumes "order_ok x" "expected_refund oid i x = Some expected" "refund_awaited oid i x" "od_payment x \<notin> {Pay_refunded, Pay_partially_refunded}"
    "order_transition_guard x (refunded_order oid i expected x)"
  shows "fine x (refunded_order oid i expected x)"
  using assms
  by (cases "od_status x")
    (auto simp: fine_def order_transition_guard_def order_ok_def clock_ok_def settle_ok_def bump_order_def refunded_order_def expected_refund_def refund_awaited_def agreed_amount_def
      split: if_splits option.splits)

lemma refunded_unpaid: "paid_status (od_status (refunded_order oid i expected x)) \<Longrightarrow> paid_status (od_status x)"
  by (auto simp: refunded_order_def paid_status_def split: if_splits)

lemma safe_later_refund [safe]: "safe (applyPostReleaseRefundEvent e i oid)"
  unfolding applyPostReleaseRefundEvent_def Let_def
  by (intro safe; simp add: plain_booking_def)

lemma safe_refund_fact [safe]: "safe (applyRefundEvent now e)"
  unfolding applyRefundEvent_def
  by (intro safe safe_with_row row_if row_option row_update row_safe;
    (use refunded_fine refunded_unpaid in \<open>auto simp: plain_booking_def\<close>)?)

section \<open>Releases, reversals and card disputes\<close>

lemmas releasing_idles = idle_asides [THEN releasing_idle]

lemma release_row_safe:
  assumes "od_settlement x \<in> {Ready, Settling}"
  shows "safe_row oid x (abind (settled now oid x) (\<lambda>_. abind (pay_event oid kind' ref fee) (\<lambda>_.
    abind (ledger oid ''SETTLEMENT_RELEASED'' (''release:mock:'' @ r) entries c) (\<lambda>_. abind (outbox k t u) (\<lambda>_. areturn ''RELEASED'')))))"
  by (rule row_settled [OF assms]) (intro releasing_idles releasing_booked safe; simp)

lemma failed_fine:
  assumes "order_ok x" "od_settlement x \<in> {Ready, Settling}"
  shows "fine x (bump_order (x\<lparr>od_settlement := Settle_failed\<rparr>))"
  using assms by (cases "od_status x") (auto simp: fine_def order_ok_def clock_ok_def settle_ok_def bump_order_def)

lemma safe_failed [safe]:
  "safe (update_where now oid (\<lambda>y. od_settlement y \<in> {Ready, Settling}) (\<lambda>y. bump_order (y\<lparr>od_settlement := Settle_failed\<rparr>)))"
  by (rule safe_where) (use failed_fine in \<open>auto simp: paid_status_def\<close>)

lemma safe_release_fact [safe]: "safe (applyReleaseEvent now e)"
  unfolding applyReleaseEvent_def Let_def
  by (intro safe safe_with_row row_if release_row_safe row_safe; simp)

lemma safe_reversal_fact [safe]: "safe (applyReversalEvent env e)"
  unfolding applyReversalEvent_def by (intro safe; simp add: plain_booking_def)

lemma safe_dispute [safe]: "safe (applyDisputeEvent e)"
  unfolding applyDisputeEvent_def open_payment_dispute_def close_payment_dispute_def Let_def
  by (intro safe safe_with_row row_safe; simp add: plain_booking_def)

section \<open>The inbox\<close>

lemma safe_event [safe]: "safe (applyPaymentEvent env now e)"
  unfolding applyPaymentEvent_def by (intro safe)

lemma safe_process [safe]: "safe (processVerifiedEvent env now e)"
  unfolding processVerifiedEvent_def process_inbox_def by (intro safe_catch safe)

lemma safe_webhook [safe]: "safe (receivePaymentWebhook env now v)" "safe (applyFetchedProviderFact env now createdAt e)"
  unfolding receivePaymentWebhook_def applyFetchedProviderFact_def by (intro safe)+


section \<open>Jobs\<close>

lemma expire_row:
  assumes "od_status x = AWAITING_PAYMENT" "order_ok x"
  shows "fine x (bump_order (x\<lparr>od_status := CANCELLED\<rparr>))"
  using assms by (auto simp: fine_def order_ok_def clock_ok_def settle_ok_def bump_order_def)

lemma safe_expire [safe]: "safe (expire_hold env now oid)"
proof (rule safeI)
  fix s assume s: "pay_inv s"
  show "wpi (expire_hold env now oid) s"
  proof (cases "order_row s oid")
    case None
    then show ?thesis using s by (simp add: expire_hold_def awaiting_def wp)
  next
    case (Some x)
    have row: "safe_row oid x (expire_hold env now oid)" if "od_status x = AWAITING_PAYMENT"
      unfolding expire_hold_def
      by (intro row_get row_pair row_if row_option row_catch un.within_if idle_cancel un.within_areturn row_update row_safe safe;
         (use expire_row that in \<open>auto simp: paid_status_def\<close>)?)
    show ?thesis
    proof (cases "od_status x = AWAITING_PAYMENT")
      case True
      show ?thesis by (rule wpi_more [OF s Some row [OF True]])
    next
      case False
      then show ?thesis using s Some by (simp add: expire_hold_def awaiting_def wp)
    qed
  qed
qed

lemma attempt_safe: "safe m \<Longrightarrow> pay_inv s \<Longrightarrow> pay_inv (snd (attempt_job m s))"
  using after_safe [of m s] by (auto simp: attempt_job_def after_def split: prod.splits sum.splits)

lemma each_safe: "(\<And>x s. pay_inv s \<Longrightarrow> pay_inv (snd (f x s))) \<Longrightarrow> pay_inv s \<Longrightarrow> pay_inv (snd (run_each f xs s))"
proof (induction xs arbitrary: s)
  case (Cons x xs)
  from Cons.prems(1) [OF Cons.prems(2), of x] Cons.IH [OF Cons.prems(1)] show ?case by (simp add: split_beta Let_def)
qed simp

lemma mark_untouched: "untouched s (snd (mark_inbox key d s))"
  by (rule un.withinD [OF idle_holds(2)])

lemma process_keeps: "pay_inv s \<Longrightarrow> pay_inv (snd (processVerifiedEvent env now e s))"
proof -
  assume s: "pay_inv s"
  have p: "safe (process_inbox env now e)" unfolding process_inbox_def by (intro safe)
  have m: "pay_inv (snd (mark_inbox k d t)) = pay_inv t" for k d t by (rule pay_inv_untouched [OF mark_untouched])
  have "pay_inv (snd (transact (process_inbox env now e) s))" using after_safe [OF p s] by (simp add: after_def)
  moreover obtain r t where "transact (process_inbox env now e) s = (r, t)" by fastforce
  ultimately show ?thesis using m [of "inbox_key e" False t]
    by (cases r) (auto simp: processVerifiedEvent_def acatch_def abind_def areturn_def afail_def split: prod.splits sum.splits)
qed

lemma insert_keeps: "pay_inv s \<Longrightarrow> pay_inv (snd (insert_inbox e v s))"
  using pay_inv_untouched [OF un.withinD [OF idle_holds(3)]] by simp

text \<open>An event is processed in a transaction of its own after its row is written, so the whole keeps the invariant even where it throws.\<close>

lemma receive_keeps:
  assumes "pay_inv s"
  shows "pay_inv (snd (receivePaymentWebhook env now v s))" "pay_inv (snd (applyFetchedProviderFact env now createdAt e s))"
  using assms process_keeps [OF insert_keeps]
  by (auto simp: receivePaymentWebhook_def applyFetchedProviderFact_def getMockPaymentProvider_def acheck_def alift_def insert_inbox_def abind_def amodify_def
      split: sum.splits prod.splits)

lemma release_ready_safe [safe]: "safe (release_ready env now measuring oid)"
proof (rule safeI)
  fix s assume s: "pay_inv s"
  have "safe_row oid x (abind (requestCreatorRelease env now oid x) (\<lambda>result. areturn (f result)))" if "settlement_ready measuring s oid x" for x f
    by (intro row_then request_release_row safe) (use that in \<open>auto simp: settlement_ready_def\<close>)
  then show "wpi (release_ready env now measuring oid) s" using s
    by (auto simp: release_ready_def safe_row_def wp_abind wp_aget wp_areturn split: option.split)
qed

lemma retry_safe [safe]: "safe (retry_operation env now r)"
proof (rule safeI)
  fix s assume s: "pay_inv s"
  have 1: "wpi (abind (request_refund env now oid x reason) (\<lambda>result. areturn (f result))) s" if "order_row s oid = Some x" for oid x reason f
    by (rule wpi_more [OF s that]) (intro row_then request_refund_row safe)
  have 2: "wpi (abind (requestCreatorRelease env now oid x) (\<lambda>result. areturn (f result))) s"
    if "order_row s oid = Some x" "od_settlement x \<in> {Ready, Settling}" for oid x f
    by (rule wpi_more [OF s that(1)]) (intro row_then request_release_row safe that(2))
  show "wpi (retry_operation env now r) s" unfolding retry_operation_def wp_abind wp_aget
    using 1 [unfolded wp_abind] 2 [unfolded wp_abind] s by (auto simp: wp_areturn wp_abind split: option.split)
qed

end
