(* ===== verification/Payment_Runs.thy ===== *)
theory Payment_Runs
  imports Payment_Outcomes
begin

text \<open>
  Commands on orders, orders placed by other modules and the jobs over many candidates keep the invariant of payments: so does
  every run of the system from empty tables (\<open>run_safe\<close>).
\<close>

section \<open>Commands on orders\<close>

lemma lawful_money:
  assumes "lawful actor d oid x y" "order_ok x"
  shows "od_amount y = od_amount x" "od_status x \<noteq> AWAITING_PAYMENT \<Longrightarrow> od_status y \<noteq> AWAITING_PAYMENT"
    "paid_status (od_status y) \<Longrightarrow> paid_status (od_status x)" "od_settlement x = Settled_out \<Longrightarrow> od_settlement y = Settled_out"
proof -
  show "od_amount y = od_amount x" using assms(1) by (simp add: lawful_def)
  have move: "od_status y = od_status x \<or> order_move actor x (od_status x) (od_status y)" using assms(1) by (auto simp: lawful_def)
  then show "od_status x \<noteq> AWAITING_PAYMENT \<Longrightarrow> od_status y \<noteq> AWAITING_PAYMENT" by (auto simp: order_move_def working_def)
  show "paid_status (od_status y) \<Longrightarrow> paid_status (od_status x)" using move by (auto simp: order_move_def working_def paid_status_def)
  assume out: "od_settlement x = Settled_out"
  then have "\<not> (working (od_status x) \<or> od_status x = DISPUTED)" using assms(2)
    by (cases "od_status x") (auto simp: order_ok_def settle_ok_def working_def)
  then show "od_settlement y = Settled_out" using assms(1) out by (auto simp: lawful_def money_kept_def)
qed

lemma money_changes:
  assumes m: "money_inv None s" and o': "orders_ok (pa_desk s)" and c: "changes actor (pa_desk s) d"
  shows "money_inv None (s\<lparr>pa_desk := d\<rparr>)"
proof -
  let ?t = "s\<lparr>pa_desk := d\<rparr>"
  have old: "\<exists>y. order_row ?t oid = Some y \<and> lawful actor (pa_desk s) oid x y \<and> order_ok x" if "order_row s oid = Some x" for oid x
    using c o' that by (auto simp: changes_def order_row_def orders_ok_def)
  have new: "\<exists>x. order_row s oid = Some x \<and> lawful actor (pa_desk s) oid x y \<and> order_ok x" if "order_row ?t oid = Some y" for oid y
  proof (cases "order_row s oid")
    case None
    then have "order_row ?t oid = None" using c by (simp add: changes_def order_row_def)
    then show ?thesis using that by simp
  next
    case (Some x)
    then show ?thesis using old that by fastforce
  qed
  have b: "captured ?t oid k b = captured s oid k b" "payout ?t oid k b = payout s oid k b" for oid k b by (simp_all add: captured_def payout_def)
  have "captures_ok ?t" unfolding captures_ok_def b
  proof (intro allI impI conjI)
    fix oid k b assume "captured s oid k b"
    then obtain x where x: "order_row s oid = Some x" "od_status x \<noteq> AWAITING_PAYMENT" "entries_total (Order_principal oid) b = - od_amount x"
      using capture_row [OF m] by blast
    from old [OF x(1)] obtain y where "order_row ?t oid = Some y" "lawful actor (pa_desk s) oid x y" "order_ok x" by blast
    with x lawful_money show "\<exists>y. order_row ?t oid = Some y \<and> od_status y \<noteq> AWAITING_PAYMENT \<and> entries_total (Order_principal oid) b = - od_amount y" by metis
  qed (use capture_once [OF m] in blast)
  moreover have "releases_ok ?t" unfolding releases_ok_def b
  proof (intro allI impI conjI)
    fix oid k b assume "payout s oid k b"
    then obtain x where x: "order_row s oid = Some x" "od_settlement x = Settled_out" using release_row [OF m] by blast
    from old [OF x(1)] obtain y where "order_row ?t oid = Some y" "lawful actor (pa_desk s) oid x y" "order_ok x" by blast
    with x lawful_money show "\<exists>y. order_row ?t oid = Some y \<and> od_settlement y = Settled_out" by metis
  qed (use payout_once [OF m] in blast)
  moreover have "work_paid None ?t" unfolding work_paid_def b
  proof (intro allI impI)
    fix oid y assume y: "order_row ?t oid = Some y" "paid_status (od_status y)"
    from new [OF y(1)] obtain x where x: "order_row s oid = Some x" "lawful actor (pa_desk s) oid x y" "order_ok x" by blast
    then have "paid_status (od_status x)" using lawful_money y(2) by blast
    then show "\<exists>k b. captured s oid k b" using m x(1) by (simp add: money_inv_def work_paid_def)
  qed
  ultimately show ?thesis using m by (simp add: money_inv_def pool_keys_ok_def)
qed

lemma orders_safe:
  assumes "pay_inv s" "good actor (pa_desk s) m"
  shows "wpi (on_orders m) s"
  unfolding wp_on_orders
proof (rule wp_mono [OF assms(2)])
  fix x d assume d: "sound None actor (pa_desk s) d"
  have "money_inv None (s\<lparr>pa_desk := d\<rparr>)"
    by (rule money_changes) (use assms(1) d in \<open>auto simp: pay_inv_def desk_inv_def sound_def\<close>)
  then have "pay_inv (s\<lparr>pa_desk := d\<rparr>)" using d by (simp add: pay_inv_def sound_def)
  then show "pay_inv (status_triggers (pa_desk s) (s\<lparr>pa_desk := d\<rparr>))" using pay_inv_untouched [OF triggers_idle] by blast
qed simp

lemma safe_command:
  assumes "env_ok oenv"
  shows "safe (order_command oenv now newId c actor form)"
proof (rule safeI)
  fix s assume s: "pay_inv s"
  have "wpi (on_orders (orderCommands oenv now newId c actor form)) s" if "fresh_id newId (pa_desk s)"
    by (rule orders_safe [OF s]) (use command_sound [of "pa_desk s"] assms s that in \<open>auto simp: pay_inv_def\<close>)
  then show "wpi (order_command oenv now newId c actor form) s" by (simp add: order_command_def wp_abind wp_aget wp_acheck)
qed

lemma safe_auto: "safe (on_orders (autoAcceptDelivery oenv now oid))"
proof (rule safeI)
  fix s assume s: "pay_inv s"
  define actor where "actor = \<lparr>ac_id = (case order_row s oid of Some x \<Rightarrow> od_buyer x | None \<Rightarrow> ''''), ac_roles = [], ac_active = True\<rparr>"
  show "wpi (on_orders (autoAcceptDelivery oenv now oid)) s"
    by (rule orders_safe [OF s, where actor = actor], rule auto_sound)
      (use s in \<open>auto simp: pay_inv_def is_buyer_def actor_def order_row_def\<close>)
qed

section \<open>New orders\<close>

lemma new_order_ok: "new_order x \<Longrightarrow> order_ok x \<and> od_status x = AWAITING_PAYMENT"
  by (auto simp: new_order_def order_ok_def clock_ok_def settle_ok_def)

lemma desk_more_orders:
  assumes d: "desk_inv None d" and keep: "\<And>k y. mget (dk_orders d) k = Some y \<Longrightarrow> mget (dk_orders t) k = Some y" and ok: "orders_ok t"
    and same: "dk_cancellations t = dk_cancellations d" "dk_amendments t = dk_amendments d" "dk_disputes t = dk_disputes d" "dk_deliveries t = dk_deliveries d"
  shows "desk_inv None t"
proof -
  have "cancellations_ok t" using d keep unfolding desk_inv_def cancellations_ok_def same by blast
  moreover have "amendments_ok t" using d keep unfolding desk_inv_def amendments_ok_def same by blast
  moreover have "deliveries_ok t" using d by (simp add: desk_inv_def deliveries_ok_def same)
  moreover have "disputes_ok None t"
    using d keep unfolding desk_inv_def disputes_ok_def open_dispute_def same map_option_eq_Some by blast
  ultimately show ?thesis using ok by (simp add: desk_inv_def)
qed

lemma orders_placed: "orders_ok d \<Longrightarrow> order_ok x \<Longrightarrow> orders_ok (d\<lparr>dk_orders := mput oid x (dk_orders d)\<rparr>)"
  unfolding orders_ok_def by simp

lemma desk_placed:
  assumes "desk_inv None d" "mget (dk_orders d) oid = None" "order_ok x"
  shows "desk_inv None (d\<lparr>dk_orders := mput oid x (dk_orders d)\<rparr>)"
  by (rule desk_more_orders [OF assms(1)]) (use assms(2) orders_placed [OF _ assms(3)] assms(1) in \<open>auto simp: desk_inv_def\<close>)

lemma money_placed:
  assumes m: "money_inv None s" and new: "order_row s oid = None" "od_status x = AWAITING_PAYMENT"
    and t: "pa_desk t = (pa_desk s)\<lparr>dk_orders := mput oid x (dk_orders (pa_desk s))\<rparr>" "pa_ledger t = pa_ledger s"
  shows "money_inv None t"
proof -
  have row: "order_row t k = (if k = oid then Some x else order_row s k)" for k by (simp add: order_row_def t)
  have b: "captured t k key b = captured s k key b" "payout t k key b = payout s k key b" for k key b by (simp_all add: captured_def payout_def t)
  have rows: "captured s k key b \<Longrightarrow> k \<noteq> oid" "payout s k key b \<Longrightarrow> k \<noteq> oid" for k key b
    using capture_row [OF m] release_row [OF m] new(1) by fastforce+
  have "captures_ok t" using m rows unfolding money_inv_def captures_ok_def b row by (metis (no_types))
  moreover have "releases_ok t" using m rows unfolding money_inv_def releases_ok_def b row by (metis (no_types))
  moreover have "work_paid None t" using m new(2) by (simp add: money_inv_def work_paid_def b row paid_status_def)
  ultimately show ?thesis using m by (simp add: money_inv_def pool_keys_ok_def t)
qed

lemma safe_place: "safe (place_order oid x h digital)"
proof (rule safeI)
  fix s assume s: "pay_inv s"
  have "pay_inv t" if n: "order_row s oid = None" "new_order x" and t: "pa_desk t = (pa_desk s)\<lparr>dk_orders := mput oid x (dk_orders (pa_desk s))\<rparr>" "pa_ledger t = pa_ledger s" for t
    using desk_placed [of "pa_desk s" oid x] money_placed [OF _ n(1) _ t] new_order_ok [OF n(2)] s n(1) by (simp add: pay_inv_def t order_row_def)
  then show "wpi (place_order oid x h digital) s"
    unfolding place_order_def wp_abind wp_aget wp_acheck wp_amodify by (simp add: Let_def)
qed

section \<open>Runs\<close>

lemma safe_settle_performance: "safe (settle_performance now oid unused)"
  unfolding settle_performance_def
  by (rule safe_update) (auto simp: fine_def order_ok_def clock_ok_def settle_ok_def bump_order_def)

lemma safe_refund_now: "safe (refund_now env now oid reason)"
  unfolding refund_now_def by (intro safe_read_row safe request_refund_row)

lemma safe_pool_payout: "safe (pool_payout env now oid)"
  unfolding pool_payout_def by (intro safe_read_row row_if finalize_row row_safe safe)

lemma resolve_safe: "pay_inv s \<Longrightarrow> pay_inv (snd (resolve_operation env now lookup row s))"
  by (auto simp: resolve_operation_def unresolved_operation_def split: prod.split sum.split option.split intro!: attempt_safe safe)

lemma fetch_safe:
  assumes "pay_inv s"
  shows "pay_inv (snd (fetch_fact env now createdAt status row s))"
proof -
  have "pay_inv t" if "applyFetchedProviderFact env now createdAt e s = (r, t)" for e r t
    using receive_keeps(2) [OF assms, of env now createdAt e] that by simp
  then show ?thesis using assms by (auto simp: fetch_fact_def split: prod.split sum.split option.split intro!: attempt_safe safe)
qed

lemma reconcile_safe:
  assumes "pay_inv s"
  shows "pay_inv (snd (reconcileProviderOperations env now createdAt lookup status stale limit s))"
proof -
  let ?f = "run_each (resolve_operation env now lookup)" and ?g = "run_each (fetch_fact env now createdAt status)"
  have "pay_inv (snd (?g ys (snd (?f xs s))))" for xs ys
    by (rule each_safe [OF fetch_safe each_safe [OF resolve_safe assms]])
  then show ?thesis using assms by (simp add: reconcileProviderOperations_def split_beta Let_def)
qed

lemma reprocess_safe: "pay_inv s \<Longrightarrow> pay_inv (snd (reprocess_event env now e s))"
  using process_keeps [of s env now e] by (auto simp: reprocess_event_def split: prod.splits sum.splits)

text \<open>Commands on orders are called with parameters that answer as the order component expects.\<close>

fun call_ok :: "pay_call \<Rightarrow> bool" where
  "call_ok (Order_command oenv newId c actor form) = env_ok oenv"
| "call_ok _ = True"

lemma step_safe:
  assumes "pay_inv s" "call_ok c"
  shows "pay_inv (pay_step env now c s)"
proof (cases c)
  case (Webhook v)
  then show ?thesis using receive_keeps(1) [OF assms(1)] by simp
next
  case (Reprocess stale m n)
  then show ?thesis using assms(1) by (simp add: reprocessWebhookInbox_def each_safe reprocess_safe)
next
  case (Expire n)
  then show ?thesis using assms(1) by (simp add: expireCheckoutHolds_def each_safe attempt_safe safe_expire)
next
  case (Release_ready m n)
  then show ?thesis using assms(1) by (simp add: releaseReadySettlements_def each_safe attempt_safe release_ready_safe)
next
  case (Reconcile a b d e f)
  then show ?thesis using assms(1) by (simp add: reconcile_safe)
qed (use assms in \<open>simp_all add: after_safe safe safe_refund_now safe_pool_payout safe_settle_performance safe_place safe_auto safe_command\<close>)

definition calls_ok :: "(pay_env \<times> int \<times> pay_call) list \<Rightarrow> bool" where
  "calls_ok cs \<longleftrightarrow> list_all (\<lambda>(env, now, c). call_ok c) cs"

lemma pay_run_inv: "pay_inv s \<Longrightarrow> calls_ok cs \<Longrightarrow> pay_inv (pay_run cs s)"
  by (induction cs s rule: pay_run.induct) (auto simp: calls_ok_def step_safe)

definition no_payments :: pay where
  "no_payments = \<lparr>pa_desk = \<lparr>dk_orders = [], dk_deliveries = [], dk_holds = [], dk_cancellations = [], dk_amendments = [], dk_disputes = [], dk_reviews = [],
     dk_messages = [], dk_events = [], dk_outbox = [], dk_cases = [], dk_audit = []\<rparr>, pa_operations = [], pa_inbox = [], pa_ledger = [], pa_claims = [],
     pa_entitlements = [], pa_intents = [], pa_disputes = [], pa_refunds = [], pa_costs = []\<rparr>"

lemma empty_inv: "pay_inv no_payments"
  by (simp add: pay_inv_def no_payments_def desk_inv_def orders_ok_def cancellations_ok_def amendments_ok_def disputes_ok_def deliveries_ok_def open_dispute_def
      money_inv_def captures_ok_def releases_ok_def work_paid_def pool_keys_ok_def captured_def payout_def order_row_def mok_def)

lemma run_safe: "calls_ok cs \<Longrightarrow> pay_inv (pay_run cs no_payments)"
  by (rule pay_run_inv [OF empty_inv])

end
