(* ===== verification/Payment_Scenario.thy ===== *)
theory Payment_Scenario
  imports Payment_Runs Order_Properties
begin

text \<open>
  A digital order from its purchase to the creator's payout, over a provider that accepts every request: the concrete run at which
  the properties of payments are instantiated.
\<close>

definition request_text :: "pay_request \<Rightarrow> string" where
  "request_text r = (case r of Funding_request f \<Rightarrow> ''funding '' @ fi_orderId f | Cancel_request t \<Rightarrow> ''cancel '' @ t | Release_request i \<Rightarrow> ''release '' @ ri_orderId i
     | Refund_request i \<Rightarrow> ''refund '' @ fr_orderId i @ fr_reason i | Reversal_request i \<Rightarrow> ''reversal '' @ rv_orderId i)"

definition plain_pay :: pay_env where
  "plain_pay = \<lparr>pe_mock = True, pe_paymentsOpen = True, pe_production = False, pe_flag = (\<lambda>_. True), pe_feePolicy = None, pe_costCap = None,
     pe_integerOf = (\<lambda>_. None), pe_mode = ''mock'', pe_payee = (\<lambda>c. ''acct_'' @ c), pe_hash = request_text, pe_answer = (\<lambda>r i. Inr (''at '' @ i)),
     pe_deposit = (\<lambda>_. False), pe_wallet = (\<lambda>_. False), pe_chainPayout = (\<lambda>_ _ _ _. Inl Other_error), pe_poolReturn = (\<lambda>_. Inr ()),
     pe_settlePool = (\<lambda>_. Inr 0), pe_pool = (\<lambda>_. None)\<rparr>"

definition bought :: string where "bought = desk_id CHR ''1''"

definition digital_order :: order where
  "digital_order = (plain_order AWAITING_PAYMENT)\<lparr>od_terms := plain_terms\<lparr>ot_digital := True\<rparr>, od_payment := Pay_pending, od_provider_fee := None,
     od_funding_method := None, od_funded_at := None, od_work_start_at := None, od_delivery_due_at := None, od_review_due_at := None\<rparr>"

definition fact :: "string \<Rightarrow> string \<Rightarrow> string \<Rightarrow> string \<Rightarrow> string \<Rightarrow> int \<Rightarrow> int option \<Rightarrow> verified_event" where
  "fact eventId type object reference status amount fee = \<lparr>ve_eventId = eventId, ve_type = type, ve_mode = ''mock'', ve_accountId = ''acct_mock_local'',
     ve_createdAt = ''now'', ve_objectType = object, ve_reference = reference, ve_fundingReference = reference, ve_operationId = ''unknown'',
     ve_orderId = bought, ve_status = status, ve_amount = amount, ve_currency = ''USD'', ve_providerFee = fee\<rparr>"

definition paid_fact :: verified_event where
  "paid_fact = fact ''evt1'' ''funding.succeeded'' ''funding'' (''at fund:'' @ bought @ '':1'') ''SUCCEEDED'' 10000 (Some 300)"

definition released_fact :: verified_event where
  "released_fact = fact ''evt2'' ''release.succeeded'' ''release'' (''at release:'' @ bought @ '':full'') ''SUCCEEDED'' 9700 None"

definition purchase :: "(pay_env \<times> int \<times> pay_call) list" where
  "purchase = [(plain_pay, 1, Place_order bought digital_order \<lparr>hd_state = HELD, hd_expires = Some 100\<rparr> True),
     (plain_pay, 2, Checkout ''bo'' bought CARD), (plain_pay, 3, Webhook (Inr paid_fact))]"

definition settlement :: "(pay_env \<times> int \<times> pay_call) list" where
  "settlement = [(plain_pay, 4, Order_command plain_env (desk_id CHR ''9'') Mark_delivery_viewed bo [''order_id'' \<mapsto> bought]),
     (plain_pay, 300000000, Auto_accept plain_env bought), (plain_pay, 300000001, Release_ready (\<lambda>_. False) 10),
     (plain_pay, 300000002, Webhook (Inr released_fact))]"

lemma run_append: "pay_run (cs @ cs') s = pay_run cs' (pay_run cs s)"
  by (induction cs s rule: pay_run.induct) simp_all

lemma scenario_calls: "calls_ok purchase" "calls_ok settlement" "calls_ok (purchase @ settlement)"
  using plain_env_ok by (auto simp: calls_ok_def purchase_def settlement_def)

end
