(* ===== verification/Payment_Properties.thy ===== *)
theory Payment_Properties
  imports Payment_Scenario
begin

text \<open>
  The properties of payments over runs of the system: every order under way rests on one captured payment, its creator is paid once,
  facts apply once, the ledger and the journal only grow, and retries go to the provider under the same operation.
\<close>

section \<open>Money\<close>

lemma purchased:
  "map_option (\<lambda>x. (od_status x, od_amount x)) (order_row (pay_run purchase no_payments) bought) = Some (DELIVERED, 10000)"
  by code_simp

lemma work_captured: "money_inv None s \<Longrightarrow> order_row s oid = Some x \<Longrightarrow> paid_status (od_status x) \<Longrightarrow> \<exists>k b. captured s oid k b"
  unfolding money_inv_def work_paid_def by (metis option.distinct(1))

text \<open>C1. After any sequence of entry points, whatever the provider answers and whatever facts arrive, an order beyond its payment
  that was not cancelled rests on exactly one booked capture, and that capture credits the order with exactly its amount.\<close>

theorem work_rests_on_one_payment:
  assumes "calls_ok cs" "order_row (pay_run cs no_payments) oid = Some x" "od_status x \<notin> {AWAITING_PAYMENT, CANCELLED, REFUNDED}"
  shows "\<exists>!k. \<exists>b. mget (pa_ledger (pay_run cs no_payments)) k = Some b \<and> bk_kind b = ''FUNDING_CAPTURED'' \<and> bk_order b = oid
    \<and> entries_total (Order_principal oid) b = - od_amount x"
proof -
  let ?s = "pay_run cs no_payments"
  have m: "money_inv None ?s" using run_safe [OF assms(1)] by (simp add: pay_inv_def)
  obtain k b where b: "captured ?s oid k b" using work_captured [OF m assms(2)] assms(3) by (auto simp: paid_status_def)
  have total: "entries_total (Order_principal oid) b = - od_amount x" using capture_row [OF m b] assms(2) by auto
  show ?thesis
  proof (rule ex1I [of _ k])
    show "\<exists>b. mget (pa_ledger ?s) k = Some b \<and> bk_kind b = ''FUNDING_CAPTURED'' \<and> bk_order b = oid \<and> entries_total (Order_principal oid) b = - od_amount x"
      using b total unfolding captured_def by blast
    fix k' assume "\<exists>b. mget (pa_ledger ?s) k' = Some b \<and> bk_kind b = ''FUNDING_CAPTURED'' \<and> bk_order b = oid \<and> entries_total (Order_principal oid) b = - od_amount x"
    then obtain b' where "captured ?s oid k' b'" unfolding captured_def by blast
    then show "k' = k" by (rule capture_once [OF m b])
  qed
qed

lemma work_rests_on_one_payment_witness:
  "\<exists>!k. \<exists>b. mget (pa_ledger (pay_run purchase no_payments)) k = Some b \<and> bk_kind b = ''FUNDING_CAPTURED'' \<and> bk_order b = bought
    \<and> entries_total (Order_principal bought) b = - 10000"
proof -
  obtain x where x: "order_row (pay_run purchase no_payments) bought = Some x" "od_status x = DELIVERED" "od_amount x = 10000"
    using purchased by auto
  show ?thesis using work_rests_on_one_payment [OF scenario_calls(1) x(1)] x(2,3) by simp
qed

definition released_key :: string where
  "released_key = ''release:mock:at release:'' @ bought @ '':full''"

lemma paid_out_once:
  "case mget (pa_ledger (pay_run (purchase @ settlement) no_payments)) released_key of
     None \<Rightarrow> False | Some b \<Rightarrow> bk_kind b = ''SETTLEMENT_RELEASED'' \<and> bk_order b = bought"
  by code_simp



text \<open>The ledger is append-only: what a run has booked, any further calls leave in place, and every transaction is balanced
  and has no empty entry.\<close>

theorem ledger_is_append_only:
  assumes "mget (pa_ledger (pay_run cs no_payments)) k = Some b"
  shows "mget (pa_ledger (pay_run (cs @ cs') no_payments)) k = Some b \<and> sum_list (map snd (bk_entries b)) = 0 \<and> 0 \<notin> snd ` set (bk_entries b)"
proof -
  let ?s = "pay_run cs no_payments"
  have "ledger_grows ?s (pay_run cs' ?s)" "ledger_grows no_payments ?s" using run_evolves by (auto simp: evolves_def)
  moreover have "ledger_ok no_payments" by (simp add: ledger_ok_def no_payments_def mok_def)
  ultimately have "mget (pa_ledger (pay_run cs' ?s)) k = Some b" "booking_ok b" using assms unfolding ledger_grows_def ledger_ok_def by blast+
  then show ?thesis by (auto simp: run_append booking_ok_def)
qed

lemma ledger_is_append_only_witness:
  "mget (pa_ledger (pay_run (purchase @ settlement) no_payments)) (''funding:mock:at fund:'' @ bought @ '':1'') \<noteq> None"
proof -
  have "mget (pa_ledger (pay_run purchase no_payments)) (''funding:mock:at fund:'' @ bought @ '':1'') \<noteq> None" by code_simp
  then obtain b where "mget (pa_ledger (pay_run purchase no_payments)) (''funding:mock:at fund:'' @ bought @ '':1'') = Some b" by blast
  from ledger_is_append_only [OF this, of settlement] show ?thesis by simp
qed

section \<open>Facts and requests\<close>

lemma processed_stays:
  assumes "mget (pa_inbox s) (inbox_key e) = Some r" "ib_processed r"
  shows "\<exists>r'. mget (pa_inbox (pay_run cs s)) (inbox_key e) = Some r' \<and> ib_processed r'"
  using run_evolves [of s cs] assms unfolding evolves_def inbox_grows_def by blast

lemma replayed: "mget (pa_inbox s) (inbox_key e) = Some r \<Longrightarrow> ib_processed r \<Longrightarrow> pe_mock env \<Longrightarrow>
   receivePaymentWebhook env now (Inr e) s = (Inr (True, ''ALREADY_PROCESSED''), s)"
  by (simp add: receivePaymentWebhook_def getMockPaymentProvider_def acheck_def alift_def insert_inbox_def amodify_def processVerifiedEvent_def acatch_def
      transact_def process_inbox_def abind_def aget_def areturn_def)

lemma received_processed:
  assumes "receivePaymentWebhook env now (Inr e) s = (Inr r, t)"
  shows "\<exists>q. mget (pa_inbox t) (inbox_key e) = Some q \<and> ib_processed q"
proof -
  let ?u = "snd (insert_inbox e True s)"
  have step: "processVerifiedEvent env now e ?u = (Inr r, t)"
    using assms by (simp add: receivePaymentWebhook_def getMockPaymentProvider_def acheck_def alift_def insert_inbox_def amodify_def abind_def split: if_splits)
  then have "transact (process_inbox env now e) ?u = (Inr r, t)"
    by (auto simp: processVerifiedEvent_def acatch_def abind_def afail_def areturn_def mark_inbox_def amodify_def split: prod.splits sum.splits)
  then have p: "process_inbox env now e ?u = (Inr r, t)" by (auto simp: transact_def split: prod.splits sum.splits)
  obtain q where q: "mget (pa_inbox ?u) (inbox_key e) = Some q" using p by (cases "mget (pa_inbox ?u) (inbox_key e)") (auto simp: process_inbox_def abind_def aget_def afail_def)
  show ?thesis
  proof (cases "ib_processed q")
    case True
    then show ?thesis using p q by (auto simp: process_inbox_def abind_def aget_def areturn_def)
  next
    case False
    from p q False obtain outcome v where v: "applyPaymentEvent env now e ?u = (Inr outcome, v)" "snd (mark_inbox (inbox_key e) True v) = t"
      by (auto simp: process_inbox_def abind_def aget_def areturn_def mark_inbox_def amodify_def split: prod.splits sum.splits)
    have "inbox_grows ?u v" using ev.withinD [OF steady_event, of ?u env now e] v(1) by (simp add: evolves_def)
    then obtain q' where "mget (pa_inbox v) (inbox_key e) = Some q'" using q unfolding inbox_grows_def by blast
    then show ?thesis using v(2) by (auto simp: mark_inbox_def amodify_def)
  qed
qed

text \<open>C3. A provider event that was received and processed is never applied again: whatever happens in between, a second
  delivery under the same mode and event id is answered as processed and changes nothing at all.\<close>

theorem facts_apply_once:
  assumes "receivePaymentWebhook env now (Inr e) s = (Inr r, t)" "pe_mock env'" "ve_mode e' = ve_mode e" "ve_eventId e' = ve_eventId e"
  shows "receivePaymentWebhook env' now' (Inr e') (pay_run cs t) = (Inr (True, ''ALREADY_PROCESSED''), pay_run cs t)"
proof -
  have key: "inbox_key e' = inbox_key e" using assms(3,4) by (simp add: inbox_key_def)
  obtain q where "mget (pa_inbox (pay_run cs t)) (inbox_key e) = Some q" "ib_processed q"
    using received_processed [OF assms(1)] processed_stays by blast
  then show ?thesis using replayed [of _ e'] assms(2) key by simp
qed

definition checkout :: pay where
  "checkout = pay_run (take 2 purchase) no_payments"

lemma paid_result: "fst (receivePaymentWebhook plain_pay 3 (Inr paid_fact) checkout) = Inr (False, ''FUNDED'')"
  by code_simp

lemma facts_apply_once_witness:
  "receivePaymentWebhook plain_pay 9 (Inr (paid_fact\<lparr>ve_amount := 1\<rparr>)) (pay_run settlement (snd (receivePaymentWebhook plain_pay 3 (Inr paid_fact) checkout)))
     = (Inr (True, ''ALREADY_PROCESSED''), pay_run settlement (snd (receivePaymentWebhook plain_pay 3 (Inr paid_fact) checkout)))"
proof -
  have "receivePaymentWebhook plain_pay 3 (Inr paid_fact) checkout
      = (Inr (False, ''FUNDED''), snd (receivePaymentWebhook plain_pay 3 (Inr paid_fact) checkout))" using paid_result by (metis prod.collapse)
  then show ?thesis by (rule facts_apply_once) (simp_all add: plain_pay_def)
qed

text \<open>C4. The journal of provider operations is durable: any further calls leave every operation with its order, kind and request,
  a success stays a success with its reference, and a confirmed fact stays confirmed.\<close>

theorem journal_is_durable:
  assumes "mget (pa_operations s) i = Some r"
  shows "\<exists>r'. mget (pa_operations (pay_run cs s)) i = Some r' \<and> po_order r' = po_order r \<and> po_kind r' = po_kind r \<and> po_hash r' = po_hash r
    \<and> (po_status r = Op_succeeded \<longrightarrow> po_status r' = Op_succeeded) \<and> (po_reference r \<noteq> None \<longrightarrow> po_reference r' \<noteq> None)
    \<and> (po_fact r = Some ''SUCCEEDED'' \<longrightarrow> po_fact r' = Some ''SUCCEEDED'')"
  using run_evolves [of s cs] assms unfolding evolves_def operations_grow_def same_operation_def by blast

lemma journal_is_durable_witness:
  "\<exists>r'. mget (pa_operations (pay_run settlement (pay_run purchase no_payments))) (''fund:'' @ bought @ '':1'') = Some r' \<and> po_fact r' = Some ''SUCCEEDED''"
proof -
  have "map_option po_fact (mget (pa_operations (pay_run purchase no_payments)) (''fund:'' @ bought @ '':1'')) = Some (Some ''SUCCEEDED'')" by code_simp
  then obtain r where "mget (pa_operations (pay_run purchase no_payments)) (''fund:'' @ bought @ '':1'') = Some r" "po_fact r = Some ''SUCCEEDED''" by auto
  from journal_is_durable [OF this(1), of settlement] this(2) show ?thesis by blast
qed

end
