(* ===== verification/Payment_Guarantees.thy ===== *)
theory Payment_Guarantees
  imports Payment_Properties
begin

text \<open>
  Guarantees of single calls and jobs: the retry of a request whose outcome is unknown, the refund whose reason the reconciliation
  cannot derive, the limit of refunds after the release, and the disputes that hold a settlement back.
\<close>

section \<open>Retries\<close>

text \<open>A refund over the provider, as one step on the journal.\<close>

definition refund_request :: "string \<Rightarrow> order \<Rightarrow> string \<Rightarrow> string option \<Rightarrow> pay_request" where
  "refund_request oid x reason reference = Refund_request \<lparr>fr_fundingReference = reference_text reference, fr_orderId = oid,
     fr_amount = snd (refund_operation oid x), fr_currency = od_currency x, fr_reason = reason, fr_source = None\<rparr>"

definition journaled :: "string \<Rightarrow> string \<Rightarrow> operation_kind \<Rightarrow> string \<Rightarrow> pay \<Rightarrow> pay" where
  "journaled i oid kind h s = (if mget (pa_operations s) i \<noteq> None then s else s\<lparr>pa_operations := mput i (new_operation oid kind h) (pa_operations s)\<rparr>)"

definition agrees :: "string \<Rightarrow> operation_kind \<Rightarrow> string \<Rightarrow> pay \<Rightarrow> bool" where
  "agrees i kind h s \<longleftrightarrow> (case mget (pa_operations s) i of Some r \<Rightarrow> po_hash r = h \<and> po_kind r = kind | None \<Rightarrow> False)"

lemma journal_runs: "journal i oid kind h s =
   (if agrees i kind h (journaled i oid kind h s) then Inr () else Inl (Flow_error ''IDEMPOTENCY_CONFLICT''), journaled i oid kind h s)"
  by (auto simp: journal_def journaled_def agrees_def abind_def amodify_def aget_def acheck_def)

definition settled_call :: "string \<Rightarrow> thrown + string \<Rightarrow> pay \<Rightarrow> pay" where
  "settled_call i answer s = (case mget (pa_operations s) i of None \<Rightarrow> s | Some r \<Rightarrow> s\<lparr>pa_operations := mput i
     (case answer of Inr reference \<Rightarrow> r\<lparr>po_status := Op_succeeded, po_reference := Some reference\<rparr>
      | Inl (Provider e) \<Rightarrow> (if po_status r \<noteq> Op_succeeded then r\<lparr>po_status := failed_status e\<rparr> else r) | Inl (OtherError t) \<Rightarrow> r) (pa_operations s)\<rparr>)"

lemma provider_refund_runs:
  assumes "pe_mock env" "confirmed_funding s oid = Some reference" "refund_operation oid x = (i, amount)" "0 < amount"
    "agrees i Refund_Create (pe_hash env (refund_request oid x reason reference)) (journaled i oid Refund_Create (pe_hash env (refund_request oid x reason reference)) s)"
  shows "provider_refund env oid x reason s =
    (case pe_answer env (refund_request oid x reason reference) i of
       Inr t \<Rightarrow> (Inr (READY i t), settled_call i (Inr t) (journaled i oid Refund_Create (pe_hash env (refund_request oid x reason reference)) s))
     | Inl (Provider e) \<Rightarrow> (Inr (if error_outcome e = UNKNOWN \<or> error_retryable e then RETRY i else REJECTED i),
         settled_call i (Inl (Provider e)) (journaled i oid Refund_Create (pe_hash env (refund_request oid x reason reference)) s))
     | Inl (OtherError t) \<Rightarrow> (Inl Other_error, journaled i oid Refund_Create (pe_hash env (refund_request oid x reason reference)) s))"
  using assms(1-4) assms(5)
  by (simp add: provider_refund_def Let_def abind_def aget_def acheck_def journal_runs refund_request_def getMockPaymentProvider_def answered_def
      recordCallFailure_def change_operation_def amodify_def areturn_def afail_def settled_call_def split: sum.split thrown.split option.split)


text \<open>What a call that is to be retried has gone through.\<close>

lemma retried_call:
  assumes "provider_refund env oid x reason s = (Inr (RETRY i), t)"
  obtains reference e where "pe_mock env" "confirmed_funding s oid = Some reference" "i = fst (refund_operation oid x)" "0 < snd (refund_operation oid x)"
    "agrees i Refund_Create (pe_hash env (refund_request oid x reason reference)) (journaled i oid Refund_Create (pe_hash env (refund_request oid x reason reference)) s)"
    "t = settled_call i (Inl (Provider e)) (journaled i oid Refund_Create (pe_hash env (refund_request oid x reason reference)) s)"
proof -
  obtain j amount where j: "refund_operation oid x = (j, amount)" by fastforce
  show thesis
  proof (cases "confirmed_funding s oid")
    case None
    then show ?thesis using assms by (simp add: provider_refund_def abind_def aget_def afail_def)
  next
    case (Some reference)
    let ?h = "pe_hash env (refund_request oid x reason reference)" let ?s = "journaled j oid Refund_Create ?h s"
    have request: "Refund_request \<lparr>fr_fundingReference = reference_text reference, fr_orderId = oid, fr_amount = amount, fr_currency = od_currency x,
      fr_reason = reason, fr_source = None\<rparr> = refund_request oid x reason reference" by (simp add: refund_request_def j)
    have go: "pe_mock env" "0 < amount" "agrees j Refund_Create ?h ?s"
      using assms unfolding provider_refund_def
      by (auto simp: Some j request Let_def abind_def aget_def acheck_def journal_runs getMockPaymentProvider_def split: if_splits)
    from provider_refund_runs [OF go(1) Some j go(2,3)] assms
    obtain e where "j = i" "t = settled_call i (Inl (Provider e)) ?s"
      by (auto split: sum.splits thrown.splits if_splits)
    with go Some j show ?thesis by (intro that [of reference e]) auto
  qed
qed

lemma filter_mput: "\<not> P (i, r) \<Longrightarrow> (\<And>r'. mget m i = Some r' \<Longrightarrow> \<not> P (i, r')) \<Longrightarrow> filter P (mput i r m) = filter P m"
  by (induction m) (auto simp: mput_def mget_def)

lemma funding_kept:
  assumes "agrees i Refund_Create h (journaled i oid Refund_Create h s)"
  shows "confirmed_funding (settled_call i answer (journaled i oid Refund_Create h s)) oid' = confirmed_funding s oid'"
proof -
  have "operations_of (journaled i oid Refund_Create h s) oid' Funding_Create = operations_of s oid' Funding_Create"
    by (auto simp: journaled_def operations_of_def new_operation_def intro!: filter_mput)
  moreover have "operations_of (settled_call i answer u) oid' Funding_Create = operations_of u oid' Funding_Create" if "agrees i Refund_Create h u" for u
    using that by (auto simp: settled_call_def agrees_def operations_of_def split: option.split sum.split thrown.split intro!: filter_mput)
  ultimately show ?thesis using assms by (simp add: confirmed_funding_def)
qed

text \<open>C7. When the provider's answer to a refund is unknown or asks for a retry, the same refund requested again goes out under the
  same operation: the journal has no further operation, the accepted retry completes the one that is there, and no order, booking or
  claim has changed.\<close>

theorem unknown_refund_is_retried_as_the_same:
  assumes "provider_refund env oid x reason s = (Inr (RETRY i), t)"
    and "pe_mock env'" "pe_hash env' = pe_hash env" "\<And>request. pe_answer env' request i = Inr reference"
  shows "\<exists>u r. provider_refund env' oid x reason t = (Inr (READY i reference), u) \<and> map fst (pa_operations u) = map fst (pa_operations t)
    \<and> mget (pa_operations u) i = Some r \<and> po_kind r = Refund_Create \<and> po_status r = Op_succeeded \<and> po_reference r = Some reference
    \<and> pa_desk u = pa_desk s \<and> pa_ledger u = pa_ledger s \<and> pa_claims u = pa_claims s"
proof -
  obtain fund e where f: "pe_mock env" "confirmed_funding s oid = Some fund" "i = fst (refund_operation oid x)" "0 < snd (refund_operation oid x)"
    and a: "agrees i Refund_Create (pe_hash env (refund_request oid x reason fund)) (journaled i oid Refund_Create (pe_hash env (refund_request oid x reason fund)) s)"
    and t: "t = settled_call i (Inl (Provider e)) (journaled i oid Refund_Create (pe_hash env (refund_request oid x reason fund)) s)"
    by (rule retried_call [OF assms(1)])
  let ?h = "pe_hash env (refund_request oid x reason fund)"
  have op: "refund_operation oid x = (i, snd (refund_operation oid x))" using f(3) by simp
  have kept: "confirmed_funding t oid = Some fund" using funding_kept [OF a] f(2) t by simp
  obtain r0 where r0: "mget (pa_operations (journaled i oid Refund_Create ?h s)) i = Some r0" "po_hash r0 = ?h" "po_kind r0 = Refund_Create"
    using a by (auto simp: agrees_def split: option.splits)
  obtain r1 where r1: "mget (pa_operations t) i = Some r1" "po_hash r1 = ?h" "po_kind r1 = Refund_Create"
    using r0 by (auto simp: t settled_call_def)
  have there: "journaled i oid Refund_Create ?h t = t" using r1(1) by (simp add: journaled_def)
  then have "agrees i Refund_Create ?h (journaled i oid Refund_Create ?h t)" using r1 by (simp add: agrees_def)
  from provider_refund_runs [OF assms(2) kept op f(4), of reason, unfolded assms(3), OF this] assms(4)
  have run: "provider_refund env' oid x reason t = (Inr (READY i reference), settled_call i (Inr reference) t)" by (simp add: there)
  have keys: "map fst (mput i r m) = map fst m" if "mget m i = Some r'" for r r' m
    using that by (induction m) (auto simp: mput_def mget_def split: if_splits)
  have same: "pa_desk t = pa_desk s" "pa_ledger t = pa_ledger s" "pa_claims t = pa_claims s" by (auto simp: t settled_call_def journaled_def split: option.split)
  show ?thesis unfolding run using r1 same by (auto simp: settled_call_def keys)
qed



definition cancelled_order :: order where
  "cancelled_order = (plain_order CANCELLED)\<lparr>od_payment := Pay_refund_pending, od_cancellation_refund := Some 4000\<rparr>"

definition stuck_refund :: provider_operation where
  "stuck_refund = (new_operation bought Refund_Create (''refund '' @ bought @ ''MUTUAL_CANCELLATION''))\<lparr>po_status := Op_unknown\<rparr>"

definition stuck :: pay where
  "stuck = no_payments\<lparr>pa_desk := (pa_desk no_payments)\<lparr>dk_orders := [(bought, cancelled_order)]\<rparr>,
     pa_operations := [(''fund:'' @ bought @ '':1'', (new_operation bought Funding_Create ''h'')\<lparr>po_status := Op_succeeded, po_reference := Some ''f'',
       po_fact := Some ''SUCCEEDED''\<rparr>), (''refund:'' @ bought @ '':agreed'', stuck_refund)]\<rparr>"

lemma stuck_facts:
  "order_row stuck bought = Some cancelled_order" "confirmed_funding stuck bought = Some (Some ''f'')"
  "refund_operation bought cancelled_order = (''refund:'' @ bought @ '':agreed'', 4000)" "mget (pa_operations stuck) (''refund:'' @ bought @ '':agreed'') = Some stuck_refund"
  by (simp_all add: stuck_def order_row_def confirmed_funding_def operations_of_def latest_def stuck_refund_def new_operation_def cancelled_order_def plain_order_def
      refund_operation_def agreed_amount_def)


definition lost_answer :: pay_env where
  "lost_answer = plain_pay\<lparr>pe_answer := \<lambda>_ _. Inl (Provider (perr PROVIDER_TIMEOUT))\<rparr>"

lemma lost_result: "fst (provider_refund lost_answer bought cancelled_order ''MUTUAL_CANCELLATION'' stuck) = Inr (RETRY (''refund:'' @ bought @ '':agreed''))"
  by code_simp

lemma unknown_refund_is_retried_as_the_same_witness:
  "\<exists>u. provider_refund (plain_pay\<lparr>pe_answer := \<lambda>_ _. Inr ''re_1''\<rparr>) bought cancelled_order ''MUTUAL_CANCELLATION''
      (snd (provider_refund lost_answer bought cancelled_order ''MUTUAL_CANCELLATION'' stuck)) = (Inr (READY (''refund:'' @ bought @ '':agreed'') ''re_1''), u)"
proof -
  have "provider_refund lost_answer bought cancelled_order ''MUTUAL_CANCELLATION'' stuck
    = (Inr (RETRY (''refund:'' @ bought @ '':agreed'')), snd (provider_refund lost_answer bought cancelled_order ''MUTUAL_CANCELLATION'' stuck))"
    using lost_result by (metis prod.collapse)
  from unknown_refund_is_retried_as_the_same [OF this, of "plain_pay\<lparr>pe_answer := \<lambda>_ _. Inr ''re_1''\<rparr>" "''re_1''"]
  show ?thesis by (auto simp: plain_pay_def lost_answer_def)
qed

section \<open>Refunds after the release\<close>

definition refund_total :: "string \<Rightarrow> pay \<Rightarrow> int" where
  "refund_total oid s = mtotal (\<lambda>r. if pr_order r = oid then pr_amount r else 0) (pa_refunds s)"

definition keeps_total :: "string \<Rightarrow> pay \<Rightarrow> pay \<Rightarrow> bool" where
  "keeps_total oid s t \<longleftrightarrow> (mok (pa_refunds s) \<longrightarrow> mok (pa_refunds t) \<and> refund_total oid t = refund_total oid s)"

interpretation total: state_frame "keeps_total oid" for oid
  by unfold_locales (auto simp: keeps_total_def)

lemmas total_rules = total.within_areturn total.within_afail total.within_alift total.within_acheck total.within_aget total.within_if total.within_option
  total.within_sum total.within_let total.within_abind

lemma total_same: "(\<And>s. pa_refunds (u s) = pa_refunds s) \<Longrightarrow> total.within oid (amodify u)"
  by (rule total.within_amodify) (simp add: keeps_total_def refund_total_def)

lemma refund_total_update: "total.within oid (update_refund refundId guard f)"
proof -
  have "keeps_total oid s (s\<lparr>pa_refunds := mput refundId (f r) (pa_refunds s)\<rparr>)"
    if "mget (pa_refunds s) refundId = Some r" "post_release_refund_guard v refundId r (f r)" for s v r
    using that by (auto simp: keeps_total_def refund_total_def mtotal_mput post_release_refund_guard_def)
  then show ?thesis unfolding total.within_def
    by (auto simp: update_refund_def abind_def aget_def acheck_def areturn_def amodify_def total.R_refl split: option.split sum.split prod.split)
qed


lemma total_reversal: "total.within oid (attemptTransferReversal env refundId refund reference)"
proof -
  have desk: "total.within oid (on_desk m)" for m :: "'b order_action"
    by (auto simp: total.within_def on_desk_def keeps_total_def refund_total_def split: prod.split)
  have "total.within oid (journal i o' k h)" "total.within oid (change_operation i f)" "total.within oid (pay_event a b c d)" "total.within oid (pay_case u v b)"
    "total.within oid (getMockPaymentProvider env)" for i o' k h f a b c d u v
    unfolding journal_def change_operation_def pay_event_def pay_case_def getMockPaymentProvider_def
    by (intro total_rules total_same desk; simp split: option.split)+
  note steps = this
  have "total.within oid (recordCallFailure i e)" for i e
    unfolding recordCallFailure_def by (cases e) (auto intro!: total_rules steps)
  moreover have result: "total.within oid (case r of READY i t \<Rightarrow> f i t | RETRY i \<Rightarrow> g i | REJECTED i \<Rightarrow> h i)"
    if "\<And>i t. total.within oid (f i t)" "\<And>i. total.within oid (g i)" "\<And>i. total.within oid (h i)"
    for r and f :: "string \<Rightarrow> string \<Rightarrow> string pay_action" and g h using that by (cases r) auto
  ultimately show ?thesis unfolding attemptTransferReversal_def by (intro total_rules steps refund_total_update result)
qed

lemma reachable_refunds: "mok (pa_refunds (pay_run cs no_payments))"
  using run_evolves [of no_payments cs] by (simp add: evolves_def refunds_grow_def no_payments_def mok_def)

text \<open>C6. A refund after the release is begun only for an order that was paid out over the provider, with no other refund under way
  and no open or lost card dispute, and only as far as the order's refunds together stay within the net amount that the confirmed
  release had transferred to the creator.\<close>

theorem later_refunds_stay_within_the_transfer:
  assumes s: "s = pay_run cs no_payments" and run: "startPostReleaseRefund env newId who oid amount reason s = (Inr r, t)"
  shows "\<exists>x release plan. order_row s oid = Some x \<and> od_settlement x = Settled_out \<and> od_rail x \<notin> {CRYPTO, POOL}
    \<and> confirmed_release s oid = Some release \<and> po_plan release = Some plan
    \<and> 0 < amount \<and> mtotal (\<lambda>r. if pr_order r = oid then pr_amount r else 0) (pa_refunds t) \<le> pl_net plan
    \<and> (\<forall>i q. mget (pa_refunds s) i = Some q \<longrightarrow> pr_order q = oid \<longrightarrow> pr_status q = Refund_done)
    \<and> (\<forall>(i, d) \<in> set (pa_disputes s). pd_order d = oid \<longrightarrow> pd_status d = D_WON)"
proof -
  let ?G = "\<lambda>t. \<exists>x release plan. order_row s oid = Some x \<and> od_settlement x = Settled_out \<and> od_rail x \<notin> {CRYPTO, POOL}
    \<and> confirmed_release s oid = Some release \<and> po_plan release = Some plan \<and> 0 < amount \<and> refund_total oid t \<le> pl_net plan
    \<and> \<not> list_ex (\<lambda>(i, r). pr_order r = oid \<and> pr_status r \<noteq> Refund_done) (pa_refunds s)
    \<and> \<not> list_ex (\<lambda>(i, d). pd_order d = oid \<and> pd_status d \<in> {D_OPEN, D_LOST}) (pa_disputes s)"
  have ok: "mok (pa_refunds s)" unfolding s by (rule reachable_refunds)
  have later: "wp (abind (pay_event oid k None None) (\<lambda>_. abind (attemptTransferReversal env newId q reference) (\<lambda>state. areturn (newId, state))))
      (\<lambda>_ t. refund_total oid t \<le> net) (\<lambda>_ _. True) (s\<lparr>pa_refunds := mput newId q (pa_refunds s)\<rparr>)"
    if "refund_total oid (s\<lparr>pa_refunds := mput newId q (pa_refunds s)\<rparr>) \<le> net" for q k reference net
  proof -
    let ?u = "s\<lparr>pa_refunds := mput newId q (pa_refunds s)\<rparr>"
    have "total.within oid (abind (pay_event oid k None None) (\<lambda>_. abind (attemptTransferReversal env newId q reference) (\<lambda>state. areturn (newId, state))))"
      by (intro total_rules total_reversal) (auto simp: pay_event_def total.within_def on_desk_def keeps_total_def refund_total_def split: prod.split)
    from total.withinD [OF this, of ?u] ok that show ?thesis
      by (auto simp: wp_def keeps_total_def split: prod.splits sum.splits)
  qed
  have fresh: "refund_total oid (s\<lparr>pa_refunds := mput newId q (pa_refunds s)\<rparr>) = refund_total oid s + (if pr_order q = oid then pr_amount q else 0)"
    if "mget (pa_refunds s) newId = None" for q using ok that by (simp add: refund_total_def mtotal_mput)
  have "wp (startPostReleaseRefund env newId who oid amount reason) (\<lambda>_ t. ?G t) (\<lambda>_ _. True) s"
    by (auto simp: startPostReleaseRefund_def insert_refund_def transferred_def wp_abind wp_aget wp_acheck wp_afail wp_alift wp_amodify Let_def fresh
        refund_checks_def refund_total_def [symmetric] split: option.split intro!: later [unfolded wp_abind])
  then have "?G t" using run by (simp add: wp_def)
  moreover have "pr_status q = Refund_done" if "\<not> list_ex (\<lambda>(i, r). pr_order r = oid \<and> pr_status r \<noteq> Refund_done) (pa_refunds s)"
    "mget (pa_refunds s) i = Some q" "pr_order q = oid" for i q
    using that by (auto simp: list_ex_iff mget_def dest!: map_of_SomeD)
  moreover have "pd_status d = D_WON" if "\<not> list_ex (\<lambda>(i, d). pd_order d = oid \<and> pd_status d \<in> {D_OPEN, D_LOST}) (pa_disputes s)"
    "(i, d) \<in> set (pa_disputes s)" "pd_order d = oid" for i d
    using that by (cases "pd_status d") (auto simp: list_ex_iff)
  ultimately show ?thesis unfolding refund_total_def by blast
qed

definition refund_later :: "(exception_value + string \<times> string) \<times> pay" where
  "refund_later = startPostReleaseRefund plain_pay ''rf1'' ''op'' bought 5000 ''The files were broken'' (pay_run (purchase @ settlement) no_payments)"

lemma refund_begun: "fst refund_later = Inr (''rf1'', ''RECOVERING'')"
  by code_simp

lemma later_refunds_stay_within_the_transfer_witness:
  "\<exists>release plan. confirmed_release (pay_run (purchase @ settlement) no_payments) bought = Some release \<and> po_plan release = Some plan
    \<and> mtotal (\<lambda>r. if pr_order r = bought then pr_amount r else 0) (pa_refunds (snd refund_later)) \<le> pl_net plan"
proof -
  have "startPostReleaseRefund plain_pay ''rf1'' ''op'' bought 5000 ''The files were broken'' (pay_run (purchase @ settlement) no_payments)
      = (Inr (''rf1'', ''RECOVERING''), snd refund_later)" using refund_begun unfolding refund_later_def by (metis prod.collapse)
  from later_refunds_stay_within_the_transfer [OF refl this] show ?thesis by blast
qed


section \<open>Disputes hold a settlement back\<close>

text \<open>What a release of other orders leaves alone.\<close>

definition begun :: "pay \<Rightarrow> string \<Rightarrow> string list" where
  "begun s oid = map fst (operations_of s oid Release_Create)"

definition spares :: "string \<Rightarrow> pay \<Rightarrow> pay \<Rightarrow> bool" where
  "spares oid s t \<longleftrightarrow> order_row t oid = order_row s oid \<and> pa_disputes t = pa_disputes s \<and> dk_disputes (pa_desk t) = dk_disputes (pa_desk s)
     \<and> begun t oid = begun s oid"

interpretation spare: state_frame "spares oid" for oid
  by unfold_locales (auto simp: spares_def)

named_theorems spare "Actions that leave an order and its disputes alone"

lemmas [spare] = spare.within_areturn spare.within_afail spare.within_alift spare.within_acheck spare.within_aget spare.within_if spare.within_option
  spare.within_sum spare.within_prod spare.within_let spare.within_abind

lemma spare_desk:
  assumes "\<And>d. dk_orders (snd (m d)) = dk_orders d" "\<And>d. dk_disputes (snd (m d)) = dk_disputes d"
  shows "spare.within oid (on_desk m)"
  using assms by (simp add: spare.within_def on_desk_def spares_def order_row_def begun_def operations_of_def split_beta)

lemma aside_desk: "aside m \<Longrightarrow> dk_orders (snd (m d)) = dk_orders d \<and> dk_disputes (snd (m d)) = dk_disputes d"
proof -
  assume "aside m"
  then have "wp m (\<lambda>_ t. same_rows d t \<and> dk_cancellations t = dk_cancellations d) (\<lambda>_ _. False) d" by (simp add: aside_def)
  then show ?thesis by (auto simp: wp_def same_rows_def split: prod.splits sum.splits)
qed

lemma spare_asides [spare]:
  "spare.within oid (pay_case who i kind)" "spare.within oid (pay_event o' kind ref fee)" "spare.within oid (outbox key template recipient)"
  "spare.within oid (getMockPaymentProvider env)"
  unfolding pay_case_def pay_event_def outbox_def getMockPaymentProvider_def
  by (intro spare_desk spare; (use aside_desk [OF aside_simps(3)] aside_desk [OF aside_simps(4)] in \<open>simp add: amodify_def\<close>)?)+

lemma begun_put: "mget m i = Some r \<Longrightarrow> po_order r' = po_order r \<Longrightarrow> po_kind r' = po_kind r \<Longrightarrow>
   map fst (filter (\<lambda>(i, r). po_order r = Some oid \<and> po_kind r = k) (mput i r' m)) = map fst (filter (\<lambda>(i, r). po_order r = Some oid \<and> po_kind r = k) m)"
  by (induction m) (auto simp: mput_def mget_def split: if_splits)

lemma spare_change [spare]:
  assumes "\<And>r. po_order (f r) = po_order r \<and> po_kind (f r) = po_kind r"
  shows "spare.within oid (change_operation i f)"
  unfolding change_operation_def
  by (rule spare.within_amodify) (auto simp: spares_def order_row_def begun_def operations_of_def begun_put assms split: option.split)

lemma spare_journal:
  assumes "o' \<noteq> oid"
  shows "spare.within oid (journal i o' kind h)"
proof -
  have "filter (\<lambda>(i, r). po_order r = Some oid \<and> po_kind r = k) (mput i (new_operation o' kind h) m) = filter (\<lambda>(i, r). po_order r = Some oid \<and> po_kind r = k) m"
    if "mget m i = None" for m k using that assms by (induction m) (auto simp: mput_def mget_def new_operation_def split: if_splits)
  then show ?thesis unfolding journal_def
    by (intro spare spare.within_amodify) (auto simp: spares_def order_row_def begun_def operations_of_def)
qed

lemma spare_failure [spare]: "spare.within oid (recordCallFailure i e)"
  unfolding recordCallFailure_def by (cases e) (auto intro!: spare)

lemma spare_ledger [spare]: "spare.within oid (ledger o' kind key entries c)"
  unfolding ledger_def
  by (intro spare spare.within_amodify) (simp add: spares_def order_row_def begun_def operations_of_def)

lemma spare_update:
  assumes "o' \<noteq> oid"
  shows "spare.within oid (update_paid now o' f)" "spare.within oid (update_where now o' guard f)"
proof -
  show u: "spare.within oid (update_paid now o' f)" using assms
    by (auto simp: spare.within_def update_paid_def on_orders_def update_order_def spares_def order_row_def status_triggers_def begun_def operations_of_def
        abind_def aget_def constraint_def acheck_def amodify_def areturn_def order_amendment_expiry_def expire_amendments_def
        split: option.split sum.split prod.split)
  show "spare.within oid (update_where now o' guard f)" unfolding update_where_def by (intro spare u)
qed

lemma spare_release:
  assumes "o' \<noteq> oid"
  shows "spare.within oid (requestCreatorRelease env now o' x)"
  unfolding requestCreatorRelease_def crypto_release_def settlePoolOrder_def finalizePoolOrder_def settled_def provider_release_def Let_def
  by (cases "od_rail x") (auto intro!: spare spare_update spare_journal assms)

lemma attempt_spares: "spare.within oid m \<Longrightarrow> spares oid s (snd (attempt_job m s))"
  using spare.withinD [OF spare.within_transact, of oid m s] by (auto simp: attempt_job_def split: prod.splits sum.splits)

definition held_back :: "pay \<Rightarrow> string \<Rightarrow> bool" where
  "held_back s oid \<longleftrightarrow> list_ex (\<lambda>(i, d). pd_order d = oid \<and> pd_status d \<in> {D_OPEN, D_LOST}) (pa_disputes s)
     \<or> list_ex (\<lambda>(i, d). ds_order d = oid \<and> ds_open d) (dk_disputes (pa_desk s))"

lemma held_back_release:
  assumes "held_back s oid"
  shows "spares oid s (snd (attempt_job (release_ready env now measuring o') s))"
proof (cases "o' = oid")
  case True
  then have "snd (attempt_job (release_ready env now measuring o') s) = s"
    using assms by (auto simp: attempt_job_def transact_def release_ready_def abind_def aget_def areturn_def settlement_ready_def held_back_def split: option.split)
  then show ?thesis by (simp add: spare.R_refl)
next
  case False
  have "spare.within oid (release_ready env now measuring o')"
    unfolding release_ready_def by (auto intro!: spare spare_release False)
  then show ?thesis by (rule attempt_spares)
qed

text \<open>C5. While an order has an open or lost card dispute, or an open dispute between its parties, the job that pays out ready
  settlements begins no release for it and leaves the order as it is, whatever else it pays out.\<close>

theorem disputed_settlements_are_held_back:
  assumes "(\<exists>(i, d) \<in> set (pa_disputes s). pd_order d = oid \<and> pd_status d \<in> {D_OPEN, D_LOST})
    \<or> (\<exists>(i, d) \<in> set (dk_disputes (pa_desk s)). ds_order d = oid \<and> ds_open d)"
  shows "order_row (snd (releaseReadySettlements env now measuring limit s)) oid = order_row s oid
    \<and> map fst (operations_of (snd (releaseReadySettlements env now measuring limit s)) oid Release_Create) = map fst (operations_of s oid Release_Create)"
proof -
  have each: "spares oid u (snd (run_each (\<lambda>o'. attempt_job (release_ready env now measuring o')) xs u))" if "held_back u oid" for xs u
    using that
  proof (induction xs arbitrary: u)
    case (Cons o' xs)
    let ?v = "snd (attempt_job (release_ready env now measuring o') u)"
    have v: "spares oid u ?v" by (rule held_back_release [OF Cons.prems])
    then have "held_back ?v oid" using Cons.prems by (simp add: spares_def held_back_def)
    from spare.R_trans [OF v Cons.IH [OF this]] show ?case by (simp add: split_beta Let_def)
  qed (simp add: spare.R_refl)
  have "held_back s oid" using assms by (auto simp: held_back_def list_ex_iff)
  then show ?thesis using each [of s] by (simp add: releaseReadySettlements_def spares_def begun_def)
qed

definition dispute_fact :: verified_event where
  "dispute_fact = (fact ''evt3'' ''dispute.opened'' ''dispute'' ''dp1'' ''OPEN'' 10000 None)\<lparr>ve_fundingReference := ''at fund:'' @ bought @ '':1''\<rparr>"

definition disputed :: pay where
  "disputed = pay_run (purchase @ [(plain_pay, 5, Webhook (Inr dispute_fact))]) no_payments"

lemma disputed_facts: "map (\<lambda>(i, d). (pd_order d, pd_status d)) (pa_disputes disputed) = [(bought, D_OPEN)]"
  by code_simp

lemma disputed_settlements_are_held_back_witness:
  "order_row (snd (releaseReadySettlements plain_pay 6 (\<lambda>_. False) 10 disputed)) bought = order_row disputed bought"
proof -
  obtain i d where "(i, d) \<in> set (pa_disputes disputed)" "pd_order d = bought" "pd_status d = D_OPEN"
    using disputed_facts by (cases "pa_disputes disputed") auto
  then have "\<exists>(i, d) \<in> set (pa_disputes disputed). pd_order d = bought \<and> pd_status d \<in> {D_OPEN, D_LOST}" by auto
  from disputed_settlements_are_held_back [OF disjI1, OF this] show ?thesis by blast
qed

end
