(* ===== verification/Weeks.thy ===== *)
theory Weeks
  imports Prelude
begin

text \<open>
  The weeks of a creator's calendar (\<open>src/modules/capacity/weeks.ts\<close>): local midnights as UTC instants, in milliseconds. \<open>Intl\<close> gives
  the wall clock of a time zone and is a parameter; the calendar arithmetic of \<open>Date\<close> is written out.
\<close>

section \<open>The calendar of Date\<close>

definition days_from_year :: "int \<Rightarrow> int" where
  "days_from_year y = 365 * (y - 1970) + (y - 1969) div 4 - (y - 1901) div 100 + (y - 1601) div 400"

definition leap_year :: "int \<Rightarrow> bool" where
  "leap_year y \<longleftrightarrow> 4 dvd y \<and> (\<not> 100 dvd y \<or> 400 dvd y)"

definition month_starts :: "bool \<Rightarrow> int list" where
  "month_starts leap = (let l = if leap then 1 else 0 in
     [0, 31, 59 + l, 90 + l, 120 + l, 151 + l, 181 + l, 212 + l, 243 + l, 273 + l, 304 + l, 334 + l])"

definition days_in_year :: "bool \<Rightarrow> int" where
  "days_in_year leap = (if leap then 366 else 365)"

text \<open>Months count from 1 here and from 0 in \<open>Date\<close>; the day may lie outside the month.\<close>

definition make_day :: "int \<Rightarrow> int \<Rightarrow> int \<Rightarrow> int" where
  "make_day y m d = days_from_year y + month_starts (leap_year y) ! nat (m - 1) + d - 1"

definition year_of :: "int \<Rightarrow> int" where
  "year_of n = (let y = 1970 + n * 400 div 146097 in
     if n < days_from_year y then y - 1 else if days_from_year (y + 1) \<le> n then y + 1 else y)"

definition month_of :: "int \<Rightarrow> int" where
  "month_of n = int (length (filter (\<lambda>s. s \<le> n - days_from_year (year_of n)) (month_starts (leap_year (year_of n)))))"

definition date_of :: "int \<Rightarrow> int" where
  "date_of n = n - make_day (year_of n) (month_of n) 1 + 1"

definition DAY :: int where "DAY = 86400000"

definition date_utc :: "int \<Rightarrow> int \<Rightarrow> int \<Rightarrow> int \<Rightarrow> int \<Rightarrow> int \<Rightarrow> int" where
  "date_utc y m d h mi s = make_day (if 0 \<le> y \<and> y \<le> 99 then 1900 + y else y) m d * DAY + h * 3600000 + mi * 60000 + s * 1000"

definition set_date :: "int \<Rightarrow> int \<Rightarrow> int" where
  "set_date n d = make_day (year_of n) (month_of n) d"

definition week_day :: "int \<Rightarrow> int" where
  "week_day n = (n + 4) mod 7"

section \<open>Local time\<close>

record local_parts =
  lp_year :: int
  lp_month :: int
  lp_day :: int
  lp_hour :: int
  lp_minute :: int
  lp_second :: int

record time_zones =
  tz_known :: "string \<Rightarrow> bool"
  tz_parts :: "string \<Rightarrow> int \<Rightarrow> local_parts"

definition offsetMs :: "(int \<Rightarrow> local_parts) \<Rightarrow> int \<Rightarrow> int" where
  "offsetMs parts instant = (let p = parts instant; flooredToSecond = instant div 1000 * 1000 in
     date_utc (lp_year p) (lp_month p) (lp_day p) (lp_hour p) (lp_minute p) (lp_second p) - flooredToSecond)"

definition sameLocalMidnight :: "local_parts \<Rightarrow> int \<Rightarrow> int \<Rightarrow> int \<Rightarrow> bool" where
  "sameLocalMidnight p year month day \<longleftrightarrow> lp_year p = year \<and> lp_month p = month \<and> lp_day p = day \<and> lp_hour p = 0 \<and> lp_minute p = 0 \<and> lp_second p = 0"

definition localDateKey :: "local_parts \<Rightarrow> int" where
  "localDateKey p = lp_year p * 10000 + lp_month p * 100 + lp_day p"

definition isValidTimeZone :: "time_zones \<Rightarrow> string \<Rightarrow> bool" where
  "isValidTimeZone zones timeZone \<longleftrightarrow> \<not> (length timeZone = 0 \<or> length timeZone > 64) \<and> (timeZone = ''UTC'' \<or> tz_known zones timeZone)"

definition HOUR :: int where "HOUR = 3600000"

text \<open>The search of a gap: the loop may not end when its bounds are not whole seconds, and is then \<open>None\<close>.\<close>

partial_function (option) first_instant :: "(int \<Rightarrow> local_parts) \<Rightarrow> int \<Rightarrow> int \<Rightarrow> int \<Rightarrow> int option" where
  [code]: "first_instant parts target lo hi =
     (if hi - lo > 1000 then
        (let mid = (lo + hi) div 2 div 1000 * 1000 in
         if localDateKey (parts mid) \<ge> target then first_instant parts target lo mid else first_instant parts target mid hi)
      else Some hi)"

definition zonedMidnightToUtc :: "(int \<Rightarrow> local_parts) \<Rightarrow> int \<Rightarrow> int \<Rightarrow> int \<Rightarrow> int option" where
  "zonedMidnightToUtc parts year month day =
     (let wall = date_utc year month day 0 0 0;
          candidates = filter (\<lambda>instant. sameLocalMidnight (parts instant) year month day)
            [wall - offsetMs parts (wall - 12 * HOUR), wall - offsetMs parts (wall + 12 * HOUR), wall - offsetMs parts wall] in
      if candidates \<noteq> [] then Some (Min (set candidates))
      else first_instant parts (year * 10000 + month * 100 + day) (wall - 16 * HOUR) (wall + 16 * HOUR))"

section \<open>Weeks\<close>

record week_window =
  ww_starts :: int
  ww_ends :: int
  ww_label :: string

definition isoDate :: "int \<Rightarrow> int \<Rightarrow> int \<Rightarrow> string" where
  "isoDate year month day = padStart 4 (show_int year) @ ''-'' @ padStart 2 (show_int month) @ ''-'' @ padStart 2 (show_int day)"

fun week_starts :: "(int \<Rightarrow> local_parts) \<Rightarrow> int \<Rightarrow> nat \<Rightarrow> (int \<times> string) list option" where
  "week_starts parts calendar 0 = Some []"
| "week_starts parts calendar (Suc n) =
     (let y = year_of calendar; m = month_of calendar; d = date_of calendar in
      case zonedMidnightToUtc parts y m d of
        None \<Rightarrow> None
      | Some instant \<Rightarrow> map_option (\<lambda>starts. (instant, isoDate y m d) # starts) (week_starts parts (set_date calendar (d + 7)) n))"

definition windows_of :: "(int \<times> string) list \<Rightarrow> week_window list" where
  "windows_of starts = map (\<lambda>((instant, label), (next, _)). \<lparr>ww_starts = instant, ww_ends = next, ww_label = label\<rparr>) (zip starts (tl starts))"

datatype week_error = Invalid_time_zone | Invalid_week_count

definition weekWindows :: "time_zones \<Rightarrow> string \<Rightarrow> int \<Rightarrow> int \<Rightarrow> (week_error + week_window list) option" where
  "weekWindows zones timeZone now count =
     (if \<not> isValidTimeZone zones timeZone then Some (Inl Invalid_time_zone)
      else if count < 1 \<or> count > 104 then Some (Inl Invalid_week_count)
      else
        (let local = tz_parts zones timeZone now;
             calendar = date_utc (lp_year local) (lp_month local) (lp_day local) 0 0 0 div DAY;
             daysSinceMonday = (week_day calendar + 6) mod 7;
             monday = set_date calendar (date_of calendar - daysSinceMonday) in
         map_option (\<lambda>starts. Inr (windows_of starts)) (week_starts (tz_parts zones timeZone) monday (nat count + 1))))"

end
