(* ===== verification/Week_Calendar.thy ===== *)
theory Week_Calendar
  imports Weeks
begin

text \<open>
  The calendar arithmetic of \<open>Weeks\<close>: days and dates correspond one to one, and dates are ordered as their days.
\<close>

section \<open>Years\<close>

lemma div_bounds: "0 < k \<Longrightarrow> k * (a div k) \<le> a \<and> a < k * (a div k) + k" for a k :: int
  using pos_mod_sign [of k a] pos_mod_bound [of k a] mult_div_mod_eq [of k a] by linarith

lemma div_next: "0 < k \<Longrightarrow> (a + 1) div k = a div k + (if k dvd a + 1 then 1 else 0)" for a k :: int
proof -
  assume k: "0 < k"
  note b = div_bounds [OF k, of a] div_bounds [OF k, of "a + 1"]
  show ?thesis
  proof (cases "k dvd a + 1")
    case True
    then obtain c where c: "a + 1 = k * c" ..
    moreover have "a div k = c - 1" using k c by (intro int_div_pos_eq [where r = "k - 1"]) (simp_all add: algebra_simps)
    ultimately show ?thesis using k by simp
  next
    case False
    have "a mod k + 1 \<noteq> k"
    proof
      assume "a mod k + 1 = k"
      then have "a + 1 = k * (a div k + 1)" using mult_div_mod_eq [of k a] unfolding distrib_left by linarith
      with False show False by simp
    qed
    then have "a mod k + 1 < k" using pos_mod_bound [OF k, of a] by linarith
    then have "(a + 1) div k = a div k"
      using pos_mod_sign [OF k, of a] mult_div_mod_eq [of k a] by (intro int_div_pos_eq [where r = "a mod k + 1"]) linarith+
    with False show ?thesis by simp
  qed
qed

lemma dvd_shift: "k dvd c \<Longrightarrow> k dvd y - c \<longleftrightarrow> k dvd y" for k c y :: int
  by (metis diff_add_cancel dvd_add dvd_diff)

lemma next_multiple:
  fixes k c y :: int
  assumes "0 < k" "k dvd c"
  shows "(y + 1 - (c + 1)) div k = (y - (c + 1)) div k + (if k dvd y then 1 else 0)"
proof -
  have "y + 1 - (c + 1) = (y - (c + 1)) + 1" "(y - (c + 1)) + 1 = y - c" by simp_all
  then show ?thesis using div_next [OF assms(1), of "y - (c + 1)"] dvd_shift [OF assms(2), of y] by simp
qed

lemma next_year: "days_from_year (y + 1) = days_from_year y + days_in_year (leap_year y)"
proof -
  have four: "(y + 1 - 1969) div 4 = (y - 1969) div 4 + (if 4 dvd y then 1 else 0)" using next_multiple [of 4 1968 y] by simp
  have hundred: "(y + 1 - 1901) div 100 = (y - 1901) div 100 + (if 100 dvd y then 1 else 0)" using next_multiple [of 100 1900 y] by simp
  have more: "(y + 1 - 1601) div 400 = (y - 1601) div 400 + (if 400 dvd y then 1 else 0)" using next_multiple [of 400 1600 y] by simp
  have "(4::int) dvd 100" "(100::int) dvd 400" by simp_all
  then have "100 dvd y \<Longrightarrow> 4 dvd y" "400 dvd y \<Longrightarrow> 100 dvd y" using dvd_trans by blast+
  then show ?thesis unfolding days_from_year_def four hundred more leap_year_def days_in_year_def
    by (cases "4 dvd y"; cases "100 dvd y"; cases "400 dvd y"; simp)
qed

lemma year_grows: "days_from_year y + 365 \<le> days_from_year (y + 1)"
  by (simp add: next_year days_in_year_def)

lemma year_mono: "y < z \<Longrightarrow> days_from_year y + 365 \<le> days_from_year z"
proof (induction z rule: int_gr_induct)
  case base
  show ?case by (rule year_grows)
next
  case (step z)
  then show ?case using year_grows [of z] by simp
qed

lemma year_range: "days_from_year (year_of n) \<le> n \<and> n < days_from_year (year_of n + 1)"
proof -
  define q where "q = n * 400 div 146097"
  have q: "146097 * q \<le> 400 * n" "400 * n < 146097 * q + 146097" using div_bounds [of 146097 "n * 400"] by (simp_all add: q_def)
  define a where "a = (q + 1) div 4"
  define b where "b = (q + 69) div 100"
  define c where "c = (q + 369) div 400"
  have bounds: "4 * a \<le> q + 1" "q + 1 < 4 * a + 4" "100 * b \<le> q + 69" "q + 69 < 100 * b + 100" "400 * c \<le> q + 369" "q + 369 < 400 * c + 400"
    using div_bounds [of 4 "q + 1"] div_bounds [of 100 "q + 69"] div_bounds [of 400 "q + 369"] by (simp_all add: a_def b_def c_def)
  have y: "days_from_year (1970 + q) = 365 * q + a - b + c" by (simp add: days_from_year_def a_def b_def c_def algebra_simps)
  have "days_from_year (1970 + q - 1) + 365 \<le> days_from_year (1970 + q)" using year_grows [of "1970 + q - 1"] by simp
  moreover have "days_from_year (1970 + q) + 365 \<le> days_from_year (1970 + q + 1)" "days_from_year (1970 + q + 1) + 365 \<le> days_from_year (1970 + q + 1 + 1)"
    by (rule year_grows)+
  ultimately have "days_from_year (1970 + q - 1) \<le> n" "n < days_from_year (1970 + q + 1 + 1)" using q bounds y by linarith+
  then show ?thesis by (auto simp: year_of_def Let_def q_def [symmetric])
qed

lemma year_unique:
  assumes "days_from_year y \<le> n" "n < days_from_year (y + 1)"
  shows "year_of n = y"
proof (rule ccontr)
  assume "year_of n \<noteq> y"
  then consider "year_of n + 1 \<le> y" | "y + 1 \<le> year_of n" by linarith
  then show False
  proof cases
    case 1
    then have "days_from_year (year_of n + 1) \<le> days_from_year y" using year_mono [of "year_of n + 1" y] by (cases "year_of n + 1 = y") auto
    with assms year_range [of n] show False by linarith
  next
    case 2
    then have "days_from_year (y + 1) \<le> days_from_year (year_of n)" using year_mono [of "y + 1" "year_of n"] by (cases "y + 1 = year_of n") auto
    with assms year_range [of n] show False by linarith
  qed
qed

section \<open>Dates\<close>

definition month_length :: "bool \<Rightarrow> int \<Rightarrow> int" where
  "month_length leap m = (if m = 2 then (if leap then 29 else 28) else if m \<in> {4, 6, 9, 11} then 30 else 31)"

definition is_date :: "int \<Rightarrow> int \<Rightarrow> int \<Rightarrow> bool" where
  "is_date y m d \<longleftrightarrow> 1 \<le> m \<and> m \<le> 12 \<and> 1 \<le> d \<and> d \<le> month_length (leap_year y) m"

lemma twelve: "1 \<le> m \<Longrightarrow> m \<le> 12 \<Longrightarrow> m \<in> {1, 2, 3, 4, 5, 6, 7, 8, 9, 10, 11, 12 :: int}"
  by simp presburger

text \<open>The month of the day \<open>r\<close> of a year.\<close>

lemma month_in_year:
  assumes "0 \<le> r" "r < days_in_year leap"
  defines "m \<equiv> int (length (filter (\<lambda>s. s \<le> r) (month_starts leap)))"
  shows "1 \<le> m \<and> m \<le> 12 \<and> month_starts leap ! nat (m - 1) \<le> r \<and> r < month_starts leap ! nat (m - 1) + month_length leap m"
  using assms(1,2) unfolding m_def by (cases leap) (auto simp: month_starts_def month_length_def days_in_year_def)

lemma month_found:
  assumes "1 \<le> m" "m \<le> 12" "1 \<le> d" "d \<le> month_length leap m"
  shows "int (length (filter (\<lambda>s. s \<le> month_starts leap ! nat (m - 1) + d - 1) (month_starts leap))) = m
    \<and> 0 \<le> month_starts leap ! nat (m - 1) + d - 1 \<and> month_starts leap ! nat (m - 1) + d - 1 < days_in_year leap"
  using twelve [OF assms(1,2)] assms(3,4) by (elim insertE emptyE; cases leap; simp add: month_starts_def month_length_def days_in_year_def)

lemma make_day_shift: "make_day y m (d + k) = make_day y m d + k"
  by (simp add: make_day_def)

lemma date_of_day: "make_day (year_of n) (month_of n) (date_of n) = n"
  by (simp add: date_of_def make_day_def)

lemma day_is_date: "is_date (year_of n) (month_of n) (date_of n)"
proof -
  have "0 \<le> n - days_from_year (year_of n)" "n - days_from_year (year_of n) < days_in_year (leap_year (year_of n))"
    using year_range [of n] by (auto simp: next_year)
  from month_in_year [OF this] show ?thesis
    by (simp add: is_date_def month_of_def [symmetric] date_of_def make_day_def)
qed

text \<open>Days and dates correspond.\<close>

lemma day_of_date:
  assumes "is_date y m d"
  shows "year_of (make_day y m d) = y \<and> month_of (make_day y m d) = m \<and> date_of (make_day y m d) = d"
proof -
  from assms have found: "int (length (filter (\<lambda>s. s \<le> month_starts (leap_year y) ! nat (m - 1) + d - 1) (month_starts (leap_year y)))) = m"
    "0 \<le> month_starts (leap_year y) ! nat (m - 1) + d - 1" "month_starts (leap_year y) ! nat (m - 1) + d - 1 < days_in_year (leap_year y)"
    using month_found unfolding is_date_def by blast+
  have y: "year_of (make_day y m d) = y"
    using found(2,3) by (intro year_unique) (auto simp: make_day_def next_year)
  moreover have m: "month_of (make_day y m d) = m"
    using found(1) by (simp add: month_of_def y, simp add: make_day_def algebra_simps)
  ultimately show ?thesis by (simp add: date_of_def) (simp add: make_day_def)
qed

section \<open>Order\<close>

definition date_key :: "int \<Rightarrow> int" where
  "date_key n = year_of n * 10000 + month_of n * 100 + date_of n"

lemma month_length_bound: "month_length leap m \<le> 31"
  by (simp add: month_length_def)

lemma date_key_less: "n < k \<Longrightarrow> date_key n < date_key k"
proof -
  assume less: "n < k"
  have n: "1 \<le> month_of n" "month_of n \<le> 12" "1 \<le> date_of n" "date_of n \<le> 31"
    and k: "1 \<le> month_of k" "month_of k \<le> 12" "1 \<le> date_of k" "date_of k \<le> 31"
    using day_is_date [of n] day_is_date [of k] month_length_bound order_trans unfolding is_date_def by blast+
  consider "year_of k < year_of n" | "year_of n < year_of k" | "year_of n = year_of k" by linarith
  then show "date_key n < date_key k"
  proof cases
    case 1
    then have "days_from_year (year_of k + 1) \<le> days_from_year (year_of n)"
      using year_mono [of "year_of k + 1" "year_of n"] by (cases "year_of k + 1 = year_of n") auto
    then show ?thesis using year_range [of n] year_range [of k] less by linarith
  next
    case 2
    then show ?thesis using n k by (simp add: date_key_def)
  next
    case 3
    have "length (filter (\<lambda>s. s \<le> a) xs) \<le> length (filter (\<lambda>s. s \<le> b) xs)" if "a \<le> b" for a b :: int and xs
      using that by (induction xs) auto
    then have "month_of n \<le> month_of k" using less by (simp add: month_of_def 3)
    moreover have "date_of n < date_of k" if "month_of n = month_of k" using less by (simp add: date_of_def 3 that)
    ultimately show ?thesis using n k 3 by (cases "month_of n = month_of k") (auto simp: date_key_def)
  qed
qed

end
