(* ===== verification/Week_Zones.thy ===== *)
theory Week_Zones
  imports Week_Calendar
begin

text \<open>
  Time zones as \<open>Intl\<close> documents them (\<open>local_clock\<close>: the wall clock is UTC moved by an offset), and the first instant of a local date, which
  \<open>zonedMidnightToUtc\<close> finds.
\<close>

section \<open>Wall clocks\<close>

definition wall_parts :: "int \<Rightarrow> local_parts" where
  "wall_parts w = (let n = w div DAY; r = w mod DAY in
     \<lparr>lp_year = year_of n, lp_month = month_of n, lp_day = date_of n, lp_hour = r div 3600000, lp_minute = r mod 3600000 div 60000, lp_second = r mod 60000 div 1000\<rparr>)"

definition whole_second :: "int \<Rightarrow> int" where
  "whole_second t = t div 1000 * 1000"

definition local_clock :: "(int \<Rightarrow> local_parts) \<Rightarrow> (int \<Rightarrow> int) \<Rightarrow> bool" where
  "local_clock parts off \<longleftrightarrow> (\<forall>t. 1000 dvd off t \<and> \<bar>off t\<bar> \<le> 14 * HOUR \<and> parts t = wall_parts (whole_second t + off (whole_second t)))"

text \<open>Around an instant the offset changes at most once; where it does, it stays within twelve hours of UTC.\<close>

definition changes_once :: "(int \<Rightarrow> int) \<Rightarrow> int \<Rightarrow> bool" where
  "changes_once off w \<longleftrightarrow> (\<exists>c a b. (\<forall>t. w - 16 * HOUR \<le> t \<and> t \<le> w + 16 * HOUR \<longrightarrow> off t = (if t < c then a else b))
     \<and> (a = b \<or> \<bar>a\<bar> \<le> 12 * HOUR \<and> \<bar>b\<bar> \<le> 12 * HOUR))"

lemma whole_second_props [simp]: "1000 dvd whole_second t" "whole_second t \<le> t" "t < whole_second t + 1000" "1000 dvd t \<Longrightarrow> whole_second t = t"
  using div_bounds [of 1000 t] by (auto simp: whole_second_def)

text \<open>The parts of a wall clock and its milliseconds.\<close>

lemma parts_sum:
  assumes "1000 dvd w"
  shows "w div DAY * DAY + w mod DAY div 3600000 * 3600000 + w mod DAY mod 3600000 div 60000 * 60000 + w mod DAY mod 60000 div 1000 * 1000 = w"
proof -
  have "w mod DAY mod 3600000 mod 60000 = w mod DAY mod 60000" by (simp add: mod_mod_cancel)
  moreover have "w mod DAY mod 60000 mod 1000 = w mod 1000" by (simp add: mod_mod_cancel DAY_def)
  moreover have "w mod 1000 = 0" using assms by simp
  ultimately show ?thesis
    using div_mult_mod_eq [of w DAY] div_mult_mod_eq [of "w mod DAY" 3600000] div_mult_mod_eq [of "w mod DAY mod 3600000" 60000]
      div_mult_mod_eq [of "w mod DAY mod 60000" 1000] by linarith
qed

lemma wall_parts_utc:
  assumes "1000 dvd w" "year_of (w div DAY) \<notin> {0..99}"
  shows "date_utc (lp_year (wall_parts w)) (lp_month (wall_parts w)) (lp_day (wall_parts w)) (lp_hour (wall_parts w)) (lp_minute (wall_parts w)) (lp_second (wall_parts w)) = w"
proof -
  have "\<not> (0 \<le> year_of (w div DAY) \<and> year_of (w div DAY) \<le> 99)" using assms(2) by simp
  then show ?thesis
    unfolding wall_parts_def Let_def date_utc_def local_parts.simps by (subst if_not_P, assumption) (simp only: date_of_day parts_sum [OF assms(1)])
qed

lemma wall_midnight:
  assumes "1000 dvd w" "is_date y m d"
  shows "sameLocalMidnight (wall_parts w) y m d \<longleftrightarrow> w = make_day y m d * DAY"
proof
  assume "sameLocalMidnight (wall_parts w) y m d"
  then have e: "year_of (w div DAY) = y" "month_of (w div DAY) = m" "date_of (w div DAY) = d" "w mod DAY div 3600000 = 0"
      "w mod DAY mod 3600000 div 60000 = 0" "w mod DAY mod 60000 div 1000 = 0"
    unfolding sameLocalMidnight_def wall_parts_def Let_def local_parts.simps by blast+
  have "w div DAY = make_day y m d" using date_of_day [of "w div DAY"] unfolding e by simp
  with parts_sum [OF assms(1)] show "w = make_day y m d * DAY" unfolding e by simp
next
  assume "w = make_day y m d * DAY"
  then show "sameLocalMidnight (wall_parts w) y m d"
    using day_of_date [OF assms(2)] by (simp add: wall_parts_def Let_def sameLocalMidnight_def DAY_def)
qed

lemma key_wall: "localDateKey (wall_parts w) = date_key (w div DAY)"
  by (simp add: localDateKey_def wall_parts_def Let_def date_key_def)

lemma date_key_le: "date_key n \<le> date_key k \<longleftrightarrow> n \<le> k"
  using date_key_less [of n k] date_key_less [of k n] by (cases n k rule: linorder_cases) auto

lemma key_reached: "date_key n \<le> localDateKey (wall_parts w) \<longleftrightarrow> n * DAY \<le> w"
proof -
  have "n \<le> w div DAY \<longleftrightarrow> n * DAY \<le> w" using div_bounds [of DAY w] unfolding DAY_def by linarith
  then show ?thesis by (simp add: key_wall date_key_le)
qed

lemma key_of_date: "is_date y m d \<Longrightarrow> date_key (make_day y m d) = y * 10000 + m * 100 + d"
  by (simp add: date_key_def day_of_date)

section \<open>The first instant of a date\<close>

definition local_time :: "(int \<Rightarrow> int) \<Rightarrow> int \<Rightarrow> int" where
  "local_time off t = t + off t"

text \<open>\<open>r\<close> is the first whole second at which the local date has reached the day \<open>n\<close>.\<close>

definition starts_day :: "(int \<Rightarrow> local_parts) \<Rightarrow> int \<Rightarrow> int \<Rightarrow> bool" where
  "starts_day parts n r \<longleftrightarrow> 1000 dvd r \<and> date_key n \<le> localDateKey (parts r) \<and> (\<forall>t < r. localDateKey (parts t) < date_key n)"

lemma starts_day_unique: "starts_day parts n r \<Longrightarrow> starts_day parts n s \<Longrightarrow> r = s"
  by (cases r s rule: linorder_cases) (auto simp: starts_day_def dest: leD)

lemma clock_key:
  assumes "local_clock parts off"
  shows "date_key n \<le> localDateKey (parts t) \<longleftrightarrow> n * DAY \<le> local_time off (whole_second t)"
  using assms by (simp add: local_clock_def key_reached local_time_def)

lemma starts_dayI:
  assumes "local_clock parts off" "1000 dvd r" "n * DAY \<le> local_time off r" "\<And>t. 1000 dvd t \<Longrightarrow> t < r \<Longrightarrow> local_time off t < n * DAY"
  shows "starts_day parts n r"
proof -
  have "localDateKey (parts t) < date_key n" if "t < r" for t
  proof -
    have "whole_second t < r" using that whole_second_props(2) [of t] by linarith
    from assms(4) [OF whole_second_props(1) this] clock_key [OF assms(1), of n t] show ?thesis by linarith
  qed
  then show ?thesis using assms(2,3) clock_key [OF assms(1), of n r] by (simp add: starts_day_def)
qed

lemma starts_near:
  assumes "local_clock parts off" "starts_day parts n r"
  shows "n * DAY - 14 * HOUR \<le> r \<and> r \<le> n * DAY + 14 * HOUR"
proof
  have off: "\<bar>off t\<bar> \<le> 14 * HOUR" for t using assms(1) by (simp add: local_clock_def)
  have r: "1000 dvd r" "n * DAY \<le> local_time off r" using assms(2) clock_key [OF assms(1), of n r] by (auto simp: starts_day_def)
  then show "n * DAY - 14 * HOUR \<le> r" using off [of r] by (simp add: local_time_def)
  show "r \<le> n * DAY + 14 * HOUR"
  proof (rule ccontr)
    assume "\<not> r \<le> n * DAY + 14 * HOUR"
    then have "localDateKey (parts (n * DAY + 14 * HOUR)) < date_key n" using assms(2) by (simp add: starts_day_def)
    moreover have "1000 dvd n * DAY + 14 * HOUR" by (simp add: DAY_def HOUR_def)
    ultimately show False using clock_key [OF assms(1), of n "n * DAY + 14 * HOUR"] off [of "n * DAY + 14 * HOUR"] by (simp add: local_time_def)
  qed
qed

lemma search_returns:
  assumes "local_clock parts off" "1000 dvd lo" "1000 dvd hi" "lo < hi"
    and "\<And>t. 1000 dvd t \<Longrightarrow> t \<le> lo \<Longrightarrow> local_time off t < n * DAY" "n * DAY \<le> local_time off hi"
    and "\<And>s t. 1000 dvd s \<Longrightarrow> 1000 dvd t \<Longrightarrow> lo \<le> s \<Longrightarrow> s \<le> t \<Longrightarrow> t \<le> hi \<Longrightarrow> n * DAY \<le> local_time off s \<Longrightarrow> n * DAY \<le> local_time off t"
  shows "\<exists>r. first_instant parts (date_key n) lo hi = Some r \<and> starts_day parts n r"
  using assms(2-)
proof (induction "nat (hi - lo)" arbitrary: lo hi rule: less_induct)
  case less
  obtain a b where ab: "lo = 1000 * a" "hi = 1000 * b" using less.prems(1,2) by (auto elim!: dvdE)
  show ?case
  proof (cases "hi - lo > 1000")
    case False
    then have b: "hi = lo + 1000" using less.prems(3) unfolding ab by simp
    have "t \<le> lo" if "1000 dvd t" "t < hi" for t using that b unfolding ab by (elim dvdE) simp
    then have "starts_day parts n hi" using less.prems by (intro starts_dayI [OF assms(1)]) auto
    with False show ?thesis by (subst first_instant.simps) simp
  next
    case True
    define mid where "mid = whole_second ((lo + hi) div 2)"
    have "1000 * (a + 1) < 1000 * b" using True unfolding ab by (simp only: distrib_left)
    then have "a + 2 \<le> b" by simp
    then have "lo + 1000 \<le> (lo + hi) div 2" "(lo + hi) div 2 < hi" unfolding ab by simp_all
    then have mid: "lo < mid" "mid < hi" "1000 dvd mid"
      using whole_second_props [of "(lo + hi) div 2"] unfolding mid_def by linarith+
    have unfold': "first_instant parts (date_key n) lo hi = (if date_key n \<le> localDateKey (parts mid) then first_instant parts (date_key n) lo mid
        else first_instant parts (date_key n) mid hi)"
      using True by (subst first_instant.simps) (simp add: Let_def mid_def whole_second_def)
    have key: "date_key n \<le> localDateKey (parts mid) \<longleftrightarrow> n * DAY \<le> local_time off mid" using clock_key [OF assms(1), of n mid] mid(3) by simp
    show ?thesis
    proof (cases "n * DAY \<le> local_time off mid")
      case True
      have "\<exists>r. first_instant parts (date_key n) lo mid = Some r \<and> starts_day parts n r"
      proof (rule less.hyps [OF _ less.prems(1) mid(3) mid(1) less.prems(4) True])
        show "nat (mid - lo) < nat (hi - lo)" using mid by simp
        show "n * DAY \<le> local_time off t" if "1000 dvd s" "1000 dvd t" "lo \<le> s" "s \<le> t" "t \<le> mid" "n * DAY \<le> local_time off s" for s t
          using less.prems(6) [of s t] that mid(2) by simp
      qed
      with True show ?thesis unfolding unfold' key by simp
    next
      case False
      have early: "local_time off t < n * DAY" if "1000 dvd t" "t \<le> mid" for t
      proof (cases "t \<le> lo")
        case False
        with that mid less.prems(6) [of t mid] \<open>\<not> n * DAY \<le> local_time off mid\<close> show ?thesis by force
      qed (use that less.prems(4) in blast)
      have "\<exists>r. first_instant parts (date_key n) mid hi = Some r \<and> starts_day parts n r"
      proof (rule less.hyps [OF _ mid(3) less.prems(2) mid(2) early less.prems(5)])
        show "nat (hi - mid) < nat (hi - lo)" using mid by simp
        show "n * DAY \<le> local_time off t" if "1000 dvd s" "1000 dvd t" "mid \<le> s" "s \<le> t" "t \<le> hi" "n * DAY \<le> local_time off s" for s t
          using less.prems(6) [of s t] that mid(1) by simp
      qed
      with False show ?thesis unfolding unfold' key by simp
    qed
  qed
qed

section \<open>Local midnights\<close>

lemma year_back: "n - 365 \<le> k \<Longrightarrow> year_of n - 1 \<le> year_of k"
proof (rule ccontr)
  assume k: "n - 365 \<le> k" "\<not> year_of n - 1 \<le> year_of k"
  then have "days_from_year (year_of k + 1) + 365 \<le> days_from_year (year_of n)" by (intro year_mono) simp
  with k(1) year_range [of n] year_range [of k] show False by linarith
qed

lemma offset_is:
  assumes "local_clock parts off" "1000 dvd t" "n * DAY - 12 * HOUR \<le> t" "100 < year_of n"
  shows "offsetMs parts t = off t"
proof -
  have off: "\<bar>off t\<bar> \<le> 14 * HOUR" "1000 dvd off t" "parts t = wall_parts (t + off t)" using assms(1,2) by (simp_all add: local_clock_def)
  have "(n - 2) * DAY \<le> t + off t" using off(1) assms(3) by (simp add: DAY_def HOUR_def)
  then have "n - 2 \<le> (t + off t) div DAY" using zdiv_mono1 [of "(n - 2) * DAY" "t + off t" DAY] by (simp add: DAY_def)
  then have "year_of n - 1 \<le> year_of ((t + off t) div DAY)" by (intro year_back) simp
  with assms(4) have "year_of ((t + off t) div DAY) \<notin> {0..99}" by simp
  from wall_parts_utc [OF _ this] off assms(2) show ?thesis by (simp add: offsetMs_def Let_def flip: whole_second_def)
qed

lemma midnight_found:
  assumes clock: "local_clock parts off" and once: "changes_once off (make_day y m d * DAY)" and date: "is_date y m d" and "100 < y"
  shows "\<exists>r. zonedMidnightToUtc parts y m d = Some r \<and> starts_day parts (make_day y m d) r"
proof -
  define n where "n = make_day y m d"
  define w where "w = n * DAY"
  have w: "1000 dvd w" "date_utc y m d 0 0 0 = w" using assms(4) by (simp_all add: w_def n_def DAY_def date_utc_def)
  have bound: "\<bar>off t\<bar> \<le> 14 * HOUR" "1000 dvd off t" for t using clock by (simp_all add: local_clock_def)
  obtain c a b where change: "\<And>t. w - 16 * HOUR \<le> t \<Longrightarrow> t \<le> w + 16 * HOUR \<Longrightarrow> off t = (if t < c then a else b)"
    and small: "a = b \<or> \<bar>a\<bar> \<le> 12 * HOUR \<and> \<bar>b\<bar> \<le> 12 * HOUR"
    using once unfolding changes_once_def w_def n_def by blast
  have hour: "0 < HOUR" "1000 dvd 12 * HOUR" "1000 dvd 16 * HOUR" by (simp_all add: HOUR_def)
  define cs where "cs = filter (\<lambda>t. sameLocalMidnight (parts t) y m d) [w - off (w - 12 * HOUR), w - off (w + 12 * HOUR), w - off w]"
  have in_cs: "t \<in> set cs \<longleftrightarrow> t \<in> {w - off (w - 12 * HOUR), w - off (w + 12 * HOUR), w - off w} \<and> local_time off t = w" for t
  proof -
    have "sameLocalMidnight (parts t) y m d \<longleftrightarrow> local_time off t = w" if "1000 dvd t"
      using wall_midnight [OF _ date, of "t + off t"] clock bound that by (simp add: local_clock_def local_time_def w_def n_def)
    then show ?thesis using w(1) bound by (auto simp: cs_def)
  qed
  have samples: "offsetMs parts (w - 12 * HOUR) = off (w - 12 * HOUR)" "offsetMs parts (w + 12 * HOUR) = off (w + 12 * HOUR)" "offsetMs parts w = off w"
    using w(1) hour assms(4) day_of_date [OF date] by (intro offset_is [OF clock, where n = n]; simp add: w_def n_def)+
  have code: "zonedMidnightToUtc parts y m d = (if cs \<noteq> [] then Some (Min (set cs)) else first_instant parts (date_key n) (w - 16 * HOUR) (w + 16 * HOUR))"
    unfolding zonedMidnightToUtc_def Let_def w(2) samples cs_def [symmetric] by (simp add: n_def key_of_date [OF date])
  have earlier: "w - a \<in> set cs" if s: "w - 16 * HOUR \<le> s" "s \<le> w + 16 * HOUR" "s < c" "w \<le> local_time off s" and "a \<noteq> b" for s
  proof -
    have "off s = a" using change [OF s(1,2)] s(3) by simp
    then have before: "w - a < c" "\<bar>a\<bar> \<le> 12 * HOUR" using s(3,4) small that(5) by (auto simp: local_time_def)
    then have "off (w - 12 * HOUR) = a" "off (w - a) = a" using change [of "w - 12 * HOUR"] change [of "w - a"] hour(1) by auto
    then show ?thesis by (simp add: in_cs local_time_def)
  qed
  show ?thesis
  proof (cases "cs = []")
    case False
    then have r: "Min (set cs) \<in> set cs" "\<And>t. t \<in> set cs \<Longrightarrow> Min (set cs) \<le> t" by simp_all
    define r where "r = Min (set cs)"
    have in_r: "r \<in> set cs" "\<And>t. t \<in> set cs \<Longrightarrow> r \<le> t" using r by (simp_all add: r_def)
    then have at: "local_time off r = w" "1000 dvd r" using in_cs w(1) bound by auto
    have near: "w - 14 * HOUR \<le> r" "r \<le> w + 14 * HOUR" using at(1) bound(1) [of r] by (auto simp: local_time_def)
    have "local_time off t < w" if "t < r" for t
    proof (rule ccontr)
      assume "\<not> local_time off t < w"
      then have late: "w \<le> local_time off t" by simp
      then have t: "w - 16 * HOUR \<le> t" "t \<le> w + 16 * HOUR" using bound(1) [of t] near that hour(1) by (auto simp: local_time_def)
      have off_r: "off r = (if r < c then a else b)" using near hour(1) by (intro change) auto
      show False
      proof (cases "a = b \<or> t \<ge> c")
        case True
        then have "off t = off r" using change [OF t] off_r that by auto
        then show False using late at(1) that by (simp add: local_time_def)
      next
        case False
        then have "w - a \<in> set cs" "off t = a" using earlier [OF t _ late] change [OF t] by auto
        then show False using in_r(2) [of "w - a"] late that by (simp add: local_time_def)
      qed
    qed
    then have "starts_day parts n r" using at by (intro starts_dayI [OF clock]) (simp_all add: w_def)
    with False show ?thesis unfolding code r_def n_def by simp
  next
    case True
    have "\<exists>r. first_instant parts (date_key n) (w - 16 * HOUR) (w + 16 * HOUR) = Some r \<and> starts_day parts n r"
    proof (rule search_returns [OF clock])
      show "local_time off t < n * DAY" if "t \<le> w - 16 * HOUR" for t using that bound(1) [of t] hour(1) by (simp add: local_time_def w_def)
      show "n * DAY \<le> local_time off (w + 16 * HOUR)" using bound(1) [of "w + 16 * HOUR"] hour(1) by (simp add: local_time_def w_def)
      fix s t assume st: "w - 16 * HOUR \<le> s" "s \<le> t" "t \<le> w + 16 * HOUR" "n * DAY \<le> local_time off s"
      then have s: "s \<le> w + 16 * HOUR" "w - 16 * HOUR \<le> t" "w \<le> local_time off s" by (simp_all add: w_def)
      have "s \<ge> c \<or> a = b" using earlier [OF st(1) s(1) _ s(3)] True by (cases "s < c") auto
      then have "off t = off s" using change [OF st(1) s(1)] change [OF s(2) st(3)] st(2) by auto
      then show "n * DAY \<le> local_time off t" using st(2,4) by (simp add: local_time_def)
    qed (use w hour in auto)
    with True show ?thesis unfolding code n_def by simp
  qed
qed

end
