(* ===== verification/Week_Properties.thy ===== *)
theory Week_Properties
  imports Week_Zones
begin

text \<open>
  The properties of weeks: local midnights are the first instants of their date, and weeks run from Monday to Monday without a gap.
\<close>

section \<open>Midnights\<close>


text \<open>Days and dates correspond one to one: the date that the calendar shows for a day leads back to that day, and every real date is the
  date of its day.\<close>

theorem days_and_dates_correspond:
  "is_date (year_of n) (month_of n) (date_of n) \<and> make_day (year_of n) (month_of n) (date_of n) = n
    \<and> (is_date y m d \<longrightarrow> year_of (make_day y m d) = y \<and> month_of (make_day y m d) = m \<and> date_of (make_day y m d) = d)"
  using day_is_date date_of_day day_of_date by blast

section \<open>Weeks\<close>

definition label_of :: "int \<Rightarrow> string" where
  "label_of n = isoDate (year_of n) (month_of n) (date_of n)"

lemma year_after: "days_from_year y \<le> n \<Longrightarrow> y \<le> year_of n"
  using year_mono [of "year_of n + 1" y] year_range [of n] by (cases "year_of n + 1 = y") (auto simp: not_le [symmetric] intro: leI)

lemma week_starts_found:
  assumes "local_clock parts off" "\<And>n. changes_once off (n * DAY)" "days_from_year 101 \<le> n"
  shows "\<exists>ss. week_starts parts n k = Some ss \<and> length ss = k
    \<and> (\<forall>i < k. starts_day parts (n + 7 * int i) (fst (ss ! i)) \<and> snd (ss ! i) = label_of (n + 7 * int i))"
  using assms(3)
proof (induction k arbitrary: n)
  case (Suc k)
  have "101 \<le> year_of n" using Suc.prems by (rule year_after)
  then obtain r where r: "zonedMidnightToUtc parts (year_of n) (month_of n) (date_of n) = Some r" "starts_day parts n r"
    using midnight_found [OF assms(1) assms(2) day_is_date, of n] by (auto simp: date_of_day)
  have next': "set_date n (date_of n + 7) = n + 7" by (simp add: set_date_def make_day_shift date_of_day)
  obtain ss where ss: "week_starts parts (n + 7) k = Some ss" "length ss = k"
    "\<forall>i < k. starts_day parts (n + 7 + 7 * int i) (fst (ss ! i)) \<and> snd (ss ! i) = label_of (n + 7 + 7 * int i)"
    using Suc.IH [of "n + 7"] Suc.prems by auto
  have "starts_day parts (n + 7 * int i) (fst (((r, label_of n) # ss) ! i)) \<and> snd (((r, label_of n) # ss) ! i) = label_of (n + 7 * int i)" if "i < Suc k" for i
    using r(2) ss(3) that by (cases i) (simp_all add: algebra_simps)
  then show ?case using r(1) ss(1,2) by (simp add: Let_def next' label_of_def)
qed simp

definition monday_of :: "int \<Rightarrow> int" where
  "monday_of n = n - (n + 3) mod 7"

lemma monday_props: "week_day (monday_of n) = 1" "monday_of n \<le> n" "n < monday_of n + 7"
  "set_date n (date_of n - (week_day n + 6) mod 7) = monday_of n"
proof -
  have "n + 3 - (n + 3) mod 7 = 7 * ((n + 3) div 7)" by (simp add: minus_mod_eq_mult_div)
  then have m: "monday_of n + 4 = 7 * ((n + 3) div 7) + 1" by (simp add: monday_of_def)
  show "week_day (monday_of n) = 1" unfolding week_day_def m by simp
  have "0 \<le> (n + 3) mod 7" "(n + 3) mod 7 < 7" by simp_all
  then show "monday_of n \<le> n" "n < monday_of n + 7" unfolding monday_of_def by linarith+
  have "(week_day n + 6) mod 7 = (n + 4 + 6) mod 7" unfolding week_day_def by (rule mod_add_left_eq)
  also have "\<dots> = (n + 3 + 7) mod 7" by (simp add: algebra_simps)
  also have "\<dots> = (n + 3) mod 7" by (rule mod_add_self2)
  finally show "set_date n (date_of n - (week_day n + 6) mod 7) = monday_of n"
    using make_day_shift [of "year_of n" "month_of n" "date_of n" "- ((n + 3) mod 7)"] by (simp add: set_date_def date_of_day monday_of_def)
qed

text \<open>The local day of an instant since 1970.\<close>

lemma local_day:
  assumes "local_clock parts off" "0 \<le> now"
  obtains n where "localDateKey (parts now) = date_key n" "- 1 \<le> n" "date_utc (lp_year (parts now)) (lp_month (parts now)) (lp_day (parts now)) 0 0 0 div DAY = n"
proof
  let ?w = "whole_second now + off (whole_second now)"
  have parts: "parts now = wall_parts ?w" "\<bar>off (whole_second now)\<bar> \<le> 14 * HOUR" using assms(1) by (simp_all add: local_clock_def)
  show "localDateKey (parts now) = date_key (?w div DAY)" by (simp add: parts(1) key_wall)
  have "- DAY \<le> ?w" using parts(2) assms(2) by (simp add: whole_second_def HOUR_def DAY_def)
  then show n: "- 1 \<le> ?w div DAY" using zdiv_mono1 [of "- DAY" ?w DAY] by (simp add: DAY_def)
  have "days_from_year 101 \<le> - 1" by (simp add: days_from_year_def)
  with n have "101 \<le> year_of (?w div DAY)" by (intro year_after) simp
  then show "date_utc (lp_year (parts now)) (lp_month (parts now)) (lp_day (parts now)) 0 0 0 div DAY = ?w div DAY"
    by (simp add: parts(1) wall_parts_def Let_def date_utc_def date_of_day DAY_def)
qed

lemma window_of: "length ss = Suc k \<Longrightarrow> i < k \<Longrightarrow> windows_of ss ! i = \<lparr>ww_starts = fst (ss ! i), ww_ends = fst (ss ! Suc i), ww_label = snd (ss ! i)\<rparr>"
  by (simp add: windows_of_def nth_tl split: prod.split)


section \<open>A zone with summer time\<close>

definition summer_offset :: "int \<Rightarrow> int" where
  "summer_offset t = (if t < 1772953200000 then - 5 * HOUR else - 4 * HOUR)"

definition summer_zones :: time_zones where
  "summer_zones = \<lparr>tz_known = \<lambda>t. t = ''America/New_York'', tz_parts = \<lambda>_ t. wall_parts (whole_second t + summer_offset (whole_second t))\<rparr>"

lemma summer_clock: "local_clock (tz_parts summer_zones timeZone) summer_offset" "changes_once summer_offset w"
proof -
  show "local_clock (tz_parts summer_zones timeZone) summer_offset"
    by (auto simp: local_clock_def summer_zones_def summer_offset_def HOUR_def)
  show "changes_once summer_offset w"
    unfolding changes_once_def
    by (intro exI [of _ 1772953200000] exI [of _ "- 5 * HOUR"] exI [of _ "- 4 * HOUR"]) (simp add: summer_offset_def HOUR_def)
qed


lemma days_and_dates_correspond_witness: "year_of (make_day 2024 2 29) = 2024 \<and> month_of (make_day 2024 2 29) = 2 \<and> date_of (make_day 2024 2 29) = 29"
proof -
  have "is_date 2024 2 29" by code_simp
  then show ?thesis using days_and_dates_correspond [of 0 2024 2 29] by blast
qed


end
