(* ===== verification/Chain_Amounts.thy ===== *)
theory Chain_Amounts
  imports Prelude
begin

text \<open>
  Amounts of chain assets (\<open>src/modules/crypto/registry.ts\<close>): atomic units, US cents and decimal texts, all exact, with the round trips
  between them.
\<close>

section \<open>Conversions\<close>

datatype amount_error = Too_few_decimals | Negative_exponent | Invalid_decimal | Too_many_places

definition usdMinorToAtomic :: "int \<Rightarrow> int \<Rightarrow> amount_error + int" where
  "usdMinorToAtomic minor decimals = (if decimals < 2 then Inl Too_few_decimals else Inr (minor * 10 ^ nat (decimals - 2)))"

definition atomicToUsdMinor :: "int \<Rightarrow> int \<Rightarrow> amount_error + int option" where
  "atomicToUsdMinor atomic decimals =
     (if decimals - 2 < 0 then Inl Negative_exponent
      else let scale = 10 ^ nat (decimals - 2) in Inr (if atomic mod scale = 0 then Some (atomic div scale) else None))"

definition zeros :: "nat \<Rightarrow> string" where
  "zeros n = replicate n (CHR ''0'')"

definition padEnd :: "nat \<Rightarrow> string \<Rightarrow> string" where
  "padEnd n t = t @ zeros (n - length t)"

text \<open>\<open>fraction.replace(/0+$/, '')\<close>\<close>

definition drop_zeros :: "string \<Rightarrow> string" where
  "drop_zeros t = rev (dropWhile (\<lambda>c. c = CHR ''0'') (rev t))"

definition formatAtomic :: "int \<Rightarrow> nat \<Rightarrow> string" where
  "formatAtomic atomic decimals =
     (let negative = atomic < 0;
          digits = padStart (decimals + 1) (show_int (if negative then - atomic else atomic));
          whole = (let t = take (length digits - decimals) digits in if t = [] then ''0'' else t);
          fraction = drop_zeros (if decimals \<noteq> 0 then drop (length digits - decimals) digits else []);
          shown = (if length fraction < 2 \<and> decimals \<ge> 2 then padEnd 2 fraction else fraction) in
      (if negative then ''-'' else []) @ whole @ (if shown \<noteq> [] then CHR ''.'' # shown else []))"

text \<open>The match of \<open>/^(\d+)(?:\.(\d+))?$/\<close>: the digits before the point and those after it.\<close>

definition decimal_match :: "string \<Rightarrow> (string \<times> string) option" where
  "decimal_match t =
     (let whole = takeWhile is_digit t; rest = dropWhile is_digit t in
      if whole = [] then None
      else case rest of
        [] \<Rightarrow> Some (whole, [])
      | c # fraction \<Rightarrow> if c = CHR ''.'' \<and> fraction \<noteq> [] \<and> list_all is_digit fraction then Some (whole, fraction) else None)"

definition parseDecimalToAtomic :: "string \<Rightarrow> nat \<Rightarrow> amount_error + int" where
  "parseDecimalToAtomic value decimals =
     (case decimal_match (js_trim value) of
        None \<Rightarrow> Inl Invalid_decimal
      | Some (whole, fraction) \<Rightarrow>
          if length fraction > decimals then Inl Too_many_places
          else Inr (int (read_nat whole) * 10 ^ decimals + int (read_nat (padEnd decimals fraction))))"

section \<open>Decimal texts\<close>

lemma drop_zeros_split: "\<exists>k. t = drop_zeros t @ zeros k \<and> length t = length (drop_zeros t) + k"
proof (induction t rule: rev_induct)
  case (snoc c t)
  show ?case
  proof (cases "c = CHR ''0''")
    case True
    with snoc show ?thesis by (auto simp: drop_zeros_def zeros_def replicate_append_same [symmetric])
  qed (auto simp: drop_zeros_def zeros_def)
qed (simp add: drop_zeros_def zeros_def)

lemma drop_zeros_digits: "list_all P t \<Longrightarrow> list_all P (drop_zeros t)"
  using drop_zeros_split [of t] by (metis list_all_append)

lemma dot_facts: "\<not> js_space (CHR ''.'')" "\<not> is_digit (CHR ''.'')" "is_digit (CHR ''0'')"
  by (simp_all add: js_space_def is_digit_def code_of_def)

lemma padded_digits: "list_all is_digit (padStart n (show_nat k))" "n \<le> length (padStart n t)" "read_nat (padStart n t) = read_nat t"
  using show_nat_digits [of k] read_nat_zeros_append [of "n - length t" t] dot_facts(3)
  by (auto simp: padStart_def zeros_def list_all_iff set_replicate_conv_if)

lemma match_text:
  assumes "list_all is_digit w" "list_all is_digit f" "w \<noteq> []"
  shows "decimal_match (js_trim (w @ (if f \<noteq> [] then CHR ''.'' # f else []))) = Some (w, f)"
proof -
  let ?t = "w @ (if f \<noteq> [] then CHR ''.'' # f else [])"
  have "js_trim ?t = ?t" using assms(1,2) dot_facts(1) by (intro js_trim_no_space) (auto simp: list_all_iff dest: digit_not_space)
  moreover have "takeWhile is_digit ?t = w" "dropWhile is_digit ?t = (if f \<noteq> [] then CHR ''.'' # f else [])"
    using assms(1) dot_facts(2) by (auto simp: list_all_iff takeWhile_append2 dropWhile_append2)
  ultimately show ?thesis using assms by (simp add: decimal_match_def Let_def split: list.split)
qed

text \<open>The text of an amount, with its fraction shortened, reads back as the amount.\<close>

lemma format_reads:
  assumes "0 \<le> atomic"
  shows "parseDecimalToAtomic (formatAtomic atomic decimals) decimals = Inr atomic"
proof -
  define d where "d = padStart (decimals + 1) (show_nat (nat atomic))"
  define w where "w = take (length d - decimals) d"
  define f where "f = drop (length d - decimals) d"
  define g where "g = (if length (drop_zeros f) < 2 \<and> decimals \<ge> 2 then padEnd 2 (drop_zeros f) else drop_zeros f)"
  have d: "list_all is_digit d" "decimals + 1 \<le> length d" "read_nat d = nat atomic" "d = w @ f"
    unfolding d_def w_def f_def using padded_digits by simp_all
  have digits: "list_all is_digit w" "list_all is_digit f"
    using d(1) unfolding w_def f_def by (auto simp: list_all_iff dest: in_set_takeD in_set_dropD)
  have len: "length f = decimals" "w \<noteq> []" using d(2) unfolding f_def w_def by auto
  obtain k where k: "f = drop_zeros f @ zeros k" "length f = length (drop_zeros f) + k" using drop_zeros_split [of f] by blast
  have g: "padEnd decimals g = f" "length g \<le> decimals"
  proof -
    have "\<exists>j. g = drop_zeros f @ zeros j \<and> length (drop_zeros f) + j \<le> decimals"
    proof (cases "length (drop_zeros f) < 2 \<and> decimals \<ge> 2")
      case True
      then show ?thesis by (intro exI [of _ "2 - length (drop_zeros f)"]) (simp add: g_def padEnd_def)
    next
      case False
      then show ?thesis using k len(1) by (intro exI [of _ 0]) (auto simp: g_def zeros_def)
    qed
    then obtain j where j: "g = drop_zeros f @ zeros j" "length (drop_zeros f) + j \<le> decimals" by blast
    have "zeros j @ zeros (k - j) = zeros k" using j(2) k(2) len(1) by (simp add: zeros_def replicate_add [symmetric])
    then show "padEnd decimals g = f" using j k len(1) by (simp add: padEnd_def zeros_def)
    show "length g \<le> decimals" using j by (simp add: zeros_def)
  qed
  have text_digits: "padStart (decimals + 1) (show_int (if atomic < 0 then - atomic else atomic)) = d" using assms by (simp add: d_def show_int_def)
  have fraction: "(if decimals \<noteq> 0 then f else []) = f" using len(1) by (cases f) auto
  have "list_all is_digit g" using drop_zeros_digits [OF digits(2)] dot_facts(3) by (auto simp: g_def padEnd_def zeros_def list_all_iff)
  moreover have "formatAtomic atomic decimals = w @ (if g \<noteq> [] then CHR ''.'' # g else [])"
    unfolding formatAtomic_def Let_def text_digits w_def [symmetric] f_def [symmetric] fraction g_def [symmetric] using assms len(2) by simp
  ultimately have "parseDecimalToAtomic (formatAtomic atomic decimals) decimals = Inr (int (read_nat w) * 10 ^ decimals + int (read_nat f))"
    using match_text [OF digits(1), of g] len(2) g by (simp add: parseDecimalToAtomic_def)
  also have "int (read_nat w) * 10 ^ decimals + int (read_nat f) = int (read_nat d)" by (simp add: d(4) read_nat_append len(1))
  finally show ?thesis using d(3) assms by simp
qed

text \<open>C38. Amounts of chain assets convert exactly: the decimal text of an amount that is not negative reads back as that amount whatever the asset's
  decimals, though trailing zeros are dropped from it; and for assets with at least two decimals, US cents convert to atomic units and
  back to the same cents, and no other amount of atomic units converts to those cents.\<close>

theorem chain_amounts_read_back:
  shows "(0 \<le> atomic \<longrightarrow> parseDecimalToAtomic (formatAtomic atomic decimals) decimals = Inr atomic)
    \<and> (2 \<le> d \<longrightarrow> (usdMinorToAtomic minor d = Inr a \<longleftrightarrow> atomicToUsdMinor a d = Inr (Some minor)))"
proof (intro conjI impI)
  show "usdMinorToAtomic minor d = Inr a \<longleftrightarrow> atomicToUsdMinor a d = Inr (Some minor)" if "2 \<le> d"
    using that by (auto simp: usdMinorToAtomic_def atomicToUsdMinor_def Let_def)
qed (rule format_reads)

lemma chain_amounts_read_back_witness:
  "formatAtomic 1500 3 = ''1.50'' \<and> parseDecimalToAtomic ''1.50'' 3 = Inr 1500 \<and> atomicToUsdMinor 1500 3 = Inr (Some 150)"
proof -
  have shown: "formatAtomic 1500 3 = ''1.50''" by code_simp
  have cents: "usdMinorToAtomic 150 3 = Inr 1500" by (simp add: usdMinorToAtomic_def)
  from chain_amounts_read_back [of 1500 3 3 150 1500] shown cents show ?thesis by simp
qed

end
