(* ===== verification/Spec2Isabelle.thy ===== *)
theory Spec2Isabelle
  imports Order_Properties Provider_Status Dispatch_Properties Item_Properties Money_Policies Pools Envelope_Properties Payout_Properties Payment_Guarantees
    Week_Properties Chain_Amounts
begin

text \<open>
  A model of the server of a marketplace for creators' capacity (\<open>src/\<close>: a Next.js application over PostgreSQL), with
  theorems on the parts that move money, answer commands and send messages. All paths are relative to \<open>src/\<close>.

  \<^bold>\<open>The program.\<close> A signed-in account posts a command (\<open>src/app/api/commands/route.ts\<close>). The envelope decides whether the
  account may run it, opens a transaction, answers a repeated request from the table of finished commands, and otherwise
  calls the handler of a domain module (\<open>src/modules/*/commands.ts\<close>). Handlers read the form with \<open>src/lib/commands.ts\<close>,
  change tables whose checks and triggers (\<open>drizzle/*.sql\<close>) reject what must not happen, and record journal entries.
  Money moves through a payment provider (\<open>src/modules/payments/providers.ts\<close>, with a deterministic mock), through an
  internal double-entry ledger (item auctions), through pools of assets (\<open>src/modules/pools\<close>), or through an escrow on a
  chain (\<open>src/modules/crypto\<close>, with a devnet simulator). Clocks (\<open>src/modules/items/jobs.ts\<close> and others) settle what is due.
  Messages go out through a dispatcher that sends each at most once (\<open>src/modules/notifications\<close>).

  \<^bold>\<open>The theories.\<close>
  \<^item> \<open>Prelude\<close>: errors as sums, JavaScript maps as association lists (an interface \<open>keyed_store\<close> with totals, interpreted on
    them), strings. \<open>Js_Values\<close>: untyped values and JSON strings. \<open>Actions\<close>: methods that change a state and may throw,
    with weakest preconditions (collection \<open>wp\<close>) and \<open>keeps\<close>, the preservation of an invariant.
  \<^item> Payment provider (\<open>providers.ts\<close>): \<open>Provider_Types\<close> (records, capabilities, errors), \<open>Canonical\<close> (canonical request text
    and hash), \<open>Webhook\<close> (signatures and event bodies), \<open>Provider\<close> (journal, idempotency, injected failures),
    \<open>Provider_Ops\<close> (every method of the mock). \<open>Provider_Money\<close>, \<open>Provider_Safety\<close> and \<open>Provider_Replay\<close> hold the
    invariants of money, of transfers and of the operation journal; \<open>Provider_Properties\<close> and \<open>Provider_Status\<close> the properties.
  \<^item> Notifications (\<open>notifications/index.ts\<close>, \<open>store.ts\<close>): \<open>Notifications\<close> (catalogue and rendering), \<open>Notification_Rendering\<close>
    (what a rendered message contains), \<open>Dispatcher\<close> (a dispatch as an asynchronous job that yields at each await, claims
    as shared objects in a heap), \<open>Dispatch_Invariant\<close>, \<open>Dispatch_Safety\<close> (the interface \<open>notification_sink\<close>) and
    \<open>Dispatch_Properties\<close> (its interpretations on the local and the database sink, and the properties).
  \<^item> Commands: \<open>Commands\<close> (fields, error codes, roles, flags, audit, transactions), \<open>Moderation\<close> (the content policy's regular
    expressions on a backtracking matcher), \<open>Envelope\<close> (\<open>route.ts\<close>, \<open>account.ts\<close>, \<open>onboarding.ts\<close>) and
    \<open>Envelope_Properties\<close>.
  \<^item> Item auctions (\<open>items/commands.ts\<close>, \<open>items/jobs.ts\<close>): \<open>Items\<close> (tables, ledger, all commands and clocks), \<open>Item_Ledger\<close>
    (balances of accounts), \<open>Item_Changes\<close> (what each building block changes), \<open>Item_Safety\<close> (the invariant, kept by every
    command; collection \<open>step\<close>), \<open>Item_Reachable\<close> (steps and reachable states), \<open>Item_Scenario\<close> (a concrete market that the
    witnesses use) and \<open>Item_Properties\<close>.
  \<^item> \<open>Pools\<close> (\<open>pools/balances.ts\<close>, \<open>drizzle/0010\<close>): buckets and journal of a campaign pool, and the abstract machine of the
    journal that they implement. \<open>Money_Policies\<close> (\<open>payments/cost-policy.ts\<close>, \<open>publish/performance.ts\<close>).
  \<^item> Orders (\<open>orders/commands.ts\<close>, \<open>orders/amendments.ts\<close>, \<open>orders/lifecycle.ts\<close>, the decision of a dispute of \<open>admin/commands.ts\<close>,
    the automatic approval of \<open>jobs/index.ts\<close>, the request of a refund of \<open>payments/funding.ts\<close>): \<open>Order_Tables\<close> (tables, guards,
    lifecycle), \<open>Orders\<close> (the commands), \<open>Order_Safety\<close> (the invariant of the tables, lawful changes of an order and the collection
    \<open>ostep\<close>, how a statement passes a postcondition on), \<open>Order_Statements\<close>, \<open>Order_Commands\<close> and \<open>Order_Answers\<close> (every command keeps
    the one and makes only the other), \<open>Order_Properties\<close>.
  \<^item> Payments (\<open>payments/funding.ts\<close>, parts of \<open>jobs/index.ts\<close>, \<open>activateOrderClaim\<close>, \<open>fulfillDigitalOrder\<close>): \<open>Payment_Tables\<close> (the journal of
    operations, the inbox, the ledger, holds, disputes, refunds and costs beside the desk of orders, with their checks and triggers),
    \<open>Payments\<close> (requests to the provider, pools and chain), \<open>Recoveries\<close> (refunds after the release), \<open>Payment_Facts\<close> (the handlers
    of verified facts and the inbox), \<open>Payment_Jobs\<close> (the jobs), \<open>Payment_Frames\<close> (what every operation leaves in place: the relation
    \<open>evolves\<close>, by the interface \<open>state_frame\<close>), \<open>Payment_System\<close> (all entry points as one step function),
    \<open>Payment_Invariant\<close>, \<open>Payment_Safety\<close>, \<open>Payment_Requests\<close>, \<open>Payment_Outcomes\<close> and \<open>Payment_Runs\<close> (the invariant of orders and
    money, kept by every operation; collection \<open>safe\<close>), \<open>Payment_Scenario\<close> (a concrete purchase), \<open>Payment_Properties\<close> and
    \<open>Payment_Guarantees\<close>.
  \<^item> Chain (\<open>crypto/chain.ts\<close>, \<open>crypto/authorization.ts\<close>): \<open>Dev_Chain\<close> (the simulator and the authorizations) and
    \<open>Chain_Properties\<close> (its calls interleaved at their awaits).
  \<^item> Payouts on chain (\<open>crypto/payouts.ts\<close>, \<open>drizzle/0014\<close>): \<open>Payout_Queue\<close> (the tables, every operation, a dispatch as a list of
    phases), \<open>Payout_System\<close> (dispatches interleaved phase by phase, with crashes, and what every step leaves of the rows),
    \<open>Payout_Safety\<close> (the invariant of rows, phases and payments), \<open>Payout_Contract\<close> (the interface \<open>payout_contract\<close> of what pays a
    reference at most once, and the simulated chain as one), \<open>Payout_Effects\<close> (business effects), \<open>Payout_Batches\<close>,
    \<open>Payout_Scenario\<close> (concrete runs) and \<open>Payout_Properties\<close>. \<open>State_Frames\<close> holds the interface \<open>state_frame\<close> of relations that compose.
  \<^item> Weeks (\<open>capacity/weeks.ts\<close>): \<open>Weeks\<close> (the code and the calendar of \<open>Date\<close>), \<open>Week_Calendar\<close> (days and dates), \<open>Week_Zones\<close> (zones as
    UTC moved by an offset, and the search for local midnights) and \<open>Week_Properties\<close>. \<open>Chain_Amounts\<close> (\<open>crypto/registry.ts\<close>): exact
    conversions of amounts.

  \<^bold>\<open>How the code is modelled.\<close> A class or table is a record or an association list of records; a thrown error is \<open>Inl\<close>, and what a
  method changed before it threw stays changed unless a transaction (\<open>transact\<close>) drops it. A database constraint or trigger is a
  check that crashes or, where the code maps it, refuses. A call that awaits is split there, and other calls may run
  in between, where the object is shared by several requests (dispatcher, devnet). Amounts are integers, as \<open>bigint\<close> is; where a
  column or a safe integer bounds them, the bound is written out. Strings are lists of 8-bit code units. Error texts, log lines and
  page texts are dropped. Every recursion is structural or has a measure, and none uses fuel (the search for a local midnight is a
  \<open>partial_function\<close> that is shown to return; the number in \<open>run_job\<close> says after how many phases a
  dispatch is looked at, and theorems give the number it needs); an unbounded repetition of a
  pattern in \<open>Moderation\<close> tries as many rounds as the text has characters, which is enough because each round of these patterns
  consumes one.

  \<^bold>\<open>Parameters.\<close> SHA-256, HMAC, keccak, event encoding, recovery of a signer, the clock, \<open>Date.parse\<close>, \<open>URL\<close>, \<open>localeCompare\<close>, random
  identifiers and the handlers the envelope calls are arguments of the definitions. Theorems assume of them only what they say: that a
  hash does not collide, that an encoder of unsigned integers accepts no negative one, that a zone's wall clock is UTC moved by an offset.

  \<^bold>\<open>What is shown.\<close> The provider never commits more principal than was captured, pays only the funding's own payee and answers a
  repeated operation once; escrow and collateral accounts of item sales hold what is owed and pay out to who is due; pool buckets follow
  their journal; escrows of the simulated chain are never overdrawn and batches are atomic; the envelope runs only what the account may
  run, once; orders move along the transition matrix by party, work ends and deadlines move only by consent, and no order command crashes; a
  message is sent at most once and renders safely; the chain pays exactly the payouts that were queued, once, and a payout on record as
  confirmed was paid, while one on record as failed may have been; request texts and amounts read back uniquely; local midnights are the
  first instants of their date, and weeks run from Monday to Monday without a gap.

  \<^bold>\<open>Not modelled.\<close> Of payments: \<open>completeMockCheckout\<close> (a local stand-in for the provider's page), the loop that hands the mock's
  webhooks on (a webhook is a step of its own, with any event), the evidence snapshot of a card dispute, the ids and texts of cases,
  narrowing a job to one order and the order of its candidates by age. The platform's fee is 0, as the database requires. The effects of
  payouts on chain are modelled beside the payments, but no entry points of their runs; the outbox that calls them is modelled over any
  effects. The outbox calls the chain one call at a time: the simulator's own interleaving at awaits, which pays twice, is in
  \<open>Chain_Properties\<close>. The provider that
  the payments call is a parameter: any answers, not only those of the modelled mock. Orders are inserted by service auctions, requests,
  bookings and digital purchases, which are not modelled: a step inserts any new order with its hold. The pools' service, deposits
  on chain, the claims of a creator's capacity, the other jobs and the operator commands are tables and transactions of the same kind. Sign-in
  providers, storage, discovery, the read model, pages and scripts are input and output around them. The JSON-RPC reader and the EVM
  adapter only call a library. Concurrency of database transactions is not modelled: the code takes row or advisory locks, and a
  transaction is one step.
\<close>

end
